(* ===== verification/Prelude.thy ===== *)
theory Prelude
  imports "HOL-Library.Word"
begin

unbundle bit_operations_syntax

text \<open>
  Shared vocabulary of the development.

  \<^item> Octets are \<open>8 word\<close>; a bit stream is abstractly a \<open>bool list\<close>, most significant bit
    first, which is the order in which the PER code of \<open>vanetza-extension/asn1/support\<close>
    reads and writes.
  \<^item> \<open>bits_val\<close> reads a bit list as a big-endian number, \<open>nat_bits n v\<close> writes the \<open>n\<close> low
    bits of \<open>v\<close>; they are inverse to each other (\<open>bits_val_nat_bits\<close>, \<open>nat_bits_bits_val\<close>).
  \<^item> \<open>bytes_bits\<close> is the bit view of an octet string.
  \<^item> \<open>codec_simps\<close> and \<open>stream_intros\<close> collect the facts the component proofs share.
\<close>

named_theorems codec_simps
named_theorems stream_intros

type_synonym byte = "8 word"
type_synonym bits = "bool list"

section \<open>Big-endian numbers as bit lists\<close>

definition bits_val :: "bits \<Rightarrow> nat" where
  "bits_val bs = horner_sum of_bool 2 (rev bs)"

definition nat_bits :: "nat \<Rightarrow> nat \<Rightarrow> bits" where
  "nat_bits n v = map (bit v) (rev [0..<n])"

lemma bits_val_Nil [simp]: "bits_val [] = 0"
  by (simp add: bits_val_def)

lemma length_nat_bits [simp]: "length (nat_bits n v) = n"
  by (simp add: nat_bits_def)

lemma nth_nat_bits [simp]: "i < n \<Longrightarrow> nat_bits n v ! i = bit v (n - Suc i)"
  by (simp add: nat_bits_def rev_nth)

lemma nat_bits_0 [simp]: "nat_bits 0 v = []"
  by (simp add: nat_bits_def)

lemma bit_bits_val: "bit (bits_val bs) i \<longleftrightarrow> i < length bs \<and> bs ! (length bs - Suc i)"
  by (auto simp: bits_val_def bit_horner_sum_bit_iff rev_nth)

lemma bits_val_nat_bits: "bits_val (nat_bits n v) = take_bit n v"
  by (rule bit_eqI) (auto simp: bit_bits_val bit_take_bit_iff)

lemma nat_bits_bits_val: "nat_bits (length bs) (bits_val bs) = bs"
  by (rule nth_equalityI) (auto simp: bit_bits_val)

lemma nat_bits_take: "n \<le> length bs \<Longrightarrow> nat_bits n (bits_val (take n bs)) = take n bs"
  using nat_bits_bits_val [of "take n bs"] by simp

lemma bits_val_less: "bits_val bs < 2 ^ length bs"
proof -
  have "take_bit (length bs) (bits_val bs) = bits_val bs"
    by (metis bits_val_nat_bits nat_bits_bits_val)
  then show ?thesis by (simp add: take_bit_nat_eq_self_iff)
qed

lemma bits_val_append: "bits_val (xs @ ys) = bits_val xs * 2 ^ length ys + bits_val ys"
  by (simp add: bits_val_def horner_sum_append)

lemma bits_val_inj: "length xs = length ys \<Longrightarrow> bits_val xs = bits_val ys \<Longrightarrow> xs = ys"
  by (metis nat_bits_bits_val)

lemma nat_bits_take_bit: "nat_bits n (take_bit n v) = nat_bits n v"
  by (rule nth_equalityI) (auto simp: bit_take_bit_iff)

lemma nat_bits_add: "nat_bits (m + n) v = nat_bits m (drop_bit n v) @ nat_bits n v"
  by (rule nth_equalityI) (auto simp: nth_append bit_drop_bit_eq add.commute)

lemma bits_val_nat_bits_less: "v < 2 ^ n \<Longrightarrow> bits_val (nat_bits n v) = v"
  by (simp add: bits_val_nat_bits take_bit_nat_eq_self)

section \<open>Octet strings as bit lists\<close>

definition byte_bits :: "byte \<Rightarrow> bits" where
  "byte_bits b = map (bit b) (rev [0..<8])"

definition bytes_bits :: "byte list \<Rightarrow> bits" where
  "bytes_bits bs = concat (map byte_bits bs)"

lemma length_byte_bits [simp]: "length (byte_bits b) = 8"
  by (simp add: byte_bits_def)

lemma nth_byte_bits [simp]: "i < 8 \<Longrightarrow> byte_bits b ! i = bit b (7 - i)"
  by (simp add: byte_bits_def rev_nth)

lemma bytes_bits_Nil [simp]: "bytes_bits [] = []"
  by (simp add: bytes_bits_def)

lemma bytes_bits_Cons: "bytes_bits (b # bs) = byte_bits b @ bytes_bits bs"
  by (simp add: bytes_bits_def)

lemma bytes_bits_append [simp]: "bytes_bits (xs @ ys) = bytes_bits xs @ bytes_bits ys"
  by (simp add: bytes_bits_def)

lemma length_bytes_bits [simp]: "length (bytes_bits bs) = 8 * length bs"
  by (induction bs) (auto simp: bytes_bits_Cons)

lemma nth_bytes_bits:
  "i < 8 * length bs \<Longrightarrow> bytes_bits bs ! i = bit (bs ! (i div 8)) (7 - i mod 8)"
proof (induction bs arbitrary: i)
  case Nil
  then show ?case by simp
next
  case (Cons b bs)
  show ?case
  proof (cases "i < 8")
    case True
    then show ?thesis by (simp add: bytes_bits_Cons nth_append)
  next
    case False
    define j where "j = i - 8"
    with False have i: "i = j + 8" by simp
    with Cons.prems have "j < 8 * length bs" by simp
    with Cons.IH show ?thesis by (simp add: i bytes_bits_Cons nth_append div_add_self2)
  qed
qed

lemma take_bytes_bits: "take (8 * n) (bytes_bits bs) = bytes_bits (take n bs)"
  by (induction bs arbitrary: n) (auto simp: bytes_bits_Cons take_Cons split: nat.splits)

lemma drop_bytes_bits: "drop (8 * n) (bytes_bits bs) = bytes_bits (drop n bs)"
  by (induction bs arbitrary: n) (auto simp: bytes_bits_Cons drop_Cons split: nat.splits)

text \<open>The number of unused bits in the last of the octets that hold \<open>n\<close> bits.\<close>

definition pad8 :: "nat \<Rightarrow> nat" where
  "pad8 n = 8 * ((n + 7) div 8) - n"

lemma pad8_add: "n + pad8 n = 8 * ((n + 7) div 8)"
  unfolding pad8_def by linarith

lemma pad8_less: "pad8 n < 8"
  unfolding pad8_def by linarith

lemma pad8_split: "r < 8 \<Longrightarrow> pad8 (8 * q + r) = (8 - r) mod 8"
proof (cases "r = 0")
  case True
  then show ?thesis unfolding pad8_def by simp
next
  case False
  assume "r < 8"
  then have "8 * q + r + 7 = 8 * Suc q + (r - 1)" using False by simp
  then have "(8 * q + r + 7) div 8 = (8 * Suc q + (r - 1)) div 8" by simp
  also have "\<dots> = Suc q" using \<open>r < 8\<close> by (simp del: mult_Suc_right)
  finally show ?thesis using False \<open>r < 8\<close> unfolding pad8_def by simp
qed

lemma pad8_mod: "pad8 n = (8 - n mod 8) mod 8"
  using pad8_split [of "n mod 8" "n div 8"] by simp

lemma pad8_mult [simp]: "pad8 (8 * n) = 0"
  by (simp add: pad8_def)

lemma pad8_add_24: "pad8 (n + 24) = pad8 n"
proof -
  have "(n + 24 + 7) div 8 = (n + 7) div 8 + 3" by simp
  then show ?thesis unfolding pad8_def by linarith
qed

lemma byte_bits_inj: "byte_bits a = byte_bits b \<Longrightarrow> a = b"
proof (rule bit_word_eqI)
  fix n assume eq: "byte_bits a = byte_bits b" and "n < LENGTH(8)"
  then have n: "n < 8" by simp
  from eq have "byte_bits a ! (7 - n) = byte_bits b ! (7 - n)" by simp
  moreover from n have "7 - n < 8" "7 - (7 - n) = n" by auto
  ultimately show "bit a n = bit b n" by simp
qed

lemma bytes_bits_inj: "bytes_bits xs = bytes_bits ys \<Longrightarrow> xs = ys"
proof (induction xs arbitrary: ys)
  case Nil
  then show ?case by (cases ys) (auto simp: bytes_bits_Cons byte_bits_def)
next
  case (Cons x xs)
  then obtain y ys' where "ys = y # ys'"
    by (cases ys) (auto simp: bytes_bits_Cons byte_bits_def)
  with Cons show ?case by (auto simp: bytes_bits_Cons dest: byte_bits_inj)
qed

lemma byte_bits_of_nat [simp]: "byte_bits (word_of_nat v) = nat_bits 8 v"
  by (rule nth_equalityI) (auto simp: bit_simps)

lemma nat_bits_16: "nat_bits 16 v = nat_bits 8 (drop_bit 8 v) @ nat_bits 8 v"
  using nat_bits_add [of 8 8 v] by simp

lemma nat_bits_24: "nat_bits 24 v = nat_bits 8 (drop_bit 16 v) @ nat_bits 8 (drop_bit 8 v) @ nat_bits 8 v"
  using nat_bits_add [of 8 16 v] by (simp add: nat_bits_16)

lemma nat_bits_push: "nat_bits (n + f) (push_bit f v) = nat_bits n v @ replicate f False"
proof -
  have "nat_bits f (push_bit f v) = replicate f False"
    by (rule nth_equalityI) (auto simp: bit_simps)
  moreover have "drop_bit f (push_bit f v) = v"
    by (rule bit_eqI) (auto simp: bit_simps)
  ultimately show ?thesis by (simp add: nat_bits_add)
qed

section \<open>Lists\<close>

lemma take_drop_append_split: "i \<le> j \<Longrightarrow> take i xs @ take (j - i) (drop i xs) = take j xs"
  by (metis add_diff_inverse_nat not_less take_add)

end
