(* ===== verification/Bit_Data.thy ===== *)
theory Bit_Data
  imports Prelude
begin

unbundle bit_operations_syntax

text \<open>
  The bit streams of \<open>vanetza-extension/asn1/support/asn_bit_data.c\<close>.

  \<open>asn_bit_data_t\<close> (input) and \<open>asn_bit_outp_t\<close> (output) are records; a pointer into an octet
  buffer is an offset into the octets it points to (\<open>pd_octets\<close>, \<open>po_tmpspace\<close>). Two ghost
  fields, \<open>pd_fault\<close> and \<open>po_fault\<close>, record an access outside the buffer, which is undefined
  behaviour in C: that they stay \<open>False\<close> is memory safety. The \<open>refill\<close> pointer is NULL in
  every caller but the unused \<open>uper_open_type_get_complex\<close>, so the refill branch of
  \<open>asn_get_few_bits\<close> is its NULL case. The output callback is a value of \<open>asn_sink\<close>.

  The refinement: \<open>pd_bits\<close> is the list of bits still to be read and \<open>po_bits\<close> the list of bits
  written so far; reading takes a prefix of the former, writing appends to the latter.
\<close>

section \<open>Input: definitions\<close>

record asn_bit_data =
  pd_octets :: "byte list"
  pd_buffer :: nat
  pd_nboff :: nat
  pd_nbits :: nat
  pd_moved :: nat
  pd_fault :: bool

definition asn_bit_data_new_contiguous :: "byte list \<Rightarrow> nat \<Rightarrow> asn_bit_data" where
  "asn_bit_data_new_contiguous data size_bits =
     (let size_bytes = (size_bits + 7) div 8
      in \<lparr>pd_octets = take size_bytes data @ [0], pd_buffer = 0, pd_nboff = 0,
          pd_nbits = size_bits, pd_moved = 0, pd_fault = length data < size_bytes\<rparr>)"

definition asn_get_undo :: "asn_bit_data \<Rightarrow> int \<Rightarrow> asn_bit_data" where
  "asn_get_undo pd nbits =
     (if int (pd_nboff pd) < nbits then pd
      else pd\<lparr>pd_nboff := nat (int (pd_nboff pd) - nbits),
              pd_moved := nat (int (pd_moved pd) - nbits)\<rparr>)"

text \<open>Normalisation of the position indicator, then \<open>moved += nbits; nboff += nbits\<close>.\<close>

definition pd_advance :: "asn_bit_data \<Rightarrow> nat \<Rightarrow> asn_bit_data" where
  "pd_advance pd n =
     (let pd = (if 8 \<le> pd_nboff pd
                then pd\<lparr>pd_buffer := pd_buffer pd + pd_nboff pd div 8,
                        pd_nbits := pd_nbits pd - 8 * (pd_nboff pd div 8),
                        pd_nboff := pd_nboff pd mod 8\<rparr>
                else pd)
      in pd\<lparr>pd_moved := pd_moved pd + n, pd_nboff := pd_nboff pd + n\<rparr>)"

text \<open>\<open>buf[i]\<close> widened to 32 bits, and the ghost check for reading \<open>buf[0..k-1]\<close>.\<close>

definition pd_byte :: "asn_bit_data \<Rightarrow> nat \<Rightarrow> 32 word" where
  "pd_byte pd i =
     (if pd_buffer pd + i < length (pd_octets pd) then ucast (pd_octets pd ! (pd_buffer pd + i))
      else 0)"

definition pd_touch :: "nat \<Rightarrow> asn_bit_data \<Rightarrow> asn_bit_data" where
  "pd_touch k pd =
     pd\<lparr>pd_fault := (pd_fault pd \<or> length (pd_octets pd) < pd_buffer pd + k)\<rparr>"

lemma pd_nboff_advance: "pd_nboff (pd_advance pd n) = pd_nboff pd mod 8 + n"
  by (simp add: pd_advance_def Let_def)

lemma pd_advance_over_31: "31 < pd_nboff (pd_advance pd (nat n)) \<Longrightarrow> 24 < n"
proof -
  assume "31 < pd_nboff (pd_advance pd (nat n))"
  moreover have "pd_nboff pd mod 8 < 8" by simp
  ultimately show "24 < n" unfolding pd_nboff_advance by linarith
qed

function asn_get_few_bits :: "asn_bit_data \<Rightarrow> int \<Rightarrow> int \<times> asn_bit_data" where
  "asn_get_few_bits pd nbits =
     (if nbits < 0 then (-1, pd)
      else if int (pd_nbits pd) - int (pd_nboff pd) < nbits then (-1, pd)
      else
        let pd = pd_advance pd (nat nbits);
            off = pd_nboff pd;
            b = pd_byte pd;
            msk = push_bit (nat nbits) 1 - 1
        in if off \<le> 8 then
             (if nbits = 0 then (0, pd)
              else (sint (drop_bit (8 - off) (b 0) AND msk), pd_touch 1 pd))
           else if off \<le> 16 then
             (sint (drop_bit (16 - off) (push_bit 8 (b 0) + b 1) AND msk), pd_touch 2 pd)
           else if off \<le> 24 then
             (sint (drop_bit (24 - off) (push_bit 16 (b 0) + push_bit 8 (b 1) + b 2) AND msk),
              pd_touch 3 pd)
           else if off \<le> 31 then
             (sint (drop_bit (32 - off)
                (push_bit 24 (b 0) + push_bit 16 (b 1) + push_bit 8 (b 2) + b 3) AND msk),
              pd_touch 4 pd)
           else if nbits \<le> 31 then
             (case asn_get_few_bits (asn_get_undo pd nbits) (nbits - 24) of
                (hi, tpd) \<Rightarrow>
                  (case asn_get_few_bits tpd 24 of
                     (lo, tpd) \<Rightarrow>
                       (sint ((push_bit 24 (word_of_int hi) OR word_of_int lo) AND msk :: 32 word),
                        pd\<lparr>pd_fault := pd_fault tpd\<rparr>)))
           else (-1, asn_get_undo pd nbits))"
  by pat_completeness auto
termination
  by (relation "measure (\<lambda>(pd, n). nat n)") (auto simp: not_le dest: pd_advance_over_31)

declare asn_get_few_bits.simps [simp del]

text \<open>The result of the C function is the return value and the octets stored through \<open>dst\<close>.\<close>

function asn_get_many_bits_loop :: "asn_bit_data \<Rightarrow> int \<Rightarrow> int \<times> byte list \<times> asn_bit_data" where
  "asn_get_many_bits_loop pd nbits =
     (if nbits = 0 then (0, [], pd)
      else if 24 \<le> nbits then
        (case asn_get_few_bits pd 24 of
           (value, pd) \<Rightarrow>
             if value < 0 then (-1, [], pd)
             else
               (case asn_get_many_bits_loop pd (nbits - 24) of
                  (ret, dst, pd) \<Rightarrow>
                    (ret, word_of_int (drop_bit 16 value) # word_of_int (drop_bit 8 value)
                       # word_of_int value # dst, pd)))
      else
        (case asn_get_few_bits pd nbits of
           (value, pd) \<Rightarrow>
             if value < 0 then (-1, [], pd)
             else
               let fill = (if nbits mod 8 = 0 then 0 else 8 - nbits mod 8);
                   value = push_bit (nat fill) value;
                   nbits = nbits + fill
               in (0, (if 24 < nbits then [word_of_int (drop_bit 24 value)] else [])
                      @ (if 16 < nbits then [word_of_int (drop_bit 16 value)] else [])
                      @ (if 8 < nbits then [word_of_int (drop_bit 8 value)] else [])
                      @ [word_of_int value], pd)))"
  by pat_completeness auto
termination
  by (relation "measure (\<lambda>(pd, n). nat n)") auto

declare asn_get_many_bits_loop.simps [simp del]

definition asn_get_many_bits ::
  "asn_bit_data \<Rightarrow> bool \<Rightarrow> int \<Rightarrow> int \<times> byte list \<times> asn_bit_data" where
  "asn_get_many_bits pd alright nbits =
     (if alright \<and> nbits mod 8 \<noteq> 0 then
        (case asn_get_few_bits pd (nbits mod 8) of
           (value, pd) \<Rightarrow>
             if value < 0 then (-1, [], pd)
             else
               (case asn_get_many_bits_loop pd (nbits - nbits mod 8) of
                  (ret, dst, pd) \<Rightarrow> (ret, word_of_int value # dst, pd)))
      else asn_get_many_bits_loop pd nbits)"

section \<open>Output: definitions\<close>

text \<open>
  The output callbacks of \<open>per_encoder.c\<close> with their keys: \<open>ignore_output\<close>,
  \<open>encode_to_buffer_cb\<close> (octets left in the caller's buffer) and \<open>encode_dyn_cb\<close> (allocated
  octets), and those of \<open>asn1c_wrapper.cpp\<close>: \<open>write_buffer\<close> and \<open>write_null\<close>. Each constructor also
  holds the octets handed over so far, whether the callback keeps them or not.
\<close>

datatype asn_sink =
    Ignore_Output (sink_bytes: "byte list")
  | Encode_To_Buffer (sink_left: nat) (sink_bytes: "byte list")
  | Encode_Dyn (sink_allocated: nat) (sink_bytes: "byte list")
  | Write_Buffer (sink_bytes: "byte list")
  | Write_Null (sink_bytes: "byte list")

definition ignore_output :: "byte list \<Rightarrow> byte list \<Rightarrow> asn_sink option" where
  "ignore_output old data = Some (Ignore_Output (old @ data))"

definition encode_to_buffer_cb :: "nat \<Rightarrow> byte list \<Rightarrow> byte list \<Rightarrow> asn_sink option" where
  "encode_to_buffer_cb left old data =
     (if left < length data then None
      else Some (Encode_To_Buffer (left - length data) (old @ data)))"

function encode_dyn_grow :: "nat \<Rightarrow> nat \<Rightarrow> nat" where
  "encode_dyn_grow need new_size =
     (let new_size = 4 * new_size
      in if new_size = 0 then 0 else if new_size \<le> need then encode_dyn_grow need new_size else new_size)"
  by pat_completeness auto
termination
  by (relation "measure (\<lambda>(need, n). need - n)") auto

declare encode_dyn_grow.simps [simp del]

definition encode_dyn_cb :: "nat \<Rightarrow> byte list \<Rightarrow> byte list \<Rightarrow> asn_sink option" where
  "encode_dyn_cb allocated old data =
     (let need = length old + length data
      in Some (Encode_Dyn (if allocated \<le> need
                           then encode_dyn_grow need (if allocated \<noteq> 0 then allocated else 8)
                           else allocated) (old @ data)))"

definition write_buffer :: "byte list \<Rightarrow> byte list \<Rightarrow> asn_sink option" where
  "write_buffer old data = Some (Write_Buffer (old @ data))"

definition write_null :: "byte list \<Rightarrow> byte list \<Rightarrow> asn_sink option" where
  "write_null old data = Some (Write_Null (old @ data))"

fun sink_output :: "asn_sink \<Rightarrow> byte list \<Rightarrow> asn_sink option" where
  "sink_output (Ignore_Output old) data = ignore_output old data"
| "sink_output (Encode_To_Buffer left old) data = encode_to_buffer_cb left old data"
| "sink_output (Encode_Dyn allocated old) data = encode_dyn_cb allocated old data"
| "sink_output (Write_Buffer old) data = write_buffer old data"
| "sink_output (Write_Null old) data = write_null old data"

record asn_bit_outp =
  po_buffer :: nat
  po_nboff :: nat
  po_nbits :: nat
  po_tmpspace :: "byte list"
  po_output :: asn_sink
  po_flushed_bytes :: nat
  po_fault :: bool

definition po_byte :: "asn_bit_outp \<Rightarrow> nat \<Rightarrow> 32 word" where
  "po_byte po i =
     (if po_buffer po + i < length (po_tmpspace po) then ucast (po_tmpspace po ! (po_buffer po + i))
      else 0)"

text \<open>Stores \<open>buf[0], buf[1], ...\<close>, with the ghost bounds check.\<close>

fun store_bytes :: "byte list \<Rightarrow> nat \<Rightarrow> byte list \<Rightarrow> byte list" where
  "store_bytes mem i [] = mem"
| "store_bytes mem i (v # vs) = store_bytes (mem[i := v]) (Suc i) vs"

definition po_store :: "32 word list \<Rightarrow> asn_bit_outp \<Rightarrow> asn_bit_outp" where
  "po_store vs po =
     po\<lparr>po_tmpspace := store_bytes (po_tmpspace po) (po_buffer po) (map ucast vs),
        po_fault := (po_fault po \<or> length (po_tmpspace po) < po_buffer po + length vs)\<rparr>"

definition po_normalize :: "asn_bit_outp \<Rightarrow> asn_bit_outp" where
  "po_normalize po =
     (if 8 \<le> po_nboff po
      then po\<lparr>po_buffer := po_buffer po + po_nboff po div 8,
              po_nbits := po_nbits po - 8 * (po_nboff po div 8),
              po_nboff := po_nboff po mod 8\<rparr>
      else po)"

text \<open>The flush of whole octets in the middle of \<open>asn_put_few_bits\<close>; \<open>None\<close> when the callback fails.\<close>

definition po_flush :: "asn_bit_outp \<Rightarrow> nat \<Rightarrow> asn_bit_outp option" where
  "po_flush po obits =
     (if po_nbits po < po_nboff po + obits then
        (case sink_output (po_output po) (take (po_buffer po) (po_tmpspace po)) of
           None \<Rightarrow> None
         | Some out \<Rightarrow>
             Some (po\<lparr>po_tmpspace :=
                       (if po_nboff po \<noteq> 0
                        then (po_tmpspace po)[0 := ucast (po_byte po 0)] else po_tmpspace po),
                     po_buffer := 0, po_nbits := 8 * 32,
                     po_flushed_bytes := po_flushed_bytes po + po_buffer po,
                     po_output := out\<rparr>))
      else Some po)"

lemma po_nboff_normalize: "po_nboff (po_normalize po) = po_nboff po mod 8"
  by (simp add: po_normalize_def)

lemma po_flush_nboff: "po_flush po n = Some po' \<Longrightarrow> po_nboff po' = po_nboff po"
  by (auto simp: po_flush_def split: if_splits option.splits)

lemma po_over_31:
  "po_flush (po_normalize po) m = Some po' \<Longrightarrow> 31 < po_nboff po' + nat n \<Longrightarrow> 24 < n"
proof -
  assume fl: "po_flush (po_normalize po) m = Some po'" and gt: "31 < po_nboff po' + nat n"
  have "po_nboff po' < 8" using po_flush_nboff [OF fl] by (simp add: po_nboff_normalize)
  with gt show "24 < n" by linarith
qed

function asn_put_few_bits :: "asn_bit_outp \<Rightarrow> 32 word \<Rightarrow> int \<Rightarrow> int \<times> asn_bit_outp" where
  "asn_put_few_bits po bits obits =
     (if obits \<le> 0 \<or> 32 \<le> obits then (if obits = 0 then 0 else -1, po)
      else
        (case po_flush (po_normalize po) (nat obits) of
           None \<Rightarrow> (-1, po_normalize po)
         | Some po \<Rightarrow>
             let omsk = NOT (push_bit (8 - po_nboff po) 1 - 1);
                 off = po_nboff po + nat obits;
                 bits = bits AND (push_bit (nat obits) 1 - 1);
                 b0 = po_byte po 0 AND omsk
             in if off \<le> 8 then
                  (let bits = push_bit (8 - off) bits
                   in (0, po_store [b0 OR bits] (po\<lparr>po_nboff := off\<rparr>)))
                else if off \<le> 16 then
                  (let bits = push_bit (16 - off) bits
                   in (0, po_store [b0 OR drop_bit 8 bits, bits] (po\<lparr>po_nboff := off\<rparr>)))
                else if off \<le> 24 then
                  (let bits = push_bit (24 - off) bits
                   in (0, po_store [b0 OR drop_bit 16 bits, drop_bit 8 bits, bits]
                            (po\<lparr>po_nboff := off\<rparr>)))
                else if off \<le> 31 then
                  (let bits = push_bit (32 - off) bits
                   in (0, po_store [b0 OR drop_bit 24 bits, drop_bit 16 bits, drop_bit 8 bits, bits]
                            (po\<lparr>po_nboff := off\<rparr>)))
                else
                  (case asn_put_few_bits po (drop_bit (nat (obits - 24)) bits) 24 of
                     (r, po) \<Rightarrow>
                       if r \<noteq> 0 then (-1, po)
                       else
                         (case asn_put_few_bits po bits (obits - 24) of
                            (r, po) \<Rightarrow> if r \<noteq> 0 then (-1, po) else (0, po)))))"
  by pat_completeness auto
termination
  by (relation "measure (\<lambda>(po, bits, n). nat n)") (auto simp: not_le dest: po_over_31)

declare asn_put_few_bits.simps [simp del]

text \<open>\<open>src[i]\<close> of \<open>asn_put_many_bits\<close>; the list is what is left behind the moving pointer \<open>src\<close>.\<close>

definition src_byte :: "byte list \<Rightarrow> nat \<Rightarrow> 32 word" where
  "src_byte src i = (if i < length src then ucast (src ! i) else 0)"

definition src_check :: "byte list \<Rightarrow> nat \<Rightarrow> asn_bit_outp \<Rightarrow> asn_bit_outp" where
  "src_check src k po = po\<lparr>po_fault := (po_fault po \<or> length src < k)\<rparr>"

function asn_put_many_bits :: "asn_bit_outp \<Rightarrow> byte list \<Rightarrow> int \<Rightarrow> int \<times> asn_bit_outp" where
  "asn_put_many_bits po src nbits =
     (if nbits = 0 then (0, po)
      else if 24 \<le> nbits then
        (let value = push_bit 16 (src_byte src 0) OR push_bit 8 (src_byte src 1) OR src_byte src 2
         in case asn_put_few_bits (src_check src 3 po) value 24 of
              (r, po) \<Rightarrow> if r \<noteq> 0 then (-1, po) else asn_put_many_bits po (drop 3 src) (nbits - 24))
      else
        (let k = (if 16 < nbits then 3 else if 8 < nbits then 2 else 1);
             value = src_byte src 0;
             value = (if 8 < nbits then push_bit 8 value OR src_byte src 1 else value);
             value = (if 16 < nbits then push_bit 8 value OR src_byte src 2 else value);
             value = (if nbits mod 8 \<noteq> 0 then drop_bit (nat (8 - nbits mod 8)) value else value)
         in case asn_put_few_bits (src_check src k po) value nbits of
              (r, po) \<Rightarrow> if r \<noteq> 0 then (-1, po) else (0, po)))"
  by pat_completeness auto
termination
  by (relation "measure (\<lambda>(po, src, n). nat n)") auto

declare asn_put_many_bits.simps [simp del]

definition asn_put_aligned_flush :: "asn_bit_outp \<Rightarrow> int \<times> asn_bit_outp" where
  "asn_put_aligned_flush po =
     (let unused_bits = (8 - po_nboff po mod 8) mod 8;
          complete_bytes = po_buffer po + (po_nboff po + 7) div 8;
          last = po_buffer po + po_nboff po div 8;
          po = (if unused_bits \<noteq> 0
                then po\<lparr>po_tmpspace := (po_tmpspace po)[last := (po_tmpspace po ! last) AND push_bit unused_bits (-1)],
                        po_fault := (po_fault po \<or> length (po_tmpspace po) \<le> last)\<rparr>
                else po)
      in case sink_output (po_output po) (take complete_bytes (po_tmpspace po)) of
           None \<Rightarrow> (-1, po)
         | Some out \<Rightarrow>
             (0, po\<lparr>po_buffer := 0, po_nboff := 0, po_nbits := 8 * 32,
                    po_flushed_bytes := po_flushed_bytes po + complete_bytes, po_output := out\<rparr>))"

end
