(* ===== verification/Bit_Read.thy ===== *)
theory Bit_Read
  imports Bit_Data
begin

unbundle bit_operations_syntax

text \<open>
  Correctness of the input side of \<open>asn_bit_data.c\<close>: \<open>asn_get_few_bits\<close> and
  \<open>asn_get_many_bits\<close> refine taking a prefix of \<open>pd_bits\<close>, never read outside the octets they
  were given, and keep the position bookkeeping (\<open>buffer\<close>, \<open>nboff\<close>, \<open>nbits\<close>, \<open>moved\<close>)
  consistent. \<open>pd_adv pd n pd'\<close> is the step every reader makes.
\<close>

section \<open>The abstraction\<close>

definition pd_wf :: "asn_bit_data \<Rightarrow> bool" where
  "pd_wf pd \<longleftrightarrow> \<not> pd_fault pd \<and> pd_nboff pd \<le> pd_nbits pd
     \<and> 8 * pd_buffer pd + pd_nbits pd \<le> 8 * length (pd_octets pd)"

definition pd_bits :: "asn_bit_data \<Rightarrow> bits" where
  "pd_bits pd = take (pd_nbits pd - pd_nboff pd)
     (drop (8 * pd_buffer pd + pd_nboff pd) (bytes_bits (pd_octets pd)))"

definition pd_pos :: "asn_bit_data \<Rightarrow> nat" where
  "pd_pos pd = 8 * pd_buffer pd + pd_nboff pd"

definition pd_end :: "asn_bit_data \<Rightarrow> nat" where
  "pd_end pd = 8 * pd_buffer pd + pd_nbits pd"

definition pd_adv :: "asn_bit_data \<Rightarrow> nat \<Rightarrow> asn_bit_data \<Rightarrow> bool" where
  "pd_adv pd n pd' \<longleftrightarrow> pd_wf pd' \<and> pd_octets pd' = pd_octets pd \<and> pd_end pd' = pd_end pd
     \<and> pd_pos pd' = pd_pos pd + n \<and> pd_moved pd' = pd_moved pd + n"

lemma pd_adv_refl: "pd_wf pd \<Longrightarrow> pd_adv pd 0 pd"
  by (simp add: pd_adv_def)

lemma pd_adv_trans: "pd_adv pd m pd1 \<Longrightarrow> pd_adv pd1 n pd2 \<Longrightarrow> pd_adv pd (m + n) pd2"
  by (simp add: pd_adv_def)

lemma pd_adv_wf [dest]: "pd_adv pd n pd' \<Longrightarrow> pd_wf pd'"
  by (simp add: pd_adv_def)

lemma pd_bits_alt: "pd_bits pd = take (pd_end pd - pd_pos pd) (drop (pd_pos pd) (bytes_bits (pd_octets pd)))"
  by (simp add: pd_bits_def pd_end_def pd_pos_def)

lemma length_pd_bits: "pd_wf pd \<Longrightarrow> length (pd_bits pd) = pd_nbits pd - pd_nboff pd"
  by (auto simp: pd_bits_def pd_wf_def)

lemma pd_adv_bits: "pd_adv pd n pd' \<Longrightarrow> pd_bits pd' = drop n (pd_bits pd)"
  by (simp add: pd_adv_def pd_bits_alt drop_take drop_drop add.commute)

lemma pd_adv_le: "pd_wf pd \<Longrightarrow> pd_adv pd n pd' \<Longrightarrow> n \<le> length (pd_bits pd)"
  by (auto simp: pd_adv_def length_pd_bits pd_wf_def pd_pos_def pd_end_def)

section \<open>Advancing the position\<close>

lemma pd_advance_fields:
  "pd_octets (pd_advance pd n) = pd_octets pd"
  "pd_moved (pd_advance pd n) = pd_moved pd + n"
  "pd_fault (pd_advance pd n) = pd_fault pd"
  "pd_buffer (pd_advance pd n) = pd_buffer pd + pd_nboff pd div 8"
  by (simp_all add: pd_advance_def Let_def)

lemma pd_nbits_advance: "pd_nbits (pd_advance pd n) = pd_nbits pd - 8 * (pd_nboff pd div 8)"
  by (simp add: pd_advance_def Let_def)

lemma pd_advance_adv:
  assumes "pd_wf pd" "n \<le> length (pd_bits pd)"
  shows "pd_adv pd n (pd_advance pd n)"
proof -
  have le: "n + pd_nboff pd \<le> pd_nbits pd" "pd_nboff pd \<le> pd_nbits pd"
    using assms by (auto simp: length_pd_bits pd_wf_def)
  have split: "8 * (pd_nboff pd div 8) + pd_nboff pd mod 8 = pd_nboff pd"
    by simp
  then have "8 * (pd_nboff pd div 8) \<le> pd_nbits pd" using le by linarith
  with le split assms(1) show ?thesis
    unfolding pd_adv_def pd_wf_def pd_end_def pd_pos_def pd_advance_fields pd_nboff_advance
      pd_nbits_advance distrib_left by (intro conjI; (simp; fail)?; linarith)
qed

lemma pd_touch_fields [simp]:
  "pd_octets (pd_touch k pd) = pd_octets pd" "pd_buffer (pd_touch k pd) = pd_buffer pd"
  "pd_nboff (pd_touch k pd) = pd_nboff pd" "pd_nbits (pd_touch k pd) = pd_nbits pd"
  "pd_moved (pd_touch k pd) = pd_moved pd"
  by (simp_all add: pd_touch_def)

lemma pd_adv_touch:
  "pd_adv pd n pd' \<Longrightarrow> pd_buffer pd' + k \<le> length (pd_octets pd') \<Longrightarrow> pd_adv pd n (pd_touch k pd')"
  by (auto simp: pd_adv_def pd_wf_def pd_end_def pd_pos_def pd_touch_def)

section \<open>Values of up to four octets\<close>

lemma sint_of_nat_32: "m < 2 ^ 31 \<Longrightarrow> sint (word_of_nat m :: 32 word) = int m"
  by (simp add: signed_of_nat signed_take_bit_int_eq_self)

lemma bit_sum2:
  "bit (push_bit 8 (ucast a) + ucast b :: 32 word) j
     \<longleftrightarrow> (j < 8 \<and> bit (b :: byte) j) \<or> (8 \<le> j \<and> j < 16 \<and> bit (a :: byte) (j - 8))"
proof -
  have "push_bit 8 (ucast a) + ucast b = (push_bit 8 (ucast a) OR ucast b :: 32 word)"
    by (rule disjunctive_add) (auto simp: bit_simps dest: bit_imp_le_length)
  then show ?thesis by (auto simp: bit_simps dest: bit_imp_le_length)
qed

lemma bit_sum3:
  "bit (push_bit 16 (ucast a) + push_bit 8 (ucast b) + ucast c :: 32 word) j
     \<longleftrightarrow> (j < 8 \<and> bit (c :: byte) j) \<or> (8 \<le> j \<and> j < 16 \<and> bit (b :: byte) (j - 8))
       \<or> (16 \<le> j \<and> j < 24 \<and> bit (a :: byte) (j - 16))"
proof -
  have 1: "push_bit 16 (ucast a) + push_bit 8 (ucast b) = (push_bit 16 (ucast a) OR push_bit 8 (ucast b) :: 32 word)"
    by (rule disjunctive_add) (auto simp: bit_simps dest: bit_imp_le_length)
  have "push_bit 16 (ucast a) + push_bit 8 (ucast b) + ucast c
      = (push_bit 16 (ucast a) OR push_bit 8 (ucast b) OR ucast c :: 32 word)"
    unfolding 1 by (rule trans [OF disjunctive_add]) (auto simp: bit_simps or.assoc dest: bit_imp_le_length)
  then show ?thesis by (auto simp: bit_simps dest: bit_imp_le_length)
qed

lemma bit_sum4:
  "bit (push_bit 24 (ucast a) + push_bit 16 (ucast b) + push_bit 8 (ucast c) + ucast d :: 32 word) j
     \<longleftrightarrow> (j < 8 \<and> bit (d :: byte) j) \<or> (8 \<le> j \<and> j < 16 \<and> bit (c :: byte) (j - 8))
       \<or> (16 \<le> j \<and> j < 24 \<and> bit (b :: byte) (j - 16)) \<or> (24 \<le> j \<and> j < 32 \<and> bit (a :: byte) (j - 24))"
proof -
  have 1: "push_bit 24 (ucast a) + push_bit 16 (ucast b) = (push_bit 24 (ucast a) OR push_bit 16 (ucast b) :: 32 word)"
    by (rule disjunctive_add) (auto simp: bit_simps dest: bit_imp_le_length)
  have 2: "push_bit 24 (ucast a) + push_bit 16 (ucast b) + push_bit 8 (ucast c)
      = (push_bit 24 (ucast a) OR push_bit 16 (ucast b) OR push_bit 8 (ucast c) :: 32 word)"
    unfolding 1 by (rule trans [OF disjunctive_add]) (auto simp: bit_simps or.assoc dest: bit_imp_le_length)
  have "push_bit 24 (ucast a) + push_bit 16 (ucast b) + push_bit 8 (ucast c) + ucast d
      = (push_bit 24 (ucast a) OR push_bit 16 (ucast b) OR push_bit 8 (ucast c) OR ucast d :: 32 word)"
    unfolding 2 by (rule trans [OF disjunctive_add]) (auto simp: bit_simps or.assoc dest: bit_imp_le_length)
  then show ?thesis by (auto simp: bit_simps dest: bit_imp_le_length)
qed

text \<open>
  The shift-and-mask step: a word that holds the first \<open>8 * k\<close> bits of \<open>S\<close> yields the \<open>n\<close> bits
  of \<open>S\<close> that end before position \<open>off\<close>.
\<close>

lemma shift_mask_value:
  fixes w :: "32 word"
  assumes w: "\<And>j. bit w j \<longleftrightarrow> j < 8 * k \<and> S ! (8 * k - Suc j)"
    and off: "off = p + n" "off \<le> 8 * k" and n: "n \<le> 31" and S: "off \<le> length S"
  shows "sint (drop_bit (8 * k - off) w AND (push_bit n 1 - 1)) = int (bits_val (take n (drop p S)))"
proof -
  have msk: "(push_bit n 1 - 1 :: 32 word) = mask n"
    by (simp add: mask_eq_exp_minus_1 push_bit_eq_mult)
  have len: "length (take n (drop p S)) = n" using off S by simp
  have "drop_bit (8 * k - off) w AND mask n = word_of_nat (bits_val (take n (drop p S)))"
  proof (rule bit_word_eqI)
    fix i assume "i < LENGTH(32)"
    have eq: "8 * k - Suc (8 * k - off + i) = p + (n - Suc i)" if "i < n"
      using off that by linarith
    show "bit (drop_bit (8 * k - off) w AND mask n) i
        = bit (word_of_nat (bits_val (take n (drop p S))) :: 32 word) i"
      using off S \<open>i < LENGTH(32)\<close> eq
      by (auto simp: bit_simps w bit_bits_val len)
  qed
  moreover have "bits_val (take n (drop p S)) < 2 ^ 31"
  proof -
    have "bits_val (take n (drop p S)) < 2 ^ n" using bits_val_less [of "take n (drop p S)"] len by simp
    also have "(2 :: nat) ^ n \<le> 2 ^ 31" using n by (intro power_increasing) auto
    finally show ?thesis .
  qed
  ultimately show ?thesis unfolding msk by (simp add: sint_of_nat_32)
qed

lemma nth_bytes_bits_rev:
  assumes "j < 8 * k" "k \<le> length X"
  shows "bytes_bits X ! (8 * k - Suc j) = bit (X ! (k - Suc (j div 8))) (j mod 8)"
proof -
  obtain q r where j: "j = 8 * q + r" "r < 8" using mult_div_mod_eq [of 8 j] mod_less_divisor [of 8 j]
    by (metis zero_less_numeral)
  have "q < k" using assms(1) j by linarith
  then obtain m where k: "k = Suc q + m" using less_iff_Suc_add by auto
  have idx: "8 * k - Suc j = 8 * m + (7 - r)" unfolding k j(1) using j(2) by (simp add: distrib_left)
  have dm: "(8 * a + b) div 8 = a" "(8 * a + b) mod 8 = b" if "b < 8" for a b :: nat
    using that by simp_all
  have "(8 * k - Suc j) div 8 = m" "(8 * k - Suc j) mod 8 = 7 - r"
    unfolding idx by (intro dm; simp)+
  moreover have "j div 8 = q" "j mod 8 = r" unfolding j(1) by (intro dm j(2))+
  moreover have "8 * k - Suc j < 8 * length X" using assms by linarith
  moreover have "7 - (7 - r) = r" using j(2) by simp
  ultimately show ?thesis by (simp add: nth_bytes_bits k)
qed

lemma div_mod_cases_32:
  "j < (8 :: nat) \<Longrightarrow> j div 8 = 0 \<and> j mod 8 = j"
  "8 \<le> j \<Longrightarrow> j < 16 \<Longrightarrow> j div 8 = 1 \<and> j mod 8 = j - 8"
  "16 \<le> j \<Longrightarrow> j < 24 \<Longrightarrow> j div 8 = 2 \<and> j mod 8 = j - 16"
  "24 \<le> j \<Longrightarrow> j < 32 \<Longrightarrow> j div 8 = 3 \<and> j mod 8 = j - 24"
  by presburger+

lemma stream_word1:
  "1 \<le> length X \<Longrightarrow> bit (ucast (X ! 0 :: byte) :: 32 word) j \<longleftrightarrow> j < 8 * 1 \<and> bytes_bits X ! (8 * 1 - Suc j)"
  using div_mod_cases_32 [of j] nth_bytes_bits_rev [of j 1 X]
  by (cases "j < 8") (auto simp: bit_simps dest: bit_imp_le_length)

lemma stream_word2:
  assumes "2 \<le> length X"
  shows "bit (push_bit 8 (ucast (X ! 0 :: byte)) + ucast (X ! 1) :: 32 word) j
      \<longleftrightarrow> j < 8 * 2 \<and> bytes_bits X ! (8 * 2 - Suc j)"
proof -
  consider "j < 8" | "8 \<le> j" "j < 16" | "16 \<le> j" by linarith
  then show ?thesis
    using div_mod_cases_32 [of j] nth_bytes_bits_rev [of j 2 X] assms
    unfolding bit_sum2 by cases simp_all
qed

lemma stream_word3:
  assumes "3 \<le> length X"
  shows "bit (push_bit 16 (ucast (X ! 0 :: byte)) + push_bit 8 (ucast (X ! 1)) + ucast (X ! 2) :: 32 word) j
      \<longleftrightarrow> j < 8 * 3 \<and> bytes_bits X ! (8 * 3 - Suc j)"
proof -
  consider "j < 8" | "8 \<le> j" "j < 16" | "16 \<le> j" "j < 24" | "24 \<le> j" by linarith
  then show ?thesis
    using div_mod_cases_32 [of j] nth_bytes_bits_rev [of j 3 X] assms
    unfolding bit_sum3 by cases simp_all
qed

lemma stream_word4:
  assumes "4 \<le> length X"
  shows "bit (push_bit 24 (ucast (X ! 0 :: byte)) + push_bit 16 (ucast (X ! 1)) + push_bit 8 (ucast (X ! 2))
           + ucast (X ! 3) :: 32 word) j
      \<longleftrightarrow> j < 8 * 4 \<and> bytes_bits X ! (8 * 4 - Suc j)"
proof -
  consider "j < 8" | "8 \<le> j" "j < 16" | "16 \<le> j" "j < 24" | "24 \<le> j" "j < 32" | "32 \<le> j" by linarith
  then show ?thesis
    using div_mod_cases_32 [of j] nth_bytes_bits_rev [of j 4 X] assms
    unfolding bit_sum4 by cases simp_all
qed

section \<open>asn_get_few_bits\<close>

lemma pd_stream:
  assumes "pd_wf pd" "n \<le> length (pd_bits pd)"
  defines "X \<equiv> drop (pd_buffer (pd_advance pd n)) (pd_octets pd)"
  shows "take n (drop (pd_nboff pd mod 8) (bytes_bits X)) = take n (pd_bits pd)"
    and "pd_nboff pd mod 8 + n \<le> length (bytes_bits X)"
    and "i < length X \<Longrightarrow> pd_byte (pd_advance pd n) i = ucast (X ! i)"
    and "k \<le> length X \<Longrightarrow> 0 < k \<Longrightarrow> pd_adv pd n (pd_touch k (pd_advance pd n))"
proof -
  have adv: "pd_adv pd n (pd_advance pd n)" using assms by (simp add: pd_advance_adv)
  have pos: "8 * pd_buffer (pd_advance pd n) + pd_nboff pd mod 8 = pd_pos pd"
    by (simp add: pd_pos_def pd_advance_fields algebra_simps)
  have "drop (pd_nboff pd mod 8) (bytes_bits X) = drop (pd_pos pd) (bytes_bits (pd_octets pd))"
    unfolding X_def drop_bytes_bits [symmetric] drop_drop pos [symmetric] by (simp add: add.commute)
  then show "take n (drop (pd_nboff pd mod 8) (bytes_bits X)) = take n (pd_bits pd)"
    using assms(2) by (auto simp: pd_bits_alt min_def split: if_splits)
  have "pd_pos pd + n \<le> 8 * length (pd_octets pd)"
    using assms by (auto simp: length_pd_bits pd_wf_def pd_pos_def)
  with pos show "pd_nboff pd mod 8 + n \<le> length (bytes_bits X)"
    by (simp add: X_def diff_mult_distrib2)
  show "i < length X \<Longrightarrow> pd_byte (pd_advance pd n) i = ucast (X ! i)"
    by (auto simp: X_def pd_byte_def pd_advance_fields)
  show "k \<le> length X \<Longrightarrow> 0 < k \<Longrightarrow> pd_adv pd n (pd_touch k (pd_advance pd n))"
    using adv by (intro pd_adv_touch) (auto simp: X_def pd_advance_fields)
qed

lemma get_few_bits_starved: "pd_wf pd \<Longrightarrow> int (length (pd_bits pd)) < n \<Longrightarrow> asn_get_few_bits pd n = (-1, pd)"
  by (subst asn_get_few_bits.simps) (auto simp: length_pd_bits pd_wf_def)

lemma get_few_bits_neg: "n < 0 \<Longrightarrow> asn_get_few_bits pd n = (-1, pd)"
  by (subst asn_get_few_bits.simps) simp

lemma get_few_bits_direct:
  assumes wf: "pd_wf pd" and n: "n \<le> length (pd_bits pd)" and off: "pd_nboff pd mod 8 + n \<le> 31"
  shows "\<exists>pd'. asn_get_few_bits pd (int n) = (int (bits_val (take n (pd_bits pd))), pd') \<and> pd_adv pd n pd'"
proof -
  define X where "X = drop (pd_buffer (pd_advance pd n)) (pd_octets pd)"
  note st = pd_stream [OF wf n, folded X_def]
  define p where "p = pd_nboff pd mod 8"
  have n31: "n \<le> 31" using off by simp
  have guards: "\<not> int n < 0" "\<not> int (pd_nbits pd) - int (pd_nboff pd) < int n"
    using wf n by (auto simp: length_pd_bits pd_wf_def)
  have len: "p + n \<le> 8 * length X" using st(2) by (simp add: p_def)
  have val: "sint (drop_bit (8 * k - (p + n)) w AND (push_bit n 1 - 1)) = int (bits_val (take n (pd_bits pd)))"
    if "\<And>j. bit (w :: 32 word) j \<longleftrightarrow> j < 8 * k \<and> bytes_bits X ! (8 * k - Suc j)" "p + n \<le> 8 * k" for w k
    using shift_mask_value [OF that(1) refl that(2) n31] st(1,2) by (simp add: p_def)
  consider "n = 0" | "0 < n" "p + n \<le> 8" | "8 < p + n" "p + n \<le> 16"
    | "16 < p + n" "p + n \<le> 24" | "24 < p + n" "p + n \<le> 31"
    using off unfolding p_def by linarith
  then show ?thesis
  proof cases
    case 1
    then show ?thesis
      using wf guards pd_advance_adv [OF wf n]
      by (subst asn_get_few_bits.simps) (simp add: Let_def pd_nboff_advance)
  next
    case 2
    then have k: "1 \<le> length X" using len by linarith
    note b = st(3) [OF order_less_le_trans [OF _ k]]
    show ?thesis using 2 guards k st(4) [OF k] val [OF stream_word1 [OF k]]
      by (subst asn_get_few_bits.simps) (simp add: Let_def pd_nboff_advance p_def [symmetric] b)
  next
    case 3
    then have k: "2 \<le> length X" using len by linarith
    note b = st(3) [OF order_less_le_trans [OF _ k]]
    show ?thesis using 3 guards k st(4) [OF k] val [OF stream_word2 [OF k]]
      by (subst asn_get_few_bits.simps) (simp add: Let_def pd_nboff_advance p_def [symmetric] b)
  next
    case 4
    then have k: "3 \<le> length X" using len by linarith
    note b = st(3) [OF order_less_le_trans [OF _ k]]
    show ?thesis using 4 guards k st(4) [OF k] val [OF stream_word3 [OF k]]
      by (subst asn_get_few_bits.simps) (simp add: Let_def pd_nboff_advance p_def [symmetric] b)
  next
    case 5
    then have k: "4 \<le> length X" using len by linarith
    note b = st(3) [OF order_less_le_trans [OF _ k]]
    show ?thesis using 5 guards k st(4) [OF k] val [OF stream_word4 [OF k]]
      by (subst asn_get_few_bits.simps) (simp add: Let_def pd_nboff_advance p_def [symmetric] b)
  qed
qed

lemma pd_undo_advance:
  assumes "pd_wf pd" "n \<le> length (pd_bits pd)"
  shows "pd_adv pd 0 (asn_get_undo (pd_advance pd n) (int n))"
    and "pd_nboff (asn_get_undo (pd_advance pd n) (int n)) = pd_nboff pd mod 8"
  using pd_advance_adv [OF assms]
  by (auto simp: asn_get_undo_def pd_adv_def pd_wf_def pd_pos_def pd_end_def pd_nboff_advance)

text \<open>The full range the interface documents, \<open>nbits \<le> 31\<close>, including the recursive branch.\<close>

lemma get_few_bits_ok:
  assumes wf: "pd_wf pd" and n: "n \<le> length (pd_bits pd)" and n31: "n \<le> 31"
  shows "\<exists>pd'. asn_get_few_bits pd (int n) = (int (bits_val (take n (pd_bits pd))), pd') \<and> pd_adv pd n pd'"
proof (cases "pd_nboff pd mod 8 + n \<le> 31")
  case True
  then show ?thesis using get_few_bits_direct [OF wf n] by simp
next
  case False
  define tpd where "tpd = asn_get_undo (pd_advance pd n) (int n)"
  have adv: "pd_adv pd n (pd_advance pd n)" by (rule pd_advance_adv [OF wf n])
  have t0: "pd_adv pd 0 tpd" "pd_nboff tpd = pd_nboff pd mod 8"
    using pd_undo_advance [OF wf n] by (simp_all add: tpd_def)
  have wft: "pd_wf tpd" and bt: "pd_bits tpd = pd_bits pd"
    using t0(1) pd_adv_bits by fastforce+
  have n24: "24 < n" using False mod_less_divisor [of 8 "pd_nboff pd"] by linarith
  have "pd_nboff tpd mod 8 + (n - 24) \<le> 31" "n - 24 \<le> length (pd_bits tpd)"
    using n n31 bt t0(2) mod_less_divisor [of 8 "pd_nboff pd"] by simp_all
  from get_few_bits_direct [OF wft this(2,1)] obtain tpd1 where
    g1: "asn_get_few_bits tpd (int (n - 24)) = (int (bits_val (take (n - 24) (pd_bits pd))), tpd1)"
    and a1: "pd_adv tpd (n - 24) tpd1" by (auto simp: bt)
  have wf1: "pd_wf tpd1" and b1: "pd_bits tpd1 = drop (n - 24) (pd_bits pd)"
    using a1 pd_adv_bits bt by (auto simp: pd_adv_bits)
  have "pd_nboff tpd1 mod 8 + 24 \<le> 31" "24 \<le> length (pd_bits tpd1)"
    using n n24 b1 mod_less_divisor [of 8 "pd_nboff tpd1"] by simp_all
  from get_few_bits_direct [OF wf1 this(2,1)] obtain tpd2 where
    g2: "asn_get_few_bits tpd1 24 = (int (bits_val (take 24 (drop (n - 24) (pd_bits pd)))), tpd2)"
    and a2: "pd_adv tpd1 24 tpd2" by (auto simp: b1)
  define hi where "hi = take (n - 24) (pd_bits pd)"
  define lo where "lo = take 24 (drop (n - 24) (pd_bits pd))"
  have lens: "length hi = n - 24" "length lo = 24" using n n24 by (simp_all add: hi_def lo_def)
  have tk: "take n (pd_bits pd) = hi @ lo"
    unfolding hi_def lo_def using n24 take_add [of "n - 24" 24 "pd_bits pd"] by simp
  have val: "sint ((push_bit 24 (word_of_int (int (bits_val hi))) OR word_of_int (int (bits_val lo)))
      AND (push_bit n 1 - 1) :: 32 word) = int (bits_val (hi @ lo))"
  proof -
    have "(push_bit 24 (word_of_int (int (bits_val hi))) OR word_of_int (int (bits_val lo)))
        AND (push_bit n 1 - 1) = (word_of_nat (bits_val (hi @ lo)) :: 32 word)"
    proof (rule bit_word_eqI)
      fix i assume "i < LENGTH(32)"
      have msk: "(push_bit n 1 - 1 :: 32 word) = mask n"
        by (simp add: mask_eq_exp_minus_1 push_bit_eq_mult)
      show "bit ((push_bit 24 (word_of_int (int (bits_val hi))) OR word_of_int (int (bits_val lo)))
        AND (push_bit n 1 - 1) :: 32 word) i = bit (word_of_nat (bits_val (hi @ lo)) :: 32 word) i"
        unfolding msk using lens n24 \<open>i < LENGTH(32)\<close>
        by (auto simp: bit_simps bit_bits_val nth_append Suc_diff_Suc)
    qed
    moreover have "bits_val (hi @ lo) < 2 ^ 31"
    proof -
      have "bits_val (hi @ lo) < 2 ^ n" using bits_val_less [of "hi @ lo"] lens n24 by simp
      also have "(2 :: nat) ^ n \<le> 2 ^ 31" using n31 by (intro power_increasing) auto
      finally show ?thesis .
    qed
    ultimately show ?thesis by (simp add: sint_of_nat_32)
  qed
  have guards: "\<not> int n < 0" "\<not> int (pd_nbits pd) - int (pd_nboff pd) < int n" "int n - 24 = int (n - 24)"
    using wf n n24 by (auto simp: length_pd_bits pd_wf_def)
  have "pd_adv pd n ((pd_advance pd n)\<lparr>pd_fault := pd_fault tpd2\<rparr>)"
    using adv a2 by (auto simp: pd_adv_def pd_wf_def pd_pos_def pd_end_def)
  moreover have "asn_get_few_bits pd (int n)
      = (int (bits_val (take n (pd_bits pd))), (pd_advance pd n)\<lparr>pd_fault := pd_fault tpd2\<rparr>)"
    using False guards n31 g1 g2 val
    by (subst asn_get_few_bits.simps)
      (simp add: Let_def pd_nboff_advance tpd_def [symmetric] tk hi_def [symmetric] lo_def [symmetric])
  ultimately show ?thesis by blast
qed

text \<open>More than 31 bits cannot be asked for: the position does not move.\<close>

lemma get_few_bits_too_many:
  assumes wf: "pd_wf pd" and n: "32 \<le> n"
  shows "\<exists>pd'. asn_get_few_bits pd (int n) = (-1, pd') \<and> pd_adv pd 0 pd'"
proof (cases "n \<le> length (pd_bits pd)")
  case True
  then have guards: "\<not> int n < 0" "\<not> int (pd_nbits pd) - int (pd_nboff pd) < int n"
    using wf by (auto simp: length_pd_bits pd_wf_def)
  have "asn_get_few_bits pd (int n) = (-1, asn_get_undo (pd_advance pd n) (int n))"
    using guards n by (subst asn_get_few_bits.simps) (simp add: Let_def pd_nboff_advance)
  then show ?thesis using pd_undo_advance [OF wf True] by blast
next
  case False
  then show ?thesis using get_few_bits_starved [OF wf, of "int n"] pd_adv_refl [OF wf] by auto
qed

text \<open>Totality: on any well-formed stream and any request the reader is safe.\<close>

lemma get_few_bits_cases:
  assumes wf: "pd_wf pd"
  obtains pd' where "asn_get_few_bits pd n = (-1, pd')" "pd_adv pd 0 pd'"
      "n < 0 \<or> int (length (pd_bits pd)) < n \<or> 31 < n"
  | m pd' where "n = int m" "m \<le> 31" "m \<le> length (pd_bits pd)"
      "asn_get_few_bits pd n = (int (bits_val (take m (pd_bits pd))), pd')" "pd_adv pd m pd'"
proof (cases "0 \<le> n \<and> n \<le> int (length (pd_bits pd)) \<and> n \<le> 31")
  case True
  then have "nat n \<le> length (pd_bits pd)" "nat n \<le> 31" "n = int (nat n)" by auto
  then show ?thesis using get_few_bits_ok [OF wf] that(2) by metis
next
  case False
  then consider "n < 0" | "0 \<le> n" "31 < n" | "0 \<le> n" "int (length (pd_bits pd)) < n" by linarith
  then show ?thesis
  proof cases
    case 1 then show ?thesis using get_few_bits_neg pd_adv_refl [OF wf] that(1) by blast
  next
    case 2
    then have "n = int (nat n)" "32 \<le> nat n" by auto
    then show ?thesis using get_few_bits_too_many [OF wf] that(1) 2 by metis
  next
    case 3 then show ?thesis using get_few_bits_starved [OF wf] pd_adv_refl [OF wf] that(1) by blast
  qed
qed

lemma get_few_bits_adv:
  assumes "pd_wf pd" "asn_get_few_bits pd n = (v, pd')"
  shows "\<exists>m. pd_adv pd m pd'" and "- 1 \<le> v" and "v < 2 ^ 31"
proof -
  have "bits_val (take m (pd_bits pd)) < 2 ^ 31" if "m \<le> 31" for m
  proof -
    have "bits_val (take m (pd_bits pd)) < 2 ^ length (take m (pd_bits pd))" by (rule bits_val_less)
    also have "(2 :: nat) ^ length (take m (pd_bits pd)) \<le> 2 ^ 31" using that by (intro power_increasing) auto
    finally show ?thesis .
  qed
  then have small: "int (bits_val (take m (pd_bits pd))) < 2 ^ 31" if "m \<le> 31" for m
    using that by (metis of_nat_less_iff of_nat_numeral of_nat_power)
  show "\<exists>m. pd_adv pd m pd'" by (rule get_few_bits_cases [OF assms(1), of n]) (use assms(2) in auto)
  show "- 1 \<le> v" by (rule get_few_bits_cases [OF assms(1), of n]) (use assms(2) in auto)
  show "v < 2 ^ 31" by (rule get_few_bits_cases [OF assms(1), of n]) (use assms(2) small in auto)
qed

text \<open>The form the decoders use: the next bits of the stream are known.\<close>

lemma get_few_bits_prefix:
  assumes "pd_wf pd" "pd_bits pd = bs @ rest" "length bs \<le> 31" "n = int (length bs)"
  obtains pd' where "asn_get_few_bits pd n = (int (bits_val bs), pd')" "pd_adv pd (length bs) pd'"
    "pd_wf pd'" "pd_bits pd' = rest"
  using get_few_bits_ok [OF assms(1), of "length bs"] assms
  by (auto simp: pd_adv_bits dest: pd_adv_wf)

section \<open>asn_get_many_bits\<close>

lemma three_octets:
  "bytes_bits [word_of_int (drop_bit 16 (int v)), word_of_int (drop_bit 8 (int v)), word_of_int (int v)]
     = nat_bits 24 v"
  by (simp add: bytes_bits_Cons nat_bits_24 flip: of_nat_drop_bit)

lemma tail_octets:
  assumes "0 < n" "n < 24"
  defines "f \<equiv> pad8 n"
  shows "bytes_bits ((if 24 < n + f then [word_of_int (drop_bit 24 (int (push_bit f v)))] else [])
      @ (if 16 < n + f then [word_of_int (drop_bit 16 (int (push_bit f v)))] else [])
      @ (if 8 < n + f then [word_of_int (drop_bit 8 (int (push_bit f v)))] else [])
      @ [word_of_int (int (push_bit f v))]) = nat_bits n v @ replicate f False"
proof -
  have "1 \<le> (n + 7) div 8" "(n + 7) div 8 \<le> 3" using assms(1,2) by simp_all
  then consider "n + f = 8" | "n + f = 16" | "n + f = 24"
    using pad8_add [of n] unfolding f_def by fastforce
  then show ?thesis
    unfolding nat_bits_push [symmetric]
    by cases (simp_all add: bytes_bits_Cons nat_bits_24 nat_bits_16 flip: of_nat_drop_bit)
qed

lemma get_many_bits_loop_tail:
  assumes wf: "pd_wf pd" and n: "n \<le> length (pd_bits pd)" "0 < n" "n < 24"
  shows "\<exists>dst pd'. asn_get_many_bits_loop pd (int n) = (0, dst, pd') \<and> pd_adv pd n pd'
     \<and> bytes_bits dst = take n (pd_bits pd) @ replicate (pad8 n) False"
proof -
  obtain pd' where g: "asn_get_few_bits pd (int n) = (int (bits_val (take n (pd_bits pd))), pd')"
    and adv: "pd_adv pd n pd'"
    using get_few_bits_ok [OF wf n(1)] n by auto
  have fill: "(if int n mod 8 = 0 then 0 else 8 - int n mod 8) = int (pad8 n)"
  proof -
    have im: "int n mod 8 = int (n mod 8)" by (simp add: zmod_int)
    have "n mod 8 < 8" by simp
    then show ?thesis unfolding im pad8_mod
      by (cases "n mod 8 = 0") (simp_all add: of_nat_diff less_imp_le del: of_nat_mod)
  qed
  have tk: "nat_bits n (bits_val (take n (pd_bits pd))) = take n (pd_bits pd)"
    using n(1) by (rule nat_bits_take)
  define f where "f = pad8 n"
  define V where "V = push_bit f (bits_val (take n (pd_bits pd)))"
  define dst :: "byte list" where
    "dst = (if 24 < n + f then [word_of_int (drop_bit 24 (int V))] else [])
      @ (if 16 < n + f then [word_of_int (drop_bit 16 (int V))] else [])
      @ (if 8 < n + f then [word_of_int (drop_bit 8 (int V))] else [])
      @ [word_of_int (int V)]"
  have ints: "push_bit f (int (bits_val (take n (pd_bits pd)))) = int V"
    "\<And>k. (numeral k < int n + int f) = (numeral k < n + f)"
    by (simp_all add: V_def of_nat_push_bit) (metis of_nat_add of_nat_less_iff of_nat_numeral)
  have "asn_get_many_bits_loop pd (int n) = (0, dst, pd')"
    using n g by (subst asn_get_many_bits_loop.simps) (simp add: Let_def fill f_def [symmetric] ints dst_def del: of_int_of_nat_eq)
  moreover have "bytes_bits dst = take n (pd_bits pd) @ replicate (pad8 n) False"
    unfolding dst_def V_def f_def tail_octets [OF n(2,3)] tk ..
  ultimately show ?thesis using adv by blast
qed

lemma get_many_bits_loop_ok:
  assumes "pd_wf pd" "n \<le> length (pd_bits pd)"
  shows "\<exists>dst pd'. asn_get_many_bits_loop pd (int n) = (0, dst, pd') \<and> pd_adv pd n pd'
     \<and> bytes_bits dst = take n (pd_bits pd) @ replicate (pad8 n) False"
  using assms
proof (induction n arbitrary: pd rule: less_induct)
  case (less n)
  consider "n = 0" | "0 < n" "n < 24" | "24 \<le> n" by linarith
  then show ?case
  proof cases
    case 1
    then show ?thesis using less.prems(1)
      by (subst asn_get_many_bits_loop.simps) (simp add: pd_adv_refl pad8_def)
  next
    case 2
    then show ?thesis using get_many_bits_loop_tail less.prems by blast
  next
    case 3
    then obtain k where k: "n = k + 24" by (metis add.commute le_Suc_ex)
    have tk24: "take 24 (pd_bits pd) = nat_bits 24 (bits_val (take 24 (pd_bits pd)))"
      using nat_bits_take [of 24 "pd_bits pd"] less.prems k by simp
    obtain pd1 where g: "asn_get_few_bits pd 24 = (int (bits_val (take 24 (pd_bits pd))), pd1)"
      and a1: "pd_adv pd 24 pd1"
      using get_few_bits_ok [OF less.prems(1), of 24] less.prems k by auto
    have wf1: "pd_wf pd1" and b1: "pd_bits pd1 = drop 24 (pd_bits pd)"
      using a1 by (auto simp: pd_adv_bits)
    have "k < n" "k \<le> length (pd_bits pd1)" using k less.prems b1 by auto
    from less.IH [OF this(1) wf1 this(2)] obtain dst pd2 where
      l: "asn_get_many_bits_loop pd1 (int k) = (0, dst, pd2)" and a2: "pd_adv pd1 k pd2"
      and d: "bytes_bits dst = take k (drop 24 (pd_bits pd)) @ replicate (pad8 k) False"
      by (auto simp: b1)
    have tk: "take n (pd_bits pd) = take 24 (pd_bits pd) @ take k (drop 24 (pd_bits pd))"
      by (simp add: k take_add add.commute [of k 24])
    define v where "v = bits_val (take 24 (pd_bits pd))"
    have "asn_get_many_bits_loop pd (int n) =
        (0, [word_of_int (drop_bit 16 (int v)), word_of_int (drop_bit 8 (int v)), word_of_int (int v)] @ dst, pd2)"
      using g l k unfolding v_def by (subst asn_get_many_bits_loop.simps) simp
    moreover have "pd_adv pd n pd2" using pd_adv_trans [OF a1 a2] by (simp add: k add.commute)
    moreover have "bytes_bits ([word_of_int (drop_bit 16 (int v)), word_of_int (drop_bit 8 (int v)),
        word_of_int (int v)] @ dst) = take n (pd_bits pd) @ replicate (pad8 n) False"
      unfolding bytes_bits_append three_octets d tk v_def tk24 [symmetric] by (simp add: k pad8_add_24)
    ultimately show ?thesis by blast
  qed
qed

lemma get_many_bits_loop_adv:
  assumes "pd_wf pd" "asn_get_many_bits_loop pd n = (r, dst, pd')"
  shows "\<exists>m. pd_adv pd m pd' \<and> (r = -1 \<or> r = 0 \<and> 0 \<le> n \<and> nat n = m)"
  using assms
proof (induction pd n arbitrary: r dst pd' rule: asn_get_many_bits_loop.induct)
  case (1 pd n)
  note eq = "1.prems"(2) [unfolded asn_get_many_bits_loop.simps [of pd n]]
  show ?case
  proof (cases "24 \<le> n")
    case False
    show ?thesis
      by (rule get_few_bits_cases [OF "1.prems"(1), of n])
        (use "1.prems"(1) eq False pd_adv_refl in \<open>auto simp: Let_def split: if_splits\<close>)
  next
    case True
    show ?thesis
    proof (rule get_few_bits_cases [OF "1.prems"(1), of 24])
      fix pd1 assume "asn_get_few_bits pd 24 = (-1, pd1)" "pd_adv pd 0 pd1"
      then show ?thesis using eq True by auto
    next
      fix m pd1 assume g: "24 = int m" "asn_get_few_bits pd 24 = (int (bits_val (take m (pd_bits pd))), pd1)"
        and a: "pd_adv pd m pd1"
      obtain dst2 where l: "asn_get_many_bits_loop pd1 (n - 24) = (r, dst2, pd')"
        using eq True g by (auto split: prod.splits)
      have "\<exists>k. pd_adv pd1 k pd' \<and> (r = -1 \<or> r = 0 \<and> 0 \<le> n - 24 \<and> nat (n - 24) = k)"
        using "1.IH" [OF _ True g(2) [symmetric]] True g a l by (auto dest: pd_adv_wf)
      then show ?thesis using pd_adv_trans [OF a] g(1) True by force
    qed
  qed
qed

text \<open>The interface used by the codecs: left-aligned extraction (\<open>alright\<close> is 0 in every call).\<close>

lemma get_many_bits_prefix:
  assumes "pd_wf pd" "pd_bits pd = bs @ rest" "n = int (length bs)"
  obtains dst pd' where "asn_get_many_bits pd False n = (0, dst, pd')" "pd_adv pd (length bs) pd'"
    "bytes_bits dst = bs @ replicate (pad8 (length bs)) False" "pd_bits pd' = rest"
  using get_many_bits_loop_ok [OF assms(1), of "length bs"] assms
  by (auto simp: asn_get_many_bits_def pd_adv_bits)

lemma get_many_bits_adv:
  assumes "pd_wf pd" "asn_get_many_bits pd False n = (r, dst, pd')"
  shows "\<exists>m. pd_adv pd m pd' \<and> (r = -1 \<or> r = 0 \<and> 0 \<le> n \<and> nat n = m)"
  using get_many_bits_loop_adv assms by (simp add: asn_get_many_bits_def)

end
