(* ===== verification/Bit_Write.thy ===== *)
theory Bit_Write
  imports Bit_Data
begin

unbundle bit_operations_syntax

text \<open>
  Correctness of the output side of \<open>asn_bit_data.c\<close>: \<open>asn_put_few_bits\<close>,
  \<open>asn_put_many_bits\<close> and the two flushes append to \<open>po_bits\<close>, stay inside \<open>tmpspace[32]\<close> and
  their source, and fail only when the output callback fails.
\<close>

section \<open>The abstraction\<close>

definition po_wf :: "asn_bit_outp \<Rightarrow> bool" where
  "po_wf po \<longleftrightarrow> \<not> po_fault po \<and> length (po_tmpspace po) = 32
     \<and> 8 * po_buffer po + po_nbits po = 256 \<and> po_nboff po \<le> po_nbits po
     \<and> po_flushed_bytes po = length (sink_bytes (po_output po))"

definition po_bits :: "asn_bit_outp \<Rightarrow> bits" where
  "po_bits po = bytes_bits (sink_bytes (po_output po))
     @ take (8 * po_buffer po + po_nboff po) (bytes_bits (po_tmpspace po))"

text \<open>A callback that never refuses data: all but \<open>encode_to_buffer_cb\<close>.\<close>

fun sink_unbounded :: "asn_sink \<Rightarrow> bool" where
  "sink_unbounded (Encode_To_Buffer left old) = False"
| "sink_unbounded _ = True"

definition po_app :: "asn_bit_outp \<Rightarrow> bits \<Rightarrow> asn_bit_outp \<Rightarrow> bool" where
  "po_app po bs po' \<longleftrightarrow> po_wf po' \<and> po_bits po' = po_bits po @ bs
     \<and> (sink_unbounded (po_output po) \<longrightarrow> sink_unbounded (po_output po'))"

lemma po_app_refl: "po_wf po \<Longrightarrow> po_app po [] po"
  by (simp add: po_app_def)

lemma po_app_trans: "po_app po xs po1 \<Longrightarrow> po_app po1 ys po2 \<Longrightarrow> po_app po (xs @ ys) po2"
  by (auto simp: po_app_def)

lemma po_app_wf [dest]: "po_app po bs po' \<Longrightarrow> po_wf po'"
  by (simp add: po_app_def)

lemma sink_output_Some:
  assumes "sink_output s data = Some s'"
  shows "sink_bytes s' = sink_bytes s @ data" "sink_unbounded s' = sink_unbounded s"
  using assms
  by (cases s; auto simp: ignore_output_def encode_to_buffer_cb_def encode_dyn_cb_def write_buffer_def write_null_def Let_def split: if_splits)+

lemma sink_output_unbounded: "sink_unbounded s \<Longrightarrow> \<exists>s'. sink_output s data = Some s'"
  by (cases s) (auto simp: ignore_output_def encode_dyn_cb_def write_buffer_def write_null_def Let_def)

section \<open>Normalising and flushing\<close>

lemma po_normalize_wf: "po_wf po \<Longrightarrow> po_wf (po_normalize po)"
proof -
  assume wf: "po_wf po"
  have "8 * (po_nboff po div 8) + po_nboff po mod 8 = po_nboff po" by simp
  with wf have "po_nboff po mod 8 \<le> po_nbits po - 8 * (po_nboff po div 8)"
    "8 * (po_nboff po div 8) \<le> po_nbits po"
    unfolding po_wf_def by linarith+
  with wf show ?thesis unfolding po_wf_def po_normalize_def by (auto simp: distrib_left)
qed

lemma po_normalize_bits: "po_bits (po_normalize po) = po_bits po"
  by (simp add: po_bits_def po_normalize_def distrib_left add.commute)

lemma po_normalize_output [simp]: "po_output (po_normalize po) = po_output po"
  by (simp add: po_normalize_def)

lemma po_flush_Some:
  assumes wf: "po_wf po" and p: "po_nboff po < 8" and n: "n < 32"
    and fl: "po_flush po n = Some po'"
  shows "po_wf po'" "po_bits po' = po_bits po" "po_nboff po' = po_nboff po"
    "po_nboff po' + n \<le> po_nbits po'" "sink_unbounded (po_output po') = sink_unbounded (po_output po)"
proof -
  show nb: "po_nboff po' = po_nboff po" using fl by (rule po_flush_nboff)
  show "po_nboff po' + n \<le> po_nbits po'"
  proof -
    have "po_nbits po' = (if po_nbits po < po_nboff po + n then 256 else po_nbits po)"
      using fl by (auto simp: po_flush_def split: if_splits option.splits)
    with p n show ?thesis unfolding nb by (auto split: if_splits)
  qed
  show "sink_unbounded (po_output po') = sink_unbounded (po_output po)"
    using fl by (auto simp: po_flush_def sink_output_Some split: if_splits option.splits)
  have buf: "po_buffer po \<le> 32" "po_nboff po \<noteq> 0 \<Longrightarrow> po_buffer po < 32"
    using wf by (auto simp: po_wf_def)
  show "po_wf po'"
    using fl wf p by (auto simp: po_wf_def po_flush_def sink_output_Some split: if_splits option.splits)
  show "po_bits po' = po_bits po"
  proof (cases "po_nbits po < po_nboff po + n")
    case False
    then show ?thesis using fl by (simp add: po_flush_def)
  next
    case True
    define T where "T = po_tmpspace po"
    have lenT: "length T = 32" using wf by (simp add: po_wf_def T_def)
    obtain out where out: "sink_output (po_output po) (take (po_buffer po) T) = Some out"
      and po': "po_tmpspace po' = (if po_nboff po \<noteq> 0 then T[0 := ucast (po_byte po 0)] else T)"
        "po_buffer po' = 0" "po_output po' = out"
      using fl True by (auto simp: po_flush_def T_def split: option.splits)
    have "take (po_nboff po) (bytes_bits (po_tmpspace po'))
        = take (po_nboff po) (drop (8 * po_buffer po) (bytes_bits T))"
    proof (cases "po_nboff po = 0")
      case False
      have b0: "ucast (po_byte po 0) = T ! po_buffer po"
        using buf(2) False lenT by (auto simp: po_byte_def T_def intro: bit_word_eqI simp: bit_simps)
      show ?thesis
        using False p buf lenT
        by (intro nth_equalityI) (auto simp: po' b0 nth_bytes_bits)
    qed simp
    moreover have "take (8 * po_buffer po) (bytes_bits T) @ take (po_nboff po) (drop (8 * po_buffer po) (bytes_bits T))
        = take (8 * po_buffer po + po_nboff po) (bytes_bits T)"
      by (simp add: take_add)
    ultimately show ?thesis
      by (simp add: po_bits_def po'(2,3) nb sink_output_Some(1) [OF out] take_bytes_bits [symmetric] T_def [symmetric])
  qed
qed

section \<open>asn_put_few_bits\<close>

lemma bit_byte_high [simp]: "8 \<le> n \<Longrightarrow> \<not> bit (b :: byte) n"
  by (auto dest: bit_imp_le_length)

lemma store_bytes_eq:
  "i + length vs \<le> length mem \<Longrightarrow> store_bytes mem i vs = take i mem @ vs @ drop (i + length vs) mem"
proof (induction vs arbitrary: mem i)
  case Nil
  then show ?case by simp
next
  case (Cons v vs)
  then have "store_bytes (mem[i := v]) (Suc i) vs
      = take (Suc i) (mem[i := v]) @ vs @ drop (Suc i + length vs) (mem[i := v])"
    by (intro Cons.IH) simp
  then show ?case using Cons.prems by (simp add: take_Suc_conv_app_nth take_update_swap upd_conv_take_nth_drop)
qed

lemma store_bits:
  assumes T: "B + length nb \<le> length T" and k: "0 < length nb" and p: "p < 8" "p + n \<le> 8 * length nb"
    and nb: "\<And>j. j < p + n \<Longrightarrow> bytes_bits nb ! j = (if j < p then bit (T ! B) (7 - j) else bit w (p + n - Suc j))"
  shows "take (8 * B + (p + n)) (bytes_bits (store_bytes T B nb)) = take (8 * B + p) (bytes_bits T) @ nat_bits n w"
proof -
  have "take (p + n) (bytes_bits nb) = take p (drop (8 * B) (bytes_bits T)) @ nat_bits n w"
    using assms by (intro nth_equalityI) (auto simp: nth_append nth_bytes_bits add.commute)
  then have "bytes_bits (take B T) @ take (p + n) (bytes_bits nb) = take (8 * B + p) (bytes_bits T) @ nat_bits n w"
    by (simp add: take_add take_bytes_bits)
  moreover have "B \<le> length T" using T by simp
  ultimately show ?thesis using T p(2) by (simp add: store_bytes_eq)
qed

text \<open>
  The octets \<open>asn_put_few_bits\<close> stores: the value shifted to the left end of \<open>k\<close> octets, with
  the old leading bits of the first octet kept.
\<close>

lemma put_octets:
  fixes w :: "32 word" and old :: byte
  assumes p: "p < 8" and off: "p + n \<le> 8 * length ws" and k: "length ws = k" "k \<le> 4"
    and ws: "\<And>m. m < k \<Longrightarrow> ws ! m = (if m = 0 then ucast old AND NOT (push_bit (8 - p) 1 - 1) else 0)
        OR drop_bit (8 * (k - Suc m)) (push_bit (8 * k - (p + n)) (w AND (push_bit n 1 - 1)))"
    and j: "j < p + n" and n: "n < 32"
  shows "bytes_bits (map ucast ws) ! j = (if j < p then bit old (7 - j) else bit (unat w) (p + n - Suc j))"
proof -
  have msk: "(push_bit n 1 - 1 :: 32 word) = mask n" for n
    by (simp add: mask_eq_exp_minus_1 push_bit_eq_mult)
  define m where "m = j div 8"
  define r where "r = j mod 8"
  have jm: "j = 8 * m + r" and r: "r < 8" by (simp_all add: m_def r_def)
  have m: "m < k" using j off k jm by linarith
  have "bytes_bits (map ucast ws) ! j = bit (ucast (ws ! m) :: byte) (7 - r)"
    using nth_bytes_bits [of j "map ucast ws"] j off k m by (simp add: m_def r_def)
  also have "\<dots> \<longleftrightarrow> (if j < p then bit old (7 - j) else bit w (p + n - Suc j))"
  proof -
    have idx: "8 * (k - Suc m) + (7 - r) = 8 * k - Suc j"
    proof -
      from m obtain t where t: "k = Suc m + t" using less_iff_Suc_add by auto
      show ?thesis unfolding t jm using r by (simp add: distrib_left)
    qed
    have A: "bit ((if m = 0 then ucast old AND NOT (mask (8 - p)) else 0) :: 32 word) (7 - r)
        \<longleftrightarrow> j < p \<and> bit old (7 - j)"
    proof (cases "m = 0")
      case True
      then have "r = j" using jm by simp
      moreover have "7 - j < 8 - p \<longleftrightarrow> \<not> j < p" using p r \<open>r = j\<close> by linarith
      ultimately show ?thesis using True r by (auto simp: bit_simps)
    next
      case False
      then show ?thesis using jm p by simp
    qed
    have B: "bit (drop_bit (8 * (k - Suc m)) (push_bit (8 * k - (p + n)) (w AND mask n))) (7 - r)
        \<longleftrightarrow> p \<le> j \<and> bit w (p + n - Suc j)"
    proof -
      have "8 * k - Suc j < 32" "8 * k - (p + n) \<le> 8 * k - Suc j"
        "8 * k - Suc j - (8 * k - (p + n)) = p + n - Suc j" "p + n - Suc j < n \<longleftrightarrow> p \<le> j"
        "p \<le> j \<Longrightarrow> p + n - Suc j < 32"
        using off k j n by linarith+
      then show ?thesis using n by (auto simp: bit_simps idx)
    qed
    have "bit (ucast (a OR b :: 32 word) :: byte) (7 - r) \<longleftrightarrow> bit a (7 - r) \<or> bit b (7 - r)" for a b
      using r by (auto simp: bit_simps)
    then show ?thesis unfolding ws [OF m] msk by (simp only: A B) auto
  qed
  finally show ?thesis by (simp add: bit_unsigned_iff)
qed

lemma po_store_app:
  fixes w :: "32 word"
  assumes wf: "po_wf po" and p: "p = po_nboff po" "p < 8" "p + n \<le> po_nbits po" and n: "n < 32"
    and k0: "k \<le> 4" "0 < k" "8 * (k - 1) < p + n" "p + n \<le> 8 * k"
    and ws0: "ws = map (\<lambda>m. (if m = 0 then po_byte po 0 AND NOT (push_bit (8 - p) 1 - 1) else 0)
        OR drop_bit (8 * (k - Suc m)) (push_bit (8 * k - (p + n)) (w AND (push_bit n 1 - 1)))) [0..<k]"
  shows "po_app po (nat_bits n (unat w)) (po_store ws (po\<lparr>po_nboff := p + n\<rparr>))"
proof -
  have k: "length ws = k" "k \<le> 4" "0 < k" "8 * (k - 1) < p + n" "p + n \<le> 8 * k"
    and ws: "\<And>m. m < k \<Longrightarrow> ws ! m = (if m = 0 then po_byte po 0 AND NOT (push_bit (8 - p) 1 - 1) else 0)
        OR drop_bit (8 * (k - Suc m)) (push_bit (8 * k - (p + n)) (w AND (push_bit n 1 - 1)))"
    using k0 by (simp_all add: ws0)
  define T where "T = po_tmpspace po"
  define B where "B = po_buffer po"
  have T: "length T = 32" "8 * B + po_nbits po = 256" using wf by (simp_all add: po_wf_def T_def B_def)
  have Bk: "B + k \<le> 32" using T(2) p(3) k by linarith
  have b0: "po_byte po 0 = ucast (T ! B)" using Bk k T by (simp add: po_byte_def T_def B_def)
  have "bytes_bits (map ucast ws) ! j = (if j < p then bit (T ! B) (7 - j) else bit (unat w) (p + n - Suc j))"
    if "j < p + n" for j
    using put_octets [OF p(2) _ k(1,2) _ that n, of "T ! B" w] k ws unfolding b0 by simp
  then have "take (8 * B + (p + n)) (bytes_bits (store_bytes T B (map ucast ws)))
      = take (8 * B + p) (bytes_bits T) @ nat_bits n (unat w)"
    using Bk T k p by (intro store_bits) auto
  moreover have "length (store_bytes T B (map ucast ws)) = 32"
    using Bk T k by (simp add: store_bytes_eq)
  ultimately show ?thesis
    using wf p Bk T k unfolding po_app_def po_wf_def po_bits_def po_store_def T_def B_def by simp
qed

lemma upts: "[0..<1] = [0]" "[0..<2] = [0, 1]" "[0..<3] = [0, 1, 2]" "[0..<4] = [0, 1, 2, 3]"
  by (simp_all add: numeral_eq_Suc)

lemma put_few_bits_direct:
  assumes wf: "po_wf po" and n: "0 < n" "po_nboff po mod 8 + n \<le> 31"
    and fl: "po_flush (po_normalize po) n = Some po1"
  shows "\<exists>po'. asn_put_few_bits po w (int n) = (0, po') \<and> po_app po (nat_bits n (unat w)) po'"
proof -
  have p0: "po_nboff (po_normalize po) < 8" "n < 32" using n by (simp_all add: po_nboff_normalize)
  note f = po_flush_Some [OF po_normalize_wf [OF wf] p0 fl]
  define p where "p = po_nboff po1"
  have p: "p = po_nboff po1" "p < 8" "p + n \<le> po_nbits po1" "p + n \<le> 31"
    using f(3,4) n p0 by (simp_all add: p_def po_nboff_normalize)
  note app = po_store_app [OF f(1) p(1,2,3) p0(2)]
  have lift: "po_app po1 bs po' \<Longrightarrow> po_app po bs po'" for bs po'
    using f(2,5) by (simp add: po_app_def po_normalize_bits)
  have g: "\<not> (int n \<le> 0 \<or> 32 \<le> int n)" using n p0 by simp
  have eq: "asn_put_few_bits po w (int n) =
     (let omsk = NOT (push_bit (8 - p) 1 - 1); bits = w AND (push_bit n 1 - 1); b0 = po_byte po1 0 AND omsk
      in if p + n \<le> 8 then (0, po_store [b0 OR push_bit (8 - (p + n)) bits] (po1\<lparr>po_nboff := p + n\<rparr>))
         else if p + n \<le> 16 then
           (0, po_store [b0 OR drop_bit 8 (push_bit (16 - (p + n)) bits), push_bit (16 - (p + n)) bits]
              (po1\<lparr>po_nboff := p + n\<rparr>))
         else if p + n \<le> 24 then
           (0, po_store [b0 OR drop_bit 16 (push_bit (24 - (p + n)) bits), drop_bit 8 (push_bit (24 - (p + n)) bits),
              push_bit (24 - (p + n)) bits] (po1\<lparr>po_nboff := p + n\<rparr>))
         else
           (0, po_store [b0 OR drop_bit 24 (push_bit (32 - (p + n)) bits), drop_bit 16 (push_bit (32 - (p + n)) bits),
              drop_bit 8 (push_bit (32 - (p + n)) bits), push_bit (32 - (p + n)) bits] (po1\<lparr>po_nboff := p + n\<rparr>)))"
    using g fl p(4) by (subst asn_put_few_bits.simps) (simp add: Let_def p_def [symmetric])
  consider "p + n \<le> 8" | "8 < p + n" "p + n \<le> 16" | "16 < p + n" "p + n \<le> 24" | "24 < p + n"
    by linarith
  then show ?thesis
  proof cases
    case 1
    then show ?thesis using n lift [OF app [of 1, OF _ _ _ _ refl]] by (simp add: eq Let_def upts)
  next
    case 2
    then show ?thesis using n lift [OF app [of 2, OF _ _ _ _ refl]] by (simp add: eq Let_def upts)
  next
    case 3
    then show ?thesis using n lift [OF app [of 3, OF _ _ _ _ refl]] by (simp add: eq Let_def upts)
  next
    case 4
    then show ?thesis using n p(4) lift [OF app [of 4, OF _ _ _ _ refl]] by (simp add: eq Let_def upts)
  qed
qed

lemma put_few_bits_refused:
  assumes wf: "po_wf po" and n: "0 < n" "n \<le> 31" and fl: "po_flush (po_normalize po) n = None"
  shows "asn_put_few_bits po w (int n) = (-1, po_normalize po)" "\<not> sink_unbounded (po_output po)"
proof -
  show "asn_put_few_bits po w (int n) = (-1, po_normalize po)"
    using n fl by (subst asn_put_few_bits.simps) simp
  show "\<not> sink_unbounded (po_output po)"
    using fl sink_output_unbounded [of "po_output po" "take (po_buffer (po_normalize po)) (po_tmpspace (po_normalize po))"]
    by (auto simp: po_flush_def split: if_splits option.splits)
qed

text \<open>Either the bits are appended, or the callback refused data and \<open>-1\<close> is returned.\<close>

definition put_result :: "asn_bit_outp \<Rightarrow> bits \<Rightarrow> int \<times> asn_bit_outp \<Rightarrow> bool" where
  "put_result po bs res \<longleftrightarrow>
     fst res = 0 \<and> po_app po bs (snd res)
     \<or> fst res = -1 \<and> po_wf (snd res) \<and> \<not> sink_unbounded (po_output po)"

lemma put_result_direct:
  assumes "po_wf po" "0 < n" "po_nboff po mod 8 + n \<le> 31"
  shows "put_result po (nat_bits n (unat w)) (asn_put_few_bits po w (int n))"
proof (cases "po_flush (po_normalize po) n")
  case None
  then show ?thesis using assms put_few_bits_refused [OF assms(1,2) _ None] po_normalize_wf
    by (simp add: put_result_def)
next
  case (Some po1)
  then show ?thesis using put_few_bits_direct [OF assms Some, of w] by (auto simp: put_result_def)
qed

lemma put_result_bind:
  assumes "put_result po xs r1" "\<And>po1. po_app po xs po1 \<Longrightarrow> fst r1 = 0 \<Longrightarrow> snd r1 = po1 \<Longrightarrow> put_result po1 ys (f po1)"
  shows "put_result po (xs @ ys) (if fst r1 \<noteq> 0 then (-1, snd r1) else f (snd r1))"
  using assms by (force simp: put_result_def po_app_def)

lemma put_result_norm:
  "put_result po bs r \<Longrightarrow> put_result po bs (if fst r \<noteq> 0 then (-1, snd r) else (0, snd r))"
  by (auto simp: put_result_def)

lemma nat_bits_unat_mask:
  "nat_bits n (unat (drop_bit m (w AND mask k) :: 32 word)) = nat_bits n (unat (drop_bit m w))" if "n + m \<le> k"
  using that by (intro nth_equalityI) (auto simp: bit_simps bit_unsigned_iff dest: bit_imp_le_length)

lemma put_few_bits_result:
  assumes wf: "po_wf po" and n: "0 \<le> n" "n \<le> 31"
  shows "put_result po (nat_bits (nat n) (unat w)) (asn_put_few_bits po w n)"
proof -
  obtain m where m: "n = int m" "m \<le> 31" using n by (metis nat_le_iff nat_numeral nonneg_int_cases of_nat_le_iff of_nat_numeral)
  consider "m = 0" | "0 < m" "po_nboff po mod 8 + m \<le> 31" | "0 < m" "31 < po_nboff po mod 8 + m" by linarith
  then show ?thesis
  proof cases
    case 1
    then show ?thesis using wf m by (subst asn_put_few_bits.simps) (simp add: put_result_def po_app_refl)
  next
    case 2
    then show ?thesis using put_result_direct [OF wf] m by simp
  next
    case 3
    show ?thesis
    proof (cases "po_flush (po_normalize po) m")
      case None
      then show ?thesis using put_few_bits_refused [OF wf 3(1) m(2) None] wf m po_normalize_wf
        by (simp add: put_result_def)
    next
      case (Some po1)
      have p0: "po_nboff (po_normalize po) < 8" "m < 32" using m by (simp_all add: po_nboff_normalize)
      note f = po_flush_Some [OF po_normalize_wf [OF wf] p0 Some]
      have m24: "24 < m" using 3 p0 by (simp add: po_nboff_normalize)
      have msk: "(push_bit k 1 - 1 :: 32 word) = mask k" for k
        by (simp add: mask_eq_exp_minus_1 push_bit_eq_mult)
      define r1 where "r1 = asn_put_few_bits po1 (drop_bit (m - 24) (w AND mask m)) (int 24)"
      define r2 where "r2 po2 = asn_put_few_bits po2 (w AND mask m) (int (m - 24))" for po2
      have lift: "put_result po1 bs r \<Longrightarrow> put_result po bs r" for bs r
        using f(2,5) by (simp add: po_app_def put_result_def po_normalize_bits)
      have "put_result po1 (nat_bits 24 (unat (drop_bit (m - 24) w))) r1"
        unfolding r1_def using put_result_direct [OF f(1), of 24 "drop_bit (m - 24) (w AND mask m)"] p0 f(3) m24
          nat_bits_unat_mask [of 24 "m - 24" m w] by simp
      moreover have "put_result po2 (nat_bits (m - 24) (unat w)) (r2 po2)" if "po_wf po2" for po2
        unfolding r2_def
        using put_result_direct [OF that, of "m - 24" "w AND mask m"] m m24 mod_less_divisor [of 8 "po_nboff po2"]
          nat_bits_unat_mask [of "m - 24" 0 m w] by simp
      ultimately have "put_result po1 (nat_bits 24 (unat (drop_bit (m - 24) w)) @ nat_bits (m - 24) (unat w))
          (if fst r1 \<noteq> 0 then (-1, snd r1) else (if fst (r2 (snd r1)) \<noteq> 0 then (-1, snd (r2 (snd r1))) else (0, snd (r2 (snd r1)))))"
        by (intro put_result_bind put_result_norm) auto
      moreover have "nat_bits 24 (unat (drop_bit (m - 24) w)) @ nat_bits (m - 24) (unat w) = nat_bits m (unat w)"
        using nat_bits_add [of 24 "m - 24" "unat w"] m24 by (simp add: unat_drop_bit_eq)
      moreover have "asn_put_few_bits po w n = (if fst r1 \<noteq> 0 then (-1, snd r1)
          else (if fst (r2 (snd r1)) \<noteq> 0 then (-1, snd (r2 (snd r1))) else (0, snd (r2 (snd r1)))))"
        unfolding r1_def r2_def using m m24 Some f(3) 3
        by (subst asn_put_few_bits.simps)
          (simp add: Let_def nat_diff_distrib po_nboff_normalize case_prod_beta flip: mask_eq_exp_minus_1)
      ultimately show ?thesis using lift m by simp
    qed
  qed
qed

section \<open>asn_put_many_bits\<close>

lemma src_check_ok: "k \<le> length src \<Longrightarrow> src_check src k po = po"
  by (simp add: src_check_def)

lemma nat_bits_take_high: "nat_bits n (drop_bit d v) = take n (nat_bits (n + d) v)"
  by (simp add: nat_bits_add)

lemma src_value1: "1 \<le> length src \<Longrightarrow> nat_bits 8 (unat (src_byte src 0)) = bytes_bits (take 1 src)"
  by (cases src) (auto simp: src_byte_def bytes_bits_Cons bit_unsigned_iff bit_simps intro!: nth_equalityI)

lemma src_value2:
  assumes "2 \<le> length src"
  shows "nat_bits 16 (unat (push_bit 8 (src_byte src 0) OR src_byte src 1)) = bytes_bits (take 2 src)"
proof -
  obtain a b rest where src: "src = a # b # rest" using assms by (auto simp: Suc_le_length_iff numeral_eq_Suc)
  have "nat_bits 8 (drop_bit 8 (unat (push_bit 8 (ucast a) OR ucast b :: 32 word))) = byte_bits a"
    "nat_bits 8 (unat (push_bit 8 (ucast a) OR ucast b :: 32 word)) = byte_bits b"
    by (auto simp: bit_simps bit_unsigned_iff intro!: nth_equalityI dest: bit_imp_le_length)
  then show ?thesis by (simp add: src src_byte_def nat_bits_16 bytes_bits_Cons)
qed

lemma src_value3:
  assumes "3 \<le> length src"
  shows "nat_bits 24 (unat (push_bit 16 (src_byte src 0) OR push_bit 8 (src_byte src 1) OR src_byte src 2))
    = bytes_bits (take 3 src)"
proof -
  obtain a b c rest where src: "src = a # b # c # rest" using assms by (auto simp: Suc_le_length_iff numeral_eq_Suc)
  define W :: "32 word" where "W = push_bit 16 (ucast a) OR push_bit 8 (ucast b) OR ucast c"
  have "nat_bits 8 (drop_bit 16 (unat W)) = byte_bits a" "nat_bits 8 (drop_bit 8 (unat W)) = byte_bits b"
    "nat_bits 8 (unat W) = byte_bits c"
    by (auto simp: W_def bit_simps bit_unsigned_iff intro!: nth_equalityI dest: bit_imp_le_length)
  then show ?thesis by (simp add: src src_byte_def nat_bits_24 bytes_bits_Cons W_def)
qed

lemma put_many_bits_tail:
  assumes wf: "po_wf po" and n: "n \<le> 8 * length src" "0 < n" "n < 24"
  shows "put_result po (take n (bytes_bits src)) (asn_put_many_bits po src (int n))"
proof -
  define k where "k = (n + 7) div 8"
  have kn: "n + pad8 n = 8 * k" by (simp add: k_def pad8_add)
  have k: "k \<le> length src" "k = 1 \<or> k = 2 \<or> k = 3" using n pad8_less [of n] kn by linarith+
  define V where "V = (if k = 1 then src_byte src 0 else if k = 2 then push_bit 8 (src_byte src 0) OR src_byte src 1
    else push_bit 16 (src_byte src 0) OR push_bit 8 (src_byte src 1) OR src_byte src 2)"
  have "nat_bits (8 * k) (unat V) = bytes_bits (take k src)"
    using k src_value1 src_value2 src_value3 by (auto simp: V_def)
  then have val: "nat_bits n (unat (drop_bit (pad8 n) V)) = take n (bytes_bits src)"
    by (simp add: unat_drop_bit_eq nat_bits_take_high kn take_bytes_bits [symmetric] min_def)
      (use kn in linarith)
  have fill: "(if int n mod 8 \<noteq> 0 then drop_bit (nat (8 - int n mod 8)) x else x) = drop_bit (pad8 n) x"
    for x :: "32 word"
  proof -
    have im: "int n mod 8 = int (n mod 8)" by (simp add: zmod_int)
    have "n mod 8 < 8" by simp
    then show ?thesis unfolding im pad8_mod
      by (cases "n mod 8 = 0") (simp_all add: nat_diff_distrib del: of_nat_mod)
  qed
  have "asn_put_many_bits po src (int n) =
      (let r = asn_put_few_bits po (drop_bit (pad8 n) V) (int n) in if fst r \<noteq> 0 then (-1, snd r) else (0, snd r))"
    using n k kn pad8_less [of n] unfolding asn_put_many_bits.simps [of po src "int n"] Let_def fill
    by (auto simp: V_def or.assoc src_check_ok case_prod_beta)
  then show ?thesis
    using put_result_norm [OF put_few_bits_result [OF wf, of "int n" "drop_bit (pad8 n) V"]] n val
    by (simp add: Let_def)
qed

lemma put_many_bits_result:
  assumes "po_wf po" "n \<le> 8 * length src"
  shows "put_result po (take n (bytes_bits src)) (asn_put_many_bits po src (int n))"
  using assms
proof (induction n arbitrary: po src rule: less_induct)
  case (less n)
  consider "n = 0" | "0 < n" "n < 24" | "24 \<le> n" by linarith
  then show ?case
  proof cases
    case 1
    then show ?thesis using less.prems
      by (subst asn_put_many_bits.simps) (simp add: put_result_def po_app_refl)
  next
    case 2
    then show ?thesis using put_many_bits_tail less.prems by blast
  next
    case 3
    then obtain k where k: "n = 24 + k" by (metis le_Suc_ex)
    define V where "V = push_bit 16 (src_byte src 0) OR push_bit 8 (src_byte src 1) OR src_byte src 2"
    have len: "3 \<le> length src" using less.prems k by linarith
    have r1: "put_result po (bytes_bits (take 3 src)) (asn_put_few_bits po V 24)"
      using put_few_bits_result [OF less.prems(1), of 24 V] src_value3 [OF len] by (simp add: V_def)
    have "put_result po1 (take k (bytes_bits (drop 3 src))) (asn_put_many_bits po1 (drop 3 src) (int k))"
      if "po_wf po1" for po1 using less.IH [OF _ that, of k "drop 3 src"] less.prems k len by simp
    then have "put_result po (bytes_bits (take 3 src) @ take k (bytes_bits (drop 3 src)))
      (let r = asn_put_few_bits po V 24 in if fst r \<noteq> 0 then (-1, snd r) else asn_put_many_bits (snd r) (drop 3 src) (int k))"
      unfolding Let_def by (intro put_result_bind [OF r1]) auto
    moreover have "bytes_bits (take 3 src) @ take k (bytes_bits (drop 3 src)) = take n (bytes_bits src)"
      using take_add [of 24 k "bytes_bits src"] take_bytes_bits [of 3 src] drop_bytes_bits [of 3 src] by (simp add: k)
    moreover have "asn_put_many_bits po src (int n) =
      (let r = asn_put_few_bits po V 24 in if fst r \<noteq> 0 then (-1, snd r) else asn_put_many_bits (snd r) (drop 3 src) (int k))"
      using len by (subst asn_put_many_bits.simps) (simp add: k Let_def V_def src_check_ok case_prod_beta)
    ultimately show ?thesis by (simp only:)
  qed
qed

text \<open>Into a callback that accepts everything, writing always succeeds.\<close>

lemma put_result_unbounded:
  assumes "put_result po bs res" "sink_unbounded (po_output po)"
  obtains po' where "res = (0, po')" "po_app po bs po'"
  using assms by (cases res) (auto simp: put_result_def)

text \<open>What a call wrote.\<close>

definition po_written :: "asn_bit_outp \<Rightarrow> asn_bit_outp \<Rightarrow> bits" where
  "po_written po po' = drop (length (po_bits po)) (po_bits po')"

lemma po_written_app: "po_app po bs po' \<Longrightarrow> po_written po po' = bs"
  by (simp add: po_written_def po_app_def)

end
