(* ===== verification/Per_Support.thy ===== *)
theory Per_Support
  imports Bit_Read Bit_Write
begin

unbundle bit_operations_syntax

text \<open>
  \<open>vanetza-extension/asn1/support/per_support.c\<close>: length determinants, normally small numbers,
  constrained whole numbers and the rebasing of \<open>long\<close> ranges.

  A C \<open>long\<close> or \<open>ssize_t\<close> is an \<open>int\<close> (the lemmas state the 64-bit range they rely on), an
  \<open>unsigned long\<close> a \<open>64 word\<close>; output parameters are components of the result. A failing
  \<open>assert\<close> is the error result.
\<close>

section \<open>Definitions\<close>

abbreviation LONG_MAX :: int where "LONG_MAX \<equiv> 2 ^ 63 - 1"
abbreviation LONG_MIN :: int where "LONG_MIN \<equiv> - (2 ^ 63)"

abbreviation is_long :: "int \<Rightarrow> bool" where
  "is_long v \<equiv> LONG_MIN \<le> v \<and> v \<le> LONG_MAX"

definition uper_get_length :: "asn_bit_data \<Rightarrow> int \<Rightarrow> int \<Rightarrow> int \<times> bool \<times> asn_bit_data" where
  "uper_get_length pd ebits lower_bound =
     (if 0 \<le> ebits \<and> ebits \<le> 16 then
        (case asn_get_few_bits pd ebits of
           (value, pd) \<Rightarrow> (if 0 \<le> value then value + lower_bound else value, False, pd))
      else
        (case asn_get_few_bits pd 8 of
           (value, pd) \<Rightarrow>
             if value AND 0x80 = 0 then (value AND 0x7F, False, pd)
             else if value AND 0x40 = 0 then
               (case asn_get_few_bits pd 8 of
                  (low, pd) \<Rightarrow> (push_bit 8 (value AND 0x3F) OR low, False, pd))
             else if value < 0 then (-1, False, pd)
             else if value AND 0x3F < 1 \<or> 4 < value AND 0x3F then (-1, False, pd)
             else (16384 * (value AND 0x3F), True, pd)))"

definition uper_get_nslength :: "asn_bit_data \<Rightarrow> int \<times> asn_bit_data" where
  "uper_get_nslength pd =
     (case asn_get_few_bits pd 1 of
        (first, pd) \<Rightarrow>
          if first = 0 then
            (case asn_get_few_bits pd 6 of
               (low, pd) \<Rightarrow> if low + 1 \<le> 0 then (-1, pd) else (low + 1, pd))
          else
            (case uper_get_length pd (-1) 0 of
               (len, repeat, pd) \<Rightarrow> if 0 \<le> len \<and> \<not> repeat then (len, pd) else (-1, pd)))"

definition uper_get_nsnnwn :: "asn_bit_data \<Rightarrow> int \<times> asn_bit_data" where
  "uper_get_nsnnwn pd =
     (case asn_get_few_bits pd 7 of
        (value, pd) \<Rightarrow>
          if value AND 64 \<noteq> 0 then
            (case asn_get_few_bits pd 2 of
               (low, pd) \<Rightarrow>
                 let value = push_bit 2 (value AND 63) OR low
                 in if value AND 128 \<noteq> 0 then (-1, pd)
                    else if value = 0 then (0, pd)
                    else if 3 \<le> value then (-1, pd)
                    else asn_get_few_bits pd (8 * value))
          else (value, pd))"

definition uper_put_nsnnwn :: "asn_bit_outp \<Rightarrow> int \<Rightarrow> int \<times> asn_bit_outp" where
  "uper_put_nsnnwn po n =
     (if n \<le> 63 then (if n < 0 then (-1, po) else asn_put_few_bits po (word_of_int n) 7)
      else if 256 * 65536 \<le> n then (-1, po)
      else
        let bytes = (if n < 256 then 1 else if n < 65536 then 2 else 3)
        in case asn_put_few_bits po (word_of_int bytes) 8 of
             (r, po) \<Rightarrow> if r \<noteq> 0 then (-1, po) else asn_put_few_bits po (word_of_int n) (8 * bytes))"

function uper_get_constrained_whole_number ::
  "asn_bit_data \<Rightarrow> int \<Rightarrow> 64 word option \<times> asn_bit_data" where
  "uper_get_constrained_whole_number pd nbits =
     (if nbits \<le> 31 then
        (case asn_get_few_bits pd nbits of
           (half, pd) \<Rightarrow> if half < 0 then (None, pd) else (Some (word_of_int half), pd))
      else if 64 < nbits then (None, pd)
      else
        (case asn_get_few_bits pd 31 of
           (half, pd) \<Rightarrow>
             if half < 0 then (None, pd)
             else
               (case uper_get_constrained_whole_number pd (nbits - 31) of
                  (None, pd) \<Rightarrow> (None, pd)
                | (Some lhalf, pd) \<Rightarrow>
                    (Some (push_bit (nat (nbits - 31)) (word_of_int half) OR lhalf), pd))))"
  by pat_completeness auto
termination
  by (relation "measure (\<lambda>(pd, n). nat n)") auto

declare uper_get_constrained_whole_number.simps [simp del]

function uper_put_constrained_whole_number_u ::
  "asn_bit_outp \<Rightarrow> 64 word \<Rightarrow> int \<Rightarrow> int \<times> asn_bit_outp" where
  "uper_put_constrained_whole_number_u po v nbits =
     (if nbits \<le> 31 then asn_put_few_bits po (ucast v) nbits
      else
        (case uper_put_constrained_whole_number_u po (drop_bit 31 v) (nbits - 31) of
           (r, po) \<Rightarrow> if r \<noteq> 0 then (-1, po) else asn_put_few_bits po (ucast v) 31))"
  by pat_completeness auto
termination
  by (relation "measure (\<lambda>(po, v, n). nat n)") auto

declare uper_put_constrained_whole_number_u.simps [simp del]

text \<open>Return value, \<open>*need_eom\<close> and stream.\<close>

definition uper_put_length :: "asn_bit_outp \<Rightarrow> nat \<Rightarrow> int \<times> bool \<times> asn_bit_outp" where
  "uper_put_length po len =
     (if len \<le> 127 then
        (case asn_put_few_bits po (word_of_nat len) 8 of
           (r, po) \<Rightarrow> (if r \<noteq> 0 then -1 else int len, False, po))
      else if len < 16384 then
        (case asn_put_few_bits po (word_of_nat (len OR 0x8000)) 16 of
           (r, po) \<Rightarrow> (if r \<noteq> 0 then -1 else int len, False, po))
      else
        let need_eom = (len AND 16383 = 0);
            units = drop_bit 14 len;
            need_eom = (if 4 < units then False else need_eom);
            units = (if 4 < units then 4 else units)
        in case asn_put_few_bits po (word_of_nat (0xC0 OR units)) 8 of
             (r, po) \<Rightarrow> (if r \<noteq> 0 then -1 else int (push_bit 14 units), need_eom, po))"

definition uper_put_nslength :: "asn_bit_outp \<Rightarrow> nat \<Rightarrow> int \<times> asn_bit_outp" where
  "uper_put_nslength po len =
     (if len \<le> 64 then
        (if len = 0 then (-1, po)
         else
           (case asn_put_few_bits po (word_of_nat (len - 1)) 7 of
              (r, po) \<Rightarrow> (if r \<noteq> 0 then -1 else 0, po)))
      else
        (case uper_put_length po len of
           (r, need_eom, po) \<Rightarrow> if r \<noteq> int len \<or> need_eom then (-1, po) else (0, po)))"

definition per__long_range :: "int \<Rightarrow> int \<Rightarrow> 64 word option" where
  "per__long_range lb ub =
     (if (ub < 0) = (lb < 0) then Some (word_of_int (ub - lb))
      else if lb < 0 then Some (1 + (word_of_int ub + word_of_int (- (lb + 1))))
      else None)"

definition per_long_range_rebase :: "int \<Rightarrow> int \<Rightarrow> int \<Rightarrow> 64 word option" where
  "per_long_range_rebase v lb ub =
     (if ub < lb then None
      else if v < lb \<or> ub < v \<or> per__long_range lb ub = None then None
      else if (v < 0) = (lb < 0) then Some (word_of_int (v - lb))
      else if v < 0 then Some (1 + word_of_int (- (v + 1)) + word_of_int lb)
      else if lb < 0 then Some (1 + word_of_int (- (lb + 1)) + word_of_int v)
      else None)"

definition per_long_range_unrebase :: "64 word \<Rightarrow> int \<Rightarrow> int \<Rightarrow> int option" where
  "per_long_range_unrebase inp lb ub =
     (case per__long_range lb ub of
        None \<Rightarrow> None
      | Some rng \<Rightarrow>
          if rng < inp then None
          else if inp \<le> word_of_int LONG_MAX then Some (uint inp + lb)
          else Some ((lb + LONG_MAX + 1) + uint ((inp - word_of_int LONG_MAX) - 1)))"

section \<open>Ranges\<close>

lemma uint_of_int_64: "0 \<le> x \<Longrightarrow> x < 2 ^ 64 \<Longrightarrow> uint (word_of_int x :: 64 word) = x"
  by (simp add: unsigned_of_int take_bit_int_eq_self del: of_int_diff)

lemma per__long_range_spec:
  assumes "is_long lb" "is_long ub" "lb \<le> ub"
  shows "\<exists>r. per__long_range lb ub = Some r \<and> uint r = ub - lb"
proof (cases "(ub < 0) = (lb < 0)")
  case True
  then have "0 \<le> ub - lb" "ub - lb < 2 ^ 64" using assms by auto
  then have "uint (word_of_int (ub - lb) :: 64 word) = ub - lb"
    by (rule uint_of_int_64)
  then show ?thesis using True by (simp add: per__long_range_def)
next
  case False
  then have s: "lb < 0" "0 \<le> ub" using assms by auto
  have "1 + (word_of_int ub + word_of_int (- (lb + 1))) = (word_of_int (ub - lb) :: 64 word)"
    by simp
  moreover have "0 \<le> ub - lb" "ub - lb < 2 ^ 64" using assms s by auto
  then have "uint (word_of_int (ub - lb) :: 64 word) = ub - lb"
    by (rule uint_of_int_64)
  ultimately show ?thesis using False s by (simp add: per__long_range_def)
qed

lemma rebase_spec:
  assumes "is_long lb" "is_long ub" "lb \<le> v" "v \<le> ub"
  shows "\<exists>r. per_long_range_rebase v lb ub = Some r \<and> uint r = v - lb"
proof -
  have range: "0 \<le> v - lb" "v - lb < 2 ^ 64" using assms by auto
  have u: "uint (word_of_int (v - lb) :: 64 word) = v - lb"
    using range by (rule uint_of_int_64)
  have "per_long_range_rebase v lb ub = Some (word_of_int (v - lb))"
    using assms per__long_range_spec [of lb ub]
    by (auto simp: per_long_range_rebase_def)
  then show ?thesis using u by simp
qed

lemma rebase_out_of_range: "v < lb \<or> ub < v \<Longrightarrow> per_long_range_rebase v lb ub = None"
  by (auto simp: per_long_range_rebase_def)

lemma unrebase_spec:
  assumes "is_long lb" "is_long ub" "lb \<le> ub"
  shows "per_long_range_unrebase inp lb ub = (if uint inp \<le> ub - lb then Some (lb + uint inp) else None)"
proof -
  obtain r where r: "per__long_range lb ub = Some r" "uint r = ub - lb"
    using per__long_range_spec [OF assms] by blast
  have lm: "uint (word_of_int LONG_MAX :: 64 word) = LONG_MAX" by simp
  have "uint ((inp - word_of_int LONG_MAX) - 1) = uint inp - LONG_MAX - 1" if "LONG_MAX < uint inp"
  proof -
    have "(inp - word_of_int LONG_MAX) - 1 = word_of_int (uint inp - LONG_MAX - 1)" by simp
    moreover have "0 \<le> uint inp - LONG_MAX - 1" "uint inp - LONG_MAX - 1 < 2 ^ 64"
      using that uint_lt2p [of inp] by auto
    ultimately show ?thesis using uint_of_int_64 by presburger
  qed
  then show ?thesis
    unfolding per_long_range_unrebase_def r(1) by (auto simp: word_less_def word_le_def r(2))
qed

section \<open>Readers move forward\<close>

definition pd_moves :: "asn_bit_data \<Rightarrow> asn_bit_data \<Rightarrow> bool" where
  "pd_moves pd pd' \<longleftrightarrow> (\<exists>n. pd_adv pd n pd')"

lemma pd_moves_refl: "pd_wf pd \<Longrightarrow> pd_moves pd pd"
  using pd_adv_refl by (auto simp: pd_moves_def)

lemma pd_moves_trans: "pd_moves a b \<Longrightarrow> pd_moves b c \<Longrightarrow> pd_moves a c"
  using pd_adv_trans by (fastforce simp: pd_moves_def)

lemma pd_moves_wf: "pd_moves a b \<Longrightarrow> pd_wf b"
  by (auto simp: pd_moves_def)

lemma pd_adv_moves: "pd_adv a n b \<Longrightarrow> pd_moves a b"
  by (auto simp: pd_moves_def)

lemma get_few_bits_moves: "asn_get_few_bits pd n = (v, pd') \<Longrightarrow> pd_wf pd \<Longrightarrow> pd_moves pd pd'"
  using get_few_bits_adv(1) by (simp add: pd_moves_def)

lemma get_many_bits_moves:
  "asn_get_many_bits pd False n = (v, dst, pd') \<Longrightarrow> pd_wf pd \<Longrightarrow> pd_moves pd pd'"
  using get_many_bits_adv by (fastforce simp: pd_moves_def)

lemma uper_get_length_moves:
  "uper_get_length pd e lb = (v, rep, pd') \<Longrightarrow> pd_wf pd \<Longrightarrow> pd_moves pd pd'"
  by (auto simp: uper_get_length_def split: prod.splits if_splits
      dest: get_few_bits_moves intro: pd_moves_trans pd_moves_wf)

lemma uper_get_nslength_moves: "uper_get_nslength pd = (v, pd') \<Longrightarrow> pd_wf pd \<Longrightarrow> pd_moves pd pd'"
  by (auto simp: uper_get_nslength_def split: prod.splits if_splits
      dest!: get_few_bits_moves uper_get_length_moves intro: pd_moves_trans dest: pd_moves_wf)

lemma uper_get_nsnnwn_moves: "uper_get_nsnnwn pd = (v, pd') \<Longrightarrow> pd_wf pd \<Longrightarrow> pd_moves pd pd'"
  unfolding uper_get_nsnnwn_def Let_def
  by (auto split: prod.splits if_splits) (meson get_few_bits_moves pd_moves_trans pd_moves_wf)+

lemma constrained_whole_number_moves:
  "uper_get_constrained_whole_number pd n = (v, pd') \<Longrightarrow> pd_wf pd \<Longrightarrow> pd_moves pd pd'"
proof (induction pd n arbitrary: v pd' rule: uper_get_constrained_whole_number.induct)
  case (1 pd n)
  show ?case
  proof (cases "n \<le> 31 \<or> 64 < n")
    case True
    then show ?thesis using "1.prems" get_few_bits_moves pd_moves_refl
      by (subst (asm) uper_get_constrained_whole_number.simps) (auto split: prod.splits if_splits)
  next
    case False
    obtain half pd1 where g: "asn_get_few_bits pd 31 = (half, pd1)" by force
    then have m: "pd_moves pd pd1" using "1.prems"(2) by (rule get_few_bits_moves)
    show ?thesis
    proof (cases "half < 0")
      case True
      then show ?thesis using False g m "1.prems"(1)
        by (subst (asm) uper_get_constrained_whole_number.simps) auto
    next
      case pos: False
      obtain w pd2 where r: "uper_get_constrained_whole_number pd1 (n - 31) = (w, pd2)" by force
      have "pd_moves pd1 pd2" using "1.IH" [OF _ _ g [symmetric] pos r] False m pd_moves_wf by auto
      moreover have "pd' = pd2" using False g pos r "1.prems"(1)
        by (subst (asm) uper_get_constrained_whole_number.simps) (auto split: option.splits)
      ultimately show ?thesis using m pd_moves_trans by blast
    qed
  qed
qed

section \<open>Bit masks as arithmetic\<close>

lemma and_low_mask: "v AND 0x7F = v mod 128" "v AND 0x3F = v mod 64" for v :: int
  using take_bit_eq_mask [of 7 v] take_bit_eq_mask [of 6 v]
  by (simp_all add: take_bit_eq_mod mask_numeral)

lemma and_single_bit:
  fixes v :: int
  shows "v AND 0x80 = 0 \<longleftrightarrow> even (v div 128)" "v AND 0x40 = 0 \<longleftrightarrow> even (v div 64)"
  using and_exp_eq_0_iff_not_bit [of v 7] and_exp_eq_0_iff_not_bit [of v 6] by (simp_all add: bit_iff_odd)

lemma push_or_low:
  fixes a b :: int
  assumes "0 \<le> b" "b < 2 ^ n"
  shows "push_bit n a OR b = a * 2 ^ n + b"
proof -
  have b: "take_bit n b = b" using assms by (simp add: take_bit_int_eq_self)
  have "push_bit n a AND b = 0"
    by (subst b [symmetric], rule bit_eqI) (auto simp: bit_simps)
  then show ?thesis by (simp add: disjunctive_add_eq_or push_bit_eq_mult)
qed

lemma push_or_low_nat:
  fixes a b :: nat
  assumes "b < 2 ^ n"
  shows "push_bit n a OR b = a * 2 ^ n + b"
proof -
  have b: "take_bit n b = b" using assms by (simp add: take_bit_nat_eq_self)
  have "push_bit n a AND b = 0"
    by (subst b [symmetric], rule bit_eqI) (auto simp: bit_simps)
  then show ?thesis by (simp add: disjunctive_add_eq_or push_bit_eq_mult)
qed

lemma or_8000: "len < 16384 \<Longrightarrow> len OR 0x8000 = 0x8000 + len" for len :: nat
  using push_or_low_nat [of len 14 2] by (simp add: push_bit_eq_mult or.commute)

lemma or_C0: "u \<le> 4 \<Longrightarrow> 0xC0 OR u = 0xC0 + u" for u :: nat
  using push_or_low_nat [of u 6 3] by (simp add: push_bit_eq_mult)

lemma and_16383: "len AND 16383 = len mod 16384" for len :: nat
  using take_bit_eq_mask [of 14 len] by (simp add: take_bit_eq_mod mask_numeral)

lemma octet_fields:
  fixes x :: int
  assumes "0 \<le> x" "x < 64"
  shows "(128 + x) mod 64 = x" "(128 + x) div 128 = 1" "(128 + x) div 64 = 2"
    "(192 + x) mod 64 = x" "(192 + x) div 128 = 1" "(192 + x) div 64 = 3"
  using assms
    int_div_pos_eq [of "128 + x" 64 2 x] int_mod_pos_eq [of "128 + x" 64 2 x]
    int_div_pos_eq [of "128 + x" 128 1 x] int_div_pos_eq [of "192 + x" 64 3 x]
    int_mod_pos_eq [of "192 + x" 64 3 x] int_div_pos_eq [of "192 + x" 128 1 "64 + x"]
  by simp_all

section \<open>Length determinants\<close>

definition length_chunk :: "nat \<Rightarrow> nat" where
  "length_chunk n = (if n < 16384 then n else 16384 * min 4 (n div 16384))"

definition length_eom :: "nat \<Rightarrow> bool" where
  "length_eom n \<longleftrightarrow> n \<in> {16384, 2 * 16384, 3 * 16384, 4 * 16384}"

definition length_bits :: "nat \<Rightarrow> bits" where
  "length_bits n =
     (if n \<le> 127 then nat_bits 8 n else if n < 16384 then nat_bits 16 (0x8000 + n)
      else nat_bits 8 (0xC0 + min 4 (n div 16384)))"

lemma length_chunk_le: "length_chunk n \<le> n"
proof -
  have "16384 * min 4 (n div 16384) \<le> 16384 * (n div 16384)" by simp
  also have "\<dots> \<le> n" by simp
  finally show ?thesis by (simp add: length_chunk_def)
qed

lemma length_chunk_pos: "0 < n \<Longrightarrow> 0 < length_chunk n"
  by (auto simp: length_chunk_def div_greater_zero_iff)

lemma unat_of_nat_32: "n < 2 ^ 32 \<Longrightarrow> unat (word_of_nat n :: 32 word) = n"
  by (simp add: unat_of_nat)

lemma put_few_nat_result:
  assumes "po_wf po" "v < 2 ^ 32" "k \<le> 31"
  shows "put_result po (nat_bits k v) (asn_put_few_bits po (word_of_nat v) (int k))"
  using put_few_bits_result [OF assms(1), of "int k" "word_of_nat v"] assms by (simp add: unat_of_nat_32)

lemma length_eom_iff: "16384 \<le> n \<Longrightarrow> length_eom n \<longleftrightarrow> n div 16384 \<le> 4 \<and> n mod 16384 = 0"
proof
  assume "16384 \<le> n" "n div 16384 \<le> 4 \<and> n mod 16384 = 0"
  then obtain k where k: "n = 16384 * k" "k \<le> 4" by (metis div_mult_mod_eq add_0_right mult.commute)
  then have "k = 1 \<or> k = 2 \<or> k = 3 \<or> k = 4" using \<open>16384 \<le> n\<close> by auto
  then show "length_eom n" using k by (auto simp: length_eom_def)
qed (auto simp: length_eom_def)

lemma put_length_result:
  assumes wf: "po_wf po"
  obtains po' where "uper_put_length po n = (int (length_chunk n), length_eom n, po')"
      "po_app po (length_bits n) po'"
  | e po' where "uper_put_length po n = (-1, e, po')" "po_wf po'" "\<not> sink_unbounded (po_output po)"
proof -
  define v k where "v = (if n \<le> 127 then n else if n < 16384 then 0x8000 + n else 0xC0 + min 4 (n div 16384))"
    and "k = (if n \<le> 127 then 8 else if n < 16384 then 16 else (8 :: nat))"
  have lb: "length_bits n = nat_bits k v" by (simp add: length_bits_def v_def k_def)
  have "v < 2 ^ 32" "k \<le> 31" by (auto simp: v_def k_def)
  then have pr: "put_result po (length_bits n) (asn_put_few_bits po (word_of_nat v) (int k))"
    unfolding lb by (rule put_few_nat_result [OF wf])
  obtain r po1 where g: "asn_put_few_bits po (word_of_nat v) (int k) = (r, po1)" by force
  have "uper_put_length po n = (if r \<noteq> 0 then -1 else int (length_chunk n), length_eom n, po1)"
  proof (cases "n < 16384")
    case True
    then show ?thesis using g
      by (auto simp: uper_put_length_def v_def k_def length_chunk_def length_eom_def or_8000 split: if_splits)
  next
    case False
    then have u: "drop_bit 14 n = n div 16384" by (simp add: drop_bit_eq_div)
    have m: "(if 4 < n div 16384 then 4 else n div 16384) = min 4 (n div 16384)" by auto
    have "uper_put_length po n = (if r \<noteq> 0 then -1 else int (push_bit 14 (min 4 (n div 16384))),
        n div 16384 \<le> 4 \<and> n mod 16384 = 0, po1)"
      using False g
      by (auto simp: uper_put_length_def v_def k_def or_C0 and_16383 u Let_def m)
    then show ?thesis using False by (simp add: length_eom_iff length_chunk_def push_bit_eq_mult)
  qed
  then show thesis using that pr g by (auto simp: put_result_def)
qed


lemma bits_val_nat_bits_lt: "v < 2 ^ k \<Longrightarrow> bits_val (nat_bits k v) = v"
  by (rule bits_val_nat_bits_less)

text \<open>An unconstrained length determinant is read back, with the fragmentation flag.\<close>

lemma get_length_result:
  assumes wf: "pd_wf pd" and pb: "pd_bits pd = length_bits n @ rest" and e: "e < 0 \<or> 16 < e"
  obtains pd' where "uper_get_length pd e lb = (int (length_chunk n), 16384 \<le> n, pd')"
    "pd_adv pd (length (length_bits n)) pd'"
proof -
  consider "n \<le> 127" | "127 < n" "n < 16384" | "16384 \<le> n" by linarith
  then show thesis
  proof cases
    case 1
    then obtain pd1 where g: "asn_get_few_bits pd 8 = (int n, pd1)" "pd_adv pd 8 pd1"
      using get_few_bits_prefix [OF wf, of "nat_bits 8 n" rest 8] pb
      by (auto simp: length_bits_def bits_val_nat_bits_less)
    have "even (int n div 128)" "int n mod 128 = int n" using 1 by auto
    then have "uper_get_length pd e lb = (int (length_chunk n), 16384 \<le> n, pd1)"
      using e g 1 by (auto simp: uper_get_length_def and_low_mask and_single_bit length_chunk_def)
    then show thesis using that g(2) 1 by (simp add: length_bits_def)
  next
    case 2
    define h where "h = 0x80 + n div 256"
    have h: "n div 256 < 64" "drop_bit 8 (0x8000 + n) = h" using 2 by (auto simp: h_def drop_bit_eq_div)
    have bits: "length_bits n = nat_bits 8 h @ nat_bits 8 (n mod 256)"
    proof -
      have "nat_bits 8 (0x8000 + n) = nat_bits 8 (n mod 256)"
        using nat_bits_take_bit [of 8 "0x8000 + n"] nat_bits_take_bit [of 8 n]
        by (simp add: take_bit_eq_mod) (simp add: mod_add_left_eq [symmetric])
      then show ?thesis using 2 h by (simp add: length_bits_def nat_bits_16)
    qed
    obtain pd1 where g1: "asn_get_few_bits pd 8 = (int h, pd1)" "pd_adv pd 8 pd1" "pd_wf pd1"
        "pd_bits pd1 = nat_bits 8 (n mod 256) @ rest"
      using get_few_bits_prefix [OF wf, of "nat_bits 8 h" "nat_bits 8 (n mod 256) @ rest" 8] pb h
      by (auto simp: bits bits_val_nat_bits_less h_def)
    obtain pd2 where g2: "asn_get_few_bits pd1 8 = (int (n mod 256), pd2)" "pd_adv pd1 8 pd2"
      using get_few_bits_prefix [OF g1(3,4), of 8] by (auto simp: bits_val_nat_bits_less)
    have m: "int h mod 64 = int (n div 256)" "odd (int h div 128)" "even (int h div 64)"
      using h octet_fields [of "int (n div 256)"] unfolding h_def by simp_all
    have "push_bit 8 (int (n div 256)) OR int (n mod 256) = int n"
      using push_or_low [of "int (n mod 256)" 8 "int (n div 256)"] div_mult_mod_eq [of "int n" 256]
      by (simp add: zdiv_int zmod_int)
    then have "uper_get_length pd e lb = (int (length_chunk n), 16384 \<le> n, pd2)"
      using e g1 g2 m 2 by (auto simp: uper_get_length_def and_low_mask and_single_bit length_chunk_def)
    then show thesis using that pd_adv_trans [OF g1(2) g2(2)] 2 by (simp add: length_bits_def)
  next
    case 3
    define u where "u = min 4 (n div 16384)"
    have u: "1 \<le> u" "u \<le> 4" using 3 by (auto simp: u_def div_greater_zero_iff Suc_le_eq)
    have bits: "length_bits n = nat_bits 8 (0xC0 + u)" using 3 by (simp add: length_bits_def u_def)
    obtain pd1 where g: "asn_get_few_bits pd 8 = (int (0xC0 + u), pd1)" "pd_adv pd 8 pd1"
      using get_few_bits_prefix [OF wf, of "nat_bits 8 (0xC0 + u)" rest 8] pb u
      by (auto simp: bits bits_val_nat_bits_less)
    have m: "int (0xC0 + u) mod 64 = int u" "odd (int (0xC0 + u) div 128)" "odd (int (0xC0 + u) div 64)"
      using u octet_fields [of "int u"] by simp_all
    have "uper_get_length pd e lb = (int (length_chunk n), 16384 \<le> n, pd1)"
      using e g m u 3 unfolding uper_get_length_def and_low_mask and_single_bit
      by (auto simp: length_chunk_def simp flip: u_def)
    then show thesis using that g(2) bits by simp
  qed
qed

section \<open>Constrained whole numbers\<close>

lemma unat_drop_bit_eq: "unat (drop_bit n v) = drop_bit n (unat v)" for v :: "64 word"
  by (rule bit_eqI) (auto simp: bit_simps)

lemma put_constrained_whole_result:
  assumes "po_wf po"
  shows "put_result po (nat_bits n (unat v)) (uper_put_constrained_whole_number_u po v (int n))"
  using assms
proof (induction n arbitrary: po v rule: less_induct)
  case (less n)
  have low: "nat_bits k (unat (ucast v :: 32 word)) = nat_bits k (unat v)" if "k \<le> 31" for k and v :: "64 word"
    using that by (intro nth_equalityI) (auto simp: bit_simps unsigned_ucast_eq)
  show ?case
  proof (cases "n \<le> 31")
    case True
    then show ?thesis using put_few_bits_result [OF less.prems, of "int n" "ucast v"] low [OF True]
      by (subst uper_put_constrained_whole_number_u.simps) simp
  next
    case False
    then have n: "n = (n - 31) + 31" by simp
    have split: "nat_bits n (unat v) = nat_bits (n - 31) (unat (drop_bit 31 v)) @ nat_bits 31 (unat v)"
      by (subst n, subst nat_bits_add) (simp add: unat_drop_bit_eq)
    let ?r = "uper_put_constrained_whole_number_u po (drop_bit 31 v) (int n - 31)"
    have "put_result po (nat_bits (n - 31) (unat (drop_bit 31 v)))
        (uper_put_constrained_whole_number_u po (drop_bit 31 v) (int (n - 31)))"
      by (rule less.IH [OF _ less.prems]) (use False in simp)
    moreover have "int (n - 31) = int n - 31" using False by simp
    ultimately have "put_result po (nat_bits (n - 31) (unat (drop_bit 31 v))) ?r" by metis
    then have "put_result po (nat_bits (n - 31) (unat (drop_bit 31 v)) @ nat_bits 31 (unat v))
        (if fst ?r \<noteq> 0 then (-1, snd ?r) else asn_put_few_bits (snd ?r) (ucast v) 31)"
      by (rule put_result_bind)
        (use put_few_bits_result [where n = 31 and w = "ucast v"] low [of 31 v] in \<open>auto dest: po_app_wf\<close>)
    then show ?thesis using False unfolding split
      by (subst uper_put_constrained_whole_number_u.simps) (simp add: case_prod_beta)
  qed
qed

lemma get_constrained_whole_result:
  assumes "pd_wf pd" "pd_bits pd = bs @ rest" "length bs \<le> 64" "n = int (length bs)"
  obtains pd' where "uper_get_constrained_whole_number pd n = (Some (word_of_nat (bits_val bs)), pd')"
    "pd_adv pd (length bs) pd'"
proof -
  have "\<exists>pd'. uper_get_constrained_whole_number pd (int (length bs)) = (Some (word_of_nat (bits_val bs)), pd')
      \<and> pd_adv pd (length bs) pd'" if "pd_wf pd" "pd_bits pd = bs @ rest" "length bs \<le> 64" for pd bs
    using that
  proof (induction bs arbitrary: pd rule: measure_induct_rule [of length])
    case (less bs)
    show ?case
    proof (cases "length bs \<le> 31")
      case True
      then show ?thesis using get_few_bits_prefix [OF less.prems(1,2) True refl]
        by (subst uper_get_constrained_whole_number.simps) force
    next
      case False
      define hi lo where "hi = take 31 bs" and "lo = drop 31 bs"
      have bs: "bs = hi @ lo" "length hi = 31" "length lo = length bs - 31"
        using False by (auto simp: hi_def lo_def)
      have "pd_bits pd = hi @ lo @ rest" using less.prems(2) bs(1) by simp
      then obtain pd1 where g: "asn_get_few_bits pd 31 = (int (bits_val hi), pd1)" "pd_adv pd 31 pd1" "pd_wf pd1"
          "pd_bits pd1 = lo @ rest"
        using get_few_bits_prefix [OF less.prems(1), of hi "lo @ rest" 31] bs(2) by auto
      have "length lo < length bs" "length lo \<le> 64" using bs(3) less.prems(3) False by auto
      then obtain pd2 where r: "uper_get_constrained_whole_number pd1 (int (length lo)) = (Some (word_of_nat (bits_val lo)), pd2)"
          "pd_adv pd1 (length lo) pd2"
        using less.IH [OF _ g(3,4)] by blast
      have "push_bit (length lo) (word_of_nat (bits_val hi)) OR word_of_nat (bits_val lo)
          = (word_of_nat (bits_val bs) :: 64 word)"
        using push_or_low_nat [OF bits_val_less [of lo], of "bits_val hi"]
        by (simp only: bs(1) bits_val_append push_bit_of_nat flip: of_nat_or_eq)
      moreover have len: "length bs = 31 + length lo" using bs(3) False by simp
      moreover have "pd_adv pd (length bs) pd2" using pd_adv_trans [OF g(2) r(2)] by (simp add: len)
      ultimately show ?thesis using False g(1) r(1) less.prems(3)
        by (subst uper_get_constrained_whole_number.simps) simp
    qed
  qed
  then show thesis using assms that by metis
qed

section \<open>Normally small numbers\<close>

lemma put_nsnnwn_result:
  "po_wf po \<Longrightarrow> 0 \<le> n \<Longrightarrow> n \<le> 63 \<Longrightarrow> put_result po (nat_bits 7 (nat n)) (uper_put_nsnnwn po n)"
  using put_few_nat_result [of po "nat n" 7] by (simp add: uper_put_nsnnwn_def)

lemma get_nsnnwn_result:
  assumes "pd_wf pd" "pd_bits pd = nat_bits 7 n @ rest" "n \<le> 63"
  obtains pd' where "uper_get_nsnnwn pd = (int n, pd')" "pd_adv pd 7 pd'"
proof -
  obtain pd1 where g: "asn_get_few_bits pd 7 = (int n, pd1)" "pd_adv pd 7 pd1"
    using get_few_bits_prefix [OF assms(1,2), of 7] assms(3) by (auto simp: bits_val_nat_bits_less)
  have "even (int n div 64)" using assms(3) by simp
  then show thesis using that g and_single_bit(2) [of "int n"] by (simp add: uper_get_nsnnwn_def)
qed

lemma put_nslength_result:
  assumes "po_wf po" "1 \<le> n" "n \<le> 64"
  shows "put_result po (nat_bits 7 (n - 1)) (uper_put_nslength po n)"
proof -
  obtain r po' where g: "asn_put_few_bits po (word_of_nat (n - 1)) 7 = (r, po')" by force
  have "put_result po (nat_bits 7 (n - 1)) (r, po')"
    using put_few_nat_result [OF assms(1), of "n - 1" 7] assms g by simp
  moreover have "uper_put_nslength po n = (if r \<noteq> 0 then -1 else 0, po')"
    using assms g unfolding uper_put_nslength_def by simp
  ultimately show ?thesis by (auto simp: put_result_def)
qed

lemma get_nslength_result:
  assumes "pd_wf pd" "pd_bits pd = nat_bits 7 (n - 1) @ rest" "1 \<le> n" "n \<le> 64"
  obtains pd' where "uper_get_nslength pd = (int n, pd')" "pd_adv pd 7 pd'"
proof -
  have s: "nat_bits 7 (n - 1) = nat_bits 1 0 @ nat_bits 6 (n - 1)"
  proof -
    have "drop_bit 6 (n - 1) = 0" using assms by (simp add: drop_bit_eq_div)
    then show ?thesis using nat_bits_add [of 1 6 "n - 1"] by simp
  qed
  obtain pd1 where g: "asn_get_few_bits pd 1 = (0, pd1)" "pd_adv pd 1 pd1" "pd_wf pd1"
      "pd_bits pd1 = nat_bits 6 (n - 1) @ rest"
    using get_few_bits_prefix [OF assms(1), of "nat_bits 1 0" "nat_bits 6 (n - 1) @ rest" 1] assms s
    by (auto simp: bits_val_nat_bits_less)
  obtain pd2 where g2: "asn_get_few_bits pd1 6 = (int (n - 1), pd2)" "pd_adv pd1 6 pd2"
    using get_few_bits_prefix [OF g(3,4), of 6] assms by (auto simp: bits_val_nat_bits_less)
  show thesis using that g g2 pd_adv_trans [OF g(2) g2(2)] assms by (auto simp: uper_get_nslength_def)
qed

text \<open>Single bits.\<close>

lemma put_bit_result:
  assumes "po_wf po"
  shows "put_result po [b] (asn_put_few_bits po (if b then 1 else 0) 1)"
proof -
  have "nat_bits 1 (if b then 1 else 0) = [b]" by (simp add: nat_bits_def bit_0)
  then show ?thesis using put_few_nat_result [OF assms, of "if b then 1 else 0" 1] by (cases b) simp_all
qed

lemma get_bit_prefix:
  assumes "pd_wf pd" "pd_bits pd = b # rest"
  obtains pd' where "asn_get_few_bits pd 1 = (if b then 1 else 0, pd')" "pd_adv pd 1 pd'" "pd_wf pd'" "pd_bits pd' = rest"
proof -
  have bv: "int (bits_val [b]) = (if b then 1 else 0)" by (simp add: bits_val_def)
  have "pd_bits pd = [b] @ rest" using assms(2) by simp
  then obtain pd' where "asn_get_few_bits pd 1 = (int (bits_val [b]), pd')" "pd_adv pd (length [b]) pd'"
      "pd_wf pd'" "pd_bits pd' = rest"
    using get_few_bits_prefix [OF assms(1), of "[b]" rest 1] by auto
  then show thesis using that bv by simp
qed

lemma get_few_nat_prefix:
  assumes "pd_wf pd" "pd_bits pd = nat_bits (nat n) v @ rest" "v < 2 ^ nat n" "0 \<le> n" "n \<le> 31"
  obtains pd' where "asn_get_few_bits pd n = (int v, pd')" "pd_adv pd (nat n) pd'" "pd_wf pd'" "pd_bits pd' = rest"
proof -
  have "length (nat_bits (nat n) v) \<le> 31" "n = int (length (nat_bits (nat n) v))" using assms(4,5) by simp_all
  then show thesis
    using get_few_bits_prefix [OF assms(1,2)] that bits_val_nat_bits_less [OF assms(3)] by (metis length_nat_bits)
qed

end
