(* ===== verification/Asn_Types.thy ===== *)
theory Asn_Types
  imports Per_Support
begin

text \<open>
  The data the runtime of \<open>vanetza-extension/asn1/support\<close> is driven by: type descriptors
  (\<open>constr_TYPE.h\<close>, \<open>per_support.h\<close>, the \<open>*_specifics_t\<close> structures) and the target structures
  they describe.

  \<^item> \<open>asn_value\<close> is the memory behind a \<open>void *sptr\<close>: a native \<open>long\<close>, a \<open>buf/size\<close> pair, a
    structure with its members, a CHOICE with its presence index, a list. A member pointer that
    is NULL is \<open>None\<close>. Reading memory at the wrong type is undefined behaviour in C; the
    encoders return \<open>-1\<close> there, and no theorem relies on it.
  \<^item> \<open>td->op\<close> points to one of the operation tables \<open>asn_OP_*\<close>; \<open>asn_op\<close> names the table.
  \<^item> \<open>default_value_cmp\<close> and \<open>default_value_set\<close> of a member compare with and store one constant,
    kept as \<open>elm_default\<close>.
  \<^item> A decoder returns \<open>RC_OK\<close> with the decoded structure and \<open>consumed\<close>, \<open>RC_WMORE\<close> or \<open>RC_FAIL\<close>;
    the partly filled structure of a failed decode is not kept. An encoder returns \<open>er.encoded\<close>,
    which is \<open>0\<close> or \<open>-1\<close> in the UPER encoders.
  \<^item> Allocation does not fail in the model.
\<close>

record asn_per_constraint =
  APC_SEMI_CONSTRAINED :: bool
  APC_CONSTRAINED :: bool
  APC_EXTENSIBLE :: bool
  range_bits :: int
  effective_bits :: int
  lower_bound :: int
  upper_bound :: int

text \<open>\<open>flags == APC_UNCONSTRAINED\<close>.\<close>

definition apc_unconstrained :: "asn_per_constraint \<Rightarrow> bool" where
  "apc_unconstrained ct \<longleftrightarrow> \<not> APC_SEMI_CONSTRAINED ct \<and> \<not> APC_CONSTRAINED ct \<and> \<not> APC_EXTENSIBLE ct"

record asn_per_constraints =
  pc_value :: asn_per_constraint
  pc_size :: asn_per_constraint
  pc_value2code :: "(nat \<Rightarrow> int) option"
  pc_code2value :: "(nat \<Rightarrow> int) option"

datatype asn_value =
    V_NULL
  | V_BOOLEAN int
  | V_long int
  | V_INTEGER "byte list option"
  | V_OCTET_STRING "byte list"
  | V_BIT_STRING "byte list" nat
  | V_SEQUENCE "asn_value option list"
  | V_CHOICE nat "asn_value option"
  | V_LIST "asn_value list"

datatype asn_op =
    OP_NULL | OP_BOOLEAN | OP_NativeInteger | OP_NativeEnumerated | OP_INTEGER | OP_ENUMERATED
  | OP_OCTET_STRING | OP_BIT_STRING | OP_SEQUENCE | OP_CHOICE | OP_SEQUENCE_OF
  | OP_OPEN_TYPE

record asn_INTEGER_specifics =
  value2enum :: "(int \<times> string) list"
  enum2value :: "nat list"
  is_extension :: int
  strict_enumeration :: bool
  field_unsigned :: bool

datatype asn_OS_subvariant = ASN_OSUBV_ANY | ASN_OSUBV_BIT | ASN_OSUBV_STR | ASN_OSUBV_U16 | ASN_OSUBV_U32

record asn_SEQUENCE_specifics =
  oms :: "nat list"
  roms_count :: nat
  aoms_count :: nat
  first_extension :: int

record asn_CHOICE_specifics =
  to_canonical_order :: "nat list option"
  from_canonical_order :: "nat list option"
  ext_start :: int

datatype asn_specifics =
    SPC_NONE
  | SPC_INTEGER asn_INTEGER_specifics
  | SPC_OCTET_STRING asn_OS_subvariant
  | SPC_SEQUENCE asn_SEQUENCE_specifics
  | SPC_CHOICE asn_CHOICE_specifics

datatype asn_TYPE_descriptor =
  TD (td_op: asn_op) (td_per_constraints: "asn_per_constraints option")
     (td_elements: "asn_TYPE_member list") (td_specifics: asn_specifics)
and asn_TYPE_member =
  MBR (elm_pointer: bool) (elm_optional: bool) (elm_type: asn_TYPE_descriptor)
      (elm_per_constraints: "asn_per_constraints option") (elm_default: "asn_value option")

datatype asn_dec_rval = RC_OK asn_value nat | RC_WMORE | RC_FAIL

type_synonym uper_decoder =
  "asn_TYPE_descriptor \<Rightarrow> asn_per_constraints option \<Rightarrow> asn_bit_data \<Rightarrow> asn_dec_rval \<times> asn_bit_data"

type_synonym uper_encoder =
  "asn_TYPE_descriptor \<Rightarrow> asn_per_constraints option \<Rightarrow> asn_value \<Rightarrow> asn_bit_outp \<Rightarrow> int \<times> asn_bit_outp"

text \<open>\<open>constraints ? &constraints->value : td->... ? &...->value : 0\<close>, and the same for \<open>size\<close>.\<close>

definition pick_constraints ::
  "asn_TYPE_descriptor \<Rightarrow> asn_per_constraints option \<Rightarrow> asn_per_constraints option" where
  "pick_constraints td constraints =
     (case constraints of Some c \<Rightarrow> Some c | None \<Rightarrow> td_per_constraints td)"

definition value_constraint ::
  "asn_TYPE_descriptor \<Rightarrow> asn_per_constraints option \<Rightarrow> asn_per_constraint option" where
  "value_constraint td constraints = map_option pc_value (pick_constraints td constraints)"

definition size_constraint ::
  "asn_TYPE_descriptor \<Rightarrow> asn_per_constraints option \<Rightarrow> asn_per_constraint option" where
  "size_constraint td constraints = map_option pc_size (pick_constraints td constraints)"

section \<open>What a codec has to satisfy\<close>

text \<open>
  A decoder is \<^emph>\<open>safe\<close> if on every input it only moves the stream forward inside its buffer.
  An encoder and a decoder agree on a value with the encoding \<open>bs\<close> if the encoder appends exactly
  \<open>bs\<close> to any stream (or reports that the output callback refused data), and the decoder, started
  on any stream that begins with \<open>bs\<close>, returns the value and consumes exactly \<open>bs\<close>.
\<close>

definition safe_decoder :: "(asn_bit_data \<Rightarrow> asn_dec_rval \<times> asn_bit_data) \<Rightarrow> bool" where
  "safe_decoder dec \<longleftrightarrow> (\<forall>pd. pd_wf pd \<longrightarrow> pd_moves pd (snd (dec pd)))"

definition encodes :: "(asn_bit_outp \<Rightarrow> int \<times> asn_bit_outp) \<Rightarrow> bits \<Rightarrow> bool" where
  "encodes enc bs \<longleftrightarrow> (\<forall>po. po_wf po \<longrightarrow> put_result po bs (enc po))"

definition decodes :: "(asn_bit_data \<Rightarrow> asn_dec_rval \<times> asn_bit_data) \<Rightarrow> bits \<Rightarrow> asn_value \<Rightarrow> nat \<Rightarrow> bool" where
  "decodes dec bs v used \<longleftrightarrow> (\<forall>pd rest. pd_wf pd \<longrightarrow> pd_bits pd = bs @ rest \<longrightarrow>
     (\<exists>pd'. dec pd = (RC_OK v used, pd') \<and> pd_adv pd (length bs) pd'))"

lemma safe_decoderD: "safe_decoder dec \<Longrightarrow> pd_wf pd \<Longrightarrow> dec pd = (r, pd') \<Longrightarrow> pd_moves pd pd'"
  unfolding safe_decoder_def by (metis snd_conv)

lemma safe_decoderI: "(\<And>pd r pd'. pd_wf pd \<Longrightarrow> dec pd = (r, pd') \<Longrightarrow> pd_moves pd pd') \<Longrightarrow> safe_decoder dec"
  unfolding safe_decoder_def by (metis prod.collapse)

lemma encodesD: "encodes enc bs \<Longrightarrow> po_wf po \<Longrightarrow> put_result po bs (enc po)"
  by (simp add: encodes_def)

lemma decodesE:
  assumes "decodes dec bs v used" "pd_wf pd" "pd_bits pd = bs @ rest"
  obtains pd' where "dec pd = (RC_OK v used, pd')" "pd_adv pd (length bs) pd'" "pd_wf pd'"
    "pd_bits pd' = rest"
proof -
  obtain pd' where d: "dec pd = (RC_OK v used, pd')" "pd_adv pd (length bs) pd'"
    using assms unfolding decodes_def by blast
  moreover have "pd_bits pd' = rest" using pd_adv_bits [OF d(2)] assms(3) by simp
  ultimately show thesis using that pd_adv_wf by blast
qed

definition pd_left :: "asn_bit_data \<Rightarrow> nat" where
  "pd_left pd = pd_nbits pd - pd_nboff pd"

lemma pd_left_simps [simp]:
  "pd_left (pd_touch k pd) = pd_left pd" "pd_left (pd\<lparr>pd_fault := b\<rparr>) = pd_left pd"
  by (simp_all add: pd_left_def pd_touch_def)

lemma pd_left_advance:
  assumes "\<not> int (pd_nbits pd) - int (pd_nboff pd) < n" "0 \<le> n"
  shows "pd_left (pd_advance pd (nat n)) = pd_left pd - nat n"
    "pd_left (asn_get_undo (pd_advance pd (nat n)) n) = pd_left pd" "nat n \<le> pd_left pd"
proof -
  obtain m where m: "n = int m" using assms(2) nonneg_int_cases by blast
  define q r where "q = pd_nboff pd div 8" and "r = pd_nboff pd mod 8"
  have o: "pd_nboff pd = 8 * q + r" by (simp add: q_def r_def)
  have le: "8 * q + r + m \<le> pd_nbits pd" using assms m o by linarith
  have nb: "pd_nboff (pd_advance pd (nat n)) = r + m" using m by (simp add: pd_nboff_advance r_def)
  have nn: "pd_nbits (pd_advance pd (nat n)) = pd_nbits pd - 8 * q" by (simp add: pd_nbits_advance q_def)
  show "pd_left (pd_advance pd (nat n)) = pd_left pd - nat n"
    using nb nn m le o by (simp add: pd_left_def)
  have "pd_nboff (asn_get_undo (pd_advance pd (nat n)) n) = r"
    "pd_nbits (asn_get_undo (pd_advance pd (nat n)) n) = pd_nbits pd - 8 * q"
    using nb nn m by (auto simp: asn_get_undo_def)
  then show "pd_left (asn_get_undo (pd_advance pd (nat n)) n) = pd_left pd" using o by (simp add: pd_left_def)
  show "nat n \<le> pd_left pd" using le o m by (simp add: pd_left_def)
qed

lemma get_few_bits_left:
  "pd_left (snd (asn_get_few_bits pd n)) \<le> pd_left pd"
  "fst (asn_get_few_bits pd n) = -1 \<or> n \<le> 0 \<or> pd_left (snd (asn_get_few_bits pd n)) < pd_left pd"
proof -
  consider "n < 0 \<or> int (pd_nbits pd) - int (pd_nboff pd) < n"
    | "0 \<le> n" "\<not> int (pd_nbits pd) - int (pd_nboff pd) < n" by linarith
  then have "fst (asn_get_few_bits pd n) = -1 \<and> pd_left (snd (asn_get_few_bits pd n)) = pd_left pd
      \<or> 0 \<le> n \<and> nat n \<le> pd_left pd \<and> pd_left (snd (asn_get_few_bits pd n)) = pd_left pd - nat n"
  proof cases
    case 1
    then show ?thesis by (subst (1 2 3) asn_get_few_bits.simps) auto
  next
    case 2
    note p = pd_left_advance [OF 2(2,1)]
    show ?thesis using 2 p unfolding asn_get_few_bits.simps [of pd n] Let_def
      by (simp only: if_False not_less) (auto simp: case_prod_beta)
  qed
  then show "pd_left (snd (asn_get_few_bits pd n)) \<le> pd_left pd"
    "fst (asn_get_few_bits pd n) = -1 \<or> n \<le> 0 \<or> pd_left (snd (asn_get_few_bits pd n)) < pd_left pd" by auto
qed

lemma get_many_bits_loop_left: "pd_left (snd (snd (asn_get_many_bits_loop pd n))) \<le> pd_left pd"
proof (induction pd n rule: asn_get_many_bits_loop.induct)
  case (1 pd n)
  have few: "pd_left pd1 \<le> pd_left pd" if "asn_get_few_bits pd m = (v, pd1)" for m v pd1
    using get_few_bits_left(1) [of pd m] that by simp
  show ?case
  proof (cases "24 \<le> n \<and> 0 \<le> fst (asn_get_few_bits pd 24)")
    case True
    obtain v pd1 where g: "asn_get_few_bits pd 24 = (v, pd1)" by force
    have "pd_left (snd (snd (asn_get_many_bits_loop pd1 (n - 24)))) \<le> pd_left pd1"
      using "1.IH" [OF _ _ g [symmetric]] True g by simp
    then show ?thesis using True g few [OF g]
      by (subst asn_get_many_bits_loop.simps) (auto simp: case_prod_beta)
  next
    case False
    then show ?thesis using few
      by (subst asn_get_many_bits_loop.simps) (auto simp: Let_def split: prod.splits)
  qed
qed

lemma get_length_left:
  assumes "uper_get_length pd (-1) lb = (v, rep, pd1)"
  shows "pd_left pd1 \<le> pd_left pd" "rep \<Longrightarrow> pd_left pd1 < pd_left pd"
proof -
  obtain b pd2 where g: "asn_get_few_bits pd 8 = (b, pd2)" by force
  obtain c pd3 where h: "asn_get_few_bits pd2 8 = (c, pd3)" by force
  have l: "pd_left pd2 \<le> pd_left pd" "b = -1 \<or> pd_left pd2 < pd_left pd" "pd_left pd3 \<le> pd_left pd2"
    using get_few_bits_left [of pd 8] get_few_bits_left [of pd2 8] g h by auto
  show "pd_left pd1 \<le> pd_left pd" "rep \<Longrightarrow> pd_left pd1 < pd_left pd"
    using assms l unfolding uper_get_length_def g by (auto simp: h split: if_splits)
qed


lemma put_length_value:
  "fst (uper_put_length po n) = -1 \<or> fst (uper_put_length po n) = int (length_chunk n)"
proof (cases "n < 16384")
  case True
  then show ?thesis by (auto simp: uper_put_length_def length_chunk_def case_prod_beta)
next
  case False
  have "(if 4 < n div 16384 then 4 else n div 16384) = min 4 (n div 16384)" by auto
  then show ?thesis using False
    by (auto simp: uper_put_length_def length_chunk_def case_prod_beta Let_def drop_bit_eq_div push_bit_eq_mult)
qed

function uper_put_fragments :: "asn_bit_outp \<Rightarrow> byte list \<Rightarrow> int \<times> asn_bit_outp" where
  "uper_put_fragments po buf =
     (if buf = [] then (0, po)
      else
        (case uper_put_length po (length buf) of
           (may_save, need_eom, po) \<Rightarrow>
             if may_save < 0 then (-1, po)
             else
               (case asn_put_many_bits po buf (8 * may_save) of
                  (r, po) \<Rightarrow>
                    if r \<noteq> 0 then (-1, po)
                    else if need_eom then
                      (case uper_put_length po 0 of
                         (r, _, po) \<Rightarrow>
                           if r \<noteq> 0 then (-1, po) else uper_put_fragments po (drop (nat may_save) buf))
                    else uper_put_fragments po (drop (nat may_save) buf))))"
  by pat_completeness auto
termination
proof (relation "measure (\<lambda>(po, buf). length buf)", goal_cases)
  case (2 po buf x y xa ya xb yb xc yc xd yd)
  then have "fst (uper_put_length po (length buf)) = x" by (metis fst_conv)
  then show ?case using 2 put_length_value [of po "length buf"] length_chunk_pos [of "length buf"] by auto
next
  case (3 po buf x y xa ya xb yb)
  then have "fst (uper_put_length po (length buf)) = x" by (metis fst_conv)
  then show ?case using 3 put_length_value [of po "length buf"] length_chunk_pos [of "length buf"] by auto
qed simp

declare uper_put_fragments.simps [simp del]

text \<open>\<open>None\<close> is the starved case.\<close>

function uper_get_fragments :: "asn_bit_data \<Rightarrow> byte list option \<times> asn_bit_data" where
  "uper_get_fragments pd =
     (case uper_get_length pd (-1) 0 of
        (len, repeat, pd) \<Rightarrow>
          if len < 0 then (None, pd)
          else
            (case asn_get_many_bits pd False (8 * len) of
               (ret, dst, pd) \<Rightarrow>
                 if ret \<noteq> 0 then (None, pd)
                 else if repeat then
                   (case uper_get_fragments pd of
                      (None, pd) \<Rightarrow> (None, pd)
                    | (Some buf, pd) \<Rightarrow> (Some (dst @ buf), pd))
                 else (Some dst, pd)))"
  by pat_completeness auto
termination
proof (relation "measure pd_left", goal_cases)
  case (2 pd x y xa ya xb yb xc yc)
  have "pd_left ya < pd_left pd" using get_length_left(2) 2 by metis
  moreover have "pd_left yc \<le> pd_left ya"
    using get_many_bits_loop_left [of ya "8 * x"] 2 unfolding asn_get_many_bits_def by (metis snd_conv)
  ultimately show ?case by simp
qed simp

declare uper_get_fragments.simps [simp del]

end
