(* ===== verification/Per_Codec.thy ===== *)
theory Per_Codec
  imports Asn_Types
begin

unbundle bit_operations_syntax

text \<open>
  \<open>per_encoder.c\<close>, \<open>per_decoder.c\<close> and \<open>per_opentype.c\<close>: the entry points of the UPER codec and
  open type fields. They call \<open>td->op->uper_encoder(td, constraints, sptr, po)\<close> and
  \<open>td->op->uper_decoder(ctx, td, constraints, sptr, pd)\<close>; here that call is a parameter, \<open>enc\<close> or
  \<open>dec\<close>, instantiated by the type codecs. The lemmas are stated for every \<open>enc\<close> and \<open>dec\<close> that
  satisfy \<open>encodes\<close>, \<open>decodes\<close> and \<open>safe_decoder\<close>.
\<close>

section \<open>Fragmented contents: what is on the wire\<close>

function frag_bits :: "('a \<Rightarrow> bits) \<Rightarrow> 'a list \<Rightarrow> bits" where
  "frag_bits f xs =
     (if xs = [] then []
      else
        let k = length_chunk (length xs)
        in length_bits (length xs) @ concat (map f (take k xs))
           @ (if length_eom (length xs) then length_bits 0 else []) @ frag_bits f (drop k xs))"
  by pat_completeness auto
termination
  by (relation "measure (\<lambda>(f, xs). length xs)") (auto simp: length_chunk_pos)

declare frag_bits.simps [simp del]

lemma frag_bits_Nil [simp]: "frag_bits f [] = []"
  by (simp add: frag_bits.simps)

lemma length_chunk_rest:
  assumes "16384 \<le> n" "\<not> length_eom n"
  shows "length_chunk n < n"
proof (rule ccontr)
  assume "\<not> length_chunk n < n"
  then have "n = 16384 * min 4 (n div 16384)" using length_chunk_le [of n] assms by (simp add: length_chunk_def)
  then obtain m where "n = 16384 * m" "m \<le> 4" by (metis min.cobounded1)
  then show False using assms length_eom_iff [of n] by simp
qed

lemma length_chunk_all: "length_eom n \<or> n < 16384 \<Longrightarrow> length_chunk n = n"
  by (auto simp: length_chunk_def length_eom_def)

lemma frag_bits_last: "length xs < 16384 \<Longrightarrow> xs \<noteq> [] \<Longrightarrow> frag_bits f xs = length_bits (length xs) @ concat (map f xs)"
  by (subst frag_bits.simps) (auto simp: Let_def length_chunk_all length_eom_def)

lemma frag_bits_more:
  assumes "16384 \<le> length xs"
  shows "frag_bits f xs = length_bits (length xs) @ concat (map f (take (length_chunk (length xs)) xs))
      @ (if length_eom (length xs) then length_bits 0 else frag_bits f (drop (length_chunk (length xs)) xs))"
  using assms by (subst frag_bits.simps) (auto simp: Let_def length_chunk_all)

lemma put_length0_result:
  assumes "po_wf po"
  shows "put_result po (length_bits 0) (fst (uper_put_length po 0), snd (snd (uper_put_length po 0)))"
  by (rule put_length_result [OF assms, of 0]) (auto simp: put_result_def length_chunk_def)

text \<open>The optional end-of-message determinant after a fragment.\<close>

definition put_eom :: "bool \<Rightarrow> (asn_bit_outp \<Rightarrow> int \<times> asn_bit_outp) \<Rightarrow> asn_bit_outp \<Rightarrow> int \<times> asn_bit_outp" where
  "put_eom need_eom k po =
     (if need_eom then
        (case uper_put_length po 0 of (r, _, po) \<Rightarrow> if r \<noteq> 0 then (-1, po) else k po)
      else k po)"

lemma put_result_seq:
  assumes "put_result po xs r1" "\<And>po1. po_wf po1 \<Longrightarrow> put_result po1 ys (f po1)"
  shows "put_result po (xs @ ys) (if fst r1 \<noteq> 0 then (-1, snd r1) else f (snd r1))"
  using assms by (intro put_result_bind) auto

lemma put_result_after: "po_app po xs po1 \<Longrightarrow> put_result po1 ys r \<Longrightarrow> put_result po (xs @ ys) r"
  using po_app_trans by (force simp: put_result_def po_app_def)

lemma put_eom_result:
  assumes "po_wf po" "\<And>po1. po_wf po1 \<Longrightarrow> put_result po1 ys (k po1)"
  shows "put_result po ((if e then length_bits 0 else []) @ ys) (put_eom e k po)"
  using put_result_seq [OF put_length0_result [OF assms(1)] assms(2)] assms
  by (auto simp: put_eom_def case_prod_beta split: if_splits)

lemma put_fragments_result:
  "po_wf po \<Longrightarrow> put_result po (frag_bits byte_bits buf) (uper_put_fragments po buf)"
proof (induction "length buf" arbitrary: po buf rule: less_induct)
  case less
  show ?case
  proof (cases "buf = []")
    case True
    then show ?thesis using less.prems by (simp add: uper_put_fragments.simps put_result_def po_app_refl)
  next
    case False
    let ?n = "length buf" and ?k = "length_chunk (length buf)"
    have k: "0 < ?k" "?k \<le> ?n" using False length_chunk_pos length_chunk_le by auto
    have fb: "frag_bits byte_bits buf = length_bits ?n @ bytes_bits (take ?k buf)
        @ (if length_eom ?n then length_bits 0 else []) @ frag_bits byte_bits (drop ?k buf)"
      using False by (subst frag_bits.simps) (simp add: Let_def bytes_bits_def)
    show ?thesis
    proof (rule put_length_result [OF less.prems, of ?n])
      fix po1 assume pl: "uper_put_length po ?n = (int ?k, length_eom ?n, po1)" "po_app po (length_bits ?n) po1"
      define r2 where "r2 = asn_put_many_bits po1 buf (8 * int ?k)"
      have pm: "put_result po1 (bytes_bits (take ?k buf)) r2"
        using put_many_bits_result [of po1 "8 * ?k" buf] pl(2) k by (auto simp: take_bytes_bits r2_def)
      have rest: "put_result po2 (frag_bits byte_bits (drop ?k buf)) (uper_put_fragments po2 (drop ?k buf))"
        if "po_wf po2" for po2 using less.hyps [of "drop ?k buf" po2] that k False by simp
      define step where "step = put_eom (length_eom ?n) (\<lambda>po. uper_put_fragments po (drop ?k buf))"
      have st: "put_result po2 ((if length_eom ?n then length_bits 0 else []) @ frag_bits byte_bits (drop ?k buf)) (step po2)"
        if "po_wf po2" for po2
        unfolding step_def by (rule put_eom_result [OF that rest])
      have "put_result po1 (bytes_bits (take ?k buf) @ (if length_eom ?n then length_bits 0 else [])
          @ frag_bits byte_bits (drop ?k buf)) (if fst r2 \<noteq> 0 then (-1, snd r2) else step (snd r2))"
        by (rule put_result_seq [OF pm st])
      moreover have "uper_put_fragments po buf = (if fst r2 \<noteq> 0 then (-1, snd r2) else step (snd r2))"
        using False pl(1) by (subst uper_put_fragments.simps) (simp add: case_prod_beta step_def put_eom_def flip: r2_def)
      ultimately show ?thesis using put_result_after [OF pl(2)] fb by simp
    next
      fix e po1 assume "uper_put_length po ?n = (-1, e, po1)" "po_wf po1" "\<not> sink_unbounded (po_output po)"
      then show ?thesis using False by (subst uper_put_fragments.simps) (simp add: put_result_def)
    qed
  qed
qed


lemma get_fragments_result:
  assumes "pd_wf pd" "pd_bits pd = frag_bits byte_bits buf @ rest" "buf \<noteq> []"
  obtains pd' where "uper_get_fragments pd = (Some buf, pd')" "pd_adv pd (length (frag_bits byte_bits buf)) pd'"
proof -
  have "\<exists>pd'. uper_get_fragments pd = (Some buf, pd') \<and> pd_adv pd (length (frag_bits byte_bits buf)) pd'"
    using assms
  proof (induction "length buf" arbitrary: pd buf rule: less_induct)
    case less
    let ?n = "length buf" and ?k = "length_chunk (length buf)"
    define tl where "tl = (if length_eom ?n then length_bits 0 else if 16384 \<le> ?n then frag_bits byte_bits (drop ?k buf) else [])"
    have k: "?k \<le> ?n" "0 < ?k" using length_chunk_le length_chunk_pos less.prems(3) by auto
    have fb: "frag_bits byte_bits buf = length_bits ?n @ bytes_bits (take ?k buf) @ tl"
      using less.prems(3) frag_bits_more [of buf] frag_bits_last [of buf] length_chunk_all [of ?n]
      by (auto simp: tl_def bytes_bits_def not_le length_eom_def)
    obtain pd1 where g1: "uper_get_length pd (-1) 0 = (int ?k, 16384 \<le> ?n, pd1)"
        "pd_adv pd (length (length_bits ?n)) pd1"
      using get_length_result [OF less.prems(1), of ?n "bytes_bits (take ?k buf) @ tl @ rest" "-1" 0] less.prems(2) fb
      by auto
    have pb1: "pd_bits pd1 = bytes_bits (take ?k buf) @ tl @ rest"
      using pd_adv_bits [OF g1(2)] less.prems(2) fb by simp
    obtain dst pd2 where g2: "asn_get_many_bits pd1 False (8 * int ?k) = (0, dst, pd2)"
        "pd_adv pd1 (8 * ?k) pd2" "bytes_bits dst = bytes_bits (take ?k buf)" "pd_bits pd2 = tl @ rest"
      using get_many_bits_prefix [OF pd_adv_wf [OF g1(2)] pb1, of "8 * int ?k"] k by (auto simp: min_absorb2)
    have dst: "dst = take ?k buf" using g2(3) by (rule bytes_bits_inj)
    note adv = pd_adv_trans [OF g1(2) g2(2)]
    show ?case
    proof (cases "16384 \<le> ?n")
      case False
      then have "tl = []" "uper_get_fragments pd = (Some buf, pd2)"
        using g1(1) g2(1) dst length_chunk_all [of ?n]
        by (auto simp: tl_def length_eom_def, subst uper_get_fragments.simps, auto)
      then show ?thesis using adv fb k by (auto simp: min_absorb2)
    next
      case True
      define rst where "rst = drop ?k buf"
      have eq: "uper_get_fragments pd = (Some (dst @ b), p)" if "uper_get_fragments pd2 = (Some b, p)" for b p
        using that g1(1) g2(1) True by (subst uper_get_fragments.simps) simp
      have "\<exists>p. uper_get_fragments pd2 = (Some rst, p) \<and> pd_adv pd2 (length tl) p"
      proof (cases "length_eom ?n")
        case True
        then have e: "rst = []" "tl = length_bits 0" using length_chunk_all [of ?n] by (auto simp: tl_def rst_def)
        then obtain pd3 where g3: "uper_get_length pd2 (-1) 0 = (0, False, pd3)" "pd_adv pd2 (length (length_bits 0)) pd3"
          using get_length_result [OF pd_adv_wf [OF g2(2)], of 0 rest "-1" 0] g2(4) by (auto simp: length_chunk_def)
        then have "uper_get_fragments pd2 = (Some [], pd3)"
          by (subst uper_get_fragments.simps) (simp add: asn_get_many_bits_def asn_get_many_bits_loop.simps)
        then show ?thesis using e g3(2) by auto
      next
        case no: False
        then have "tl = frag_bits byte_bits rst" "rst \<noteq> []" "length rst < ?n"
          using True length_chunk_rest [of ?n] k by (auto simp: tl_def rst_def)
        then show ?thesis using less.hyps [of rst pd2] g2(4) pd_adv_wf [OF g2(2)] by auto
      qed
      then obtain p where p: "uper_get_fragments pd2 = (Some rst, p)" "pd_adv pd2 (length tl) p" by blast
      then show ?thesis using eq [OF p(1)] pd_adv_trans [OF adv p(2)] dst fb k by (auto simp: rst_def min_absorb2 add.assoc)
    qed
  qed
  then show thesis using that by blast
qed

lemma get_fragments_moves: "pd_wf pd \<Longrightarrow> uper_get_fragments pd = (r, pd') \<Longrightarrow> pd_moves pd pd'"
proof (induction pd arbitrary: r pd' rule: uper_get_fragments.induct)
  case (1 pd)
  obtain len rep pd1 where g: "uper_get_length pd (-1) 0 = (len, rep, pd1)" by (metis prod.collapse)
  obtain ret dst pd2 where h: "asn_get_many_bits pd1 False (8 * len) = (ret, dst, pd2)" by (metis prod.collapse)
  obtain r3 pd3 where i: "uper_get_fragments pd2 = (r3, pd3)" by force
  have m1: "pd_moves pd pd1" using uper_get_length_moves [OF g "1.prems"(1)] .
  then have m2: "pd_moves pd pd2" using get_many_bits_moves [OF h] pd_moves_wf pd_moves_trans by blast
  have m3: "pd_moves pd pd3" if "\<not> len < 0" "ret = 0" rep
    using "1.IH" [OF g [symmetric] refl _ h [symmetric] refl _ _ _ i] that m2 pd_moves_wf pd_moves_trans by blast
  show ?case using "1.prems"(2) g h i m1 m2 m3
    by (subst (asm) uper_get_fragments.simps) (auto split: if_splits option.splits)
qed

section \<open>Encoding: per_encoder.c\<close>

definition outp_init :: "asn_sink \<Rightarrow> asn_bit_outp" where
  "outp_init sink = \<lparr>po_buffer = 0, po_nboff = 0, po_nbits = 8 * 32, po_tmpspace = replicate 32 0,
     po_output = sink, po_flushed_bytes = 0, po_fault = False\<rparr>"

text \<open>\<open>_uper_encode_flush_outp\<close>.\<close>

definition uper_encode_flush_outp :: "asn_bit_outp \<Rightarrow> int \<times> asn_bit_outp" where
  "uper_encode_flush_outp po =
     (if po_nboff po = 0 \<and> po_buffer po = 0 then (0, po)
      else
        let buf = po_buffer po + po_nboff po div 8;
            part = po_nboff po mod 8;
            po = (if part \<noteq> 0
                  then po\<lparr>po_tmpspace := (po_tmpspace po)[buf := (po_tmpspace po ! buf) AND push_bit (8 - part) 0xFF],
                          po_fault := (po_fault po \<or> length (po_tmpspace po) \<le> buf)\<rparr>
                  else po);
            buf = (if part \<noteq> 0 then buf + 1 else buf)
        in case sink_output (po_output po) (take buf (po_tmpspace po)) of
             None \<Rightarrow> (-1, po)
           | Some out \<Rightarrow> (0, po\<lparr>po_output := out\<rparr>))"

text \<open>The result is \<open>er.encoded\<close> (bits) and the output, as the callback left it.\<close>

definition uper_encode :: "(asn_bit_outp \<Rightarrow> int \<times> asn_bit_outp) \<Rightarrow> asn_sink \<Rightarrow> int \<times> asn_sink" where
  "uper_encode enc sink =
     (case enc (outp_init sink) of
        (er, po) \<Rightarrow>
          if er \<noteq> -1 then
            let bits_to_flush = 8 * po_buffer po + po_nboff po;
                encoded = 8 * po_flushed_bytes po + bits_to_flush
            in case uper_encode_flush_outp po of
                 (r, po) \<Rightarrow> if r \<noteq> 0 then (-1, po_output po) else (int encoded, po_output po)
          else (er, po_output po))"

definition uper_encode_to_buffer :: "(asn_bit_outp \<Rightarrow> int \<times> asn_bit_outp) \<Rightarrow> nat \<Rightarrow> int \<times> byte list" where
  "uper_encode_to_buffer enc buffer_size =
     (case uper_encode enc (Encode_To_Buffer buffer_size []) of (er, sink) \<Rightarrow> (er, sink_bytes sink))"

definition uper_encode_to_new_buffer :: "(asn_bit_outp \<Rightarrow> int \<times> asn_bit_outp) \<Rightarrow> int \<times> byte list" where
  "uper_encode_to_new_buffer enc =
     (case uper_encode enc (Encode_Dyn 0 []) of
        (er, sink) \<Rightarrow>
          if er = -1 then (-1, [])
          else if er = 0 then (1, [0])
          else ((er + 7) div 8, sink_bytes sink))"

section \<open>Decoding: per_decoder.c\<close>

text \<open>
  \<open>buffer\<close> holds the \<open>size\<close> octets given by the caller. \<open>None\<close> is the abort of
  \<open>assert(rval.consumed == pd.moved)\<close>.
\<close>

definition uper_decode ::
  "(asn_bit_data \<Rightarrow> asn_dec_rval \<times> asn_bit_data) \<Rightarrow> byte list \<Rightarrow> int \<Rightarrow> int \<Rightarrow> asn_dec_rval option" where
  "uper_decode dec buffer skip_bits unused_bits =
     (let sz = length buffer
      in if skip_bits < 0 \<or> 7 < skip_bits \<or> unused_bits < 0 \<or> 7 < unused_bits
            \<or> 0 < unused_bits \<and> sz = 0
         then Some RC_FAIL
         else
           let pd = \<lparr>pd_octets = buffer, pd_buffer = 0, pd_nboff = nat skip_bits,
                     pd_nbits = 8 * sz - nat unused_bits, pd_moved = 0, pd_fault = False\<rparr>
           in if pd_nbits pd < pd_nboff pd then Some RC_FAIL
              else
                (case dec pd of
                   (RC_OK v _, pd) \<Rightarrow>
                     let consumed = int (8 * pd_buffer pd + pd_nboff pd) - skip_bits
                     in if consumed = int (pd_moved pd) then Some (RC_OK v (nat consumed)) else None
                 | (RC_WMORE, pd) \<Rightarrow> Some RC_WMORE
                 | (RC_FAIL, pd) \<Rightarrow> Some RC_FAIL))"

definition uper_decode_complete ::
  "(asn_bit_data \<Rightarrow> asn_dec_rval \<times> asn_bit_data) \<Rightarrow> byte list \<Rightarrow> asn_dec_rval option" where
  "uper_decode_complete dec buffer =
     (case uper_decode dec buffer 0 0 of
        Some (RC_OK v consumed) \<Rightarrow>
          if consumed \<noteq> 0 then Some (RC_OK v ((consumed + 7) div 8))
          else if buffer \<noteq> [] then
            (if hd buffer = 0 then Some (RC_OK v 1) else Some RC_FAIL)
          else Some RC_WMORE
      | r \<Rightarrow> r)"

section \<open>Open types: per_opentype.c\<close>

definition uper_open_type_put :: "(asn_bit_outp \<Rightarrow> int \<times> asn_bit_outp) \<Rightarrow> asn_bit_outp \<Rightarrow> int \<times> asn_bit_outp" where
  "uper_open_type_put enc po =
     (case uper_encode_to_new_buffer enc of
        (sz, buf) \<Rightarrow> if sz \<le> 0 then (-1, po) else uper_put_fragments po buf)"

definition uper_open_type_get_simple ::
  "(asn_bit_data \<Rightarrow> asn_dec_rval \<times> asn_bit_data) \<Rightarrow> asn_bit_data \<Rightarrow> asn_dec_rval \<times> asn_bit_data" where
  "uper_open_type_get_simple dec pd =
     (case uper_get_fragments pd of
        (None, pd) \<Rightarrow> (RC_WMORE, pd)
      | (Some buf, pd) \<Rightarrow>
          (case dec \<lparr>pd_octets = buf, pd_buffer = 0, pd_nboff = 0, pd_nbits = 8 * length buf,
                     pd_moved = 0, pd_fault = False\<rparr> of
             (RC_OK v consumed, spd) \<Rightarrow>
               let padding = int (pd_nbits spd) - int (pd_nboff spd)
               in if (padding < 8 \<or> pd_nboff spd = 0 \<and> pd_nbits spd = 8 \<and> pd_buffer spd = 0)
                     \<and> fst (asn_get_few_bits spd padding) = 0
                  then (RC_OK v consumed, pd)
                  else (RC_FAIL, pd)
           | _ \<Rightarrow> (RC_FAIL, pd)))"

definition uper_open_type_get ::
  "(asn_bit_data \<Rightarrow> asn_dec_rval \<times> asn_bit_data) \<Rightarrow> asn_bit_data \<Rightarrow> asn_dec_rval \<times> asn_bit_data" where
  "uper_open_type_get dec pd = uper_open_type_get_simple dec pd"

function uper_sot_suck_loop :: "asn_bit_data \<Rightarrow> asn_bit_data" where
  "uper_sot_suck_loop pd =
     (case asn_get_few_bits pd 24 of
        (v, pd) \<Rightarrow> if 0 \<le> v then uper_sot_suck_loop pd else pd)"
  by pat_completeness auto
termination
proof (relation "measure pd_left", goal_cases)
  case (2 pd v pd1)
  then show ?case using get_few_bits_left(2) [of pd 24] by (metis fst_conv snd_conv in_measure not_numeral_le_zero zero_le_numeral le_minus_one_simps(3))
qed simp

declare uper_sot_suck_loop.simps [simp del]

text \<open>The structure is not touched; the value is a placeholder.\<close>

definition uper_sot_suck :: "asn_bit_data \<Rightarrow> asn_dec_rval \<times> asn_bit_data" where
  "uper_sot_suck pd = (let pd = uper_sot_suck_loop pd in (RC_OK V_NULL (pd_moved pd), pd))"

definition uper_open_type_skip :: "asn_bit_data \<Rightarrow> int \<times> asn_bit_data" where
  "uper_open_type_skip pd =
     (case uper_open_type_get uper_sot_suck pd of
        (RC_OK _ _, pd) \<Rightarrow> (0, pd)
      | (_, pd) \<Rightarrow> (-1, pd))"

section \<open>Encoding\<close>

lemma outp_init_wf: "sink_bytes sink = [] \<Longrightarrow> po_wf (outp_init sink) \<and> po_bits (outp_init sink) = []
    \<and> po_output (outp_init sink) = sink"
  by (simp add: outp_init_def po_wf_def po_bits_def)

lemma byte_bits_mask_high:
  assumes "0 < r" "r < 8"
  shows "byte_bits (b AND push_bit (8 - r) 0xFF) = take r (byte_bits b) @ replicate (8 - r) False"
proof (rule nth_equalityI)
  fix i assume "i < length (byte_bits (b AND push_bit (8 - r) 0xFF))"
  then have i: "i < 8" by simp
  have m: "(0xFF :: byte) = mask 8" by (simp add: mask_numeral)
  show "byte_bits (b AND push_bit (8 - r) 0xFF) ! i = (take r (byte_bits b) @ replicate (8 - r) False) ! i"
  proof (cases "i < r")
    case True
    then have "8 - r \<le> 7 - i" "7 - i - (8 - r) < 8" "7 - i < 8" using assms by auto
    then show ?thesis using True i unfolding m by (simp add: nth_append bit_simps)
  next
    case False
    then have "\<not> 8 - r \<le> 7 - i" using i assms by auto
    then show ?thesis using False i assms unfolding m by (simp add: nth_append bit_simps)
  qed
qed (use assms in simp)

lemma padded_octets:
  assumes "r < 8" "8 * q + r \<le> 8 * length tmp"
    and "tmp' = (if r \<noteq> 0 then tmp[q := (tmp ! q) AND push_bit (8 - r) 0xFF] else tmp)"
    and "e = (if r \<noteq> 0 then q + 1 else q)"
  shows "bytes_bits (take e tmp') = take (8 * q + r) (bytes_bits tmp) @ replicate (pad8 (8 * q + r)) False"
proof (cases "r = 0")
  case True
  then show ?thesis using assms by (simp add: take_bytes_bits)
next
  case False
  then have q: "q < length tmp" using assms by linarith
  have "take (q + 1) tmp' = take q tmp @ [(tmp ! q) AND push_bit (8 - r) 0xFF]"
    using False q assms(3) by (simp add: take_Suc_conv_app_nth)
  then have 1: "bytes_bits (take e tmp') = bytes_bits (take q tmp) @ take r (byte_bits (tmp ! q)) @ replicate (8 - r) False"
    using False assms byte_bits_mask_high [of r "tmp ! q"] by (simp add: bytes_bits_Cons)
  have "take (8 * q + r) (bytes_bits tmp) = bytes_bits (take q tmp) @ take r (drop (8 * q) (bytes_bits tmp))"
    by (simp add: take_add take_bytes_bits)
  also have "drop (8 * q) (bytes_bits tmp) = byte_bits (tmp ! q) @ bytes_bits (drop (Suc q) tmp)"
    using Cons_nth_drop_Suc [OF q] by (metis bytes_bits_Cons drop_bytes_bits)
  finally show ?thesis using 1 assms(1) False by (simp add: pad8_split)
qed

lemma pad8_add_mult: "pad8 (8 * a + n) = pad8 n"
  by (simp add: pad8_mod)

lemma flush_outp_result:
  assumes wf: "po_wf po"
  obtains po' where "uper_encode_flush_outp po = (0, po')" "\<not> po_fault po'"
      "bytes_bits (sink_bytes (po_output po')) = po_bits po @ replicate (pad8 (length (po_bits po))) False"
  | po' where "uper_encode_flush_outp po = (-1, po')" "\<not> sink_unbounded (po_output po)"
proof -
  define q r where "q = po_buffer po + po_nboff po div 8" and "r = po_nboff po mod 8"
  have tot: "8 * po_buffer po + po_nboff po = 8 * q + r" by (simp add: q_def r_def)
  have le: "8 * q + r \<le> 8 * length (po_tmpspace po)" "length (po_tmpspace po) = 32"
    using wf tot by (auto simp: po_wf_def)
  define e where "e = (if r \<noteq> 0 then q + 1 else q)"
  define tmp where "tmp = (if r \<noteq> 0 then (po_tmpspace po)[q := (po_tmpspace po ! q) AND push_bit (8 - r) 0xFF] else po_tmpspace po)"
  have out: "bytes_bits (take e tmp) = take (8 * q + r) (bytes_bits (po_tmpspace po)) @ replicate (pad8 (8 * q + r)) False"
    by (rule padded_octets [OF _ le(1) tmp_def e_def]) (simp add: r_def)
  have pad: "pad8 (length (po_bits po)) = pad8 (8 * q + r)"
    using le tot by (simp add: po_bits_def pad8_add_mult min_absorb2)
  show thesis
  proof (cases "po_nboff po = 0 \<and> po_buffer po = 0")
    case True
    then show thesis using that(1) wf by (simp add: uper_encode_flush_outp_def po_bits_def po_wf_def pad8_def)
  next
    case False
    define po1 where "po1 = (if r \<noteq> 0 then po\<lparr>po_tmpspace := tmp, po_fault := po_fault po \<or> length (po_tmpspace po) \<le> q\<rparr> else po)"
    have eq: "uper_encode_flush_outp po = (case sink_output (po_output po) (take e tmp) of None \<Rightarrow> (-1, po1)
        | Some out \<Rightarrow> (0, po1\<lparr>po_output := out\<rparr>))"
      using False unfolding uper_encode_flush_outp_def Let_def po1_def e_def tmp_def
        q_def [symmetric] r_def [symmetric]
      by (cases "r = 0") auto
    have nf: "\<not> po_fault po1" using wf le by (auto simp: po1_def po_wf_def)
    show thesis
    proof (cases "sink_output (po_output po) (take e tmp)")
      case None
      then show thesis using that(2) eq sink_output_unbounded [of "po_output po" "take e tmp"] by auto
    next
      case (Some s)
      have "bytes_bits (sink_bytes s) = po_bits po @ replicate (pad8 (length (po_bits po))) False"
        using sink_output_Some(1) [OF Some] out pad by (simp add: po_bits_def tot)
      then show thesis using that(1) [of "po1\<lparr>po_output := s\<rparr>"] eq Some nf by simp
    qed
  qed
qed

text \<open>The complete encoding of a value: its bits, padded with zeros to whole octets.\<close>

lemma uper_encode_result:
  assumes enc: "encodes enc bs" and sink: "sink_bytes sink = []"
  obtains sink' where "uper_encode enc sink = (int (length bs), sink')"
      "bytes_bits (sink_bytes sink') = bs @ replicate (pad8 (length bs)) False"
  | sink' where "uper_encode enc sink = (-1, sink')" "\<not> sink_unbounded sink"
proof -
  note init = outp_init_wf [OF sink]
  obtain er po where e: "enc (outp_init sink) = (er, po)" by force
  have "put_result (outp_init sink) bs (er, po)" using encodesD [OF enc] init e by metis
  then consider "er = 0" "po_app (outp_init sink) bs po" | "er = -1" "\<not> sink_unbounded sink"
    using init by (auto simp: put_result_def)
  then show thesis
  proof cases
    case 2
    then show thesis using that(2) e by (simp add: uper_encode_def)
  next
    case 1
    have wf: "po_wf po" and pb: "po_bits po = bs" and ub: "sink_unbounded sink \<longrightarrow> sink_unbounded (po_output po)"
      using 1(2) init by (auto simp: po_app_def)
    have len: "8 * po_flushed_bytes po + (8 * po_buffer po + po_nboff po) = length bs"
      using wf by (auto simp: po_wf_def po_bits_def min_absorb2 simp flip: pb)
    show thesis
    proof (rule flush_outp_result [OF wf])
      fix po' assume "uper_encode_flush_outp po = (0, po')"
        "bytes_bits (sink_bytes (po_output po')) = po_bits po @ replicate (pad8 (length (po_bits po))) False"
      then show thesis using that(1) [of "po_output po'"] e 1(1) pb len by (simp add: uper_encode_def Let_def)
    next
      fix po' assume "uper_encode_flush_outp po = (-1, po')" "\<not> sink_unbounded (po_output po)"
      then show thesis using that(2) [of "po_output po'"] e 1(1) ub by (simp add: uper_encode_def Let_def)
    qed
  qed
qed

definition complete_bits :: "bits \<Rightarrow> bits" where
  "complete_bits bs = (if bs = [] then replicate 8 False else bs @ replicate (pad8 (length bs)) False)"

lemma new_buffer_result:
  assumes "encodes enc bs"
  obtains buf where "uper_encode_to_new_buffer enc = (int (length buf), buf)" "buf \<noteq> []"
    "bytes_bits buf = complete_bits bs"
proof -
  obtain s where s: "uper_encode enc (Encode_Dyn 0 []) = (int (length bs), s)"
      "bytes_bits (sink_bytes s) = bs @ replicate (pad8 (length bs)) False"
    by (rule uper_encode_result [OF assms, of "Encode_Dyn 0 []"]) auto
  show thesis
  proof (cases "bs = []")
    case True
    then show thesis using that [of "[0]"] s
      by (simp add: uper_encode_to_new_buffer_def complete_bits_def bytes_bits_Cons byte_bits_def upt_rec numeral_eq_Suc)
  next
    case False
    have "8 * length (sink_bytes s) = length bs + pad8 (length bs)"
      using arg_cong [OF s(2), of length] by simp
    then have len: "length (sink_bytes s) = (length bs + 7) div 8" using pad8_add [of "length bs"] by simp
    then have "(int (length bs) + 7) div 8 = int (length (sink_bytes s))" by (simp add: zdiv_int)
    moreover have "sink_bytes s \<noteq> []" using s(2) False by auto
    ultimately show thesis using that [of "sink_bytes s"] s False
      by (auto simp: uper_encode_to_new_buffer_def complete_bits_def)
  qed
qed


section \<open>Decoding\<close>

definition pd_of :: "byte list \<Rightarrow> asn_bit_data" where
  "pd_of buf = \<lparr>pd_octets = buf, pd_buffer = 0, pd_nboff = 0, pd_nbits = 8 * length buf, pd_moved = 0, pd_fault = False\<rparr>"

lemma pd_of_wf: "pd_wf (pd_of buf)" "pd_bits (pd_of buf) = bytes_bits buf" "pd_pos (pd_of buf) = 0"
    "pd_moved (pd_of buf) = 0"
  by (simp_all add: pd_of_def pd_wf_def pd_bits_def pd_pos_def)

text \<open>The assertion on the consumed bits holds for every safe decoder, whatever the input.\<close>

lemma uper_decode_safe:
  assumes "safe_decoder dec"
  shows "\<exists>r. uper_decode dec buffer skip unused = Some r
     \<and> (\<forall>v n. r = RC_OK v n \<longrightarrow> int n \<le> 8 * int (length buffer) - skip - unused)"
proof (cases "skip < 0 \<or> 7 < skip \<or> unused < 0 \<or> 7 < unused \<or> 0 < unused \<and> length buffer = 0
    \<or> 8 * length buffer - nat unused < nat skip")
  case True
  then show ?thesis by (auto simp: uper_decode_def Let_def)
next
  case False
  define pd where "pd = \<lparr>pd_octets = buffer, pd_buffer = 0, pd_nboff = nat skip,
      pd_nbits = 8 * length buffer - nat unused, pd_moved = 0, pd_fault = False\<rparr>"
  have wf: "pd_wf pd" using False by (auto simp: pd_wf_def pd_def)
  obtain r pd' where d: "dec pd = (r, pd')" by force
  obtain m where adv: "pd_adv pd m pd'"
    using safe_decoderD [OF assms wf d] by (auto simp: pd_moves_def)
  have pos: "8 * pd_buffer pd' + pd_nboff pd' = nat skip + m" "pd_moved pd' = m"
    using adv by (auto simp: pd_adv_def pd_pos_def pd_def)
  have le: "nat skip + m \<le> 8 * length buffer - nat unused"
    using adv unfolding pd_adv_def pd_wf_def pd_pos_def pd_end_def by (simp add: pd_def)
  have "uper_decode dec buffer skip unused = (case r of RC_OK v _ \<Rightarrow> Some (RC_OK v m) | RC_WMORE \<Rightarrow> Some RC_WMORE | RC_FAIL \<Rightarrow> Some RC_FAIL)"
  proof -
    have c: "8 * int (pd_buffer pd') + int (pd_nboff pd') - skip = int m" using pos(1) False by linarith
    have "\<not> pd_nbits pd < pd_nboff pd" using False by (simp add: pd_def)
    then show ?thesis using False unfolding uper_decode_def Let_def pd_def [symmetric] d
      by (cases r) (simp_all add: pos(2) c)
  qed
  moreover have "int m \<le> 8 * int (length buffer) - skip - unused"
  proof (cases "length buffer = 0")
    case False
    then have "nat unused \<le> 8 * length buffer" using \<open>\<not> (skip < 0 \<or> _)\<close> by linarith
    then show ?thesis using le \<open>\<not> (skip < 0 \<or> _)\<close> by linarith
  qed (use le False in auto)
  ultimately show ?thesis by (cases r) auto
qed

lemma decodes_safe_pos: "decodes dec bs v used \<Longrightarrow> bytes_bits buf = bs @ rest \<Longrightarrow>
    uper_decode dec buf 0 0 = Some (RC_OK v (length bs))"
proof -
  assume dec: "decodes dec bs v used" and buf: "bytes_bits buf = bs @ rest"
  obtain pd' where d: "dec (pd_of buf) = (RC_OK v used, pd')" "pd_adv (pd_of buf) (length bs) pd'"
    using decodesE [OF dec pd_of_wf(1) trans [OF pd_of_wf(2) buf]] by blast
  have "8 * pd_buffer pd' + pd_nboff pd' = length bs" "pd_moved pd' = length bs"
    using d(2) pd_of_wf by (auto simp: pd_adv_def pd_pos_def)
  then show ?thesis using d(1) by (simp add: uper_decode_def Let_def pd_of_def)
qed

lemma bits_val_False: "bits_val (replicate n False) = 0"
  by (rule bit_eqI) (auto simp: bit_bits_val)

lemma complete_bits_cases:
  "bytes_bits buf = complete_bits bs \<Longrightarrow> \<exists>pad. bytes_bits buf = bs @ replicate pad False
     \<and> (bs = [] \<and> buf = [0] \<and> pad = 8 \<or> bs \<noteq> [] \<and> pad = pad8 (length bs) \<and> length buf = (length bs + 7) div 8)"
proof (cases "bs = []")
  case True
  assume b: "bytes_bits buf = complete_bits bs"
  have "bytes_bits [0] = replicate 8 False"
    by (simp add: bytes_bits_Cons byte_bits_def upt_rec numeral_eq_Suc)
  then show ?thesis using True b bytes_bits_inj [of buf "[0]"] by (auto simp: complete_bits_def)
next
  case False
  assume b: "bytes_bits buf = complete_bits bs"
  have "8 * length buf = length bs + pad8 (length bs)"
    using False arg_cong [OF b, of length] by (simp add: complete_bits_def)
  then show ?thesis using False b pad8_add [of "length bs"] by (simp add: complete_bits_def)
qed

text \<open>The complete encoding is decoded back, and all of it is consumed.\<close>

lemma complete_roundtrip:
  assumes "encodes enc bs" "decodes dec bs v used"
  shows "\<exists>buf. uper_encode_to_new_buffer enc = (int (length buf), buf)
     \<and> uper_decode_complete dec buf = Some (RC_OK v (length buf))"
proof -
  obtain buf where b: "uper_encode_to_new_buffer enc = (int (length buf), buf)" "bytes_bits buf = complete_bits bs"
    using new_buffer_result [OF assms(1)] by metis
  obtain pad where p: "bytes_bits buf = bs @ replicate pad False"
      "bs = [] \<and> buf = [0] \<and> pad = 8 \<or> bs \<noteq> [] \<and> pad = pad8 (length bs) \<and> length buf = (length bs + 7) div 8"
    using complete_bits_cases [OF b(2)] by blast
  have "uper_decode dec buf 0 0 = Some (RC_OK v (length bs))"
    by (rule decodes_safe_pos [OF assms(2) p(1)])
  then have "uper_decode_complete dec buf = Some (RC_OK v (length buf))"
    using p(2) by (auto simp: uper_decode_complete_def)
  then show ?thesis using b(1) by blast
qed

section \<open>Open types\<close>

function bits_bytes :: "bits \<Rightarrow> byte list" where
  "bits_bytes bs = (if bs = [] then [] else word_of_nat (bits_val (take 8 bs)) # bits_bytes (drop 8 bs))"
  by pat_completeness auto
termination
  by (relation "measure length") auto

declare bits_bytes.simps [simp del]

lemma bits_bytes_bytes_bits [simp]: "bits_bytes (bytes_bits buf) = buf"
proof (induction buf)
  case Nil
  then show ?case by (simp add: bits_bytes.simps)
next
  case (Cons b buf)
  have "byte_bits (word_of_nat (bits_val (byte_bits b))) = byte_bits b"
    using nat_bits_bits_val [of "byte_bits b"] by simp
  then have "word_of_nat (bits_val (byte_bits b)) = b" by (rule byte_bits_inj)
  moreover have "byte_bits b \<noteq> []" by (metis length_byte_bits list.size(3) zero_neq_numeral)
  ultimately show ?case using Cons.IH by (subst bits_bytes.simps) (simp add: bytes_bits_Cons)
qed

definition open_type_bits :: "bits \<Rightarrow> bits" where
  "open_type_bits bs = frag_bits byte_bits (bits_bytes (complete_bits bs))"

lemma open_type_bits: "bytes_bits buf = complete_bits bs \<Longrightarrow> open_type_bits bs = frag_bits byte_bits buf"
  unfolding open_type_bits_def by (metis bits_bytes_bytes_bits)

lemma open_type_put_encodes:
  assumes "encodes enc bs"
  shows "encodes (uper_open_type_put enc) (open_type_bits bs)"
proof -
  obtain buf where b: "uper_encode_to_new_buffer enc = (int (length buf), buf)" "buf \<noteq> []" "bytes_bits buf = complete_bits bs"
    using new_buffer_result [OF assms] by metis
  then show ?thesis using put_fragments_result
    by (simp add: encodes_def uper_open_type_put_def open_type_bits [OF b(3)])
qed

lemma open_type_get_decodes:
  assumes "encodes enc bs" "decodes dec bs v used"
  shows "decodes (uper_open_type_get dec) (open_type_bits bs) v used"
  unfolding decodes_def
proof (intro allI impI)
  fix pd rest assume wf: "pd_wf pd" and pb: "pd_bits pd = open_type_bits bs @ rest"
  obtain buf where b: "buf \<noteq> []" "bytes_bits buf = complete_bits bs"
    using new_buffer_result [OF assms(1)] by metis
  note ob = open_type_bits [OF b(2)]
  obtain pd1 where g: "uper_get_fragments pd = (Some buf, pd1)" "pd_adv pd (length (open_type_bits bs)) pd1"
    using get_fragments_result [OF wf pb [unfolded ob] b(1)] unfolding ob by blast
  obtain pad where p: "bytes_bits buf = bs @ replicate pad False"
      "bs = [] \<and> buf = [0] \<and> pad = 8 \<or> bs \<noteq> [] \<and> pad = pad8 (length bs) \<and> length buf = (length bs + 7) div 8"
    using complete_bits_cases [OF b(2)] by blast
  obtain spd where d: "dec (pd_of buf) = (RC_OK v used, spd)" "pd_adv (pd_of buf) (length bs) spd" "pd_wf spd"
      "pd_bits spd = replicate pad False"
    using decodesE [OF assms(2) pd_of_wf(1) trans [OF pd_of_wf(2) p(1)]] by blast
  have padding: "int (pd_nbits spd) - int (pd_nboff spd) = int pad"
    using length_pd_bits [OF d(3)] d(3,4) by (simp add: pd_wf_def)
  have small: "pad < 8 \<or> pd_nboff spd = 0 \<and> pd_nbits spd = 8 \<and> pd_buffer spd = 0"
    using p(2)
  proof
    assume e: "bs = [] \<and> buf = [0] \<and> pad = 8"
    then have "8 * pd_buffer spd + pd_nboff spd = 0" "8 * pd_buffer spd + pd_nbits spd = 8"
      using d(2) by (auto simp: pd_adv_def pd_pos_def pd_end_def pd_of_def)
    then show ?thesis by auto
  qed (use pad8_less in auto)
  have "pad \<le> 31" using p(2) pad8_less [of "length bs"] by auto
  then obtain pd2 where "asn_get_few_bits spd (int pad) = (int (bits_val (replicate pad False)), pd2)"
    using get_few_bits_prefix [OF d(3), of "replicate pad False" "[]" "int pad"] d(4) by auto
  then have "fst (asn_get_few_bits spd (int pad)) = 0" by (simp add: bits_val_False)
  moreover have "int pad < 8 \<or> pd_nboff spd = 0 \<and> pd_nbits spd = 8 \<and> pd_buffer spd = 0" using small by simp
  ultimately have "uper_open_type_get dec pd = (RC_OK v used, pd1)"
    unfolding uper_open_type_get_def uper_open_type_get_simple_def g(1) Let_def pd_of_def [symmetric]
    by (simp add: d(1) padding)
  then show "\<exists>pd'. uper_open_type_get dec pd = (RC_OK v used, pd') \<and> pd_adv pd (length (open_type_bits bs)) pd'"
    using g(2) by blast
qed

lemma open_type_get_safe: "safe_decoder (uper_open_type_get dec)"
proof (rule safe_decoderI)
  fix pd r pd' assume wf: "pd_wf pd" and d: "uper_open_type_get dec pd = (r, pd')"
  obtain b pd1 where g: "uper_get_fragments pd = (b, pd1)" by force
  have "snd (uper_open_type_get dec pd) = pd1"
    unfolding uper_open_type_get_def uper_open_type_get_simple_def g Let_def
    by (simp split: option.split prod.split asn_dec_rval.split)
  then show "pd_moves pd pd'" using get_fragments_moves [OF wf g] d by simp
qed

end
