(* ===== verification/Integer.thy ===== *)
theory Integer
  imports Per_Codec
begin

unbundle bit_operations_syntax

text \<open>
  The INTEGER type, \<open>INTEGER.c\<close>: conversions between content octets and native integers, and the
  UPER codec. An \<open>INTEGER_t\<close> is its content (\<open>None\<close> when \<open>buf\<close> is NULL); \<open>intmax_t\<close>, \<open>uintmax_t\<close>,
  \<open>long\<close> and \<open>unsigned long\<close> are 64 bits wide.

  The specification is \<open>be_sint\<close>, the two's complement value of the content octets: the
  conversions compute it exactly when it fits (\<open>INTEGER2imax_spec\<close>), and \<open>asn_imax2INTEGER\<close>
  yields its shortest representation.
\<close>

section \<open>Definitions\<close>

definition asn__integer_convert :: "byte list \<Rightarrow> 64 word" where
  "asn__integer_convert b =
     foldl (\<lambda>value x. push_bit 8 value OR ucast x) (if drop_bit 7 (hd b) \<noteq> 0 then -1 else 0) b"

text \<open>The loop over insignificant leading octets in \<open>asn_INTEGER2imax\<close> and \<open>asn_imax2INTEGER\<close>.\<close>

fun skip_insignificant :: "byte list \<Rightarrow> byte list" where
  "skip_insignificant (b0 # b1 # bs) =
     (if b0 = 0x00 \<and> b1 AND 0x80 = 0 then skip_insignificant (b1 # bs)
      else if b0 = 0xFF \<and> b1 AND 0x80 \<noteq> 0 then skip_insignificant (b1 # bs)
      else b0 # b1 # bs)"
| "skip_insignificant bs = bs"

definition asn_INTEGER2imax :: "byte list option \<Rightarrow> int option" where
  "asn_INTEGER2imax iptr =
     (case iptr of
        None \<Rightarrow> None
      | Some b \<Rightarrow>
          let b = (if 8 < length b then skip_insignificant b else b)
          in if 8 < length b then None
             else if b = [] then Some 0
             else Some (sint (asn__integer_convert b)))"

fun umax_strip :: "byte list \<Rightarrow> byte list option" where
  "umax_strip b = (if 8 < length b then (if hd b \<noteq> 0 then None else umax_strip (tl b)) else Some b)"

declare umax_strip.simps [simp del]

definition asn_INTEGER2umax :: "byte list option \<Rightarrow> 64 word option" where
  "asn_INTEGER2umax iptr =
     (case iptr of
        None \<Rightarrow> None
      | Some b \<Rightarrow>
          (case umax_strip b of
             None \<Rightarrow> None
           | Some b \<Rightarrow> Some (foldl (\<lambda>value x. push_bit 8 value OR ucast x) 0 b)))"

text \<open>The eight octets of a 64-bit value, most significant first.\<close>

definition octets_be :: "64 word \<Rightarrow> byte list" where
  "octets_be v = map (\<lambda>shr. ucast (drop_bit shr v)) [56, 48, 40, 32, 24, 16, 8, 0]"

definition asn_imax2INTEGER :: "int \<Rightarrow> byte list" where
  "asn_imax2INTEGER v = skip_insignificant (octets_be (word_of_int v))"

definition asn_umax2INTEGER :: "64 word \<Rightarrow> byte list" where
  "asn_umax2INTEGER v =
     (if v \<le> drop_bit 1 (NOT 0) then asn_imax2INTEGER (uint v) else 0 # octets_be v)"

definition asn_INTEGER2long :: "byte list option \<Rightarrow> int option" where
  "asn_INTEGER2long iptr =
     (case asn_INTEGER2imax iptr of
        Some v \<Rightarrow> if v < LONG_MIN \<or> LONG_MAX < v then None else Some v
      | None \<Rightarrow> None)"

definition asn_INTEGER2ulong :: "byte list option \<Rightarrow> 64 word option" where
  "asn_INTEGER2ulong iptr =
     (case asn_INTEGER2umax iptr of
        Some v \<Rightarrow> if word_of_int (2 ^ 64 - 1) < v then None else Some v
      | None \<Rightarrow> None)"

definition asn_long2INTEGER :: "int \<Rightarrow> byte list" where
  "asn_long2INTEGER v = asn_imax2INTEGER v"

text \<open>The argument is converted to \<open>intmax_t\<close>.\<close>

definition asn_ulong2INTEGER :: "64 word \<Rightarrow> byte list" where
  "asn_ulong2INTEGER v = asn_imax2INTEGER (sint v)"

definition td_field_unsigned :: "asn_TYPE_descriptor \<Rightarrow> bool" where
  "td_field_unsigned td = (case td_specifics td of SPC_INTEGER specs \<Rightarrow> field_unsigned specs | _ \<Rightarrow> False)"

text \<open>
  The part after the extension bit. In a semi-constrained type \<open>st->buf\<close> starts with a zero octet
  and the content is read behind it.
\<close>

definition INTEGER_decode_body ::
  "asn_TYPE_descriptor \<Rightarrow> asn_per_constraint option \<Rightarrow> asn_bit_data \<Rightarrow> asn_dec_rval \<times> asn_bit_data" where
  "INTEGER_decode_body td ct pd =
     (case ct of
        Some c \<Rightarrow>
          if \<not> apc_unconstrained c \<and> 0 \<le> range_bits c then
            if 64 < range_bits c then (RC_FAIL, pd)
            else
              (case uper_get_constrained_whole_number pd (range_bits c) of
                 (None, pd) \<Rightarrow> (RC_WMORE, pd)
               | (Some uvalue, pd) \<Rightarrow>
                   if td_field_unsigned td then
                     (RC_OK (V_INTEGER (Some (asn_ulong2INTEGER
                        (uvalue + word_of_int (lower_bound c))))) 0, pd)
                   else
                     (case per_long_range_unrebase uvalue (lower_bound c) (upper_bound c) of
                        None \<Rightarrow> (RC_FAIL, pd)
                      | Some svalue \<Rightarrow> (RC_OK (V_INTEGER (Some (asn_long2INTEGER svalue))) 0, pd)))
          else
            (case uper_get_fragments pd of
               (None, pd) \<Rightarrow> (RC_WMORE, pd)
             | (Some buf, pd) \<Rightarrow>
                 let buf = (if APC_SEMI_CONSTRAINED c then [0] else []) @ buf
                 in if lower_bound c \<noteq> 0 then
                      (case asn_INTEGER2long (Some buf) of
                         None \<Rightarrow> (RC_FAIL, pd)
                       | Some value \<Rightarrow>
                           (RC_OK (V_INTEGER (Some (asn_imax2INTEGER (value + lower_bound c)))) 0, pd))
                    else (RC_OK (V_INTEGER (Some buf)) 0, pd))
      | None \<Rightarrow>
          (case uper_get_fragments pd of
             (None, pd) \<Rightarrow> (RC_WMORE, pd)
           | (Some buf, pd) \<Rightarrow> (RC_OK (V_INTEGER (Some buf)) 0, pd)))"

definition INTEGER_decode_uper :: uper_decoder where
  "INTEGER_decode_uper td constraints pd =
     (case (case value_constraint td constraints of
              Some c \<Rightarrow>
                if APC_EXTENSIBLE c then
                  (case asn_get_few_bits pd 1 of
                     (inext, pd) \<Rightarrow>
                       if inext < 0 then (None, pd)
                       else (Some (if inext \<noteq> 0 then None else Some c), pd))
                else (Some (Some c), pd)
            | None \<Rightarrow> (Some None, pd)) of
        (None, pd) \<Rightarrow> (RC_WMORE, pd)
      | (Some ct, pd) \<Rightarrow> INTEGER_decode_body td ct pd)"

text \<open>The value and whether it is outside of the root range; \<open>None\<close> when it does not convert.\<close>

definition INTEGER_inext :: "asn_per_constraint \<Rightarrow> bool \<Rightarrow> byte list option \<Rightarrow> (int \<times> bool) option" where
  "INTEGER_inext ct is_unsigned st =
     (if is_unsigned then
        (case asn_INTEGER2ulong st of
           None \<Rightarrow> None
         | Some uval \<Rightarrow>
             Some (sint uval,
               if APC_SEMI_CONSTRAINED ct then uval < word_of_int (lower_bound ct)
               else 0 \<le> range_bits ct
                    \<and> (uval < word_of_int (lower_bound ct) \<or> word_of_int (upper_bound ct) < uval)))
      else
        (case asn_INTEGER2long st of
           None \<Rightarrow> None
         | Some value \<Rightarrow>
             Some (value,
               if APC_SEMI_CONSTRAINED ct then value < lower_bound ct
               else 0 \<le> range_bits ct \<and> (value < lower_bound ct \<or> upper_bound ct < value))))"

text \<open>The constrained whole number, or the fragments of the content.\<close>

definition INTEGER_encode_body ::
  "asn_per_constraint option \<Rightarrow> int \<Rightarrow> byte list \<Rightarrow> asn_bit_outp \<Rightarrow> int \<times> asn_bit_outp" where
  "INTEGER_encode_body ct value buf po =
     (case ct of
        Some c \<Rightarrow>
          if 0 \<le> range_bits c then
            (case per_long_range_rebase value (lower_bound c) (upper_bound c) of
               None \<Rightarrow> (-1, po)
             | Some v \<Rightarrow>
                 (case uper_put_constrained_whole_number_u po v (range_bits c) of
                    (r, po) \<Rightarrow> if r \<noteq> 0 then (-1, po) else (0, po)))
          else if lower_bound c \<noteq> 0 then (-1, po)
          else uper_put_fragments po buf
      | None \<Rightarrow> uper_put_fragments po buf)"

definition INTEGER_encode_uper ::
  "asn_TYPE_descriptor \<Rightarrow> asn_per_constraints option \<Rightarrow> byte list option \<Rightarrow> asn_bit_outp \<Rightarrow> int \<times> asn_bit_outp" where
  "INTEGER_encode_uper td constraints st po =
     (case st of
        None \<Rightarrow> (-1, po)
      | Some buf \<Rightarrow>
          if buf = [] then (-1, po)
          else
            (case value_constraint td constraints of
               None \<Rightarrow> INTEGER_encode_body None 0 buf po
             | Some c \<Rightarrow>
                 (case INTEGER_inext c (td_field_unsigned td) st of
                    None \<Rightarrow> (-1, po)
                  | Some (value, inext) \<Rightarrow>
                      if APC_EXTENSIBLE c then
                        (case asn_put_few_bits po (if inext then 1 else 0) 1 of
                           (r, po) \<Rightarrow>
                             if r \<noteq> 0 then (-1, po)
                             else INTEGER_encode_body (if inext then None else Some c) value buf po)
                      else if inext then (-1, po)
                      else INTEGER_encode_body (Some c) value buf po)))"

section \<open>Two's complement values\<close>

definition be_uint :: "byte list \<Rightarrow> int" where
  "be_uint bs = int (bits_val (bytes_bits bs))"

definition be_sint :: "byte list \<Rightarrow> int" where
  "be_sint bs = be_uint bs - (if bs \<noteq> [] \<and> bit (hd bs) 7 then 2 ^ (8 * length bs) else 0)"

lemma be_uint_Nil [simp]: "be_uint [] = 0"
  by (simp add: be_uint_def)

lemma word_of_nat_unat_byte: "word_of_nat (unat b) = (b :: byte)"
  by simp

lemma unat_less_power_byte: "unat (b :: byte) < 2 ^ 8"
  using unsigned_less [of b] by simp

lemma be_uint_Cons: "be_uint (b # bs) = uint b * 2 ^ (8 * length bs) + be_uint bs"
proof -
  have "byte_bits b = nat_bits 8 (unat b)" by (metis byte_bits_of_nat word_of_nat_unat_byte)
  then have "bits_val (byte_bits b) = unat b"
    using unat_less_power_byte [of b] by (simp add: bits_val_nat_bits_less)
  then show ?thesis by (simp add: be_uint_def bytes_bits_Cons bits_val_append)
qed

lemma be_uint_bounds: "0 \<le> be_uint bs" "be_uint bs < 2 ^ (8 * length bs)"
proof -
  have "bits_val (bytes_bits bs) < 2 ^ length (bytes_bits bs)" by (rule bits_val_less)
  then have "int (bits_val (bytes_bits bs)) < int (2 ^ (8 * length bs))" by simp
  then show "0 \<le> be_uint bs" "be_uint bs < 2 ^ (8 * length bs)" by (simp_all add: be_uint_def)
qed

lemma uint_byte_bounds: "0 \<le> uint (b :: byte)" "uint b < 256"
  using uint_lt2p [of b] by auto

lemma bit7_iff: "bit (b :: byte) 7 \<longleftrightarrow> 128 \<le> uint b"
proof -
  have "bit (b :: byte) 7 \<longleftrightarrow> odd (uint b div 2 ^ 7)"
    by (metis bit_iff_odd bit_uint_iff bit_imp_le_length)
  moreover have "uint b div 128 = (if 128 \<le> uint b then 1 else 0)"
    using uint_byte_bounds [of b] int_div_pos_eq [of "uint b" 128 1 "uint b - 128"] by auto
  ultimately show ?thesis by simp
qed

lemma be_sint_bounds:
  assumes "bs \<noteq> []"
  shows "- (2 ^ (8 * length bs - 1)) \<le> be_sint bs" "be_sint bs < 2 ^ (8 * length bs - 1)"
proof -
  obtain b r where bs: "bs = b # r" using assms by (cases bs) auto
  define P where "P = (2 :: int) ^ (8 * length r)"
  have r: "0 \<le> be_uint r" "be_uint r < P" using be_uint_bounds [of r] by (auto simp: P_def)
  have P0: "0 < P" by (simp add: P_def)
  have e: "8 * length bs - 1 = 7 + 8 * length r" "8 * length bs = 8 + 8 * length r" by (auto simp: bs)
  have pow: "(2 :: int) ^ (8 * length bs - 1) = 128 * P" "(2 :: int) ^ (8 * length bs) = 256 * P"
    unfolding e P_def by (simp_all add: power_add)
  have s: "be_sint bs = (if 128 \<le> uint b then uint b - 256 else uint b) * P + be_uint r"
    by (simp add: be_sint_def pow(2)) (simp add: bs be_uint_Cons P_def bit7_iff algebra_simps)
  define c where "c = (if 128 \<le> uint b then uint b - 256 else uint b)"
  have c: "-128 \<le> c" "c \<le> 127" unfolding c_def using uint_byte_bounds [of b] by (auto split: if_splits intro: order_trans [of _ 0])
  have "-128 * P \<le> c * P" "c * P \<le> 127 * P" using c P0 by (intro mult_right_mono; simp)+
  then show "- (2 ^ (8 * length bs - 1)) \<le> be_sint bs" "be_sint bs < 2 ^ (8 * length bs - 1)"
    unfolding pow(1) s c_def [symmetric] using r by linarith+
qed

lemma uint_FF: "uint (0xFF :: byte) = 255"
  by simp

lemma and_80_iff: "(b :: byte) AND 0x80 = 0 \<longleftrightarrow> \<not> bit b 7"
  using and_exp_eq_0_iff_not_bit [of b 7] by simp

text \<open>Dropping insignificant octets keeps the value, and what is left is the shortest form.\<close>

lemma skip_insignificant_value: "be_sint (skip_insignificant bs) = be_sint bs"
proof (induction bs rule: skip_insignificant.induct)
  case (1 b0 b1 bs)
  have "be_sint (b1 # bs) = be_sint (b0 # b1 # bs)" if "b0 = 0 \<and> \<not> bit b1 7 \<or> b0 = 0xFF \<and> bit b1 7"
  proof -
    have "uint b0 = 0 \<and> \<not> bit b1 7 \<or> uint b0 = 255 \<and> bit b1 7" using that uint_FF by auto
    then show ?thesis by (auto simp: be_sint_def be_uint_Cons bit7_iff power_add algebra_simps)
  qed
  then show ?case using "1.IH" by (auto simp: and_80_iff)
qed auto

definition minimal_content :: "byte list \<Rightarrow> bool" where
  "minimal_content bs \<longleftrightarrow> (\<forall>b0 b1 r. bs = b0 # b1 # r \<longrightarrow> \<not> (b0 = 0 \<and> \<not> bit b1 7) \<and> \<not> (b0 = 0xFF \<and> bit b1 7))"

lemma skip_insignificant_minimal: "minimal_content (skip_insignificant bs)"
proof (induction bs rule: skip_insignificant.induct)
  case (1 b0 b1 bs)
  show ?case
  proof (cases "b0 = 0 \<and> \<not> bit b1 7 \<or> b0 = 0xFF \<and> bit b1 7")
    case True
    then show ?thesis using "1.IH" by (auto simp: and_80_iff)
  next
    case False
    then have "skip_insignificant (b0 # b1 # bs) = b0 # b1 # bs" by (auto simp: and_80_iff)
    then show ?thesis using False by (simp add: minimal_content_def)
  qed
qed (simp_all add: minimal_content_def)

lemma skip_insignificant_length: "length (skip_insignificant bs) \<le> length bs" "skip_insignificant bs = [] \<longleftrightarrow> bs = []"
  by (induction bs rule: skip_insignificant.induct) auto

lemma skip_insignificant_id: "minimal_content bs \<Longrightarrow> skip_insignificant bs = bs"
  by (cases bs rule: skip_insignificant.cases) (auto simp: minimal_content_def and_80_iff)

text \<open>A shortest form of more than eight octets does not fit into 64 bits.\<close>

lemma minimal_content_large:
  assumes "minimal_content bs" "Suc n \<le> length bs" "1 \<le> n"
  shows "be_sint bs < - (2 ^ (8 * n - 1)) \<or> 2 ^ (8 * n - 1) \<le> be_sint bs"
proof -
  obtain b0 b1 r where bs: "bs = b0 # b1 # r" using assms by (cases bs rule: skip_insignificant.cases) auto
  define P where "P = (2 :: int) ^ (8 * length r)"
  have P0: "0 < P" by (simp add: P_def)
  have r: "0 \<le> be_uint r" "be_uint r < P" using be_uint_bounds [of r] by (auto simp: P_def)
  have "8 * n - 1 \<le> 7 + 8 * length r" using assms(2) bs by simp
  then have "(2 :: int) ^ (8 * n - 1) \<le> 2 ^ (7 + 8 * length r)" by (rule power_increasing) simp
  then have lim: "(2 :: int) ^ (8 * n - 1) \<le> 128 * P" by (simp add: power_add P_def)
  have pw: "(2 :: int) ^ (8 * length bs) = 65536 * P" by (simp add: bs P_def power_add)
  have val: "be_uint bs = uint b0 * 256 * P + uint b1 * P + be_uint r"
    by (simp add: bs be_uint_Cons P_def power_add algebra_simps)
  have m: "\<not> (b0 = 0 \<and> \<not> bit b1 7)" "\<not> (b0 = 0xFF \<and> bit b1 7)" using assms(1) bs by (auto simp: minimal_content_def)
  have u0: "b0 = 0 \<longleftrightarrow> uint b0 = 0" "b0 = 0xFF \<longleftrightarrow> uint b0 = 255" by (auto simp: word_uint_eq_iff)
  define x0 x1 where "x0 = uint b0" and "x1 = uint b1"
  have x: "0 \<le> x0" "x0 < 256" "0 \<le> x1" "x1 < 256"
    using uint_byte_bounds [of b0] uint_byte_bounds [of b1] by (auto simp: x0_def x1_def)
  have mx: "\<not> (x0 = 0 \<and> x1 < 128)" "\<not> (x0 = 255 \<and> 128 \<le> x1)"
    using m u0 by (auto simp: bit7_iff x0_def x1_def)
  show ?thesis
  proof (cases "bit b0 7")
    case True
    define c where "c = (uint b0 - 256) * 256 + uint b1"
    have "128 \<le> x0" using True by (simp add: bit7_iff x0_def)
    then have "x0 \<le> 254 \<or> x0 = 255 \<and> x1 < 128" using mx(2) x by auto
    then have "c \<le> -129" using x unfolding c_def x0_def [symmetric] x1_def [symmetric] by auto
    then have "c * P \<le> -129 * P" using P0 by (intro mult_right_mono) auto
    moreover have "be_sint bs = c * P + be_uint r" using True bs pw val by (simp add: be_sint_def c_def algebra_simps)
    ultimately show ?thesis using r lim by auto
  next
    case False
    define c where "c = uint b0 * 256 + uint b1"
    have "1 \<le> x0 \<or> x0 = 0 \<and> 128 \<le> x1" using mx(1) x by auto
    then have "128 \<le> c" using x unfolding c_def x0_def [symmetric] x1_def [symmetric] by auto
    then have "128 * P \<le> c * P" using P0 by (intro mult_right_mono) auto
    moreover have "be_sint bs = c * P + be_uint r" using False bs val by (simp add: be_sint_def c_def algebra_simps)
    ultimately show ?thesis using r lim by linarith
  qed
qed


section \<open>Conversions\<close>

lemma word_push_or_byte: "push_bit 8 (word_of_int a :: 64 word) OR ucast (b :: byte) = word_of_int (a * 256 + uint b)"
proof -
  have "push_bit 8 (word_of_int a :: 64 word) AND ucast b = 0"
    by (rule bit_word_eqI) (auto simp: bit_simps dest: bit_imp_le_length)
  then have "push_bit 8 (word_of_int a :: 64 word) OR ucast b = push_bit 8 (word_of_int a) + ucast b"
    by (simp add: disjunctive_add_eq_or)
  also have "\<dots> = word_of_int a * 256 + ucast b" by (simp add: push_bit_eq_mult)
  finally show ?thesis by simp
qed

lemma foldl_be:
  "foldl (\<lambda>value x. push_bit 8 value OR ucast x) (word_of_int a) bs
     = (word_of_int (a * 2 ^ (8 * length bs) + be_uint bs) :: 64 word)"
proof (induction bs arbitrary: a)
  case (Cons b bs)
  have "foldl (\<lambda>value x. push_bit 8 value OR ucast x) (word_of_int a) (b # bs)
      = foldl (\<lambda>value x. push_bit 8 value OR ucast x) (word_of_int (a * 256 + uint b) :: 64 word) bs"
    by (simp only: foldl_Cons word_push_or_byte)
  also have "\<dots> = word_of_int ((a * 256 + uint b) * 2 ^ (8 * length bs) + be_uint bs)" by (rule Cons.IH)
  also have "(a * 256 + uint b) * 2 ^ (8 * length bs) + be_uint bs = a * 2 ^ (8 * length (b # bs)) + be_uint (b # bs)"
    by (simp add: be_uint_Cons power_add algebra_simps)
  finally show ?case .
qed simp

lemma sint_of_int_64: "- (2 ^ 63) \<le> x \<Longrightarrow> x < 2 ^ 63 \<Longrightarrow> sint (word_of_int x :: 64 word) = x"
  by (simp add: signed_of_int signed_take_bit_int_eq_self del: of_int_diff)

lemma be_sint_64:
  assumes "bs \<noteq> []" "length bs \<le> 8"
  shows "- (2 ^ 63) \<le> be_sint bs" "be_sint bs < 2 ^ 63"
proof -
  have "(2 :: int) ^ (8 * length bs - 1) \<le> 2 ^ 63" using assms(2) by (intro power_increasing) auto
  then show "- (2 ^ 63) \<le> be_sint bs" "be_sint bs < 2 ^ 63" using be_sint_bounds [OF assms(1)] by linarith+
qed

lemma integer_convert_spec:
  assumes "bs \<noteq> []" "length bs \<le> 8"
  shows "sint (asn__integer_convert bs) = be_sint bs"
proof -
  have d: "drop_bit 7 (hd bs) \<noteq> 0 \<longleftrightarrow> bit (hd bs) 7"
  proof -
    have "bit (drop_bit 7 (hd bs)) n \<longleftrightarrow> n = 0 \<and> bit (hd bs) 7" for n
      by (cases "n = 0") (auto simp: bit_drop_bit_eq dest: bit_imp_le_length)
    then show ?thesis by (metis bit_eq_iff bit_0_eq bot_apply bot_bool_def)
  qed
  have "asn__integer_convert bs = word_of_int (be_sint bs)"
    using foldl_be [of "if bit (hd bs) 7 then -1 else 0" bs] assms(1)
    unfolding asn__integer_convert_def d be_sint_def by (auto split: if_splits)
  then show ?thesis using sint_of_int_64 be_sint_64 [OF assms] by simp
qed

theorem INTEGER2imax_spec:
  "asn_INTEGER2imax (Some bs) = (if - (2 ^ 63) \<le> be_sint bs \<and> be_sint bs < 2 ^ 63 then Some (be_sint bs) else None)"
proof (cases "length bs \<le> 8")
  case True
  show ?thesis
  proof (cases "bs = []")
    case False
    then show ?thesis using True be_sint_64 [OF False True] integer_convert_spec [OF False True]
      by (simp add: asn_INTEGER2imax_def)
  qed (simp add: asn_INTEGER2imax_def be_sint_def)
next
  case False
  define c where "c = skip_insignificant bs"
  have v: "be_sint c = be_sint bs" "minimal_content c" "c \<noteq> []"
    using False skip_insignificant_length(2) [of bs]
    by (auto simp: c_def skip_insignificant_value skip_insignificant_minimal)
  have eq: "asn_INTEGER2imax (Some bs) = (if 8 < length c then None else Some (sint (asn__integer_convert c)))"
    using False v(3) by (simp add: asn_INTEGER2imax_def Let_def c_def)
  show ?thesis
  proof (cases "8 < length c")
    case True
    then have "be_sint c < - (2 ^ 63) \<or> 2 ^ 63 \<le> be_sint c" using minimal_content_large [OF v(2), of 8] by simp
    then show ?thesis using eq True v(1) by auto
  next
    case small: False
    then show ?thesis using eq v be_sint_64 [of c] integer_convert_spec [of c] by simp
  qed
qed

lemma INTEGER2long_spec:
  "asn_INTEGER2long (Some bs) = (if is_long (be_sint bs) then Some (be_sint bs) else None)"
  by (auto simp: asn_INTEGER2long_def INTEGER2imax_spec)

lemma byte_bits_octet: "byte_bits (ucast (drop_bit k v)) = nat_bits 8 (drop_bit k (unat (v :: 64 word)))"
  by (rule nth_equalityI) (auto simp: bit_simps dest: bit_imp_le_length)

lemma be_uint_octets: "be_uint (octets_be v) = uint v"
proof -
  have "bytes_bits (octets_be v) = nat_bits 64 (unat v)"
    using nat_bits_add [of 8 56 "unat v"] nat_bits_add [of 8 48 "unat v"] nat_bits_add [of 8 40 "unat v"]
      nat_bits_add [of 8 32 "unat v"] nat_bits_add [of 8 24 "unat v"] nat_bits_add [of 8 16 "unat v"]
      nat_bits_add [of 8 8 "unat v"] byte_bits_octet [of 0 v]
    by (simp add: octets_be_def bytes_bits_Cons byte_bits_octet)
  moreover have "unat v < 2 ^ 64" using unsigned_less [of v] by simp
  ultimately show ?thesis by (simp add: be_uint_def bits_val_nat_bits_less)
qed

lemma length_octets_be [simp]: "length (octets_be v) = 8"
  by (simp add: octets_be_def)

lemma be_sint_octets: "be_sint (octets_be v) = sint v"
proof -
  have ne: "octets_be v \<noteq> []" by (simp add: octets_be_def)
  have "sint (word_of_int (be_sint (octets_be v)) :: 64 word) = be_sint (octets_be v)"
    using sint_of_int_64 be_sint_64 [OF ne] by simp
  moreover have "word_of_int (be_sint (octets_be v)) = v"
    by (simp add: be_sint_def be_uint_octets)
  ultimately show ?thesis by simp
qed

lemma imax2INTEGER_spec:
  assumes "is_long v"
  shows "be_sint (asn_imax2INTEGER v) = v" "minimal_content (asn_imax2INTEGER v)"
    "asn_imax2INTEGER v \<noteq> []" "length (asn_imax2INTEGER v) \<le> 8"
proof -
  have "sint (word_of_int v :: 64 word) = v" using assms sint_of_int_64 by simp
  then show "be_sint (asn_imax2INTEGER v) = v"
    by (simp add: asn_imax2INTEGER_def skip_insignificant_value be_sint_octets)
  show "minimal_content (asn_imax2INTEGER v)" by (simp add: asn_imax2INTEGER_def skip_insignificant_minimal)
  show "asn_imax2INTEGER v \<noteq> []"
    using skip_insignificant_length(2) [of "octets_be (word_of_int v)"] by (simp add: asn_imax2INTEGER_def octets_be_def)
  show "length (asn_imax2INTEGER v) \<le> 8"
    using skip_insignificant_length(1) [of "octets_be (word_of_int v)"] by (simp add: asn_imax2INTEGER_def)
qed

lemma umax_strip_spec:
  "umax_strip bs = (if be_uint bs < 2 ^ 64 \<or> length bs \<le> 8 then Some (drop (length bs - 8) bs) else None)
   \<and> (be_uint bs < 2 ^ 64 \<longrightarrow> be_uint (drop (length bs - 8) bs) = be_uint bs)"
proof (induction bs rule: umax_strip.induct)
  case (1 bs)
  show ?case
  proof (cases "8 < length bs")
    case False
    then show ?thesis by (subst umax_strip.simps) auto
  next
    case True
    then obtain b r where bs: "bs = b # r" by (cases bs) auto
    have r8: "8 \<le> length r" using True bs by simp
    have "(2 :: int) ^ 64 \<le> 2 ^ (8 * length r)" using r8 by (intro power_increasing) auto
    have big: "2 ^ 64 \<le> be_uint bs" if "b \<noteq> 0"
    proof -
      have "uint b \<noteq> 0" using that by (metis uint_0_iff)
      then have "1 \<le> uint b" using uint_byte_bounds(1) [of b] by linarith
      then have "1 * 2 ^ (8 * length r) \<le> uint b * 2 ^ (8 * length r)" by (intro mult_right_mono) auto
      then show ?thesis using \<open>(2 :: int) ^ 64 \<le> _\<close> be_uint_bounds(1) [of r] unfolding bs be_uint_Cons by linarith
    qed
    show ?thesis
    proof (cases "b = 0")
      case True
      then have u: "be_uint bs = be_uint r" by (simp add: bs be_uint_Cons)
      have d: "drop (length bs - 8) bs = drop (length r - 8) r" using r8 by (simp add: bs drop_Cons' Suc_diff_le)
      have "umax_strip bs = umax_strip r" using True \<open>8 < length bs\<close> bs by (subst umax_strip.simps) simp
      moreover have ih: "umax_strip r = (if be_uint r < 2 ^ 64 \<or> length r \<le> 8 then Some (drop (length r - 8) r) else None)
          \<and> (be_uint r < 2 ^ 64 \<longrightarrow> be_uint (drop (length r - 8) r) = be_uint r)"
        using "1.IH" True \<open>8 < length bs\<close> bs by simp
      moreover have "length r \<le> 8 \<longrightarrow> be_uint r < 2 ^ 64"
        using be_uint_bounds(2) [of r] r8 by (cases "length r = 8") auto
      ultimately show ?thesis using u d \<open>8 < length bs\<close> by auto
    next
      case False
      then show ?thesis using big True bs by (subst umax_strip.simps) auto
    qed
  qed
qed

theorem INTEGER2umax_spec:
  "asn_INTEGER2umax (Some bs) = (if be_uint bs < 2 ^ 64 then Some (word_of_int (be_uint bs)) else None)"
proof -
  have small: "be_uint bs < 2 ^ 64" if "length bs \<le> 8"
  proof -
    have "(2 :: int) ^ (8 * length bs) \<le> 2 ^ 64" using that by (intro power_increasing) auto
    then show ?thesis using be_uint_bounds(2) [of bs] by linarith
  qed
  show ?thesis
    using umax_strip_spec [of bs] foldl_be [of 0 "drop (length bs - 8) bs"] small
    by (auto simp: asn_INTEGER2umax_def)
qed

lemma umax_roundtrip: "asn_INTEGER2umax (Some (asn_umax2INTEGER v)) = Some v"
proof -
  have half: "uint (drop_bit 1 (NOT 0) :: 64 word) = 2 ^ 63 - 1"
    by code_simp
  show ?thesis
  proof (cases "v \<le> drop_bit 1 (NOT 0)")
    case True
    then have u: "is_long (uint v)" unfolding word_le_def half using order_trans [OF _ uint_ge_0 [of v], of "- (2 ^ 63)"] by auto
    define c where "c = asn_imax2INTEGER (uint v)"
    note c = imax2INTEGER_spec [OF u, folded c_def]
    have "be_uint c = uint v"
    proof (cases "bit (hd c) 7")
      case True
      then have "be_uint c = uint v + 2 ^ (8 * length c)" using c(1,3) by (simp add: be_sint_def)
      then show ?thesis using be_uint_bounds(2) [of c] uint_ge_0 [of v] by simp
    qed (use c(1) in \<open>simp add: be_sint_def\<close>)
    then show ?thesis using True uint_lt2p [of v] by (simp add: asn_umax2INTEGER_def INTEGER2umax_spec flip: c_def)
  next
    case False
    then show ?thesis using uint_lt2p [of v]
      by (simp add: asn_umax2INTEGER_def INTEGER2umax_spec be_uint_Cons be_uint_octets)
  qed
qed

lemma ulong_nonneg_roundtrip:
  assumes "uint v < 2 ^ 63"
  shows "asn_INTEGER2ulong (Some (asn_ulong2INTEGER v)) = Some v"
proof -
  have "drop_bit 1 (NOT 0) = (word_of_int (2 ^ 63 - 1) :: 64 word)" by code_simp
  then have "v \<le> drop_bit 1 (NOT 0)" using assms by (simp add: word_le_def)
  moreover have "sint v = uint v" using assms sint_of_int_64 [of "uint v"] order_trans [OF _ uint_ge_0 [of v], of "- (2 ^ 63)"] by simp
  ultimately have "asn_ulong2INTEGER v = asn_umax2INTEGER v" by (simp add: asn_ulong2INTEGER_def asn_umax2INTEGER_def)
  moreover have "\<not> word_of_int (2 ^ 64 - 1) < v" using uint_lt2p [of v] by (simp add: word_less_def)
  ultimately show ?thesis using umax_roundtrip [of v] by (simp add: asn_INTEGER2ulong_def)
qed

section \<open>UPER\<close>

text \<open>Every constraint descriptor generated by the ASN.1 compiler has one of these shapes.\<close>

definition int_constraint_wf :: "asn_per_constraint \<Rightarrow> bool" where
  "int_constraint_wf c \<longleftrightarrow>
     is_long (lower_bound c) \<and> is_long (upper_bound c)
     \<and> (if 0 \<le> range_bits c then
        APC_CONSTRAINED c \<and> \<not> APC_SEMI_CONSTRAINED c \<and> range_bits c \<le> 64
        \<and> lower_bound c \<le> upper_bound c
        \<and> upper_bound c - lower_bound c < 2 ^ nat (range_bits c)
      else lower_bound c = 0)"

definition int_inext :: "asn_per_constraint \<Rightarrow> int \<Rightarrow> bool" where
  "int_inext c v \<longleftrightarrow>
     (if APC_SEMI_CONSTRAINED c then v < lower_bound c
      else 0 \<le> range_bits c \<and> (v < lower_bound c \<or> upper_bound c < v))"

definition int_bits :: "asn_per_constraint option \<Rightarrow> int \<Rightarrow> byte list \<Rightarrow> bits" where
  "int_bits ct v content =
     (case ct of
        None \<Rightarrow> frag_bits byte_bits content
      | Some c \<Rightarrow>
          (if APC_EXTENSIBLE c then [int_inext c v] else [])
          @ (if 0 \<le> range_bits c \<and> \<not> int_inext c v
             then nat_bits (nat (range_bits c)) (nat (v - lower_bound c))
             else frag_bits byte_bits content))"

text \<open>The values a type with this constraint has.\<close>

definition int_ok :: "asn_per_constraint option \<Rightarrow> bool \<Rightarrow> int \<Rightarrow> bool" where
  "int_ok ct uns v \<longleftrightarrow>
     (case ct of
        None \<Rightarrow> True
      | Some c \<Rightarrow> is_long v \<and> int_constraint_wf c \<and> (int_inext c v \<longrightarrow> APC_EXTENSIBLE c)
          \<and> (uns \<longrightarrow> 0 \<le> v \<and> 0 \<le> lower_bound c \<and> 0 \<le> upper_bound c))"

definition int_decoded :: "asn_per_constraint option \<Rightarrow> int \<Rightarrow> byte list \<Rightarrow> byte list" where
  "int_decoded ct v content =
     (case ct of
        None \<Rightarrow> content
      | Some c \<Rightarrow>
          if int_inext c v then content
          else if 0 \<le> range_bits c then asn_imax2INTEGER v
          else if APC_SEMI_CONSTRAINED c then 0 # content else content)"

lemma be_uint_nonneg: "0 \<le> be_sint bs \<Longrightarrow> be_uint bs = be_sint bs"
  using be_uint_bounds(2) [of bs] by (auto simp: be_sint_def split: if_splits)

lemma INTEGER2ulong_nonneg:
  assumes "0 \<le> be_sint bs" "is_long (be_sint bs)"
  shows "asn_INTEGER2ulong (Some bs) = Some (word_of_int (be_sint bs))"
proof -
  have "\<not> (word_of_int (2 ^ 64 - 1) :: 64 word) < word_of_int (be_sint bs)"
    using uint_lt2p [of "word_of_int (be_sint bs) :: 64 word"] by (simp add: word_less_def)
  then show ?thesis using assms be_uint_nonneg [OF assms(1)]
    by (simp add: asn_INTEGER2ulong_def INTEGER2umax_spec)
qed

lemma INTEGER_inext_spec:
  assumes "is_long v" "be_sint content = v" "uns \<Longrightarrow> 0 \<le> v \<and> 0 \<le> lower_bound c \<and> 0 \<le> upper_bound c"
    "is_long (lower_bound c)" "is_long (upper_bound c)"
  shows "INTEGER_inext c uns (Some content) = Some (v, int_inext c v)"
proof (cases uns)
  case False
  then show ?thesis using assms by (simp add: INTEGER_inext_def INTEGER2long_spec int_inext_def)
next
  case True
  have u: "uint (word_of_int x :: 64 word) = x" if "0 \<le> x" "is_long x" for x using that uint_of_int_64 by simp
  then show ?thesis using assms True INTEGER2ulong_nonneg [of content] sint_of_int_64 [of v]
    by (simp add: INTEGER_inext_def int_inext_def word_less_def)
qed

lemma encode_body_frag: "po_wf po \<Longrightarrow> ct = None \<or> (\<exists>c. ct = Some c \<and> range_bits c < 0 \<and> lower_bound c = 0) \<Longrightarrow>
    put_result po (frag_bits byte_bits content) (INTEGER_encode_body ct v content po)"
  using put_fragments_result by (auto simp: INTEGER_encode_body_def)

lemma encode_body_constrained:
  assumes "po_wf po" "int_constraint_wf c" "0 \<le> range_bits c" "lower_bound c \<le> v" "v \<le> upper_bound c"
  shows "put_result po (nat_bits (nat (range_bits c)) (nat (v - lower_bound c))) (INTEGER_encode_body (Some c) v content po)"
proof -
  obtain r where r: "per_long_range_rebase v (lower_bound c) (upper_bound c) = Some r" "uint r = v - lower_bound c"
    using rebase_spec [of "lower_bound c" "upper_bound c" v] assms by (auto simp: int_constraint_wf_def)
  then have "unat r = nat (v - lower_bound c)" by (metis nat_uint_eq)
  then show ?thesis
    using put_result_norm [OF put_constrained_whole_result [OF assms(1), of "nat (range_bits c)" r]] r(1) assms(3)
    by (auto simp: INTEGER_encode_body_def case_prod_beta split: if_splits)
qed

lemma INTEGER_encodes:
  assumes ok: "int_ok (value_constraint td c) (td_field_unsigned td) v"
    and content: "content \<noteq> []" "be_sint content = v"
  shows "encodes (INTEGER_encode_uper td c (Some content)) (int_bits (value_constraint td c) v content)"
  unfolding encodes_def
proof (intro allI impI)
  fix po assume wf: "po_wf po"
  show "put_result po (int_bits (value_constraint td c) v content) (INTEGER_encode_uper td c (Some content) po)"
  proof (cases "value_constraint td c")
    case None
    then show ?thesis using content encode_body_frag [OF wf, of None] by (simp add: INTEGER_encode_uper_def int_bits_def)
  next
    case (Some ct)
    have o: "is_long v" "int_constraint_wf ct" "int_inext ct v \<longrightarrow> APC_EXTENSIBLE ct"
      "td_field_unsigned td \<longrightarrow> 0 \<le> v \<and> 0 \<le> lower_bound ct \<and> 0 \<le> upper_bound ct"
      using ok Some by (auto simp: int_ok_def)
    have inext: "INTEGER_inext ct (td_field_unsigned td) (Some content) = Some (v, int_inext ct v)"
      using INTEGER_inext_spec [OF o(1) content(2)] o(2,4) by (auto simp: int_constraint_wf_def)
    define body where "body = (if 0 \<le> range_bits ct \<and> \<not> int_inext ct v
        then nat_bits (nat (range_bits ct)) (nat (v - lower_bound ct)) else frag_bits byte_bits content)"
    have bd: "put_result po1 body (INTEGER_encode_body (if int_inext ct v then None else Some ct) v content po1)"
      if "po_wf po1" for po1
    proof (cases "0 \<le> range_bits ct \<and> \<not> int_inext ct v")
      case True
      then have "lower_bound ct \<le> v" "v \<le> upper_bound ct" using o(2) by (auto simp: int_inext_def int_constraint_wf_def)
      then show ?thesis using True encode_body_constrained [OF that o(2)] by (simp add: body_def)
    next
      case False
      then have "int_inext ct v \<or> range_bits ct < 0 \<and> lower_bound ct = 0" using o(2) by (auto simp: int_constraint_wf_def)
      then show ?thesis using False encode_body_frag [OF that, of "if int_inext ct v then None else Some ct" content v]
        by (auto simp: body_def)
    qed
    show ?thesis
    proof (cases "APC_EXTENSIBLE ct")
      case True
      have "put_result po ([int_inext ct v] @ body) (INTEGER_encode_uper td c (Some content) po)"
        using put_result_seq [OF put_bit_result [OF wf, of "int_inext ct v"] bd] Some inext True content(1)
        by (auto simp: INTEGER_encode_uper_def case_prod_beta split: if_splits)
      then show ?thesis using Some True by (simp add: int_bits_def body_def)
    next
      case False
      then show ?thesis using Some inext content(1) o(3) bd [OF wf] by (simp add: INTEGER_encode_uper_def int_bits_def body_def)
    qed
  qed
qed

lemma INTEGER_decode_body_constrained:
  assumes wf: "pd_wf pd" and c: "int_constraint_wf ct" "0 \<le> range_bits ct" "lower_bound ct \<le> v" "v \<le> upper_bound ct"
    and uns: "td_field_unsigned td \<longrightarrow> 0 \<le> v"
    and pb: "pd_bits pd = nat_bits (nat (range_bits ct)) (nat (v - lower_bound ct)) @ rest"
  obtains pd' where "INTEGER_decode_body td (Some ct) pd = (RC_OK (V_INTEGER (Some (asn_imax2INTEGER v))) 0, pd')"
    "pd_adv pd (nat (range_bits ct)) pd'"
proof -
  have k: "nat (range_bits ct) \<le> 64" "range_bits ct \<le> 64" "\<not> apc_unconstrained ct" "is_long (lower_bound ct)"
      "is_long (upper_bound ct)" "lower_bound ct \<le> upper_bound ct" "is_long v"
    and lt: "v - lower_bound ct < 2 ^ nat (range_bits ct)"
    using c by (auto simp: int_constraint_wf_def apc_unconstrained_def)
  have "nat (v - lower_bound ct) < 2 ^ nat (range_bits ct)" using lt c(3) by (simp add: nat_less_iff)
  then have bv: "bits_val (nat_bits (nat (range_bits ct)) (nat (v - lower_bound ct))) = nat (v - lower_bound ct)"
    by (rule bits_val_nat_bits_less)
  obtain pd1 where g: "uper_get_constrained_whole_number pd (range_bits ct) = (Some (word_of_nat (nat (v - lower_bound ct))), pd1)"
      "pd_adv pd (nat (range_bits ct)) pd1"
    using get_constrained_whole_result [OF wf pb, of "range_bits ct"] k(1) c(2) bv by (metis int_nat_eq length_nat_bits)
  have w: "(word_of_nat (nat (v - lower_bound ct)) :: 64 word) = word_of_int (v - lower_bound ct)"
    using c(3) by (metis diff_ge_0_iff_ge int_nat_eq of_int_of_nat_eq)
  have u: "uint (word_of_int (v - lower_bound ct) :: 64 word) = v - lower_bound ct"
    using k c by (intro uint_of_int_64) auto
  show thesis
  proof (cases "td_field_unsigned td")
    case True
    have "word_of_int (v - lower_bound ct) + word_of_int (lower_bound ct) = (word_of_int v :: 64 word)" by simp
    moreover have "sint (word_of_int v :: 64 word) = v" using k(7) sint_of_int_64 by simp
    ultimately show thesis using that g c(2) k True by (simp add: INTEGER_decode_body_def w asn_ulong2INTEGER_def)
  next
    case False
    have "per_long_range_unrebase (word_of_int (v - lower_bound ct)) (lower_bound ct) (upper_bound ct) = Some v"
      unfolding unrebase_spec [OF k(4,5,6)] u using c by simp
    then show thesis using that g c(2) k False by (simp add: INTEGER_decode_body_def w asn_long2INTEGER_def)
  qed
qed

lemma INTEGER_decode_body_frag:
  assumes "pd_wf pd" "pd_bits pd = frag_bits byte_bits content @ rest" "content \<noteq> []"
    and "ct = None \<or> (\<exists>c. ct = Some c \<and> range_bits c < 0 \<and> lower_bound c = 0)"
  obtains pd' where "INTEGER_decode_body td ct pd = (RC_OK (V_INTEGER (Some
      (if (\<exists>c. ct = Some c \<and> APC_SEMI_CONSTRAINED c) then 0 # content else content))) 0, pd')"
    "pd_adv pd (length (frag_bits byte_bits content)) pd'"
proof -
  obtain pd' where g: "uper_get_fragments pd = (Some content, pd')" "pd_adv pd (length (frag_bits byte_bits content)) pd'"
    using get_fragments_result [OF assms(1,2,3)] .
  then have "INTEGER_decode_body td ct pd = (RC_OK (V_INTEGER (Some
      (if (\<exists>c. ct = Some c \<and> APC_SEMI_CONSTRAINED c) then 0 # content else content))) 0, pd')"
    using assms(4) by (auto simp: INTEGER_decode_body_def)
  then show thesis using that g(2) by blast
qed

lemma INTEGER_decodes:
  assumes ok: "int_ok (value_constraint td c) (td_field_unsigned td) v"
    and content: "content \<noteq> []"
  shows "decodes (INTEGER_decode_uper td c) (int_bits (value_constraint td c) v content)
     (V_INTEGER (Some (int_decoded (value_constraint td c) v content))) 0"
  unfolding decodes_def
proof (intro allI impI)
  let ?ct = "value_constraint td c"
  fix pd rest assume wf: "pd_wf pd" and pb: "pd_bits pd = int_bits ?ct v content @ rest"
  show "\<exists>pd'. INTEGER_decode_uper td c pd = (RC_OK (V_INTEGER (Some (int_decoded ?ct v content))) 0, pd')
      \<and> pd_adv pd (length (int_bits ?ct v content)) pd'"
  proof (cases ?ct)
    case None
    then have "pd_bits pd = frag_bits byte_bits content @ rest" using pb by (simp add: int_bits_def)
    then obtain pd1 where "INTEGER_decode_body td None pd = (RC_OK (V_INTEGER (Some content)) 0, pd1)"
        "pd_adv pd (length (frag_bits byte_bits content)) pd1"
      using INTEGER_decode_body_frag [OF wf _ content, of rest None td] by auto
    then show ?thesis using None by (simp add: INTEGER_decode_uper_def int_bits_def int_decoded_def)
  next
    case (Some ct)
    have o: "is_long v" "int_constraint_wf ct" "int_inext ct v \<longrightarrow> APC_EXTENSIBLE ct"
      "td_field_unsigned td \<longrightarrow> 0 \<le> v \<and> 0 \<le> lower_bound ct \<and> 0 \<le> upper_bound ct"
      using ok Some by (auto simp: int_ok_def)
    define ext where "ext = (if APC_EXTENSIBLE ct then [int_inext ct v] else [])"
    define body where "body = (if 0 \<le> range_bits ct \<and> \<not> int_inext ct v
        then nat_bits (nat (range_bits ct)) (nat (v - lower_bound ct)) else frag_bits byte_bits content)"
    have bits: "int_bits ?ct v content = ext @ body" using Some by (simp add: int_bits_def ext_def body_def)
    obtain pd1 where g: "(if APC_EXTENSIBLE ct then
           (case asn_get_few_bits pd 1 of (inext, pd) \<Rightarrow> if inext < 0 then (None, pd)
              else (Some (if inext \<noteq> 0 then None else Some ct), pd)) else (Some (Some ct), pd))
          = (Some (if int_inext ct v then None else Some ct), pd1)"
        and adv1: "pd_adv pd (length ext) pd1" and pb1: "pd_bits pd1 = body @ rest"
    proof (cases "APC_EXTENSIBLE ct")
      case True
      then obtain pd' where "asn_get_few_bits pd 1 = (if int_inext ct v then 1 else 0, pd')" "pd_adv pd 1 pd'" "pd_bits pd' = body @ rest"
        using get_bit_prefix [OF wf, of "int_inext ct v" "body @ rest"] pb bits by (auto simp: ext_def)
      then show thesis using that True by (auto simp: ext_def)
    next
      case False
      then show thesis using that o(3) pb bits pd_adv_refl [OF wf] by (auto simp: ext_def)
    qed
    have wf1: "pd_wf pd1" using adv1 by blast
    have eq: "INTEGER_decode_uper td c pd = (case (Some (if int_inext ct v then None else Some ct), pd1) of
        (None, pd) \<Rightarrow> (RC_WMORE, pd) | (Some ct, pd) \<Rightarrow> INTEGER_decode_body td ct pd)"
      unfolding INTEGER_decode_uper_def Some Let_def using g by simp
    have "\<exists>pd2. INTEGER_decode_body td (if int_inext ct v then None else Some ct) pd1
        = (RC_OK (V_INTEGER (Some (int_decoded ?ct v content))) 0, pd2) \<and> pd_adv pd1 (length body) pd2"
    proof (cases "0 \<le> range_bits ct \<and> \<not> int_inext ct v")
      case True
      then have "lower_bound ct \<le> v" "v \<le> upper_bound ct" using o(2) by (auto simp: int_inext_def int_constraint_wf_def)
      then obtain pd2 where "INTEGER_decode_body td (Some ct) pd1 = (RC_OK (V_INTEGER (Some (asn_imax2INTEGER v))) 0, pd2)"
          "pd_adv pd1 (nat (range_bits ct)) pd2"
        using INTEGER_decode_body_constrained [OF wf1 o(2), of v td rest] True o(4) pb1 by (auto simp: body_def)
      then show ?thesis using True Some by (auto simp: int_decoded_def body_def)
    next
      case False
      have "(if int_inext ct v then None else Some ct) = None
          \<or> (\<exists>c. (if int_inext ct v then None else Some ct) = Some c \<and> range_bits c < 0 \<and> lower_bound c = 0)"
        using False o(2) by (auto simp: int_constraint_wf_def)
      moreover have "pd_bits pd1 = frag_bits byte_bits content @ rest" using pb1 False by (simp add: body_def)
      ultimately obtain pd2 where "INTEGER_decode_body td (if int_inext ct v then None else Some ct) pd1 = (RC_OK (V_INTEGER (Some
          (if (\<exists>c. (if int_inext ct v then None else Some ct) = Some c \<and> APC_SEMI_CONSTRAINED c) then 0 # content else content))) 0, pd2)"
          "pd_adv pd1 (length (frag_bits byte_bits content)) pd2"
        using INTEGER_decode_body_frag [OF wf1 _ content] by blast
      then show ?thesis using False Some by (auto simp: int_decoded_def body_def)
    qed
    then show ?thesis using eq pd_adv_trans [OF adv1] bits by auto
  qed
qed


lemma INTEGER_decode_body_moves: "pd_wf pd \<Longrightarrow> INTEGER_decode_body td ct pd = (r, pd') \<Longrightarrow> pd_moves pd pd'"
  unfolding INTEGER_decode_body_def Let_def
  by (auto split: option.splits if_splits prod.splits intro: pd_moves_refl
      dest: get_fragments_moves constrained_whole_number_moves)

lemma INTEGER_decode_safe: "safe_decoder (INTEGER_decode_uper td c)"
proof (rule safe_decoderI)
  fix pd r pd' assume wf: "pd_wf pd" and d: "INTEGER_decode_uper td c pd = (r, pd')"
  obtain i pd1 where g: "asn_get_few_bits pd 1 = (i, pd1)" by force
  have m: "pd_moves pd pd1" "pd_wf pd1" using get_few_bits_moves [OF g wf] pd_moves_wf by auto
  have b: "pd_moves pd p" if "INTEGER_decode_body td ct q = (r, p)" "q = pd \<or> q = pd1" for ct q p
    using that INTEGER_decode_body_moves [OF wf] INTEGER_decode_body_moves [OF m(2)] pd_moves_trans [OF m(1)] by blast
  show "pd_moves pd pd'"
    using d m(1) b unfolding INTEGER_decode_uper_def g
    by (auto split: option.splits if_splits)
qed

end
