(* ===== verification/Native_Types.thy ===== *)
theory Native_Types
  imports Integer
begin

unbundle bit_operations_syntax

text \<open>
  The primitive types with native representations: \<open>NULL.c\<close>, \<open>BOOLEAN.c\<close>, \<open>NativeInteger.c\<close>,
  \<open>NativeEnumerated.c\<close> and \<open>ENUMERATED.c\<close> (UPER), and the enumeration maps of \<open>INTEGER.c\<close>.
  An unsigned native integer is stored in the memory of a \<open>long\<close>.

  The C library function \<open>bsearch\<close> is modelled as binary search over the indices of the array,
  with the comparison of the key with the element at an index as its argument.
\<close>

section \<open>Definitions\<close>

function bsearch :: "(nat \<Rightarrow> int) \<Rightarrow> nat \<Rightarrow> nat \<Rightarrow> nat option" where
  "bsearch cmp l u =
     (if l < u then
        (let i = (l + u) div 2
         in if cmp i < 0 then bsearch cmp l i
            else if 0 < cmp i then bsearch cmp (i + 1) u
            else Some i)
      else None)"
  by pat_completeness auto
termination
  by (relation "measure (\<lambda>(cmp, l, u). u - l)") auto

declare bsearch.simps [simp del]

definition NULL_decode_uper :: uper_decoder where
  "NULL_decode_uper td constraints pd = (RC_OK V_NULL 0, pd)"

definition NULL_encode_uper :: uper_encoder where
  "NULL_encode_uper td constraints sptr po = (0, po)"

definition BOOLEAN_decode_uper :: uper_decoder where
  "BOOLEAN_decode_uper td constraints pd =
     (case asn_get_few_bits pd 1 of
        (v, pd) \<Rightarrow>
          if v = 1 then (RC_OK (V_BOOLEAN 1) 1, pd)
          else if v = 0 then (RC_OK (V_BOOLEAN 0) 1, pd)
          else (RC_WMORE, pd))"

definition BOOLEAN_encode_uper :: uper_encoder where
  "BOOLEAN_encode_uper td constraints sptr po =
     (case sptr of
        V_BOOLEAN st \<Rightarrow>
          (case asn_put_few_bits po (if st \<noteq> 0 then 1 else 0) 1 of
             (r, po) \<Rightarrow> if r \<noteq> 0 then (-1, po) else (0, po))
      | _ \<Rightarrow> (-1, po))"

definition NativeInteger_decode_uper :: uper_decoder where
  "NativeInteger_decode_uper td constraints pd =
     (case INTEGER_decode_uper td constraints pd of
        (RC_OK (V_INTEGER tmpint) consumed, pd) \<Rightarrow>
          if td_field_unsigned td then
            (case asn_INTEGER2ulong tmpint of
               None \<Rightarrow> (RC_FAIL, pd)
             | Some native \<Rightarrow> (RC_OK (V_long (sint native)) consumed, pd))
          else
            (case asn_INTEGER2long tmpint of
               None \<Rightarrow> (RC_FAIL, pd)
             | Some native \<Rightarrow> (RC_OK (V_long native) consumed, pd))
      | r \<Rightarrow> r)"

definition NativeInteger_encode_uper :: uper_encoder where
  "NativeInteger_encode_uper td constraints sptr po =
     (case sptr of
        V_long native \<Rightarrow>
          INTEGER_encode_uper td constraints
            (Some (if td_field_unsigned td then asn_ulong2INTEGER (word_of_int native)
                   else asn_long2INTEGER native)) po
      | _ \<Rightarrow> (-1, po))"

definition NativeEnumerated_decode_uper :: uper_decoder where
  "NativeEnumerated_decode_uper td constraints pd =
     (case value_constraint td constraints of
        None \<Rightarrow> (RC_FAIL, pd)
      | Some ct \<Rightarrow>
          (case td_specifics td of
             SPC_INTEGER specs \<Rightarrow>
               (case (if APC_EXTENSIBLE ct then asn_get_few_bits pd 1 else (0, pd)) of
                  (inext, pd) \<Rightarrow>
                    if inext < 0 then (RC_WMORE, pd)
                    else if inext = 0 \<and> 0 \<le> range_bits ct then
                      (case asn_get_few_bits pd (range_bits ct) of
                         (v, pd) \<Rightarrow>
                           if v < 0 then (RC_WMORE, pd)
                           else if (if is_extension specs \<noteq> 0 then is_extension specs - 1
                                    else int (length (value2enum specs))) \<le> v then (RC_FAIL, pd)
                           else (RC_OK (V_long (fst (value2enum specs ! nat v))) 0, pd))
                    else if is_extension specs = 0 then (RC_FAIL, pd)
                    else
                      (case uper_get_nsnnwn pd of
                         (v, pd) \<Rightarrow>
                           if v < 0 then (RC_WMORE, pd)
                           else
                             let v = v + (is_extension specs - 1)
                             in if int (length (value2enum specs)) \<le> v then (RC_FAIL, pd)
                                else (RC_OK (V_long (fst (value2enum specs ! nat v))) 0, pd)))
           | _ \<Rightarrow> (RC_FAIL, pd)))"

definition NativeEnumerated__compar_value2enum :: "int \<Rightarrow> (int \<times> string) list \<Rightarrow> nat \<Rightarrow> int" where
  "NativeEnumerated__compar_value2enum key m i =
     (if key = fst (m ! i) then 0 else if key < fst (m ! i) then -1 else 1)"

definition NativeEnumerated_encode_long ::
  "asn_TYPE_descriptor \<Rightarrow> asn_per_constraints option \<Rightarrow> int \<Rightarrow> asn_bit_outp \<Rightarrow> int \<times> asn_bit_outp" where
  "NativeEnumerated_encode_long td constraints native po =
     (case td_specifics td of
        SPC_INTEGER specs \<Rightarrow>
          (case value_constraint td constraints of
             None \<Rightarrow> (-1, po)
           | Some ct \<Rightarrow>
               (case bsearch (NativeEnumerated__compar_value2enum native (value2enum specs)) 0
                       (length (value2enum specs)) of
                  None \<Rightarrow> (-1, po)
                | Some kf \<Rightarrow>
                    let v = int kf;
                        cmpWith = (if is_extension specs \<noteq> 0 then is_extension specs - 1
                                   else int (length (value2enum specs)));
                        inext = (0 \<le> range_bits ct \<and> cmpWith \<le> v)
                    in case (if APC_EXTENSIBLE ct then asn_put_few_bits po (if inext then 1 else 0) 1
                             else if inext then (-1, po) else (0, po)) of
                         (r, po) \<Rightarrow>
                           if r \<noteq> 0 then (-1, po)
                           else if \<not> (APC_EXTENSIBLE ct \<and> inext) \<and> 0 \<le> range_bits ct then
                             (case asn_put_few_bits po (word_of_int v) (range_bits ct) of
                                (r, po) \<Rightarrow> if r \<noteq> 0 then (-1, po) else (0, po))
                           else if is_extension specs = 0 then (-1, po)
                           else
                             (case uper_put_nsnnwn po (v - (if inext then is_extension specs - 1 else 0)) of
                                (r, po) \<Rightarrow> if r \<noteq> 0 then (-1, po) else (0, po))))
      | _ \<Rightarrow> (-1, po))"

definition NativeEnumerated_encode_uper :: uper_encoder where
  "NativeEnumerated_encode_uper td constraints sptr po =
     (case sptr of
        V_long native \<Rightarrow> NativeEnumerated_encode_long td constraints native po
      | _ \<Rightarrow> (-1, po))"

definition ENUMERATED_decode_uper :: uper_decoder where
  "ENUMERATED_decode_uper td constraints pd =
     (case NativeEnumerated_decode_uper td constraints pd of
        (RC_OK (V_long v) consumed, pd) \<Rightarrow> (RC_OK (V_INTEGER (Some (asn_long2INTEGER v))) consumed, pd)
      | r \<Rightarrow> r)"

definition ENUMERATED_encode_uper :: uper_encoder where
  "ENUMERATED_encode_uper td constraints sptr po =
     (case sptr of
        V_INTEGER st \<Rightarrow>
          (case asn_INTEGER2long st of
             None \<Rightarrow> (-1, po)
           | Some v \<Rightarrow> NativeEnumerated_encode_long td constraints v po)
      | _ \<Rightarrow> (-1, po))"

definition INTEGER__compar_value2enum :: "int \<Rightarrow> (int \<times> string) list \<Rightarrow> nat \<Rightarrow> int" where
  "INTEGER__compar_value2enum a m i =
     (let b = fst (m ! i) in if a < b then -1 else if a = b then 0 else 1)"

definition INTEGER_map_value2enum :: "asn_INTEGER_specifics option \<Rightarrow> int \<Rightarrow> (int \<times> string) option" where
  "INTEGER_map_value2enum specs v =
     (case specs of
        None \<Rightarrow> None
      | Some s \<Rightarrow>
          let count = length (value2enum s)
          in if count = 0 then None
             else map_option (\<lambda>i. value2enum s ! i)
                    (bsearch (INTEGER__compar_value2enum v (value2enum s)) 0 count))"

section \<open>Binary search\<close>

lemma bsearch_Some: "bsearch cmp l u = Some i \<Longrightarrow> l \<le> i \<and> i < u \<and> cmp i = 0"
proof (induction cmp l u rule: bsearch.induct)
  case (1 cmp l u)
  then show ?case by (subst (asm) (3) bsearch.simps) (auto simp: Let_def split: if_splits)
qed

text \<open>On a monotone comparison, binary search finds the element if there is one.\<close>

lemma bsearch_finds:
  assumes "l \<le> k" "k < u" "cmp k = 0"
    and "\<And>i. l \<le> i \<Longrightarrow> i < u \<Longrightarrow> i < k \<Longrightarrow> 0 < cmp i" "\<And>i. l \<le> i \<Longrightarrow> i < u \<Longrightarrow> k < i \<Longrightarrow> cmp i < 0"
  shows "bsearch cmp l u = Some k"
  using assms
proof (induction cmp l u rule: bsearch.induct)
  case (1 cmp l u)
  define i where "i = (l + u) div 2"
  have i: "l \<le> i" "i < u" using "1.prems"(1,2) by (auto simp: i_def)
  consider "i < k" | "i = k" | "k < i" by linarith
  then show ?case
  proof cases
    case 1
    then have "0 < cmp i" "\<not> cmp i < 0" using "1.prems" i by (meson order_less_asym)+
    then show ?thesis using "1.IH"(2) [OF _ i_def] "1.prems" i 1 by (subst bsearch.simps) (auto simp: Let_def simp flip: i_def)
  next
    case 2
    then show ?thesis using "1.prems" by (subst bsearch.simps) (auto simp: Let_def simp flip: i_def)
  next
    case 3
    then have "cmp i < 0" using "1.prems" i by auto
    then show ?thesis using "1.IH"(1) [OF _ i_def] "1.prems" i 3 by (subst bsearch.simps) (auto simp: Let_def simp flip: i_def)
  qed
qed


text \<open>A map sorted by value, as the compiler generates it.\<close>

definition enum_sorted :: "(int \<times> string) list \<Rightarrow> bool" where
  "enum_sorted m \<longleftrightarrow> sorted (map fst m) \<and> distinct (map fst m)"

lemma enum_sorted_less: "enum_sorted m \<Longrightarrow> i < j \<Longrightarrow> j < length m \<Longrightarrow> fst (m ! i) < fst (m ! j)"
  using strict_sorted_iff [of "map fst m"] sorted_wrt_nth_less [of "(<)" "map fst m" i j]
  by (auto simp: enum_sorted_def)

lemma bsearch_enum:
  assumes "enum_sorted m" "k < length m"
  shows "bsearch (NativeEnumerated__compar_value2enum (fst (m ! k)) m) 0 (length m) = Some k"
    "bsearch (INTEGER__compar_value2enum (fst (m ! k)) m) 0 (length m) = Some k"
proof -
  have lo: "\<not> fst (m ! k) < fst (m ! i)" "fst (m ! k) \<noteq> fst (m ! i)" if "i < k" for i
    using enum_sorted_less [OF assms(1) that assms(2)] by simp_all
  have hi: "fst (m ! k) < fst (m ! i)" "fst (m ! k) \<noteq> fst (m ! i)" if "i < length m" "k < i" for i
    using enum_sorted_less [OF assms(1) that(2,1)] by simp_all
  show "bsearch (NativeEnumerated__compar_value2enum (fst (m ! k)) m) 0 (length m) = Some k"
    by (rule bsearch_finds) (use assms(2) lo hi in \<open>simp_all add: NativeEnumerated__compar_value2enum_def\<close>)
  show "bsearch (INTEGER__compar_value2enum (fst (m ! k)) m) 0 (length m) = Some k"
    by (rule bsearch_finds) (use assms(2) lo hi in \<open>simp_all add: INTEGER__compar_value2enum_def Let_def\<close>)
qed

lemma bsearch_enum_Some:
  assumes "bsearch (NativeEnumerated__compar_value2enum v m) 0 (length m) = Some k"
  shows "k < length m" "fst (m ! k) = v"
  using bsearch_Some [OF assms] by (auto simp: NativeEnumerated__compar_value2enum_def split: if_splits)

section \<open>NULL, BOOLEAN\<close>

lemma NULL_codec: "encodes (NULL_encode_uper td c v) []" "decodes (NULL_decode_uper td c) [] V_NULL 0"
    "safe_decoder (NULL_decode_uper td c)"
  by (auto simp: encodes_def decodes_def safe_decoder_def NULL_encode_uper_def NULL_decode_uper_def
      put_result_def po_app_refl pd_adv_refl pd_moves_refl)

lemma BOOLEAN_encodes: "encodes (BOOLEAN_encode_uper td c (V_BOOLEAN b)) [b \<noteq> 0]"
  using put_result_norm [OF put_bit_result [of _ "b \<noteq> 0"]]
  by (auto simp: encodes_def BOOLEAN_encode_uper_def case_prod_beta split: if_splits)

lemma BOOLEAN_decodes: "decodes (BOOLEAN_decode_uper td c) [b] (V_BOOLEAN (if b then 1 else 0)) 1"
  unfolding decodes_def
proof (intro allI impI)
  fix pd rest assume "pd_wf pd" "pd_bits pd = [b] @ rest"
  then obtain pd' where "asn_get_few_bits pd 1 = (if b then 1 else 0, pd')" "pd_adv pd 1 pd'"
    using get_bit_prefix [of pd b rest] by auto
  then show "\<exists>pd'. BOOLEAN_decode_uper td c pd = (RC_OK (V_BOOLEAN (if b then 1 else 0)) 1, pd') \<and> pd_adv pd (length [b]) pd'"
    by (auto simp: BOOLEAN_decode_uper_def)
qed

lemma BOOLEAN_safe: "safe_decoder (BOOLEAN_decode_uper td c)"
  by (rule safe_decoderI) (auto simp: BOOLEAN_decode_uper_def split: prod.splits if_splits dest: get_few_bits_moves)

section \<open>NativeInteger\<close>

definition native_int_ok :: "asn_TYPE_descriptor \<Rightarrow> asn_per_constraints option \<Rightarrow> int \<Rightarrow> bool" where
  "native_int_ok td c v \<longleftrightarrow> is_long v \<and> (td_field_unsigned td \<longrightarrow> 0 \<le> v)
     \<and> int_ok (value_constraint td c) (td_field_unsigned td) v"

lemma be_sint_zero_Cons: "be_sint (0 # bs) = be_uint bs"
  by (simp add: be_sint_def be_uint_Cons)

lemma be_sint_decoded:
  assumes "int_ok ct uns v" "is_long v" "be_sint content = v"
  shows "be_sint (int_decoded ct v content) = v"
proof (cases ct)
  case (Some c)
  have "0 \<le> v" if "\<not> int_inext c v" "\<not> 0 \<le> range_bits c" "APC_SEMI_CONSTRAINED c"
    using assms(1) that by (auto simp: int_ok_def Some int_inext_def int_constraint_wf_def)
  then show ?thesis using assms(2,3) imax2INTEGER_spec(1) [OF assms(2)] be_uint_nonneg [of content]
    by (auto simp: int_decoded_def Some be_sint_zero_Cons)
qed (use assms in \<open>simp add: int_decoded_def\<close>)

lemma native_content:
  assumes "native_int_ok td c v"
  shows "(if td_field_unsigned td then asn_ulong2INTEGER (word_of_int v) else asn_long2INTEGER v) = asn_imax2INTEGER v"
  using assms sint_of_int_64 [of v] by (simp add: native_int_ok_def asn_ulong2INTEGER_def asn_long2INTEGER_def)

lemma NativeInteger_encodes:
  assumes "native_int_ok td c v"
  shows "encodes (NativeInteger_encode_uper td c (V_long v)) (int_bits (value_constraint td c) v (asn_imax2INTEGER v))"
  using INTEGER_encodes [of td c v "asn_imax2INTEGER v"] imax2INTEGER_spec [of v] native_content [OF assms] assms
  by (simp add: NativeInteger_encode_uper_def encodes_def native_int_ok_def)

lemma NativeInteger_decodes:
  assumes ok: "native_int_ok td c v"
  shows "decodes (NativeInteger_decode_uper td c) (int_bits (value_constraint td c) v (asn_imax2INTEGER v)) (V_long v) 0"
  unfolding decodes_def
proof (intro allI impI)
  fix pd rest
  let ?ct = "value_constraint td c" and ?m = "asn_imax2INTEGER v"
  assume "pd_wf pd" "pd_bits pd = int_bits ?ct v ?m @ rest"
  moreover have l: "is_long v" and io: "int_ok ?ct (td_field_unsigned td) v" and u: "td_field_unsigned td \<longrightarrow> 0 \<le> v"
    using ok by (auto simp: native_int_ok_def)
  ultimately obtain pd' where d: "INTEGER_decode_uper td c pd = (RC_OK (V_INTEGER (Some (int_decoded ?ct v ?m))) 0, pd')"
      "pd_adv pd (length (int_bits ?ct v ?m)) pd'"
    using decodesE [OF INTEGER_decodes [OF io imax2INTEGER_spec(3) [OF l]]] by blast
  have v: "be_sint (int_decoded ?ct v ?m) = v"
    by (rule be_sint_decoded [OF io l imax2INTEGER_spec(1) [OF l]])
  have "NativeInteger_decode_uper td c pd = (RC_OK (V_long v) 0, pd')"
    using d(1) l u v INTEGER2ulong_nonneg [of "int_decoded ?ct v ?m"] sint_of_int_64 [of v]
    by (simp add: NativeInteger_decode_uper_def INTEGER2long_spec)
  then show "\<exists>pd'. NativeInteger_decode_uper td c pd = (RC_OK (V_long v) 0, pd') \<and> pd_adv pd (length (int_bits ?ct v ?m)) pd'"
    using d(2) by blast
qed

lemma NativeInteger_safe: "safe_decoder (NativeInteger_decode_uper td c)"
proof (rule safe_decoderI)
  fix pd r pd' assume wf: "pd_wf pd" and d: "NativeInteger_decode_uper td c pd = (r, pd')"
  obtain r1 pd1 where g: "INTEGER_decode_uper td c pd = (r1, pd1)" by force
  have "pd' = pd1" using d unfolding NativeInteger_decode_uper_def g
    by (auto split: asn_dec_rval.splits asn_value.splits option.splits if_splits)
  then show "pd_moves pd pd'" using safe_decoderD [OF INTEGER_decode_safe wf g] by simp
qed

section \<open>NativeEnumerated, ENUMERATED\<close>

definition enum_index :: "asn_INTEGER_specifics \<Rightarrow> int \<Rightarrow> nat option" where
  "enum_index specs v = bsearch (NativeEnumerated__compar_value2enum v (value2enum specs)) 0 (length (value2enum specs))"

definition enum_root :: "asn_INTEGER_specifics \<Rightarrow> int" where
  "enum_root specs = (if is_extension specs \<noteq> 0 then is_extension specs - 1 else int (length (value2enum specs)))"

text \<open>
  The index of a value is encoded in \<open>range_bits\<close> bits in the root, and as a normally small number
  behind it. That number has to be below 64.
\<close>

definition enum_ok :: "asn_TYPE_descriptor \<Rightarrow> asn_per_constraints option \<Rightarrow> int \<Rightarrow> bool" where
  "enum_ok td c v \<longleftrightarrow>
     (case (td_specifics td, value_constraint td c) of
        (SPC_INTEGER specs, Some ct) \<Rightarrow>
          0 \<le> range_bits ct \<and> range_bits ct \<le> 31 \<and> 0 \<le> is_extension specs
          \<and> enum_root specs \<le> 2 ^ nat (range_bits ct)
          \<and> (case enum_index specs v of
               None \<Rightarrow> False
             | Some k \<Rightarrow> int k < enum_root specs
                 \<or> APC_EXTENSIBLE ct \<and> is_extension specs \<noteq> 0 \<and> int k - enum_root specs \<le> 63)
      | _ \<Rightarrow> False)"

definition enum_wire :: "asn_TYPE_descriptor \<Rightarrow> asn_per_constraints option \<Rightarrow> int \<Rightarrow> bits" where
  "enum_wire td c v =
     (case (td_specifics td, value_constraint td c) of
        (SPC_INTEGER specs, Some ct) \<Rightarrow>
          (case enum_index specs v of
             None \<Rightarrow> []
           | Some k \<Rightarrow>
               let inext = enum_root specs \<le> int k
               in (if APC_EXTENSIBLE ct then [inext] else [])
                  @ (if inext then nat_bits 7 (nat (int k - enum_root specs))
                     else nat_bits (nat (range_bits ct)) k))
      | _ \<Rightarrow> [])"

lemma enum_okE:
  assumes "enum_ok td c v"
  obtains specs ct k where "td_specifics td = SPC_INTEGER specs" "value_constraint td c = Some ct"
    "enum_index specs v = Some k" "k < length (value2enum specs)" "fst (value2enum specs ! k) = v"
    "0 \<le> range_bits ct" "range_bits ct \<le> 31" "0 \<le> enum_root specs" "enum_root specs \<le> 2 ^ nat (range_bits ct)"
    "int k < enum_root specs \<or> APC_EXTENSIBLE ct \<and> is_extension specs \<noteq> 0 \<and> int k - enum_root specs \<le> 63"
  using assms bsearch_enum_Some
  by (auto simp: enum_ok_def enum_index_def enum_root_def split: asn_specifics.splits option.splits if_splits)

lemma NativeEnumerated_encodes:
  assumes "enum_ok td c v"
  shows "encodes (NativeEnumerated_encode_long td c v) (enum_wire td c v)"
proof (rule enum_okE [OF assms])
  fix specs ct k
  assume td: "td_specifics td = SPC_INTEGER specs" "value_constraint td c = Some ct" "enum_index specs v = Some k"
    and k: "k < length (value2enum specs)" and rb: "0 \<le> range_bits ct" "range_bits ct \<le> 31"
    and root: "0 \<le> enum_root specs" "enum_root specs \<le> 2 ^ nat (range_bits ct)"
    and ext: "int k < enum_root specs \<or> APC_EXTENSIBLE ct \<and> is_extension specs \<noteq> 0 \<and> int k - enum_root specs \<le> 63"
  show ?thesis unfolding encodes_def
  proof (intro allI impI)
    fix po assume wf: "po_wf po"
    define inext where "inext = (enum_root specs \<le> int k)"
    define rest where "rest po = (if \<not> inext then
         (case asn_put_few_bits po (word_of_int (int k)) (range_bits ct) of (r, po) \<Rightarrow> if r \<noteq> 0 then (-1, po) else (0, po))
       else (case uper_put_nsnnwn po (int k - enum_root specs) of (r, po) \<Rightarrow> if r \<noteq> 0 then (-1 :: int, po) else (0, po)))" for po
    define body where "body = (if inext then nat_bits 7 (nat (int k - enum_root specs)) else nat_bits (nat (range_bits ct)) k)"
    have w: "enum_wire td c v = (if APC_EXTENSIBLE ct then [inext] else []) @ body"
      using td by (simp add: enum_wire_def inext_def body_def)
    have r: "put_result po1 body (rest po1)" if "po_wf po1" for po1
    proof (cases inext)
      case True
      then have "0 \<le> int k - enum_root specs" "int k - enum_root specs \<le> 63" using ext by (auto simp: inext_def)
      then show ?thesis using put_result_norm [OF put_nsnnwn_result [OF that]] True
        by (simp add: rest_def body_def case_prod_beta)
    next
      case False
      have "int k < 2 ^ nat (range_bits ct)" using False root unfolding inext_def by linarith
      then have "k < 2 ^ nat (range_bits ct)" by (metis of_nat_less_iff of_nat_numeral of_nat_power)
      moreover have "(2 :: nat) ^ nat (range_bits ct) \<le> 2 ^ 31" using rb by (intro power_increasing) auto
      ultimately have "put_result po1 (nat_bits (nat (range_bits ct)) k) (asn_put_few_bits po1 (word_of_nat k) (int (nat (range_bits ct))))"
        using rb by (intro put_few_nat_result that) auto
      then show ?thesis using put_result_norm [of po1 _ "asn_put_few_bits po1 (word_of_nat k) (range_bits ct)"] False rb
        by (simp add: rest_def body_def case_prod_beta)
    qed
    have e: "NativeEnumerated_encode_long td c v po =
        (case (if APC_EXTENSIBLE ct then asn_put_few_bits po (if inext then 1 else 0) 1 else (0, po)) of
           (r, po) \<Rightarrow> if r \<noteq> 0 then (-1, po) else rest po)"
      using td ext rb unfolding NativeEnumerated_encode_long_def enum_index_def [symmetric] rest_def enum_root_def [symmetric]
      by (auto simp: Let_def inext_def enum_root_def [symmetric] enum_index_def [symmetric] split: prod.splits) (auto simp: enum_root_def split: if_splits)
    show "put_result po (enum_wire td c v) (NativeEnumerated_encode_long td c v po)"
      using put_result_seq [OF put_bit_result [OF wf, of inext] r] r [OF wf]
      unfolding w e by (auto simp: case_prod_beta split: if_splits)
  qed
qed

lemma NativeEnumerated_decodes:
  assumes "enum_ok td c v"
  shows "decodes (NativeEnumerated_decode_uper td c) (enum_wire td c v) (V_long v) 0"
proof (rule enum_okE [OF assms])
  fix specs ct k
  assume td: "td_specifics td = SPC_INTEGER specs" "value_constraint td c = Some ct" "enum_index specs v = Some k"
    and k: "k < length (value2enum specs)" "fst (value2enum specs ! k) = v" and rb: "0 \<le> range_bits ct" "range_bits ct \<le> 31"
    and root: "0 \<le> enum_root specs" "enum_root specs \<le> 2 ^ nat (range_bits ct)"
    and ext: "int k < enum_root specs \<or> APC_EXTENSIBLE ct \<and> is_extension specs \<noteq> 0 \<and> int k - enum_root specs \<le> 63"
  show ?thesis unfolding decodes_def
  proof (intro allI impI)
    fix pd rest assume wf: "pd_wf pd" and pb: "pd_bits pd = enum_wire td c v @ rest"
    define inext where "inext = (enum_root specs \<le> int k)"
    define body where "body = (if inext then nat_bits 7 (nat (int k - enum_root specs)) else nat_bits (nat (range_bits ct)) k)"
    define x where "x = (if APC_EXTENSIBLE ct then [inext] else [])"
    have w: "enum_wire td c v = x @ body"
      using td by (simp add: enum_wire_def inext_def body_def x_def)
    obtain pd1 where g: "(if APC_EXTENSIBLE ct then asn_get_few_bits pd 1 else (0, pd)) = (if inext then 1 else 0, pd1)"
        "pd_adv pd (length x) pd1" "pd_wf pd1" "pd_bits pd1 = body @ rest"
    proof (cases "APC_EXTENSIBLE ct")
      case True
      then show thesis using that get_bit_prefix [OF wf, of inext "body @ rest"] pb w by (auto simp: x_def)
    next
      case False
      then show thesis using that wf pb w ext pd_adv_refl [OF wf] by (auto simp: x_def inext_def)
    qed
    have "\<exists>pd2. NativeEnumerated_decode_uper td c pd = (RC_OK (V_long v) 0, pd2) \<and> pd_adv pd1 (length body) pd2"
    proof (cases inext)
      case True
      then have n: "nat (int k - enum_root specs) \<le> 63" "int (nat (int k - enum_root specs)) = int k - enum_root specs"
          "is_extension specs \<noteq> 0"
        using ext by (auto simp: inext_def)
      obtain pd2 where h: "uper_get_nsnnwn pd1 = (int k - enum_root specs, pd2)" "pd_adv pd1 7 pd2"
        using get_nsnnwn_result [OF g(3), of "nat (int k - enum_root specs)" rest] g(4) n True by (auto simp: body_def)
      have "int k - enum_root specs + (is_extension specs - 1) = int k" "\<not> int k < enum_root specs"
        using n(3) True by (simp_all add: enum_root_def inext_def)
      then have "NativeEnumerated_decode_uper td c pd = (RC_OK (V_long v) 0, pd2)"
        using td g(1) h(1) True n k unfolding NativeEnumerated_decode_uper_def
        by (simp add: Let_def del: int_nat_eq)
      then show ?thesis using h(2) True by (simp add: body_def)
    next
      case False
      have kl: "int k < enum_root specs" using False by (simp add: inext_def)
      then have "int k < 2 ^ nat (range_bits ct)" using root by linarith
      then have "k < 2 ^ nat (range_bits ct)" by (metis of_nat_less_iff of_nat_numeral of_nat_power)
      then obtain pd2 where h: "asn_get_few_bits pd1 (range_bits ct) = (int k, pd2)" "pd_adv pd1 (nat (range_bits ct)) pd2"
        using get_few_nat_prefix [OF g(3) _ _ rb, of k rest] g(4) False by (auto simp: body_def)
      have "NativeEnumerated_decode_uper td c pd = (RC_OK (V_long v) 0, pd2)"
        using td g(1) h(1) False k rb kl unfolding NativeEnumerated_decode_uper_def enum_root_def by (simp split: if_splits)
      then show ?thesis using h(2) False by (simp add: body_def)
    qed
    then show "\<exists>pd'. NativeEnumerated_decode_uper td c pd = (RC_OK (V_long v) 0, pd') \<and> pd_adv pd (length (enum_wire td c v)) pd'"
      using pd_adv_trans [OF g(2)] w by auto
  qed
qed

lemma NativeEnumerated_safe: "safe_decoder (NativeEnumerated_decode_uper td c)"
proof (rule safe_decoderI)
  fix pd r pd' assume wf: "pd_wf pd" and d: "NativeEnumerated_decode_uper td c pd = (r, pd')"
  obtain i pd1 where g: "asn_get_few_bits pd 1 = (i, pd1)" by force
  have m1: "pd_moves pd pd1" using get_few_bits_moves [OF g wf] .
  have few: "pd_moves pd p" if "asn_get_few_bits q n = (w, p)" "q = pd \<or> q = pd1" for q n w p
    using that get_few_bits_moves wf m1 pd_moves_wf pd_moves_trans by blast
  have ns: "pd_moves pd p" if "uper_get_nsnnwn q = (w, p)" "q = pd \<or> q = pd1" for q w p
    using that uper_get_nsnnwn_moves wf m1 pd_moves_wf pd_moves_trans by blast
  show "pd_moves pd pd'" using d m1 pd_moves_refl [OF wf] few ns unfolding NativeEnumerated_decode_uper_def g
    by (auto simp: Let_def split: option.splits asn_specifics.splits if_splits prod.splits)
qed

lemma ENUMERATED_encodes:
  "enum_ok td c v \<Longrightarrow> is_long v \<Longrightarrow>
   encodes (ENUMERATED_encode_uper td c (V_INTEGER (Some (asn_imax2INTEGER v)))) (enum_wire td c v)"
  using NativeEnumerated_encodes [of td c v] imax2INTEGER_spec(1) [of v]
  by (simp add: encodes_def ENUMERATED_encode_uper_def INTEGER2long_spec)

lemma ENUMERATED_decodes:
  "enum_ok td c v \<Longrightarrow> decodes (ENUMERATED_decode_uper td c) (enum_wire td c v) (V_INTEGER (Some (asn_imax2INTEGER v))) 0"
  using NativeEnumerated_decodes [of td c v]
  by (force simp: decodes_def ENUMERATED_decode_uper_def asn_long2INTEGER_def)

lemma ENUMERATED_safe: "safe_decoder (ENUMERATED_decode_uper td c)"
proof (rule safe_decoderI)
  fix pd r pd' assume wf: "pd_wf pd" and d: "ENUMERATED_decode_uper td c pd = (r, pd')"
  obtain r1 pd1 where g: "NativeEnumerated_decode_uper td c pd = (r1, pd1)" by force
  have "pd' = pd1" using d unfolding ENUMERATED_decode_uper_def g
    by (auto split: asn_dec_rval.splits asn_value.splits)
  then show "pd_moves pd pd'" using safe_decoderD [OF NativeEnumerated_safe wf g] by simp
qed

end
