(* ===== verification/Fragments.thy ===== *)
theory Fragments
  imports Per_Codec
begin

text \<open>
  The fragmentation loop shared by the codecs of OCTET STRING, BIT STRING, SEQUENCE OF and SET OF:
  a length determinant, a block of units, and again while the determinant says there is more.
  The units and the code for one block are parameters.

  The writing loop ends because a fragment is never empty. The reading loop has fuel; every
  repetition reads a determinant, so that one more than the number of bits left is always
  enough (\<open>get_blocks_fuel\<close>).
\<close>

section \<open>Definitions\<close>

function put_blocks ::
  "(asn_bit_outp \<Rightarrow> 'a list \<Rightarrow> int \<times> asn_bit_outp) \<Rightarrow> asn_bit_outp \<Rightarrow> 'a list \<Rightarrow> int \<times> asn_bit_outp" where
  "put_blocks body po xs =
     (if xs = [] then (0, po)
      else
        (case uper_put_length po (length xs) of
           (may_save, need_eom, po) \<Rightarrow>
             if may_save < 0 then (-1, po)
             else
               (case body po (take (nat may_save) xs) of
                  (r, po) \<Rightarrow>
                    if r \<noteq> 0 then (-1, po)
                    else if need_eom then
                      (case uper_put_length po 0 of
                         (r, _, po) \<Rightarrow>
                           if r \<noteq> 0 then (-1, po) else put_blocks body po (drop (nat may_save) xs))
                    else put_blocks body po (drop (nat may_save) xs))))"
  by pat_completeness auto
termination
proof (relation "measure (\<lambda>(body, po, xs). length xs)", goal_cases)
  case (2 body po xs x y xa ya xb yb xc yc xd yd)
  then have "fst (uper_put_length po (length xs)) = x" by (metis fst_conv)
  then show ?case using 2 put_length_value [of po "length xs"] length_chunk_pos [of "length xs"] by auto
next
  case (3 body po xs x y xa ya xb yb)
  then have "fst (uper_put_length po (length xs)) = x" by (metis fst_conv)
  then show ?case using 3 put_length_value [of po "length xs"] length_chunk_pos [of "length xs"] by auto
qed simp

declare put_blocks.simps [simp del]

text \<open>
  The block reader is told the number of units; \<open>Inl\<close> is the result code it stops with.
  \<open>ebits\<close> and \<open>lb\<close> are the arguments of \<open>uper_get_length\<close>.
\<close>

primrec get_blocks ::
  "nat \<Rightarrow> int \<Rightarrow> int \<Rightarrow> (int \<Rightarrow> asn_bit_data \<Rightarrow> (asn_dec_rval + 'a list) \<times> asn_bit_data)
   \<Rightarrow> asn_bit_data \<Rightarrow> (asn_dec_rval + 'a list) \<times> asn_bit_data" where
  "get_blocks 0 ebits lb body pd = (Inl RC_WMORE, pd)"
| "get_blocks (Suc fuel) ebits lb body pd =
     (case uper_get_length pd ebits lb of
        (raw_len, repeat, pd) \<Rightarrow>
          if raw_len < 0 then (Inl RC_WMORE, pd)
          else
            (case body raw_len pd of
               (Inl e, pd) \<Rightarrow> (Inl e, pd)
             | (Inr xs, pd) \<Rightarrow>
                 if repeat then
                   (case get_blocks fuel ebits lb body pd of
                      (Inl e, pd) \<Rightarrow> (Inl e, pd)
                    | (Inr ys, pd) \<Rightarrow> (Inr (xs @ ys), pd))
                 else (Inr xs, pd)))"

section \<open>Writing\<close>

lemma put_blocks_result:
  assumes "\<And>po ys. po_wf po \<Longrightarrow> set ys \<subseteq> set xs \<Longrightarrow> put_result po (concat (map f ys)) (body po ys)"
  shows "po_wf po \<Longrightarrow> put_result po (frag_bits f xs) (put_blocks body po xs)"
  using assms
proof (induction "length xs" arbitrary: po xs rule: less_induct)
  case less
  show ?case
  proof (cases "xs = []")
    case True
    then show ?thesis using less.prems by (simp add: put_blocks.simps put_result_def po_app_refl)
  next
    case False
    let ?n = "length xs" and ?k = "length_chunk (length xs)"
    have k: "0 < ?k" "?k \<le> ?n" using False length_chunk_pos length_chunk_le by auto
    have fb: "frag_bits f xs = length_bits ?n @ concat (map f (take ?k xs))
        @ (if length_eom ?n then length_bits 0 else []) @ frag_bits f (drop ?k xs)"
      using False by (subst frag_bits.simps) (simp add: Let_def)
    show ?thesis
    proof (rule put_length_result [OF less.prems(1), of ?n])
      fix po1 assume pl: "uper_put_length po ?n = (int ?k, length_eom ?n, po1)" "po_app po (length_bits ?n) po1"
      define r2 where "r2 = body po1 (take ?k xs)"
      have pm: "put_result po1 (concat (map f (take ?k xs))) r2"
        unfolding r2_def using pl(2) by (intro less.prems(2)) (auto dest: in_set_takeD)
      have rest: "put_result po2 (frag_bits f (drop ?k xs)) (put_blocks body po2 (drop ?k xs))"
        if "po_wf po2" for po2
      proof (rule less.hyps [OF _ that])
        show "length (drop ?k xs) < length xs" using k False by simp
        show "put_result po (concat (map f ys)) (body po ys)" if "po_wf po" "set ys \<subseteq> set (drop ?k xs)" for po ys
          using that set_drop_subset [of ?k xs] by (intro less.prems(2)) auto
      qed
      define step where "step = put_eom (length_eom ?n) (\<lambda>po. put_blocks body po (drop ?k xs))"
      have st: "put_result po2 ((if length_eom ?n then length_bits 0 else []) @ frag_bits f (drop ?k xs)) (step po2)"
        if "po_wf po2" for po2
        unfolding step_def by (rule put_eom_result [OF that rest])
      have "put_result po1 (concat (map f (take ?k xs)) @ (if length_eom ?n then length_bits 0 else [])
          @ frag_bits f (drop ?k xs)) (if fst r2 \<noteq> 0 then (-1, snd r2) else step (snd r2))"
        by (rule put_result_seq [OF pm st])
      moreover have "put_blocks body po xs = (if fst r2 \<noteq> 0 then (-1, snd r2) else step (snd r2))"
        using False pl(1) by (subst put_blocks.simps) (simp add: case_prod_beta step_def put_eom_def flip: r2_def)
      ultimately show ?thesis using put_result_after [OF pl(2)] fb by simp
    next
      fix e po1 assume "uper_put_length po ?n = (-1, e, po1)" "po_wf po1" "\<not> sink_unbounded (po_output po)"
      then show ?thesis using False by (subst put_blocks.simps) (simp add: put_result_def)
    qed
  qed
qed

section \<open>Reading\<close>

lemma get_blocks_moves:
  assumes "\<And>n pd r pd'. pd_wf pd \<Longrightarrow> body n pd = (r, pd') \<Longrightarrow> pd_moves pd pd'"
  shows "pd_wf pd \<Longrightarrow> get_blocks fuel e lb body pd = (r, pd') \<Longrightarrow> pd_moves pd pd'"
proof (induction fuel arbitrary: pd r pd')
  case (Suc fuel)
  obtain n rep pd1 where g: "uper_get_length pd e lb = (n, rep, pd1)" by (metis prod.collapse)
  obtain r2 pd2 where b: "body n pd1 = (r2, pd2)" by force
  obtain r3 pd3 where l: "get_blocks fuel e lb body pd2 = (r3, pd3)" by force
  have m1: "pd_moves pd pd1" by (rule uper_get_length_moves [OF g Suc.prems(1)])
  have m2: "pd_moves pd pd2" using assms [OF pd_moves_wf [OF m1] b] m1 pd_moves_trans by blast
  have m3: "pd_moves pd pd3" using Suc.IH [OF pd_moves_wf [OF m2] l] m2 pd_moves_trans by blast
  show ?case using Suc.prems(2) m1 m2 m3 by (auto simp: g b l split: if_splits sum.splits)
qed (auto intro: pd_moves_refl)

text \<open>More fuel than bits left makes no difference.\<close>

lemma pd_left_moves: "pd_moves pd pd' \<Longrightarrow> pd_left pd' \<le> pd_left pd"
  by (auto simp: pd_moves_def pd_adv_def pd_left_def pd_end_def pd_pos_def)

lemma get_blocks_fuel:
  assumes "\<And>n pd r pd'. pd_wf pd \<Longrightarrow> body n pd = (r, pd') \<Longrightarrow> pd_moves pd pd'"
  shows "pd_wf pd \<Longrightarrow> pd_left pd < fuel \<Longrightarrow> pd_left pd < fuel' \<Longrightarrow>
    get_blocks fuel (-1) lb body pd = get_blocks fuel' (-1) lb body pd"
proof (induction fuel arbitrary: fuel' pd)
  case (Suc fuel)
  obtain f2 where f2: "fuel' = Suc f2" using Suc.prems(3) by (cases fuel') auto
  obtain n rep pd1 where g: "uper_get_length pd (-1) lb = (n, rep, pd1)" by (metis prod.collapse)
  obtain r2 pd2 where b: "body n pd1 = (r2, pd2)" by force
  have m1: "pd_moves pd pd1" by (rule uper_get_length_moves [OF g Suc.prems(1)])
  have m2: "pd_moves pd1 pd2" using assms [OF pd_moves_wf [OF m1] b] .
  have "get_blocks fuel (-1) lb body pd2 = get_blocks f2 (-1) lb body pd2" if rep
  proof -
    have "pd_left pd2 < pd_left pd"
      using get_length_left(2) [OF g that] pd_left_moves [OF m2] by simp
    then show ?thesis using Suc.IH [of pd2 f2] pd_moves_wf [OF m2] Suc.prems(2,3) f2 by simp
  qed
  then show ?case by (simp add: f2 g b split: sum.split)
qed simp

lemma length_length_bits: "8 \<le> length (length_bits n)"
  by (simp add: length_bits_def)

lemma frag_bits_nonempty: "0 < length (if xs = [] then length_bits 0 else frag_bits f xs)"
proof (cases "xs = []")
  case True
  then show ?thesis using length_length_bits [of 0] by auto
next
  case False
  then show ?thesis using length_length_bits [of "length xs"] by (subst frag_bits.simps) (auto simp: Let_def)
qed

lemma get_blocks_result:
  assumes body: "\<And>ys pd rest. pd_wf pd \<Longrightarrow> length ys \<le> length xs \<Longrightarrow> set ys \<subseteq> set xs
      \<Longrightarrow> pd_bits pd = concat (map f ys) @ rest
      \<Longrightarrow> \<exists>pd'. body (int (length ys)) pd = (Inr ys, pd') \<and> pd_adv pd (length (concat (map f ys))) pd'"
    and "pd_wf pd" "pd_bits pd = (if xs = [] then length_bits 0 else frag_bits f xs) @ rest"
      "length (if xs = [] then length_bits 0 else frag_bits f xs) \<le> fuel" "e < 0"
  obtains pd' where "get_blocks fuel e lb body pd = (Inr xs, pd')"
    "pd_adv pd (length (if xs = [] then length_bits 0 else frag_bits f xs)) pd'"
proof -
  have "\<exists>pd'. get_blocks fuel e lb body pd = (Inr xs, pd')
      \<and> pd_adv pd (length (if xs = [] then length_bits 0 else frag_bits f xs)) pd'"
    using assms
  proof (induction fuel arbitrary: pd xs)
    case (Suc fuel)
    let ?n = "length xs" and ?k = "length_chunk (length xs)"
    define tl where "tl = (if length_eom ?n then length_bits 0 else if 16384 \<le> ?n then frag_bits f (drop ?k xs) else [])"
    define ws where "ws = (if xs = [] then length_bits 0 else frag_bits f xs)"
    have k: "?k \<le> ?n" using length_chunk_le by auto
    have fb: "ws = length_bits ?n @ concat (map f (take ?k xs)) @ tl"
      using frag_bits_more [of xs f] frag_bits_last [of xs f] length_chunk_all [of ?n]
      by (auto simp: tl_def ws_def not_le length_eom_def)
    have pb: "pd_bits pd = length_bits ?n @ concat (map f (take ?k xs)) @ tl @ rest"
      using Suc.prems(3) fb by (simp add: ws_def)
    obtain pd1 where g1: "uper_get_length pd e lb = (int ?k, 16384 \<le> ?n, pd1)"
        "pd_adv pd (length (length_bits ?n)) pd1"
      using get_length_result [OF Suc.prems(2) pb, of e lb] Suc.prems(5) by blast
    have pb1: "pd_bits pd1 = concat (map f (take ?k xs)) @ tl @ rest"
      using pd_adv_bits [OF g1(2)] pb by simp
    have sub: "set (take ?k xs) \<subseteq> set xs" "set (drop ?k xs) \<subseteq> set xs" by (auto dest: in_set_takeD in_set_dropD)
    obtain pd2 where g2: "body (int ?k) pd1 = (Inr (take ?k xs), pd2)" "pd_adv pd1 (length (concat (map f (take ?k xs)))) pd2"
      using Suc.prems(1) [OF pd_adv_wf [OF g1(2)] _ sub(1) pb1] k by (auto simp: min_absorb2)
    have pb2: "pd_bits pd2 = tl @ rest" using pd_adv_bits [OF g2(2)] pb1 by simp
    note adv = pd_adv_trans [OF g1(2) g2(2)]
    show ?case
    proof (cases "16384 \<le> ?n")
      case False
      then have "tl = []" "?k = ?n" using length_chunk_all [of ?n] by (auto simp: tl_def length_eom_def)
      then show ?thesis using g1(1) g2(1) False adv fb unfolding ws_def by simp
    next
      case True
      define rst where "rst = drop ?k xs"
      have tl: "tl = (if rst = [] then length_bits 0 else frag_bits f rst)"
        using True length_chunk_rest [of ?n] length_chunk_all [of ?n] k by (auto simp: tl_def rst_def)
      have len: "length (if rst = [] then length_bits 0 else frag_bits f rst) \<le> fuel" "length rst \<le> length xs"
        using Suc.prems(4) fb length_length_bits [of ?n] unfolding ws_def [symmetric] tl [symmetric]
        by (simp_all add: rst_def)
      obtain pd3 where g3: "get_blocks fuel e lb body pd2 = (Inr rst, pd3)" "pd_adv pd2 (length tl) pd3"
      proof -
        have "\<exists>pd'. body (int (length ys)) p = (Inr ys, pd') \<and> pd_adv p (length (concat (map f ys))) pd'"
          if "pd_wf p" "length ys \<le> length rst" "set ys \<subseteq> set rst" "pd_bits p = concat (map f ys) @ rs" for ys p rs
          by (rule Suc.prems(1) [OF that(1) _ _ that(4)]) (use that len(2) sub(2) in \<open>auto simp: rst_def\<close>)
        then show thesis using Suc.IH [OF _ pd_adv_wf [OF g2(2)] pb2 [unfolded tl] len(1) Suc.prems(5)] that tl
          by auto
      qed
      have "get_blocks (Suc fuel) e lb body pd = (Inr (take ?k xs @ rst), pd3)"
        using g1(1) g2(1) g3(1) True by simp
      then show ?thesis using pd_adv_trans [OF adv g3(2)] fb unfolding ws_def [symmetric] by (simp add: rst_def add.assoc)
    qed
  next
    case 0
    then show ?case using frag_bits_nonempty [of xs f] by linarith
  qed
  then show thesis using that by blast
qed

end
