(* ===== verification/Octet_String.thy ===== *)
theory Octet_String
  imports Fragments
begin

unbundle bit_operations_syntax

text \<open>
  OCTET STRING and the character string types implemented by it, \<open>OCTET_STRING.c\<close> (UPER).
  A buffer of characters of \<open>bpc\<close> octets each is the list of its characters. Lengths, the
  permitted alphabet (by range, or by the generated maps \<open>value2code\<close> and \<open>code2value\<close>), size
  extensions and fragmentation are as in the source.
\<close>

section \<open>Definitions\<close>

definition asn_DEF_OCTET_STRING_constraints :: asn_per_constraints where
  "asn_DEF_OCTET_STRING_constraints =
     \<lparr>pc_value = \<lparr>APC_SEMI_CONSTRAINED = False, APC_CONSTRAINED = True, APC_EXTENSIBLE = False,
                  range_bits = 8, effective_bits = 8, lower_bound = 0, upper_bound = 255\<rparr>,
      pc_size = \<lparr>APC_SEMI_CONSTRAINED = True, APC_CONSTRAINED = False, APC_EXTENSIBLE = False,
                 range_bits = -1, effective_bits = -1, lower_bound = 0, upper_bound = 0\<rparr>,
      pc_value2code = None, pc_code2value = None\<rparr>"

text \<open>The \<open>switch(bpc)\<close> that reads, and the one that stores, a character.\<close>

fun char_value :: "byte list \<Rightarrow> 32 word option" where
  "char_value [a] = Some (ucast a)"
| "char_value [a, b] = Some (push_bit 8 (ucast a) OR ucast b)"
| "char_value [a, b, c, d] =
     Some (push_bit 24 (ucast a) OR push_bit 16 (ucast b) OR push_bit 8 (ucast c) OR ucast d)"
| "char_value _ = None"

definition char_store :: "nat \<Rightarrow> int \<Rightarrow> byte list" where
  "char_store bpc v =
     (if bpc = 1 then [word_of_int v]
      else if bpc = 2 then [word_of_int (drop_bit 8 v), word_of_int v]
      else if bpc = 4 then
        [word_of_int (drop_bit 24 v), word_of_int (drop_bit 16 v), word_of_int (drop_bit 8 v), word_of_int v]
      else [])"

primrec os_chars :: "nat \<Rightarrow> nat \<Rightarrow> byte list \<Rightarrow> byte list list" where
  "os_chars 0 bpc buf = []"
| "os_chars (Suc n) bpc buf = take bpc buf # os_chars n bpc (drop bpc buf)"

text \<open>X.691, 27.5.4: no translation if all characters fit as they are.\<close>

definition os_as_is :: "int \<Rightarrow> int \<Rightarrow> bool" where
  "os_as_is unit_bits ub \<longleftrightarrow> (word_of_int ub :: 64 word) \<le> push_bit (nat (unit_bits - 1)) 2"

text \<open>One character of the two loops: through the map, or as an offset into the range.\<close>

definition os_put_code :: "(nat \<Rightarrow> int) \<Rightarrow> 32 word \<Rightarrow> 32 word option" where
  "os_put_code value2code v =
     (let code = value2code (unat v) in if code < 0 then None else Some (word_of_int code))"

definition os_put_range :: "int \<Rightarrow> int \<Rightarrow> 32 word \<Rightarrow> 32 word option" where
  "os_put_range lb ub v =
     (let ch = sint (word_of_int (uint v - lb) :: 32 word)
      in if ch < 0 \<or> ub - lb < ch then None else Some (word_of_int ch))"

definition os_get_code :: "(nat \<Rightarrow> int) \<Rightarrow> int \<Rightarrow> int option" where
  "os_get_code code2value code =
     (let v = code2value (nat code) in if v < 0 then None else Some v)"

definition os_get_range :: "int \<Rightarrow> int \<Rightarrow> int \<Rightarrow> int option" where
  "os_get_range lb ub code =
     (let ch = sint (word_of_int (code + lb) :: 32 word) in if ub < ch then None else Some ch)"

primrec os_put_loop ::
  "(32 word \<Rightarrow> 32 word option) \<Rightarrow> int \<Rightarrow> byte list list \<Rightarrow> asn_bit_outp \<Rightarrow> int \<times> asn_bit_outp" where
  "os_put_loop conv unit_bits [] po = (0, po)"
| "os_put_loop conv unit_bits (c # cs) po =
     (case char_value c of
        None \<Rightarrow> (-1, po)
      | Some v \<Rightarrow>
          (case conv v of
             None \<Rightarrow> (-1, po)
           | Some code \<Rightarrow>
               (case asn_put_few_bits po code unit_bits of
                  (r, po) \<Rightarrow> if r \<noteq> 0 then (-1, po) else os_put_loop conv unit_bits cs po)))"

primrec os_get_loop ::
  "(int \<Rightarrow> int option) \<Rightarrow> int \<Rightarrow> nat \<Rightarrow> nat \<Rightarrow> asn_bit_data \<Rightarrow> (asn_dec_rval + byte list list) \<times> asn_bit_data" where
  "os_get_loop conv unit_bits bpc 0 pd = (Inr [], pd)"
| "os_get_loop conv unit_bits bpc (Suc n) pd =
     (case asn_get_few_bits pd unit_bits of
        (code, pd) \<Rightarrow>
          if code < 0 then (Inl RC_WMORE, pd)
          else
            (case conv code of
               None \<Rightarrow> (Inl RC_FAIL, pd)
             | Some v \<Rightarrow>
                 (case os_get_loop conv unit_bits bpc n pd of
                    (Inl e, pd) \<Rightarrow> (Inl e, pd)
                  | (Inr cs, pd) \<Rightarrow> (Inr (char_store bpc v # cs), pd))))"

definition OCTET_STRING_per_get_characters ::
  "nat \<Rightarrow> int \<Rightarrow> int \<Rightarrow> int \<Rightarrow> asn_per_constraints option \<Rightarrow> int \<Rightarrow> asn_bit_data
   \<Rightarrow> (asn_dec_rval + byte list list) \<times> asn_bit_data" where
  "OCTET_STRING_per_get_characters bpc unit_bits lb ub pc units pd =
     (let as_is = os_as_is unit_bits ub;
          lb = (if as_is then 0 else lb)
      in case (if as_is then None else Option.bind pc pc_code2value) of
           Some code2value \<Rightarrow>
             if 16 < unit_bits then (Inl RC_FAIL, pd)
             else os_get_loop (os_get_code code2value) unit_bits bpc (nat units) pd
         | None \<Rightarrow>
             if lb = 0 \<and> unit_bits = 8 * int bpc then
               (case asn_get_many_bits pd False (unit_bits * units) of
                  (r, dst, pd) \<Rightarrow>
                    if r < 0 then (Inl RC_WMORE, pd) else (Inr (os_chars (nat units) bpc dst), pd))
             else os_get_loop (os_get_range lb ub) unit_bits bpc (nat units) pd)"

text \<open>
  After the loop over \<open>value2code\<close> the pointer \<open>buf\<close> is at the end of the characters and the code
  goes on to the tests below.
\<close>

definition OCTET_STRING_per_put_characters ::
  "nat \<Rightarrow> int \<Rightarrow> int \<Rightarrow> int \<Rightarrow> asn_per_constraints option \<Rightarrow> asn_bit_outp \<Rightarrow> byte list list
   \<Rightarrow> int \<times> asn_bit_outp" where
  "OCTET_STRING_per_put_characters bpc unit_bits lb ub pc po cs =
     (let as_is = os_as_is unit_bits ub;
          lb = (if as_is then 0 else lb);
          units = int (length cs)
      in case (if as_is then None else Option.bind pc pc_value2code) of
           Some value2code \<Rightarrow>
             (case os_put_loop (os_put_code value2code) unit_bits cs po of
                (r, po) \<Rightarrow>
                  if r \<noteq> 0 then (-1, po)
                  else if lb = 0 \<and> unit_bits = 8 * int bpc then asn_put_many_bits po [] (unit_bits * units)
                  else (0, po))
         | None \<Rightarrow>
             if lb = 0 \<and> unit_bits = 8 * int bpc then asn_put_many_bits po (concat cs) (unit_bits * units)
             else os_put_loop (os_put_range lb ub) unit_bits cs po)"

text \<open>\<open>bpc\<close> and \<open>canonical_unit_bits\<close> of a subvariant; without specifics the type is OCTET STRING.\<close>

definition os_subvariant :: "asn_TYPE_descriptor \<Rightarrow> (nat \<times> int) option" where
  "os_subvariant td =
     (case (case td_specifics td of SPC_OCTET_STRING s \<Rightarrow> s | _ \<Rightarrow> ASN_OSUBV_STR) of
        ASN_OSUBV_STR \<Rightarrow> Some (1, 8)
      | ASN_OSUBV_U16 \<Rightarrow> Some (2, 16)
      | ASN_OSUBV_U32 \<Rightarrow> Some (4, 32)
      | _ \<Rightarrow> None)"

definition os_cval :: "asn_per_constraints option \<Rightarrow> asn_per_constraint" where
  "os_cval pc = pc_value (case pc of Some c \<Rightarrow> c | None \<Rightarrow> asn_DEF_OCTET_STRING_constraints)"

definition os_csiz :: "asn_per_constraints option \<Rightarrow> asn_per_constraint" where
  "os_csiz pc = pc_size (case pc of Some c \<Rightarrow> c | None \<Rightarrow> asn_DEF_OCTET_STRING_constraints)"

definition OCTET_STRING_decode_uper :: uper_decoder where
  "OCTET_STRING_decode_uper td constraints pd =
     (let pc = pick_constraints td constraints;
          cval = os_cval pc;
          csiz = os_csiz pc
      in case os_subvariant td of
           None \<Rightarrow> (RC_FAIL, pd)
         | Some (bpc, canonical_unit_bits) \<Rightarrow>
             let unit_bits = (if APC_CONSTRAINED cval then range_bits cval else canonical_unit_bits)
             in case (if APC_EXTENSIBLE csiz then asn_get_few_bits pd 1 else (0, pd)) of
                  (inext, pd) \<Rightarrow>
                    if inext < 0 then (RC_WMORE, pd)
                    else
                      let csiz = (if inext \<noteq> 0 then pc_size asn_DEF_OCTET_STRING_constraints else csiz);
                          unit_bits = (if inext \<noteq> 0 then canonical_unit_bits else unit_bits);
                          body = OCTET_STRING_per_get_characters bpc unit_bits (lower_bound cval)
                                   (upper_bound cval) pc
                      in if effective_bits csiz = 0 then
                           (case body (upper_bound csiz) pd of
                              (Inl e, pd) \<Rightarrow> (e, pd)
                            | (Inr cs, pd) \<Rightarrow>
                                (RC_OK (V_OCTET_STRING (concat cs)) (nat (unit_bits * upper_bound csiz)), pd))
                         else
                           (case get_blocks (Suc (pd_left pd)) (effective_bits csiz) (lower_bound csiz) body pd of
                              (Inl e, pd) \<Rightarrow> (e, pd)
                            | (Inr cs, pd) \<Rightarrow> (RC_OK (V_OCTET_STRING (concat cs)) 0, pd)))"

text \<open>The \<open>do ... while\<close> loop writes a determinant for an empty string, too.\<close>

definition OCTET_STRING_encode_uper :: uper_encoder where
  "OCTET_STRING_encode_uper td constraints sptr po =
     (case (sptr, os_subvariant td) of
        (V_OCTET_STRING buf, Some (bpc, canonical_unit_bits)) \<Rightarrow>
          let pc = pick_constraints td constraints;
              cval = os_cval pc;
              csiz = os_csiz pc;
              ct_extensible = APC_EXTENSIBLE csiz;
              unit_bits = (if APC_CONSTRAINED cval then range_bits cval else canonical_unit_bits);
              units = length buf div bpc;
              cs = os_chars units bpc buf;
              out_of_root = (0 \<le> effective_bits csiz
                \<and> (int units < lower_bound csiz \<or> upper_bound csiz < int units))
          in if length buf mod bpc \<noteq> 0 then (-1, po)
             else if out_of_root \<and> \<not> ct_extensible then (-1, po)
             else
               let inext = out_of_root;
                   csiz = (if inext then pc_size asn_DEF_OCTET_STRING_constraints else csiz);
                   unit_bits = (if inext then canonical_unit_bits else unit_bits);
                   body = OCTET_STRING_per_put_characters bpc unit_bits (lower_bound cval)
                            (upper_bound cval) pc
               in case (if ct_extensible then asn_put_few_bits po (if inext then 1 else 0) 1 else (0, po)) of
                    (r, po) \<Rightarrow>
                      if r \<noteq> 0 then (-1, po)
                      else if 0 \<le> effective_bits csiz \<and> \<not> inext then
                        (case asn_put_few_bits po (word_of_int (int units - lower_bound csiz)) (effective_bits csiz) of
                           (r, po) \<Rightarrow>
                             if r \<noteq> 0 then (-1, po)
                             else (case body po cs of (r, po) \<Rightarrow> if r \<noteq> 0 then (-1, po) else (0, po)))
                      else if cs = [] then
                        (case uper_put_length po 0 of
                           (r, _, po) \<Rightarrow> if r < 0 then (-1, po) else body po [])
                      else put_blocks body po cs
      | _ \<Rightarrow> (-1, po))"

section \<open>Characters\<close>

text \<open>
  A character is either copied (\<open>os_copied\<close>) or translated to a code of \<open>unit_bits\<close> bits.
\<close>

definition os_map_used :: "int \<Rightarrow> int \<Rightarrow> asn_per_constraints option \<Rightarrow> bool" where
  "os_map_used unit_bits ub pc \<longleftrightarrow> \<not> os_as_is unit_bits ub \<and> Option.bind pc pc_value2code \<noteq> None"

definition os_copied :: "nat \<Rightarrow> int \<Rightarrow> int \<Rightarrow> int \<Rightarrow> bool" where
  "os_copied bpc unit_bits lb ub \<longleftrightarrow> (os_as_is unit_bits ub \<or> lb = 0) \<and> unit_bits = 8 * int bpc"

definition os_put_conv :: "int \<Rightarrow> int \<Rightarrow> int \<Rightarrow> asn_per_constraints option \<Rightarrow> 32 word \<Rightarrow> 32 word option" where
  "os_put_conv unit_bits lb ub pc =
     (if os_as_is unit_bits ub then os_put_range 0 ub
      else case Option.bind pc pc_value2code of Some f \<Rightarrow> os_put_code f | None \<Rightarrow> os_put_range lb ub)"

definition os_get_conv :: "int \<Rightarrow> int \<Rightarrow> int \<Rightarrow> asn_per_constraints option \<Rightarrow> int \<Rightarrow> int option" where
  "os_get_conv unit_bits lb ub pc =
     (if os_as_is unit_bits ub then os_get_range 0 ub
      else case Option.bind pc pc_code2value of Some f \<Rightarrow> os_get_code f | None \<Rightarrow> os_get_range lb ub)"

definition os_char_bits :: "nat \<Rightarrow> int \<Rightarrow> int \<Rightarrow> int \<Rightarrow> asn_per_constraints option \<Rightarrow> byte list \<Rightarrow> bits" where
  "os_char_bits bpc unit_bits lb ub pc c =
     (if \<not> os_map_used unit_bits ub pc \<and> os_copied bpc unit_bits lb ub then bytes_bits c
      else case Option.bind (char_value c) (os_put_conv unit_bits lb ub pc) of
             None \<Rightarrow> [] | Some code \<Rightarrow> nat_bits (nat unit_bits) (unat code))"

text \<open>The translation of the alphabet keeps the character, and codes fit into their bits.\<close>

definition os_char_ok :: "nat \<Rightarrow> int \<Rightarrow> int \<Rightarrow> int \<Rightarrow> asn_per_constraints option \<Rightarrow> byte list \<Rightarrow> bool" where
  "os_char_ok bpc unit_bits lb ub pc c \<longleftrightarrow>
     length c = bpc
     \<and> (\<not> os_as_is unit_bits ub \<longrightarrow>
          (Option.bind pc pc_value2code = None) = (Option.bind pc pc_code2value = None))
     \<and> (if os_copied bpc unit_bits lb ub then \<not> os_map_used unit_bits ub pc
        else 0 \<le> unit_bits \<and> unit_bits \<le> 31 \<and> (os_map_used unit_bits ub pc \<longrightarrow> unit_bits \<le> 16)
          \<and> (case Option.bind (char_value c) (os_put_conv unit_bits lb ub pc) of
               None \<Rightarrow> False
             | Some code \<Rightarrow> unat code < 2 ^ nat unit_bits
                 \<and> map_option (char_store bpc) (os_get_conv unit_bits lb ub pc (uint code)) = Some c))"

lemma os_put_loop_result:
  assumes "\<And>c. c \<in> set cs \<Longrightarrow> \<exists>v code. char_value c = Some v \<and> conv v = Some code \<and> f c = nat_bits (nat unit_bits) (unat code)"
    and "0 \<le> unit_bits" "unit_bits \<le> 31"
  shows "po_wf po \<Longrightarrow> put_result po (concat (map f cs)) (os_put_loop conv unit_bits cs po)"
  using assms(1)
proof (induction cs arbitrary: po)
  case Nil
  then show ?case by (simp add: put_result_def po_app_refl)
next
  case (Cons c cs)
  obtain v code where c: "char_value c = Some v" "conv v = Some code" "f c = nat_bits (nat unit_bits) (unat code)"
    using Cons.prems(2) [of c] by auto
  have "put_result po (f c) (asn_put_few_bits po code unit_bits)"
    unfolding c(3) by (rule put_few_bits_result [OF Cons.prems(1) assms(2,3)])
  then have "put_result po (f c @ concat (map f cs))
      (if fst (asn_put_few_bits po code unit_bits) \<noteq> 0 then (-1, snd (asn_put_few_bits po code unit_bits))
       else os_put_loop conv unit_bits cs (snd (asn_put_few_bits po code unit_bits)))"
    by (rule put_result_seq) (use Cons in auto)
  then show ?case using c by (simp add: case_prod_beta)
qed

lemma os_get_loop_result:
  assumes "\<And>c. c \<in> set cs \<Longrightarrow> \<exists>code. f c = nat_bits (nat unit_bits) code \<and> code < 2 ^ nat unit_bits
      \<and> map_option (char_store bpc) (conv (int code)) = Some c"
    and u: "0 \<le> unit_bits" "unit_bits \<le> 31"
    and "pd_wf pd" "pd_bits pd = concat (map f cs) @ rest"
  shows "\<exists>pd'. os_get_loop conv unit_bits bpc (length cs) pd = (Inr cs, pd') \<and> pd_adv pd (length (concat (map f cs))) pd'"
  using assms(1,4,5)
proof (induction cs arbitrary: pd)
  case Nil
  then show ?case using pd_adv_refl by auto
next
  case (Cons c cs)
  obtain code where c: "f c = nat_bits (nat unit_bits) code" "code < 2 ^ nat unit_bits"
      "map_option (char_store bpc) (conv (int code)) = Some c"
    using Cons.prems(1) [of c] by auto
  have "pd_bits pd = nat_bits (nat unit_bits) code @ concat (map f cs) @ rest" using Cons.prems(3) c(1) by simp
  then obtain pd1 where g: "asn_get_few_bits pd unit_bits = (int code, pd1)" "pd_adv pd (nat unit_bits) pd1"
      "pd_wf pd1" "pd_bits pd1 = concat (map f cs) @ rest"
    using get_few_nat_prefix [OF Cons.prems(2) _ c(2) u] by blast
  obtain pd2 where h: "os_get_loop conv unit_bits bpc (length cs) pd1 = (Inr cs, pd2)"
      "pd_adv pd1 (length (concat (map f cs))) pd2"
    using Cons.IH [OF _ g(3,4)] Cons.prems(1) by auto
  have "length (f c) = nat unit_bits" using c(1) by simp
  then show ?case using g(1) h(1) c(3) pd_adv_trans [OF g(2) h(2)] by auto
qed

lemma os_get_loop_moves: "pd_wf pd \<Longrightarrow> os_get_loop conv unit_bits bpc n pd = (r, pd') \<Longrightarrow> pd_moves pd pd'"
proof (induction n arbitrary: pd r pd')
  case (Suc n)
  obtain code pd1 where g: "asn_get_few_bits pd unit_bits = (code, pd1)" by force
  obtain r2 pd2 where h: "os_get_loop conv unit_bits bpc n pd1 = (r2, pd2)" by force
  have m: "pd_moves pd pd1" by (rule get_few_bits_moves [OF g Suc.prems(1)])
  have "pd_moves pd pd2" using Suc.IH [OF pd_moves_wf [OF m] h] m pd_moves_trans by blast
  then show ?case using Suc.prems(2) m by (auto simp: g h split: if_splits option.splits sum.splits)
qed (auto intro: pd_moves_refl)

lemma os_chars_concat: "length buf = n * bpc \<Longrightarrow> concat (os_chars n bpc buf) = buf"
  by (induction n arbitrary: buf) auto

lemma os_chars_of_concat: "(\<And>c. c \<in> set cs \<Longrightarrow> length c = bpc) \<Longrightarrow> os_chars (length cs) bpc (concat cs) = cs"
  by (induction cs) auto

lemma length_concat_const: "(\<And>c. c \<in> set cs \<Longrightarrow> length c = k) \<Longrightarrow> length (concat cs) = k * length cs"
  by (induction cs) auto

lemma concat_bytes_bits: "concat (map bytes_bits cs) = bytes_bits (concat cs)"
  by (induction cs) auto

lemma length_os_chars [simp]: "length (os_chars n bpc buf) = n"
  by (induction n arbitrary: buf) auto

lemma put_characters_result:
  assumes ok: "\<And>c. c \<in> set cs \<Longrightarrow> os_char_ok bpc unit_bits lb ub pc c" and wf: "po_wf po"
  shows "put_result po (concat (map (os_char_bits bpc unit_bits lb ub pc) cs))
     (OCTET_STRING_per_put_characters bpc unit_bits lb ub pc po cs)"
proof (cases "cs = []")
  case True
  then show ?thesis using wf
    by (auto simp: OCTET_STRING_per_put_characters_def Let_def put_result_def po_app_refl asn_put_many_bits.simps
        split: option.splits)
next
  case False
  then obtain c0 where c0: "os_char_ok bpc unit_bits lb ub pc c0" using ok by (cases cs) auto
  show ?thesis
  proof (cases "os_copied bpc unit_bits lb ub")
    case True
    have nm: "\<not> os_map_used unit_bits ub pc" and len: "\<And>c. c \<in> set cs \<Longrightarrow> length c = bpc"
      using c0 ok True by (auto simp: os_char_ok_def)
    have "length (concat cs) = bpc * length cs" by (rule length_concat_const [OF len])
    then have "put_result po (bytes_bits (concat cs)) (asn_put_many_bits po (concat cs) (8 * int bpc * int (length cs)))"
      using put_many_bits_result [OF wf, of "8 * (bpc * length cs)" "concat cs"]
      by (simp add: take_bytes_bits mult.assoc)
    moreover have "concat (map (os_char_bits bpc unit_bits lb ub pc) cs) = bytes_bits (concat cs)"
      using True nm by (simp add: os_char_bits_def [abs_def] concat_bytes_bits)
    ultimately show ?thesis using True nm
      by (auto simp: OCTET_STRING_per_put_characters_def Let_def os_copied_def os_map_used_def)
  next
    case nc: False
    have u: "0 \<le> unit_bits" "unit_bits \<le> 31" using c0 nc by (auto simp: os_char_ok_def)
    have "put_result po (concat (map (os_char_bits bpc unit_bits lb ub pc) cs))
        (os_put_loop (os_put_conv unit_bits lb ub pc) unit_bits cs po)"
      by (rule os_put_loop_result [OF _ u wf], drule ok)
        (use nc in \<open>auto simp: os_char_ok_def os_char_bits_def split: option.splits bind_splits\<close>)
    then show ?thesis using nc unfolding OCTET_STRING_per_put_characters_def os_put_conv_def os_copied_def Let_def
      by (auto simp: put_result_def case_prod_beta split: option.splits if_splits)
  qed
qed

lemma get_characters_result:
  assumes ok: "\<And>c. c \<in> set cs \<Longrightarrow> os_char_ok bpc unit_bits lb ub pc c" and wf: "pd_wf pd"
    and pb: "pd_bits pd = concat (map (os_char_bits bpc unit_bits lb ub pc) cs) @ rest"
    and emp: "cs = [] \<longrightarrow> os_as_is unit_bits ub \<or> Option.bind pc pc_code2value = None \<or> unit_bits \<le> 16"
  shows "\<exists>pd'. OCTET_STRING_per_get_characters bpc unit_bits lb ub pc (int (length cs)) pd = (Inr cs, pd')
     \<and> pd_adv pd (length (concat (map (os_char_bits bpc unit_bits lb ub pc) cs))) pd'"
proof (cases "cs = []")
  case True
  then show ?thesis using wf emp pd_adv_refl [OF wf]
    by (auto simp: OCTET_STRING_per_get_characters_def Let_def asn_get_many_bits_def asn_get_many_bits_loop.simps
        split: option.splits)
next
  case False
  then obtain c0 where c0: "os_char_ok bpc unit_bits lb ub pc c0" using ok by (cases cs) auto
  show ?thesis
  proof (cases "os_copied bpc unit_bits lb ub")
    case True
    have nm: "\<not> os_map_used unit_bits ub pc" and len: "\<And>c. c \<in> set cs \<Longrightarrow> length c = bpc"
      using c0 ok True by (auto simp: os_char_ok_def)
    have nc: "os_as_is unit_bits ub \<or> Option.bind pc pc_code2value = None"
      using c0 nm by (auto simp: os_char_ok_def os_map_used_def)
    have cb: "concat (map (os_char_bits bpc unit_bits lb ub pc) cs) = bytes_bits (concat cs)"
      using True nm by (simp add: os_char_bits_def [abs_def] concat_bytes_bits)
    have lc: "length (concat cs) = bpc * length cs" by (rule length_concat_const [OF len])
    have ub: "unit_bits * int (length cs) = int (length (bytes_bits (concat cs)))"
      using True lc by (simp add: os_copied_def mult.assoc)
    obtain dst pd1 where g: "asn_get_many_bits pd False (unit_bits * int (length cs)) = (0, dst, pd1)"
        "pd_adv pd (length (bytes_bits (concat cs))) pd1"
        "bytes_bits dst = bytes_bits (concat cs) @ replicate (pad8 (length (bytes_bits (concat cs)))) False"
      using get_many_bits_prefix [OF wf pb [unfolded cb] ub] by blast
    then have "bytes_bits dst = bytes_bits (concat cs)" by simp
    then have "dst = concat cs" by (rule bytes_bits_inj)
    then show ?thesis using True g(1,2) nc os_chars_of_concat [OF len] cb
      by (auto simp: OCTET_STRING_per_get_characters_def Let_def os_copied_def)
  next
    case nc: False
    have u: "0 \<le> unit_bits" "unit_bits \<le> 31" using c0 nc by (auto simp: os_char_ok_def)
    have "\<exists>pd'. os_get_loop (os_get_conv unit_bits lb ub pc) unit_bits bpc (length cs) pd = (Inr cs, pd')
        \<and> pd_adv pd (length (concat (map (os_char_bits bpc unit_bits lb ub pc) cs))) pd'"
      by (rule os_get_loop_result [OF _ u wf pb], drule ok)
        (use nc in \<open>auto simp: os_char_ok_def os_char_bits_def split: option.splits bind_splits\<close>)
    moreover have "OCTET_STRING_per_get_characters bpc unit_bits lb ub pc (int (length cs)) pd
        = os_get_loop (os_get_conv unit_bits lb ub pc) unit_bits bpc (length cs) pd"
      using nc c0 unfolding OCTET_STRING_per_get_characters_def os_get_conv_def os_copied_def os_char_ok_def os_map_used_def Let_def
      by (auto split: option.splits)
    ultimately show ?thesis by simp
  qed
qed

lemma get_characters_moves:
  "pd_wf pd \<Longrightarrow> OCTET_STRING_per_get_characters bpc unit_bits lb ub pc n pd = (r, pd') \<Longrightarrow> pd_moves pd pd'"
  by (auto simp: OCTET_STRING_per_get_characters_def Let_def split: option.splits if_splits prod.splits
      intro: pd_moves_refl dest: os_get_loop_moves get_many_bits_moves)


section \<open>OCTET STRING\<close>

record os_setting =
  os_bpc :: nat
  os_unit :: int
  os_lb :: int
  os_ub :: int
  os_pc :: "asn_per_constraints option"

text \<open>Is the size outside of the root of its constraint?\<close>

definition os_inext :: "asn_per_constraint \<Rightarrow> nat \<Rightarrow> bool" where
  "os_inext csiz n \<longleftrightarrow> 0 \<le> effective_bits csiz \<and> (int n < lower_bound csiz \<or> upper_bound csiz < int n)"

definition os_setting_of ::
  "asn_per_constraints option \<Rightarrow> nat \<Rightarrow> int \<Rightarrow> bool \<Rightarrow> os_setting" where
  "os_setting_of pc bpc canonical inext =
     \<lparr>os_bpc = bpc,
      os_unit = (if inext then canonical
                 else if APC_CONSTRAINED (os_cval pc) then range_bits (os_cval pc) else canonical),
      os_lb = lower_bound (os_cval pc), os_ub = upper_bound (os_cval pc), os_pc = pc\<rparr>"

definition os_bits :: "os_setting \<Rightarrow> byte list \<Rightarrow> bits" where
  "os_bits s = os_char_bits (os_bpc s) (os_unit s) (os_lb s) (os_ub s) (os_pc s)"

definition os_wire :: "asn_TYPE_descriptor \<Rightarrow> asn_per_constraints option \<Rightarrow> byte list \<Rightarrow> bits" where
  "os_wire td c buf =
     (case os_subvariant td of
        None \<Rightarrow> []
      | Some (bpc, canonical) \<Rightarrow>
          let pc = pick_constraints td c; csiz = os_csiz pc; n = length buf div bpc;
              inext = os_inext csiz n; s = os_setting_of pc bpc canonical inext; cs = os_chars n bpc buf
          in (if APC_EXTENSIBLE csiz then [inext] else [])
             @ (if 0 \<le> effective_bits csiz \<and> \<not> inext
                then nat_bits (nat (effective_bits csiz)) (nat (int n - lower_bound csiz)) @ concat (map (os_bits s) cs)
                else if cs = [] then length_bits 0 else frag_bits (os_bits s) cs))"

definition os_ok :: "asn_TYPE_descriptor \<Rightarrow> asn_per_constraints option \<Rightarrow> byte list \<Rightarrow> bool" where
  "os_ok td c buf \<longleftrightarrow>
     (case os_subvariant td of
        None \<Rightarrow> False
      | Some (bpc, canonical) \<Rightarrow>
          let pc = pick_constraints td c; csiz = os_csiz pc; n = length buf div bpc;
              inext = os_inext csiz n; s = os_setting_of pc bpc canonical inext
          in length buf mod bpc = 0
             \<and> (\<forall>x \<in> set (os_chars n bpc buf). os_char_ok (os_bpc s) (os_unit s) (os_lb s) (os_ub s) (os_pc s) x)
             \<and> (n = 0 \<longrightarrow> Option.bind pc pc_code2value = None)
             \<and> (inext \<longrightarrow> APC_EXTENSIBLE csiz)
             \<and> (0 \<le> effective_bits csiz \<longrightarrow> effective_bits csiz \<le> 16 \<and> 0 \<le> lower_bound csiz
                  \<and> upper_bound csiz - lower_bound csiz < 2 ^ nat (effective_bits csiz)))"

text \<open>\<open>consumed\<close> is only reported for a fixed size.\<close>

definition os_used :: "asn_TYPE_descriptor \<Rightarrow> asn_per_constraints option \<Rightarrow> byte list \<Rightarrow> nat" where
  "os_used td c buf =
     (case os_subvariant td of
        None \<Rightarrow> 0
      | Some (bpc, canonical) \<Rightarrow>
          let pc = pick_constraints td c; csiz = os_csiz pc; inext = os_inext csiz (length buf div bpc)
          in if effective_bits csiz = 0 \<and> \<not> inext
             then nat (os_unit (os_setting_of pc bpc canonical False) * upper_bound csiz) else 0)"

lemma os_okE:
  assumes "os_ok td c buf"
  obtains bpc canonical where "os_subvariant td = Some (bpc, canonical)" "0 < bpc" "length buf mod bpc = 0"
  using assms by (auto simp: os_ok_def os_subvariant_def Let_def split: option.splits asn_OS_subvariant.splits asn_specifics.splits)

lemma length0_body:
  assumes "po_wf po" "\<And>po1. po_wf po1 \<Longrightarrow> put_result po1 [] (f po1)"
  shows "put_result po (length_bits 0) (case uper_put_length po 0 of (r, _, po) \<Rightarrow> if r < 0 then (-1, po) else f po)"
proof (rule put_length_result [OF assms(1), of 0])
  fix po' assume "uper_put_length po 0 = (int (length_chunk 0), length_eom 0, po')" "po_app po (length_bits 0) po'"
  then show ?thesis using put_result_after [of po "length_bits 0" po' "[]" "f po'"] assms(2) [of po']
    by (auto simp: length_chunk_def)
qed (auto simp: put_result_def)

lemma OCTET_STRING_encodes:
  assumes ok: "os_ok td c buf"
  shows "encodes (OCTET_STRING_encode_uper td c (V_OCTET_STRING buf)) (os_wire td c buf)"
proof -
  obtain bpc can where sv: "os_subvariant td = Some (bpc, can)" "0 < bpc" "length buf mod bpc = 0"
    by (rule os_okE [OF ok])
  define pc where "pc = pick_constraints td c"
  define csiz where "csiz = os_csiz pc"
  define n where "n = length buf div bpc"
  define inext where "inext = os_inext csiz n"
  define s where "s = os_setting_of pc bpc can inext"
  define cs where "cs = os_chars n bpc buf"
  define cz where "cz = (if inext then pc_size asn_DEF_OCTET_STRING_constraints else csiz)"
  note D = pc_def [symmetric] csiz_def [symmetric] n_def [symmetric] inext_def [symmetric] s_def [symmetric] cs_def [symmetric]
  have o: "\<And>x. x \<in> set cs \<Longrightarrow> os_char_ok (os_bpc s) (os_unit s) (os_lb s) (os_ub s) (os_pc s) x"
      "inext \<longrightarrow> APC_EXTENSIBLE csiz"
      "0 \<le> effective_bits csiz \<longrightarrow> effective_bits csiz \<le> 16 \<and> 0 \<le> lower_bound csiz
         \<and> upper_bound csiz - lower_bound csiz < 2 ^ nat (effective_bits csiz)"
    using ok unfolding os_ok_def Let_def sv(1) by (auto simp: D)
  have w: "os_wire td c buf = (if APC_EXTENSIBLE csiz then [inext] else [])
      @ (if 0 \<le> effective_bits csiz \<and> \<not> inext
         then nat_bits (nat (effective_bits csiz)) (nat (int n - lower_bound csiz)) @ concat (map (os_bits s) cs)
         else if cs = [] then length_bits 0 else frag_bits (os_bits s) cs)"
    unfolding os_wire_def Let_def sv(1) option.case prod.case D by (rule refl)
  define body where "body = OCTET_STRING_per_put_characters (os_bpc s) (os_unit s) (os_lb s) (os_ub s) (os_pc s)"
  have b: "put_result po (concat (map (os_bits s) ys)) (body po ys)" if "po_wf po" "set ys \<subseteq> set cs" for po ys
    unfolding body_def os_bits_def using that o(1) by (intro put_characters_result) auto
  define rest where "rest po = (if 0 \<le> effective_bits csiz \<and> \<not> inext then
      (case asn_put_few_bits po (word_of_int (int n - lower_bound csiz)) (effective_bits csiz) of
         (r, po) \<Rightarrow> if r \<noteq> 0 then (-1, po) else (case body po cs of (r, po) \<Rightarrow> if r \<noteq> 0 then (-1, po) else (0, po)))
      else if cs = [] then (case uper_put_length po 0 of (r, _, po) \<Rightarrow> if r < 0 then (-1, po) else body po [])
      else put_blocks body po cs)" for po
  have r: "put_result po (if 0 \<le> effective_bits csiz \<and> \<not> inext
         then nat_bits (nat (effective_bits csiz)) (nat (int n - lower_bound csiz)) @ concat (map (os_bits s) cs)
         else if cs = [] then length_bits 0 else frag_bits (os_bits s) cs) (rest po)" if wf: "po_wf po" for po
  proof (cases "0 \<le> effective_bits csiz \<and> \<not> inext")
    case True
    then have n: "lower_bound csiz \<le> int n" "int n - lower_bound csiz < 2 ^ nat (effective_bits csiz)" "effective_bits csiz \<le> 16"
      using o(3) by (auto simp: inext_def os_inext_def)
    define k where "k = nat (int n - lower_bound csiz)"
    have k: "int n - lower_bound csiz = int k" "k < 2 ^ nat (effective_bits csiz)" using n(1,2) by (auto simp: k_def nat_less_iff)
    have "(2 :: nat) ^ nat (effective_bits csiz) \<le> 2 ^ 16" using n(3) by (intro power_increasing) auto
    then have "put_result po (nat_bits (nat (effective_bits csiz)) k) (asn_put_few_bits po (word_of_nat k) (int (nat (effective_bits csiz))))"
      using k(2) n(3) by (intro put_few_nat_result wf) auto
    then have p1: "put_result po (nat_bits (nat (effective_bits csiz)) k) (asn_put_few_bits po (word_of_int (int k)) (effective_bits csiz))"
      using True by simp
    show ?thesis
      using put_result_seq [OF p1 put_result_norm [OF b], of cs] True unfolding rest_def k_def [symmetric] k(1)
      by (auto simp: case_prod_beta)
  next
    case False
    then show ?thesis using length0_body [OF wf, of "\<lambda>po. body po []"] b [of _ "[]"]
        put_blocks_result [where body = body and f = "os_bits s" and xs = cs, OF b wf]
      unfolding rest_def if_not_P [OF False] by (simp split: if_split)
  qed
  have cb: "OCTET_STRING_per_put_characters bpc (os_unit s) (lower_bound (os_cval pc)) (upper_bound (os_cval pc)) pc = body"
    "(if inext then can else if APC_CONSTRAINED (os_cval pc) then range_bits (os_cval pc) else can) = os_unit s"
    by (simp_all add: body_def s_def os_setting_of_def)
  have oo: "(0 \<le> effective_bits csiz \<and> (int n < lower_bound csiz \<or> upper_bound csiz < int n)) = inext"
    by (simp add: inext_def os_inext_def)
  have dz: "\<not> 0 \<le> effective_bits (pc_size asn_DEF_OCTET_STRING_constraints)"
    by (simp add: asn_DEF_OCTET_STRING_constraints_def)
  have cz: "(0 \<le> effective_bits cz \<and> \<not> inext) = (0 \<le> effective_bits csiz \<and> \<not> inext)" by (auto simp: cz_def dz)
  have cz2: "(if 0 \<le> effective_bits csiz \<and> \<not> inext then g cz else h) = (if 0 \<le> effective_bits csiz \<and> \<not> inext then g csiz else h)"
    for g :: "asn_per_constraint \<Rightarrow> int \<times> asn_bit_outp" and h by (simp add: cz_def)
  have mz: "(length buf mod bpc \<noteq> 0) = False" "(inext \<and> \<not> APC_EXTENSIBLE csiz) = False" using sv(3) o(2) by auto
  have eq: "OCTET_STRING_encode_uper td c (V_OCTET_STRING buf) po =
      (case (if APC_EXTENSIBLE csiz then asn_put_few_bits po (if inext then 1 else 0) 1 else (0, po)) of
         (r, po) \<Rightarrow> if r \<noteq> 0 then (-1, po) else rest po)" for po
    unfolding OCTET_STRING_encode_uper_def Let_def sv(1) option.case prod.case asn_value.case D oo cb cz_def [symmetric] cz rest_def
      mz if_False
    by (cases inext) (simp_all add: cz_def cong: if_cong)
  show ?thesis unfolding encodes_def
  proof (intro allI impI)
    fix po assume wf: "po_wf po"
    show "put_result po (os_wire td c buf) (OCTET_STRING_encode_uper td c (V_OCTET_STRING buf) po)"
    proof (cases "APC_EXTENSIBLE csiz")
      case True
      show ?thesis unfolding w eq if_P [OF True] case_prod_beta
        by (rule put_result_seq [OF put_bit_result [OF wf]]) (rule r)
    next
      case False
      then show ?thesis unfolding w eq if_not_P [OF False] using r [OF wf] by simp
    qed
  qed
qed


lemma OCTET_STRING_decodes:
  assumes ok: "os_ok td c buf"
  shows "decodes (OCTET_STRING_decode_uper td c) (os_wire td c buf) (V_OCTET_STRING buf) (os_used td c buf)"
  unfolding decodes_def
proof (intro allI impI)
  fix pd rest assume wf: "pd_wf pd" and pb: "pd_bits pd = os_wire td c buf @ rest"
  obtain bpc can where sv: "os_subvariant td = Some (bpc, can)" "0 < bpc" "length buf mod bpc = 0"
    by (rule os_okE [OF ok])
  define pc where "pc = pick_constraints td c"
  define csiz where "csiz = os_csiz pc"
  define n where "n = length buf div bpc"
  define inext where "inext = os_inext csiz n"
  define s where "s = os_setting_of pc bpc can inext"
  define cs where "cs = os_chars n bpc buf"
  define cz where "cz = (if inext then pc_size asn_DEF_OCTET_STRING_constraints else csiz)"
  note D = pc_def [symmetric] csiz_def [symmetric] n_def [symmetric] inext_def [symmetric] s_def [symmetric] cs_def [symmetric]
  have o: "\<And>x. x \<in> set cs \<Longrightarrow> os_char_ok (os_bpc s) (os_unit s) (os_lb s) (os_ub s) (os_pc s) x"
      "inext \<longrightarrow> APC_EXTENSIBLE csiz" "n = 0 \<longrightarrow> Option.bind pc pc_code2value = None"
      "0 \<le> effective_bits csiz \<longrightarrow> effective_bits csiz \<le> 16 \<and> 0 \<le> lower_bound csiz
         \<and> upper_bound csiz - lower_bound csiz < 2 ^ nat (effective_bits csiz)"
    using ok unfolding os_ok_def Let_def sv(1) by (auto simp: D)
  define x where "x = (if APC_EXTENSIBLE csiz then [inext] else [])"
  define root where "root = (0 \<le> effective_bits csiz \<and> \<not> inext)"
  define len where "len = nat_bits (nat (effective_bits csiz)) (nat (int n - lower_bound csiz))"
  define ws where "ws = (if root then len @ concat (map (os_bits s) cs)
      else if cs = [] then length_bits 0 else frag_bits (os_bits s) cs)"
  have w: "os_wire td c buf = x @ ws"
    unfolding os_wire_def Let_def sv(1) option.case prod.case D x_def ws_def root_def len_def by (rule refl)
  define body where "body = OCTET_STRING_per_get_characters (os_bpc s) (os_unit s) (os_lb s) (os_ub s) (os_pc s)"
  have cc: "concat cs = buf" "length cs = n"
    using os_chars_concat [of buf n bpc] sv(3) by (auto simp: cs_def n_def)
  have pcs: "os_pc s = pc" by (simp add: s_def os_setting_of_def)
  have emp: "os_as_is (os_unit s) (os_ub s) \<or> Option.bind pc pc_code2value = None \<or> os_unit s \<le> 16"
  proof (cases cs)
    case Nil
    then show ?thesis using o(3) cc(2) by simp
  next
    case (Cons c0 r)
    then show ?thesis using o(1) [of c0] pcs by (auto simp: os_char_ok_def os_map_used_def split: if_splits)
  qed
  have b: "\<exists>pd'. body (int (length ys)) p = (Inr ys, pd') \<and> pd_adv p (length (concat (map (os_bits s) ys))) pd'"
    if "pd_wf p" "set ys \<subseteq> set cs" "pd_bits p = concat (map (os_bits s) ys) @ rs" for p ys rs
    unfolding body_def os_bits_def
    by (rule get_characters_result [OF _ that(1) that(3) [unfolded os_bits_def]])
      (use that o(1) emp pcs in auto)
  obtain pd1 where g: "(if APC_EXTENSIBLE csiz then asn_get_few_bits pd 1 else (0, pd)) = (if inext then 1 else 0, pd1)"
      "pd_adv pd (length x) pd1" "pd_wf pd1" "pd_bits pd1 = ws @ rest"
  proof (cases "APC_EXTENSIBLE csiz")
    case True
    then show thesis using that get_bit_prefix [OF wf, of inext "ws @ rest"] pb w by (auto simp: x_def)
  next
    case False
    then show thesis using that wf pb w o(2) pd_adv_refl [OF wf] by (auto simp: x_def)
  qed
  define fin where "fin = (if effective_bits cz = 0 then
       (case body (upper_bound cz) pd1 of (Inl e, pd) \<Rightarrow> (e, pd)
        | (Inr cs, pd) \<Rightarrow> (RC_OK (V_OCTET_STRING (concat cs)) (nat (os_unit s * upper_bound cz)), pd))
     else (case get_blocks (Suc (pd_left pd1)) (effective_bits cz) (lower_bound cz) body pd1 of (Inl e, pd) \<Rightarrow> (e, pd)
        | (Inr cs, pd) \<Rightarrow> (RC_OK (V_OCTET_STRING (concat cs)) 0, pd)))"
  have cb: "OCTET_STRING_per_get_characters bpc (os_unit s) (lower_bound (os_cval pc)) (upper_bound (os_cval pc)) pc = body"
    "(if inext then can else if APC_CONSTRAINED (os_cval pc) then range_bits (os_cval pc) else can) = os_unit s"
    by (simp_all add: body_def s_def os_setting_of_def)
  have inz: "((if inext then 1 else 0 :: int) \<noteq> 0) = inext" "\<not> (if inext then 1 else 0 :: int) < 0" by auto
  have eq: "OCTET_STRING_decode_uper td c pd = fin"
    unfolding OCTET_STRING_decode_uper_def Let_def sv(1) option.case prod.case D g(1) inz(1) cb cz_def [symmetric] fin_def
    by (simp only: inz(2) if_False)
  have us: "os_used td c buf = (if effective_bits cz = 0 then nat (os_unit s * upper_bound cz) else 0)"
    unfolding os_used_def Let_def sv(1) option.case prod.case D cz_def
    by (cases inext) (simp_all add: asn_DEF_OCTET_STRING_constraints_def s_def)
  have "\<exists>pd2. fin = (RC_OK (V_OCTET_STRING buf) (os_used td c buf), pd2) \<and> pd_adv pd1 (length ws) pd2"
  proof (cases root)
    case True
    then have cz: "cz = csiz" and n: "lower_bound csiz \<le> int n" "int n \<le> upper_bound csiz" "effective_bits csiz \<le> 16" "0 \<le> effective_bits csiz"
        "int n - lower_bound csiz < 2 ^ nat (effective_bits csiz)"
      using o(4) by (auto simp: root_def cz_def inext_def os_inext_def)
    show ?thesis
    proof (cases "effective_bits csiz = 0")
      case z: True
      then have "int n = upper_bound csiz" using n o(4) by simp
      moreover have "len = []" using z by (simp add: len_def)
      ultimately show ?thesis using b [OF g(3), of cs rest] g(4) True cz z cc us by (auto simp: fin_def ws_def)
    next
      case nz: False
      define k where "k = nat (int n - lower_bound csiz)"
      have k: "int k = int n - lower_bound csiz" "k < 2 ^ nat (effective_bits csiz)" using n by (auto simp: k_def nat_less_iff)
      have len: "length len = nat (effective_bits csiz)" by (simp add: len_def)
      have pb2: "pd_bits pd1 = nat_bits (nat (effective_bits csiz)) k @ concat (map (os_bits s) cs) @ rest"
        using g(4) True by (simp add: ws_def len_def k_def)
      obtain pd2 where h: "asn_get_few_bits pd1 (effective_bits csiz) = (int k, pd2)" "pd_adv pd1 (length len) pd2" "pd_wf pd2"
          "pd_bits pd2 = concat (map (os_bits s) cs) @ rest"
        using get_few_nat_prefix [OF g(3) pb2 k(2) n(4)] n(3) len by force
      have gl: "uper_get_length pd1 (effective_bits csiz) (lower_bound csiz) = (int n, False, pd2)"
        using h(1) n(3,4) k(1) by (simp add: uper_get_length_def)
      obtain pd3 where i: "body (int n) pd2 = (Inr cs, pd3)" "pd_adv pd2 (length (concat (map (os_bits s) cs))) pd3"
        using b [OF h(3), of cs rest] h(4) cc(2) by auto
      have "fin = (RC_OK (V_OCTET_STRING buf) 0, pd3)" using nz cz gl i(1) cc(1) by (simp add: fin_def)
      then show ?thesis using pd_adv_trans [OF h(2) i(2)] True nz cz us by (auto simp: ws_def)
    qed
  next
    case False
    then have neg: "effective_bits cz < 0"
      by (auto simp: root_def cz_def asn_DEF_OCTET_STRING_constraints_def)
    have pb1: "pd_bits pd1 = (if cs = [] then length_bits 0 else frag_bits (os_bits s) cs) @ rest"
      using g(4) False by (simp add: ws_def)
    have wsl: "length ws \<le> Suc (pd_left pd1)"
      using length_pd_bits [OF g(3)] g(4) by (simp add: pd_left_def)
    define fuel where "fuel = Suc (pd_left pd1)"
    have bb: "\<exists>pd'. body (int (length ys)) p = (Inr ys, pd') \<and> pd_adv p (length (concat (map (os_bits s) ys))) pd'"
      if "pd_wf p" "length ys \<le> length cs" "set ys \<subseteq> set cs" "pd_bits p = concat (map (os_bits s) ys) @ rs" for ys p rs
      using b that by blast
    have fl: "length (if cs = [] then length_bits 0 else frag_bits (os_bits s) cs) \<le> fuel"
      using wsl False by (simp add: ws_def fuel_def)
    obtain pd2 where "get_blocks fuel (effective_bits cz) (lower_bound cz) body pd1 = (Inr cs, pd2)"
        "pd_adv pd1 (length (if cs = [] then length_bits 0 else frag_bits (os_bits s) cs)) pd2"
      by (rule get_blocks_result [OF bb g(3) pb1 fl neg])
    then have "\<exists>pd2. get_blocks fuel (effective_bits cz) (lower_bound cz) body pd1 = (Inr cs, pd2) \<and> pd_adv pd1 (length ws) pd2"
      using False by (auto simp: ws_def)
    then show ?thesis using neg us cc(1) unfolding fin_def fuel_def [symmetric] by auto
  qed
  then show "\<exists>pd'. OCTET_STRING_decode_uper td c pd = (RC_OK (V_OCTET_STRING buf) (os_used td c buf), pd')
      \<and> pd_adv pd (length (os_wire td c buf)) pd'"
    using pd_adv_trans [OF g(2)] w eq by auto
qed


lemma OCTET_STRING_safe: "safe_decoder (OCTET_STRING_decode_uper td c)"
proof (rule safe_decoderI)
  fix pd r pd' assume wf: "pd_wf pd" and d: "OCTET_STRING_decode_uper td c pd = (r, pd')"
  obtain i pd1 where g: "(if APC_EXTENSIBLE (os_csiz (pick_constraints td c)) then asn_get_few_bits pd 1 else (0, pd)) = (i, pd1)" by force
  then have m1: "pd_moves pd pd1" using get_few_bits_moves [OF _ wf] pd_moves_refl [OF wf] by (auto split: if_splits)
  have b: "pd_moves pd p" if "OCTET_STRING_per_get_characters bpc ub l u pc n pd1 = (e, p)" for bpc ub l u pc n e p
    using get_characters_moves [OF pd_moves_wf [OF m1] that] m1 pd_moves_trans by blast
  have bl: "pd_moves pd p" if "get_blocks fuel eb l (OCTET_STRING_per_get_characters bpc ub l' u pc) pd1 = (e, p)"
    for fuel eb l bpc ub l' u pc e p
    using get_blocks_moves [OF _ pd_moves_wf [OF m1] that] get_characters_moves m1 pd_moves_trans by blast
  show "pd_moves pd pd'" using d m1 b bl pd_moves_refl [OF wf]
    unfolding OCTET_STRING_decode_uper_def Let_def g
    by (auto simp del: get_blocks.simps split: option.splits if_splits prod.splits sum.splits)
qed

end
