(* ===== verification/Bit_String.thy ===== *)
theory Bit_String
  imports Fragments
begin

unbundle bit_operations_syntax

text \<open>
  BIT STRING (\<open>BIT_STRING.c\<close>): the removal of trailing zero bits, comparison, and the UPER codec.

  The encoder writes a bit string without its trailing zero bits, filled up to the lower bound of
  the size constraint. What comes back from the decoder is therefore the canonical form of the
  value (\<open>bs_canonical\<close>); strings of a fixed size are always in that form when the unused bits of
  the last octet are zero (\<open>bs_fixed_canonical\<close>).
\<close>

section \<open>Definitions\<close>

text \<open>The octets before the last that is not zero; the first octet is never skipped.\<close>

fun bs_skip_zeros :: "byte list \<Rightarrow> byte list" where
  "bs_skip_zeros (x # y # r) = (if x = 0 then bs_skip_zeros (y # r) else x # y # r)"
| "bs_skip_zeros xs = xs"

definition bs_trailing :: "byte \<Rightarrow> int" where
  "bs_trailing b =
     (let v = b AND (- b)
      in 7 - (if v AND 0x0F \<noteq> 0 then 4 else 0) - (if v AND 0x33 \<noteq> 0 then 2 else 0)
           - (if v AND 0x55 \<noteq> 0 then 1 else 0))"

text \<open>The buffer is shared with the result, whose size may be smaller.\<close>

definition BIT_STRING__compactify :: "byte list \<Rightarrow> nat \<Rightarrow> byte list \<times> nat" where
  "BIT_STRING__compactify buf bits_unused =
     (if buf = [] then (buf, bits_unused)
      else
        (case bs_skip_zeros (rev buf) of
           b # r \<Rightarrow> if b \<noteq> 0 then (rev (b # r), nat (bs_trailing b)) else (rev r, 0)
         | [] \<Rightarrow> (buf, 0)))"

fun memcmp :: "byte list \<Rightarrow> byte list \<Rightarrow> nat \<Rightarrow> int" where
  "memcmp (x # xs) (y # ys) (Suc n) = (if x < y then -1 else if y < x then 1 else memcmp xs ys n)"
| "memcmp _ _ _ = 0"

definition BIT_STRING_compare :: "byte list \<times> nat \<Rightarrow> byte list \<times> nat \<Rightarrow> int" where
  "BIT_STRING_compare aptr bptr =
     (let a = BIT_STRING__compactify (fst aptr) (snd aptr);
          b = BIT_STRING__compactify (fst bptr) (snd bptr);
          common_prefix_size = (if length (fst a) \<le> length (fst b) then length (fst a) else length (fst b));
          ret = memcmp (fst a) (fst b) common_prefix_size
      in if ret = 0 then
           (if length (fst a) < length (fst b) then -1
            else if length (fst a) > length (fst b) then 1
            else if snd a > snd b then -1
            else if snd a < snd b then 1
            else 0)
         else ret)"

definition asn_DEF_BIT_STRING_constraint_size :: asn_per_constraint where
  "asn_DEF_BIT_STRING_constraint_size =
     \<lparr>APC_SEMI_CONSTRAINED = True, APC_CONSTRAINED = False, APC_EXTENSIBLE = False,
      range_bits = -1, effective_bits = -1, lower_bound = 0, upper_bound = 0\<rparr>"

definition bs_csiz :: "asn_per_constraints option \<Rightarrow> asn_per_constraint" where
  "bs_csiz pc = (case pc of Some pc \<Rightarrow> pc_size pc | None \<Rightarrow> asn_DEF_BIT_STRING_constraint_size)"

definition bs_subvariant :: "asn_TYPE_descriptor \<Rightarrow> bool" where
  "bs_subvariant td =
     (case td_specifics td of
        SPC_OCTET_STRING v \<Rightarrow> v = ASN_OSUBV_BIT
      | SPC_NONE \<Rightarrow> True
      | _ \<Rightarrow> False)"

text \<open>
  The \<open>do ... while(repeat)\<close> loop of the decoder. \<open>buf\<close> is \<open>None\<close> for a NULL pointer; a length of
  zero breaks the loop only when there is a buffer.
\<close>

primrec bs_get_loop ::
  "nat \<Rightarrow> asn_per_constraint \<Rightarrow> byte list option \<Rightarrow> nat \<Rightarrow> asn_bit_data \<Rightarrow> asn_dec_rval \<times> asn_bit_data" where
  "bs_get_loop 0 csiz buf bits_unused pd = (RC_WMORE, pd)"
| "bs_get_loop (Suc fuel) csiz buf bits_unused pd =
     (case uper_get_length pd (effective_bits csiz) (lower_bound csiz) of
        (raw_len, repeat, pd) \<Rightarrow>
          if raw_len < 0 then (RC_WMORE, pd)
          else if raw_len = 0 \<and> buf \<noteq> None then (RC_OK (V_BIT_STRING (the buf) bits_unused) 0, pd)
          else
            let bits_unused = (if raw_len mod 8 \<noteq> 0 then 8 - nat (raw_len mod 8) else bits_unused)
            in case asn_get_many_bits pd False raw_len of
                 (ret, dst, pd) \<Rightarrow>
                   if ret < 0 then (RC_WMORE, pd)
                   else
                     let buf = (case buf of None \<Rightarrow> dst | Some b \<Rightarrow> b @ dst)
                     in if repeat then bs_get_loop fuel csiz (Some buf) bits_unused pd
                        else (RC_OK (V_BIT_STRING buf bits_unused) 0, pd))"

definition BIT_STRING_decode_uper :: uper_decoder where
  "BIT_STRING_decode_uper td constraints pd =
     (let csiz = bs_csiz (pick_constraints td constraints)
      in if \<not> bs_subvariant td then (RC_FAIL, pd)
         else
           case (if APC_EXTENSIBLE csiz then asn_get_few_bits pd 1 else (0, pd)) of
             (inext, pd) \<Rightarrow>
               if inext < 0 then (RC_WMORE, pd)
               else
                 let csiz = (if inext \<noteq> 0 then asn_DEF_BIT_STRING_constraint_size else csiz)
                 in if effective_bits csiz = 0 then
                      (case asn_get_many_bits pd False (upper_bound csiz) of
                         (ret, buf, pd) \<Rightarrow>
                           if ret < 0 then (RC_WMORE, pd)
                           else (RC_OK (V_BIT_STRING buf (nat ((8 - upper_bound csiz mod 8) mod 8)))
                                   (nat (upper_bound csiz)), pd))
                    else bs_get_loop (Suc (pd_left pd)) csiz
                           (if effective_bits csiz \<ge> 0 then Some [] else None) 0 pd)"

text \<open>The zero bits that fill the string up to the lower bound, sixteen octets at a time.\<close>

function bs_put_zeros :: "nat \<Rightarrow> asn_bit_outp \<Rightarrow> int \<times> asn_bit_outp" where
  "bs_put_zeros trailing_zero_bits po =
     (if trailing_zero_bits > 128 then
        (case asn_put_many_bits po (replicate 16 0) 128 of
           (ret, po) \<Rightarrow> if ret \<noteq> 0 then (-1, po) else bs_put_zeros (trailing_zero_bits - 128) po)
      else if trailing_zero_bits > 0 then
        (case asn_put_many_bits po (replicate 16 0) (int trailing_zero_bits) of
           (ret, po) \<Rightarrow> if ret \<noteq> 0 then (-1, po) else (0, po))
      else (0, po))"
  by pat_completeness auto
termination
  by (relation "measure fst") auto

declare bs_put_zeros.simps [simp del]

text \<open>The \<open>do ... while(size_in_bits)\<close> loop of the encoder.\<close>

function bs_put_loop :: "byte list \<Rightarrow> nat \<Rightarrow> asn_bit_outp \<Rightarrow> int \<times> asn_bit_outp" where
  "bs_put_loop buf size_in_bits po =
     (case uper_put_length po size_in_bits of
        (may_save, need_eom, po) \<Rightarrow>
          if may_save < 0 then (-1, po)
          else
            (case asn_put_many_bits po buf may_save of
               (ret, po) \<Rightarrow>
                 if ret \<noteq> 0 then (-1, po)
                 else
                   (case (if need_eom then uper_put_length po 0 else (0, False, po)) of
                      (r, _, po) \<Rightarrow>
                        if r \<noteq> 0 then (-1, po)
                        else if size_in_bits - nat may_save = 0 then (0, po)
                        else bs_put_loop (drop (nat (may_save div 8)) buf) (size_in_bits - nat may_save) po)))"
  by pat_completeness auto
termination
proof (relation "measure (\<lambda>(buf, n, po). n)", goal_cases)
  case (2 buf n po x y xa ya xb yb xc yc xd yd)
  then have "fst (uper_put_length po n) = x" by (metis fst_conv)
  then have "x = int (length_chunk n)" using put_length_value [of po n] 2(3) by auto
  then show ?case using 2(9) length_chunk_pos [of n] by (cases "n = 0") auto
qed simp

declare bs_put_loop.simps [simp del]

definition BIT_STRING_encode_uper :: uper_encoder where
  "BIT_STRING_encode_uper td constraints sptr po =
     (case sptr of
        V_BIT_STRING buf bits_unused \<Rightarrow>
          if \<not> bs_subvariant td then (-1, po)
          else if buf = [] \<and> bits_unused \<noteq> 0 \<or> bits_unused > 7 then (-1, po)
          else
            let csiz = bs_csiz (pick_constraints td constraints);
                ct_extensible = APC_EXTENSIBLE csiz;
                st = BIT_STRING__compactify buf bits_unused;
                size_in_bits = 8 * length (fst st) - snd st;
                inext = (effective_bits csiz \<ge> 0 \<and> int size_in_bits > upper_bound csiz)
            in if inext \<and> \<not> ct_extensible then (-1, po)
               else
                 case (if ct_extensible then asn_put_few_bits po (if inext then 1 else 0) 1 else (0, po)) of
                   (r, po) \<Rightarrow>
                     if r \<noteq> 0 then (-1, po)
                     else if effective_bits csiz \<ge> 0 \<and> \<not> inext then
                       let add_trailer = (int size_in_bits < lower_bound csiz)
                       in case asn_put_few_bits po
                                 (if add_trailer then 0 else word_of_int (int size_in_bits - lower_bound csiz))
                                 (effective_bits csiz) of
                            (ret, po) \<Rightarrow>
                              if ret \<noteq> 0 then (-1, po)
                              else
                                (case asn_put_many_bits po (fst st) (int size_in_bits) of
                                   (ret, po) \<Rightarrow>
                                     if ret \<noteq> 0 then (-1, po)
                                     else if add_trailer then
                                       bs_put_zeros (nat (lower_bound csiz - int size_in_bits)) po
                                     else (0, po))
                     else bs_put_loop (fst st) size_in_bits po
      | _ \<Rightarrow> (-1, po))"

section \<open>Trailing zero bits\<close>

definition bs_strip :: "bits \<Rightarrow> bits" where
  "bs_strip bs = rev (dropWhile Not (rev bs))"

lemma bs_strip_append: "bs_strip (xs @ ys) = (if bs_strip ys = [] then bs_strip xs else xs @ bs_strip ys)"
  by (auto simp: bs_strip_def dropWhile_append)

lemma bs_strip_Nil [simp]: "bs_strip [] = []"
  by (simp add: bs_strip_def)

lemma bs_strip_zeros [simp]: "bs_strip (replicate n False) = []"
  by (simp add: bs_strip_def dropWhile_replicate)

lemma bs_strip_fill: "bs_strip bs @ replicate (length bs - length (bs_strip bs)) False = bs"
proof -
  have "takeWhile Not (rev bs) = replicate (length (takeWhile Not (rev bs))) False"
    by (intro replicate_eqI) (auto dest: set_takeWhileD)
  moreover have "length (takeWhile Not (rev bs)) = length bs - length (dropWhile Not (rev bs))"
    by (metis add_diff_cancel_right' length_append length_rev takeWhile_dropWhile_id)
  ultimately have "takeWhile Not (rev bs) = replicate (length bs - length (dropWhile Not (rev bs))) False" by simp
  then have "rev (takeWhile Not (rev bs) @ dropWhile Not (rev bs)) = bs_strip bs @ replicate (length bs - length (bs_strip bs)) False"
    unfolding rev_append bs_strip_def by simp
  then show ?thesis by simp
qed

lemma bs_strip_idem: "bs_strip (bs_strip bs) = bs_strip bs"
  unfolding bs_strip_def by (metis dropWhile_idem rev_rev_ident)

lemma length_bs_strip: "length (bs_strip bs) \<le> length bs"
  by (metis bs_strip_def length_dropWhile_le length_rev)

lemma bs_strip_take: "take (length (bs_strip bs)) bs = bs_strip bs"
  by (metis append_eq_conv_conj bs_strip_fill)

text \<open>The bit trick that counts trailing zeros is checked on every octet.\<close>

definition bs_trailing_ok :: "byte \<Rightarrow> bool" where
  "bs_trailing_ok b \<longleftrightarrow> 0 \<le> bs_trailing b \<and> bs_trailing b \<le> 7
     \<and> bs_strip (byte_bits b) = take (8 - nat (bs_trailing b)) (byte_bits b)"

lemma byte_bits_list: "byte_bits b = [bit b 7, bit b 6, bit b 5, bit b 4, bit b 3, bit b 2, bit b 1, bit b 0]"
  by (simp add: byte_bits_def upt_rec eval_nat_numeral)

lemma bs_trailing_all: "bs_trailing_ok 1" "list_all bs_trailing_ok (map word_of_nat [2..<256])"
  by (simp_all add: bs_trailing_ok_def byte_bits_list bs_trailing_def bs_strip_def)

lemma bs_trailing_spec:
  assumes "b \<noteq> 0"
  shows "0 \<le> bs_trailing b" "bs_trailing b \<le> 7" "bs_strip (byte_bits b) = take (8 - nat (bs_trailing b)) (byte_bits b)"
proof -
  have "unat b < 256" using unsigned_less [of b] by simp
  moreover have "unat b \<noteq> 0" using assms by (simp add: unat_eq_0)
  ultimately have "unat b = 1 \<or> unat b \<in> set [2..<256]" unfolding set_upt by auto
  then have "bs_trailing_ok b"
  proof
    assume "unat b = 1"
    then have "b = 1" by (metis unat_1 unsigned_word_eqI)
    then show ?thesis using bs_trailing_all(1) by simp
  next
    assume "unat b \<in> set [2..<256]"
    then have "bs_trailing_ok (word_of_nat (unat b))" using bs_trailing_all(2) unfolding list_all_iff set_map by blast
    then show ?thesis by simp
  qed
  then show "0 \<le> bs_trailing b" "bs_trailing b \<le> 7" "bs_strip (byte_bits b) = take (8 - nat (bs_trailing b)) (byte_bits b)"
    by (simp_all add: bs_trailing_ok_def)
qed

lemma byte_bits_nonempty: "byte_bits b \<noteq> []"
  by (simp add: byte_bits_list)

lemma byte_bits_zero: "byte_bits 0 = replicate 8 False"
  by (rule nth_equalityI) auto

lemma bs_skip_zeros_spec:
  assumes "xs \<noteq> []"
  shows "\<exists>b r. bs_skip_zeros xs = b # r \<and> (b = 0 \<longrightarrow> r = [])
    \<and> bs_strip (bytes_bits (rev xs)) = bs_strip (bytes_bits (rev r @ [b]))"
  using assms
proof (induction xs rule: bs_skip_zeros.induct)
  case (1 x y r)
  show ?case
  proof (cases "x = 0")
    case True
    then have "bs_strip (bytes_bits (rev (x # y # r))) = bs_strip (bytes_bits (rev (y # r)))"
      by (simp add: bs_strip_append bytes_bits_Cons byte_bits_zero)
    then show ?thesis using 1 True by simp
  qed (simp add: bytes_bits_Cons)
qed auto

lemma compactify_spec:
  assumes "buf = [] \<longrightarrow> unused = 0" "BIT_STRING__compactify buf unused = (b', u')"
  shows "8 * length b' - u' = length (bs_strip (bytes_bits buf))"
    "take (8 * length b' - u') (bytes_bits b') = bs_strip (bytes_bits buf)" "u' \<le> 7" "b' = [] \<Longrightarrow> u' = 0"
proof -
  have "8 * length b' - u' = length (bs_strip (bytes_bits buf)) \<and>
      take (8 * length b' - u') (bytes_bits b') = bs_strip (bytes_bits buf) \<and> u' \<le> 7 \<and> (b' = [] \<longrightarrow> u' = 0)"
  proof (cases "buf = []")
    case True
    then show ?thesis using assms by (simp add: BIT_STRING__compactify_def)
  next
    case False
    then obtain b r where s: "bs_skip_zeros (rev buf) = b # r" "b = 0 \<longrightarrow> r = []"
        "bs_strip (bytes_bits buf) = bs_strip (bytes_bits (rev r @ [b]))"
      using bs_skip_zeros_spec [of "rev buf"] by auto
    show ?thesis
    proof (cases "b = 0")
      case True
      then show ?thesis using s assms(2) False
        by (auto simp: BIT_STRING__compactify_def bytes_bits_Cons byte_bits_zero)
    next
      case nz: False
      note t = bs_trailing_spec [OF nz]
      have "bs_strip (bytes_bits buf) = bytes_bits (rev r) @ take (8 - nat (bs_trailing b)) (byte_bits b)"
        using s(3) t byte_bits_nonempty [of b] by (auto simp: bs_strip_append bytes_bits_Cons)
      then show ?thesis using s(1) assms(2) False nz t(1,2)
        by (auto simp: BIT_STRING__compactify_def bytes_bits_Cons)
    qed
  qed
  then show "8 * length b' - u' = length (bs_strip (bytes_bits buf))"
    "take (8 * length b' - u') (bytes_bits b') = bs_strip (bytes_bits buf)" "u' \<le> 7" "b' = [] \<Longrightarrow> u' = 0" by blast+
qed


section \<open>The loops\<close>

lemma length_chunk_mod8: "length_chunk n \<noteq> n \<Longrightarrow> length_chunk n mod 8 = 0"
  by (auto simp: length_chunk_def split: if_splits)

lemma bs_put_zeros_result: "po_wf po \<Longrightarrow> put_result po (replicate n False) (bs_put_zeros n po)"
proof (induction n arbitrary: po rule: less_induct)
  case (less n)
  have z: "bytes_bits (replicate 16 0) = replicate 128 False"
    by (simp add: bytes_bits_def map_replicate byte_bits_zero numeral_eq_Suc)
  show ?case
  proof (cases "n > 128")
    case True
    have p: "put_result po (replicate 128 False) (asn_put_many_bits po (replicate 16 0) 128)"
      using put_many_bits_result [OF less.prems, of 128 "replicate 16 0"] z by simp
    have "replicate n False = replicate 128 False @ replicate (n - 128) False"
      using True by (metis le_add_diff_inverse nat_less_le replicate_add)
    then show ?thesis using put_result_seq [OF p less.IH, of "n - 128"] True
      by (subst bs_put_zeros.simps) (simp add: case_prod_beta)
  next
    case False
    then have "put_result po (replicate n False) (asn_put_many_bits po (replicate 16 0) (int n))"
      using put_many_bits_result [OF less.prems, of n "replicate 16 0"] z by (simp add: min_def)
    then show ?thesis using False put_result_norm less.prems
      by (subst bs_put_zeros.simps) (auto simp: case_prod_beta put_result_def po_app_refl)
  qed
qed

definition bs_frags :: "bits \<Rightarrow> bits" where
  "bs_frags xs = (if xs = [] then length_bits 0 else frag_bits (\<lambda>b. [b]) xs)"

lemma bs_frags_unfold:
  "bs_frags xs = length_bits (length xs) @ take (length_chunk (length xs)) xs
     @ (if length_eom (length xs) then length_bits 0 else [])
     @ (if length_chunk (length xs) < length xs then bs_frags (drop (length_chunk (length xs)) xs) else [])"
proof (cases "xs = []")
  case True
  then show ?thesis by (simp add: bs_frags_def length_eom_def length_chunk_def)
next
  case False
  have e: "frag_bits (\<lambda>b. [b]) xs = length_bits (length xs) @ take (length_chunk (length xs)) xs
      @ (if length_eom (length xs) then length_bits 0 else []) @ frag_bits (\<lambda>b. [b]) (drop (length_chunk (length xs)) xs)"
    using False by (subst frag_bits.simps) (simp add: Let_def)
  show ?thesis
  proof (cases "length_chunk (length xs) < length xs")
    case True
    then show ?thesis using False e by (simp add: bs_frags_def)
  next
    case nl: False
    then have "drop (length_chunk (length xs)) xs = []" by simp
    then show ?thesis using False e nl frag_bits.simps [of "\<lambda>b. [b]" "[]"] by (simp add: bs_frags_def)
  qed
qed

lemma bs_put_loop_result:
  assumes "po_wf po" "n \<le> 8 * length buf"
  shows "put_result po (bs_frags (take n (bytes_bits buf))) (bs_put_loop buf n po)"
  using assms
proof (induction n arbitrary: po buf rule: less_induct)
  case (less n)
  define xs where "xs = take n (bytes_bits buf)"
  have lx: "length xs = n" using less.prems(2) by (simp add: xs_def)
  let ?k = "length_chunk n"
  have k: "?k \<le> n" by (rule length_chunk_le)
  show ?case
  proof (rule put_length_result [OF less.prems(1), of n])
    fix po1 assume pl: "uper_put_length po n = (int ?k, length_eom n, po1)" "po_app po (length_bits n) po1"
    define r2 where "r2 = asn_put_many_bits po1 buf (int ?k)"
    have pm: "put_result po1 (take ?k xs) r2"
      using put_many_bits_result [of po1 ?k buf] pl(2) k less.prems(2) by (auto simp: r2_def xs_def min_absorb1)
    define fin where "fin po2 = (if n - ?k = 0 then (0, po2) else bs_put_loop (drop (?k div 8) buf) (n - ?k) po2)" for po2 :: asn_bit_outp
    have rest: "put_result po2 (if ?k < n then bs_frags (drop ?k xs) else []) (fin po2)" if wf: "po_wf po2" for po2
    proof (cases "?k < n")
      case True
      then have "?k mod 8 = 0" using length_chunk_mod8 [of n] by simp
      then have k8: "8 * (?k div 8) = ?k" by (metis add.right_neutral mult_div_mod_eq)
      have dr: "drop ?k xs = take (n - ?k) (bytes_bits (drop (?k div 8) buf))"
        using drop_bytes_bits [of "?k div 8" buf] k8 by (simp add: xs_def drop_take)
      have "put_result po2 (bs_frags (take (n - ?k) (bytes_bits (drop (?k div 8) buf))))
          (bs_put_loop (drop (?k div 8) buf) (n - ?k) po2)"
      proof (rule less.IH [OF _ wf])
        show "n - ?k < n" using True length_chunk_pos [of n] by (cases "n = 0") auto
        show "n - ?k \<le> 8 * length (drop (?k div 8) buf)" using less.prems(2) k8 by (simp add: diff_mult_distrib2)
      qed
      then show ?thesis using True by (simp add: fin_def dr)
    next
      case False
      then show ?thesis using wf by (simp add: fin_def put_result_def po_app_refl)
    qed
    have st: "put_result po2 ((if length_eom n then length_bits 0 else []) @ (if ?k < n then bs_frags (drop ?k xs) else []))
        (put_eom (length_eom n) fin po2)" if "po_wf po2" for po2
      by (rule put_eom_result [OF that rest])
    have "put_result po1 (take ?k xs @ (if length_eom n then length_bits 0 else [])
        @ (if ?k < n then bs_frags (drop ?k xs) else [])) (if fst r2 \<noteq> 0 then (-1, snd r2) else put_eom (length_eom n) fin (snd r2))"
      by (rule put_result_seq [OF pm st])
    moreover have "bs_put_loop buf n po = (if fst r2 \<noteq> 0 then (-1, snd r2) else put_eom (length_eom n) fin (snd r2))"
      using pl(1) by (subst bs_put_loop.simps) (simp add: case_prod_beta put_eom_def fin_def nat_div_distrib flip: r2_def)
    ultimately show ?thesis
      using put_result_after [OF pl(2)] unfolding xs_def [symmetric] by (subst bs_frags_unfold) (simp only: lx)
  next
    fix e po1 assume "uper_put_length po n = (-1, e, po1)" "po_wf po1" "\<not> sink_unbounded (po_output po)"
    then show ?thesis by (subst bs_put_loop.simps) (simp add: put_result_def)
  qed
qed

text \<open>The octets that hold a bit list, the unused bits zero.\<close>

definition bits_octets :: "bits \<Rightarrow> byte list \<Rightarrow> bool" where
  "bits_octets bs buf \<longleftrightarrow> bytes_bits buf = bs @ replicate (pad8 (length bs)) False"

lemma bits_octets_unique: "bits_octets bs a \<Longrightarrow> bits_octets bs b \<Longrightarrow> a = b"
  by (simp add: bits_octets_def bytes_bits_inj)

lemma bits_octets_append:
  assumes "bits_octets xs a" "bits_octets ys b" "length xs mod 8 = 0"
  shows "bits_octets (xs @ ys) (a @ b)"
proof -
  have "pad8 (length xs) = 0" using assms(3) by (simp add: pad8_mod)
  moreover have "pad8 (length xs + length ys) = pad8 (length ys)"
    using assms(3) by (metis add.commute mod_add_right_eq add.right_neutral pad8_mod)
  ultimately show ?thesis using assms by (simp add: bits_octets_def)
qed

lemma bits_octets_Nil: "bits_octets [] []"
  by (simp add: bits_octets_def pad8_def)

lemma length_bits_octets:
  assumes "bits_octets bs buf"
  shows "8 * length buf = length bs + pad8 (length bs)"
  using arg_cong [OF assms [unfolded bits_octets_def], of length] by simp

lemma bs_get_loop_result:
  assumes "pd_wf pd" "pd_bits pd = bs_frags xs @ rest" "length (bs_frags xs) \<le> fuel" "effective_bits csiz < 0"
    and "bits_octets pre b0" "length pre mod 8 = 0" "buf = Some b0 \<or> buf = None \<and> pre = []" "bits_octets (pre @ xs) out"
  shows "\<exists>pd'. bs_get_loop fuel csiz buf 0 pd = (RC_OK (V_BIT_STRING out (pad8 (length xs))) 0, pd')
     \<and> pd_adv pd (length (bs_frags xs)) pd'"
  using assms
proof (induction fuel arbitrary: pd xs pre b0 buf)
  case 0
  then show ?case using frag_bits_nonempty [of xs "\<lambda>b. [b]"] unfolding bs_frags_def by simp
next
  case (Suc fuel)
  let ?n = "length xs" and ?k = "length_chunk (length xs)"
  define tl where "tl = (if 16384 \<le> ?n then bs_frags (drop ?k xs) else [])"
  have k: "?k \<le> ?n" using length_chunk_le by auto
  have fb: "bs_frags xs = length_bits ?n @ take ?k xs @ tl"
  proof (cases "16384 \<le> ?n")
    case True
    then have "xs \<noteq> []" by auto
    then show ?thesis using True frag_bits_more [of xs "\<lambda>b. [b]"] length_chunk_rest [of ?n] length_chunk_all [of ?n]
      by (auto simp: tl_def bs_frags_def)
  next
    case False
    then show ?thesis using frag_bits_last [of xs "\<lambda>b. [b]"] length_chunk_all [of ?n] by (auto simp: tl_def bs_frags_def)
  qed
  have pb: "pd_bits pd = length_bits ?n @ take ?k xs @ tl @ rest"
    using Suc.prems(2) unfolding fb by simp
  obtain pd1 where g1: "uper_get_length pd (effective_bits csiz) (lower_bound csiz) = (int ?k, 16384 \<le> ?n, pd1)"
      "pd_adv pd (length (length_bits ?n)) pd1"
    using get_length_result [OF Suc.prems(1) pb, of "effective_bits csiz" "lower_bound csiz"] Suc.prems(4) by blast
  have pb1: "pd_bits pd1 = take ?k xs @ tl @ rest" using pd_adv_bits [OF g1(2)] pb by simp
  have lk: "int ?k = int (length (take ?k xs))" using k by simp
  obtain dst pd2 where g2: "asn_get_many_bits pd1 False (int ?k) = (0, dst, pd2)"
      "pd_adv pd1 (length (take ?k xs)) pd2" "bytes_bits dst = take ?k xs @ replicate (pad8 (length (take ?k xs))) False"
      "pd_bits pd2 = tl @ rest"
    by (rule get_many_bits_prefix [OF pd_adv_wf [OF g1(2)] pb1 lk])
  have dst: "bits_octets (take ?k xs) dst" using g2(3) by (simp add: bits_octets_def)
  note adv = pd_adv_trans [OF g1(2) g2(2)]
  define b1 where "b1 = (case buf of None \<Rightarrow> dst | Some b \<Rightarrow> b @ dst)"
  have b1: "bits_octets (pre @ take ?k xs) b1"
    using Suc.prems(5-7) dst bits_octets_append [OF Suc.prems(5) dst] by (auto simp: b1_def)
  show ?case
  proof (cases "16384 \<le> ?n")
    case False
    then have k2: "?k = ?n" and tl: "tl = []" using length_chunk_all [of ?n] by (auto simp: tl_def)
    have out: "b1 = out" using b1 Suc.prems(8) k2 bits_octets_unique by simp
    show ?thesis
    proof (cases "?n = 0 \<and> buf \<noteq> None")
      case True
      then have "b0 = out" using Suc.prems(5,7,8) bits_octets_unique by auto
      then show ?thesis using g1 k2 True fb tl Suc.prems(7) by (auto simp: pad8_def)
    next
      case ne: False
      have u: "(if int ?n mod 8 \<noteq> 0 then 8 - nat (int ?n mod 8) else 0) = pad8 ?n"
        using zmod_int [of ?n 8] by (auto simp: pad8_mod nat_mod_distrib)
      have ne': "\<not> (int ?k = 0 \<and> buf \<noteq> None)" using ne k2 by simp
      have "bs_get_loop (Suc fuel) csiz buf 0 pd = (RC_OK (V_BIT_STRING out (pad8 ?n)) 0, pd2)"
        unfolding bs_get_loop.simps g1(1) prod.case if_not_P [OF ne'] g2(1) b1_def [symmetric] out Let_def
        using False k2 u by (auto split: if_splits)
      then show ?thesis using adv fb tl by simp
    qed
  next
    case True
    define rst where "rst = drop ?k xs"
    have kp: "0 < ?k" using length_chunk_pos [of ?n] True by linarith
    have k8: "?k mod 8 = 0" using True by (auto simp: length_chunk_def)
    then have k8': "int ?k mod 8 = 0" by presburger
    have tl: "tl = bs_frags rst" using True by (simp add: tl_def rst_def)
    have len: "length (bs_frags rst) \<le> fuel"
      using Suc.prems(3) length_length_bits [of ?n] unfolding fb tl by simp
    have "bits_octets ((pre @ take ?k xs) @ rst) out" using Suc.prems(8) by (simp add: rst_def)
    moreover have "length (pre @ take ?k xs) mod 8 = 0"
      using Suc.prems(6) k8 k by (simp add: min_absorb2 mod_add_left_eq [symmetric] del: mod_add_left_eq)
    ultimately obtain pd3 where g3: "bs_get_loop fuel csiz (Some b1) 0 pd2 = (RC_OK (V_BIT_STRING out (pad8 (length rst))) 0, pd3)"
        "pd_adv pd2 (length (bs_frags rst)) pd3"
      using Suc.IH [OF pd_adv_wf [OF g2(2)] g2(4) [unfolded tl] len Suc.prems(4) b1, of "Some b1"] by auto
    have p8: "pad8 (length rst) = pad8 ?n"
    proof -
      have "?n = length rst + ?k" using k by (simp add: rst_def)
      then have "?n mod 8 = length rst mod 8" using k8 by (metis add.right_neutral mod_add_right_eq)
      then show ?thesis by (simp add: pad8_mod)
    qed
    have ne': "\<not> (int ?k = 0 \<and> buf \<noteq> None)" using kp by simp
    have "bs_get_loop (Suc fuel) csiz buf 0 pd = (RC_OK (V_BIT_STRING out (pad8 ?n)) 0, pd3)"
      unfolding bs_get_loop.simps g1(1) prod.case if_not_P [OF ne'] g2(1) b1_def [symmetric] Let_def
      using True k8' g3(1) p8 by simp
    then show ?thesis using pd_adv_trans [OF adv g3(2)] fb tl by (simp add: add.assoc)
  qed
qed

lemma bs_get_loop_moves:
  "pd_wf pd \<Longrightarrow> bs_get_loop fuel csiz buf u pd = (r, pd') \<Longrightarrow> pd_moves pd pd'"
proof (induction fuel arbitrary: pd buf u r pd')
  case (Suc fuel)
  obtain n rep pd1 where g: "uper_get_length pd (effective_bits csiz) (lower_bound csiz) = (n, rep, pd1)" by (metis prod.collapse)
  obtain ret dst pd2 where b: "asn_get_many_bits pd1 False n = (ret, dst, pd2)" by (metis prod.collapse)
  have m1: "pd_moves pd pd1" by (rule uper_get_length_moves [OF g Suc.prems(1)])
  have m2: "pd_moves pd pd2" using get_many_bits_moves [OF b pd_moves_wf [OF m1]] m1 pd_moves_trans by blast
  have m3: "pd_moves pd p" if "bs_get_loop fuel csiz b' u' pd2 = (r', p)" for b' u' p r'
    using Suc.IH [OF pd_moves_wf [OF m2], of b' u'] that m2 pd_moves_trans by blast
  show ?case using Suc.prems(2) m1 m2 m3
    by (auto simp: g b Let_def split: if_splits)
qed (auto intro: pd_moves_refl)


section \<open>The codec\<close>

text \<open>
  \<open>bs_root\<close>: the string is encoded under the size constraint. \<open>bs_content\<close> are the bits that travel.
\<close>

definition bs_root :: "asn_per_constraint \<Rightarrow> byte list \<Rightarrow> bool" where
  "bs_root csiz buf \<longleftrightarrow> 0 \<le> effective_bits csiz \<and> int (length (bs_strip (bytes_bits buf))) \<le> upper_bound csiz"

definition bs_content :: "asn_per_constraint \<Rightarrow> byte list \<Rightarrow> bits" where
  "bs_content csiz buf =
     (let xs = bs_strip (bytes_bits buf)
      in if bs_root csiz buf then xs @ replicate (nat (lower_bound csiz) - length xs) False else xs)"

definition bs_wire :: "asn_TYPE_descriptor \<Rightarrow> asn_per_constraints option \<Rightarrow> byte list \<Rightarrow> bits" where
  "bs_wire td c buf =
     (let csiz = bs_csiz (pick_constraints td c); bs = bs_content csiz buf; root = bs_root csiz buf
      in (if APC_EXTENSIBLE csiz then [0 \<le> effective_bits csiz \<and> \<not> root] else [])
         @ (if root then nat_bits (nat (effective_bits csiz)) (length bs - nat (lower_bound csiz)) @ bs
            else bs_frags bs))"

definition bs_constraint_ok :: "asn_per_constraint \<Rightarrow> bool" where
  "bs_constraint_ok csiz \<longleftrightarrow> effective_bits csiz < 0 \<or>
     effective_bits csiz \<le> 16 \<and> 0 \<le> lower_bound csiz \<and> lower_bound csiz \<le> upper_bound csiz
     \<and> upper_bound csiz - lower_bound csiz < 2 ^ nat (effective_bits csiz)"

text \<open>What the encoder accepts.\<close>

definition bs_fits :: "asn_TYPE_descriptor \<Rightarrow> asn_per_constraints option \<Rightarrow> byte list \<Rightarrow> nat \<Rightarrow> bool" where
  "bs_fits td c buf unused \<longleftrightarrow>
     (let csiz = bs_csiz (pick_constraints td c)
      in bs_subvariant td \<and> (buf = [] \<longrightarrow> unused = 0) \<and> unused \<le> 7 \<and> bs_constraint_ok csiz
         \<and> (0 \<le> effective_bits csiz \<longrightarrow> bs_root csiz buf \<or> APC_EXTENSIBLE csiz))"

text \<open>The value is the one the decoder makes of its own encoding.\<close>

definition bs_canonical :: "asn_TYPE_descriptor \<Rightarrow> asn_per_constraints option \<Rightarrow> byte list \<Rightarrow> nat \<Rightarrow> bool" where
  "bs_canonical td c buf unused \<longleftrightarrow>
     (let bs = bs_content (bs_csiz (pick_constraints td c)) buf
      in bytes_bits buf = bs @ replicate (pad8 (length bs)) False \<and> unused = pad8 (length bs))"

definition bs_used :: "asn_TYPE_descriptor \<Rightarrow> asn_per_constraints option \<Rightarrow> byte list \<Rightarrow> nat" where
  "bs_used td c buf =
     (let csiz = bs_csiz (pick_constraints td c)
      in if bs_root csiz buf \<and> effective_bits csiz = 0 then nat (upper_bound csiz) else 0)"

lemma BIT_STRING_encodes:
  assumes ok: "bs_fits td c buf unused"
  shows "encodes (BIT_STRING_encode_uper td c (V_BIT_STRING buf unused)) (bs_wire td c buf)"
proof -
  define csiz where "csiz = bs_csiz (pick_constraints td c)"
  define xs where "xs = bs_strip (bytes_bits buf)"
  define root where "root = bs_root csiz buf"
  define inext where "inext = (0 \<le> effective_bits csiz \<and> int (length xs) > upper_bound csiz)"
  obtain b' u' where st: "BIT_STRING__compactify buf unused = (b', u')" by force
  have f: "bs_subvariant td" "buf = [] \<longrightarrow> unused = 0" "unused \<le> 7" "bs_constraint_ok csiz" "inext \<longrightarrow> APC_EXTENSIBLE csiz"
    using ok by (auto simp: bs_fits_def Let_def csiz_def inext_def bs_root_def xs_def)
  note cs = compactify_spec [OF f(2) st, folded xs_def]
  have r: "root = (0 \<le> effective_bits csiz \<and> \<not> inext)" "(0 \<le> effective_bits csiz \<and> \<not> root) = inext"
    by (auto simp: root_def bs_root_def inext_def xs_def)
  have ln: "length xs \<le> 8 * length b'" using cs(1) by linarith
  have tk: "take (length xs) (bytes_bits b') = xs" using cs(1,2) by simp
  define lb where "lb = nat (lower_bound csiz)"
  have bc: "bs_content csiz buf = (if root then xs @ replicate (lb - length xs) False else xs)"
    by (simp add: bs_content_def Let_def root_def xs_def lb_def)
  define rest where "rest po = (if 0 \<le> effective_bits csiz \<and> \<not> inext then
       (case asn_put_few_bits po (if int (length xs) < lower_bound csiz then 0 else word_of_int (int (length xs) - lower_bound csiz))
            (effective_bits csiz) of
         (r, po) \<Rightarrow> if r \<noteq> 0 then (-1, po) else
           (case asn_put_many_bits po b' (int (length xs)) of
             (r, po) \<Rightarrow> if r \<noteq> 0 then (-1, po)
               else if int (length xs) < lower_bound csiz then bs_put_zeros (nat (lower_bound csiz - int (length xs))) po else (0, po)))
      else bs_put_loop b' (length xs) po)" for po
  have rr: "put_result po (if root then nat_bits (nat (effective_bits csiz)) (length (bs_content csiz buf) - lb) @ bs_content csiz buf
      else bs_frags (bs_content csiz buf)) (rest po)" if wf: "po_wf po" for po
  proof (cases root)
    case True
    define e where "e = nat (effective_bits csiz)"
    have n: "0 \<le> effective_bits csiz" "effective_bits csiz \<le> 16" "0 \<le> lower_bound csiz"
        "upper_bound csiz - lower_bound csiz < 2 ^ e" "int (length xs) \<le> upper_bound csiz" "lower_bound csiz = int lb" "effective_bits csiz = int e"
      using True f(4) r(1) by (auto simp: bs_constraint_ok_def root_def bs_root_def xs_def lb_def e_def)
    have "int (length xs - lb) < 2 ^ e" using n(4,5,6) by (cases "lb \<le> length xs") (auto simp: of_nat_diff)
    then have k: "length xs - lb < 2 ^ e" by (metis of_nat_less_iff of_nat_numeral of_nat_power)
    have "(2 :: nat) ^ e \<le> 2 ^ 16" using n(2,7) by (intro power_increasing) auto
    then have p1: "put_result po (nat_bits e (length xs - lb)) (asn_put_few_bits po (word_of_nat (length xs - lb)) (int e))"
      using k n(2,7) by (intro put_few_nat_result wf) auto
    have a: "(if int (length xs) < lower_bound csiz then 0 else word_of_int (int (length xs) - lower_bound csiz)) = (word_of_nat (length xs - lb) :: 32 word)"
      using n(6) by (auto simp: of_nat_diff)
    have p2: "put_result po1 xs (asn_put_many_bits po1 b' (int (length xs)))" if "po_wf po1" for po1
      using put_many_bits_result [OF that ln] tk by simp
    define p3 where "p3 po1 = (if int (length xs) < lower_bound csiz then bs_put_zeros (nat (lower_bound csiz - int (length xs))) po1 else (0, po1))" for po1
    have p3: "put_result po1 (replicate (lb - length xs) False) (p3 po1)" if "po_wf po1" for po1
    proof (cases "length xs < lb")
      case True
      then have "nat (lower_bound csiz - int (length xs)) = lb - length xs" using n(6) by simp
      then show ?thesis using True n(6) bs_put_zeros_result [OF that, of "lb - length xs"] by (simp add: p3_def)
    next
      case False
      then show ?thesis using n(6) that by (simp add: p3_def put_result_def po_app_refl)
    qed
    have p23: "put_result po1 (xs @ replicate (lb - length xs) False)
        (if fst (asn_put_many_bits po1 b' (int (length xs))) \<noteq> 0 then (-1, snd (asn_put_many_bits po1 b' (int (length xs))))
         else p3 (snd (asn_put_many_bits po1 b' (int (length xs)))))" if "po_wf po1" for po1
      by (rule put_result_seq [OF p2 [OF that] p3])
    have ll: "length (bs_content csiz buf) - lb = length xs - lb" using True by (auto simp: bc)
    have re: "rest po = (if fst (asn_put_few_bits po (word_of_nat (length xs - lb)) (int e)) \<noteq> 0
        then (-1, snd (asn_put_few_bits po (word_of_nat (length xs - lb)) (int e)))
        else (\<lambda>po1. if fst (asn_put_many_bits po1 b' (int (length xs))) \<noteq> 0 then (-1, snd (asn_put_many_bits po1 b' (int (length xs))))
           else p3 (snd (asn_put_many_bits po1 b' (int (length xs))))) (snd (asn_put_few_bits po (word_of_nat (length xs - lb)) (int e))))"
      unfolding rest_def r(1) [symmetric] if_P [OF True] unfolding a
      unfolding n(7) case_prod_beta p3_def by (rule refl)
    have co: "bs_content csiz buf = xs @ replicate (lb - length xs) False" using True by (simp add: bc)
    show ?thesis unfolding if_P [OF True] ll re e_def [symmetric] unfolding co
      by (rule put_result_seq [OF p1 p23])
  next
    case False
    then show ?thesis using bs_put_loop_result [OF wf ln] tk bc r(1) unfolding rest_def by auto
  qed
  have w: "bs_wire td c buf = (if APC_EXTENSIBLE csiz then [inext] else [])
      @ (if root then nat_bits (nat (effective_bits csiz)) (length (bs_content csiz buf) - lb) @ bs_content csiz buf
         else bs_frags (bs_content csiz buf))"
    unfolding bs_wire_def Let_def csiz_def [symmetric] root_def [symmetric] r(2) lb_def by (rule refl)
  have guards: "(\<not> bs_subvariant td) = False" "(buf = [] \<and> unused \<noteq> 0 \<or> unused > 7) = False" "(inext \<and> \<not> APC_EXTENSIBLE csiz) = False"
    using f by auto
  have eq: "BIT_STRING_encode_uper td c (V_BIT_STRING buf unused) po =
      (case (if APC_EXTENSIBLE csiz then asn_put_few_bits po (if inext then 1 else 0) 1 else (0, po)) of
         (r, po) \<Rightarrow> if r \<noteq> 0 then (-1, po) else rest po)" for po
    unfolding BIT_STRING_encode_uper_def Let_def asn_value.case guards(1,2) if_False csiz_def [symmetric] st fst_conv snd_conv cs(1)
      inext_def [symmetric] guards(3) rest_def by (rule refl)
  show ?thesis unfolding encodes_def
  proof (intro allI impI)
    fix po assume wf: "po_wf po"
    show "put_result po (bs_wire td c buf) (BIT_STRING_encode_uper td c (V_BIT_STRING buf unused) po)"
    proof (cases "APC_EXTENSIBLE csiz")
      case True
      show ?thesis unfolding w eq if_P [OF True] case_prod_beta
        by (rule put_result_seq [OF put_bit_result [OF wf]]) (rule rr)
    next
      case False
      then show ?thesis unfolding w eq if_not_P [OF False] using rr [OF wf] by simp
    qed
  qed
qed


lemma bs_subst_csiz: "effective_bits asn_DEF_BIT_STRING_constraint_size = -1"
  by (simp add: asn_DEF_BIT_STRING_constraint_size_def)

lemma BIT_STRING_decodes:
  assumes ok: "bs_fits td c buf unused" "bs_canonical td c buf unused"
  shows "decodes (BIT_STRING_decode_uper td c) (bs_wire td c buf) (V_BIT_STRING buf unused) (bs_used td c buf)"
  unfolding decodes_def
proof (intro allI impI)
  fix pd rest assume wf: "pd_wf pd" and pb: "pd_bits pd = bs_wire td c buf @ rest"
  define csiz where "csiz = bs_csiz (pick_constraints td c)"
  define root where "root = bs_root csiz buf"
  define inext where "inext = (0 \<le> effective_bits csiz \<and> \<not> root)"
  define bs where "bs = bs_content csiz buf"
  define lb where "lb = nat (lower_bound csiz)"
  define cz where "cz = (if inext then asn_DEF_BIT_STRING_constraint_size else csiz)"
  have f: "bs_subvariant td" "bs_constraint_ok csiz" "inext \<longrightarrow> APC_EXTENSIBLE csiz"
    using ok(1) by (auto simp: bs_fits_def Let_def csiz_def inext_def root_def)
  have can: "bits_octets bs buf" "unused = pad8 (length bs)"
    using ok(2) by (auto simp: bs_canonical_def Let_def bits_octets_def bs_def csiz_def)
  define x where "x = (if APC_EXTENSIBLE csiz then [inext] else [])"
  define ws where "ws = (if root then nat_bits (nat (effective_bits csiz)) (length bs - lb) @ bs else bs_frags bs)"
  have w: "bs_wire td c buf = x @ ws"
    unfolding bs_wire_def Let_def csiz_def [symmetric] root_def [symmetric] inext_def [symmetric] bs_def [symmetric] lb_def [symmetric] x_def ws_def
    by (rule refl)
  obtain pd1 where g: "(if APC_EXTENSIBLE csiz then asn_get_few_bits pd 1 else (0, pd)) = (if inext then 1 else 0, pd1)"
      "pd_adv pd (length x) pd1" "pd_wf pd1" "pd_bits pd1 = ws @ rest"
  proof (cases "APC_EXTENSIBLE csiz")
    case True
    then show thesis using that get_bit_prefix [OF wf, of inext "ws @ rest"] pb w by (auto simp: x_def)
  next
    case False
    then show thesis using that wf pb w f(3) pd_adv_refl [OF wf] by (auto simp: x_def)
  qed
  define fin where "fin = (if effective_bits cz = 0 then
       (case asn_get_many_bits pd1 False (upper_bound cz) of
          (ret, buf, pd) \<Rightarrow> if ret < 0 then (RC_WMORE, pd)
             else (RC_OK (V_BIT_STRING buf (nat ((8 - upper_bound cz mod 8) mod 8))) (nat (upper_bound cz)), pd))
     else bs_get_loop (Suc (pd_left pd1)) cz (if effective_bits cz \<ge> 0 then Some [] else None) 0 pd1)"
  have inz: "((if inext then 1 else 0 :: int) \<noteq> 0) = inext" "\<not> (if inext then 1 else 0 :: int) < 0" by auto
  have eq: "BIT_STRING_decode_uper td c pd = fin"
    unfolding BIT_STRING_decode_uper_def Let_def csiz_def [symmetric] g(1) inz(1) cz_def [symmetric] fin_def prod.case
    by (simp only: inz(2) if_False f(1) not_True_eq_False)
  have "\<exists>pd2. fin = (RC_OK (V_BIT_STRING buf unused) (bs_used td c buf), pd2) \<and> pd_adv pd1 (length ws) pd2"
  proof (cases root)
    case True
    define e where "e = nat (effective_bits csiz)"
    have n: "0 \<le> effective_bits csiz" "effective_bits csiz \<le> 16" "0 \<le> lower_bound csiz" "lower_bound csiz \<le> upper_bound csiz"
        "upper_bound csiz - lower_bound csiz < 2 ^ e" "int (length (bs_strip (bytes_bits buf))) \<le> upper_bound csiz" "lower_bound csiz = int lb" "effective_bits csiz = int e"
      using True f(2) by (auto simp: bs_constraint_ok_def root_def bs_root_def lb_def e_def)
    have cz: "cz = csiz" using True by (simp add: cz_def inext_def)
    have bse: "bs = bs_strip (bytes_bits buf) @ replicate (lb - length (bs_strip (bytes_bits buf))) False"
      using True unfolding bs_def bs_content_def Let_def root_def [symmetric] lb_def by simp
    have bl: "lb \<le> length bs" "int (length bs) \<le> upper_bound csiz"
      using n(4,6,7) unfolding bse by auto
    have us: "bs_used td c buf = (if effective_bits csiz = 0 then nat (upper_bound csiz) else 0)"
      using True by (simp add: bs_used_def Let_def csiz_def [symmetric] root_def [symmetric])
    have pb1: "pd_bits pd1 = nat_bits e (length bs - lb) @ bs @ rest" using g(4) True by (simp add: ws_def e_def)
    show ?thesis
    proof (cases "e = 0")
      case z: True
      then have u: "upper_bound csiz = int (length bs)" using n(5,7) bl by simp
      have "(8 - int (length bs) mod 8) mod 8 = int (pad8 (length bs))"
        unfolding pad8_mod using zmod_int [of "length bs" 8] by (simp add: zmod_int of_nat_diff)
      moreover have "pd_bits pd1 = bs @ rest" using pb1 z by simp
      then obtain dst pd2 where h: "asn_get_many_bits pd1 False (int (length bs)) = (0, dst, pd2)" "pd_adv pd1 (length bs) pd2"
          "bytes_bits dst = bs @ replicate (pad8 (length bs)) False"
        using get_many_bits_prefix [OF g(3) _ refl] by blast
      moreover have "dst = buf" using h(3) can(1) bits_octets_unique by (simp add: bits_octets_def)
      ultimately show ?thesis using n(8) z cz us can(2) True by (auto simp: fin_def ws_def u)
    next
      case nz: False
      have k: "length bs - lb < 2 ^ e"
      proof -
        have "int (length bs - lb) < 2 ^ e" using bl n(5,7) by (simp add: of_nat_diff)
        then show ?thesis by (metis of_nat_less_iff of_nat_numeral of_nat_power)
      qed
      have pbe: "pd_bits pd1 = nat_bits (nat (int e)) (length bs - lb) @ bs @ rest" using pb1 by simp
      obtain pd2 where h: "asn_get_few_bits pd1 (int e) = (int (length bs - lb), pd2)" "pd_adv pd1 e pd2" "pd_wf pd2" "pd_bits pd2 = bs @ rest"
        using get_few_nat_prefix [of pd1 "int e", OF g(3) pbe] k n(2,8) by auto
      have gl: "uper_get_length pd1 (effective_bits csiz) (lower_bound csiz) = (int (length bs), False, pd2)"
        using h(1) n(2,7,8) bl(1) by (simp add: uper_get_length_def of_nat_diff)
      obtain dst pd3 where i: "asn_get_many_bits pd2 False (int (length bs)) = (0, dst, pd3)" "pd_adv pd2 (length bs) pd3"
          "bytes_bits dst = bs @ replicate (pad8 (length bs)) False"
        using get_many_bits_prefix [OF h(3,4), of "int (length bs)"] by blast
      have dst: "dst = buf" using i(3) can(1) bits_octets_unique by (simp add: bits_octets_def)
      have u: "(if int (length bs) mod 8 \<noteq> 0 then 8 - nat (int (length bs) mod 8) else 0) = unused"
        using zmod_int [of "length bs" 8] can(2) by (auto simp: pad8_mod nat_mod_distrib)
      have "\<exists>pd4. fin = (RC_OK (V_BIT_STRING buf unused) 0, pd4) \<and> pd_adv pd2 (length bs) pd4"
      proof (cases "length bs = 0")
        case True
        then have "buf = []" "unused = 0" "pd_adv pd2 (length bs) pd2"
          using can length_bits_octets [OF can(1)] pd_adv_refl [OF h(3)] by (auto simp: pad8_def)
        then show ?thesis using True nz n(8) cz gl by (auto simp: fin_def)
      next
        case False
        then show ?thesis using nz n(8) cz gl i(1,2) u dst unfolding fin_def
          by (auto simp: Let_def split: if_splits)
      qed
      then show ?thesis using pd_adv_trans [OF h(2)] True nz us n(8) by (auto simp: ws_def)
    qed
  next
    case False
    then have neg: "effective_bits cz < 0" by (auto simp: cz_def inext_def bs_subst_csiz)
    have wsl: "length (bs_frags bs) \<le> Suc (pd_left pd1)"
      using length_pd_bits [OF g(3)] g(4) False by (simp add: pd_left_def ws_def)
    have us: "bs_used td c buf = 0" using False by (simp add: bs_used_def Let_def csiz_def [symmetric] root_def [symmetric])
    have "\<exists>pd'. bs_get_loop (Suc (pd_left pd1)) cz None 0 pd1 = (RC_OK (V_BIT_STRING buf (pad8 (length bs))) 0, pd')
        \<and> pd_adv pd1 (length (bs_frags bs)) pd'"
      by (rule bs_get_loop_result [OF g(3) _ wsl neg bits_octets_Nil]) (use g(4) False can(1) in \<open>auto simp: ws_def\<close>)
    then show ?thesis using neg us can(2) False unfolding fin_def by (auto simp: ws_def simp del: bs_get_loop.simps)
  qed
  then show "\<exists>pd'. BIT_STRING_decode_uper td c pd = (RC_OK (V_BIT_STRING buf unused) (bs_used td c buf), pd')
      \<and> pd_adv pd (length (bs_wire td c buf)) pd'"
    using pd_adv_trans [OF g(2)] w eq by auto
qed

lemma BIT_STRING_safe: "safe_decoder (BIT_STRING_decode_uper td c)"
proof (rule safe_decoderI)
  fix pd r pd' assume wf: "pd_wf pd" and d: "BIT_STRING_decode_uper td c pd = (r, pd')"
  obtain i pd1 where g: "(if APC_EXTENSIBLE (bs_csiz (pick_constraints td c)) then asn_get_few_bits pd 1 else (0, pd)) = (i, pd1)" by force
  then have m1: "pd_moves pd pd1" using get_few_bits_moves [OF _ wf] pd_moves_refl [OF wf] by (auto split: if_splits)
  have b: "pd_moves pd p" if "asn_get_many_bits pd1 False n = (e, q, p)" for n e q p
    using get_many_bits_moves [OF that pd_moves_wf [OF m1]] m1 pd_moves_trans by blast
  have l: "pd_moves pd p" if "bs_get_loop fuel cz bf u pd1 = (e, p)" for fuel cz bf u e p
    using bs_get_loop_moves [OF pd_moves_wf [OF m1] that] m1 pd_moves_trans by blast
  show "pd_moves pd pd'" using d m1 b l pd_moves_refl [OF wf]
    unfolding BIT_STRING_decode_uper_def Let_def g
    by (auto simp del: bs_get_loop.simps split: if_splits prod.splits)
qed

text \<open>Strings of a fixed size with clear unused bits are canonical.\<close>

lemma bs_fixed_canonical:
  assumes "effective_bits (bs_csiz (pick_constraints td c)) = 0"
    and "lower_bound (bs_csiz (pick_constraints td c)) = int k" "upper_bound (bs_csiz (pick_constraints td c)) = int k"
    and "bytes_bits buf = bs @ replicate (pad8 k) False" "length bs = k" "unused = pad8 k"
  shows "bs_canonical td c buf unused" "bs_root (bs_csiz (pick_constraints td c)) buf"
proof -
  have st: "bs_strip (bytes_bits buf) = bs_strip bs" using assms(4) by (simp add: bs_strip_append)
  then show r: "bs_root (bs_csiz (pick_constraints td c)) buf"
    using assms(1,3,5) length_bs_strip [of bs] by (simp add: bs_root_def)
  have "bs_content (bs_csiz (pick_constraints td c)) buf = bs"
    using bs_strip_fill [of bs] assms(2,5) r st by (simp add: bs_content_def)
  then show "bs_canonical td c buf unused" using assms(4-6) by (simp add: bs_canonical_def)
qed

section \<open>Comparison\<close>

lemma bs_skip_zeros_suffix: "\<exists>z. xs = z @ bs_skip_zeros xs"
proof (induction xs rule: bs_skip_zeros.induct)
  case (1 x y r)
  show ?case
  proof (cases "x = 0")
    case True
    then obtain z where "y # r = z @ bs_skip_zeros (y # r)" using 1 by blast
    then show ?thesis using True by (intro exI [of _ "x # z"]) simp
  qed simp
qed auto

lemma compactify_prefix: "\<exists>z. buf = fst (BIT_STRING__compactify buf u) @ z"
proof -
  obtain z where z: "rev buf = z @ bs_skip_zeros (rev buf)" using bs_skip_zeros_suffix by blast
  then have "buf = rev (bs_skip_zeros (rev buf)) @ rev z" by (metis rev_append rev_rev_ident)
  then show ?thesis by (cases "bs_skip_zeros (rev buf)") (auto simp: BIT_STRING__compactify_def)
qed

text \<open>The compact form is the one octet string for the bits that remain.\<close>

lemma compactify_octets:
  assumes "buf = [] \<longrightarrow> u = 0" "BIT_STRING__compactify buf u = (b', u')"
  shows "bits_octets (bs_strip (bytes_bits buf)) b'" "u' = pad8 (length (bs_strip (bytes_bits buf)))"
proof -
  define xs where "xs = bs_strip (bytes_bits buf)"
  obtain z where z: "buf = b' @ z" using compactify_prefix [of buf u] assms(2) by auto
  note c = compactify_spec [OF assms, folded xs_def]
  have le: "u' \<le> 8 * length b'" using c(3,4) by (cases b') auto
  have u: "8 * length b' = length xs + u'" using c(1) le by simp
  have "pad8 (length xs) = u'"
  proof -
    have "pad8 (8 * length b' - u') = u'"
    proof (cases "u' = 0")
      case False
      then show ?thesis using c(3,4) pad8_split [of "8 - u'" "length b' - 1"]
        by (cases b') (auto simp: algebra_simps)
    qed simp
    then show ?thesis using u by simp
  qed
  moreover have "bytes_bits b' = take (8 * length b') (bytes_bits buf)" using z by simp
  moreover have "bytes_bits buf = xs @ replicate (length (bytes_bits buf) - length xs) False"
    using bs_strip_fill [of "bytes_bits buf"] by (simp add: xs_def)
  ultimately have "bytes_bits b' = xs @ replicate (min u' (length (bytes_bits buf) - length xs)) False"
    by (metis (no_types) u add_diff_cancel_left' le_add1 take_all take_append take_replicate)
  then have "bytes_bits b' = xs @ replicate u' False" using u z by simp
  then show "bits_octets (bs_strip (bytes_bits buf)) b'" "u' = pad8 (length (bs_strip (bytes_bits buf)))"
    using \<open>pad8 (length xs) = u'\<close> by (auto simp: bits_octets_def xs_def)
qed

lemma memcmp_eq: "length a = n \<Longrightarrow> length b = n \<Longrightarrow> memcmp a b n = 0 \<longleftrightarrow> a = b"
  by (induction a b n rule: memcmp.induct) auto

lemma memcmp_swap: "memcmp b a n = - memcmp a b n"
  by (induction a b n rule: memcmp.induct) auto

text \<open>Two bit strings compare equal exactly if they differ in trailing zero bits only.\<close>

lemma BIT_STRING_compare_eq:
  assumes "a = [] \<longrightarrow> u = 0" "b = [] \<longrightarrow> v = 0"
  shows "BIT_STRING_compare (a, u) (b, v) = 0 \<longleftrightarrow> bs_strip (bytes_bits a) = bs_strip (bytes_bits b)"
proof -
  obtain a' u' where ca: "BIT_STRING__compactify a u = (a', u')" by force
  obtain b' v' where cb: "BIT_STRING__compactify b v = (b', v')" by force
  note oa = compactify_octets [OF assms(1) ca] and ob = compactify_octets [OF assms(2) cb]
  have "BIT_STRING_compare (a, u) (b, v) = 0 \<longleftrightarrow> a' = b' \<and> u' = v'"
    using memcmp_eq [of a' "length b'" b'] by (auto simp: BIT_STRING_compare_def ca cb Let_def memcmp_eq)
  also have "\<dots> \<longleftrightarrow> bs_strip (bytes_bits a) = bs_strip (bytes_bits b)"
  proof
    assume e: "a' = b' \<and> u' = v'"
    have "bs_strip (bytes_bits a) = take (8 * length a' - u') (bytes_bits a')"
      "bs_strip (bytes_bits b) = take (8 * length b' - v') (bytes_bits b')"
      using compactify_spec(2) [OF assms(1) ca] compactify_spec(2) [OF assms(2) cb] by auto
    then show "bs_strip (bytes_bits a) = bs_strip (bytes_bits b)" using e by simp
  next
    assume "bs_strip (bytes_bits a) = bs_strip (bytes_bits b)"
    then show "a' = b' \<and> u' = v'" using oa ob bits_octets_unique by auto
  qed
  finally show ?thesis .
qed

lemma BIT_STRING_compare_swap: "BIT_STRING_compare y x = - BIT_STRING_compare x y"
  by (auto simp: BIT_STRING_compare_def Let_def memcmp_swap [of "fst (BIT_STRING__compactify (fst y) (snd y))"])

end
