(* ===== verification/Sequence.thy ===== *)
theory Sequence
  imports Fragments
begin

text \<open>
  The constructed types: the interface between them and the codecs of their members, and SEQUENCE
  (\<open>constr_SEQUENCE.c\<close>).

  The C code calls a member's codec through \<open>elm->type->op\<close>. Here the codecs of the members are
  the arguments \<open>dec\<close> and \<open>enc\<close>; the locale \<open>uper_members\<close> states what a constructed type relies
  on, and the theorems on SEQUENCE, CHOICE, SEQUENCE OF and SET OF are proved once inside it.

  Members with \<open>ATF_OPEN_TYPE\<close> (information object classes) are not part of the model.
\<close>

section \<open>The interface to member codecs\<close>

locale uper_members =
  fixes dec :: uper_decoder and enc :: uper_encoder
    and ok :: "asn_TYPE_descriptor \<Rightarrow> asn_per_constraints option \<Rightarrow> asn_value \<Rightarrow> bool"
    and wire :: "asn_TYPE_descriptor \<Rightarrow> asn_per_constraints option \<Rightarrow> asn_value \<Rightarrow> bits"
    and used :: "asn_TYPE_descriptor \<Rightarrow> asn_per_constraints option \<Rightarrow> asn_value \<Rightarrow> nat"
  assumes dec_safe: "safe_decoder (dec td c)"
    and enc_wire: "ok td c v \<Longrightarrow> encodes (enc td c v) (wire td c v)"
    and dec_wire: "ok td c v \<Longrightarrow> decodes (dec td c) (wire td c v) v (used td c v)"
begin

lemma open_enc: "ok td c v \<Longrightarrow> encodes (uper_open_type_put (enc td c v)) (open_type_bits (wire td c v))"
  by (rule open_type_put_encodes [OF enc_wire])

lemma open_dec: "ok td c v \<Longrightarrow> decodes (uper_open_type_get (dec td c)) (open_type_bits (wire td c v)) v (used td c v)"
  by (rule open_type_get_decodes [OF enc_wire dec_wire])

end

section \<open>Definitions\<close>

abbreviation seq_bitmap :: "byte list \<Rightarrow> nat \<Rightarrow> asn_bit_data" where
  "seq_bitmap octets n \<equiv> \<lparr>pd_octets = octets, pd_buffer = 0, pd_nboff = 0, pd_nbits = n, pd_moved = 0, pd_fault = False\<rparr>"

definition seq_specs :: "asn_TYPE_descriptor \<Rightarrow> asn_SEQUENCE_specifics" where
  "seq_specs td =
     (case td_specifics td of
        SPC_SEQUENCE s \<Rightarrow> s
      | _ \<Rightarrow> \<lparr>oms = [], roms_count = 0, aoms_count = 0, first_extension = -1\<rparr>)"

definition seq_root_count :: "asn_TYPE_descriptor \<Rightarrow> nat" where
  "seq_root_count td =
     (if first_extension (seq_specs td) < 0 then length (td_elements td)
      else nat (first_extension (seq_specs td)))"

text \<open>The loop over the root members; \<open>opmd\<close> is the stream of presence bits.\<close>

fun seq_get_root ::
  "uper_decoder \<Rightarrow> asn_TYPE_member list \<Rightarrow> asn_bit_data \<Rightarrow> asn_bit_data
   \<Rightarrow> (asn_dec_rval + asn_value option list) \<times> asn_bit_data" where
  "seq_get_root dec [] opmd pd = (Inr [], pd)"
| "seq_get_root dec (elm # elms) opmd pd =
     (case (if elm_optional elm then asn_get_few_bits opmd 1 else (1, opmd)) of
        (present, opmd) \<Rightarrow>
          if elm_optional elm \<and> present = 0 then
            (case seq_get_root dec elms opmd pd of
               (Inl e, pd) \<Rightarrow> (Inl e, pd)
             | (Inr ms, pd) \<Rightarrow> (Inr (elm_default elm # ms), pd))
          else
            (case dec (elm_type elm) (elm_per_constraints elm) pd of
               (RC_OK v _, pd) \<Rightarrow>
                 (case seq_get_root dec elms opmd pd of
                    (Inl e, pd) \<Rightarrow> (Inl e, pd)
                  | (Inr ms, pd) \<Rightarrow> (Inr (Some v # ms), pd))
             | (e, pd) \<Rightarrow> (Inl e, pd)))"

text \<open>The loop over the extension members the sender knows; \<open>epmd\<close> is returned for the next loop.\<close>

fun seq_get_ext ::
  "uper_decoder \<Rightarrow> asn_TYPE_member list \<Rightarrow> asn_bit_data \<Rightarrow> asn_bit_data
   \<Rightarrow> (asn_dec_rval + asn_value option list \<times> asn_bit_data) \<times> asn_bit_data" where
  "seq_get_ext dec [] epmd pd = (Inr ([], epmd), pd)"
| "seq_get_ext dec (elm # elms) epmd pd =
     (case asn_get_few_bits epmd 1 of
        (present, epmd) \<Rightarrow>
          if present < 0 then (Inr (replicate (Suc (length elms)) None, epmd), pd)
          else if present = 0 then
            (case seq_get_ext dec elms epmd pd of
               (Inl e, pd) \<Rightarrow> (Inl e, pd)
             | (Inr (ms, epmd), pd) \<Rightarrow> (Inr (None # ms, epmd), pd))
          else
            (case uper_open_type_get (dec (elm_type elm) (elm_per_constraints elm)) pd of
               (RC_OK v _, pd) \<Rightarrow>
                 (case seq_get_ext dec elms epmd pd of
                    (Inl e, pd) \<Rightarrow> (Inl e, pd)
                  | (Inr (ms, epmd), pd) \<Rightarrow> (Inr (Some v # ms, epmd), pd))
             | (e, pd) \<Rightarrow> (Inl e, pd)))"

text \<open>Extensions of a later version of the protocol are skipped.\<close>

function seq_skip_overflow :: "asn_bit_data \<Rightarrow> asn_bit_data \<Rightarrow> bool \<times> asn_bit_data" where
  "seq_skip_overflow epmd pd =
     (case asn_get_few_bits epmd 1 of
        (present, epmd) \<Rightarrow>
          if present = -1 then (True, pd)
          else if present = 0 then seq_skip_overflow epmd pd
          else
            (case uper_open_type_skip pd of
               (r, pd) \<Rightarrow> if r \<noteq> 0 then (False, pd) else seq_skip_overflow epmd pd))"
  by pat_completeness auto
termination
proof (relation "measure (\<lambda>(epmd, pd). pd_left epmd)", goal_cases)
  case (2 epmd pd present epmd1)
  then show ?case using get_few_bits_left(2) [of epmd 1] by (metis fst_conv snd_conv in_measure case_prod_conv not_one_le_zero)
next
  case (3 epmd pd present epmd1 x y)
  then show ?case using get_few_bits_left(2) [of epmd 1] by (metis fst_conv snd_conv in_measure case_prod_conv not_one_le_zero)
qed simp

declare seq_skip_overflow.simps [simp del]

text \<open>The final loop: absent extension members with a DEFAULT get it.\<close>

fun seq_fill_defaults :: "asn_TYPE_member list \<Rightarrow> nat list \<Rightarrow> asn_value option list \<Rightarrow> asn_value option list" where
  "seq_fill_defaults elements [] ms = ms"
| "seq_fill_defaults elements (edx # idx) ms =
     seq_fill_defaults elements idx
       (if elm_default (elements ! edx) \<noteq> None \<and> elm_pointer (elements ! edx) \<and> ms ! edx = None
        then ms[edx := elm_default (elements ! edx)] else ms)"

definition seq_get_extensions ::
  "uper_decoder \<Rightarrow> asn_TYPE_member list \<Rightarrow> asn_bit_data
   \<Rightarrow> (asn_dec_rval + asn_value option list) \<times> asn_bit_data" where
  "seq_get_extensions dec elms pd =
     (case uper_get_nslength pd of
        (bmlength, pd) \<Rightarrow>
          if bmlength < 0 then (Inl RC_WMORE, pd)
          else
            (case asn_get_many_bits pd False bmlength of
               (ret, epres, pd) \<Rightarrow>
                 if ret \<noteq> 0 then (Inl RC_WMORE, pd)
                 else
                   (case seq_get_ext dec elms (seq_bitmap epres (nat bmlength)) pd of
                      (Inl e, pd) \<Rightarrow> (Inl e, pd)
                    | (Inr (ms, epmd), pd) \<Rightarrow>
                        (case seq_skip_overflow epmd pd of
                           (done, pd) \<Rightarrow> if done then (Inr ms, pd) else (Inl RC_WMORE, pd)))))"

definition SEQUENCE_decode_uper :: "uper_decoder \<Rightarrow> uper_decoder" where
  "SEQUENCE_decode_uper dec td constraints pd =
     (let specs = seq_specs td; n_root = seq_root_count td; elements = td_elements td
      in case (if first_extension specs < 0 then (0, pd) else asn_get_few_bits pd 1) of
           (extpresent, pd) \<Rightarrow>
             if extpresent < 0 then (RC_WMORE, pd)
             else
               (case (if roms_count specs \<noteq> 0 then asn_get_many_bits pd False (int (roms_count specs)) else (0, [], pd)) of
                  (ret, opres, pd) \<Rightarrow>
                    if ret \<noteq> 0 then (RC_WMORE, pd)
                    else
                      (case seq_get_root dec (take n_root elements) (seq_bitmap opres (roms_count specs)) pd of
                         (Inl e, pd) \<Rightarrow> (e, pd)
                       | (Inr root, pd) \<Rightarrow>
                           (case (if extpresent \<noteq> 0 then seq_get_extensions dec (drop n_root elements) pd
                                  else (Inr (replicate (length elements - n_root) None), pd)) of
                              (Inl e, pd) \<Rightarrow> (e, pd)
                            | (Inr exts, pd) \<Rightarrow>
                                let ms = (if first_extension specs \<ge> 0
                                          then seq_fill_defaults elements
                                                 (take (aoms_count specs) (drop (roms_count specs) (oms specs))) (root @ exts)
                                          else root @ exts)
                                in (RC_OK (V_SEQUENCE ms) 0, pd)))))"

text \<open>A member is present if its pointer is not NULL or it is part of the structure itself.\<close>

definition seq_present :: "asn_TYPE_member \<Rightarrow> asn_value option \<Rightarrow> bool" where
  "seq_present elm m \<longleftrightarrow> \<not> elm_pointer elm \<or> m \<noteq> None"

text \<open>\<open>elm->default_value_cmp && elm->default_value_cmp(*memb_ptr2) == 0\<close>.\<close>

definition seq_is_default :: "asn_TYPE_member \<Rightarrow> asn_value option \<Rightarrow> bool" where
  "seq_is_default elm m \<longleftrightarrow> elm_default elm \<noteq> None \<and> elm_default elm = m"

definition enc_member :: "uper_encoder \<Rightarrow> asn_TYPE_member \<Rightarrow> asn_value option \<Rightarrow> asn_bit_outp \<Rightarrow> int \<times> asn_bit_outp" where
  "enc_member enc elm m po =
     (case m of None \<Rightarrow> (-1, po) | Some v \<Rightarrow> enc (elm_type elm) (elm_per_constraints elm) v po)"

text \<open>
  \<open>SEQUENCE__handle_extensions\<close> is called to count, to write the presence bits, and to write the
  members; \<open>po1\<close> and \<open>po2\<close> are \<open>None\<close> where the code passes 0. The loop returns the counters.
\<close>

fun seq_ext_loop ::
  "uper_encoder \<Rightarrow> (asn_TYPE_member \<times> asn_value option) list \<Rightarrow> asn_bit_outp option \<Rightarrow> asn_bit_outp option
   \<Rightarrow> nat \<Rightarrow> nat \<Rightarrow> (nat \<times> nat) option \<times> asn_bit_outp option \<times> asn_bit_outp option" where
  "seq_ext_loop enc [] po1 po2 exts_count exts_present = (Some (exts_count, exts_present), po1, po2)"
| "seq_ext_loop enc ((elm, m) # ems) po1 po2 exts_count exts_present =
     (let present = seq_present elm m;
          exts_count = exts_count + 1;
          exts_present = exts_present + (if present then 1 else 0)
      in case (case po1 of None \<Rightarrow> (0, None)
               | Some po \<Rightarrow> (case asn_put_few_bits po (if present then 1 else 0) 1 of (r, po) \<Rightarrow> (r, Some po))) of
           (r, po1) \<Rightarrow>
             if r \<noteq> 0 then (None, po1, po2)
             else
               (case (case po2 of None \<Rightarrow> (0, None)
                      | Some po \<Rightarrow>
                          if present then (case uper_open_type_put (enc_member enc elm m) po of (r, po) \<Rightarrow> (r, Some po))
                          else (0, Some po)) of
                  (r, po2) \<Rightarrow>
                    if r \<noteq> 0 then (None, po1, po2)
                    else seq_ext_loop enc ems po1 po2 exts_count exts_present))"

definition SEQUENCE__handle_extensions ::
  "uper_encoder \<Rightarrow> asn_TYPE_descriptor \<Rightarrow> asn_value option list \<Rightarrow> asn_bit_outp option \<Rightarrow> asn_bit_outp option
   \<Rightarrow> int \<times> asn_bit_outp option \<times> asn_bit_outp option" where
  "SEQUENCE__handle_extensions enc td ms po1 po2 =
     (if first_extension (seq_specs td) < 0 then (0, po1, po2)
      else
        let k = nat (first_extension (seq_specs td))
        in case seq_ext_loop enc (zip (drop k (td_elements td)) (drop k ms)) po1 po2 0 0 of
             (None, po1, po2) \<Rightarrow> (-1, po1, po2)
           | (Some (exts_count, exts_present), po1, po2) \<Rightarrow>
               (if exts_present \<noteq> 0 then int exts_count else 0, po1, po2))"

fun seq_put_bitmap :: "asn_TYPE_member list \<Rightarrow> asn_value option list \<Rightarrow> nat list \<Rightarrow> asn_bit_outp \<Rightarrow> int \<times> asn_bit_outp" where
  "seq_put_bitmap elements ms [] po = (0, po)"
| "seq_put_bitmap elements ms (edx # idx) po =
     (let elm = elements ! edx;
          present = (seq_present elm (ms ! edx) \<and> \<not> seq_is_default elm (ms ! edx))
      in case asn_put_few_bits po (if present then 1 else 0) 1 of
           (r, po) \<Rightarrow> if r \<noteq> 0 then (-1, po) else seq_put_bitmap elements ms idx po)"

fun seq_put_root :: "uper_encoder \<Rightarrow> (asn_TYPE_member \<times> asn_value option) list \<Rightarrow> asn_bit_outp \<Rightarrow> int \<times> asn_bit_outp" where
  "seq_put_root enc [] po = (0, po)"
| "seq_put_root enc ((elm, m) # ems) po =
     (if elm_pointer elm \<and> m = None then
        (if elm_optional elm then seq_put_root enc ems po else (-1, po))
      else if seq_is_default elm m then seq_put_root enc ems po
      else
        (case enc_member enc elm m po of
           (r, po) \<Rightarrow> if r = -1 then (-1, po) else seq_put_root enc ems po))"

definition SEQUENCE_encode_uper :: "uper_encoder \<Rightarrow> uper_encoder" where
  "SEQUENCE_encode_uper enc td constraints sptr po =
     (case sptr of
        V_SEQUENCE ms \<Rightarrow>
          let specs = seq_specs td; elements = td_elements td; n_root = seq_root_count td;
              n_extensions = (if first_extension specs < 0 then 0
                              else fst (SEQUENCE__handle_extensions enc td ms None None))
          in if n_extensions < 0 then (-1, po)
             else
               (case (if first_extension specs < 0 then (0, po)
                      else asn_put_few_bits po (if n_extensions \<noteq> 0 then 1 else 0) 1) of
                  (r, po) \<Rightarrow>
                    if r \<noteq> 0 then (-1, po)
                    else
                      (case seq_put_bitmap elements ms (take (roms_count specs) (oms specs)) po of
                         (r, po) \<Rightarrow>
                           if r \<noteq> 0 then (-1, po)
                           else
                             (case seq_put_root enc (zip (take n_root elements) (take n_root ms)) po of
                                (r, po) \<Rightarrow>
                                  if r = -1 then (-1, po)
                                  else if n_extensions = 0 then (0, po)
                                  else
                                    (case uper_put_nslength po (nat n_extensions) of
                                       (r, po) \<Rightarrow>
                                         if r \<noteq> 0 then (-1, po)
                                         else
                                           (case SEQUENCE__handle_extensions enc td ms (Some po) None of
                                              (r, po1, _) \<Rightarrow>
                                                if r \<noteq> n_extensions then (-1, the po1)
                                                else
                                                  (case SEQUENCE__handle_extensions enc td ms None (Some (the po1)) of
                                                     (r, _, po2) \<Rightarrow>
                                                       if r \<noteq> n_extensions then (-1, the po2) else (0, the po2)))))))
      | _ \<Rightarrow> (-1, po))"

section \<open>Bitmaps\<close>

lemma seq_bitmap_spec:
  assumes "bytes_bits octets = bs @ replicate k False" "length bs = n"
  shows "pd_wf (seq_bitmap octets n)" "pd_bits (seq_bitmap octets n) = bs"
proof -
  have "8 * length octets = n + k" using arg_cong [OF assms(1), of length] assms(2) by simp
  then show "pd_wf (seq_bitmap octets n)" "pd_bits (seq_bitmap octets n) = bs"
    using assms by (auto simp: pd_wf_def pd_bits_def)
qed

lemma skip_overflow_end:
  assumes "pd_wf epmd" "pd_bits epmd = []"
  shows "seq_skip_overflow epmd pd = (True, pd)"
  using get_few_bits_starved [OF assms(1), of 1] assms(2) by (subst seq_skip_overflow.simps) simp

section \<open>What is on the wire\<close>

definition seq_here :: "asn_TYPE_member \<Rightarrow> asn_value option \<Rightarrow> bool" where
  "seq_here elm m \<longleftrightarrow> seq_present elm m \<and> \<not> seq_is_default elm m"

definition seq_member_bits ::
  "(asn_TYPE_descriptor \<Rightarrow> asn_per_constraints option \<Rightarrow> asn_value \<Rightarrow> bits)
   \<Rightarrow> asn_TYPE_member \<Rightarrow> asn_value option \<Rightarrow> bits" where
  "seq_member_bits wire elm m =
     (if elm_optional elm \<and> \<not> seq_here elm m then []
      else case m of None \<Rightarrow> [] | Some v \<Rightarrow> wire (elm_type elm) (elm_per_constraints elm) v)"

definition seq_ext_bits ::
  "(asn_TYPE_descriptor \<Rightarrow> asn_per_constraints option \<Rightarrow> asn_value \<Rightarrow> bits)
   \<Rightarrow> asn_TYPE_member \<Rightarrow> asn_value option \<Rightarrow> bits" where
  "seq_ext_bits wire elm m =
     (case m of None \<Rightarrow> [] | Some v \<Rightarrow> open_type_bits (wire (elm_type elm) (elm_per_constraints elm) v))"

text \<open>Root members that are left out must be what the decoder fills in.\<close>

definition seq_member_ok ::
  "(asn_TYPE_descriptor \<Rightarrow> asn_per_constraints option \<Rightarrow> asn_value \<Rightarrow> bool)
   \<Rightarrow> asn_TYPE_member \<Rightarrow> asn_value option \<Rightarrow> bool" where
  "seq_member_ok ok elm m \<longleftrightarrow>
     (if elm_optional elm \<and> \<not> seq_here elm m then m = elm_default elm
      else \<not> seq_is_default elm m
        \<and> (case m of None \<Rightarrow> False | Some v \<Rightarrow> ok (elm_type elm) (elm_per_constraints elm) v))"

definition seq_ext_ok ::
  "(asn_TYPE_descriptor \<Rightarrow> asn_per_constraints option \<Rightarrow> asn_value \<Rightarrow> bool)
   \<Rightarrow> asn_TYPE_member \<Rightarrow> asn_value option \<Rightarrow> bool" where
  "seq_ext_ok ok elm m \<longleftrightarrow>
     (case m of None \<Rightarrow> elm_pointer elm \<and> elm_default elm = None
      | Some v \<Rightarrow> ok (elm_type elm) (elm_per_constraints elm) v)"

definition seq_opt_bits :: "(asn_TYPE_member \<times> asn_value option) list \<Rightarrow> bits" where
  "seq_opt_bits ems = map (\<lambda>(elm, m). seq_here elm m) (filter (\<lambda>(elm, m). elm_optional elm) ems)"

definition seq_ext_map :: "(asn_TYPE_member \<times> asn_value option) list \<Rightarrow> bits" where
  "seq_ext_map ems = map (\<lambda>(elm, m). m \<noteq> None) ems"

section \<open>Reading and writing the members\<close>

context uper_members
begin

lemma get_root_result:
  assumes "pd_wf opmd" "pd_bits opmd = seq_opt_bits ems @ os"
    and "pd_wf pd" "pd_bits pd = concat (map (\<lambda>(elm, m). seq_member_bits wire elm m) ems) @ rest"
    and "\<And>elm m. (elm, m) \<in> set ems \<Longrightarrow> seq_member_ok ok elm m"
  shows "\<exists>pd'. seq_get_root dec (map fst ems) opmd pd = (Inr (map snd ems), pd')
    \<and> pd_adv pd (length (concat (map (\<lambda>(elm, m). seq_member_bits wire elm m) ems))) pd'"
  using assms
proof (induction ems arbitrary: opmd pd)
  case Nil
  then show ?case using pd_adv_refl by auto
next
  case (Cons em ems)
  obtain elm m where em: "em = (elm, m)" by force
  have okm: "seq_member_ok ok elm m" using Cons.prems(5) em by simp
  define tl where "tl = concat (map (\<lambda>(elm, m). seq_member_bits wire elm m) ems)"
  have pb: "pd_bits pd = seq_member_bits wire elm m @ tl @ rest" using Cons.prems(4) by (simp add: em tl_def)
  obtain p opmd1 where o: "(if elm_optional elm then asn_get_few_bits opmd 1 else (1, opmd)) = (p, opmd1)"
      "pd_wf opmd1" "pd_bits opmd1 = seq_opt_bits ems @ os" "elm_optional elm \<longrightarrow> p = (if seq_here elm m then 1 else 0)"
  proof (cases "elm_optional elm")
    case True
    then have "pd_bits opmd = seq_here elm m # seq_opt_bits ems @ os"
      using Cons.prems(2) by (simp add: em seq_opt_bits_def)
    then show thesis using get_bit_prefix [OF Cons.prems(1)] that True by metis
  next
    case False
    then show thesis using Cons.prems(1,2) that [of 1 opmd] by (simp add: em seq_opt_bits_def)
  qed
  have IH: "\<exists>pd'. seq_get_root dec (map fst ems) opmd1 pd1 = (Inr (map snd ems), pd') \<and> pd_adv pd1 (length tl) pd'"
    if "pd_wf pd1" "pd_bits pd1 = tl @ rest" for pd1
    unfolding tl_def by (rule Cons.IH [OF o(2,3) that(1) that(2) [unfolded tl_def]]) (use Cons.prems(5) in auto)
  show ?case
  proof (cases "elm_optional elm \<and> \<not> seq_here elm m")
    case True
    then have "seq_member_bits wire elm m = []" "m = elm_default elm" "p = 0"
      using okm o(4) by (auto simp: seq_member_bits_def seq_member_ok_def)
    then show ?thesis using IH [OF Cons.prems(3)] pb o(1) True by (auto simp: em tl_def)
  next
    case False
    then obtain v where v: "m = Some v" "ok (elm_type elm) (elm_per_constraints elm) v"
        "seq_member_bits wire elm m = wire (elm_type elm) (elm_per_constraints elm) v"
      using okm by (auto simp: seq_member_ok_def seq_member_bits_def split: option.splits if_splits)
    obtain pd1 where d: "dec (elm_type elm) (elm_per_constraints elm) pd = (RC_OK v (used (elm_type elm) (elm_per_constraints elm) v), pd1)"
        "pd_adv pd (length (wire (elm_type elm) (elm_per_constraints elm) v)) pd1" "pd_wf pd1" "pd_bits pd1 = tl @ rest"
      using decodesE [OF dec_wire [OF v(2)] Cons.prems(3) pb [unfolded v(3)]] by blast
    obtain pd2 where r: "seq_get_root dec (map fst ems) opmd1 pd1 = (Inr (map snd ems), pd2)" "pd_adv pd1 (length tl) pd2"
      using IH [OF d(3,4)] by blast
    have "\<not> (elm_optional elm \<and> p = 0)" using False o(4) by auto
    then show ?thesis using o(1) d(1) r(1) v pd_adv_trans [OF d(2) r(2)] by (auto simp: em tl_def)
  qed
qed

lemma get_ext_result:
  assumes "pd_wf epmd" "pd_bits epmd = seq_ext_map ems"
    and "pd_wf pd" "pd_bits pd = concat (map (\<lambda>(elm, m). seq_ext_bits wire elm m) ems) @ rest"
    and "\<And>elm m. (elm, m) \<in> set ems \<Longrightarrow> seq_ext_ok ok elm m"
  shows "\<exists>pd' epmd'. seq_get_ext dec (map fst ems) epmd pd = (Inr (map snd ems, epmd'), pd')
    \<and> pd_wf epmd' \<and> pd_bits epmd' = []
    \<and> pd_adv pd (length (concat (map (\<lambda>(elm, m). seq_ext_bits wire elm m) ems))) pd'"
  using assms
proof (induction ems arbitrary: epmd pd)
  case Nil
  then show ?case using pd_adv_refl by (auto simp: seq_ext_map_def)
next
  case (Cons em ems)
  obtain elm m where em: "em = (elm, m)" by force
  have okm: "seq_ext_ok ok elm m" using Cons.prems(5) em by simp
  define tl where "tl = concat (map (\<lambda>(elm, m). seq_ext_bits wire elm m) ems)"
  have pb: "pd_bits pd = seq_ext_bits wire elm m @ tl @ rest" using Cons.prems(4) by (simp add: em tl_def)
  have "pd_bits epmd = (m \<noteq> None) # seq_ext_map ems" using Cons.prems(2) by (simp add: em seq_ext_map_def)
  then obtain epmd1 where o: "asn_get_few_bits epmd 1 = (if m \<noteq> None then 1 else 0, epmd1)" "pd_wf epmd1"
      "pd_bits epmd1 = seq_ext_map ems"
    using get_bit_prefix [OF Cons.prems(1)] by metis
  have IH: "\<exists>pd' epmd'. seq_get_ext dec (map fst ems) epmd1 pd1 = (Inr (map snd ems, epmd'), pd')
      \<and> pd_wf epmd' \<and> pd_bits epmd' = [] \<and> pd_adv pd1 (length tl) pd'"
    if "pd_wf pd1" "pd_bits pd1 = tl @ rest" for pd1
    unfolding tl_def by (rule Cons.IH [OF o(2,3) that(1) that(2) [unfolded tl_def]]) (use Cons.prems(5) in auto)
  show ?case
  proof (cases m)
    case None
    then have "seq_ext_bits wire elm m = []" by (simp add: seq_ext_bits_def)
    then show ?thesis using IH [OF Cons.prems(3)] pb o(1) None by (auto simp: em tl_def)
  next
    case (Some v)
    then have v: "ok (elm_type elm) (elm_per_constraints elm) v"
        "seq_ext_bits wire elm m = open_type_bits (wire (elm_type elm) (elm_per_constraints elm) v)"
      using okm by (auto simp: seq_ext_ok_def seq_ext_bits_def)
    obtain pd1 where d: "uper_open_type_get (dec (elm_type elm) (elm_per_constraints elm)) pd = (RC_OK v (used (elm_type elm) (elm_per_constraints elm) v), pd1)"
        "pd_adv pd (length (seq_ext_bits wire elm m)) pd1" "pd_wf pd1" "pd_bits pd1 = tl @ rest"
      using decodesE [OF open_dec [OF v(1)] Cons.prems(3) pb [unfolded v(2)]] v(2) by metis
    obtain pd2 epmd2 where r: "seq_get_ext dec (map fst ems) epmd1 pd1 = (Inr (map snd ems, epmd2), pd2)" "pd_adv pd1 (length tl) pd2"
        "pd_wf epmd2" "pd_bits epmd2 = []"
      using IH [OF d(3,4)] by blast
    then show ?thesis using o(1) d(1) r(1) Some pd_adv_trans [OF d(2) r(2)] by (auto simp: em tl_def)
  qed
qed

lemma put_root_result:
  assumes "po_wf po" "\<And>elm m. (elm, m) \<in> set ems \<Longrightarrow> seq_member_ok ok elm m"
  shows "put_result po (concat (map (\<lambda>(elm, m). seq_member_bits wire elm m) ems)) (seq_put_root enc ems po)"
  using assms
proof (induction ems arbitrary: po)
  case Nil
  then show ?case by (simp add: put_result_def po_app_refl)
next
  case (Cons em ems)
  obtain elm m where em: "em = (elm, m)" by force
  have okm: "seq_member_ok ok elm m" using Cons.prems(2) em by simp
  have IH: "put_result po1 (concat (map (\<lambda>(elm, m). seq_member_bits wire elm m) ems)) (seq_put_root enc ems po1)" if "po_wf po1" for po1
    using Cons.IH [OF that] Cons.prems(2) by auto
  show ?case
  proof (cases "elm_optional elm \<and> \<not> seq_here elm m")
    case True
    then show ?thesis using IH [OF Cons.prems(1)]
      by (auto simp: em seq_member_bits_def seq_here_def seq_present_def)
  next
    case False
    then obtain v where v: "m = Some v" "ok (elm_type elm) (elm_per_constraints elm) v" "\<not> seq_is_default elm m"
        "seq_member_bits wire elm m = wire (elm_type elm) (elm_per_constraints elm) v"
      using okm by (auto simp: seq_member_ok_def seq_member_bits_def split: option.splits if_splits)
    define r where "r = enc (elm_type elm) (elm_per_constraints elm) v po"
    have p: "put_result po (seq_member_bits wire elm m) r"
      unfolding v(4) r_def by (rule encodesD [OF enc_wire [OF v(2)] Cons.prems(1)])
    have "seq_put_root enc (em # ems) po = (if fst r \<noteq> 0 then (-1, snd r) else seq_put_root enc ems (snd r))"
      using v(1,3) p by (auto simp: em enc_member_def put_result_def case_prod_beta simp flip: r_def)
    then show ?thesis using put_result_seq [OF p IH] by (simp add: em)
  qed
qed

end

lemma put_bitmap_result:
  "po_wf po \<Longrightarrow> put_result po (map (\<lambda>i. seq_here (elements ! i) (ms ! i)) idx) (seq_put_bitmap elements ms idx po)"
proof (induction idx arbitrary: po)
  case Nil
  then show ?case by (simp add: put_result_def po_app_refl)
next
  case (Cons i idx)
  define b where "b = seq_here (elements ! i) (ms ! i)"
  have p: "put_result po [b] (asn_put_few_bits po (if b then 1 else 0) 1)" by (rule put_bit_result [OF Cons.prems])
  have "seq_put_bitmap elements ms (i # idx) po =
      (if fst (asn_put_few_bits po (if b then 1 else 0) 1) \<noteq> 0 then (-1, snd (asn_put_few_bits po (if b then 1 else 0) 1))
       else seq_put_bitmap elements ms idx (snd (asn_put_few_bits po (if b then 1 else 0) 1)))"
    by (simp add: Let_def case_prod_beta b_def seq_here_def)
  then show ?case using put_result_seq [OF p Cons.IH] by (simp add: b_def)
qed

section \<open>SEQUENCE\<close>

definition seq_roots :: "asn_TYPE_descriptor \<Rightarrow> asn_value option list \<Rightarrow> (asn_TYPE_member \<times> asn_value option) list" where
  "seq_roots td ms = zip (take (seq_root_count td) (td_elements td)) (take (seq_root_count td) ms)"

definition seq_exts :: "asn_TYPE_descriptor \<Rightarrow> asn_value option list \<Rightarrow> (asn_TYPE_member \<times> asn_value option) list" where
  "seq_exts td ms = zip (drop (seq_root_count td) (td_elements td)) (drop (seq_root_count td) ms)"

definition seq_extended :: "asn_TYPE_descriptor \<Rightarrow> asn_value option list \<Rightarrow> bool" where
  "seq_extended td ms = list_ex (\<lambda>(elm, m). m \<noteq> None) (seq_exts td ms)"

text \<open>
  X.691 clause 19: extension bit, presence of the optional root members, root members, and if
  there are extension additions, their number, presence and open types.
\<close>

definition seq_wire ::
  "(asn_TYPE_descriptor \<Rightarrow> asn_per_constraints option \<Rightarrow> asn_value \<Rightarrow> bits)
   \<Rightarrow> asn_TYPE_descriptor \<Rightarrow> asn_value option list \<Rightarrow> bits" where
  "seq_wire wire td ms =
     (if first_extension (seq_specs td) < 0 then [] else [seq_extended td ms])
     @ seq_opt_bits (seq_roots td ms)
     @ concat (map (\<lambda>(elm, m). seq_member_bits wire elm m) (seq_roots td ms))
     @ (if seq_extended td ms
        then nat_bits 7 (length (seq_exts td ms) - 1) @ seq_ext_map (seq_exts td ms)
             @ concat (map (\<lambda>(elm, m). seq_ext_bits wire elm m) (seq_exts td ms))
        else [])"

text \<open>The descriptor is consistent.\<close>

definition seq_td_ok :: "asn_TYPE_descriptor \<Rightarrow> bool" where
  "seq_td_ok td \<longleftrightarrow>
     (let specs = seq_specs td; n = seq_root_count td; es = td_elements td
      in n \<le> length es \<and> length es - n \<le> 64
         \<and> take (roms_count specs) (oms specs) = filter (\<lambda>i. elm_optional (es ! i)) [0..<n]
         \<and> length (filter (\<lambda>i. elm_optional (es ! i)) [0..<n]) = roms_count specs
         \<and> list_all (\<lambda>i. n \<le> i \<and> i < length es) (take (aoms_count specs) (drop (roms_count specs) (oms specs))))"

definition seq_ok ::
  "(asn_TYPE_descriptor \<Rightarrow> asn_per_constraints option \<Rightarrow> asn_value \<Rightarrow> bool)
   \<Rightarrow> asn_TYPE_descriptor \<Rightarrow> asn_value option list \<Rightarrow> bool" where
  "seq_ok ok td ms \<longleftrightarrow> seq_td_ok td \<and> length ms = length (td_elements td)
     \<and> list_all (\<lambda>(elm, m). seq_member_ok ok elm m) (seq_roots td ms)
     \<and> list_all (\<lambda>(elm, m). seq_ext_ok ok elm m) (seq_exts td ms)"

lemma seq_opt_index:
  assumes "n \<le> length es" "length ms = length es"
  shows "map (\<lambda>i. seq_here (es ! i) (ms ! i)) (filter (\<lambda>i. elm_optional (es ! i)) [0..<n])
    = seq_opt_bits (zip (take n es) (take n ms))"
proof -
  have "zip (take n es) (take n ms) = map (\<lambda>i. (es ! i, ms ! i)) [0..<n]"
    using assms by (intro nth_equalityI) auto
  then show ?thesis by (simp add: seq_opt_bits_def filter_map comp_def)
qed

text \<open>The number of present extension members, as counted.\<close>

lemma seq_ext_count:
  "seq_ext_loop enc ems None None c p = (Some (c + length ems, p + length (filter (\<lambda>(elm, m). seq_present elm m) ems)), None, None)"
  by (induction ems arbitrary: c p) (auto simp: Let_def)

lemma seq_present_ext: "seq_ext_ok ok elm m \<Longrightarrow> seq_present elm m = (m \<noteq> None)"
  by (auto simp: seq_ext_ok_def seq_present_def split: option.splits)

lemma seq_present_count:
  assumes "list_all (\<lambda>(elm, m). seq_ext_ok ok elm m) ems"
  shows "(length (filter (\<lambda>(elm, m). seq_present elm m) ems) \<noteq> 0) = list_ex (\<lambda>(elm, m). m \<noteq> None) ems"
  using assms by (induction ems) (auto simp: seq_present_ext)

lemma fill_defaults_id:
  assumes "list_all (\<lambda>i. i < length ms \<and> (ms ! i = None \<longrightarrow> elm_default (es ! i) = None)) idx"
  shows "seq_fill_defaults es idx ms = ms"
  using assms by (induction idx) auto

context uper_members
begin

lemma ext_map_result:
  assumes "po_wf po" "list_all (\<lambda>(elm, m). seq_ext_ok ok elm m) ems"
  shows "\<exists>r po'. seq_ext_loop enc ems (Some po) None c p = (r, Some po', None)
    \<and> (r = Some (c + length ems, p + length (filter (\<lambda>(elm, m). seq_present elm m) ems)) \<and> po_app po (seq_ext_map ems) po'
       \<or> r = None \<and> po_wf po' \<and> \<not> sink_unbounded (po_output po))"
  using assms
proof (induction ems arbitrary: po c p)
  case Nil
  then show ?case by (simp add: po_app_refl seq_ext_map_def)
next
  case (Cons em ems)
  obtain elm m where em: "em = (elm, m)" by force
  define b where "b = seq_present elm m"
  have b: "(m \<noteq> None) = b" using Cons.prems(2) seq_present_ext by (auto simp: em b_def)
  obtain r1 po1 where g: "asn_put_few_bits po (if b then 1 else 0) 1 = (r1, po1)" by force
  have pr: "put_result po [b] (r1, po1)" using put_bit_result [OF Cons.prems(1), of b] g by simp
  show ?case
  proof (cases "r1 = 0")
    case True
    then have a: "po_app po [b] po1" using pr by (auto simp: put_result_def)
    obtain r2 po2 where IH: "seq_ext_loop enc ems (Some po1) None (c + 1) (p + (if b then 1 else 0)) = (r2, Some po2, None)"
        "r2 = Some (c + 1 + length ems, p + (if b then 1 else 0) + length (filter (\<lambda>(elm, m). seq_present elm m) ems)) \<and> po_app po1 (seq_ext_map ems) po2
       \<or> r2 = None \<and> po_wf po2 \<and> \<not> sink_unbounded (po_output po1)"
      using Cons.IH [of po1 "c + 1" "p + (if b then 1 else 0)"] a Cons.prems(2) by (auto simp: em)
    have ub: "sink_unbounded (po_output po) \<longrightarrow> sink_unbounded (po_output po1)" using a by (simp add: po_app_def)
    have "seq_ext_loop enc (em # ems) (Some po) None c p = (r2, Some po2, None)"
      using IH(1) True g by (simp add: em Let_def flip: b_def)
    moreover have "seq_ext_map (em # ems) = [b] @ seq_ext_map ems" using b by (simp add: em seq_ext_map_def)
    ultimately show ?thesis using IH(2) po_app_trans [OF a] ub by (auto simp: em b_def)
  next
    case False
    then show ?thesis using pr g by (auto simp: em Let_def put_result_def simp flip: b_def)
  qed
qed

lemma ext_put_result:
  assumes "po_wf po" "list_all (\<lambda>(elm, m). seq_ext_ok ok elm m) ems"
  shows "\<exists>r po'. seq_ext_loop enc ems None (Some po) c p = (r, None, Some po')
    \<and> (r = Some (c + length ems, p + length (filter (\<lambda>(elm, m). seq_present elm m) ems))
         \<and> po_app po (concat (map (\<lambda>(elm, m). seq_ext_bits wire elm m) ems)) po'
       \<or> r = None \<and> po_wf po' \<and> \<not> sink_unbounded (po_output po))"
  using assms
proof (induction ems arbitrary: po c p)
  case Nil
  then show ?case by (simp add: po_app_refl)
next
  case (Cons em ems)
  obtain elm m where em: "em = (elm, m)" by force
  define b where "b = seq_present elm m"
  have okm: "seq_ext_ok ok elm m" using Cons.prems(2) em by simp
  have b: "(m \<noteq> None) = b" using seq_present_ext [OF okm] by (simp add: b_def)
  define xs where "xs = seq_ext_bits wire elm m"
  obtain r1 po1 where g: "(if b then uper_open_type_put (enc_member enc elm m) po else (0, po)) = (r1, po1)" by force
  have pr: "put_result po xs (r1, po1)"
  proof (cases m)
    case None
    then show ?thesis using g b Cons.prems(1) by (auto simp: xs_def seq_ext_bits_def put_result_def po_app_refl)
  next
    case (Some v)
    then have "enc_member enc elm m = enc (elm_type elm) (elm_per_constraints elm) v" by (auto simp: enc_member_def)
    moreover have "put_result po xs (uper_open_type_put (enc (elm_type elm) (elm_per_constraints elm) v) po)"
      using encodesD [OF open_enc Cons.prems(1)] okm Some by (simp add: xs_def seq_ext_bits_def seq_ext_ok_def)
    ultimately show ?thesis using g b Some by auto
  qed
  show ?case
  proof (cases "r1 = 0")
    case True
    then have a: "po_app po xs po1" using pr by (auto simp: put_result_def)
    obtain r2 po2 where IH: "seq_ext_loop enc ems None (Some po1) (c + 1) (p + (if b then 1 else 0)) = (r2, None, Some po2)"
        "r2 = Some (c + 1 + length ems, p + (if b then 1 else 0) + length (filter (\<lambda>(elm, m). seq_present elm m) ems))
           \<and> po_app po1 (concat (map (\<lambda>(elm, m). seq_ext_bits wire elm m) ems)) po2
       \<or> r2 = None \<and> po_wf po2 \<and> \<not> sink_unbounded (po_output po1)"
      using Cons.IH [of po1 "c + 1" "p + (if b then 1 else 0)"] a Cons.prems(2) by (auto simp: em)
    have ub: "sink_unbounded (po_output po) \<longrightarrow> sink_unbounded (po_output po1)" using a by (simp add: po_app_def)
    have "seq_ext_loop enc (em # ems) None (Some po) c p = (r2, None, Some po2)"
      using IH(1) True g by (auto simp: em Let_def split: if_splits simp flip: b_def)
    then show ?thesis using IH(2) po_app_trans [OF a] ub by (auto simp: em b_def xs_def)
  next
    case False
    then show ?thesis using pr g by (auto simp: em Let_def put_result_def split: if_splits simp flip: b_def)
  qed
qed

lemma SEQUENCE_encodes:
  assumes "seq_ok ok td ms"
  shows "encodes (SEQUENCE_encode_uper enc td c (V_SEQUENCE ms)) (seq_wire wire td ms)"
  unfolding encodes_def
proof (intro allI impI)
  fix po assume wf: "po_wf po"
  define specs es n where "specs = seq_specs td" and "es = td_elements td" and "n = seq_root_count td"
  define rs xs ext where "rs = seq_roots td ms" and "xs = seq_exts td ms" and "ext = seq_extended td ms"
  have t: "n \<le> length es" "length es - n \<le> 64" "length ms = length es"
      "take (roms_count specs) (oms specs) = filter (\<lambda>i. elm_optional (es ! i)) [0..<n]"
    and rok: "\<And>elm m. (elm, m) \<in> set rs \<Longrightarrow> seq_member_ok ok elm m"
    and xok: "list_all (\<lambda>(elm, m). seq_ext_ok ok elm m) xs"
    using assms by (auto simp: seq_ok_def seq_td_ok_def Let_def list_all_iff specs_def es_def n_def rs_def xs_def)
  have lx: "length xs = length es - n" using t by (simp add: xs_def seq_exts_def es_def n_def)
  have le: "ext \<Longrightarrow> 1 \<le> length xs" by (cases xs) (auto simp: ext_def seq_extended_def xs_def)
  have cnt: "(length (filter (\<lambda>(elm, m). seq_present elm m) xs) \<noteq> 0) = ext"
    using seq_present_count [OF xok] by (simp add: ext_def seq_extended_def xs_def)
  define fe where "fe = (first_extension specs < 0)"
  have fx: "fe \<Longrightarrow> \<not> ext" by (simp add: fe_def ext_def seq_extended_def seq_exts_def seq_root_count_def specs_def)
  have dx: "\<not> fe \<Longrightarrow> zip (drop (nat (first_extension (seq_specs td))) (td_elements td)) (drop (nat (first_extension (seq_specs td))) ms) = xs"
    by (simp add: xs_def seq_exts_def seq_root_count_def fe_def specs_def)
  have he: "SEQUENCE__handle_extensions enc td ms a b = (case seq_ext_loop enc xs a b 0 0 of (None, po1, po2) \<Rightarrow> (-1, po1, po2)
       | (Some (exts_count, exts_present), po1, po2) \<Rightarrow> (if exts_present \<noteq> 0 then int exts_count else 0, po1, po2))"
    if nf: "\<not> fe" for a b
    unfolding SEQUENCE__handle_extensions_def Let_def dx [OF nf] using nf by (simp add: fe_def specs_def)
  have h0: "\<not> fe \<Longrightarrow> fst (SEQUENCE__handle_extensions enc td ms None None) = (if ext then int (length xs) else 0)"
    using cnt by (simp add: he seq_ext_count)
  define n_ext where "n_ext = (if ext then int (length xs) else 0)"
  have ne: "(if first_extension specs < 0 then 0 else fst (SEQUENCE__handle_extensions enc td ms None None)) = n_ext"
    "(n_ext \<noteq> 0) = ext" "\<not> n_ext < 0" "(n_ext = 0) = (\<not> ext)"
    using h0 fx le by (auto simp: n_ext_def fe_def)
  define P1 :: "int \<times> asn_bit_outp" where "P1 = (if fe then (0, po) else asn_put_few_bits po (if ext then 1 else 0) 1)"
  define P2 where "P2 = seq_put_bitmap es ms (take (roms_count specs) (oms specs))"
  define P3 where "P3 = seq_put_root enc (zip (take n es) (take n ms))"
  define P6 :: "asn_bit_outp \<Rightarrow> int \<times> asn_bit_outp" where "P6 po = (case SEQUENCE__handle_extensions enc td ms None (Some po) of
       (r, _, po2) \<Rightarrow> if r \<noteq> n_ext then (-1, the po2) else (0, the po2))" for po
  define P5 where "P5 po = (case SEQUENCE__handle_extensions enc td ms (Some po) None of
       (r, po1, _) \<Rightarrow> if r \<noteq> n_ext then (-1, the po1) else P6 (the po1))" for po
  define P4 where "P4 po = (if \<not> ext then (0, po) else case uper_put_nslength po (nat n_ext) of
       (r, po) \<Rightarrow> if r \<noteq> 0 then (-1, po) else P5 po)" for po
  have p1: "put_result po (if fe then [] else [ext]) P1"
    using put_bit_result [OF wf, of ext] wf by (simp add: P1_def put_result_def po_app_refl)
  have p2: "put_result po1 (seq_opt_bits rs) (P2 po1)" if "po_wf po1" for po1
    using put_bitmap_result [OF that, of es ms "take (roms_count specs) (oms specs)"] seq_opt_index [of n es ms] t
    by (simp add: P2_def rs_def seq_roots_def es_def n_def)
  have p3: "put_result po1 (concat (map (\<lambda>(elm, m). seq_member_bits wire elm m) rs)) (P3 po1)" if "po_wf po1" for po1
    using put_root_result [OF that rok] by (simp add: P3_def rs_def seq_roots_def es_def n_def)
  have p6: "put_result po1 (concat (map (\<lambda>(elm, m). seq_ext_bits wire elm m) xs)) (P6 po1)" if "po_wf po1" "ext" for po1
  proof -
    have nf: "\<not> fe" using fx that(2) by blast
    show ?thesis using ext_put_result [OF that(1) xok, of 0 0] cnt that le unfolding P6_def he [OF nf]
      by (auto simp: put_result_def n_ext_def)
  qed
  have p5: "put_result po1 (seq_ext_map xs @ concat (map (\<lambda>(elm, m). seq_ext_bits wire elm m) xs)) (P5 po1)" if w1: "po_wf po1" and e: ext for po1
  proof -
    obtain r po2 where s: "seq_ext_loop enc xs (Some po1) None 0 0 = (r, Some po2, None)"
       "r = Some (length xs, length (filter (\<lambda>(elm, m). seq_present elm m) xs)) \<and> po_app po1 (seq_ext_map xs) po2
       \<or> r = None \<and> po_wf po2 \<and> \<not> sink_unbounded (po_output po1)"
      using ext_map_result [OF w1 xok, of 0 0] by auto
    have "\<not> fe" using fx e by blast
    then have he1: "SEQUENCE__handle_extensions enc td ms (Some po1) None =
        (case r of None \<Rightarrow> -1 | Some (a, b) \<Rightarrow> if b \<noteq> 0 then int a else 0, Some po2, None)"
      using s(1) by (simp add: he split: option.split)
    show ?thesis
    proof (cases r)
      case None
      then show ?thesis using he1 s(2) ne by (auto simp: P5_def put_result_def n_ext_def e)
    next
      case (Some a)
      then have a: "po_app po1 (seq_ext_map xs) po2" "P5 po1 = P6 po2"
        using s(2) he1 cnt e by (auto simp: P5_def n_ext_def)
      then show ?thesis using put_result_after [OF a(1) p6] e by auto
    qed
  qed
  have p4: "put_result po1 (if ext then nat_bits 7 (length xs - 1) @ seq_ext_map xs
      @ concat (map (\<lambda>(elm, m). seq_ext_bits wire elm m) xs) else []) (P4 po1)" if w1: "po_wf po1" for po1
  proof (cases ext)
    case True
    have q: "put_result po1 (nat_bits 7 (length xs - 1)) (uper_put_nslength po1 (length xs))"
      by (rule put_nslength_result [OF w1 le [OF True]]) (use lx t(2) in simp)
    show ?thesis using put_result_seq [OF q p5 [OF _ True]] True by (simp add: P4_def n_ext_def case_prod_beta)
  next
    case False
    then show ?thesis using w1 by (simp add: P4_def put_result_def po_app_refl)
  qed
  have p34: "put_result po1 (concat (map (\<lambda>(elm, m). seq_member_bits wire elm m) rs) @
      (if ext then nat_bits 7 (length xs - 1) @ seq_ext_map xs @ concat (map (\<lambda>(elm, m). seq_ext_bits wire elm m) xs) else []))
      (case P3 po1 of (r, po) \<Rightarrow> if r = -1 then (-1, po) else P4 po)" if w1: "po_wf po1" for po1
  proof -
    have "(case P3 po1 of (r, po) \<Rightarrow> if r = -1 then (-1, po) else P4 po) = (if fst (P3 po1) \<noteq> 0 then (-1, snd (P3 po1)) else P4 (snd (P3 po1)))"
      using p3 [OF w1] by (auto simp: put_result_def case_prod_beta)
    then show ?thesis using put_result_seq [OF p3 [OF w1] p4] by simp
  qed
  have p234: "put_result po1 (seq_opt_bits rs @ concat (map (\<lambda>(elm, m). seq_member_bits wire elm m) rs) @
      (if ext then nat_bits 7 (length xs - 1) @ seq_ext_map xs @ concat (map (\<lambda>(elm, m). seq_ext_bits wire elm m) xs) else []))
      (case P2 po1 of (r, po) \<Rightarrow> if r \<noteq> 0 then (-1, po) else case P3 po of (r, po) \<Rightarrow> if r = -1 then (-1, po) else P4 po)"
    if w1: "po_wf po1" for po1
    using put_result_seq [OF p2 [OF w1] p34] by (simp add: case_prod_beta)
  have eq: "SEQUENCE_encode_uper enc td c (V_SEQUENCE ms) po =
      (case P1 of (r, po) \<Rightarrow> if r \<noteq> 0 then (-1, po) else
         (case P2 po of (r, po) \<Rightarrow> if r \<noteq> 0 then (-1, po) else case P3 po of (r, po) \<Rightarrow> if r = -1 then (-1, po) else P4 po))"
    unfolding SEQUENCE_encode_uper_def Let_def asn_value.case specs_def [symmetric] es_def [symmetric] n_def [symmetric] ne(1)
      if_not_P [OF ne(3)] P1_def P2_def P3_def P4_def P5_def P6_def fe_def by (simp only: ne(4) not_not)
  have w: "seq_wire wire td ms = (if fe then [] else [ext]) @ seq_opt_bits rs @ concat (map (\<lambda>(elm, m). seq_member_bits wire elm m) rs) @
      (if ext then nat_bits 7 (length xs - 1) @ seq_ext_map xs @ concat (map (\<lambda>(elm, m). seq_ext_bits wire elm m) xs) else [])"
    unfolding seq_wire_def fe_def specs_def rs_def xs_def ext_def by (rule refl)
  show "put_result po (seq_wire wire td ms) (SEQUENCE_encode_uper enc td c (V_SEQUENCE ms) po)"
    unfolding w eq using put_result_seq [OF p1 p234] by (simp add: case_prod_beta)
qed

lemma get_extensions_result:
  assumes "pd_wf pd" "1 \<le> length xs" "length xs \<le> 64" "list_all (\<lambda>(elm, m). seq_ext_ok ok elm m) xs"
    and "pd_bits pd = nat_bits 7 (length xs - 1) @ seq_ext_map xs @ concat (map (\<lambda>(elm, m). seq_ext_bits wire elm m) xs) @ rest"
  shows "\<exists>pd'. seq_get_extensions dec (map fst xs) pd = (Inr (map snd xs), pd')
    \<and> pd_adv pd (length (nat_bits 7 (length xs - 1) @ seq_ext_map xs @ concat (map (\<lambda>(elm, m). seq_ext_bits wire elm m) xs))) pd'"
proof -
  define ys where "ys = concat (map (\<lambda>(elm, m). seq_ext_bits wire elm m) xs)"
  obtain pd1 where g: "uper_get_nslength pd = (int (length xs), pd1)" "pd_adv pd 7 pd1"
    by (rule get_nslength_result [OF assms(1,5,2,3)])
  have pb1: "pd_bits pd1 = seq_ext_map xs @ ys @ rest" using pd_adv_bits [OF g(2)] assms(5) by (simp add: ys_def)
  have lm: "int (length xs) = int (length (seq_ext_map xs))" by (simp add: seq_ext_map_def)
  obtain dst pd2 where h: "asn_get_many_bits pd1 False (int (length xs)) = (0, dst, pd2)" "pd_adv pd1 (length (seq_ext_map xs)) pd2"
      "bytes_bits dst = seq_ext_map xs @ replicate (pad8 (length (seq_ext_map xs))) False" "pd_bits pd2 = ys @ rest"
    by (rule get_many_bits_prefix [OF pd_adv_wf [OF g(2)] pb1 lm])
  have bm: "pd_wf (seq_bitmap dst (length xs))" "pd_bits (seq_bitmap dst (length xs)) = seq_ext_map xs"
    using seq_bitmap_spec [OF h(3)] lm by auto
  obtain pd3 epmd where i: "seq_get_ext dec (map fst xs) (seq_bitmap dst (length xs)) pd2 = (Inr (map snd xs, epmd), pd3)"
      "pd_wf epmd" "pd_bits epmd = []" "pd_adv pd2 (length ys) pd3"
    using get_ext_result [OF bm pd_adv_wf [OF h(2)] h(4) [unfolded ys_def]] assms(4) unfolding ys_def list_all_iff by blast
  have "seq_get_extensions dec (map fst xs) pd = (Inr (map snd xs), pd3)"
    using g(1) h(1) i(1) skip_overflow_end [OF i(2,3)] by (simp add: seq_get_extensions_def)
  then show ?thesis using pd_adv_trans [OF g(2) pd_adv_trans [OF h(2) i(4)]] by (simp add: ys_def)
qed

lemma SEQUENCE_decodes:
  assumes "seq_ok ok td ms"
  shows "decodes (SEQUENCE_decode_uper dec td c) (seq_wire wire td ms) (V_SEQUENCE ms) 0"
  unfolding decodes_def
proof (intro allI impI)
  fix pd rest assume wf: "pd_wf pd" and pb: "pd_bits pd = seq_wire wire td ms @ rest"
  define specs es n where "specs = seq_specs td" and "es = td_elements td" and "n = seq_root_count td"
  define rs xs ext where "rs = seq_roots td ms" and "xs = seq_exts td ms" and "ext = seq_extended td ms"
  have t: "n \<le> length es" "length es - n \<le> 64" "length ms = length es"
      "length (filter (\<lambda>i. elm_optional (es ! i)) [0..<n]) = roms_count specs"
      "list_all (\<lambda>i. n \<le> i \<and> i < length es) (take (aoms_count specs) (drop (roms_count specs) (oms specs)))"
    and rok: "\<And>elm m. (elm, m) \<in> set rs \<Longrightarrow> seq_member_ok ok elm m"
    and xok: "list_all (\<lambda>(elm, m). seq_ext_ok ok elm m) xs"
    using assms by (auto simp: seq_ok_def seq_td_ok_def Let_def list_all_iff specs_def es_def n_def rs_def xs_def)
  have fs: "map fst rs = take n es" "map snd rs = take n ms" "map fst xs = drop n es" "map snd xs = drop n ms" "length xs = length es - n"
    using t by (simp_all add: rs_def xs_def seq_roots_def seq_exts_def es_def n_def)
  have le: "ext \<Longrightarrow> 1 \<le> length xs" by (cases xs) (auto simp: ext_def seq_extended_def xs_def)
  define fe where "fe = (first_extension specs < 0)"
  have fx: "fe \<Longrightarrow> \<not> ext" by (simp add: fe_def ext_def seq_extended_def seq_exts_def seq_root_count_def specs_def)
  define rb where "rb = concat (map (\<lambda>(elm, m). seq_member_bits wire elm m) rs)"
  define xb where "xb = (if ext then nat_bits 7 (length xs - 1) @ seq_ext_map xs @ concat (map (\<lambda>(elm, m). seq_ext_bits wire elm m) xs) else [])"
  define eb where "eb = (if fe then [] else [ext])"
  have w: "seq_wire wire td ms = eb @ seq_opt_bits rs @ rb @ xb"
    unfolding seq_wire_def eb_def fe_def specs_def rs_def xs_def ext_def rb_def xb_def by (rule refl)
  obtain pd1 where g1: "(if fe then (0, pd) else asn_get_few_bits pd 1) = (if ext then 1 else 0, pd1)" "pd_adv pd (length eb) pd1"
      "pd_bits pd1 = seq_opt_bits rs @ rb @ xb @ rest"
  proof (cases fe)
    case True
    then show thesis using that [of pd] pb w pd_adv_refl [OF wf] fx by (simp add: eb_def)
  next
    case False
    have "pd_bits pd = ext # seq_opt_bits rs @ rb @ xb @ rest" using pb w False by (simp add: eb_def)
    then show thesis using get_bit_prefix [OF wf] that False by (metis eb_def length_Cons list.size(3) One_nat_def)
  qed
  have lo: "length (seq_opt_bits rs) = roms_count specs"
    using arg_cong [OF seq_opt_index [OF t(1,3)], of length] t(4) by (simp add: rs_def seq_roots_def es_def n_def)
  obtain opres pd2 where g2: "(if roms_count specs \<noteq> 0 then asn_get_many_bits pd1 False (int (roms_count specs)) else (0, [], pd1)) = (0, opres, pd2)"
      "pd_adv pd1 (length (seq_opt_bits rs)) pd2" "pd_bits pd2 = rb @ xb @ rest"
      "bytes_bits opres = seq_opt_bits rs @ replicate (pad8 (length (seq_opt_bits rs))) False"
  proof (cases "roms_count specs = 0")
    case True
    then show thesis using that [of "[]" pd1] g1(3) lo pd_adv_refl [OF pd_adv_wf [OF g1(2)]] by (simp add: pad8_def)
  next
    case False
    then show thesis using get_many_bits_prefix [OF pd_adv_wf [OF g1(2)] g1(3), of "int (roms_count specs)"] lo that by auto
  qed
  note bm = seq_bitmap_spec [OF g2(4) lo]
  obtain pd3 where g3: "seq_get_root dec (take n es) (seq_bitmap opres (roms_count specs)) pd2 = (Inr (take n ms), pd3)" "pd_adv pd2 (length rb) pd3"
    using get_root_result [OF bm(1) _ pd_adv_wf [OF g2(2)] g2(3) [unfolded rb_def] rok] bm(2) fs unfolding rb_def by fastforce
  have pb3: "pd_bits pd3 = xb @ rest" using pd_adv_bits [OF g3(2)] g2(3) by simp
  obtain pd4 where g4: "(if ext then seq_get_extensions dec (drop n es) pd3 else (Inr (replicate (length es - n) None), pd3)) = (Inr (drop n ms), pd4)"
      "pd_adv pd3 (length xb) pd4"
  proof (cases ext)
    case True
    then show thesis
      using get_extensions_result [OF pd_adv_wf [OF g3(2)] le _ xok, of rest] fs t(2) pb3 that by (auto simp: xb_def)
  next
    case False
    then have "drop n ms = replicate (length es - n) None"
      unfolding fs(4) [symmetric] fs(5) [symmetric]
      by (intro replicate_eqI) (auto simp: ext_def seq_extended_def list_ex_iff xs_def [symmetric])
    then show thesis using False that [of pd3] pd_adv_refl [OF pd_adv_wf [OF g3(2)]] by (simp add: xb_def)
  qed
  have fill: "seq_fill_defaults es (take (aoms_count specs) (drop (roms_count specs) (oms specs))) ms = ms"
  proof (rule fill_defaults_id)
    have "elm_default (es ! i) = None" if "n \<le> i" "i < length es" "ms ! i = None" for i
    proof -
      have "xs ! (i - n) = (es ! i, ms ! i)" "i - n < length xs"
        using that t(1,3) fs(5) by (auto simp: xs_def seq_exts_def es_def n_def)
      then have "seq_ext_ok ok (es ! i) (ms ! i)" using xok by (metis (mono_tags) list_all_length case_prod_conv)
      then show ?thesis using that(3) by (simp add: seq_ext_ok_def)
    qed
    then show "list_all (\<lambda>i. i < length ms \<and> (ms ! i = None \<longrightarrow> elm_default (es ! i) = None))
        (take (aoms_count specs) (drop (roms_count specs) (oms specs)))"
      using t(3,5) unfolding list_all_iff by auto
  qed
  have ez: "((if ext then 1 else 0 :: int) \<noteq> 0) = ext" "\<not> (if ext then 1 else 0 :: int) < 0" "\<not> (0 :: int) \<noteq> 0" by auto
  have "SEQUENCE_decode_uper dec td c pd = (RC_OK (V_SEQUENCE ms) 0, pd4)"
    unfolding SEQUENCE_decode_uper_def Let_def specs_def [symmetric] es_def [symmetric] n_def [symmetric] fe_def [symmetric]
      g1(1) prod.case if_not_P [OF ez(2)] g2(1) if_not_P [OF ez(3)] g3(1) sum.case ez(1) g4(1)
    using fill by simp
  then show "\<exists>pd'. SEQUENCE_decode_uper dec td c pd = (RC_OK (V_SEQUENCE ms) 0, pd') \<and> pd_adv pd (length (seq_wire wire td ms)) pd'"
    using pd_adv_trans [OF g1(2) pd_adv_trans [OF g2(2) pd_adv_trans [OF g3(2) g4(2)]]] w by auto
qed

lemma get_root_moves: "pd_wf pd \<Longrightarrow> seq_get_root dec elms opmd pd = (r, pd') \<Longrightarrow> pd_moves pd pd'"
proof (induction elms arbitrary: opmd pd r pd')
  case (Cons elm elms)
  obtain p opmd1 where o: "(if elm_optional elm then asn_get_few_bits opmd 1 else (1, opmd)) = (p, opmd1)" by force
  obtain d pd1 where d: "dec (elm_type elm) (elm_per_constraints elm) pd = (d, pd1)" by force
  have m1: "pd_moves pd pd1" by (rule safe_decoderD [OF dec_safe Cons.prems(1) d])
  obtain r2 pd2 where e: "seq_get_root dec elms opmd1 pd1 = (r2, pd2)" by force
  have m2: "pd_moves pd pd2" using Cons.IH [OF pd_moves_wf [OF m1] e] m1 pd_moves_trans by blast
  show ?case using Cons.prems m1 m2 e Cons.IH
    by (auto simp: o d split: if_splits asn_dec_rval.splits sum.splits prod.splits)
qed (auto intro: pd_moves_refl)

lemma get_ext_moves: "pd_wf pd \<Longrightarrow> seq_get_ext dec elms epmd pd = (r, pd') \<Longrightarrow> pd_moves pd pd'"
proof (induction elms arbitrary: epmd pd r pd')
  case (Cons elm elms)
  obtain p opmd1 where o: "asn_get_few_bits epmd 1 = (p, opmd1)" by force
  obtain d pd1 where d: "uper_open_type_get (dec (elm_type elm) (elm_per_constraints elm)) pd = (d, pd1)" by force
  have m1: "pd_moves pd pd1" by (rule safe_decoderD [OF open_type_get_safe Cons.prems(1) d])
  obtain r2 pd2 where e: "seq_get_ext dec elms opmd1 pd1 = (r2, pd2)" by force
  have m2: "pd_moves pd pd2" using Cons.IH [OF pd_moves_wf [OF m1] e] m1 pd_moves_trans by blast
  show ?case using Cons.prems m1 m2 e Cons.IH pd_moves_refl [OF Cons.prems(1)]
    by (auto simp: o d split: if_splits asn_dec_rval.splits sum.splits prod.splits)
qed (auto intro: pd_moves_refl)

lemma skip_overflow_moves: "pd_wf pd \<Longrightarrow> seq_skip_overflow epmd pd = (r, pd') \<Longrightarrow> pd_moves pd pd'"
proof (induction epmd pd arbitrary: r pd' rule: seq_skip_overflow.induct)
  case (1 epmd pd)
  obtain p epmd1 where o: "asn_get_few_bits epmd 1 = (p, epmd1)" by force
  obtain s pd1 where s: "uper_open_type_skip pd = (s, pd1)" by force
  have m1: "pd_moves pd pd1"
    using safe_decoderD [OF open_type_get_safe "1.prems"(1), of uper_sot_suck] s
    by (auto simp: uper_open_type_skip_def split: prod.splits asn_dec_rval.splits)
  have IH1: "pd_moves pd p'" if "p \<noteq> -1" "p = 0" "seq_skip_overflow epmd1 pd = (r', p')" for r' p'
    using "1.IH"(1) [OF o [symmetric] that(1,2) "1.prems"(1) that(3)] .
  have IH2: "pd_moves pd p'" if "p \<noteq> -1" "p \<noteq> 0" "\<not> s \<noteq> 0" "seq_skip_overflow epmd1 pd1 = (r', p')" for r' p'
    using "1.IH"(2) [OF o [symmetric] that(1,2) s [symmetric] that(3) pd_moves_wf [OF m1] that(4)] m1 pd_moves_trans by blast
  show ?case using "1.prems"(2) IH1 IH2 m1 pd_moves_refl [OF "1.prems"(1)]
    by (subst (asm) seq_skip_overflow.simps) (auto simp: o s split: if_splits)
qed

lemma get_extensions_moves:
  assumes "pd_wf pd" "seq_get_extensions dec elms pd = (r, pd')"
  shows "pd_moves pd pd'"
proof -
  obtain n pd1 where g: "uper_get_nslength pd = (n, pd1)" by force
  have m1: "pd_moves pd pd1" by (rule uper_get_nslength_moves [OF g assms(1)])
  obtain ret ep pd2 where h: "asn_get_many_bits pd1 False n = (ret, ep, pd2)" by (metis prod.collapse)
  have m2: "pd_moves pd pd2" using get_many_bits_moves [OF h pd_moves_wf [OF m1]] m1 pd_moves_trans by blast
  obtain e pd3 where i: "seq_get_ext dec elms (seq_bitmap ep (nat n)) pd2 = (e, pd3)" by force
  have m3: "pd_moves pd pd3" using get_ext_moves [OF pd_moves_wf [OF m2] i] m2 pd_moves_trans by blast
  have m4: "pd_moves pd p" if "seq_skip_overflow ep' pd3 = (x, p)" for ep' x p
    using skip_overflow_moves [OF pd_moves_wf [OF m3] that] m3 pd_moves_trans by blast
  show ?thesis using assms(2) m1 m2 m3 m4
    by (auto simp: seq_get_extensions_def g h i split: if_splits sum.splits prod.splits)
qed

lemma SEQUENCE_safe: "safe_decoder (SEQUENCE_decode_uper dec td c)"
proof (rule safe_decoderI)
  fix pd r pd' assume wf: "pd_wf pd" and d: "SEQUENCE_decode_uper dec td c pd = (r, pd')"
  define specs where "specs = seq_specs td"
  obtain x pd1 where g: "(if first_extension specs < 0 then (0, pd) else asn_get_few_bits pd 1) = (x, pd1)" by force
  have m1: "pd_moves pd pd1" using g get_few_bits_moves [OF _ wf] pd_moves_refl [OF wf] by (auto split: if_splits)
  obtain ret op pd2 where h: "(if roms_count specs \<noteq> 0 then asn_get_many_bits pd1 False (int (roms_count specs)) else (0, [], pd1)) = (ret, op, pd2)"
    by (metis prod.collapse)
  have m2: "pd_moves pd pd2"
    using h m1 get_many_bits_moves [OF _ pd_moves_wf [OF m1]] pd_moves_trans [OF m1] by (auto split: if_splits)
  obtain e pd3 where i: "seq_get_root dec (take (seq_root_count td) (td_elements td)) (seq_bitmap op (roms_count specs)) pd2 = (e, pd3)" by force
  have m3: "pd_moves pd pd3" using get_root_moves [OF pd_moves_wf [OF m2] i] m2 pd_moves_trans by blast
  have m4: "pd_moves pd p" if "seq_get_extensions dec els pd3 = (y, p)" for els y p
    using get_extensions_moves [OF pd_moves_wf [OF m3] that] m3 pd_moves_trans by blast
  show "pd_moves pd pd'" using d m1 m2 m3 m4
    unfolding SEQUENCE_decode_uper_def Let_def specs_def [symmetric] g prod.case h i
    by (auto split: if_splits sum.splits prod.splits)
qed

end

end
