(* ===== verification/Choice.thy ===== *)
theory Choice
  imports Sequence
begin

text \<open>
  CHOICE (\<open>constr_CHOICE.c\<close>). The presence index is the number in the structure: zero for
  "nothing", otherwise one more than the position of the member in \<open>td->elements\<close>.

  The arrays \<open>td->elements\<close> and \<open>specs->*_canonical_order\<close> are only read inside their bounds when
  the descriptor is consistent (\<open>choice_td_ok\<close>, \<open>choice_get_index_range\<close>); outside, the C program
  is undefined and the model fails.
\<close>

section \<open>Definitions\<close>

definition choice_specs :: "asn_TYPE_descriptor \<Rightarrow> asn_CHOICE_specifics" where
  "choice_specs td =
     (case td_specifics td of
        SPC_CHOICE s \<Rightarrow> s
      | _ \<Rightarrow> \<lparr>to_canonical_order = None, from_canonical_order = None, ext_start = -1\<rparr>)"

definition choice_order :: "nat list option \<Rightarrow> nat \<Rightarrow> nat" where
  "choice_order ord i = (case ord of None \<Rightarrow> i | Some xs \<Rightarrow> if i < length xs then xs ! i else i)"

text \<open>The index of an extension alternative.\<close>

definition choice_get_ext :: "asn_TYPE_descriptor \<Rightarrow> asn_bit_data \<Rightarrow> (asn_dec_rval + nat \<times> bool) \<times> asn_bit_data" where
  "choice_get_ext td pd =
     (if ext_start (choice_specs td) = -1 then (Inl RC_FAIL, pd)
      else
        (case uper_get_nsnnwn pd of
           (v, pd) \<Rightarrow>
             if v < 0 then (Inl RC_WMORE, pd)
             else
               let v = v + ext_start (choice_specs td)
               in if v < 0 \<or> v \<ge> int (length (td_elements td)) then (Inl RC_FAIL, pd)
                  else (Inr (nat v, False), pd)))"

text \<open>
  The first half of the decoder: the index on the wire, and whether it is an alternative of the root.
\<close>

definition choice_get_index ::
  "asn_TYPE_descriptor \<Rightarrow> asn_per_constraints option \<Rightarrow> asn_bit_data
   \<Rightarrow> (asn_dec_rval + nat \<times> bool) \<times> asn_bit_data" where
  "choice_get_index td constraints pd =
     (let ct = value_constraint td constraints
      in case (case ct of
                 Some c \<Rightarrow> if APC_EXTENSIBLE c then asn_get_few_bits pd 1 else (0, pd)
               | None \<Rightarrow> (0, pd)) of
           (v, pd) \<Rightarrow>
             if v < 0 then (Inl RC_WMORE, pd)
             else
               (case (if v \<noteq> 0 then None else ct) of
                  Some c \<Rightarrow>
                    if range_bits c \<ge> 0 then
                      (case asn_get_few_bits pd (range_bits c) of
                         (v, pd) \<Rightarrow>
                           if v < 0 then (Inl RC_WMORE, pd)
                           else if v > upper_bound c then (Inl RC_FAIL, pd)
                           else (Inr (nat v, True), pd))
                    else choice_get_ext td pd
                | None \<Rightarrow> choice_get_ext td pd))"

definition CHOICE_decode_uper :: "uper_decoder \<Rightarrow> uper_decoder" where
  "CHOICE_decode_uper dec td constraints pd =
     (case choice_get_index td constraints pd of
        (Inl e, pd) \<Rightarrow> (e, pd)
      | (Inr (v, root), pd) \<Rightarrow>
          let v = choice_order (from_canonical_order (choice_specs td)) v
          in if v \<ge> length (td_elements td) then (RC_FAIL, pd)
             else
               let elm = td_elements td ! v;
                   d = dec (elm_type elm) (elm_per_constraints elm)
               in case (if root then d pd else uper_open_type_get d pd) of
                    (RC_OK m consumed, pd) \<Rightarrow> (RC_OK (V_CHOICE (v + 1) (Some m)) consumed, pd)
                  | (e, pd) \<Rightarrow> (e, pd))"

definition choice_out_of_root :: "asn_per_constraint option \<Rightarrow> nat \<Rightarrow> bool" where
  "choice_out_of_root ct present_enc \<longleftrightarrow>
     (case ct of
        None \<Rightarrow> False
      | Some c \<Rightarrow> range_bits c \<ge> 0 \<and> (int present_enc < lower_bound c \<or> int present_enc > upper_bound c))"

definition choice_put_ext ::
  "asn_CHOICE_specifics \<Rightarrow> nat \<Rightarrow> (asn_bit_outp \<Rightarrow> int \<times> asn_bit_outp) \<Rightarrow> asn_bit_outp \<Rightarrow> int \<times> asn_bit_outp" where
  "choice_put_ext specs present_enc e po =
     (if ext_start specs = -1 then (-1, po)
      else
        (case uper_put_nsnnwn po (int present_enc - ext_start specs) of
           (r, po) \<Rightarrow>
             if r \<noteq> 0 then (-1, po)
             else (case uper_open_type_put e po of (r, po) \<Rightarrow> if r \<noteq> 0 then (-1, po) else (0, po))))"

definition CHOICE_encode_uper :: "uper_encoder \<Rightarrow> uper_encoder" where
  "CHOICE_encode_uper enc td constraints sptr po =
     (case sptr of
        V_CHOICE present memb \<Rightarrow>
          if present = 0 \<or> present > length (td_elements td) then (-1, po)
          else
            let present = present - 1;
                specs = choice_specs td;
                ct = value_constraint td constraints;
                present_enc = choice_order (to_canonical_order specs) present;
                ext = choice_out_of_root ct present_enc;
                ct_extensible = (case ct of None \<Rightarrow> False | Some c \<Rightarrow> APC_EXTENSIBLE c)
            in if ext \<and> \<not> ct_extensible then (-1, po)
               else
                 (case (if ct_extensible then asn_put_few_bits po (if ext then 1 else 0) 1 else (0, po)) of
                    (r, po) \<Rightarrow>
                      if r \<noteq> 0 then (-1, po)
                      else
                        let elm = td_elements td ! present
                        in case memb of
                             None \<Rightarrow> (-1, po)
                           | Some m \<Rightarrow>
                               let e = enc (elm_type elm) (elm_per_constraints elm) m
                               in case (if ext then None else ct) of
                                    Some c \<Rightarrow>
                                      if range_bits c \<ge> 0 then
                                        (case asn_put_few_bits po (word_of_nat present_enc) (range_bits c) of
                                           (r, po) \<Rightarrow> if r \<noteq> 0 then (-1, po) else e po)
                                      else choice_put_ext specs present_enc e po
                                  | None \<Rightarrow> choice_put_ext specs present_enc e po)
      | _ \<Rightarrow> (-1, po))"

section \<open>What is on the wire\<close>

definition choice_ct_extensible :: "asn_per_constraint option \<Rightarrow> bool" where
  "choice_ct_extensible ct = (case ct of None \<Rightarrow> False | Some c \<Rightarrow> APC_EXTENSIBLE c)"

text \<open>Alternatives of the root have an index of \<open>range_bits\<close> bits, others are open types.\<close>

definition choice_rooted :: "asn_per_constraint option \<Rightarrow> nat \<Rightarrow> bool" where
  "choice_rooted ct i \<longleftrightarrow> (case ct of None \<Rightarrow> False | Some c \<Rightarrow> range_bits c \<ge> 0) \<and> \<not> choice_out_of_root ct i"

definition choice_wire ::
  "(asn_TYPE_descriptor \<Rightarrow> asn_per_constraints option \<Rightarrow> asn_value \<Rightarrow> bits)
   \<Rightarrow> asn_TYPE_descriptor \<Rightarrow> asn_per_constraints option \<Rightarrow> nat \<Rightarrow> asn_value \<Rightarrow> bits" where
  "choice_wire wire td c present m =
     (let ct = value_constraint td c;
          i = choice_order (to_canonical_order (choice_specs td)) (present - 1);
          elm = td_elements td ! (present - 1);
          w = wire (elm_type elm) (elm_per_constraints elm) m
      in (if choice_ct_extensible ct then [choice_out_of_root ct i] else [])
         @ (if choice_rooted ct i then nat_bits (nat (range_bits (the ct))) i @ w
            else nat_bits 7 (nat (int i - ext_start (choice_specs td))) @ open_type_bits w))"

definition choice_ok ::
  "(asn_TYPE_descriptor \<Rightarrow> asn_per_constraints option \<Rightarrow> asn_value \<Rightarrow> bool)
   \<Rightarrow> asn_TYPE_descriptor \<Rightarrow> asn_per_constraints option \<Rightarrow> nat \<Rightarrow> asn_value \<Rightarrow> bool" where
  "choice_ok ok td c present m \<longleftrightarrow>
     (let ct = value_constraint td c; s = choice_specs td;
          i = choice_order (to_canonical_order s) (present - 1);
          elm = td_elements td ! (present - 1)
      in 1 \<le> present \<and> present \<le> length (td_elements td)
         \<and> choice_order (from_canonical_order s) i = present - 1
         \<and> (choice_out_of_root ct i \<longrightarrow> choice_ct_extensible ct)
         \<and> (if choice_rooted ct i then range_bits (the ct) \<le> 16 \<and> i < 2 ^ nat (range_bits (the ct))
            else ext_start s \<noteq> -1 \<and> ext_start s \<le> int i \<and> int i - ext_start s \<le> 63 \<and> i < length (td_elements td))
         \<and> ok (elm_type elm) (elm_per_constraints elm) m)"

definition choice_used ::
  "(asn_TYPE_descriptor \<Rightarrow> asn_per_constraints option \<Rightarrow> asn_value \<Rightarrow> nat)
   \<Rightarrow> asn_TYPE_descriptor \<Rightarrow> nat \<Rightarrow> asn_value \<Rightarrow> nat" where
  "choice_used used td present m =
     used (elm_type (td_elements td ! (present - 1))) (elm_per_constraints (td_elements td ! (present - 1))) m"

section \<open>CHOICE\<close>

context uper_members
begin

lemma CHOICE_encodes:
  assumes ok: "choice_ok ok td c present m"
  shows "encodes (CHOICE_encode_uper enc td c (V_CHOICE present (Some m))) (choice_wire wire td c present m)"
  unfolding encodes_def
proof (intro allI impI)
  fix po assume wf: "po_wf po"
  define ct s i elm where "ct = value_constraint td c" and "s = choice_specs td"
    and "i = choice_order (to_canonical_order (choice_specs td)) (present - 1)" and "elm = td_elements td ! (present - 1)"
  define e w where "e = enc (elm_type elm) (elm_per_constraints elm) m" and "w = wire (elm_type elm) (elm_per_constraints elm) m"
  define out xt where "out = choice_out_of_root ct i" and "xt = choice_ct_extensible ct"
  note D = ct_def [symmetric] i_def [symmetric] elm_def [symmetric] e_def [symmetric] w_def [symmetric] out_def [symmetric]
  have o: "1 \<le> present" "present \<le> length (td_elements td)" "out \<longrightarrow> xt" "ok (elm_type elm) (elm_per_constraints elm) m"
      "choice_rooted ct i \<Longrightarrow> range_bits (the ct) \<le> 16 \<and> i < 2 ^ nat (range_bits (the ct))"
      "\<not> choice_rooted ct i \<Longrightarrow> ext_start s \<noteq> -1 \<and> ext_start s \<le> int i \<and> int i - ext_start s \<le> 63"
    using ok unfolding choice_ok_def Let_def D xt_def s_def by (simp_all split: if_splits)
  have ee: "encodes e w" unfolding e_def w_def by (rule enc_wire [OF o(4)])
  define rest where "rest po = (case (if out then None else ct) of
      Some c \<Rightarrow> if range_bits c \<ge> 0 then (case asn_put_few_bits po (word_of_nat i) (range_bits c) of
           (r, po) \<Rightarrow> if r \<noteq> 0 then (-1, po) else e po) else choice_put_ext s i e po
      | None \<Rightarrow> choice_put_ext s i e po)" for po
  have r: "put_result po1 (if choice_rooted ct i then nat_bits (nat (range_bits (the ct))) i @ w
      else nat_bits 7 (nat (int i - ext_start s)) @ open_type_bits w) (rest po1)" if w1: "po_wf po1" for po1
  proof (cases "choice_rooted ct i")
    case True
    then obtain k where k: "ct = Some k" "0 \<le> range_bits k" "\<not> out"
      by (auto simp: choice_rooted_def out_def split: option.splits)
    define n where "n = nat (range_bits k)"
    have n: "range_bits k = int n" "n \<le> 16" "i < 2 ^ n" using k o(5) [OF True] by (auto simp: n_def)
    have "(2 :: nat) ^ n \<le> 2 ^ 16" using n(2) by (intro power_increasing) auto
    then have p: "put_result po1 (nat_bits n i) (asn_put_few_bits po1 (word_of_nat i) (int n))"
      using n by (intro put_few_nat_result w1) auto
    show ?thesis using put_result_seq [OF p encodesD [OF ee]] True k n(1)
      by (simp add: rest_def case_prod_beta)
  next
    case False
    have x: "rest po1 = choice_put_ext s i e po1"
      using False by (auto simp: rest_def choice_rooted_def out_def split: option.splits)
    note n = o(6) [OF False]
    have p: "put_result po1 (nat_bits 7 (nat (int i - ext_start s))) (uper_put_nsnnwn po1 (int i - ext_start s))"
      using n by (intro put_nsnnwn_result w1) auto
    have q: "put_result po2 (open_type_bits w) (if fst (uper_open_type_put e po2) \<noteq> 0 then (-1, snd (uper_open_type_put e po2))
        else (0, snd (uper_open_type_put e po2)))" if "po_wf po2" for po2
      by (rule put_result_norm [OF encodesD [OF open_type_put_encodes [OF ee] that]])
    show ?thesis unfolding x if_not_P [OF False] choice_put_ext_def case_prod_beta
      using put_result_seq [OF p q] n by simp
  qed
  have w: "choice_wire wire td c present m = (if xt then [out] else []) @ (if choice_rooted ct i
      then nat_bits (nat (range_bits (the ct))) i @ w else nat_bits 7 (nat (int i - ext_start s)) @ open_type_bits w)"
    unfolding choice_wire_def Let_def D xt_def s_def by (rule refl)
  have gd: "(present = 0 \<or> present > length (td_elements td)) = False" "(out \<and> \<not> xt) = False" using o(1-3) by auto
  have eq: "CHOICE_encode_uper enc td c (V_CHOICE present (Some m)) po =
      (case (if xt then asn_put_few_bits po (if out then 1 else 0) 1 else (0, po)) of
         (r, po) \<Rightarrow> if r \<noteq> 0 then (-1, po) else rest po)"
    unfolding CHOICE_encode_uper_def Let_def asn_value.case gd(1) if_False D choice_ct_extensible_def [symmetric] xt_def [symmetric] gd(2)
      option.case rest_def s_def by (rule refl)
  show "put_result po (choice_wire wire td c present m) (CHOICE_encode_uper enc td c (V_CHOICE present (Some m)) po)"
  proof (cases xt)
    case True
    show ?thesis unfolding w eq if_P [OF True] case_prod_beta
      by (rule put_result_seq [OF put_bit_result [OF wf]]) (rule r)
  next
    case False
    then show ?thesis unfolding w eq if_not_P [OF False] using r [OF wf] by simp
  qed
qed

lemma CHOICE_safe: "safe_decoder (CHOICE_decode_uper dec td c)"
proof (rule safe_decoderI)
  fix pd r pd' assume wf: "pd_wf pd" and d: "CHOICE_decode_uper dec td c pd = (r, pd')"
  have ge: "pd_moves pd p2" if "choice_get_ext td p = (x, p2)" "pd_moves pd p" for x p p2
    using that uper_get_nsnnwn_moves [OF _ pd_moves_wf [OF that(2)]] pd_moves_trans [OF that(2)]
    by (auto simp: choice_get_ext_def Let_def split: if_splits prod.splits)
  obtain x pd1 where g: "choice_get_index td c pd = (x, pd1)" by force
  obtain v p where v: "(case value_constraint td c of Some c \<Rightarrow> if APC_EXTENSIBLE c then asn_get_few_bits pd 1 else (0, pd) | None \<Rightarrow> (0, pd)) = (v, p)"
    by force
  have mp: "pd_moves pd p" using v get_few_bits_moves [OF _ wf] pd_moves_refl [OF wf] by (auto split: option.splits if_splits)
  have gf: "pd_moves pd p2" if "asn_get_few_bits p n = (y, p2)" for n y p2
    using get_few_bits_moves [OF that pd_moves_wf [OF mp]] mp pd_moves_trans by blast
  have m1: "pd_moves pd pd1" using g mp ge [OF _ mp] gf unfolding choice_get_index_def Let_def v
    by (auto split: if_splits option.splits prod.splits)
  have m2: "pd_moves pd p2" if "dec td' c' pd1 = (y, p2)" for td' c' y p2
    using safe_decoderD [OF dec_safe pd_moves_wf [OF m1] that] m1 pd_moves_trans by blast
  have m3: "pd_moves pd p2" if "uper_open_type_get (dec td' c') pd1 = (y, p2)" for td' c' y p2
    using safe_decoderD [OF open_type_get_safe pd_moves_wf [OF m1] that] m1 pd_moves_trans by blast
  show "pd_moves pd pd'" using d m1 m2 m3
    by (auto simp: CHOICE_decode_uper_def g Let_def split: if_splits sum.splits prod.splits asn_dec_rval.splits)
qed

end

text \<open>For a consistent descriptor the decoder never leaves the arrays.\<close>

definition choice_td_ok :: "asn_TYPE_descriptor \<Rightarrow> asn_per_constraints option \<Rightarrow> bool" where
  "choice_td_ok td c \<longleftrightarrow>
     (case value_constraint td c of None \<Rightarrow> True | Some k \<Rightarrow> upper_bound k < int (length (td_elements td)))
     \<and> (case from_canonical_order (choice_specs td) of
          None \<Rightarrow> True
        | Some xs \<Rightarrow> length xs = length (td_elements td) \<and> list_all (\<lambda>i. i < length (td_elements td)) xs)"

lemma choice_get_index_range:
  assumes "choice_td_ok td c" "choice_get_index td c pd = (Inr (v, root), pd')"
  shows "v < length (td_elements td)"
    "choice_order (from_canonical_order (choice_specs td)) v < length (td_elements td)"
    "case from_canonical_order (choice_specs td) of None \<Rightarrow> True | Some xs \<Rightarrow> v < length xs"
proof -
  have x: "v < length (td_elements td)" if "choice_get_ext td p = (Inr (v, root), pd')" for p
    using that by (auto simp: choice_get_ext_def Let_def split: if_splits prod.splits)
  show v: "v < length (td_elements td)"
    using assms x unfolding choice_get_index_def Let_def choice_td_ok_def
    by (auto split: if_splits prod.splits option.splits)
  then show "choice_order (from_canonical_order (choice_specs td)) v < length (td_elements td)"
    "case from_canonical_order (choice_specs td) of None \<Rightarrow> True | Some xs \<Rightarrow> v < length xs"
    using assms(1) by (auto simp: choice_td_ok_def choice_order_def list_all_length split: option.splits)
qed

context uper_members
begin

lemma CHOICE_decodes:
  assumes ok: "choice_ok ok td c present m"
  shows "decodes (CHOICE_decode_uper dec td c) (choice_wire wire td c present m) (V_CHOICE present (Some m)) (choice_used used td present m)"
  unfolding decodes_def
proof (intro allI impI)
  fix pd rest assume wf: "pd_wf pd" and pb: "pd_bits pd = choice_wire wire td c present m @ rest"
  define ct s i elm where "ct = value_constraint td c" and "s = choice_specs td"
    and "i = choice_order (to_canonical_order (choice_specs td)) (present - 1)" and "elm = td_elements td ! (present - 1)"
  define w where "w = wire (elm_type elm) (elm_per_constraints elm) m"
  define out xt where "out = choice_out_of_root ct i" and "xt = choice_ct_extensible ct"
  note D = ct_def [symmetric] i_def [symmetric] elm_def [symmetric] w_def [symmetric] out_def [symmetric]
  have o: "1 \<le> present" "present \<le> length (td_elements td)" "out \<longrightarrow> xt" "ok (elm_type elm) (elm_per_constraints elm) m"
      "choice_order (from_canonical_order s) i = present - 1"
      "choice_rooted ct i \<Longrightarrow> range_bits (the ct) \<le> 16 \<and> i < 2 ^ nat (range_bits (the ct))"
      "\<not> choice_rooted ct i \<Longrightarrow> ext_start s \<noteq> -1 \<and> ext_start s \<le> int i \<and> int i - ext_start s \<le> 63 \<and> i < length (td_elements td)"
    using ok unfolding choice_ok_def Let_def D xt_def s_def by (simp_all split: if_splits)
  define x where "x = (if xt then [out] else [])"
  define idx where "idx = (if choice_rooted ct i then nat_bits (nat (range_bits (the ct))) i else nat_bits 7 (nat (int i - ext_start s)))"
  define body where "body = (if choice_rooted ct i then w else open_type_bits w)"
  have wr: "choice_wire wire td c present m = x @ idx @ body"
    unfolding choice_wire_def Let_def D unfolding xt_def [symmetric] s_def [symmetric] x_def idx_def body_def by simp
  obtain pd1 where g: "(case ct of Some c \<Rightarrow> if APC_EXTENSIBLE c then asn_get_few_bits pd 1 else (0, pd) | None \<Rightarrow> (0, pd)) = (if out then 1 else 0, pd1)"
      "pd_adv pd (length x) pd1" "pd_wf pd1" "pd_bits pd1 = idx @ body @ rest"
  proof (cases xt)
    case True
    have "pd_bits pd = out # idx @ body @ rest" using pb wr True by (simp add: x_def)
    then obtain p where "asn_get_few_bits pd 1 = (if out then 1 else 0, p)" "pd_adv pd 1 p" "pd_wf p" "pd_bits p = idx @ body @ rest"
      using get_bit_prefix [OF wf] by metis
    then show thesis using that [of p] True by (auto simp: xt_def choice_ct_extensible_def x_def split: option.splits)
  next
    case False
    then show thesis using that [of pd] wf pb wr o(3) pd_adv_refl [OF wf]
      by (auto simp: xt_def choice_ct_extensible_def x_def split: option.splits)
  qed
  obtain pd2 where h: "choice_get_index td c pd = (Inr (i, choice_rooted ct i), pd2)" "pd_adv pd1 (length idx) pd2" "pd_bits pd2 = body @ rest"
  proof (cases "choice_rooted ct i")
    case True
    then obtain k where k: "ct = Some k" "0 \<le> range_bits k" "\<not> out" "int i \<le> upper_bound k"
      by (auto simp: choice_rooted_def out_def choice_out_of_root_def split: option.splits)
    have pk: "pd_bits pd1 = nat_bits (nat (range_bits k)) i @ body @ rest" using g(4) True k(1) by (simp add: idx_def)
    have "i < 2 ^ nat (range_bits k)" "range_bits k \<le> 31" using o(6) [OF True] k(1) by auto
    then obtain pd2 where q: "asn_get_few_bits pd1 (range_bits k) = (int i, pd2)" "pd_adv pd1 (nat (range_bits k)) pd2" "pd_bits pd2 = body @ rest"
      using get_few_nat_prefix [OF g(3) pk _ k(2)] by blast
    have "choice_get_index td c pd = (Inr (i, choice_rooted ct i), pd2)"
      unfolding choice_get_index_def Let_def ct_def [symmetric] g(1) using q(1) k True by simp
    then show thesis using that q True k(1) by (simp add: idx_def)
  next
    case False
    note n = o(7) [OF False]
    have pk: "pd_bits pd1 = nat_bits 7 (nat (int i - ext_start s)) @ body @ rest" using g(4) False by (simp add: idx_def)
    obtain pd2 where q: "uper_get_nsnnwn pd1 = (int (nat (int i - ext_start s)), pd2)" "pd_adv pd1 7 pd2"
      by (rule get_nsnnwn_result [OF g(3) pk]) (use n in linarith, blast)
    have e: "choice_get_ext td pd1 = (Inr (i, False), pd2)"
      using q(1) n by (simp add: choice_get_ext_def s_def [symmetric])
    have "choice_get_index td c pd = choice_get_ext td pd1"
      unfolding choice_get_index_def Let_def ct_def [symmetric] g(1) using False
      by (auto simp: choice_rooted_def out_def split: option.splits)
    then show thesis using that e False q(2) pk pd_adv_bits [OF q(2)] by (simp add: idx_def)
  qed
  have vb: "\<not> present - 1 \<ge> length (td_elements td)" "present - 1 + 1 = present" using o(1,2) by auto
  define d where "d = dec (elm_type elm) (elm_per_constraints elm)"
  obtain pd3 where b: "(if choice_rooted ct i then d pd2 else uper_open_type_get d pd2) = (RC_OK m (choice_used used td present m), pd3)"
      "pd_adv pd2 (length body) pd3"
  proof (cases "choice_rooted ct i")
    case True
    then have "pd_bits pd2 = w @ rest" using h(3) by (simp add: body_def)
    then obtain p where "d pd2 = (RC_OK m (used (elm_type elm) (elm_per_constraints elm) m), p)" "pd_adv pd2 (length w) p"
      using decodesE [OF dec_wire [OF o(4)] pd_adv_wf [OF h(2)]] unfolding w_def d_def by blast
    then show thesis using that True by (simp add: body_def choice_used_def elm_def)
  next
    case False
    then have "pd_bits pd2 = open_type_bits w @ rest" using h(3) by (simp add: body_def)
    then obtain p where "uper_open_type_get d pd2 = (RC_OK m (used (elm_type elm) (elm_per_constraints elm) m), p)" "pd_adv pd2 (length (open_type_bits w)) p"
      using decodesE [OF open_dec [OF o(4)] pd_adv_wf [OF h(2)]] unfolding w_def d_def by blast
    then show thesis using that False by (simp add: body_def choice_used_def elm_def)
  qed
  have "CHOICE_decode_uper dec td c pd = (RC_OK (V_CHOICE present (Some m)) (choice_used used td present m), pd3)"
    unfolding CHOICE_decode_uper_def h(1) Let_def prod.case sum.case s_def [symmetric] o(5) if_not_P [OF vb(1)] elm_def [symmetric]
      d_def [symmetric] b(1) asn_dec_rval.case vb(2) by (rule refl)
  then show "\<exists>pd'. CHOICE_decode_uper dec td c pd = (RC_OK (V_CHOICE present (Some m)) (choice_used used td present m), pd')
      \<and> pd_adv pd (length (choice_wire wire td c present m)) pd'"
    using pd_adv_trans [OF g(2) pd_adv_trans [OF h(2) b(2)]] wr by auto
qed

end

end
