(* ===== verification/Set_Of.thy ===== *)
theory Set_Of
  imports Sequence
begin

text \<open>
  SEQUENCE OF and SET OF (\<open>constr_SEQUENCE_OF.c\<close>, \<open>constr_SET_OF.c\<close>, \<open>asn_SET_OF.c\<close>). Both types
  have the decoder \<open>SET_OF_decode_uper\<close>.

  The decoder gives up on a list of more than 200 elements as soon as an element reports that it
  consumed nothing (a guard against lists of NULL); \<open>so_ok\<close> excludes these lists.
\<close>

section \<open>The dynamic array\<close>

text \<open>
  \<open>asn_anonymous_set_\<close>: the array has \<open>size\<close> cells of which \<open>count\<close> are in use. A NULL pointer is
  \<open>None\<close>; a cell that was never written holds \<open>None\<close>, too.
\<close>

record 'a asn_anonymous_set =
  as_array :: "'a option list"
  as_count :: nat
  as_size :: nat

definition asn_set_add :: "'a asn_anonymous_set \<Rightarrow> 'a option \<Rightarrow> int \<times> 'a asn_anonymous_set" where
  "asn_set_add as ptr =
     (if ptr = None then (-1, as)
      else
        let as = (if as_count as = as_size as
                  then let newsize = (if as_size as \<noteq> 0 then 2 * as_size as else 4)
                       in as\<lparr>as_array := as_array as @ replicate (newsize - length (as_array as)) None, as_size := newsize\<rparr>
                  else as)
        in (0, as\<lparr>as_array := (as_array as)[as_count as := ptr], as_count := as_count as + 1\<rparr>))"

text \<open>The result names the element that is handed to \<open>as->free\<close>.\<close>

definition asn_set_del :: "'a asn_anonymous_set \<Rightarrow> int \<Rightarrow> bool \<Rightarrow> 'a option \<times> 'a asn_anonymous_set" where
  "asn_set_del as number do_free =
     (if number < 0 \<or> number \<ge> int (as_count as) then (None, as)
      else
        let ptr = (if do_free then as_array as ! nat number else None);
            n = as_count as - 1
        in (ptr, as\<lparr>as_array := (as_array as)[nat number := as_array as ! n], as_count := n\<rparr>))"

definition asn_sequence_del :: "'a asn_anonymous_set \<Rightarrow> int \<Rightarrow> bool \<Rightarrow> 'a option \<times> 'a asn_anonymous_set" where
  "asn_sequence_del as number do_free =
     (if number < 0 \<or> number \<ge> int (as_count as) then (None, as)
      else
        let ptr = (if do_free then as_array as ! nat number else None);
            n = as_count as - 1
        in (ptr, as\<lparr>as_array := fold (\<lambda>i a. a[i := a ! (i + 1)]) [nat number..<n] (as_array as), as_count := n\<rparr>))"

definition asn_set_empty :: "'a asn_anonymous_set \<Rightarrow> 'a option list \<times> 'a asn_anonymous_set" where
  "asn_set_empty as = (rev (take (as_count as) (as_array as)), \<lparr>as_array = [], as_count = 0, as_size = 0\<rparr>)"

section \<open>Codec definitions\<close>

definition so_elm :: "asn_TYPE_descriptor \<Rightarrow> asn_TYPE_member" where
  "so_elm td = hd (td_elements td)"

primrec so_get_elems ::
  "(asn_bit_data \<Rightarrow> asn_dec_rval \<times> asn_bit_data) \<Rightarrow> int \<Rightarrow> nat \<Rightarrow> asn_bit_data
   \<Rightarrow> (asn_dec_rval + asn_value list) \<times> asn_bit_data" where
  "so_get_elems d nelems 0 pd = (Inr [], pd)"
| "so_get_elems d nelems (Suc k) pd =
     (case d pd of
        (RC_OK v consumed, pd) \<Rightarrow>
          if consumed = 0 \<and> nelems > 200 then (Inl RC_FAIL, pd)
          else
            (case so_get_elems d nelems k pd of
               (Inl e, pd) \<Rightarrow> (Inl e, pd)
             | (Inr vs, pd) \<Rightarrow> (Inr (v # vs), pd))
      | (e, pd) \<Rightarrow> (Inl e, pd))"

definition SET_OF_decode_uper :: "uper_decoder \<Rightarrow> uper_decoder" where
  "SET_OF_decode_uper dec td constraints pd =
     (let elm = so_elm td;
          ct = size_constraint td constraints;
          body = (\<lambda>n. so_get_elems (dec (elm_type elm) (elm_per_constraints elm)) n (nat n))
      in case (case ct of
                 Some c \<Rightarrow> if APC_EXTENSIBLE c then asn_get_few_bits pd 1 else (0, pd)
               | None \<Rightarrow> (0, pd)) of
           (v, pd) \<Rightarrow>
             if v < 0 then (RC_WMORE, pd)
             else
               (case (case (if v \<noteq> 0 then None else ct) of
                        Some c \<Rightarrow>
                          if effective_bits c \<ge> 0 then
                            (case asn_get_few_bits pd (effective_bits c) of
                               (n, pd) \<Rightarrow> if n < 0 then (None, pd) else (Some (n + lower_bound c), pd))
                          else (Some (-1), pd)
                      | None \<Rightarrow> (Some (-1), pd)) of
                  (None, pd) \<Rightarrow> (RC_WMORE, pd)
                | (Some nelems, pd) \<Rightarrow>
                    (case (if nelems < 0 then get_blocks (Suc (pd_left pd)) (-1) 0 body pd else body nelems pd) of
                       (Inl e, pd) \<Rightarrow> (e, pd)
                     | (Inr vs, pd) \<Rightarrow> (RC_OK (V_LIST vs) 0, pd))))"

primrec so_put_elems ::
  "(asn_value \<Rightarrow> asn_bit_outp \<Rightarrow> int \<times> asn_bit_outp) \<Rightarrow> asn_bit_outp \<Rightarrow> asn_value list \<Rightarrow> int \<times> asn_bit_outp" where
  "so_put_elems e po [] = (0, po)"
| "so_put_elems e po (v # vs) =
     (case e v po of (r, po) \<Rightarrow> if r = -1 then (-1, po) else so_put_elems e po vs)"

text \<open>An empty list is the length determinant 0 only.\<close>

definition so_put_unbounded ::
  "(asn_bit_outp \<Rightarrow> 'a list \<Rightarrow> int \<times> asn_bit_outp) \<Rightarrow> 'a list \<Rightarrow> asn_bit_outp \<Rightarrow> int \<times> asn_bit_outp" where
  "so_put_unbounded body vs po =
     (if vs = [] then (case uper_put_length po 0 of (r, _, po) \<Rightarrow> if r \<noteq> 0 then (-1, po) else (0, po))
      else put_blocks body po vs)"

definition SEQUENCE_OF_encode_uper :: "uper_encoder \<Rightarrow> uper_encoder" where
  "SEQUENCE_OF_encode_uper enc td constraints sptr po =
     (case sptr of
        V_LIST vs \<Rightarrow>
          let elm = so_elm td;
              ct = size_constraint td constraints;
              count = int (length vs);
              body = so_put_elems (enc (elm_type elm) (elm_per_constraints elm));
              not_in_root = (case ct of None \<Rightarrow> False | Some c \<Rightarrow> count < lower_bound c \<or> count > upper_bound c);
              ct_extensible = (case ct of None \<Rightarrow> False | Some c \<Rightarrow> APC_EXTENSIBLE c)
          in if \<not> ct_extensible \<and> not_in_root \<and> effective_bits (the ct) \<ge> 0 then (-1, po)
             else
               (case (if ct_extensible then asn_put_few_bits po (if not_in_root then 1 else 0) 1 else (0, po)) of
                  (r, po) \<Rightarrow>
                    if r \<noteq> 0 then (-1, po)
                    else
                      (case (if ct_extensible \<and> not_in_root then None else ct) of
                         Some c \<Rightarrow>
                           if effective_bits c \<ge> 0 then
                             (case asn_put_few_bits po (word_of_int (count - lower_bound c)) (effective_bits c) of
                                (r, po) \<Rightarrow> if r \<noteq> 0 then (-1, po) else body po vs)
                           else so_put_unbounded body vs po
                       | None \<Rightarrow> so_put_unbounded body vs po))
      | _ \<Rightarrow> (-1, po))"

section \<open>The array as a list\<close>

text \<open>The contents of the set; adding appends, deleting removes one element.\<close>

definition as_wf :: "'a asn_anonymous_set \<Rightarrow> bool" where
  "as_wf as \<longleftrightarrow> length (as_array as) = as_size as \<and> as_count as \<le> as_size as
     \<and> list_all (\<lambda>p. p \<noteq> None) (take (as_count as) (as_array as))"

definition as_list :: "'a asn_anonymous_set \<Rightarrow> 'a option list" where
  "as_list as = take (as_count as) (as_array as)"

lemma set_add_spec:
  assumes "as_wf as" "ptr \<noteq> None" "asn_set_add as ptr = (r, as')"
  shows "r = 0" "as_wf as'" "as_list as' = as_list as @ [ptr]"
proof -
  define a1 where "a1 = (if as_count as = as_size as
      then let newsize = (if as_size as \<noteq> 0 then 2 * as_size as else 4)
           in as\<lparr>as_array := as_array as @ replicate (newsize - length (as_array as)) None, as_size := newsize\<rparr>
      else as)"
  have a1: "length (as_array a1) = as_size a1" "as_count a1 = as_count as" "as_count a1 < as_size a1"
      "take (as_count a1) (as_array a1) = as_list as"
    using assms(1) by (auto simp: a1_def as_wf_def as_list_def Let_def)
  have e: "as' = a1\<lparr>as_array := (as_array a1)[as_count a1 := ptr], as_count := as_count a1 + 1\<rparr>" "r = 0"
    using assms(2,3) by (auto simp: asn_set_add_def Let_def a1_def split: if_splits)
  have l: "as_list as' = as_list as @ [ptr]"
    using a1 by (simp add: e(1) as_list_def take_Suc_conv_app_nth)
  then show "r = 0" "as_list as' = as_list as @ [ptr]" using e(2) by auto
  show "as_wf as'" using l a1 assms(1,2) e(1) by (auto simp: as_wf_def as_list_def)
qed

lemma set_add_null: "asn_set_add as None = (-1, as)"
  by (simp add: asn_set_add_def)

lemma sequence_shift:
  "n < length a \<Longrightarrow> k \<le> n \<Longrightarrow> take n (fold (\<lambda>i a. a[i := a ! (i + 1)]) [k..<n] a) = take k a @ take (n - k) (drop (k + 1) a)
    \<and> length (fold (\<lambda>i a. a[i := a ! (i + 1)]) [k..<n] a) = length a
    \<and> drop n (fold (\<lambda>i a. a[i := a ! (i + 1)]) [k..<n] a) = drop n a"
proof (induction n)
  case (Suc n)
  show ?case
  proof (cases "k \<le> n")
    case True
    define b where "b = fold (\<lambda>i a. a[i := a ! (i + 1)]) [k..<n] a"
    have b: "take n b = take k a @ take (n - k) (drop (k + 1) a)" "length b = length a" "drop n b = drop n a"
      using Suc.IH Suc.prems(1) True unfolding b_def by auto
    have f: "fold (\<lambda>i a. a[i := a ! (i + 1)]) [k..<Suc n] a = b[n := b ! (n + 1)]"
      using True by (simp add: b_def)
    have nb: "b ! (n + 1) = a ! (n + 1)"
      using arg_cong [OF b(3), of "\<lambda>l. l ! 1"] Suc.prems(1) b(2) by simp
    have "take (Suc n) (b[n := b ! (n + 1)]) = take n b @ [b ! (n + 1)]"
      using Suc.prems(1) b(2) by (simp add: take_Suc_conv_app_nth)
    moreover have "take (Suc n - k) (drop (k + 1) a) = take (n - k) (drop (k + 1) a) @ [a ! (n + 1)]"
      using Suc.prems(1) True by (simp add: Suc_diff_le take_Suc_conv_app_nth)
    moreover have "drop (Suc n) (b[n := b ! (n + 1)]) = drop (Suc n) a"
      using arg_cong [OF b(3), of "drop 1"] by simp
    ultimately show ?thesis using f b(1,2) nb by simp
  next
    case False
    then show ?thesis using Suc.prems by (simp add: le_Suc_eq)
  qed
qed simp

text \<open>Deleting from a SEQUENCE OF keeps the order.\<close>

lemma sequence_del_spec:
  assumes "as_wf as" "k < as_count as"
  shows "as_list (snd (asn_sequence_del as (int k) f)) = take k (as_list as) @ drop (Suc k) (as_list as)"
    "as_wf (snd (asn_sequence_del as (int k) f))"
    "fst (asn_sequence_del as (int k) f) = (if f then as_list as ! k else None)"
proof -
  define n where "n = as_count as - 1"
  define a where "a = fold (\<lambda>i a. a[i := a ! (i + 1)]) [k..<n] (as_array as)"
  have n: "n < length (as_array as)" "k \<le> n" "as_count as = Suc n" using assms by (auto simp: n_def as_wf_def)
  note sh = sequence_shift [OF n(1,2), folded a_def]
  have s: "snd (asn_sequence_del as (int k) f) = as\<lparr>as_array := a, as_count := n\<rparr>"
    "fst (asn_sequence_del as (int k) f) = (if f then as_array as ! k else None)"
    using assms(2) by (simp_all add: asn_sequence_del_def Let_def n_def a_def)
  have l: "as_list (snd (asn_sequence_del as (int k) f)) = take k (as_list as) @ drop (Suc k) (as_list as)"
    using sh n by (simp add: s as_list_def drop_take)
  then show "as_list (snd (asn_sequence_del as (int k) f)) = take k (as_list as) @ drop (Suc k) (as_list as)" .
  show "as_wf (snd (asn_sequence_del as (int k) f))"
  proof -
    have "set (as_list (snd (asn_sequence_del as (int k) f))) \<subseteq> set (as_list as)"
      unfolding l by (auto dest: in_set_takeD in_set_dropD)
    then show ?thesis using sh assms n unfolding s by (auto simp: as_wf_def as_list_def list_all_iff)
  qed
  show "fst (asn_sequence_del as (int k) f) = (if f then as_list as ! k else None)"
    using s(2) assms(2) by (simp add: as_list_def)
qed

text \<open>Deleting from a SET OF moves the last element into the gap.\<close>

lemma set_del_spec:
  assumes "as_wf as" "k < as_count as"
  shows "as_list (snd (asn_set_del as (int k) f)) = butlast ((as_list as)[k := last (as_list as)])"
    "as_wf (snd (asn_set_del as (int k) f))"
proof -
  define n where "n = as_count as - 1"
  have n: "n < length (as_array as)" "k \<le> n" "as_count as = Suc n" using assms by (auto simp: n_def as_wf_def)
  have ls: "last (as_list as) = as_array as ! n" using n by (simp add: as_list_def take_Suc_conv_app_nth)
  have s: "snd (asn_set_del as (int k) f) = as\<lparr>as_array := (as_array as)[k := as_array as ! n], as_count := n\<rparr>"
    using assms(2) by (simp add: asn_set_del_def Let_def n_def)
  show "as_list (snd (asn_set_del as (int k) f)) = butlast ((as_list as)[k := last (as_list as)])"
    using n unfolding s ls by (auto simp: as_list_def take_update_swap butlast_take butlast_list_update list_update_beyond)
  have "as_array as ! n \<noteq> None" using assms(1) n by (auto simp: as_wf_def list_all_length)
  then show "as_wf (snd (asn_set_del as (int k) f))"
    using assms(1) n unfolding s by (auto simp: as_wf_def list_all_length nth_list_update)
qed


section \<open>What is on the wire\<close>

definition so_not_in_root :: "asn_per_constraint option \<Rightarrow> nat \<Rightarrow> bool" where
  "so_not_in_root ct n = (case ct of None \<Rightarrow> False | Some c \<Rightarrow> int n < lower_bound c \<or> int n > upper_bound c)"

definition so_extensible :: "asn_per_constraint option \<Rightarrow> bool" where
  "so_extensible ct = (case ct of None \<Rightarrow> False | Some c \<Rightarrow> APC_EXTENSIBLE c)"

text \<open>The number of elements is coded under the constraint.\<close>

definition so_counted :: "asn_per_constraint option \<Rightarrow> nat \<Rightarrow> bool" where
  "so_counted ct n \<longleftrightarrow> (case ct of None \<Rightarrow> False | Some c \<Rightarrow> effective_bits c \<ge> 0) \<and> \<not> so_not_in_root ct n"

definition so_wire ::
  "(asn_TYPE_descriptor \<Rightarrow> asn_per_constraints option \<Rightarrow> asn_value \<Rightarrow> bits)
   \<Rightarrow> asn_TYPE_descriptor \<Rightarrow> asn_per_constraints option \<Rightarrow> asn_value list \<Rightarrow> bits" where
  "so_wire wire td c vs =
     (let ct = size_constraint td c; n = length vs;
          w = wire (elm_type (so_elm td)) (elm_per_constraints (so_elm td))
      in (if so_extensible ct then [so_not_in_root ct n] else [])
         @ (if so_counted ct n
            then nat_bits (nat (effective_bits (the ct))) (nat (int n - lower_bound (the ct))) @ concat (map w vs)
            else if vs = [] then length_bits 0 else frag_bits w vs))"

definition so_ok ::
  "(asn_TYPE_descriptor \<Rightarrow> asn_per_constraints option \<Rightarrow> asn_value \<Rightarrow> bool)
   \<Rightarrow> (asn_TYPE_descriptor \<Rightarrow> asn_per_constraints option \<Rightarrow> asn_value \<Rightarrow> nat)
   \<Rightarrow> asn_TYPE_descriptor \<Rightarrow> asn_per_constraints option \<Rightarrow> asn_value list \<Rightarrow> bool" where
  "so_ok ok used td c vs \<longleftrightarrow>
     (let ct = size_constraint td c; n = length vs; e = elm_type (so_elm td); ec = elm_per_constraints (so_elm td)
      in list_all (ok e ec) vs
         \<and> (n \<le> 200 \<or> list_all (\<lambda>v. used e ec v \<noteq> 0) vs)
         \<and> (so_not_in_root ct n \<longrightarrow> so_extensible ct \<or> effective_bits (the ct) < 0)
         \<and> (so_counted ct n \<longrightarrow> 0 \<le> lower_bound (the ct) \<and> effective_bits (the ct) \<le> 16
              \<and> int n - lower_bound (the ct) < 2 ^ nat (effective_bits (the ct))))"

section \<open>SEQUENCE OF\<close>

lemma put_length0_norm:
  "po_wf po \<Longrightarrow> put_result po (length_bits 0) (case uper_put_length po 0 of (r, _, po) \<Rightarrow> if r \<noteq> 0 then (-1, po) else (0, po))"
  using put_result_norm [OF put_length0_result, of po] by (auto simp: case_prod_beta)

context uper_members
begin

lemma put_elems_result:
  assumes "po_wf po" "list_all (ok td c) vs"
  shows "put_result po (concat (map (wire td c) vs)) (so_put_elems (enc td c) po vs)"
  using assms
proof (induction vs arbitrary: po)
  case Nil
  then show ?case by (simp add: put_result_def po_app_refl)
next
  case (Cons v vs)
  define r where "r = enc td c v po"
  have p: "put_result po (wire td c v) r"
    unfolding r_def using Cons.prems by (intro encodesD [OF enc_wire]) auto
  have "so_put_elems (enc td c) po (v # vs) = (if fst r \<noteq> 0 then (-1, snd r) else so_put_elems (enc td c) (snd r) vs)"
    using p by (auto simp: put_result_def case_prod_beta simp flip: r_def)
  then show ?case using put_result_seq [OF p Cons.IH] Cons.prems(2) by simp
qed

lemma get_elems_result:
  assumes "pd_wf pd" "list_all (ok td c) vs" "pd_bits pd = concat (map (wire td c) vs) @ rest"
    and "nelems \<le> 200 \<or> list_all (\<lambda>v. used td c v \<noteq> 0) vs"
  shows "\<exists>pd'. so_get_elems (dec td c) nelems (length vs) pd = (Inr vs, pd') \<and> pd_adv pd (length (concat (map (wire td c) vs))) pd'"
  using assms
proof (induction vs arbitrary: pd)
  case Nil
  then show ?case using pd_adv_refl by auto
next
  case (Cons v vs)
  have pb: "pd_bits pd = wire td c v @ concat (map (wire td c) vs) @ rest" using Cons.prems(3) by simp
  obtain pd1 where d: "dec td c pd = (RC_OK v (used td c v), pd1)" "pd_adv pd (length (wire td c v)) pd1" "pd_wf pd1"
      "pd_bits pd1 = concat (map (wire td c) vs) @ rest"
    using decodesE [OF dec_wire Cons.prems(1) pb] Cons.prems(2) by auto
  obtain pd2 where e: "so_get_elems (dec td c) nelems (length vs) pd1 = (Inr vs, pd2)" "pd_adv pd1 (length (concat (map (wire td c) vs))) pd2"
    using Cons.IH [OF d(3) _ d(4)] Cons.prems(2,4) by auto
  have "\<not> (used td c v = 0 \<and> nelems > 200)" using Cons.prems(4) by auto
  then show ?case using d(1) e(1) pd_adv_trans [OF d(2) e(2)] by auto
qed

lemma get_elems_moves: "pd_wf pd \<Longrightarrow> so_get_elems (dec td c) n k pd = (r, pd') \<Longrightarrow> pd_moves pd pd'"
proof (induction k arbitrary: pd r pd')
  case (Suc k)
  obtain d pd1 where d: "dec td c pd = (d, pd1)" by force
  have m1: "pd_moves pd pd1" by (rule safe_decoderD [OF dec_safe Suc.prems(1) d])
  obtain e pd2 where e: "so_get_elems (dec td c) n k pd1 = (e, pd2)" by force
  have m2: "pd_moves pd pd2" using Suc.IH [OF pd_moves_wf [OF m1] e] m1 pd_moves_trans by blast
  show ?case using Suc.prems(2) m1 m2 by (auto simp: d e split: asn_dec_rval.splits if_splits sum.splits)
qed (auto intro: pd_moves_refl)

lemma SEQUENCE_OF_encodes:
  assumes ok: "so_ok ok used td c vs"
  shows "encodes (SEQUENCE_OF_encode_uper enc td c (V_LIST vs)) (so_wire wire td c vs)"
  unfolding encodes_def
proof (intro allI impI)
  fix po assume wf: "po_wf po"
  define ct e ec where "ct = size_constraint td c" and "e = elm_type (so_elm td)" and "ec = elm_per_constraints (so_elm td)"
  define w body where "w = wire e ec" and "body = so_put_elems (enc e ec)"
  define nir xt where "nir = so_not_in_root ct (length vs)" and "xt = so_extensible ct"
  note D = ct_def [symmetric] e_def [symmetric] ec_def [symmetric] w_def [symmetric] body_def [symmetric] nir_def [symmetric] xt_def [symmetric]
  have o: "list_all (ok e ec) vs" "nir \<longrightarrow> xt \<or> effective_bits (the ct) < 0"
      "so_counted ct (length vs) \<longrightarrow> 0 \<le> lower_bound (the ct) \<and> effective_bits (the ct) \<le> 16
              \<and> int (length vs) - lower_bound (the ct) < 2 ^ nat (effective_bits (the ct))"
    using ok unfolding so_ok_def Let_def D by simp_all
  have b: "put_result po1 (concat (map w ys)) (body po1 ys)" if "po_wf po1" "set ys \<subseteq> set vs" for po1 ys
    unfolding w_def body_def using that o(1) by (intro put_elems_result) (auto simp: list_all_iff)
  have u: "put_result po1 (if vs = [] then length_bits 0 else frag_bits w vs) (so_put_unbounded body vs po1)" if "po_wf po1" for po1
    using put_length0_norm [OF that] put_blocks_result [OF b that, of vs] by (simp add: so_put_unbounded_def)
  define rest where "rest po = (case (if xt \<and> nir then None else ct) of
      Some c \<Rightarrow> if effective_bits c \<ge> 0 then (case asn_put_few_bits po (word_of_int (int (length vs) - lower_bound c)) (effective_bits c) of
           (r, po) \<Rightarrow> if r \<noteq> 0 then (-1, po) else body po vs) else so_put_unbounded body vs po
      | None \<Rightarrow> so_put_unbounded body vs po)" for po
  have r: "put_result po1 (if so_counted ct (length vs)
      then nat_bits (nat (effective_bits (the ct))) (nat (int (length vs) - lower_bound (the ct))) @ concat (map w vs)
      else if vs = [] then length_bits 0 else frag_bits w vs) (rest po1)" if w1: "po_wf po1" for po1
  proof (cases "so_counted ct (length vs)")
    case True
    then obtain k where k: "ct = Some k" "0 \<le> effective_bits k" "\<not> nir" "lower_bound k \<le> int (length vs)"
      by (auto simp: so_counted_def nir_def so_not_in_root_def split: option.splits)
    define n v where "n = nat (effective_bits k)" and "v = nat (int (length vs) - lower_bound k)"
    have n: "effective_bits k = int n" "n \<le> 16" "v < 2 ^ n" "int (length vs) - lower_bound k = int v"
      using k o(3) True by (auto simp: n_def v_def nat_less_iff)
    have "(2 :: nat) ^ n \<le> 2 ^ 16" using n(2) by (intro power_increasing) auto
    then have p: "put_result po1 (nat_bits n v) (asn_put_few_bits po1 (word_of_nat v) (int n))"
      using n by (intro put_few_nat_result w1) auto
    show ?thesis using put_result_seq [OF p b [OF _ order_refl]] True k(1,3) n(1,4)
      by (simp add: rest_def case_prod_beta)
  next
    case False
    then have "rest po1 = so_put_unbounded body vs po1"
      using o(2) by (auto simp: rest_def so_counted_def nir_def split: option.splits)
    then show ?thesis using u [OF w1] False by simp
  qed
  have wr: "so_wire wire td c vs = (if xt then [nir] else []) @ (if so_counted ct (length vs)
      then nat_bits (nat (effective_bits (the ct))) (nat (int (length vs) - lower_bound (the ct))) @ concat (map w vs)
      else if vs = [] then length_bits 0 else frag_bits w vs)"
    unfolding so_wire_def Let_def D by (rule refl)
  have gd: "(\<not> xt \<and> nir \<and> effective_bits (the ct) \<ge> 0) = False" using o(2) by auto
  have eq: "SEQUENCE_OF_encode_uper enc td c (V_LIST vs) po =
      (case (if xt then asn_put_few_bits po (if nir then 1 else 0) 1 else (0, po)) of
         (r, po) \<Rightarrow> if r \<noteq> 0 then (-1, po) else rest po)"
    unfolding SEQUENCE_OF_encode_uper_def Let_def asn_value.case so_not_in_root_def [symmetric] so_extensible_def [symmetric] D gd if_False rest_def
    by (rule refl)
  show "put_result po (so_wire wire td c vs) (SEQUENCE_OF_encode_uper enc td c (V_LIST vs) po)"
  proof (cases xt)
    case True
    show ?thesis unfolding wr eq if_P [OF True] case_prod_beta
      by (rule put_result_seq [OF put_bit_result [OF wf]]) (rule r)
  next
    case False
    then show ?thesis unfolding wr eq if_not_P [OF False] using r [OF wf] by simp
  qed
qed

lemma SET_OF_decodes:
  assumes ok: "so_ok ok used td c vs"
  shows "decodes (SET_OF_decode_uper dec td c) (so_wire wire td c vs) (V_LIST vs) 0"
  unfolding decodes_def
proof (intro allI impI)
  fix pd rest assume wf: "pd_wf pd" and pb: "pd_bits pd = so_wire wire td c vs @ rest"
  define ct e ec where "ct = size_constraint td c" and "e = elm_type (so_elm td)" and "ec = elm_per_constraints (so_elm td)"
  define w body where "w = wire e ec" and "body = (\<lambda>n. so_get_elems (dec e ec) n (nat n))"
  define nir xt where "nir = so_not_in_root ct (length vs)" and "xt = so_extensible ct"
  note D = ct_def [symmetric] e_def [symmetric] ec_def [symmetric] w_def [symmetric] nir_def [symmetric] xt_def [symmetric]
  have o: "list_all (ok e ec) vs" "length vs \<le> 200 \<or> list_all (\<lambda>v. used e ec v \<noteq> 0) vs" "nir \<longrightarrow> xt \<or> effective_bits (the ct) < 0"
      "so_counted ct (length vs) \<longrightarrow> 0 \<le> lower_bound (the ct) \<and> effective_bits (the ct) \<le> 16
              \<and> int (length vs) - lower_bound (the ct) < 2 ^ nat (effective_bits (the ct))"
    using ok unfolding so_ok_def Let_def D by simp_all
  define x where "x = (if xt then [nir] else [])"
  define fr where "fr = (if vs = [] then length_bits 0 else frag_bits w vs)"
  define num where "num = (if so_counted ct (length vs) then nat_bits (nat (effective_bits (the ct))) (nat (int (length vs) - lower_bound (the ct))) else [])"
  define ws where "ws = (if so_counted ct (length vs) then concat (map w vs) else fr)"
  have wr: "so_wire wire td c vs = x @ num @ ws"
    unfolding so_wire_def Let_def D x_def num_def ws_def fr_def by simp
  have b: "\<exists>pd'. body (int (length ys)) p = (Inr ys, pd') \<and> pd_adv p (length (concat (map w ys))) pd'"
    if "pd_wf p" "length ys \<le> length vs" "set ys \<subseteq> set vs" "pd_bits p = concat (map w ys) @ rs" for ys p rs
    unfolding body_def w_def nat_int
    by (rule get_elems_result [OF that(1) _ that(4) [unfolded w_def]]) (use that o(1,2) in \<open>auto simp: list_all_iff\<close>)
  obtain pd1 where g: "(case ct of Some c \<Rightarrow> if APC_EXTENSIBLE c then asn_get_few_bits pd 1 else (0, pd) | None \<Rightarrow> (0, pd)) = (if xt \<and> nir then 1 else 0, pd1)"
      "pd_adv pd (length x) pd1" "pd_wf pd1" "pd_bits pd1 = num @ ws @ rest"
  proof (cases xt)
    case True
    have "pd_bits pd = nir # num @ ws @ rest" using pb wr True by (simp add: x_def)
    then obtain p where "asn_get_few_bits pd 1 = (if nir then 1 else 0, p)" "pd_adv pd 1 p" "pd_wf p" "pd_bits p = num @ ws @ rest"
      using get_bit_prefix [OF wf] by metis
    then show thesis using that [of p] True by (auto simp: xt_def so_extensible_def x_def split: option.splits)
  next
    case False
    then show thesis using that [of pd] wf pb wr pd_adv_refl [OF wf]
      by (auto simp: xt_def so_extensible_def x_def split: option.splits)
  qed
  define hd where "hd = (case (if xt \<and> nir then None else ct) of
       Some c \<Rightarrow> if effective_bits c \<ge> 0 then
           (case asn_get_few_bits pd1 (effective_bits c) of (n, pd) \<Rightarrow> if n < 0 then (None, pd) else (Some (n + lower_bound c), pd))
         else (Some (-1), pd1)
     | None \<Rightarrow> (Some (-1), pd1))"
  obtain pd2 where h: "hd = (Some (if so_counted ct (length vs) then int (length vs) else -1), pd2)" "pd_adv pd1 (length num) pd2" "pd_wf pd2"
      "pd_bits pd2 = ws @ rest"
  proof (cases "so_counted ct (length vs)")
    case True
    then obtain k where k: "ct = Some k" "0 \<le> effective_bits k" "\<not> nir" "lower_bound k \<le> int (length vs)"
      by (auto simp: so_counted_def nir_def so_not_in_root_def split: option.splits)
    define v where "v = nat (int (length vs) - lower_bound k)"
    have pk: "pd_bits pd1 = nat_bits (nat (effective_bits k)) v @ ws @ rest" using g(4) True k(1) by (simp add: num_def v_def)
    have v: "int v + lower_bound k = int (length vs)" "v < 2 ^ nat (effective_bits k)" "effective_bits k \<le> 31"
      using o(4) True k by (auto simp: v_def nat_less_iff)
    obtain p where q: "asn_get_few_bits pd1 (effective_bits k) = (int v, p)" "pd_adv pd1 (nat (effective_bits k)) p" "pd_wf p" "pd_bits p = ws @ rest"
      using get_few_nat_prefix [OF g(3) pk v(2) k(2) v(3)] by blast
    show thesis using that [of p] q k v(1) True by (simp add: hd_def num_def)
  next
    case False
    then have "hd = (Some (-1), pd1)" using o(3) by (auto simp: hd_def so_counted_def nir_def split: option.splits)
    then show thesis using that [of pd1] False g(3,4) pd_adv_refl [OF g(3)] by (simp add: num_def)
  qed
  define fin where "fin = (if (if so_counted ct (length vs) then int (length vs) else -1) < 0
      then get_blocks (Suc (pd_left pd2)) (-1) 0 body pd2 else body (if so_counted ct (length vs) then int (length vs) else -1) pd2)"
  obtain pd3 where f: "fin = (Inr vs, pd3)" "pd_adv pd2 (length ws) pd3"
  proof (cases "so_counted ct (length vs)")
    case True
    then show thesis using b [OF h(3), of vs rest] h(4) that by (auto simp: fin_def ws_def)
  next
    case False
    have pf: "pd_bits pd2 = (if vs = [] then length_bits 0 else frag_bits w vs) @ rest" using h(4) False by (simp add: ws_def fr_def)
    have fl: "length (if vs = [] then length_bits 0 else frag_bits w vs) \<le> Suc (pd_left pd2)"
      using length_pd_bits [OF h(3)] pf by (simp add: pd_left_def)
    have neg: "(-1 :: int) < 0" by simp
    obtain p where "get_blocks (Suc (pd_left pd2)) (-1) 0 body pd2 = (Inr vs, p)"
        "pd_adv pd2 (length (if vs = [] then length_bits 0 else frag_bits w vs)) p"
      by (rule get_blocks_result [OF b h(3) pf fl neg])
    then show thesis using that [of p] False unfolding fin_def by (simp add: ws_def fr_def del: get_blocks.simps)
  qed
  have z: "\<not> (if xt \<and> nir then 1 else 0 :: int) < 0" "((if xt \<and> nir then 1 else 0 :: int) \<noteq> 0) = (xt \<and> nir)" by auto
  have "SET_OF_decode_uper dec td c pd = (RC_OK (V_LIST vs) 0, pd3)"
    unfolding SET_OF_decode_uper_def Let_def D g(1) prod.case if_not_P [OF z(1)] z(2) hd_def [symmetric] h(1) option.case
      f(1) [unfolded fin_def body_def] sum.case by (rule refl)
  then show "\<exists>pd'. SET_OF_decode_uper dec td c pd = (RC_OK (V_LIST vs) 0, pd') \<and> pd_adv pd (length (so_wire wire td c vs)) pd'"
    using pd_adv_trans [OF g(2) pd_adv_trans [OF h(2) f(2)]] wr by auto
qed

lemma SET_OF_safe: "safe_decoder (SET_OF_decode_uper dec td c)"
proof (rule safe_decoderI)
  fix pd r pd' assume wf: "pd_wf pd" and d: "SET_OF_decode_uper dec td c pd = (r, pd')"
  define ct where "ct = size_constraint td c"
  define body where "body = (\<lambda>n. so_get_elems (dec (elm_type (so_elm td)) (elm_per_constraints (so_elm td))) n (nat n))"
  obtain v p where v: "(case ct of Some c \<Rightarrow> if APC_EXTENSIBLE c then asn_get_few_bits pd 1 else (0, pd) | None \<Rightarrow> (0, pd)) = (v, p)" by force
  have mp: "pd_moves pd p" using v get_few_bits_moves [OF _ wf] pd_moves_refl [OF wf] by (auto split: option.splits if_splits)
  define hd where "hd = (case (if v \<noteq> 0 then None else ct) of
       Some c \<Rightarrow> if effective_bits c \<ge> 0 then
           (case asn_get_few_bits p (effective_bits c) of (n, pd) \<Rightarrow> if n < 0 then (None, pd) else (Some (n + lower_bound c), pd))
         else (Some (-1), p)
     | None \<Rightarrow> (Some (-1), p))"
  obtain n p2 where hd: "hd = (n, p2)" by force
  have "pd_moves p p2" using hd get_few_bits_moves [OF _ pd_moves_wf [OF mp]] pd_moves_refl [OF pd_moves_wf [OF mp]]
    by (auto simp: hd_def split: option.splits if_splits prod.splits)
  then have m2: "pd_moves pd p2" using mp pd_moves_trans by blast
  have bm: "pd_moves q q'" if "pd_wf q" "body k q = (e, q')" for k q e q'
    using get_elems_moves that unfolding body_def by blast
  have bl: "pd_moves pd q" if "get_blocks fuel (-1) 0 body p2 = (e, q)" for fuel e q
  proof -
    have "pd_moves p2 q" by (rule get_blocks_moves [OF _ pd_moves_wf [OF m2] that]) (rule bm)
    then show ?thesis using m2 pd_moves_trans by blast
  qed
  have el: "pd_moves pd q" if "so_get_elems (dec td' c') k j p2 = (e, q)" for td' c' k j e q
    using get_elems_moves [OF pd_moves_wf [OF m2] that] m2 pd_moves_trans by blast
  show "pd_moves pd pd'" using d mp m2 bl el
    unfolding SET_OF_decode_uper_def Let_def ct_def [symmetric] body_def [symmetric] v prod.case hd_def [symmetric] hd
    by (auto split: if_splits sum.splits option.splits prod.splits simp del: get_blocks.simps)
qed

end

end
