(* ===== verification/Uper.thy ===== *)
theory Uper
  imports Native_Types Octet_String Bit_String Choice Set_Of
begin

text \<open>
  The operation tables \<open>asn_OP_*\<close> and the recursion through them: \<open>td->op->uper_decoder\<close> and
  \<open>td->op->uper_encoder\<close> for the types the generated modules use (\<open>asn1/its\<close>, \<open>asn1/pki\<close>,
  \<open>asn1/security\<close>). IA5String, UTF8String and NumericString have the functions of OCTET STRING in
  their tables, so that \<open>OP_OCTET_STRING\<close> stands for them, too.

  The decoders of the constructed types give up when the stack exceeds \<open>max_stack_size\<close>
  (\<open>ASN__STACK_OVERFLOW_CHECK\<close>). The decoder of the model has the number of nested constructed
  values it may still enter; from the depth of the descriptor on, more makes no difference
  (\<open>decode_op_fuel\<close>), and \<open>uper_decoder_of\<close> is the decoder without a limit. The encoder has no such
  check; its fuel is the depth of the descriptor, and more makes no difference (\<open>encode_op_fuel\<close>).
  A descriptor is a finite tree here: recursive ASN.1 types, which C descriptors can express through
  pointers, are not covered; the generated modules have none.
\<close>

section \<open>Definitions\<close>

text \<open>
  The sequence decoder calls \<open>OPEN_TYPE_uper_get\<close> for members that are open types. It asks the
  \<open>type_selector\<close> of the member for the type; no member of the generated modules has one, and this
  branch of the function is what is left.
\<close>

definition OPEN_TYPE_uper_get :: uper_decoder where
  "OPEN_TYPE_uper_get td constraints pd = (RC_FAIL, pd)"

definition OPEN_TYPE_encode_uper :: "uper_encoder \<Rightarrow> uper_encoder" where
  "OPEN_TYPE_encode_uper enc td constraints sptr po =
     (case sptr of
        V_CHOICE present memb \<Rightarrow>
          if present = 0 \<or> present > length (td_elements td) then (-1, po)
          else
            (case memb of
               None \<Rightarrow> (-1, po)
             | Some m \<Rightarrow>
                 (case uper_open_type_put (enc (elm_type (td_elements td ! (present - 1))) None m) po of
                    (r, po) \<Rightarrow> if r < 0 then (-1, po) else (0, po)))
      | _ \<Rightarrow> (-1, po))"

definition simple_decoder :: uper_decoder where
  "simple_decoder td constraints pd =
     (case td_op td of
        OP_NULL \<Rightarrow> NULL_decode_uper td constraints pd
      | OP_BOOLEAN \<Rightarrow> BOOLEAN_decode_uper td constraints pd
      | OP_NativeInteger \<Rightarrow> NativeInteger_decode_uper td constraints pd
      | OP_NativeEnumerated \<Rightarrow> NativeEnumerated_decode_uper td constraints pd
      | OP_INTEGER \<Rightarrow> INTEGER_decode_uper td constraints pd
      | OP_ENUMERATED \<Rightarrow> ENUMERATED_decode_uper td constraints pd
      | OP_OCTET_STRING \<Rightarrow> OCTET_STRING_decode_uper td constraints pd
      | OP_BIT_STRING \<Rightarrow> BIT_STRING_decode_uper td constraints pd
      | OP_OPEN_TYPE \<Rightarrow> OPEN_TYPE_uper_get td constraints pd
      | _ \<Rightarrow> (RC_FAIL, pd))"

definition simple_encoder :: uper_encoder where
  "simple_encoder td constraints sptr po =
     (case td_op td of
        OP_NULL \<Rightarrow> NULL_encode_uper td constraints sptr po
      | OP_BOOLEAN \<Rightarrow> BOOLEAN_encode_uper td constraints sptr po
      | OP_NativeInteger \<Rightarrow> NativeInteger_encode_uper td constraints sptr po
      | OP_NativeEnumerated \<Rightarrow> NativeEnumerated_encode_uper td constraints sptr po
      | OP_INTEGER \<Rightarrow> (case sptr of V_INTEGER st \<Rightarrow> INTEGER_encode_uper td constraints st po | _ \<Rightarrow> (-1, po))
      | OP_ENUMERATED \<Rightarrow> ENUMERATED_encode_uper td constraints sptr po
      | OP_OCTET_STRING \<Rightarrow> OCTET_STRING_encode_uper td constraints sptr po
      | OP_BIT_STRING \<Rightarrow> BIT_STRING_encode_uper td constraints sptr po
      | _ \<Rightarrow> (-1, po))"

primrec uper_decoder_op :: "nat \<Rightarrow> uper_decoder" where
  "uper_decoder_op 0 = simple_decoder"
| "uper_decoder_op (Suc n) = (\<lambda>td constraints pd.
     case td_op td of
       OP_SEQUENCE \<Rightarrow> SEQUENCE_decode_uper (uper_decoder_op n) td constraints pd
     | OP_CHOICE \<Rightarrow> CHOICE_decode_uper (uper_decoder_op n) td constraints pd
     | OP_SEQUENCE_OF \<Rightarrow> SET_OF_decode_uper (uper_decoder_op n) td constraints pd
     | _ \<Rightarrow> simple_decoder td constraints pd)"

primrec uper_encoder_op :: "nat \<Rightarrow> uper_encoder" where
  "uper_encoder_op 0 = simple_encoder"
| "uper_encoder_op (Suc n) = (\<lambda>td constraints sptr po.
     case td_op td of
       OP_SEQUENCE \<Rightarrow> SEQUENCE_encode_uper (uper_encoder_op n) td constraints sptr po
     | OP_CHOICE \<Rightarrow> CHOICE_encode_uper (uper_encoder_op n) td constraints sptr po
     | OP_SEQUENCE_OF \<Rightarrow> SEQUENCE_OF_encode_uper (uper_encoder_op n) td constraints sptr po
     | OP_OPEN_TYPE \<Rightarrow> OPEN_TYPE_encode_uper (uper_encoder_op n) td constraints sptr po
     | _ \<Rightarrow> simple_encoder td constraints sptr po)"

primrec td_depth :: "asn_TYPE_descriptor \<Rightarrow> nat" and mbr_depth :: "asn_TYPE_member \<Rightarrow> nat" where
  "td_depth (TD op pc elms sp) = Suc (foldr max (map mbr_depth elms) 0)"
| "mbr_depth (MBR ptr opt ty pc def) = td_depth ty"

definition uper_encoder_of :: uper_encoder where
  "uper_encoder_of td = uper_encoder_op (td_depth td) td"

section \<open>The encoding of a value\<close>

text \<open>Which values of a type can be encoded and come back, and the bits they become.\<close>

definition simple_ok :: "asn_TYPE_descriptor \<Rightarrow> asn_per_constraints option \<Rightarrow> asn_value \<Rightarrow> bool" where
  "simple_ok td c v =
     (case td_op td of
        OP_NULL \<Rightarrow> v = V_NULL
      | OP_BOOLEAN \<Rightarrow> v = V_BOOLEAN 0 \<or> v = V_BOOLEAN 1
      | OP_NativeInteger \<Rightarrow> (case v of V_long i \<Rightarrow> native_int_ok td c i | _ \<Rightarrow> False)
      | OP_NativeEnumerated \<Rightarrow> (case v of V_long i \<Rightarrow> enum_ok td c i | _ \<Rightarrow> False)
      | OP_INTEGER \<Rightarrow>
          (case v of
             V_INTEGER (Some b) \<Rightarrow> b \<noteq> [] \<and> int_ok (value_constraint td c) (td_field_unsigned td) (be_sint b)
               \<and> int_decoded (value_constraint td c) (be_sint b) b = b
           | _ \<Rightarrow> False)
      | OP_ENUMERATED \<Rightarrow>
          (case v of
             V_INTEGER (Some b) \<Rightarrow> is_long (be_sint b) \<and> enum_ok td c (be_sint b) \<and> b = asn_imax2INTEGER (be_sint b)
           | _ \<Rightarrow> False)
      | OP_OCTET_STRING \<Rightarrow> (case v of V_OCTET_STRING b \<Rightarrow> os_ok td c b | _ \<Rightarrow> False)
      | OP_BIT_STRING \<Rightarrow> (case v of V_BIT_STRING b u \<Rightarrow> bs_fits td c b u \<and> bs_canonical td c b u | _ \<Rightarrow> False)
      | _ \<Rightarrow> False)"

definition simple_wire :: "asn_TYPE_descriptor \<Rightarrow> asn_per_constraints option \<Rightarrow> asn_value \<Rightarrow> bits" where
  "simple_wire td c v =
     (case v of
        V_NULL \<Rightarrow> []
      | V_BOOLEAN b \<Rightarrow> [b \<noteq> 0]
      | V_long i \<Rightarrow> if td_op td = OP_NativeInteger then int_bits (value_constraint td c) i (asn_imax2INTEGER i) else enum_wire td c i
      | V_INTEGER (Some b) \<Rightarrow> if td_op td = OP_INTEGER then int_bits (value_constraint td c) (be_sint b) b else enum_wire td c (be_sint b)
      | V_OCTET_STRING b \<Rightarrow> os_wire td c b
      | V_BIT_STRING b u \<Rightarrow> bs_wire td c b
      | _ \<Rightarrow> [])"

definition simple_used :: "asn_TYPE_descriptor \<Rightarrow> asn_per_constraints option \<Rightarrow> asn_value \<Rightarrow> nat" where
  "simple_used td c v =
     (case v of
        V_BOOLEAN b \<Rightarrow> 1
      | V_OCTET_STRING b \<Rightarrow> os_used td c b
      | V_BIT_STRING b u \<Rightarrow> bs_used td c b
      | _ \<Rightarrow> 0)"

primrec uper_used :: "nat \<Rightarrow> asn_TYPE_descriptor \<Rightarrow> asn_per_constraints option \<Rightarrow> asn_value \<Rightarrow> nat" where
  "uper_used 0 = simple_used"
| "uper_used (Suc n) = (\<lambda>td c v.
     case v of
       V_SEQUENCE ms \<Rightarrow> 0
     | V_CHOICE p (Some m) \<Rightarrow> choice_used (uper_used n) td p m
     | V_LIST vs \<Rightarrow> 0
     | _ \<Rightarrow> simple_used td c v)"

primrec uper_ok :: "nat \<Rightarrow> asn_TYPE_descriptor \<Rightarrow> asn_per_constraints option \<Rightarrow> asn_value \<Rightarrow> bool" where
  "uper_ok 0 = simple_ok"
| "uper_ok (Suc n) = (\<lambda>td c v.
     case td_op td of
       OP_SEQUENCE \<Rightarrow> (case v of V_SEQUENCE ms \<Rightarrow> seq_ok (uper_ok n) td ms | _ \<Rightarrow> False)
     | OP_CHOICE \<Rightarrow> (case v of V_CHOICE p (Some m) \<Rightarrow> choice_ok (uper_ok n) td c p m | _ \<Rightarrow> False)
     | OP_SEQUENCE_OF \<Rightarrow> (case v of V_LIST vs \<Rightarrow> so_ok (uper_ok n) (uper_used n) td c vs | _ \<Rightarrow> False)
     | _ \<Rightarrow> simple_ok td c v)"

primrec uper_wire :: "nat \<Rightarrow> asn_TYPE_descriptor \<Rightarrow> asn_per_constraints option \<Rightarrow> asn_value \<Rightarrow> bits" where
  "uper_wire 0 = simple_wire"
| "uper_wire (Suc n) = (\<lambda>td c v.
     case v of
       V_SEQUENCE ms \<Rightarrow> seq_wire (uper_wire n) td ms
     | V_CHOICE p (Some m) \<Rightarrow> choice_wire (uper_wire n) td c p m
     | V_LIST vs \<Rightarrow> so_wire (uper_wire n) td c vs
     | _ \<Rightarrow> simple_wire td c v)"

section \<open>The interpretation\<close>

lemma fail_safe: "safe_decoder (Pair RC_FAIL)"
  by (simp add: safe_decoder_def pd_moves_refl)

lemma OPEN_TYPE_safe: "safe_decoder (OPEN_TYPE_uper_get td c)"
  by (simp add: safe_decoder_def OPEN_TYPE_uper_get_def pd_moves_refl)

lemma simple_safe: "safe_decoder (simple_decoder td c)"
  unfolding simple_decoder_def [abs_def]
  by (cases "td_op td") (auto simp: NULL_codec(3) BOOLEAN_safe NativeInteger_safe NativeEnumerated_safe INTEGER_decode_safe
      ENUMERATED_safe OCTET_STRING_safe BIT_STRING_safe OPEN_TYPE_safe fail_safe)

lemma NativeEnumerated_encoder: "NativeEnumerated_encode_uper td c (V_long v) = NativeEnumerated_encode_long td c v"
  by (rule ext) (simp add: NativeEnumerated_encode_uper_def)

lemma simple_encodes: "simple_ok td c v \<Longrightarrow> encodes (simple_encoder td c v) (simple_wire td c v)"
  unfolding simple_encoder_def [abs_def] simple_ok_def simple_wire_def
  using BOOLEAN_encodes [of td c 0] BOOLEAN_encodes [of td c 1]
  by (cases "td_op td")
    (auto simp: NULL_codec NativeEnumerated_encoder split: asn_value.splits option.splits
      intro: NativeInteger_encodes NativeEnumerated_encodes INTEGER_encodes OCTET_STRING_encodes BIT_STRING_encodes
      dest: ENUMERATED_encodes)

lemma simple_decodes: "simple_ok td c v \<Longrightarrow> decodes (simple_decoder td c) (simple_wire td c v) v (simple_used td c v)"
  unfolding simple_decoder_def [abs_def] simple_ok_def simple_wire_def simple_used_def
  using BOOLEAN_decodes [of td c True] BOOLEAN_decodes [of td c False]
  by (cases "td_op td")
    (auto simp: NULL_codec split: asn_value.splits option.splits
      intro: NativeInteger_decodes NativeEnumerated_decodes OCTET_STRING_decodes BIT_STRING_decodes
      dest: ENUMERATED_decodes INTEGER_decodes)

lemma uper_members_op: "uper_members (uper_decoder_op n) (uper_encoder_op n) (uper_ok n) (uper_wire n) (uper_used n)"
proof (induction n)
  case 0
  show ?case by unfold_locales (simp_all add: simple_safe simple_encodes simple_decodes)
next
  case (Suc n)
  note m = uper_members.SEQUENCE_safe [OF Suc] uper_members.CHOICE_safe [OF Suc] uper_members.SET_OF_safe [OF Suc]
    uper_members.SEQUENCE_encodes [OF Suc] uper_members.CHOICE_encodes [OF Suc] uper_members.SEQUENCE_OF_encodes [OF Suc]
    uper_members.SEQUENCE_decodes [OF Suc] uper_members.CHOICE_decodes [OF Suc] uper_members.SET_OF_decodes [OF Suc]
  have simple: "simple_ok td c v \<Longrightarrow> \<not> (\<exists>ms. v = V_SEQUENCE ms) \<and> \<not> (\<exists>p m. v = V_CHOICE p m) \<and> \<not> (\<exists>vs. v = V_LIST vs)
      \<and> td_op td \<noteq> OP_OPEN_TYPE" for td c v
    by (auto simp: simple_ok_def split: asn_op.splits)
  show ?case
  proof unfold_locales
    show "safe_decoder (uper_decoder_op (Suc n) td c)" for td c
      using simple_safe [of td c] m by (cases "td_op td") simp_all
    show "encodes (uper_encoder_op (Suc n) td c v) (uper_wire (Suc n) td c v)" if "uper_ok (Suc n) td c v" for td c v
      using that simple_encodes [of td c v] simple [of td c v] m
      by (cases "td_op td") (auto split: asn_value.splits option.splits)
    show "decodes (uper_decoder_op (Suc n) td c) (uper_wire (Suc n) td c v) v (uper_used (Suc n) td c v)"
      if "uper_ok (Suc n) td c v" for td c v
      using that simple_decodes [of td c v] simple [of td c v] m
      by (cases "td_op td") (auto split: asn_value.splits option.splits)
  qed
qed

interpretation uper: uper_members "uper_decoder_op n" "uper_encoder_op n" "uper_ok n" "uper_wire n" "uper_used n" for n
  by (rule uper_members_op)

section \<open>Fuel of the encoder\<close>

lemma enc_member_cong: "enc1 (elm_type elm) = enc2 (elm_type elm) \<Longrightarrow> enc_member enc1 elm = enc_member enc2 elm"
  by (auto simp: enc_member_def fun_eq_iff split: option.split)

lemma seq_put_root_cong:
  "(\<And>elm m. (elm, m) \<in> set ems \<Longrightarrow> enc1 (elm_type elm) = enc2 (elm_type elm)) \<Longrightarrow> seq_put_root enc1 ems po = seq_put_root enc2 ems po"
proof (induction ems arbitrary: po)
  case (Cons em ems)
  obtain elm m where em: "em = (elm, m)" by force
  have "enc_member enc1 elm = enc_member enc2 elm" by (rule enc_member_cong) (use Cons.prems em in auto)
  moreover have "seq_put_root enc1 ems po' = seq_put_root enc2 ems po'" for po' by (rule Cons.IH) (use Cons.prems in auto)
  ultimately show ?case by (simp add: em case_prod_beta)
qed simp

lemma seq_ext_loop_cong:
  "(\<And>elm m. (elm, m) \<in> set ems \<Longrightarrow> enc1 (elm_type elm) = enc2 (elm_type elm))
   \<Longrightarrow> seq_ext_loop enc1 ems po1 po2 c p = seq_ext_loop enc2 ems po1 po2 c p"
proof (induction ems arbitrary: po1 po2 c p)
  case (Cons em ems)
  obtain elm m where em: "em = (elm, m)" by force
  have m: "enc_member enc1 elm = enc_member enc2 elm" by (rule enc_member_cong) (use Cons.prems em in auto)
  have l: "seq_ext_loop enc1 ems a b c p = seq_ext_loop enc2 ems a b c p" for a b c p by (rule Cons.IH) (use Cons.prems in auto)
  show ?case unfolding em seq_ext_loop.simps m l by (rule refl)
qed simp

lemma handle_extensions_cong:
  assumes "\<And>elm. elm \<in> set (td_elements td) \<Longrightarrow> enc1 (elm_type elm) = enc2 (elm_type elm)"
  shows "SEQUENCE__handle_extensions enc1 td = SEQUENCE__handle_extensions enc2 td"
proof (intro ext)
  fix ms a b
  define k where "k = nat (first_extension (seq_specs td))"
  have "seq_ext_loop enc1 (zip (drop k (td_elements td)) (drop k ms)) a b 0 0
      = seq_ext_loop enc2 (zip (drop k (td_elements td)) (drop k ms)) a b 0 0"
    by (rule seq_ext_loop_cong) (auto dest!: set_zip_leftD in_set_dropD intro: assms)
  then show "SEQUENCE__handle_extensions enc1 td ms a b = SEQUENCE__handle_extensions enc2 td ms a b"
    by (simp add: SEQUENCE__handle_extensions_def Let_def k_def)
qed

lemma SEQUENCE_encode_cong:
  assumes "\<And>elm. elm \<in> set (td_elements td) \<Longrightarrow> enc1 (elm_type elm) = enc2 (elm_type elm)"
  shows "SEQUENCE_encode_uper enc1 td = SEQUENCE_encode_uper enc2 td"
proof -
  have r: "seq_put_root enc1 (zip (take n (td_elements td)) (take n ms)) po = seq_put_root enc2 (zip (take n (td_elements td)) (take n ms)) po" for n ms po
    by (rule seq_put_root_cong) (auto dest!: set_zip_leftD in_set_takeD intro: assms)
  have h: "SEQUENCE__handle_extensions enc1 td = SEQUENCE__handle_extensions enc2 td"
    by (rule handle_extensions_cong) (rule assms)
  show ?thesis unfolding SEQUENCE_encode_uper_def [abs_def] Let_def h r by (rule refl)
qed

lemma CHOICE_encode_cong:
  assumes "\<And>elm. elm \<in> set (td_elements td) \<Longrightarrow> enc1 (elm_type elm) = enc2 (elm_type elm)"
  shows "CHOICE_encode_uper enc1 td = CHOICE_encode_uper enc2 td"
proof (intro ext)
  fix c v po
  show "CHOICE_encode_uper enc1 td c v po = CHOICE_encode_uper enc2 td c v po"
  proof (cases v)
    case (V_CHOICE p m)
    show ?thesis
    proof (cases "p = 0 \<or> p > length (td_elements td)")
      case False
      then have "enc1 (elm_type (td_elements td ! (p - 1))) = enc2 (elm_type (td_elements td ! (p - 1)))"
        by (intro assms nth_mem) linarith
      then show ?thesis unfolding V_CHOICE CHOICE_encode_uper_def asn_value.case Let_def by (simp only:)
    qed (simp add: V_CHOICE CHOICE_encode_uper_def)
  qed (simp_all add: CHOICE_encode_uper_def)
qed

lemma OPEN_TYPE_encode_cong:
  assumes "\<And>elm. elm \<in> set (td_elements td) \<Longrightarrow> enc1 (elm_type elm) = enc2 (elm_type elm)"
  shows "OPEN_TYPE_encode_uper enc1 td = OPEN_TYPE_encode_uper enc2 td"
proof (intro ext)
  fix c v po
  show "OPEN_TYPE_encode_uper enc1 td c v po = OPEN_TYPE_encode_uper enc2 td c v po"
  proof (cases "\<exists>p m. v = V_CHOICE p m \<and> 0 < p \<and> p \<le> length (td_elements td)")
    case True
    then obtain p m where v: "v = V_CHOICE p m" "0 < p" "p \<le> length (td_elements td)" by blast
    then have "enc1 (elm_type (td_elements td ! (p - 1))) = enc2 (elm_type (td_elements td ! (p - 1)))"
      by (intro assms nth_mem) linarith
    then show ?thesis using v by (simp add: OPEN_TYPE_encode_uper_def split: option.split)
  qed (auto simp: OPEN_TYPE_encode_uper_def split: asn_value.split)
qed

lemma SEQUENCE_OF_encode_cong:
  assumes "enc1 (elm_type (so_elm td)) = enc2 (elm_type (so_elm td))"
  shows "SEQUENCE_OF_encode_uper enc1 td = SEQUENCE_OF_encode_uper enc2 td"
  unfolding SEQUENCE_OF_encode_uper_def [abs_def] Let_def assms by (rule refl)

lemma foldr_max_le: "x \<in> set xs \<Longrightarrow> x \<le> foldr max xs (0 :: nat)"
  by (induction xs) (auto simp: max.coboundedI2)

lemma td_depth_elements: "elm \<in> set (td_elements td) \<Longrightarrow> td_depth (elm_type elm) < td_depth td"
proof (cases td)
  case (TD op pc elms sp)
  assume "elm \<in> set (td_elements td)"
  then have "mbr_depth elm \<le> foldr max (map mbr_depth elms) 0" by (intro foldr_max_le) (simp add: TD)
  moreover have "mbr_depth elm = td_depth (elm_type elm)" by (cases elm) simp
  ultimately show ?thesis by (simp add: TD)
qed

text \<open>Every list type has an element type.\<close>

primrec td_lists_ok :: "asn_TYPE_descriptor \<Rightarrow> bool" and mbr_lists_ok :: "asn_TYPE_member \<Rightarrow> bool" where
  "td_lists_ok (TD op pc elms sp) \<longleftrightarrow> (op = OP_SEQUENCE_OF \<longrightarrow> elms \<noteq> []) \<and> list_all id (map mbr_lists_ok elms)"
| "mbr_lists_ok (MBR ptr opt ty pc def) \<longleftrightarrow> td_lists_ok ty"

lemma td_lists_ok_elements:
  assumes "td_lists_ok td" "elm \<in> set (td_elements td)"
  shows "td_lists_ok (elm_type elm)"
proof -
  have "mbr_lists_ok elm" using assms by (cases td) (auto simp: list_all_iff)
  then show ?thesis by (cases elm) simp
qed

lemma encode_op_fuel:
  assumes "td_depth td \<le> n" "td_depth td \<le> k" "td_lists_ok td"
  shows "uper_encoder_op n td = uper_encoder_op k td"
  using assms
proof (induction n arbitrary: k td)
  case 0
  then show ?case by (cases td) simp
next
  case (Suc n)
  obtain j where j: "k = Suc j" using Suc.prems(2) by (cases k; cases td) auto
  have IH: "uper_encoder_op n (elm_type elm) = uper_encoder_op j (elm_type elm)" if "elm \<in> set (td_elements td)" for elm
  proof (rule Suc.IH)
    show "td_depth (elm_type elm) \<le> n" "td_depth (elm_type elm) \<le> j"
      using td_depth_elements [OF that] Suc.prems(1,2) j by linarith+
    show "td_lists_ok (elm_type elm)" by (rule td_lists_ok_elements [OF Suc.prems(3) that])
  qed
  have so: "uper_encoder_op n (elm_type (so_elm td)) = uper_encoder_op j (elm_type (so_elm td))" if "td_op td = OP_SEQUENCE_OF"
    using that Suc.prems(3) by (intro IH) (cases td, auto simp: so_elm_def)
  have "SEQUENCE_encode_uper (uper_encoder_op n) td = SEQUENCE_encode_uper (uper_encoder_op j) td"
    "CHOICE_encode_uper (uper_encoder_op n) td = CHOICE_encode_uper (uper_encoder_op j) td"
    "OPEN_TYPE_encode_uper (uper_encoder_op n) td = OPEN_TYPE_encode_uper (uper_encoder_op j) td"
    by (rule SEQUENCE_encode_cong, erule IH, rule CHOICE_encode_cong, erule IH, rule OPEN_TYPE_encode_cong, erule IH)
  then show ?case using SEQUENCE_OF_encode_cong [of "uper_encoder_op n" td "uper_encoder_op j", OF so]
    unfolding j by (cases "td_op td") (simp_all add: fun_eq_iff)
qed

section \<open>Fuel of the decoder\<close>

text \<open>The decoder without a limit of the stack (\<open>max_stack_size = 0\<close>).\<close>

definition uper_decoder_of :: uper_decoder where
  "uper_decoder_of td = uper_decoder_op (td_depth td) td"

lemma seq_get_root_cong:
  "(\<And>elm. elm \<in> set elms \<Longrightarrow> d1 (elm_type elm) = d2 (elm_type elm)) \<Longrightarrow> seq_get_root d1 elms opmd pd = seq_get_root d2 elms opmd pd"
proof (induction elms arbitrary: opmd pd)
  case (Cons elm elms)
  have e: "d1 (elm_type elm) = d2 (elm_type elm)" by (rule Cons.prems) simp
  have r: "seq_get_root d1 elms o' p' = seq_get_root d2 elms o' p'" for o' p' by (rule Cons.IH) (simp add: Cons.prems)
  show ?case unfolding seq_get_root.simps e r by (rule refl)
qed simp

lemma seq_get_ext_cong:
  "(\<And>elm. elm \<in> set elms \<Longrightarrow> d1 (elm_type elm) = d2 (elm_type elm)) \<Longrightarrow> seq_get_ext d1 elms epmd pd = seq_get_ext d2 elms epmd pd"
proof (induction elms arbitrary: epmd pd)
  case (Cons elm elms)
  have e: "d1 (elm_type elm) = d2 (elm_type elm)" by (rule Cons.prems) simp
  have r: "seq_get_ext d1 elms o' p' = seq_get_ext d2 elms o' p'" for o' p' by (rule Cons.IH) (simp add: Cons.prems)
  show ?case unfolding seq_get_ext.simps e r by (rule refl)
qed simp

lemma SEQUENCE_decode_cong:
  assumes "\<And>elm. elm \<in> set (td_elements td) \<Longrightarrow> d1 (elm_type elm) = d2 (elm_type elm)"
  shows "SEQUENCE_decode_uper d1 td = SEQUENCE_decode_uper d2 td"
proof -
  have r: "seq_get_root d1 (take n (td_elements td)) = seq_get_root d2 (take n (td_elements td))" for n
    by (intro ext, rule seq_get_root_cong, rule assms, erule in_set_takeD)
  have e: "seq_get_ext d1 (drop n (td_elements td)) = seq_get_ext d2 (drop n (td_elements td))" for n
    by (intro ext, rule seq_get_ext_cong, rule assms, erule in_set_dropD)
  have x: "seq_get_extensions d1 (drop n (td_elements td)) = seq_get_extensions d2 (drop n (td_elements td))" for n
    unfolding seq_get_extensions_def [abs_def] e by (rule refl)
  show ?thesis unfolding SEQUENCE_decode_uper_def [abs_def] Let_def r x by (rule refl)
qed

lemma CHOICE_decode_cong:
  assumes "\<And>elm. elm \<in> set (td_elements td) \<Longrightarrow> d1 (elm_type elm) = d2 (elm_type elm)"
  shows "CHOICE_decode_uper d1 td = CHOICE_decode_uper d2 td"
proof (intro ext)
  fix c pd
  have e: "\<not> length (td_elements td) \<le> v \<Longrightarrow> d1 (elm_type (td_elements td ! v)) = d2 (elm_type (td_elements td ! v))" for v
    by (intro assms nth_mem) linarith
  show "CHOICE_decode_uper d1 td c pd = CHOICE_decode_uper d2 td c pd"
    unfolding CHOICE_decode_uper_def Let_def by (simp add: e cong: if_cong split: prod.split sum.split)
qed

lemma SET_OF_decode_cong:
  assumes "d1 (elm_type (so_elm td)) = d2 (elm_type (so_elm td))"
  shows "SET_OF_decode_uper d1 td = SET_OF_decode_uper d2 td"
  unfolding SET_OF_decode_uper_def [abs_def] Let_def assms by (rule refl)

lemma decode_op_fuel:
  assumes "td_depth td \<le> n" "td_depth td \<le> k" "td_lists_ok td"
  shows "uper_decoder_op n td = uper_decoder_op k td"
  using assms
proof (induction n arbitrary: k td)
  case 0
  then show ?case by (cases td) simp
next
  case (Suc n)
  obtain j where j: "k = Suc j" using Suc.prems(2) by (cases k; cases td) auto
  have IH: "uper_decoder_op n (elm_type elm) = uper_decoder_op j (elm_type elm)" if "elm \<in> set (td_elements td)" for elm
  proof (rule Suc.IH)
    show "td_depth (elm_type elm) \<le> n" "td_depth (elm_type elm) \<le> j"
      using td_depth_elements [OF that] Suc.prems(1,2) j by linarith+
    show "td_lists_ok (elm_type elm)" by (rule td_lists_ok_elements [OF Suc.prems(3) that])
  qed
  have so: "uper_decoder_op n (elm_type (so_elm td)) = uper_decoder_op j (elm_type (so_elm td))" if "td_op td = OP_SEQUENCE_OF"
    using that Suc.prems(3) by (intro IH) (cases td, auto simp: so_elm_def)
  have "SEQUENCE_decode_uper (uper_decoder_op n) td = SEQUENCE_decode_uper (uper_decoder_op j) td"
    "CHOICE_decode_uper (uper_decoder_op n) td = CHOICE_decode_uper (uper_decoder_op j) td"
    by (rule SEQUENCE_decode_cong, erule IH, rule CHOICE_decode_cong, erule IH)
  then show ?case using SET_OF_decode_cong [of "uper_decoder_op n" td "uper_decoder_op j", OF so]
    unfolding j by (cases "td_op td") (simp_all add: fun_eq_iff)
qed

end
