(* ===== verification/Asn1c_Wrapper.thy ===== *)
theory Asn1c_Wrapper
  imports Uper
begin

text \<open>
  \<open>vanetza-extension/asn1/asn1c_wrapper.cpp\<close>: the functions by which the C++ side encodes and decodes
  messages in unaligned PER, with the callbacks \<open>write_buffer\<close> and \<open>write_null\<close> (\<open>Bit_Data\<close>).
  \<open>Inl Runtime_Error\<close> is the exception \<open>std::runtime_error\<close>. \<open>None\<close> is the abort of the assertion in
  \<open>uper_decode\<close>; \<open>Some None\<close> is the result \<open>false\<close> of \<open>decode_per\<close>.

  \<^item> \<open>encode_per_result\<close>: for a value that fits its type the buffer holds exactly its encoding, padded
    with zero bits, and \<open>size_per\<close> is the number of its octets.
  \<^item> \<open>decode_encode_per\<close>: what was encoded is decoded, unless the encoding is empty; an empty buffer
    is never decoded (\<open>decode_per_empty\<close>).
  \<^item> \<open>decode_per_total\<close>: no input aborts the decoder.
\<close>

section \<open>Definitions\<close>

datatype exn = Runtime_Error

definition size_per :: "asn_TYPE_descriptor \<Rightarrow> asn_value \<Rightarrow> exn + nat" where
  "size_per td t =
     (case uper_encode (uper_encoder_of td None t) (Write_Null []) of
        (encoded, _) \<Rightarrow> if encoded < 0 then Inl Runtime_Error else Inr (nat ((encoded + 7) div 8)))"

definition encode_per :: "asn_TYPE_descriptor \<Rightarrow> asn_value \<Rightarrow> exn + byte list" where
  "encode_per td t =
     (case uper_encode (uper_encoder_of td None t) (Write_Buffer []) of
        (encoded, buffer) \<Rightarrow> if encoded = -1 then Inl Runtime_Error else Inr (sink_bytes buffer))"

text \<open>The context \<open>asn_codec_ctx_t ctx {}\<close> sets no limit of the stack.\<close>

definition decode_per :: "asn_TYPE_descriptor \<Rightarrow> byte list \<Rightarrow> asn_value option option" where
  "decode_per td buffer =
     map_option (\<lambda>ec. case ec of RC_OK t _ \<Rightarrow> Some t | _ \<Rightarrow> None)
       (uper_decode_complete (uper_decoder_of td None) buffer)"

section \<open>Properties\<close>

abbreviation fits :: "asn_TYPE_descriptor \<Rightarrow> asn_value \<Rightarrow> bool" where
  "fits td t \<equiv> uper_ok (td_depth td) td None t"

abbreviation wire_of :: "asn_TYPE_descriptor \<Rightarrow> asn_value \<Rightarrow> bits" where
  "wire_of td t \<equiv> uper_wire (td_depth td) td None t"

lemma encoder_of_encodes: "fits td t \<Longrightarrow> encodes (uper_encoder_of td None t) (wire_of td t)"
  unfolding uper_encoder_of_def by (rule uper.enc_wire)

lemma decoder_of_decodes: "fits td t \<Longrightarrow> decodes (uper_decoder_of td None) (wire_of td t) t (uper_used (td_depth td) td None t)"
  unfolding uper_decoder_of_def by (rule uper.dec_wire)

lemma decoder_of_safe: "safe_decoder (uper_decoder_of td c)"
  unfolding uper_decoder_of_def by (rule uper.dec_safe)

lemma pad8_octets: "8 * k = n + pad8 n \<Longrightarrow> k = (n + 7) div 8"
  by (simp add: pad8_add)

lemma encode_per_result:
  assumes "fits td t"
  obtains buffer where "encode_per td t = Inr buffer" "size_per td t = Inr (length buffer)"
    "bytes_bits buffer = wire_of td t @ replicate (pad8 (length (wire_of td t))) False"
proof -
  let ?bs = "wire_of td t"
  note enc = encoder_of_encodes [OF assms]
  obtain s where s: "uper_encode (uper_encoder_of td None t) (Write_Buffer []) = (int (length ?bs), s)"
      "bytes_bits (sink_bytes s) = ?bs @ replicate (pad8 (length ?bs)) False"
    by (rule uper_encode_result [OF enc, of "Write_Buffer []"]) auto
  obtain n where n: "uper_encode (uper_encoder_of td None t) (Write_Null []) = (int (length ?bs), n)"
    by (rule uper_encode_result [OF enc, of "Write_Null []"]) auto
  have "8 * length (sink_bytes s) = length ?bs + pad8 (length ?bs)"
    using arg_cong [OF s(2), of length] by simp
  then have "length (sink_bytes s) = (length ?bs + 7) div 8" by (rule pad8_octets)
  moreover have "nat ((int (length ?bs) + 7) div 8) = (length ?bs + 7) div 8" by (simp add: nat_div_distrib nat_add_distrib)
  ultimately have "size_per td t = Inr (length (sink_bytes s))"
    unfolding size_per_def n by simp
  moreover have "encode_per td t = Inr (sink_bytes s)" unfolding encode_per_def s(1) by simp
  ultimately show thesis using that s(2) by blast
qed

lemma decode_encode_per:
  assumes "fits td t" "wire_of td t \<noteq> []" "encode_per td t = Inr buffer"
  shows "decode_per td buffer = Some (Some t)"
proof -
  let ?bs = "wire_of td t"
  have b: "bytes_bits buffer = ?bs @ replicate (pad8 (length ?bs)) False"
    by (rule encode_per_result [OF assms(1)]) (use assms(3) in simp)
  have "uper_decode (uper_decoder_of td None) buffer 0 0 = Some (RC_OK t (length ?bs))"
    by (rule decodes_safe_pos [OF decoder_of_decodes [OF assms(1)] b])
  then show ?thesis using assms(2) by (simp add: decode_per_def uper_decode_complete_def)
qed

lemma decode_per_total: "decode_per td buffer \<noteq> None"
proof -
  obtain r where "uper_decode (uper_decoder_of td None) buffer 0 0 = Some r"
    using uper_decode_safe [OF decoder_of_safe, of td None buffer 0 0] by blast
  then show ?thesis by (cases r) (simp_all add: decode_per_def uper_decode_complete_def)
qed

lemma decode_per_empty: "decode_per td [] = Some None"
proof -
  obtain r where r: "uper_decode (uper_decoder_of td None) [] 0 0 = Some r
     \<and> (\<forall>v n. r = RC_OK v n \<longrightarrow> int n \<le> 8 * int (length ([] :: byte list)) - 0 - 0)"
    using uper_decode_safe [OF decoder_of_safe, of td None "[]" 0 0] ..
  then show ?thesis by (cases r) (simp_all add: decode_per_def uper_decode_complete_def)
qed

text \<open>Two values of a type with the same encoding are equal.\<close>

lemma encode_per_inj:
  assumes "fits td t" "fits td u" "encode_per td t = encode_per td u" "wire_of td t \<noteq> []" "wire_of td u \<noteq> []"
  shows "t = u"
proof -
  obtain b where b: "encode_per td t = Inr b" by (rule encode_per_result [OF assms(1)])
  have "encode_per td u = Inr b" using assms(3) b by (rule subst)
  from decode_encode_per [OF assms(2,5) this] decode_encode_per [OF assms(1,4) b]
  have "Some (Some u) = Some (Some t)" by (rule trans [OF sym])
  then show ?thesis by simp
qed

section \<open>What a decoded structure holds\<close>

text \<open>
  A mandatory member of a structure was decoded by the decoder of its type, whatever octets the
  structure was decoded from.
\<close>

definition decoded :: "(asn_bit_data \<Rightarrow> asn_dec_rval \<times> asn_bit_data) \<Rightarrow> asn_value \<Rightarrow> bool" where
  "decoded dec v \<longleftrightarrow> (\<exists>pd k. fst (dec pd) = RC_OK v k)"

lemma seq_get_root_members:
  assumes "seq_get_root dec elms opmd pd = (Inr ms, pd')" "i < length elms" "\<not> elm_optional (elms ! i)"
  shows "i < length ms \<and> (\<exists>v. ms ! i = Some v \<and> decoded (dec (elm_type (elms ! i)) (elm_per_constraints (elms ! i))) v)"
  using assms
proof (induction elms arbitrary: opmd pd ms i)
  case (Cons elm elms)
  note p = Cons.prems
  show ?case
  proof (cases i)
    case 0
    then have no: "\<not> elm_optional elm" using p(3) by simp
    obtain r pd1 where d: "dec (elm_type elm) (elm_per_constraints elm) pd = (r, pd1)" by force
    obtain v k where r: "r = RC_OK v k" using p(1) no d by (cases r) auto
    then have "decoded (dec (elm_type elm) (elm_per_constraints elm)) v" unfolding decoded_def using d by (metis fst_conv)
    then show ?thesis using p(1) 0 no d r by (auto split: prod.splits sum.splits)
  next
    case (Suc j)
    obtain opmd' pd1 m ms1 where "seq_get_root dec elms opmd' pd1 = (Inr ms1, pd')" "ms = m # ms1"
      using p(1) by (auto split: prod.splits sum.splits if_splits asn_dec_rval.splits)
    then show ?thesis using Cons.IH [of opmd' pd1 ms1 j] p(2,3) Suc by simp
  qed
qed simp

text \<open>The loops only stop with an error.\<close>

lemma seq_get_root_error: "fst (seq_get_root dec elms opmd pd) \<noteq> Inl (RC_OK v k)"
  by (induction elms arbitrary: opmd pd) (auto split: prod.split sum.split asn_dec_rval.split, (metis fst_conv)+)

lemma seq_get_ext_error: "fst (seq_get_ext dec elms epmd pd) \<noteq> Inl (RC_OK v k)"
  by (induction elms arbitrary: epmd pd) (auto split: prod.split sum.split asn_dec_rval.split, (metis fst_conv)+)

lemma seq_get_extensions_error: "fst (seq_get_extensions dec elms pd) \<noteq> Inl (RC_OK v k)"
  using seq_get_ext_error by (auto simp: seq_get_extensions_def split: prod.split sum.split, (metis fst_conv)+)

lemma sequence_members_decoded:
  assumes "decoded (SEQUENCE_decode_uper dec td c) v" "aoms_count (seq_specs td) = 0"
    and i: "i < seq_root_count td" "i < length (td_elements td)" "td_elements td ! i = MBR ptr False ty pc None"
  shows "\<exists>ms w. v = V_SEQUENCE ms \<and> i < length ms \<and> ms ! i = Some w \<and> decoded (dec ty pc) w"
proof -
  obtain pd k where d: "fst (SEQUENCE_decode_uper dec td c pd) = RC_OK v k" using assms(1) by (auto simp: decoded_def)
  have fill: "seq_fill_defaults es (take (aoms_count (seq_specs td)) xs) ms = ms" for es xs ms using assms(2) by simp
  obtain ep pd0 where e: "(if first_extension (seq_specs td) < 0 then (0, pd) else asn_get_few_bits pd 1) = (ep, pd0)" by force
  obtain ret opres pd1 where m: "(if roms_count (seq_specs td) \<noteq> 0
      then asn_get_many_bits pd0 False (int (roms_count (seq_specs td))) else (0, [], pd0)) = (ret, opres, pd1)"
    by (metis prod.exhaust)
  obtain q pd2 where q: "seq_get_root dec (take (seq_root_count td) (td_elements td)) (seq_bitmap opres (roms_count (seq_specs td))) pd1 = (q, pd2)"
    by force
  obtain x pd3 where x: "(if ep \<noteq> 0 then seq_get_extensions dec (drop (seq_root_count td) (td_elements td)) pd2
      else (Inr (replicate (length (td_elements td) - seq_root_count td) None), pd2)) = (x, pd3)" by force
  have "SEQUENCE_decode_uper dec td c pd =
      (if ep < 0 then (RC_WMORE, pd0) else if ret \<noteq> 0 then (RC_WMORE, pd1)
       else case q of Inl e \<Rightarrow> (e, pd2) | Inr rt \<Rightarrow> (case x of Inl e \<Rightarrow> (e, pd3) | Inr exts \<Rightarrow> (RC_OK (V_SEQUENCE (rt @ exts)) 0, pd3)))"
    unfolding SEQUENCE_decode_uper_def Let_def e prod.case m q x fill if_cancel by (cases q; cases x) simp_all
  then have d': "(case q of Inl e \<Rightarrow> e | Inr rt \<Rightarrow> (case x of Inl e \<Rightarrow> e | Inr exts \<Rightarrow> RC_OK (V_SEQUENCE (rt @ exts)) 0)) = RC_OK v k"
    using d by (cases q; cases x) (simp_all split: if_splits)
  have "q \<noteq> Inl (RC_OK v k)" using seq_get_root_error q by (metis fst_conv)
  then obtain rt where rt: "q = Inr rt" using d' by (cases q) auto
  have "x \<noteq> Inl (RC_OK v k)"
  proof (cases "ep = 0")
    case False
    then show ?thesis using seq_get_extensions_error x by (metis fst_conv)
  qed (use x in auto)
  then obtain exts where exts: "x = Inr exts" using d' rt by (cases x) auto
  have r: "seq_get_root dec (take (seq_root_count td) (td_elements td)) (seq_bitmap opres (roms_count (seq_specs td))) pd1 = (Inr rt, pd2)"
      "v = V_SEQUENCE (rt @ exts)"
    using d' q by (simp_all add: rt exts)
  from seq_get_root_members [OF r(1), of i] i show ?thesis
    by (auto simp: r(2) nth_append)
qed

lemma op_sequence_members:
  assumes "decoded (uper_decoder_op n td c) v" "td_op td = OP_SEQUENCE" "aoms_count (seq_specs td) = 0"
    and "i < seq_root_count td" "i < length (td_elements td)" "td_elements td ! i = MBR ptr False ty pc None"
  shows "\<exists>ms w m. v = V_SEQUENCE ms \<and> i < length ms \<and> ms ! i = Some w \<and> decoded (uper_decoder_op m ty pc) w"
proof (cases n)
  case 0
  then show ?thesis using assms(1,2) by (simp add: decoded_def simple_decoder_def)
next
  case (Suc m)
  then have "decoded (SEQUENCE_decode_uper (uper_decoder_op m) td c) v" using assms(1,2) by (simp add: decoded_def)
  from sequence_members_decoded [OF this assms(3-6)] show ?thesis by blast
qed

lemma decode_per_decoded: "decode_per td octets = Some (Some m) \<Longrightarrow> decoded (uper_decoder_of td None) m"
  by (auto simp: decode_per_def uper_decode_complete_def uper_decode_def decoded_def Let_def
      split: if_splits prod.splits asn_dec_rval.splits option.splits) (metis fst_conv)+

end
