(* ===== verification/Its_Cam.thy ===== *)
theory Its_Cam
  imports Uper
begin

text \<open>
  The descriptors asn1c generated for the cooperative awareness message (\<open>asn1/its\<close>): \<open>asn_DEF_CAM\<close>
  and the descriptors it refers to. A definition has the name and the content of the C initialiser:
  PER constraints, tables of enumerations, optional members, members, specifics, descriptors.

  Left out are the fields only other encoding rules or the generated checks of constraints use: names,
  tags, tag maps, OER constraints and constraint functions; and offsets and sizes of C structures,
  which the model of values (\<open>asn_value\<close>) does not need. The number of the elements of a table is the
  length of its list. A list type has no specifics the UPER codec reads.
\<close>

definition apc :: "bool \<Rightarrow> bool \<Rightarrow> bool \<Rightarrow> int \<Rightarrow> int \<Rightarrow> int \<Rightarrow> int \<Rightarrow> asn_per_constraint" where
  "apc semi constr ext rb eb lb ub =
     \<lparr>APC_SEMI_CONSTRAINED = semi, APC_CONSTRAINED = constr, APC_EXTENSIBLE = ext,
      range_bits = rb, effective_bits = eb, lower_bound = lb, upper_bound = ub\<rparr>"

section \<open>Descriptors\<close>

definition asn_DEF_NativeInteger :: asn_TYPE_descriptor where
  "asn_DEF_NativeInteger = TD OP_NativeInteger None [] SPC_NONE"

definition asn_PER_memb_protocolVersion_constr_2 :: "asn_per_constraints" where
  "asn_PER_memb_protocolVersion_constr_2 =
     \<lparr>pc_value = apc False True False 8 8 0 255,
      pc_size = apc False False False (-1) (-1) 0 0,
      pc_value2code = None, pc_code2value = None\<rparr>"

definition asn_PER_memb_messageID_constr_3 :: "asn_per_constraints" where
  "asn_PER_memb_messageID_constr_3 =
     \<lparr>pc_value = apc False True False 8 8 0 255,
      pc_size = apc False False False (-1) (-1) 0 0,
      pc_value2code = None, pc_code2value = None\<rparr>"

definition asn_PER_type_StationID_constr_1 :: "asn_per_constraints" where
  "asn_PER_type_StationID_constr_1 =
     \<lparr>pc_value = apc False True False 32 (-1) 0 4294967295,
      pc_size = apc False False False (-1) (-1) 0 0,
      pc_value2code = None, pc_code2value = None\<rparr>"

definition asn_SPC_StationID_specs_1 :: "asn_INTEGER_specifics" where
  "asn_SPC_StationID_specs_1 =
     \<lparr>value2enum = [], enum2value = [],
      is_extension = 0, strict_enumeration = False, field_unsigned = True\<rparr>"

definition asn_DEF_StationID :: "asn_TYPE_descriptor" where
  "asn_DEF_StationID =
     TD OP_NativeInteger (Some asn_PER_type_StationID_constr_1) []
       (SPC_INTEGER asn_SPC_StationID_specs_1)"

definition asn_MBR_ItsPduHeader_1 :: "asn_TYPE_member list" where
  "asn_MBR_ItsPduHeader_1 =
     [MBR False False asn_DEF_NativeInteger (Some asn_PER_memb_protocolVersion_constr_2) None,
      MBR False False asn_DEF_NativeInteger (Some asn_PER_memb_messageID_constr_3) None,
      MBR False False asn_DEF_StationID None None]"

definition asn_SPC_ItsPduHeader_specs_1 :: "asn_SEQUENCE_specifics" where
  "asn_SPC_ItsPduHeader_specs_1 =
     \<lparr>oms = [], roms_count = 0, aoms_count = 0, first_extension = -1\<rparr>"

definition asn_DEF_ItsPduHeader :: "asn_TYPE_descriptor" where
  "asn_DEF_ItsPduHeader =
     TD OP_SEQUENCE None asn_MBR_ItsPduHeader_1
       (SPC_SEQUENCE asn_SPC_ItsPduHeader_specs_1)"

definition asn_PER_type_GenerationDeltaTime_constr_1 :: "asn_per_constraints" where
  "asn_PER_type_GenerationDeltaTime_constr_1 =
     \<lparr>pc_value = apc False True False 16 16 0 65535,
      pc_size = apc False False False (-1) (-1) 0 0,
      pc_value2code = None, pc_code2value = None\<rparr>"

definition asn_DEF_GenerationDeltaTime :: "asn_TYPE_descriptor" where
  "asn_DEF_GenerationDeltaTime =
     TD OP_NativeInteger (Some asn_PER_type_GenerationDeltaTime_constr_1) []
       SPC_NONE"

definition asn_PER_type_StationType_constr_1 :: "asn_per_constraints" where
  "asn_PER_type_StationType_constr_1 =
     \<lparr>pc_value = apc False True False 8 8 0 255,
      pc_size = apc False False False (-1) (-1) 0 0,
      pc_value2code = None, pc_code2value = None\<rparr>"

definition asn_DEF_StationType :: "asn_TYPE_descriptor" where
  "asn_DEF_StationType =
     TD OP_NativeInteger (Some asn_PER_type_StationType_constr_1) []
       SPC_NONE"

definition asn_PER_type_Latitude_constr_1 :: "asn_per_constraints" where
  "asn_PER_type_Latitude_constr_1 =
     \<lparr>pc_value = apc False True False 31 (-1) (-900000000) 900000001,
      pc_size = apc False False False (-1) (-1) 0 0,
      pc_value2code = None, pc_code2value = None\<rparr>"

definition asn_DEF_Latitude :: "asn_TYPE_descriptor" where
  "asn_DEF_Latitude =
     TD OP_NativeInteger (Some asn_PER_type_Latitude_constr_1) []
       SPC_NONE"

definition asn_PER_type_Longitude_constr_1 :: "asn_per_constraints" where
  "asn_PER_type_Longitude_constr_1 =
     \<lparr>pc_value = apc False True False 32 (-1) (-1800000000) 1800000001,
      pc_size = apc False False False (-1) (-1) 0 0,
      pc_value2code = None, pc_code2value = None\<rparr>"

definition asn_DEF_Longitude :: "asn_TYPE_descriptor" where
  "asn_DEF_Longitude =
     TD OP_NativeInteger (Some asn_PER_type_Longitude_constr_1) []
       SPC_NONE"

definition asn_PER_type_SemiAxisLength_constr_1 :: "asn_per_constraints" where
  "asn_PER_type_SemiAxisLength_constr_1 =
     \<lparr>pc_value = apc False True False 12 12 0 4095,
      pc_size = apc False False False (-1) (-1) 0 0,
      pc_value2code = None, pc_code2value = None\<rparr>"

definition asn_DEF_SemiAxisLength :: "asn_TYPE_descriptor" where
  "asn_DEF_SemiAxisLength =
     TD OP_NativeInteger (Some asn_PER_type_SemiAxisLength_constr_1) []
       SPC_NONE"

definition asn_PER_type_HeadingValue_constr_1 :: "asn_per_constraints" where
  "asn_PER_type_HeadingValue_constr_1 =
     \<lparr>pc_value = apc False True False 12 12 0 3601,
      pc_size = apc False False False (-1) (-1) 0 0,
      pc_value2code = None, pc_code2value = None\<rparr>"

definition asn_DEF_HeadingValue :: "asn_TYPE_descriptor" where
  "asn_DEF_HeadingValue =
     TD OP_NativeInteger (Some asn_PER_type_HeadingValue_constr_1) []
       SPC_NONE"

definition asn_MBR_PosConfidenceEllipse_1 :: "asn_TYPE_member list" where
  "asn_MBR_PosConfidenceEllipse_1 =
     [MBR False False asn_DEF_SemiAxisLength None None,
      MBR False False asn_DEF_SemiAxisLength None None,
      MBR False False asn_DEF_HeadingValue None None]"

definition asn_SPC_PosConfidenceEllipse_specs_1 :: "asn_SEQUENCE_specifics" where
  "asn_SPC_PosConfidenceEllipse_specs_1 =
     \<lparr>oms = [], roms_count = 0, aoms_count = 0, first_extension = -1\<rparr>"

definition asn_DEF_PosConfidenceEllipse :: "asn_TYPE_descriptor" where
  "asn_DEF_PosConfidenceEllipse =
     TD OP_SEQUENCE None asn_MBR_PosConfidenceEllipse_1
       (SPC_SEQUENCE asn_SPC_PosConfidenceEllipse_specs_1)"

definition asn_PER_type_AltitudeValue_constr_1 :: "asn_per_constraints" where
  "asn_PER_type_AltitudeValue_constr_1 =
     \<lparr>pc_value = apc False True False 20 (-1) (-100000) 800001,
      pc_size = apc False False False (-1) (-1) 0 0,
      pc_value2code = None, pc_code2value = None\<rparr>"

definition asn_DEF_AltitudeValue :: "asn_TYPE_descriptor" where
  "asn_DEF_AltitudeValue =
     TD OP_NativeInteger (Some asn_PER_type_AltitudeValue_constr_1) []
       SPC_NONE"

definition asn_PER_type_AltitudeConfidence_constr_1 :: "asn_per_constraints" where
  "asn_PER_type_AltitudeConfidence_constr_1 =
     \<lparr>pc_value = apc False True False 4 4 0 15,
      pc_size = apc False False False (-1) (-1) 0 0,
      pc_value2code = None, pc_code2value = None\<rparr>"

definition asn_MAP_AltitudeConfidence_value2enum_1 :: "(int \<times> string) list" where
  "asn_MAP_AltitudeConfidence_value2enum_1 =
     [(0, ''alt-000-01''), (1, ''alt-000-02''), (2, ''alt-000-05''), (3, ''alt-000-10''),
      (4, ''alt-000-20''), (5, ''alt-000-50''), (6, ''alt-001-00''), (7, ''alt-002-00''),
      (8, ''alt-005-00''), (9, ''alt-010-00''), (10, ''alt-020-00''), (11, ''alt-050-00''),
      (12, ''alt-100-00''), (13, ''alt-200-00''), (14, ''outOfRange''), (15, ''unavailable'')]"

definition asn_MAP_AltitudeConfidence_enum2value_1 :: "nat list" where
  "asn_MAP_AltitudeConfidence_enum2value_1 =
     [0, 1, 2, 3, 4, 5, 6, 7, 8, 9, 10, 11, 12, 13, 14, 15]"

definition asn_SPC_AltitudeConfidence_specs_1 :: "asn_INTEGER_specifics" where
  "asn_SPC_AltitudeConfidence_specs_1 =
     \<lparr>value2enum = asn_MAP_AltitudeConfidence_value2enum_1, enum2value = asn_MAP_AltitudeConfidence_enum2value_1,
      is_extension = 0, strict_enumeration = True, field_unsigned = False\<rparr>"

definition asn_DEF_AltitudeConfidence :: "asn_TYPE_descriptor" where
  "asn_DEF_AltitudeConfidence =
     TD OP_NativeEnumerated (Some asn_PER_type_AltitudeConfidence_constr_1) []
       (SPC_INTEGER asn_SPC_AltitudeConfidence_specs_1)"

definition asn_MBR_Altitude_1 :: "asn_TYPE_member list" where
  "asn_MBR_Altitude_1 =
     [MBR False False asn_DEF_AltitudeValue None None,
      MBR False False asn_DEF_AltitudeConfidence None None]"

definition asn_SPC_Altitude_specs_1 :: "asn_SEQUENCE_specifics" where
  "asn_SPC_Altitude_specs_1 =
     \<lparr>oms = [], roms_count = 0, aoms_count = 0, first_extension = -1\<rparr>"

definition asn_DEF_Altitude :: "asn_TYPE_descriptor" where
  "asn_DEF_Altitude =
     TD OP_SEQUENCE None asn_MBR_Altitude_1
       (SPC_SEQUENCE asn_SPC_Altitude_specs_1)"

definition asn_MBR_ReferencePosition_1 :: "asn_TYPE_member list" where
  "asn_MBR_ReferencePosition_1 =
     [MBR False False asn_DEF_Latitude None None,
      MBR False False asn_DEF_Longitude None None,
      MBR False False asn_DEF_PosConfidenceEllipse None None,
      MBR False False asn_DEF_Altitude None None]"

definition asn_SPC_ReferencePosition_specs_1 :: "asn_SEQUENCE_specifics" where
  "asn_SPC_ReferencePosition_specs_1 =
     \<lparr>oms = [], roms_count = 0, aoms_count = 0, first_extension = -1\<rparr>"

definition asn_DEF_ReferencePosition :: "asn_TYPE_descriptor" where
  "asn_DEF_ReferencePosition =
     TD OP_SEQUENCE None asn_MBR_ReferencePosition_1
       (SPC_SEQUENCE asn_SPC_ReferencePosition_specs_1)"

definition asn_MBR_BasicContainer_1 :: "asn_TYPE_member list" where
  "asn_MBR_BasicContainer_1 =
     [MBR False False asn_DEF_StationType None None,
      MBR False False asn_DEF_ReferencePosition None None]"

definition asn_SPC_BasicContainer_specs_1 :: "asn_SEQUENCE_specifics" where
  "asn_SPC_BasicContainer_specs_1 =
     \<lparr>oms = [], roms_count = 0, aoms_count = 0, first_extension = 2\<rparr>"

definition asn_DEF_BasicContainer :: "asn_TYPE_descriptor" where
  "asn_DEF_BasicContainer =
     TD OP_SEQUENCE None asn_MBR_BasicContainer_1
       (SPC_SEQUENCE asn_SPC_BasicContainer_specs_1)"

definition asn_PER_type_HeadingConfidence_constr_1 :: "asn_per_constraints" where
  "asn_PER_type_HeadingConfidence_constr_1 =
     \<lparr>pc_value = apc False True False 7 7 1 127,
      pc_size = apc False False False (-1) (-1) 0 0,
      pc_value2code = None, pc_code2value = None\<rparr>"

definition asn_DEF_HeadingConfidence :: "asn_TYPE_descriptor" where
  "asn_DEF_HeadingConfidence =
     TD OP_NativeInteger (Some asn_PER_type_HeadingConfidence_constr_1) []
       SPC_NONE"

definition asn_MBR_Heading_1 :: "asn_TYPE_member list" where
  "asn_MBR_Heading_1 =
     [MBR False False asn_DEF_HeadingValue None None,
      MBR False False asn_DEF_HeadingConfidence None None]"

definition asn_SPC_Heading_specs_1 :: "asn_SEQUENCE_specifics" where
  "asn_SPC_Heading_specs_1 =
     \<lparr>oms = [], roms_count = 0, aoms_count = 0, first_extension = -1\<rparr>"

definition asn_DEF_Heading :: "asn_TYPE_descriptor" where
  "asn_DEF_Heading =
     TD OP_SEQUENCE None asn_MBR_Heading_1
       (SPC_SEQUENCE asn_SPC_Heading_specs_1)"

definition asn_PER_type_SpeedValue_constr_1 :: "asn_per_constraints" where
  "asn_PER_type_SpeedValue_constr_1 =
     \<lparr>pc_value = apc False True False 14 14 0 16383,
      pc_size = apc False False False (-1) (-1) 0 0,
      pc_value2code = None, pc_code2value = None\<rparr>"

definition asn_DEF_SpeedValue :: "asn_TYPE_descriptor" where
  "asn_DEF_SpeedValue =
     TD OP_NativeInteger (Some asn_PER_type_SpeedValue_constr_1) []
       SPC_NONE"

definition asn_PER_type_SpeedConfidence_constr_1 :: "asn_per_constraints" where
  "asn_PER_type_SpeedConfidence_constr_1 =
     \<lparr>pc_value = apc False True False 7 7 1 127,
      pc_size = apc False False False (-1) (-1) 0 0,
      pc_value2code = None, pc_code2value = None\<rparr>"

definition asn_DEF_SpeedConfidence :: "asn_TYPE_descriptor" where
  "asn_DEF_SpeedConfidence =
     TD OP_NativeInteger (Some asn_PER_type_SpeedConfidence_constr_1) []
       SPC_NONE"

definition asn_MBR_Speed_1 :: "asn_TYPE_member list" where
  "asn_MBR_Speed_1 =
     [MBR False False asn_DEF_SpeedValue None None,
      MBR False False asn_DEF_SpeedConfidence None None]"

definition asn_SPC_Speed_specs_1 :: "asn_SEQUENCE_specifics" where
  "asn_SPC_Speed_specs_1 =
     \<lparr>oms = [], roms_count = 0, aoms_count = 0, first_extension = -1\<rparr>"

definition asn_DEF_Speed :: "asn_TYPE_descriptor" where
  "asn_DEF_Speed =
     TD OP_SEQUENCE None asn_MBR_Speed_1
       (SPC_SEQUENCE asn_SPC_Speed_specs_1)"

definition asn_PER_type_DriveDirection_constr_1 :: "asn_per_constraints" where
  "asn_PER_type_DriveDirection_constr_1 =
     \<lparr>pc_value = apc False True False 2 2 0 2,
      pc_size = apc False False False (-1) (-1) 0 0,
      pc_value2code = None, pc_code2value = None\<rparr>"

definition asn_MAP_DriveDirection_value2enum_1 :: "(int \<times> string) list" where
  "asn_MAP_DriveDirection_value2enum_1 =
     [(0, ''forward''), (1, ''backward''), (2, ''unavailable'')]"

definition asn_MAP_DriveDirection_enum2value_1 :: "nat list" where
  "asn_MAP_DriveDirection_enum2value_1 =
     [1, 0, 2]"

definition asn_SPC_DriveDirection_specs_1 :: "asn_INTEGER_specifics" where
  "asn_SPC_DriveDirection_specs_1 =
     \<lparr>value2enum = asn_MAP_DriveDirection_value2enum_1, enum2value = asn_MAP_DriveDirection_enum2value_1,
      is_extension = 0, strict_enumeration = True, field_unsigned = False\<rparr>"

definition asn_DEF_DriveDirection :: "asn_TYPE_descriptor" where
  "asn_DEF_DriveDirection =
     TD OP_NativeEnumerated (Some asn_PER_type_DriveDirection_constr_1) []
       (SPC_INTEGER asn_SPC_DriveDirection_specs_1)"

definition asn_PER_type_VehicleLengthValue_constr_1 :: "asn_per_constraints" where
  "asn_PER_type_VehicleLengthValue_constr_1 =
     \<lparr>pc_value = apc False True False 10 10 1 1023,
      pc_size = apc False False False (-1) (-1) 0 0,
      pc_value2code = None, pc_code2value = None\<rparr>"

definition asn_DEF_VehicleLengthValue :: "asn_TYPE_descriptor" where
  "asn_DEF_VehicleLengthValue =
     TD OP_NativeInteger (Some asn_PER_type_VehicleLengthValue_constr_1) []
       SPC_NONE"

definition asn_PER_type_VehicleLengthConfidenceIndication_constr_1 :: "asn_per_constraints" where
  "asn_PER_type_VehicleLengthConfidenceIndication_constr_1 =
     \<lparr>pc_value = apc False True False 3 3 0 4,
      pc_size = apc False False False (-1) (-1) 0 0,
      pc_value2code = None, pc_code2value = None\<rparr>"

definition asn_MAP_VehicleLengthConfidenceIndication_value2enum_1 :: "(int \<times> string) list" where
  "asn_MAP_VehicleLengthConfidenceIndication_value2enum_1 =
     [(0, ''noTrailerPresent''), (1, ''trailerPresentWithKnownLength''),
      (2, ''trailerPresentWithUnknownLength''), (3, ''trailerPresenceIsUnknown''), (4, ''unavailable'')]"

definition asn_MAP_VehicleLengthConfidenceIndication_enum2value_1 :: "nat list" where
  "asn_MAP_VehicleLengthConfidenceIndication_enum2value_1 =
     [0, 3, 1, 2, 4]"

definition asn_SPC_VehicleLengthConfidenceIndication_specs_1 :: "asn_INTEGER_specifics" where
  "asn_SPC_VehicleLengthConfidenceIndication_specs_1 =
     \<lparr>value2enum = asn_MAP_VehicleLengthConfidenceIndication_value2enum_1, enum2value = asn_MAP_VehicleLengthConfidenceIndication_enum2value_1,
      is_extension = 0, strict_enumeration = True, field_unsigned = False\<rparr>"

definition asn_DEF_VehicleLengthConfidenceIndication :: "asn_TYPE_descriptor" where
  "asn_DEF_VehicleLengthConfidenceIndication =
     TD OP_NativeEnumerated (Some asn_PER_type_VehicleLengthConfidenceIndication_constr_1) []
       (SPC_INTEGER asn_SPC_VehicleLengthConfidenceIndication_specs_1)"

definition asn_MBR_VehicleLength_1 :: "asn_TYPE_member list" where
  "asn_MBR_VehicleLength_1 =
     [MBR False False asn_DEF_VehicleLengthValue None None,
      MBR False False asn_DEF_VehicleLengthConfidenceIndication None None]"

definition asn_SPC_VehicleLength_specs_1 :: "asn_SEQUENCE_specifics" where
  "asn_SPC_VehicleLength_specs_1 =
     \<lparr>oms = [], roms_count = 0, aoms_count = 0, first_extension = -1\<rparr>"

definition asn_DEF_VehicleLength :: "asn_TYPE_descriptor" where
  "asn_DEF_VehicleLength =
     TD OP_SEQUENCE None asn_MBR_VehicleLength_1
       (SPC_SEQUENCE asn_SPC_VehicleLength_specs_1)"

definition asn_PER_type_VehicleWidth_constr_1 :: "asn_per_constraints" where
  "asn_PER_type_VehicleWidth_constr_1 =
     \<lparr>pc_value = apc False True False 6 6 1 62,
      pc_size = apc False False False (-1) (-1) 0 0,
      pc_value2code = None, pc_code2value = None\<rparr>"

definition asn_DEF_VehicleWidth :: "asn_TYPE_descriptor" where
  "asn_DEF_VehicleWidth =
     TD OP_NativeInteger (Some asn_PER_type_VehicleWidth_constr_1) []
       SPC_NONE"

definition asn_PER_type_LongitudinalAccelerationValue_constr_1 :: "asn_per_constraints" where
  "asn_PER_type_LongitudinalAccelerationValue_constr_1 =
     \<lparr>pc_value = apc False True False 9 9 (-160) 161,
      pc_size = apc False False False (-1) (-1) 0 0,
      pc_value2code = None, pc_code2value = None\<rparr>"

definition asn_DEF_LongitudinalAccelerationValue :: "asn_TYPE_descriptor" where
  "asn_DEF_LongitudinalAccelerationValue =
     TD OP_NativeInteger (Some asn_PER_type_LongitudinalAccelerationValue_constr_1) []
       SPC_NONE"

definition asn_PER_type_AccelerationConfidence_constr_1 :: "asn_per_constraints" where
  "asn_PER_type_AccelerationConfidence_constr_1 =
     \<lparr>pc_value = apc False True False 7 7 0 102,
      pc_size = apc False False False (-1) (-1) 0 0,
      pc_value2code = None, pc_code2value = None\<rparr>"

definition asn_DEF_AccelerationConfidence :: "asn_TYPE_descriptor" where
  "asn_DEF_AccelerationConfidence =
     TD OP_NativeInteger (Some asn_PER_type_AccelerationConfidence_constr_1) []
       SPC_NONE"

definition asn_MBR_LongitudinalAcceleration_1 :: "asn_TYPE_member list" where
  "asn_MBR_LongitudinalAcceleration_1 =
     [MBR False False asn_DEF_LongitudinalAccelerationValue None None,
      MBR False False asn_DEF_AccelerationConfidence None None]"

definition asn_SPC_LongitudinalAcceleration_specs_1 :: "asn_SEQUENCE_specifics" where
  "asn_SPC_LongitudinalAcceleration_specs_1 =
     \<lparr>oms = [], roms_count = 0, aoms_count = 0, first_extension = -1\<rparr>"

definition asn_DEF_LongitudinalAcceleration :: "asn_TYPE_descriptor" where
  "asn_DEF_LongitudinalAcceleration =
     TD OP_SEQUENCE None asn_MBR_LongitudinalAcceleration_1
       (SPC_SEQUENCE asn_SPC_LongitudinalAcceleration_specs_1)"

definition asn_PER_type_CurvatureValue_constr_1 :: "asn_per_constraints" where
  "asn_PER_type_CurvatureValue_constr_1 =
     \<lparr>pc_value = apc False True False 11 11 (-1023) 1023,
      pc_size = apc False False False (-1) (-1) 0 0,
      pc_value2code = None, pc_code2value = None\<rparr>"

definition asn_DEF_CurvatureValue :: "asn_TYPE_descriptor" where
  "asn_DEF_CurvatureValue =
     TD OP_NativeInteger (Some asn_PER_type_CurvatureValue_constr_1) []
       SPC_NONE"

definition asn_PER_type_CurvatureConfidence_constr_1 :: "asn_per_constraints" where
  "asn_PER_type_CurvatureConfidence_constr_1 =
     \<lparr>pc_value = apc False True False 3 3 0 7,
      pc_size = apc False False False (-1) (-1) 0 0,
      pc_value2code = None, pc_code2value = None\<rparr>"

definition asn_MAP_CurvatureConfidence_value2enum_1 :: "(int \<times> string) list" where
  "asn_MAP_CurvatureConfidence_value2enum_1 =
     [(0, ''onePerMeter-0-00002''), (1, ''onePerMeter-0-0001''), (2, ''onePerMeter-0-0005''),
      (3, ''onePerMeter-0-002''), (4, ''onePerMeter-0-01''), (5, ''onePerMeter-0-1''), (6, ''outOfRange''),
      (7, ''unavailable'')]"

definition asn_MAP_CurvatureConfidence_enum2value_1 :: "nat list" where
  "asn_MAP_CurvatureConfidence_enum2value_1 =
     [0, 1, 2, 3, 4, 5, 6, 7]"

definition asn_SPC_CurvatureConfidence_specs_1 :: "asn_INTEGER_specifics" where
  "asn_SPC_CurvatureConfidence_specs_1 =
     \<lparr>value2enum = asn_MAP_CurvatureConfidence_value2enum_1, enum2value = asn_MAP_CurvatureConfidence_enum2value_1,
      is_extension = 0, strict_enumeration = True, field_unsigned = False\<rparr>"

definition asn_DEF_CurvatureConfidence :: "asn_TYPE_descriptor" where
  "asn_DEF_CurvatureConfidence =
     TD OP_NativeEnumerated (Some asn_PER_type_CurvatureConfidence_constr_1) []
       (SPC_INTEGER asn_SPC_CurvatureConfidence_specs_1)"

definition asn_MBR_Curvature_1 :: "asn_TYPE_member list" where
  "asn_MBR_Curvature_1 =
     [MBR False False asn_DEF_CurvatureValue None None,
      MBR False False asn_DEF_CurvatureConfidence None None]"

definition asn_SPC_Curvature_specs_1 :: "asn_SEQUENCE_specifics" where
  "asn_SPC_Curvature_specs_1 =
     \<lparr>oms = [], roms_count = 0, aoms_count = 0, first_extension = -1\<rparr>"

definition asn_DEF_Curvature :: "asn_TYPE_descriptor" where
  "asn_DEF_Curvature =
     TD OP_SEQUENCE None asn_MBR_Curvature_1
       (SPC_SEQUENCE asn_SPC_Curvature_specs_1)"

definition asn_PER_type_CurvatureCalculationMode_constr_1 :: "asn_per_constraints" where
  "asn_PER_type_CurvatureCalculationMode_constr_1 =
     \<lparr>pc_value = apc False True True 2 2 0 2,
      pc_size = apc False False False (-1) (-1) 0 0,
      pc_value2code = None, pc_code2value = None\<rparr>"

definition asn_MAP_CurvatureCalculationMode_value2enum_1 :: "(int \<times> string) list" where
  "asn_MAP_CurvatureCalculationMode_value2enum_1 =
     [(0, ''yawRateUsed''), (1, ''yawRateNotUsed''), (2, ''unavailable'')]"

definition asn_MAP_CurvatureCalculationMode_enum2value_1 :: "nat list" where
  "asn_MAP_CurvatureCalculationMode_enum2value_1 =
     [2, 1, 0]"

definition asn_SPC_CurvatureCalculationMode_specs_1 :: "asn_INTEGER_specifics" where
  "asn_SPC_CurvatureCalculationMode_specs_1 =
     \<lparr>value2enum = asn_MAP_CurvatureCalculationMode_value2enum_1, enum2value = asn_MAP_CurvatureCalculationMode_enum2value_1,
      is_extension = 4, strict_enumeration = True, field_unsigned = False\<rparr>"

definition asn_DEF_CurvatureCalculationMode :: "asn_TYPE_descriptor" where
  "asn_DEF_CurvatureCalculationMode =
     TD OP_NativeEnumerated (Some asn_PER_type_CurvatureCalculationMode_constr_1) []
       (SPC_INTEGER asn_SPC_CurvatureCalculationMode_specs_1)"

definition asn_PER_type_YawRateValue_constr_1 :: "asn_per_constraints" where
  "asn_PER_type_YawRateValue_constr_1 =
     \<lparr>pc_value = apc False True False 16 16 (-32766) 32767,
      pc_size = apc False False False (-1) (-1) 0 0,
      pc_value2code = None, pc_code2value = None\<rparr>"

definition asn_DEF_YawRateValue :: "asn_TYPE_descriptor" where
  "asn_DEF_YawRateValue =
     TD OP_NativeInteger (Some asn_PER_type_YawRateValue_constr_1) []
       SPC_NONE"

definition asn_PER_type_YawRateConfidence_constr_1 :: "asn_per_constraints" where
  "asn_PER_type_YawRateConfidence_constr_1 =
     \<lparr>pc_value = apc False True False 4 4 0 8,
      pc_size = apc False False False (-1) (-1) 0 0,
      pc_value2code = None, pc_code2value = None\<rparr>"

definition asn_MAP_YawRateConfidence_value2enum_1 :: "(int \<times> string) list" where
  "asn_MAP_YawRateConfidence_value2enum_1 =
     [(0, ''degSec-000-01''), (1, ''degSec-000-05''), (2, ''degSec-000-10''), (3, ''degSec-001-00''),
      (4, ''degSec-005-00''), (5, ''degSec-010-00''), (6, ''degSec-100-00''), (7, ''outOfRange''),
      (8, ''unavailable'')]"

definition asn_MAP_YawRateConfidence_enum2value_1 :: "nat list" where
  "asn_MAP_YawRateConfidence_enum2value_1 =
     [0, 1, 2, 3, 4, 5, 6, 7, 8]"

definition asn_SPC_YawRateConfidence_specs_1 :: "asn_INTEGER_specifics" where
  "asn_SPC_YawRateConfidence_specs_1 =
     \<lparr>value2enum = asn_MAP_YawRateConfidence_value2enum_1, enum2value = asn_MAP_YawRateConfidence_enum2value_1,
      is_extension = 0, strict_enumeration = True, field_unsigned = False\<rparr>"

definition asn_DEF_YawRateConfidence :: "asn_TYPE_descriptor" where
  "asn_DEF_YawRateConfidence =
     TD OP_NativeEnumerated (Some asn_PER_type_YawRateConfidence_constr_1) []
       (SPC_INTEGER asn_SPC_YawRateConfidence_specs_1)"

definition asn_MBR_YawRate_1 :: "asn_TYPE_member list" where
  "asn_MBR_YawRate_1 =
     [MBR False False asn_DEF_YawRateValue None None,
      MBR False False asn_DEF_YawRateConfidence None None]"

definition asn_SPC_YawRate_specs_1 :: "asn_SEQUENCE_specifics" where
  "asn_SPC_YawRate_specs_1 =
     \<lparr>oms = [], roms_count = 0, aoms_count = 0, first_extension = -1\<rparr>"

definition asn_DEF_YawRate :: "asn_TYPE_descriptor" where
  "asn_DEF_YawRate =
     TD OP_SEQUENCE None asn_MBR_YawRate_1
       (SPC_SEQUENCE asn_SPC_YawRate_specs_1)"

definition asn_PER_type_AccelerationControl_constr_1 :: "asn_per_constraints" where
  "asn_PER_type_AccelerationControl_constr_1 =
     \<lparr>pc_value = apc False False False (-1) (-1) 0 0,
      pc_size = apc False True False 0 0 7 7,
      pc_value2code = None, pc_code2value = None\<rparr>"

definition asn_DEF_AccelerationControl :: "asn_TYPE_descriptor" where
  "asn_DEF_AccelerationControl =
     TD OP_BIT_STRING (Some asn_PER_type_AccelerationControl_constr_1) []
       (SPC_OCTET_STRING ASN_OSUBV_BIT)"

definition asn_PER_type_LanePosition_constr_1 :: "asn_per_constraints" where
  "asn_PER_type_LanePosition_constr_1 =
     \<lparr>pc_value = apc False True False 4 4 (-1) 14,
      pc_size = apc False False False (-1) (-1) 0 0,
      pc_value2code = None, pc_code2value = None\<rparr>"

definition asn_DEF_LanePosition :: "asn_TYPE_descriptor" where
  "asn_DEF_LanePosition =
     TD OP_NativeInteger (Some asn_PER_type_LanePosition_constr_1) []
       SPC_NONE"

definition asn_PER_type_SteeringWheelAngleValue_constr_1 :: "asn_per_constraints" where
  "asn_PER_type_SteeringWheelAngleValue_constr_1 =
     \<lparr>pc_value = apc False True False 10 10 (-511) 512,
      pc_size = apc False False False (-1) (-1) 0 0,
      pc_value2code = None, pc_code2value = None\<rparr>"

definition asn_DEF_SteeringWheelAngleValue :: "asn_TYPE_descriptor" where
  "asn_DEF_SteeringWheelAngleValue =
     TD OP_NativeInteger (Some asn_PER_type_SteeringWheelAngleValue_constr_1) []
       SPC_NONE"

definition asn_PER_type_SteeringWheelAngleConfidence_constr_1 :: "asn_per_constraints" where
  "asn_PER_type_SteeringWheelAngleConfidence_constr_1 =
     \<lparr>pc_value = apc False True False 7 7 1 127,
      pc_size = apc False False False (-1) (-1) 0 0,
      pc_value2code = None, pc_code2value = None\<rparr>"

definition asn_DEF_SteeringWheelAngleConfidence :: "asn_TYPE_descriptor" where
  "asn_DEF_SteeringWheelAngleConfidence =
     TD OP_NativeInteger (Some asn_PER_type_SteeringWheelAngleConfidence_constr_1) []
       SPC_NONE"

definition asn_MBR_SteeringWheelAngle_1 :: "asn_TYPE_member list" where
  "asn_MBR_SteeringWheelAngle_1 =
     [MBR False False asn_DEF_SteeringWheelAngleValue None None,
      MBR False False asn_DEF_SteeringWheelAngleConfidence None None]"

definition asn_SPC_SteeringWheelAngle_specs_1 :: "asn_SEQUENCE_specifics" where
  "asn_SPC_SteeringWheelAngle_specs_1 =
     \<lparr>oms = [], roms_count = 0, aoms_count = 0, first_extension = -1\<rparr>"

definition asn_DEF_SteeringWheelAngle :: "asn_TYPE_descriptor" where
  "asn_DEF_SteeringWheelAngle =
     TD OP_SEQUENCE None asn_MBR_SteeringWheelAngle_1
       (SPC_SEQUENCE asn_SPC_SteeringWheelAngle_specs_1)"

definition asn_PER_type_LateralAccelerationValue_constr_1 :: "asn_per_constraints" where
  "asn_PER_type_LateralAccelerationValue_constr_1 =
     \<lparr>pc_value = apc False True False 9 9 (-160) 161,
      pc_size = apc False False False (-1) (-1) 0 0,
      pc_value2code = None, pc_code2value = None\<rparr>"

definition asn_DEF_LateralAccelerationValue :: "asn_TYPE_descriptor" where
  "asn_DEF_LateralAccelerationValue =
     TD OP_NativeInteger (Some asn_PER_type_LateralAccelerationValue_constr_1) []
       SPC_NONE"

definition asn_MBR_LateralAcceleration_1 :: "asn_TYPE_member list" where
  "asn_MBR_LateralAcceleration_1 =
     [MBR False False asn_DEF_LateralAccelerationValue None None,
      MBR False False asn_DEF_AccelerationConfidence None None]"

definition asn_SPC_LateralAcceleration_specs_1 :: "asn_SEQUENCE_specifics" where
  "asn_SPC_LateralAcceleration_specs_1 =
     \<lparr>oms = [], roms_count = 0, aoms_count = 0, first_extension = -1\<rparr>"

definition asn_DEF_LateralAcceleration :: "asn_TYPE_descriptor" where
  "asn_DEF_LateralAcceleration =
     TD OP_SEQUENCE None asn_MBR_LateralAcceleration_1
       (SPC_SEQUENCE asn_SPC_LateralAcceleration_specs_1)"

definition asn_PER_type_VerticalAccelerationValue_constr_1 :: "asn_per_constraints" where
  "asn_PER_type_VerticalAccelerationValue_constr_1 =
     \<lparr>pc_value = apc False True False 9 9 (-160) 161,
      pc_size = apc False False False (-1) (-1) 0 0,
      pc_value2code = None, pc_code2value = None\<rparr>"

definition asn_DEF_VerticalAccelerationValue :: "asn_TYPE_descriptor" where
  "asn_DEF_VerticalAccelerationValue =
     TD OP_NativeInteger (Some asn_PER_type_VerticalAccelerationValue_constr_1) []
       SPC_NONE"

definition asn_MBR_VerticalAcceleration_1 :: "asn_TYPE_member list" where
  "asn_MBR_VerticalAcceleration_1 =
     [MBR False False asn_DEF_VerticalAccelerationValue None None,
      MBR False False asn_DEF_AccelerationConfidence None None]"

definition asn_SPC_VerticalAcceleration_specs_1 :: "asn_SEQUENCE_specifics" where
  "asn_SPC_VerticalAcceleration_specs_1 =
     \<lparr>oms = [], roms_count = 0, aoms_count = 0, first_extension = -1\<rparr>"

definition asn_DEF_VerticalAcceleration :: "asn_TYPE_descriptor" where
  "asn_DEF_VerticalAcceleration =
     TD OP_SEQUENCE None asn_MBR_VerticalAcceleration_1
       (SPC_SEQUENCE asn_SPC_VerticalAcceleration_specs_1)"

definition asn_PER_type_PerformanceClass_constr_1 :: "asn_per_constraints" where
  "asn_PER_type_PerformanceClass_constr_1 =
     \<lparr>pc_value = apc False True False 3 3 0 7,
      pc_size = apc False False False (-1) (-1) 0 0,
      pc_value2code = None, pc_code2value = None\<rparr>"

definition asn_DEF_PerformanceClass :: "asn_TYPE_descriptor" where
  "asn_DEF_PerformanceClass =
     TD OP_NativeInteger (Some asn_PER_type_PerformanceClass_constr_1) []
       SPC_NONE"

definition asn_PER_type_CenDsrcTollingZoneID_constr_1 :: "asn_per_constraints" where
  "asn_PER_type_CenDsrcTollingZoneID_constr_1 =
     \<lparr>pc_value = apc False True False 27 (-1) 0 134217727,
      pc_size = apc False False False (-1) (-1) 0 0,
      pc_value2code = None, pc_code2value = None\<rparr>"

definition asn_DEF_CenDsrcTollingZoneID :: "asn_TYPE_descriptor" where
  "asn_DEF_CenDsrcTollingZoneID =
     TD OP_NativeInteger (Some asn_PER_type_CenDsrcTollingZoneID_constr_1) []
       SPC_NONE"

definition asn_MBR_CenDsrcTollingZone_1 :: "asn_TYPE_member list" where
  "asn_MBR_CenDsrcTollingZone_1 =
     [MBR False False asn_DEF_Latitude None None,
      MBR False False asn_DEF_Longitude None None,
      MBR True True asn_DEF_CenDsrcTollingZoneID None None]"

definition asn_MAP_CenDsrcTollingZone_oms_1 :: "nat list" where
  "asn_MAP_CenDsrcTollingZone_oms_1 =
     [2]"

definition asn_SPC_CenDsrcTollingZone_specs_1 :: "asn_SEQUENCE_specifics" where
  "asn_SPC_CenDsrcTollingZone_specs_1 =
     \<lparr>oms = asn_MAP_CenDsrcTollingZone_oms_1, roms_count = 1, aoms_count = 0, first_extension = 3\<rparr>"

definition asn_DEF_CenDsrcTollingZone :: "asn_TYPE_descriptor" where
  "asn_DEF_CenDsrcTollingZone =
     TD OP_SEQUENCE None asn_MBR_CenDsrcTollingZone_1
       (SPC_SEQUENCE asn_SPC_CenDsrcTollingZone_specs_1)"

definition asn_MBR_BasicVehicleContainerHighFrequency_1 :: "asn_TYPE_member list" where
  "asn_MBR_BasicVehicleContainerHighFrequency_1 =
     [MBR False False asn_DEF_Heading None None,
      MBR False False asn_DEF_Speed None None,
      MBR False False asn_DEF_DriveDirection None None,
      MBR False False asn_DEF_VehicleLength None None,
      MBR False False asn_DEF_VehicleWidth None None,
      MBR False False asn_DEF_LongitudinalAcceleration None None,
      MBR False False asn_DEF_Curvature None None,
      MBR False False asn_DEF_CurvatureCalculationMode None None,
      MBR False False asn_DEF_YawRate None None,
      MBR True True asn_DEF_AccelerationControl None None,
      MBR True True asn_DEF_LanePosition None None,
      MBR True True asn_DEF_SteeringWheelAngle None None,
      MBR True True asn_DEF_LateralAcceleration None None,
      MBR True True asn_DEF_VerticalAcceleration None None,
      MBR True True asn_DEF_PerformanceClass None None,
      MBR True True asn_DEF_CenDsrcTollingZone None None]"

definition asn_MAP_BasicVehicleContainerHighFrequency_oms_1 :: "nat list" where
  "asn_MAP_BasicVehicleContainerHighFrequency_oms_1 =
     [9, 10, 11, 12, 13, 14, 15]"

definition asn_SPC_BasicVehicleContainerHighFrequency_specs_1 :: "asn_SEQUENCE_specifics" where
  "asn_SPC_BasicVehicleContainerHighFrequency_specs_1 =
     \<lparr>oms = asn_MAP_BasicVehicleContainerHighFrequency_oms_1, roms_count = 7, aoms_count = 0, first_extension = -1\<rparr>"

definition asn_DEF_BasicVehicleContainerHighFrequency :: "asn_TYPE_descriptor" where
  "asn_DEF_BasicVehicleContainerHighFrequency =
     TD OP_SEQUENCE None asn_MBR_BasicVehicleContainerHighFrequency_1
       (SPC_SEQUENCE asn_SPC_BasicVehicleContainerHighFrequency_specs_1)"

definition asn_PER_type_ProtectedZoneType_constr_1 :: "asn_per_constraints" where
  "asn_PER_type_ProtectedZoneType_constr_1 =
     \<lparr>pc_value = apc False True True 0 0 0 0,
      pc_size = apc False False False (-1) (-1) 0 0,
      pc_value2code = None, pc_code2value = None\<rparr>"

definition asn_MAP_ProtectedZoneType_value2enum_1 :: "(int \<times> string) list" where
  "asn_MAP_ProtectedZoneType_value2enum_1 =
     [(0, ''permanentCenDsrcTolling''), (1, ''temporaryCenDsrcTolling'')]"

definition asn_MAP_ProtectedZoneType_enum2value_1 :: "nat list" where
  "asn_MAP_ProtectedZoneType_enum2value_1 =
     [0, 1]"

definition asn_SPC_ProtectedZoneType_specs_1 :: "asn_INTEGER_specifics" where
  "asn_SPC_ProtectedZoneType_specs_1 =
     \<lparr>value2enum = asn_MAP_ProtectedZoneType_value2enum_1, enum2value = asn_MAP_ProtectedZoneType_enum2value_1,
      is_extension = 2, strict_enumeration = True, field_unsigned = False\<rparr>"

definition asn_DEF_ProtectedZoneType :: "asn_TYPE_descriptor" where
  "asn_DEF_ProtectedZoneType =
     TD OP_NativeEnumerated (Some asn_PER_type_ProtectedZoneType_constr_1) []
       (SPC_INTEGER asn_SPC_ProtectedZoneType_specs_1)"

definition asn_PER_type_TimestampIts_constr_1 :: "asn_per_constraints" where
  "asn_PER_type_TimestampIts_constr_1 =
     \<lparr>pc_value = apc False True False 42 (-1) 0 4398046511103,
      pc_size = apc False False False (-1) (-1) 0 0,
      pc_value2code = None, pc_code2value = None\<rparr>"

definition asn_DEF_TimestampIts :: "asn_TYPE_descriptor" where
  "asn_DEF_TimestampIts =
     TD OP_INTEGER (Some asn_PER_type_TimestampIts_constr_1) []
       SPC_NONE"

definition asn_PER_type_ProtectedZoneRadius_constr_1 :: "asn_per_constraints" where
  "asn_PER_type_ProtectedZoneRadius_constr_1 =
     \<lparr>pc_value = apc False True True 8 8 1 255,
      pc_size = apc False False False (-1) (-1) 0 0,
      pc_value2code = None, pc_code2value = None\<rparr>"

definition asn_DEF_ProtectedZoneRadius :: "asn_TYPE_descriptor" where
  "asn_DEF_ProtectedZoneRadius =
     TD OP_NativeInteger (Some asn_PER_type_ProtectedZoneRadius_constr_1) []
       SPC_NONE"

definition asn_PER_type_ProtectedZoneID_constr_1 :: "asn_per_constraints" where
  "asn_PER_type_ProtectedZoneID_constr_1 =
     \<lparr>pc_value = apc False True False 27 (-1) 0 134217727,
      pc_size = apc False False False (-1) (-1) 0 0,
      pc_value2code = None, pc_code2value = None\<rparr>"

definition asn_DEF_ProtectedZoneID :: "asn_TYPE_descriptor" where
  "asn_DEF_ProtectedZoneID =
     TD OP_NativeInteger (Some asn_PER_type_ProtectedZoneID_constr_1) []
       SPC_NONE"

definition asn_MBR_ProtectedCommunicationZone_1 :: "asn_TYPE_member list" where
  "asn_MBR_ProtectedCommunicationZone_1 =
     [MBR False False asn_DEF_ProtectedZoneType None None,
      MBR True True asn_DEF_TimestampIts None None,
      MBR False False asn_DEF_Latitude None None,
      MBR False False asn_DEF_Longitude None None,
      MBR True True asn_DEF_ProtectedZoneRadius None None,
      MBR True True asn_DEF_ProtectedZoneID None None]"

definition asn_MAP_ProtectedCommunicationZone_oms_1 :: "nat list" where
  "asn_MAP_ProtectedCommunicationZone_oms_1 =
     [1, 4, 5]"

definition asn_SPC_ProtectedCommunicationZone_specs_1 :: "asn_SEQUENCE_specifics" where
  "asn_SPC_ProtectedCommunicationZone_specs_1 =
     \<lparr>oms = asn_MAP_ProtectedCommunicationZone_oms_1, roms_count = 3, aoms_count = 0, first_extension = 6\<rparr>"

definition asn_DEF_ProtectedCommunicationZone :: "asn_TYPE_descriptor" where
  "asn_DEF_ProtectedCommunicationZone =
     TD OP_SEQUENCE None asn_MBR_ProtectedCommunicationZone_1
       (SPC_SEQUENCE asn_SPC_ProtectedCommunicationZone_specs_1)"

definition asn_MBR_ProtectedCommunicationZonesRSU_1 :: "asn_TYPE_member list" where
  "asn_MBR_ProtectedCommunicationZonesRSU_1 =
     [MBR True False asn_DEF_ProtectedCommunicationZone None None]"

definition asn_PER_type_ProtectedCommunicationZonesRSU_constr_1 :: "asn_per_constraints" where
  "asn_PER_type_ProtectedCommunicationZonesRSU_constr_1 =
     \<lparr>pc_value = apc False False False (-1) (-1) 0 0,
      pc_size = apc False True False 4 4 1 16,
      pc_value2code = None, pc_code2value = None\<rparr>"

definition asn_DEF_ProtectedCommunicationZonesRSU :: "asn_TYPE_descriptor" where
  "asn_DEF_ProtectedCommunicationZonesRSU =
     TD OP_SEQUENCE_OF (Some asn_PER_type_ProtectedCommunicationZonesRSU_constr_1) asn_MBR_ProtectedCommunicationZonesRSU_1
       SPC_NONE"

definition asn_MBR_RSUContainerHighFrequency_1 :: "asn_TYPE_member list" where
  "asn_MBR_RSUContainerHighFrequency_1 =
     [MBR True True asn_DEF_ProtectedCommunicationZonesRSU None None]"

definition asn_MAP_RSUContainerHighFrequency_oms_1 :: "nat list" where
  "asn_MAP_RSUContainerHighFrequency_oms_1 =
     [0]"

definition asn_SPC_RSUContainerHighFrequency_specs_1 :: "asn_SEQUENCE_specifics" where
  "asn_SPC_RSUContainerHighFrequency_specs_1 =
     \<lparr>oms = asn_MAP_RSUContainerHighFrequency_oms_1, roms_count = 1, aoms_count = 0, first_extension = 1\<rparr>"

definition asn_DEF_RSUContainerHighFrequency :: "asn_TYPE_descriptor" where
  "asn_DEF_RSUContainerHighFrequency =
     TD OP_SEQUENCE None asn_MBR_RSUContainerHighFrequency_1
       (SPC_SEQUENCE asn_SPC_RSUContainerHighFrequency_specs_1)"

definition asn_MBR_HighFrequencyContainer_1 :: "asn_TYPE_member list" where
  "asn_MBR_HighFrequencyContainer_1 =
     [MBR False False asn_DEF_BasicVehicleContainerHighFrequency None None,
      MBR False False asn_DEF_RSUContainerHighFrequency None None]"

definition asn_PER_type_HighFrequencyContainer_constr_1 :: "asn_per_constraints" where
  "asn_PER_type_HighFrequencyContainer_constr_1 =
     \<lparr>pc_value = apc False True True 1 1 0 1,
      pc_size = apc False False False (-1) (-1) 0 0,
      pc_value2code = None, pc_code2value = None\<rparr>"

definition asn_SPC_HighFrequencyContainer_specs_1 :: "asn_CHOICE_specifics" where
  "asn_SPC_HighFrequencyContainer_specs_1 =
     \<lparr>to_canonical_order = None, from_canonical_order = None, ext_start = 2\<rparr>"

definition asn_DEF_HighFrequencyContainer :: "asn_TYPE_descriptor" where
  "asn_DEF_HighFrequencyContainer =
     TD OP_CHOICE (Some asn_PER_type_HighFrequencyContainer_constr_1) asn_MBR_HighFrequencyContainer_1
       (SPC_CHOICE asn_SPC_HighFrequencyContainer_specs_1)"

definition asn_PER_type_VehicleRole_constr_1 :: "asn_per_constraints" where
  "asn_PER_type_VehicleRole_constr_1 =
     \<lparr>pc_value = apc False True False 4 4 0 15,
      pc_size = apc False False False (-1) (-1) 0 0,
      pc_value2code = None, pc_code2value = None\<rparr>"

definition asn_MAP_VehicleRole_value2enum_1 :: "(int \<times> string) list" where
  "asn_MAP_VehicleRole_value2enum_1 =
     [(0, ''default''), (1, ''publicTransport''), (2, ''specialTransport''), (3, ''dangerousGoods''),
      (4, ''roadWork''), (5, ''rescue''), (6, ''emergency''), (7, ''safetyCar''), (8, ''agriculture''),
      (9, ''commercial''), (10, ''military''), (11, ''roadOperator''), (12, ''taxi''), (13, ''reserved1''),
      (14, ''reserved2''), (15, ''reserved3'')]"

definition asn_MAP_VehicleRole_enum2value_1 :: "nat list" where
  "asn_MAP_VehicleRole_enum2value_1 =
     [8, 9, 3, 0, 6, 10, 1, 5, 13, 14, 15, 11, 4, 7, 2, 12]"

definition asn_SPC_VehicleRole_specs_1 :: "asn_INTEGER_specifics" where
  "asn_SPC_VehicleRole_specs_1 =
     \<lparr>value2enum = asn_MAP_VehicleRole_value2enum_1, enum2value = asn_MAP_VehicleRole_enum2value_1,
      is_extension = 0, strict_enumeration = True, field_unsigned = False\<rparr>"

definition asn_DEF_VehicleRole :: "asn_TYPE_descriptor" where
  "asn_DEF_VehicleRole =
     TD OP_NativeEnumerated (Some asn_PER_type_VehicleRole_constr_1) []
       (SPC_INTEGER asn_SPC_VehicleRole_specs_1)"

definition asn_PER_type_ExteriorLights_constr_1 :: "asn_per_constraints" where
  "asn_PER_type_ExteriorLights_constr_1 =
     \<lparr>pc_value = apc False False False (-1) (-1) 0 0,
      pc_size = apc False True False 0 0 8 8,
      pc_value2code = None, pc_code2value = None\<rparr>"

definition asn_DEF_ExteriorLights :: "asn_TYPE_descriptor" where
  "asn_DEF_ExteriorLights =
     TD OP_BIT_STRING (Some asn_PER_type_ExteriorLights_constr_1) []
       (SPC_OCTET_STRING ASN_OSUBV_BIT)"

definition asn_PER_type_DeltaLatitude_constr_1 :: "asn_per_constraints" where
  "asn_PER_type_DeltaLatitude_constr_1 =
     \<lparr>pc_value = apc False True False 18 (-1) (-131071) 131072,
      pc_size = apc False False False (-1) (-1) 0 0,
      pc_value2code = None, pc_code2value = None\<rparr>"

definition asn_DEF_DeltaLatitude :: "asn_TYPE_descriptor" where
  "asn_DEF_DeltaLatitude =
     TD OP_NativeInteger (Some asn_PER_type_DeltaLatitude_constr_1) []
       SPC_NONE"

definition asn_PER_type_DeltaLongitude_constr_1 :: "asn_per_constraints" where
  "asn_PER_type_DeltaLongitude_constr_1 =
     \<lparr>pc_value = apc False True False 18 (-1) (-131071) 131072,
      pc_size = apc False False False (-1) (-1) 0 0,
      pc_value2code = None, pc_code2value = None\<rparr>"

definition asn_DEF_DeltaLongitude :: "asn_TYPE_descriptor" where
  "asn_DEF_DeltaLongitude =
     TD OP_NativeInteger (Some asn_PER_type_DeltaLongitude_constr_1) []
       SPC_NONE"

definition asn_PER_type_DeltaAltitude_constr_1 :: "asn_per_constraints" where
  "asn_PER_type_DeltaAltitude_constr_1 =
     \<lparr>pc_value = apc False True False 15 15 (-12700) 12800,
      pc_size = apc False False False (-1) (-1) 0 0,
      pc_value2code = None, pc_code2value = None\<rparr>"

definition asn_DEF_DeltaAltitude :: "asn_TYPE_descriptor" where
  "asn_DEF_DeltaAltitude =
     TD OP_NativeInteger (Some asn_PER_type_DeltaAltitude_constr_1) []
       SPC_NONE"

definition asn_MBR_DeltaReferencePosition_1 :: "asn_TYPE_member list" where
  "asn_MBR_DeltaReferencePosition_1 =
     [MBR False False asn_DEF_DeltaLatitude None None,
      MBR False False asn_DEF_DeltaLongitude None None,
      MBR False False asn_DEF_DeltaAltitude None None]"

definition asn_SPC_DeltaReferencePosition_specs_1 :: "asn_SEQUENCE_specifics" where
  "asn_SPC_DeltaReferencePosition_specs_1 =
     \<lparr>oms = [], roms_count = 0, aoms_count = 0, first_extension = -1\<rparr>"

definition asn_DEF_DeltaReferencePosition :: "asn_TYPE_descriptor" where
  "asn_DEF_DeltaReferencePosition =
     TD OP_SEQUENCE None asn_MBR_DeltaReferencePosition_1
       (SPC_SEQUENCE asn_SPC_DeltaReferencePosition_specs_1)"

definition asn_PER_type_PathDeltaTime_constr_1 :: "asn_per_constraints" where
  "asn_PER_type_PathDeltaTime_constr_1 =
     \<lparr>pc_value = apc False True True 16 16 1 65535,
      pc_size = apc False False False (-1) (-1) 0 0,
      pc_value2code = None, pc_code2value = None\<rparr>"

definition asn_DEF_PathDeltaTime :: "asn_TYPE_descriptor" where
  "asn_DEF_PathDeltaTime =
     TD OP_NativeInteger (Some asn_PER_type_PathDeltaTime_constr_1) []
       SPC_NONE"

definition asn_MBR_PathPoint_1 :: "asn_TYPE_member list" where
  "asn_MBR_PathPoint_1 =
     [MBR False False asn_DEF_DeltaReferencePosition None None,
      MBR True True asn_DEF_PathDeltaTime None None]"

definition asn_MAP_PathPoint_oms_1 :: "nat list" where
  "asn_MAP_PathPoint_oms_1 =
     [1]"

definition asn_SPC_PathPoint_specs_1 :: "asn_SEQUENCE_specifics" where
  "asn_SPC_PathPoint_specs_1 =
     \<lparr>oms = asn_MAP_PathPoint_oms_1, roms_count = 1, aoms_count = 0, first_extension = -1\<rparr>"

definition asn_DEF_PathPoint :: "asn_TYPE_descriptor" where
  "asn_DEF_PathPoint =
     TD OP_SEQUENCE None asn_MBR_PathPoint_1
       (SPC_SEQUENCE asn_SPC_PathPoint_specs_1)"

definition asn_MBR_PathHistory_1 :: "asn_TYPE_member list" where
  "asn_MBR_PathHistory_1 =
     [MBR True False asn_DEF_PathPoint None None]"

definition asn_PER_type_PathHistory_constr_1 :: "asn_per_constraints" where
  "asn_PER_type_PathHistory_constr_1 =
     \<lparr>pc_value = apc False False False (-1) (-1) 0 0,
      pc_size = apc False True False 6 6 0 40,
      pc_value2code = None, pc_code2value = None\<rparr>"

definition asn_DEF_PathHistory :: "asn_TYPE_descriptor" where
  "asn_DEF_PathHistory =
     TD OP_SEQUENCE_OF (Some asn_PER_type_PathHistory_constr_1) asn_MBR_PathHistory_1
       SPC_NONE"

definition asn_MBR_BasicVehicleContainerLowFrequency_1 :: "asn_TYPE_member list" where
  "asn_MBR_BasicVehicleContainerLowFrequency_1 =
     [MBR False False asn_DEF_VehicleRole None None,
      MBR False False asn_DEF_ExteriorLights None None,
      MBR False False asn_DEF_PathHistory None None]"

definition asn_SPC_BasicVehicleContainerLowFrequency_specs_1 :: "asn_SEQUENCE_specifics" where
  "asn_SPC_BasicVehicleContainerLowFrequency_specs_1 =
     \<lparr>oms = [], roms_count = 0, aoms_count = 0, first_extension = -1\<rparr>"

definition asn_DEF_BasicVehicleContainerLowFrequency :: "asn_TYPE_descriptor" where
  "asn_DEF_BasicVehicleContainerLowFrequency =
     TD OP_SEQUENCE None asn_MBR_BasicVehicleContainerLowFrequency_1
       (SPC_SEQUENCE asn_SPC_BasicVehicleContainerLowFrequency_specs_1)"

definition asn_MBR_LowFrequencyContainer_1 :: "asn_TYPE_member list" where
  "asn_MBR_LowFrequencyContainer_1 =
     [MBR False False asn_DEF_BasicVehicleContainerLowFrequency None None]"

definition asn_PER_type_LowFrequencyContainer_constr_1 :: "asn_per_constraints" where
  "asn_PER_type_LowFrequencyContainer_constr_1 =
     \<lparr>pc_value = apc False True True 0 0 0 0,
      pc_size = apc False False False (-1) (-1) 0 0,
      pc_value2code = None, pc_code2value = None\<rparr>"

definition asn_SPC_LowFrequencyContainer_specs_1 :: "asn_CHOICE_specifics" where
  "asn_SPC_LowFrequencyContainer_specs_1 =
     \<lparr>to_canonical_order = None, from_canonical_order = None, ext_start = 1\<rparr>"

definition asn_DEF_LowFrequencyContainer :: "asn_TYPE_descriptor" where
  "asn_DEF_LowFrequencyContainer =
     TD OP_CHOICE (Some asn_PER_type_LowFrequencyContainer_constr_1) asn_MBR_LowFrequencyContainer_1
       (SPC_CHOICE asn_SPC_LowFrequencyContainer_specs_1)"

definition asn_DEF_EmbarkationStatus :: "asn_TYPE_descriptor" where
  "asn_DEF_EmbarkationStatus =
     TD OP_BOOLEAN None []
       SPC_NONE"

definition asn_PER_type_PtActivationType_constr_1 :: "asn_per_constraints" where
  "asn_PER_type_PtActivationType_constr_1 =
     \<lparr>pc_value = apc False True False 8 8 0 255,
      pc_size = apc False False False (-1) (-1) 0 0,
      pc_value2code = None, pc_code2value = None\<rparr>"

definition asn_DEF_PtActivationType :: "asn_TYPE_descriptor" where
  "asn_DEF_PtActivationType =
     TD OP_NativeInteger (Some asn_PER_type_PtActivationType_constr_1) []
       SPC_NONE"

definition asn_PER_type_PtActivationData_constr_1 :: "asn_per_constraints" where
  "asn_PER_type_PtActivationData_constr_1 =
     \<lparr>pc_value = apc False False False (-1) (-1) 0 0,
      pc_size = apc False True False 5 5 1 20,
      pc_value2code = None, pc_code2value = None\<rparr>"

definition asn_DEF_PtActivationData :: "asn_TYPE_descriptor" where
  "asn_DEF_PtActivationData =
     TD OP_OCTET_STRING (Some asn_PER_type_PtActivationData_constr_1) []
       (SPC_OCTET_STRING ASN_OSUBV_STR)"

definition asn_MBR_PtActivation_1 :: "asn_TYPE_member list" where
  "asn_MBR_PtActivation_1 =
     [MBR False False asn_DEF_PtActivationType None None,
      MBR False False asn_DEF_PtActivationData None None]"

definition asn_SPC_PtActivation_specs_1 :: "asn_SEQUENCE_specifics" where
  "asn_SPC_PtActivation_specs_1 =
     \<lparr>oms = [], roms_count = 0, aoms_count = 0, first_extension = -1\<rparr>"

definition asn_DEF_PtActivation :: "asn_TYPE_descriptor" where
  "asn_DEF_PtActivation =
     TD OP_SEQUENCE None asn_MBR_PtActivation_1
       (SPC_SEQUENCE asn_SPC_PtActivation_specs_1)"

definition asn_MBR_PublicTransportContainer_1 :: "asn_TYPE_member list" where
  "asn_MBR_PublicTransportContainer_1 =
     [MBR False False asn_DEF_EmbarkationStatus None None,
      MBR True True asn_DEF_PtActivation None None]"

definition asn_MAP_PublicTransportContainer_oms_1 :: "nat list" where
  "asn_MAP_PublicTransportContainer_oms_1 =
     [1]"

definition asn_SPC_PublicTransportContainer_specs_1 :: "asn_SEQUENCE_specifics" where
  "asn_SPC_PublicTransportContainer_specs_1 =
     \<lparr>oms = asn_MAP_PublicTransportContainer_oms_1, roms_count = 1, aoms_count = 0, first_extension = -1\<rparr>"

definition asn_DEF_PublicTransportContainer :: "asn_TYPE_descriptor" where
  "asn_DEF_PublicTransportContainer =
     TD OP_SEQUENCE None asn_MBR_PublicTransportContainer_1
       (SPC_SEQUENCE asn_SPC_PublicTransportContainer_specs_1)"

definition asn_PER_type_SpecialTransportType_constr_1 :: "asn_per_constraints" where
  "asn_PER_type_SpecialTransportType_constr_1 =
     \<lparr>pc_value = apc False False False (-1) (-1) 0 0,
      pc_size = apc False True False 0 0 4 4,
      pc_value2code = None, pc_code2value = None\<rparr>"

definition asn_DEF_SpecialTransportType :: "asn_TYPE_descriptor" where
  "asn_DEF_SpecialTransportType =
     TD OP_BIT_STRING (Some asn_PER_type_SpecialTransportType_constr_1) []
       (SPC_OCTET_STRING ASN_OSUBV_BIT)"

definition asn_PER_type_LightBarSirenInUse_constr_1 :: "asn_per_constraints" where
  "asn_PER_type_LightBarSirenInUse_constr_1 =
     \<lparr>pc_value = apc False False False (-1) (-1) 0 0,
      pc_size = apc False True False 0 0 2 2,
      pc_value2code = None, pc_code2value = None\<rparr>"

definition asn_DEF_LightBarSirenInUse :: "asn_TYPE_descriptor" where
  "asn_DEF_LightBarSirenInUse =
     TD OP_BIT_STRING (Some asn_PER_type_LightBarSirenInUse_constr_1) []
       (SPC_OCTET_STRING ASN_OSUBV_BIT)"

definition asn_MBR_SpecialTransportContainer_1 :: "asn_TYPE_member list" where
  "asn_MBR_SpecialTransportContainer_1 =
     [MBR False False asn_DEF_SpecialTransportType None None,
      MBR False False asn_DEF_LightBarSirenInUse None None]"

definition asn_SPC_SpecialTransportContainer_specs_1 :: "asn_SEQUENCE_specifics" where
  "asn_SPC_SpecialTransportContainer_specs_1 =
     \<lparr>oms = [], roms_count = 0, aoms_count = 0, first_extension = -1\<rparr>"

definition asn_DEF_SpecialTransportContainer :: "asn_TYPE_descriptor" where
  "asn_DEF_SpecialTransportContainer =
     TD OP_SEQUENCE None asn_MBR_SpecialTransportContainer_1
       (SPC_SEQUENCE asn_SPC_SpecialTransportContainer_specs_1)"

definition asn_PER_type_DangerousGoodsBasic_constr_1 :: "asn_per_constraints" where
  "asn_PER_type_DangerousGoodsBasic_constr_1 =
     \<lparr>pc_value = apc False True False 5 5 0 19,
      pc_size = apc False False False (-1) (-1) 0 0,
      pc_value2code = None, pc_code2value = None\<rparr>"

definition asn_MAP_DangerousGoodsBasic_value2enum_1 :: "(int \<times> string) list" where
  "asn_MAP_DangerousGoodsBasic_value2enum_1 =
     [(0, ''explosives1''), (1, ''explosives2''), (2, ''explosives3''), (3, ''explosives4''),
      (4, ''explosives5''), (5, ''explosives6''), (6, ''flammableGases''), (7, ''nonFlammableGases''),
      (8, ''toxicGases''), (9, ''flammableLiquids''), (10, ''flammableSolids''),
      (11, ''substancesLiableToSpontaneousCombustion''),
      (12, ''substancesEmittingFlammableGasesUponContactWithWater''), (13, ''oxidizingSubstances''),
      (14, ''organicPeroxides''), (15, ''toxicSubstances''), (16, ''infectiousSubstances''),
      (17, ''radioactiveMaterial''), (18, ''corrosiveSubstances''),
      (19, ''miscellaneousDangerousSubstances'')]"

definition asn_MAP_DangerousGoodsBasic_enum2value_1 :: "nat list" where
  "asn_MAP_DangerousGoodsBasic_enum2value_1 =
     [18, 0, 1, 2, 3, 4, 5, 6, 9, 10, 16, 19, 7, 14, 13, 17, 12, 11, 8, 15]"

definition asn_SPC_DangerousGoodsBasic_specs_1 :: "asn_INTEGER_specifics" where
  "asn_SPC_DangerousGoodsBasic_specs_1 =
     \<lparr>value2enum = asn_MAP_DangerousGoodsBasic_value2enum_1, enum2value = asn_MAP_DangerousGoodsBasic_enum2value_1,
      is_extension = 0, strict_enumeration = True, field_unsigned = False\<rparr>"

definition asn_DEF_DangerousGoodsBasic :: "asn_TYPE_descriptor" where
  "asn_DEF_DangerousGoodsBasic =
     TD OP_NativeEnumerated (Some asn_PER_type_DangerousGoodsBasic_constr_1) []
       (SPC_INTEGER asn_SPC_DangerousGoodsBasic_specs_1)"

definition asn_MBR_DangerousGoodsContainer_1 :: "asn_TYPE_member list" where
  "asn_MBR_DangerousGoodsContainer_1 =
     [MBR False False asn_DEF_DangerousGoodsBasic None None]"

definition asn_SPC_DangerousGoodsContainer_specs_1 :: "asn_SEQUENCE_specifics" where
  "asn_SPC_DangerousGoodsContainer_specs_1 =
     \<lparr>oms = [], roms_count = 0, aoms_count = 0, first_extension = -1\<rparr>"

definition asn_DEF_DangerousGoodsContainer :: "asn_TYPE_descriptor" where
  "asn_DEF_DangerousGoodsContainer =
     TD OP_SEQUENCE None asn_MBR_DangerousGoodsContainer_1
       (SPC_SEQUENCE asn_SPC_DangerousGoodsContainer_specs_1)"

definition asn_PER_type_RoadworksSubCauseCode_constr_1 :: "asn_per_constraints" where
  "asn_PER_type_RoadworksSubCauseCode_constr_1 =
     \<lparr>pc_value = apc False True False 8 8 0 255,
      pc_size = apc False False False (-1) (-1) 0 0,
      pc_value2code = None, pc_code2value = None\<rparr>"

definition asn_DEF_RoadworksSubCauseCode :: "asn_TYPE_descriptor" where
  "asn_DEF_RoadworksSubCauseCode =
     TD OP_NativeInteger (Some asn_PER_type_RoadworksSubCauseCode_constr_1) []
       SPC_NONE"

definition asn_PER_type_HardShoulderStatus_constr_1 :: "asn_per_constraints" where
  "asn_PER_type_HardShoulderStatus_constr_1 =
     \<lparr>pc_value = apc False True False 2 2 0 2,
      pc_size = apc False False False (-1) (-1) 0 0,
      pc_value2code = None, pc_code2value = None\<rparr>"

definition asn_MAP_HardShoulderStatus_value2enum_1 :: "(int \<times> string) list" where
  "asn_MAP_HardShoulderStatus_value2enum_1 =
     [(0, ''availableForStopping''), (1, ''closed''), (2, ''availableForDriving'')]"

definition asn_MAP_HardShoulderStatus_enum2value_1 :: "nat list" where
  "asn_MAP_HardShoulderStatus_enum2value_1 =
     [2, 0, 1]"

definition asn_SPC_HardShoulderStatus_specs_1 :: "asn_INTEGER_specifics" where
  "asn_SPC_HardShoulderStatus_specs_1 =
     \<lparr>value2enum = asn_MAP_HardShoulderStatus_value2enum_1, enum2value = asn_MAP_HardShoulderStatus_enum2value_1,
      is_extension = 0, strict_enumeration = True, field_unsigned = False\<rparr>"

definition asn_DEF_HardShoulderStatus :: "asn_TYPE_descriptor" where
  "asn_DEF_HardShoulderStatus =
     TD OP_NativeEnumerated (Some asn_PER_type_HardShoulderStatus_constr_1) []
       (SPC_INTEGER asn_SPC_HardShoulderStatus_specs_1)"

definition asn_PER_type_DrivingLaneStatus_constr_1 :: "asn_per_constraints" where
  "asn_PER_type_DrivingLaneStatus_constr_1 =
     \<lparr>pc_value = apc False False False (-1) (-1) 0 0,
      pc_size = apc False True False 4 4 1 13,
      pc_value2code = None, pc_code2value = None\<rparr>"

definition asn_DEF_DrivingLaneStatus :: "asn_TYPE_descriptor" where
  "asn_DEF_DrivingLaneStatus =
     TD OP_BIT_STRING (Some asn_PER_type_DrivingLaneStatus_constr_1) []
       (SPC_OCTET_STRING ASN_OSUBV_BIT)"

definition asn_MBR_ClosedLanes_1 :: "asn_TYPE_member list" where
  "asn_MBR_ClosedLanes_1 =
     [MBR True True asn_DEF_HardShoulderStatus None None,
      MBR True True asn_DEF_HardShoulderStatus None None,
      MBR True True asn_DEF_DrivingLaneStatus None None]"

definition asn_MAP_ClosedLanes_oms_1 :: "nat list" where
  "asn_MAP_ClosedLanes_oms_1 =
     [0, 1, 2]"

definition asn_SPC_ClosedLanes_specs_1 :: "asn_SEQUENCE_specifics" where
  "asn_SPC_ClosedLanes_specs_1 =
     \<lparr>oms = asn_MAP_ClosedLanes_oms_1, roms_count = 3, aoms_count = 0, first_extension = 3\<rparr>"

definition asn_DEF_ClosedLanes :: "asn_TYPE_descriptor" where
  "asn_DEF_ClosedLanes =
     TD OP_SEQUENCE None asn_MBR_ClosedLanes_1
       (SPC_SEQUENCE asn_SPC_ClosedLanes_specs_1)"

definition asn_MBR_RoadWorksContainerBasic_1 :: "asn_TYPE_member list" where
  "asn_MBR_RoadWorksContainerBasic_1 =
     [MBR True True asn_DEF_RoadworksSubCauseCode None None,
      MBR False False asn_DEF_LightBarSirenInUse None None,
      MBR True True asn_DEF_ClosedLanes None None]"

definition asn_MAP_RoadWorksContainerBasic_oms_1 :: "nat list" where
  "asn_MAP_RoadWorksContainerBasic_oms_1 =
     [0, 2]"

definition asn_SPC_RoadWorksContainerBasic_specs_1 :: "asn_SEQUENCE_specifics" where
  "asn_SPC_RoadWorksContainerBasic_specs_1 =
     \<lparr>oms = asn_MAP_RoadWorksContainerBasic_oms_1, roms_count = 2, aoms_count = 0, first_extension = -1\<rparr>"

definition asn_DEF_RoadWorksContainerBasic :: "asn_TYPE_descriptor" where
  "asn_DEF_RoadWorksContainerBasic =
     TD OP_SEQUENCE None asn_MBR_RoadWorksContainerBasic_1
       (SPC_SEQUENCE asn_SPC_RoadWorksContainerBasic_specs_1)"

definition asn_MBR_RescueContainer_1 :: "asn_TYPE_member list" where
  "asn_MBR_RescueContainer_1 =
     [MBR False False asn_DEF_LightBarSirenInUse None None]"

definition asn_SPC_RescueContainer_specs_1 :: "asn_SEQUENCE_specifics" where
  "asn_SPC_RescueContainer_specs_1 =
     \<lparr>oms = [], roms_count = 0, aoms_count = 0, first_extension = -1\<rparr>"

definition asn_DEF_RescueContainer :: "asn_TYPE_descriptor" where
  "asn_DEF_RescueContainer =
     TD OP_SEQUENCE None asn_MBR_RescueContainer_1
       (SPC_SEQUENCE asn_SPC_RescueContainer_specs_1)"

definition asn_PER_type_CauseCodeType_constr_1 :: "asn_per_constraints" where
  "asn_PER_type_CauseCodeType_constr_1 =
     \<lparr>pc_value = apc False True False 8 8 0 255,
      pc_size = apc False False False (-1) (-1) 0 0,
      pc_value2code = None, pc_code2value = None\<rparr>"

definition asn_DEF_CauseCodeType :: "asn_TYPE_descriptor" where
  "asn_DEF_CauseCodeType =
     TD OP_NativeInteger (Some asn_PER_type_CauseCodeType_constr_1) []
       SPC_NONE"

definition asn_PER_type_SubCauseCodeType_constr_1 :: "asn_per_constraints" where
  "asn_PER_type_SubCauseCodeType_constr_1 =
     \<lparr>pc_value = apc False True False 8 8 0 255,
      pc_size = apc False False False (-1) (-1) 0 0,
      pc_value2code = None, pc_code2value = None\<rparr>"

definition asn_DEF_SubCauseCodeType :: "asn_TYPE_descriptor" where
  "asn_DEF_SubCauseCodeType =
     TD OP_NativeInteger (Some asn_PER_type_SubCauseCodeType_constr_1) []
       SPC_NONE"

definition asn_MBR_CauseCode_1 :: "asn_TYPE_member list" where
  "asn_MBR_CauseCode_1 =
     [MBR False False asn_DEF_CauseCodeType None None,
      MBR False False asn_DEF_SubCauseCodeType None None]"

definition asn_SPC_CauseCode_specs_1 :: "asn_SEQUENCE_specifics" where
  "asn_SPC_CauseCode_specs_1 =
     \<lparr>oms = [], roms_count = 0, aoms_count = 0, first_extension = 2\<rparr>"

definition asn_DEF_CauseCode :: "asn_TYPE_descriptor" where
  "asn_DEF_CauseCode =
     TD OP_SEQUENCE None asn_MBR_CauseCode_1
       (SPC_SEQUENCE asn_SPC_CauseCode_specs_1)"

definition asn_PER_type_EmergencyPriority_constr_1 :: "asn_per_constraints" where
  "asn_PER_type_EmergencyPriority_constr_1 =
     \<lparr>pc_value = apc False False False (-1) (-1) 0 0,
      pc_size = apc False True False 0 0 2 2,
      pc_value2code = None, pc_code2value = None\<rparr>"

definition asn_DEF_EmergencyPriority :: "asn_TYPE_descriptor" where
  "asn_DEF_EmergencyPriority =
     TD OP_BIT_STRING (Some asn_PER_type_EmergencyPriority_constr_1) []
       (SPC_OCTET_STRING ASN_OSUBV_BIT)"

definition asn_MBR_EmergencyContainer_1 :: "asn_TYPE_member list" where
  "asn_MBR_EmergencyContainer_1 =
     [MBR False False asn_DEF_LightBarSirenInUse None None,
      MBR True True asn_DEF_CauseCode None None,
      MBR True True asn_DEF_EmergencyPriority None None]"

definition asn_MAP_EmergencyContainer_oms_1 :: "nat list" where
  "asn_MAP_EmergencyContainer_oms_1 =
     [1, 2]"

definition asn_SPC_EmergencyContainer_specs_1 :: "asn_SEQUENCE_specifics" where
  "asn_SPC_EmergencyContainer_specs_1 =
     \<lparr>oms = asn_MAP_EmergencyContainer_oms_1, roms_count = 2, aoms_count = 0, first_extension = -1\<rparr>"

definition asn_DEF_EmergencyContainer :: "asn_TYPE_descriptor" where
  "asn_DEF_EmergencyContainer =
     TD OP_SEQUENCE None asn_MBR_EmergencyContainer_1
       (SPC_SEQUENCE asn_SPC_EmergencyContainer_specs_1)"

definition asn_PER_type_TrafficRule_constr_1 :: "asn_per_constraints" where
  "asn_PER_type_TrafficRule_constr_1 =
     \<lparr>pc_value = apc False True True 2 2 0 3,
      pc_size = apc False False False (-1) (-1) 0 0,
      pc_value2code = None, pc_code2value = None\<rparr>"

definition asn_MAP_TrafficRule_value2enum_1 :: "(int \<times> string) list" where
  "asn_MAP_TrafficRule_value2enum_1 =
     [(0, ''noPassing''), (1, ''noPassingForTrucks''), (2, ''passToRight''), (3, ''passToLeft'')]"

definition asn_MAP_TrafficRule_enum2value_1 :: "nat list" where
  "asn_MAP_TrafficRule_enum2value_1 =
     [0, 1, 3, 2]"

definition asn_SPC_TrafficRule_specs_1 :: "asn_INTEGER_specifics" where
  "asn_SPC_TrafficRule_specs_1 =
     \<lparr>value2enum = asn_MAP_TrafficRule_value2enum_1, enum2value = asn_MAP_TrafficRule_enum2value_1,
      is_extension = 5, strict_enumeration = True, field_unsigned = False\<rparr>"

definition asn_DEF_TrafficRule :: "asn_TYPE_descriptor" where
  "asn_DEF_TrafficRule =
     TD OP_NativeEnumerated (Some asn_PER_type_TrafficRule_constr_1) []
       (SPC_INTEGER asn_SPC_TrafficRule_specs_1)"

definition asn_PER_type_SpeedLimit_constr_1 :: "asn_per_constraints" where
  "asn_PER_type_SpeedLimit_constr_1 =
     \<lparr>pc_value = apc False True False 8 8 1 255,
      pc_size = apc False False False (-1) (-1) 0 0,
      pc_value2code = None, pc_code2value = None\<rparr>"

definition asn_DEF_SpeedLimit :: "asn_TYPE_descriptor" where
  "asn_DEF_SpeedLimit =
     TD OP_NativeInteger (Some asn_PER_type_SpeedLimit_constr_1) []
       SPC_NONE"

definition asn_MBR_SafetyCarContainer_1 :: "asn_TYPE_member list" where
  "asn_MBR_SafetyCarContainer_1 =
     [MBR False False asn_DEF_LightBarSirenInUse None None,
      MBR True True asn_DEF_CauseCode None None,
      MBR True True asn_DEF_TrafficRule None None,
      MBR True True asn_DEF_SpeedLimit None None]"

definition asn_MAP_SafetyCarContainer_oms_1 :: "nat list" where
  "asn_MAP_SafetyCarContainer_oms_1 =
     [1, 2, 3]"

definition asn_SPC_SafetyCarContainer_specs_1 :: "asn_SEQUENCE_specifics" where
  "asn_SPC_SafetyCarContainer_specs_1 =
     \<lparr>oms = asn_MAP_SafetyCarContainer_oms_1, roms_count = 3, aoms_count = 0, first_extension = -1\<rparr>"

definition asn_DEF_SafetyCarContainer :: "asn_TYPE_descriptor" where
  "asn_DEF_SafetyCarContainer =
     TD OP_SEQUENCE None asn_MBR_SafetyCarContainer_1
       (SPC_SEQUENCE asn_SPC_SafetyCarContainer_specs_1)"

definition asn_MBR_SpecialVehicleContainer_1 :: "asn_TYPE_member list" where
  "asn_MBR_SpecialVehicleContainer_1 =
     [MBR False False asn_DEF_PublicTransportContainer None None,
      MBR False False asn_DEF_SpecialTransportContainer None None,
      MBR False False asn_DEF_DangerousGoodsContainer None None,
      MBR False False asn_DEF_RoadWorksContainerBasic None None,
      MBR False False asn_DEF_RescueContainer None None,
      MBR False False asn_DEF_EmergencyContainer None None,
      MBR False False asn_DEF_SafetyCarContainer None None]"

definition asn_PER_type_SpecialVehicleContainer_constr_1 :: "asn_per_constraints" where
  "asn_PER_type_SpecialVehicleContainer_constr_1 =
     \<lparr>pc_value = apc False True True 3 3 0 6,
      pc_size = apc False False False (-1) (-1) 0 0,
      pc_value2code = None, pc_code2value = None\<rparr>"

definition asn_SPC_SpecialVehicleContainer_specs_1 :: "asn_CHOICE_specifics" where
  "asn_SPC_SpecialVehicleContainer_specs_1 =
     \<lparr>to_canonical_order = None, from_canonical_order = None, ext_start = 7\<rparr>"

definition asn_DEF_SpecialVehicleContainer :: "asn_TYPE_descriptor" where
  "asn_DEF_SpecialVehicleContainer =
     TD OP_CHOICE (Some asn_PER_type_SpecialVehicleContainer_constr_1) asn_MBR_SpecialVehicleContainer_1
       (SPC_CHOICE asn_SPC_SpecialVehicleContainer_specs_1)"

definition asn_MBR_CamParameters_1 :: "asn_TYPE_member list" where
  "asn_MBR_CamParameters_1 =
     [MBR False False asn_DEF_BasicContainer None None,
      MBR False False asn_DEF_HighFrequencyContainer None None,
      MBR True True asn_DEF_LowFrequencyContainer None None,
      MBR True True asn_DEF_SpecialVehicleContainer None None]"

definition asn_MAP_CamParameters_oms_1 :: "nat list" where
  "asn_MAP_CamParameters_oms_1 =
     [2, 3]"

definition asn_SPC_CamParameters_specs_1 :: "asn_SEQUENCE_specifics" where
  "asn_SPC_CamParameters_specs_1 =
     \<lparr>oms = asn_MAP_CamParameters_oms_1, roms_count = 2, aoms_count = 0, first_extension = 4\<rparr>"

definition asn_DEF_CamParameters :: "asn_TYPE_descriptor" where
  "asn_DEF_CamParameters =
     TD OP_SEQUENCE None asn_MBR_CamParameters_1
       (SPC_SEQUENCE asn_SPC_CamParameters_specs_1)"

definition asn_MBR_CoopAwareness_1 :: "asn_TYPE_member list" where
  "asn_MBR_CoopAwareness_1 =
     [MBR False False asn_DEF_GenerationDeltaTime None None,
      MBR False False asn_DEF_CamParameters None None]"

definition asn_SPC_CoopAwareness_specs_1 :: "asn_SEQUENCE_specifics" where
  "asn_SPC_CoopAwareness_specs_1 =
     \<lparr>oms = [], roms_count = 0, aoms_count = 0, first_extension = -1\<rparr>"

definition asn_DEF_CoopAwareness :: "asn_TYPE_descriptor" where
  "asn_DEF_CoopAwareness =
     TD OP_SEQUENCE None asn_MBR_CoopAwareness_1
       (SPC_SEQUENCE asn_SPC_CoopAwareness_specs_1)"

definition asn_MBR_CAM_1 :: "asn_TYPE_member list" where
  "asn_MBR_CAM_1 =
     [MBR False False asn_DEF_ItsPduHeader None None,
      MBR False False asn_DEF_CoopAwareness None None]"

definition asn_SPC_CAM_specs_1 :: "asn_SEQUENCE_specifics" where
  "asn_SPC_CAM_specs_1 =
     \<lparr>oms = [], roms_count = 0, aoms_count = 0, first_extension = -1\<rparr>"

definition asn_DEF_CAM :: "asn_TYPE_descriptor" where
  "asn_DEF_CAM =
     TD OP_SEQUENCE None asn_MBR_CAM_1
       (SPC_SEQUENCE asn_SPC_CAM_specs_1)"

lemmas cam_defs = apc_def
  asn_DEF_NativeInteger_def asn_PER_memb_protocolVersion_constr_2_def
  asn_PER_memb_messageID_constr_3_def asn_PER_type_StationID_constr_1_def
  asn_SPC_StationID_specs_1_def asn_DEF_StationID_def asn_MBR_ItsPduHeader_1_def
  asn_SPC_ItsPduHeader_specs_1_def asn_DEF_ItsPduHeader_def
  asn_PER_type_GenerationDeltaTime_constr_1_def asn_DEF_GenerationDeltaTime_def
  asn_PER_type_StationType_constr_1_def asn_DEF_StationType_def asn_PER_type_Latitude_constr_1_def
  asn_DEF_Latitude_def asn_PER_type_Longitude_constr_1_def asn_DEF_Longitude_def
  asn_PER_type_SemiAxisLength_constr_1_def asn_DEF_SemiAxisLength_def
  asn_PER_type_HeadingValue_constr_1_def asn_DEF_HeadingValue_def asn_MBR_PosConfidenceEllipse_1_def
  asn_SPC_PosConfidenceEllipse_specs_1_def asn_DEF_PosConfidenceEllipse_def
  asn_PER_type_AltitudeValue_constr_1_def asn_DEF_AltitudeValue_def
  asn_PER_type_AltitudeConfidence_constr_1_def asn_MAP_AltitudeConfidence_value2enum_1_def
  asn_MAP_AltitudeConfidence_enum2value_1_def asn_SPC_AltitudeConfidence_specs_1_def
  asn_DEF_AltitudeConfidence_def asn_MBR_Altitude_1_def asn_SPC_Altitude_specs_1_def
  asn_DEF_Altitude_def asn_MBR_ReferencePosition_1_def asn_SPC_ReferencePosition_specs_1_def
  asn_DEF_ReferencePosition_def asn_MBR_BasicContainer_1_def asn_SPC_BasicContainer_specs_1_def
  asn_DEF_BasicContainer_def asn_PER_type_HeadingConfidence_constr_1_def
  asn_DEF_HeadingConfidence_def asn_MBR_Heading_1_def asn_SPC_Heading_specs_1_def asn_DEF_Heading_def
  asn_PER_type_SpeedValue_constr_1_def asn_DEF_SpeedValue_def
  asn_PER_type_SpeedConfidence_constr_1_def asn_DEF_SpeedConfidence_def asn_MBR_Speed_1_def
  asn_SPC_Speed_specs_1_def asn_DEF_Speed_def asn_PER_type_DriveDirection_constr_1_def
  asn_MAP_DriveDirection_value2enum_1_def asn_MAP_DriveDirection_enum2value_1_def
  asn_SPC_DriveDirection_specs_1_def asn_DEF_DriveDirection_def
  asn_PER_type_VehicleLengthValue_constr_1_def asn_DEF_VehicleLengthValue_def
  asn_PER_type_VehicleLengthConfidenceIndication_constr_1_def
  asn_MAP_VehicleLengthConfidenceIndication_value2enum_1_def
  asn_MAP_VehicleLengthConfidenceIndication_enum2value_1_def
  asn_SPC_VehicleLengthConfidenceIndication_specs_1_def asn_DEF_VehicleLengthConfidenceIndication_def
  asn_MBR_VehicleLength_1_def asn_SPC_VehicleLength_specs_1_def asn_DEF_VehicleLength_def
  asn_PER_type_VehicleWidth_constr_1_def asn_DEF_VehicleWidth_def
  asn_PER_type_LongitudinalAccelerationValue_constr_1_def asn_DEF_LongitudinalAccelerationValue_def
  asn_PER_type_AccelerationConfidence_constr_1_def asn_DEF_AccelerationConfidence_def
  asn_MBR_LongitudinalAcceleration_1_def asn_SPC_LongitudinalAcceleration_specs_1_def
  asn_DEF_LongitudinalAcceleration_def asn_PER_type_CurvatureValue_constr_1_def
  asn_DEF_CurvatureValue_def asn_PER_type_CurvatureConfidence_constr_1_def
  asn_MAP_CurvatureConfidence_value2enum_1_def asn_MAP_CurvatureConfidence_enum2value_1_def
  asn_SPC_CurvatureConfidence_specs_1_def asn_DEF_CurvatureConfidence_def asn_MBR_Curvature_1_def
  asn_SPC_Curvature_specs_1_def asn_DEF_Curvature_def
  asn_PER_type_CurvatureCalculationMode_constr_1_def
  asn_MAP_CurvatureCalculationMode_value2enum_1_def asn_MAP_CurvatureCalculationMode_enum2value_1_def
  asn_SPC_CurvatureCalculationMode_specs_1_def asn_DEF_CurvatureCalculationMode_def
  asn_PER_type_YawRateValue_constr_1_def asn_DEF_YawRateValue_def
  asn_PER_type_YawRateConfidence_constr_1_def asn_MAP_YawRateConfidence_value2enum_1_def
  asn_MAP_YawRateConfidence_enum2value_1_def asn_SPC_YawRateConfidence_specs_1_def
  asn_DEF_YawRateConfidence_def asn_MBR_YawRate_1_def asn_SPC_YawRate_specs_1_def asn_DEF_YawRate_def
  asn_PER_type_AccelerationControl_constr_1_def asn_DEF_AccelerationControl_def
  asn_PER_type_LanePosition_constr_1_def asn_DEF_LanePosition_def
  asn_PER_type_SteeringWheelAngleValue_constr_1_def asn_DEF_SteeringWheelAngleValue_def
  asn_PER_type_SteeringWheelAngleConfidence_constr_1_def asn_DEF_SteeringWheelAngleConfidence_def
  asn_MBR_SteeringWheelAngle_1_def asn_SPC_SteeringWheelAngle_specs_1_def
  asn_DEF_SteeringWheelAngle_def asn_PER_type_LateralAccelerationValue_constr_1_def
  asn_DEF_LateralAccelerationValue_def asn_MBR_LateralAcceleration_1_def
  asn_SPC_LateralAcceleration_specs_1_def asn_DEF_LateralAcceleration_def
  asn_PER_type_VerticalAccelerationValue_constr_1_def asn_DEF_VerticalAccelerationValue_def
  asn_MBR_VerticalAcceleration_1_def asn_SPC_VerticalAcceleration_specs_1_def
  asn_DEF_VerticalAcceleration_def asn_PER_type_PerformanceClass_constr_1_def
  asn_DEF_PerformanceClass_def asn_PER_type_CenDsrcTollingZoneID_constr_1_def
  asn_DEF_CenDsrcTollingZoneID_def asn_MBR_CenDsrcTollingZone_1_def
  asn_MAP_CenDsrcTollingZone_oms_1_def asn_SPC_CenDsrcTollingZone_specs_1_def
  asn_DEF_CenDsrcTollingZone_def asn_MBR_BasicVehicleContainerHighFrequency_1_def
  asn_MAP_BasicVehicleContainerHighFrequency_oms_1_def
  asn_SPC_BasicVehicleContainerHighFrequency_specs_1_def
  asn_DEF_BasicVehicleContainerHighFrequency_def asn_PER_type_ProtectedZoneType_constr_1_def
  asn_MAP_ProtectedZoneType_value2enum_1_def asn_MAP_ProtectedZoneType_enum2value_1_def
  asn_SPC_ProtectedZoneType_specs_1_def asn_DEF_ProtectedZoneType_def
  asn_PER_type_TimestampIts_constr_1_def asn_DEF_TimestampIts_def
  asn_PER_type_ProtectedZoneRadius_constr_1_def asn_DEF_ProtectedZoneRadius_def
  asn_PER_type_ProtectedZoneID_constr_1_def asn_DEF_ProtectedZoneID_def
  asn_MBR_ProtectedCommunicationZone_1_def asn_MAP_ProtectedCommunicationZone_oms_1_def
  asn_SPC_ProtectedCommunicationZone_specs_1_def asn_DEF_ProtectedCommunicationZone_def
  asn_MBR_ProtectedCommunicationZonesRSU_1_def
  asn_PER_type_ProtectedCommunicationZonesRSU_constr_1_def asn_DEF_ProtectedCommunicationZonesRSU_def
  asn_MBR_RSUContainerHighFrequency_1_def asn_MAP_RSUContainerHighFrequency_oms_1_def
  asn_SPC_RSUContainerHighFrequency_specs_1_def asn_DEF_RSUContainerHighFrequency_def
  asn_MBR_HighFrequencyContainer_1_def asn_PER_type_HighFrequencyContainer_constr_1_def
  asn_SPC_HighFrequencyContainer_specs_1_def asn_DEF_HighFrequencyContainer_def
  asn_PER_type_VehicleRole_constr_1_def asn_MAP_VehicleRole_value2enum_1_def
  asn_MAP_VehicleRole_enum2value_1_def asn_SPC_VehicleRole_specs_1_def asn_DEF_VehicleRole_def
  asn_PER_type_ExteriorLights_constr_1_def asn_DEF_ExteriorLights_def
  asn_PER_type_DeltaLatitude_constr_1_def asn_DEF_DeltaLatitude_def
  asn_PER_type_DeltaLongitude_constr_1_def asn_DEF_DeltaLongitude_def
  asn_PER_type_DeltaAltitude_constr_1_def asn_DEF_DeltaAltitude_def
  asn_MBR_DeltaReferencePosition_1_def asn_SPC_DeltaReferencePosition_specs_1_def
  asn_DEF_DeltaReferencePosition_def asn_PER_type_PathDeltaTime_constr_1_def
  asn_DEF_PathDeltaTime_def asn_MBR_PathPoint_1_def asn_MAP_PathPoint_oms_1_def
  asn_SPC_PathPoint_specs_1_def asn_DEF_PathPoint_def asn_MBR_PathHistory_1_def
  asn_PER_type_PathHistory_constr_1_def asn_DEF_PathHistory_def
  asn_MBR_BasicVehicleContainerLowFrequency_1_def
  asn_SPC_BasicVehicleContainerLowFrequency_specs_1_def asn_DEF_BasicVehicleContainerLowFrequency_def
  asn_MBR_LowFrequencyContainer_1_def asn_PER_type_LowFrequencyContainer_constr_1_def
  asn_SPC_LowFrequencyContainer_specs_1_def asn_DEF_LowFrequencyContainer_def
  asn_DEF_EmbarkationStatus_def asn_PER_type_PtActivationType_constr_1_def
  asn_DEF_PtActivationType_def asn_PER_type_PtActivationData_constr_1_def
  asn_DEF_PtActivationData_def asn_MBR_PtActivation_1_def asn_SPC_PtActivation_specs_1_def
  asn_DEF_PtActivation_def asn_MBR_PublicTransportContainer_1_def
  asn_MAP_PublicTransportContainer_oms_1_def asn_SPC_PublicTransportContainer_specs_1_def
  asn_DEF_PublicTransportContainer_def asn_PER_type_SpecialTransportType_constr_1_def
  asn_DEF_SpecialTransportType_def asn_PER_type_LightBarSirenInUse_constr_1_def
  asn_DEF_LightBarSirenInUse_def asn_MBR_SpecialTransportContainer_1_def
  asn_SPC_SpecialTransportContainer_specs_1_def asn_DEF_SpecialTransportContainer_def
  asn_PER_type_DangerousGoodsBasic_constr_1_def asn_MAP_DangerousGoodsBasic_value2enum_1_def
  asn_MAP_DangerousGoodsBasic_enum2value_1_def asn_SPC_DangerousGoodsBasic_specs_1_def
  asn_DEF_DangerousGoodsBasic_def asn_MBR_DangerousGoodsContainer_1_def
  asn_SPC_DangerousGoodsContainer_specs_1_def asn_DEF_DangerousGoodsContainer_def
  asn_PER_type_RoadworksSubCauseCode_constr_1_def asn_DEF_RoadworksSubCauseCode_def
  asn_PER_type_HardShoulderStatus_constr_1_def asn_MAP_HardShoulderStatus_value2enum_1_def
  asn_MAP_HardShoulderStatus_enum2value_1_def asn_SPC_HardShoulderStatus_specs_1_def
  asn_DEF_HardShoulderStatus_def asn_PER_type_DrivingLaneStatus_constr_1_def
  asn_DEF_DrivingLaneStatus_def asn_MBR_ClosedLanes_1_def asn_MAP_ClosedLanes_oms_1_def
  asn_SPC_ClosedLanes_specs_1_def asn_DEF_ClosedLanes_def asn_MBR_RoadWorksContainerBasic_1_def
  asn_MAP_RoadWorksContainerBasic_oms_1_def asn_SPC_RoadWorksContainerBasic_specs_1_def
  asn_DEF_RoadWorksContainerBasic_def asn_MBR_RescueContainer_1_def
  asn_SPC_RescueContainer_specs_1_def asn_DEF_RescueContainer_def
  asn_PER_type_CauseCodeType_constr_1_def asn_DEF_CauseCodeType_def
  asn_PER_type_SubCauseCodeType_constr_1_def asn_DEF_SubCauseCodeType_def asn_MBR_CauseCode_1_def
  asn_SPC_CauseCode_specs_1_def asn_DEF_CauseCode_def asn_PER_type_EmergencyPriority_constr_1_def
  asn_DEF_EmergencyPriority_def asn_MBR_EmergencyContainer_1_def asn_MAP_EmergencyContainer_oms_1_def
  asn_SPC_EmergencyContainer_specs_1_def asn_DEF_EmergencyContainer_def
  asn_PER_type_TrafficRule_constr_1_def asn_MAP_TrafficRule_value2enum_1_def
  asn_MAP_TrafficRule_enum2value_1_def asn_SPC_TrafficRule_specs_1_def asn_DEF_TrafficRule_def
  asn_PER_type_SpeedLimit_constr_1_def asn_DEF_SpeedLimit_def asn_MBR_SafetyCarContainer_1_def
  asn_MAP_SafetyCarContainer_oms_1_def asn_SPC_SafetyCarContainer_specs_1_def
  asn_DEF_SafetyCarContainer_def asn_MBR_SpecialVehicleContainer_1_def
  asn_PER_type_SpecialVehicleContainer_constr_1_def asn_SPC_SpecialVehicleContainer_specs_1_def
  asn_DEF_SpecialVehicleContainer_def asn_MBR_CamParameters_1_def asn_MAP_CamParameters_oms_1_def
  asn_SPC_CamParameters_specs_1_def asn_DEF_CamParameters_def asn_MBR_CoopAwareness_1_def
  asn_SPC_CoopAwareness_specs_1_def asn_DEF_CoopAwareness_def asn_MBR_CAM_1_def
  asn_SPC_CAM_specs_1_def asn_DEF_CAM_def

end
