(* ===== verification/Its_Denm.thy ===== *)
theory Its_Denm
  imports Its_Cam
begin

text \<open>
  The descriptors asn1c generated for the decentralized environmental notification message (\<open>asn1/its\<close>): \<open>asn_DEF_DENM\<close> and the
  descriptors it refers to that are not in the theories before, in the form described in \<open>Its_Cam\<close>. The basic string
  types are in \<open>asn1/support\<close>; IA5String, UTF8String and NumericString have the codec of OCTET STRING.
  The table of the permitted characters of \<open>PhoneNumber\<close> has 256 entries.
\<close>

section \<open>Descriptors\<close>

definition asn_DEF_BOOLEAN :: asn_TYPE_descriptor where
  "asn_DEF_BOOLEAN = TD OP_BOOLEAN None [] SPC_NONE"

definition asn_DEF_UTF8String :: asn_TYPE_descriptor where
  "asn_DEF_UTF8String = TD OP_OCTET_STRING None [] SPC_NONE"

definition asn_DEF_IA5String_per_constraints :: asn_per_constraints where
  "asn_DEF_IA5String_per_constraints =
     \<lparr>pc_value = apc False True False 7 7 0 127,
      pc_size = apc True False False (-1) (-1) 0 0,
      pc_value2code = None, pc_code2value = None\<rparr>"

definition asn_DEF_IA5String :: asn_TYPE_descriptor where
  "asn_DEF_IA5String = TD OP_OCTET_STRING (Some asn_DEF_IA5String_per_constraints) [] SPC_NONE"

text \<open>The initialiser lists 64 of the 256 entries; the others are 0.\<close>

definition permitted_alphabet_table_1 :: "int list" where
  "permitted_alphabet_table_1 =
     replicate 16 0 @ replicate 16 0 @ [1] @ replicate 15 0 @ [2, 3, 4, 5, 6, 7, 8, 9, 10, 11] @ replicate 6 0
      @ replicate 192 0"

definition permitted_alphabet_code2value_1 :: "int list" where
  "permitted_alphabet_code2value_1 = [32, 48, 49, 50, 51, 52, 53, 54, 55, 56, 57]"

definition asn_PER_MAP_PhoneNumber_1_v2c :: "nat \<Rightarrow> int" where
  "asn_PER_MAP_PhoneNumber_1_v2c v =
     (if length permitted_alphabet_table_1 \<le> v then -1 else permitted_alphabet_table_1 ! v - 1)"

definition asn_PER_MAP_PhoneNumber_1_c2v :: "nat \<Rightarrow> int" where
  "asn_PER_MAP_PhoneNumber_1_c2v code =
     (if length permitted_alphabet_code2value_1 \<le> code then -1 else permitted_alphabet_code2value_1 ! code)"

definition asn_PER_type_PhoneNumber_constr_1 :: asn_per_constraints where
  "asn_PER_type_PhoneNumber_constr_1 =
     \<lparr>pc_value = apc False True False 4 4 32 57,
      pc_size = apc False True False 4 4 1 16,
      pc_value2code = Some asn_PER_MAP_PhoneNumber_1_v2c, pc_code2value = Some asn_PER_MAP_PhoneNumber_1_c2v\<rparr>"

text \<open>The constant of \<open>asn_DFL_9_cmp_600\<close> and \<open>asn_DFL_9_set_600\<close>.\<close>

definition asn_DFL_9 :: asn_value where
  "asn_DFL_9 = V_long 600"

definition asn_PER_type_SequenceNumber_constr_1 :: "asn_per_constraints" where
  "asn_PER_type_SequenceNumber_constr_1 =
     \<lparr>pc_value = apc False True False 16 16 0 65535,
      pc_size = apc False False False (-1) (-1) 0 0,
      pc_value2code = None, pc_code2value = None\<rparr>"

definition asn_DEF_SequenceNumber :: "asn_TYPE_descriptor" where
  "asn_DEF_SequenceNumber =
     TD OP_NativeInteger (Some asn_PER_type_SequenceNumber_constr_1) []
       SPC_NONE"

definition asn_MBR_ActionID_1 :: "asn_TYPE_member list" where
  "asn_MBR_ActionID_1 =
     [MBR False False asn_DEF_StationID None None,
      MBR False False asn_DEF_SequenceNumber None None]"

definition asn_SPC_ActionID_specs_1 :: "asn_SEQUENCE_specifics" where
  "asn_SPC_ActionID_specs_1 =
     \<lparr>oms = [], roms_count = 0, aoms_count = 0, first_extension = -1\<rparr>"

definition asn_DEF_ActionID :: "asn_TYPE_descriptor" where
  "asn_DEF_ActionID =
     TD OP_SEQUENCE None asn_MBR_ActionID_1
       (SPC_SEQUENCE asn_SPC_ActionID_specs_1)"

definition asn_PER_type_Termination_constr_1 :: "asn_per_constraints" where
  "asn_PER_type_Termination_constr_1 =
     \<lparr>pc_value = apc False True False 1 1 0 1,
      pc_size = apc False False False (-1) (-1) 0 0,
      pc_value2code = None, pc_code2value = None\<rparr>"

definition asn_MAP_Termination_value2enum_1 :: "(int \<times> string) list" where
  "asn_MAP_Termination_value2enum_1 =
     [(0, ''isCancellation''), (1, ''isNegation'')]"

definition asn_MAP_Termination_enum2value_1 :: "nat list" where
  "asn_MAP_Termination_enum2value_1 =
     [0, 1]"

definition asn_SPC_Termination_specs_1 :: "asn_INTEGER_specifics" where
  "asn_SPC_Termination_specs_1 =
     \<lparr>value2enum = asn_MAP_Termination_value2enum_1, enum2value = asn_MAP_Termination_enum2value_1,
      is_extension = 0, strict_enumeration = True, field_unsigned = False\<rparr>"

definition asn_DEF_Termination :: "asn_TYPE_descriptor" where
  "asn_DEF_Termination =
     TD OP_NativeEnumerated (Some asn_PER_type_Termination_constr_1) []
       (SPC_INTEGER asn_SPC_Termination_specs_1)"

definition asn_PER_type_RelevanceDistance_constr_1 :: "asn_per_constraints" where
  "asn_PER_type_RelevanceDistance_constr_1 =
     \<lparr>pc_value = apc False True False 3 3 0 7,
      pc_size = apc False False False (-1) (-1) 0 0,
      pc_value2code = None, pc_code2value = None\<rparr>"

definition asn_MAP_RelevanceDistance_value2enum_1 :: "(int \<times> string) list" where
  "asn_MAP_RelevanceDistance_value2enum_1 =
     [(0, ''lessThan50m''), (1, ''lessThan100m''), (2, ''lessThan200m''), (3, ''lessThan500m''),
      (4, ''lessThan1000m''), (5, ''lessThan5km''), (6, ''lessThan10km''), (7, ''over10km'')]"

definition asn_MAP_RelevanceDistance_enum2value_1 :: "nat list" where
  "asn_MAP_RelevanceDistance_enum2value_1 =
     [4, 1, 6, 2, 3, 0, 5, 7]"

definition asn_SPC_RelevanceDistance_specs_1 :: "asn_INTEGER_specifics" where
  "asn_SPC_RelevanceDistance_specs_1 =
     \<lparr>value2enum = asn_MAP_RelevanceDistance_value2enum_1, enum2value = asn_MAP_RelevanceDistance_enum2value_1,
      is_extension = 0, strict_enumeration = True, field_unsigned = False\<rparr>"

definition asn_DEF_RelevanceDistance :: "asn_TYPE_descriptor" where
  "asn_DEF_RelevanceDistance =
     TD OP_NativeEnumerated (Some asn_PER_type_RelevanceDistance_constr_1) []
       (SPC_INTEGER asn_SPC_RelevanceDistance_specs_1)"

definition asn_PER_type_RelevanceTrafficDirection_constr_1 :: "asn_per_constraints" where
  "asn_PER_type_RelevanceTrafficDirection_constr_1 =
     \<lparr>pc_value = apc False True False 2 2 0 3,
      pc_size = apc False False False (-1) (-1) 0 0,
      pc_value2code = None, pc_code2value = None\<rparr>"

definition asn_MAP_RelevanceTrafficDirection_value2enum_1 :: "(int \<times> string) list" where
  "asn_MAP_RelevanceTrafficDirection_value2enum_1 =
     [(0, ''allTrafficDirections''), (1, ''upstreamTraffic''), (2, ''downstreamTraffic''),
      (3, ''oppositeTraffic'')]"

definition asn_MAP_RelevanceTrafficDirection_enum2value_1 :: "nat list" where
  "asn_MAP_RelevanceTrafficDirection_enum2value_1 =
     [0, 2, 3, 1]"

definition asn_SPC_RelevanceTrafficDirection_specs_1 :: "asn_INTEGER_specifics" where
  "asn_SPC_RelevanceTrafficDirection_specs_1 =
     \<lparr>value2enum = asn_MAP_RelevanceTrafficDirection_value2enum_1, enum2value = asn_MAP_RelevanceTrafficDirection_enum2value_1,
      is_extension = 0, strict_enumeration = True, field_unsigned = False\<rparr>"

definition asn_DEF_RelevanceTrafficDirection :: "asn_TYPE_descriptor" where
  "asn_DEF_RelevanceTrafficDirection =
     TD OP_NativeEnumerated (Some asn_PER_type_RelevanceTrafficDirection_constr_1) []
       (SPC_INTEGER asn_SPC_RelevanceTrafficDirection_specs_1)"

definition asn_PER_type_ValidityDuration_constr_1 :: "asn_per_constraints" where
  "asn_PER_type_ValidityDuration_constr_1 =
     \<lparr>pc_value = apc False True False 17 (-1) 0 86400,
      pc_size = apc False False False (-1) (-1) 0 0,
      pc_value2code = None, pc_code2value = None\<rparr>"

definition asn_DEF_ValidityDuration :: "asn_TYPE_descriptor" where
  "asn_DEF_ValidityDuration =
     TD OP_NativeInteger (Some asn_PER_type_ValidityDuration_constr_1) []
       SPC_NONE"

definition asn_PER_type_TransmissionInterval_constr_1 :: "asn_per_constraints" where
  "asn_PER_type_TransmissionInterval_constr_1 =
     \<lparr>pc_value = apc False True False 14 14 1 10000,
      pc_size = apc False False False (-1) (-1) 0 0,
      pc_value2code = None, pc_code2value = None\<rparr>"

definition asn_DEF_TransmissionInterval :: "asn_TYPE_descriptor" where
  "asn_DEF_TransmissionInterval =
     TD OP_NativeInteger (Some asn_PER_type_TransmissionInterval_constr_1) []
       SPC_NONE"

definition asn_MBR_ManagementContainer_1 :: "asn_TYPE_member list" where
  "asn_MBR_ManagementContainer_1 =
     [MBR False False asn_DEF_ActionID None None,
      MBR False False asn_DEF_TimestampIts None None,
      MBR False False asn_DEF_TimestampIts None None,
      MBR True True asn_DEF_Termination None None,
      MBR False False asn_DEF_ReferencePosition None None,
      MBR True True asn_DEF_RelevanceDistance None None,
      MBR True True asn_DEF_RelevanceTrafficDirection None None,
      MBR True True asn_DEF_ValidityDuration None (Some asn_DFL_9),
      MBR True True asn_DEF_TransmissionInterval None None,
      MBR False False asn_DEF_StationType None None]"

definition asn_MAP_ManagementContainer_oms_1 :: "nat list" where
  "asn_MAP_ManagementContainer_oms_1 =
     [3, 5, 6, 7, 8]"

definition asn_SPC_ManagementContainer_specs_1 :: "asn_SEQUENCE_specifics" where
  "asn_SPC_ManagementContainer_specs_1 =
     \<lparr>oms = asn_MAP_ManagementContainer_oms_1, roms_count = 5, aoms_count = 0, first_extension = 10\<rparr>"

definition asn_DEF_ManagementContainer :: "asn_TYPE_descriptor" where
  "asn_DEF_ManagementContainer =
     TD OP_SEQUENCE None asn_MBR_ManagementContainer_1
       (SPC_SEQUENCE asn_SPC_ManagementContainer_specs_1)"

definition asn_PER_type_InformationQuality_constr_1 :: "asn_per_constraints" where
  "asn_PER_type_InformationQuality_constr_1 =
     \<lparr>pc_value = apc False True False 3 3 0 7,
      pc_size = apc False False False (-1) (-1) 0 0,
      pc_value2code = None, pc_code2value = None\<rparr>"

definition asn_DEF_InformationQuality :: "asn_TYPE_descriptor" where
  "asn_DEF_InformationQuality =
     TD OP_NativeInteger (Some asn_PER_type_InformationQuality_constr_1) []
       SPC_NONE"

definition asn_MBR_EventPoint_1 :: "asn_TYPE_member list" where
  "asn_MBR_EventPoint_1 =
     [MBR False False asn_DEF_DeltaReferencePosition None None,
      MBR True True asn_DEF_PathDeltaTime None None,
      MBR False False asn_DEF_InformationQuality None None]"

definition asn_MAP_EventPoint_oms_1 :: "nat list" where
  "asn_MAP_EventPoint_oms_1 =
     [1]"

definition asn_SPC_EventPoint_specs_1 :: "asn_SEQUENCE_specifics" where
  "asn_SPC_EventPoint_specs_1 =
     \<lparr>oms = asn_MAP_EventPoint_oms_1, roms_count = 1, aoms_count = 0, first_extension = -1\<rparr>"

definition asn_DEF_EventPoint :: "asn_TYPE_descriptor" where
  "asn_DEF_EventPoint =
     TD OP_SEQUENCE None asn_MBR_EventPoint_1
       (SPC_SEQUENCE asn_SPC_EventPoint_specs_1)"

definition asn_MBR_EventHistory_1 :: "asn_TYPE_member list" where
  "asn_MBR_EventHistory_1 =
     [MBR True False asn_DEF_EventPoint None None]"

definition asn_PER_type_EventHistory_constr_1 :: "asn_per_constraints" where
  "asn_PER_type_EventHistory_constr_1 =
     \<lparr>pc_value = apc False False False (-1) (-1) 0 0,
      pc_size = apc False True False 5 5 1 23,
      pc_value2code = None, pc_code2value = None\<rparr>"

definition asn_DEF_EventHistory :: "asn_TYPE_descriptor" where
  "asn_DEF_EventHistory =
     TD OP_SEQUENCE_OF (Some asn_PER_type_EventHistory_constr_1) asn_MBR_EventHistory_1
       SPC_NONE"

definition asn_MBR_SituationContainer_1 :: "asn_TYPE_member list" where
  "asn_MBR_SituationContainer_1 =
     [MBR False False asn_DEF_InformationQuality None None,
      MBR False False asn_DEF_CauseCode None None,
      MBR True True asn_DEF_CauseCode None None,
      MBR True True asn_DEF_EventHistory None None]"

definition asn_MAP_SituationContainer_oms_1 :: "nat list" where
  "asn_MAP_SituationContainer_oms_1 =
     [2, 3]"

definition asn_SPC_SituationContainer_specs_1 :: "asn_SEQUENCE_specifics" where
  "asn_SPC_SituationContainer_specs_1 =
     \<lparr>oms = asn_MAP_SituationContainer_oms_1, roms_count = 2, aoms_count = 0, first_extension = 4\<rparr>"

definition asn_DEF_SituationContainer :: "asn_TYPE_descriptor" where
  "asn_DEF_SituationContainer =
     TD OP_SEQUENCE None asn_MBR_SituationContainer_1
       (SPC_SEQUENCE asn_SPC_SituationContainer_specs_1)"

definition asn_MBR_Traces_1 :: "asn_TYPE_member list" where
  "asn_MBR_Traces_1 =
     [MBR True False asn_DEF_PathHistory None None]"

definition asn_PER_type_Traces_constr_1 :: "asn_per_constraints" where
  "asn_PER_type_Traces_constr_1 =
     \<lparr>pc_value = apc False False False (-1) (-1) 0 0,
      pc_size = apc False True False 3 3 1 7,
      pc_value2code = None, pc_code2value = None\<rparr>"

definition asn_DEF_Traces :: "asn_TYPE_descriptor" where
  "asn_DEF_Traces =
     TD OP_SEQUENCE_OF (Some asn_PER_type_Traces_constr_1) asn_MBR_Traces_1
       SPC_NONE"

definition asn_PER_type_RoadType_constr_1 :: "asn_per_constraints" where
  "asn_PER_type_RoadType_constr_1 =
     \<lparr>pc_value = apc False True False 2 2 0 3,
      pc_size = apc False False False (-1) (-1) 0 0,
      pc_value2code = None, pc_code2value = None\<rparr>"

definition asn_MAP_RoadType_value2enum_1 :: "(int \<times> string) list" where
  "asn_MAP_RoadType_value2enum_1 =
     [(0, ''urban-NoStructuralSeparationToOppositeLanes''),
      (1, ''urban-WithStructuralSeparationToOppositeLanes''),
      (2, ''nonUrban-NoStructuralSeparationToOppositeLanes''),
      (3, ''nonUrban-WithStructuralSeparationToOppositeLanes'')]"

definition asn_MAP_RoadType_enum2value_1 :: "nat list" where
  "asn_MAP_RoadType_enum2value_1 =
     [2, 3, 0, 1]"

definition asn_SPC_RoadType_specs_1 :: "asn_INTEGER_specifics" where
  "asn_SPC_RoadType_specs_1 =
     \<lparr>value2enum = asn_MAP_RoadType_value2enum_1, enum2value = asn_MAP_RoadType_enum2value_1,
      is_extension = 0, strict_enumeration = True, field_unsigned = False\<rparr>"

definition asn_DEF_RoadType :: "asn_TYPE_descriptor" where
  "asn_DEF_RoadType =
     TD OP_NativeEnumerated (Some asn_PER_type_RoadType_constr_1) []
       (SPC_INTEGER asn_SPC_RoadType_specs_1)"

definition asn_MBR_LocationContainer_1 :: "asn_TYPE_member list" where
  "asn_MBR_LocationContainer_1 =
     [MBR True True asn_DEF_Speed None None,
      MBR True True asn_DEF_Heading None None,
      MBR False False asn_DEF_Traces None None,
      MBR True True asn_DEF_RoadType None None]"

definition asn_MAP_LocationContainer_oms_1 :: "nat list" where
  "asn_MAP_LocationContainer_oms_1 =
     [0, 1, 3]"

definition asn_SPC_LocationContainer_specs_1 :: "asn_SEQUENCE_specifics" where
  "asn_SPC_LocationContainer_specs_1 =
     \<lparr>oms = asn_MAP_LocationContainer_oms_1, roms_count = 3, aoms_count = 0, first_extension = 4\<rparr>"

definition asn_DEF_LocationContainer :: "asn_TYPE_descriptor" where
  "asn_DEF_LocationContainer =
     TD OP_SEQUENCE None asn_MBR_LocationContainer_1
       (SPC_SEQUENCE asn_SPC_LocationContainer_specs_1)"

definition asn_PER_type_HeightLonCarr_constr_1 :: "asn_per_constraints" where
  "asn_PER_type_HeightLonCarr_constr_1 =
     \<lparr>pc_value = apc False True False 7 7 1 100,
      pc_size = apc False False False (-1) (-1) 0 0,
      pc_value2code = None, pc_code2value = None\<rparr>"

definition asn_DEF_HeightLonCarr :: "asn_TYPE_descriptor" where
  "asn_DEF_HeightLonCarr =
     TD OP_NativeInteger (Some asn_PER_type_HeightLonCarr_constr_1) []
       SPC_NONE"

definition asn_PER_type_PosLonCarr_constr_1 :: "asn_per_constraints" where
  "asn_PER_type_PosLonCarr_constr_1 =
     \<lparr>pc_value = apc False True False 7 7 1 127,
      pc_size = apc False False False (-1) (-1) 0 0,
      pc_value2code = None, pc_code2value = None\<rparr>"

definition asn_DEF_PosLonCarr :: "asn_TYPE_descriptor" where
  "asn_DEF_PosLonCarr =
     TD OP_NativeInteger (Some asn_PER_type_PosLonCarr_constr_1) []
       SPC_NONE"

definition asn_PER_type_PosPillar_constr_1 :: "asn_per_constraints" where
  "asn_PER_type_PosPillar_constr_1 =
     \<lparr>pc_value = apc False True False 5 5 1 30,
      pc_size = apc False False False (-1) (-1) 0 0,
      pc_value2code = None, pc_code2value = None\<rparr>"

definition asn_DEF_PosPillar :: "asn_TYPE_descriptor" where
  "asn_DEF_PosPillar =
     TD OP_NativeInteger (Some asn_PER_type_PosPillar_constr_1) []
       SPC_NONE"

definition asn_MBR_PositionOfPillars_1 :: "asn_TYPE_member list" where
  "asn_MBR_PositionOfPillars_1 =
     [MBR True False asn_DEF_PosPillar None None]"

definition asn_PER_type_PositionOfPillars_constr_1 :: "asn_per_constraints" where
  "asn_PER_type_PositionOfPillars_constr_1 =
     \<lparr>pc_value = apc False False False (-1) (-1) 0 0,
      pc_size = apc False True True 2 2 1 3,
      pc_value2code = None, pc_code2value = None\<rparr>"

definition asn_DEF_PositionOfPillars :: "asn_TYPE_descriptor" where
  "asn_DEF_PositionOfPillars =
     TD OP_SEQUENCE_OF (Some asn_PER_type_PositionOfPillars_constr_1) asn_MBR_PositionOfPillars_1
       SPC_NONE"

definition asn_PER_type_PosCentMass_constr_1 :: "asn_per_constraints" where
  "asn_PER_type_PosCentMass_constr_1 =
     \<lparr>pc_value = apc False True False 6 6 1 63,
      pc_size = apc False False False (-1) (-1) 0 0,
      pc_value2code = None, pc_code2value = None\<rparr>"

definition asn_DEF_PosCentMass :: "asn_TYPE_descriptor" where
  "asn_DEF_PosCentMass =
     TD OP_NativeInteger (Some asn_PER_type_PosCentMass_constr_1) []
       SPC_NONE"

definition asn_PER_type_WheelBaseVehicle_constr_1 :: "asn_per_constraints" where
  "asn_PER_type_WheelBaseVehicle_constr_1 =
     \<lparr>pc_value = apc False True False 7 7 1 127,
      pc_size = apc False False False (-1) (-1) 0 0,
      pc_value2code = None, pc_code2value = None\<rparr>"

definition asn_DEF_WheelBaseVehicle :: "asn_TYPE_descriptor" where
  "asn_DEF_WheelBaseVehicle =
     TD OP_NativeInteger (Some asn_PER_type_WheelBaseVehicle_constr_1) []
       SPC_NONE"

definition asn_PER_type_TurningRadius_constr_1 :: "asn_per_constraints" where
  "asn_PER_type_TurningRadius_constr_1 =
     \<lparr>pc_value = apc False True False 8 8 1 255,
      pc_size = apc False False False (-1) (-1) 0 0,
      pc_value2code = None, pc_code2value = None\<rparr>"

definition asn_DEF_TurningRadius :: "asn_TYPE_descriptor" where
  "asn_DEF_TurningRadius =
     TD OP_NativeInteger (Some asn_PER_type_TurningRadius_constr_1) []
       SPC_NONE"

definition asn_PER_type_PosFrontAx_constr_1 :: "asn_per_constraints" where
  "asn_PER_type_PosFrontAx_constr_1 =
     \<lparr>pc_value = apc False True False 5 5 1 20,
      pc_size = apc False False False (-1) (-1) 0 0,
      pc_value2code = None, pc_code2value = None\<rparr>"

definition asn_DEF_PosFrontAx :: "asn_TYPE_descriptor" where
  "asn_DEF_PosFrontAx =
     TD OP_NativeInteger (Some asn_PER_type_PosFrontAx_constr_1) []
       SPC_NONE"

definition asn_PER_type_PositionOfOccupants_constr_1 :: "asn_per_constraints" where
  "asn_PER_type_PositionOfOccupants_constr_1 =
     \<lparr>pc_value = apc False False False (-1) (-1) 0 0,
      pc_size = apc False True False 0 0 20 20,
      pc_value2code = None, pc_code2value = None\<rparr>"

definition asn_DEF_PositionOfOccupants :: "asn_TYPE_descriptor" where
  "asn_DEF_PositionOfOccupants =
     TD OP_BIT_STRING (Some asn_PER_type_PositionOfOccupants_constr_1) []
       (SPC_OCTET_STRING ASN_OSUBV_BIT)"

definition asn_PER_type_VehicleMass_constr_1 :: "asn_per_constraints" where
  "asn_PER_type_VehicleMass_constr_1 =
     \<lparr>pc_value = apc False True False 10 10 1 1024,
      pc_size = apc False False False (-1) (-1) 0 0,
      pc_value2code = None, pc_code2value = None\<rparr>"

definition asn_DEF_VehicleMass :: "asn_TYPE_descriptor" where
  "asn_DEF_VehicleMass =
     TD OP_NativeInteger (Some asn_PER_type_VehicleMass_constr_1) []
       SPC_NONE"

definition asn_PER_type_RequestResponseIndication_constr_1 :: "asn_per_constraints" where
  "asn_PER_type_RequestResponseIndication_constr_1 =
     \<lparr>pc_value = apc False True False 1 1 0 1,
      pc_size = apc False False False (-1) (-1) 0 0,
      pc_value2code = None, pc_code2value = None\<rparr>"

definition asn_MAP_RequestResponseIndication_value2enum_1 :: "(int \<times> string) list" where
  "asn_MAP_RequestResponseIndication_value2enum_1 =
     [(0, ''request''), (1, ''response'')]"

definition asn_MAP_RequestResponseIndication_enum2value_1 :: "nat list" where
  "asn_MAP_RequestResponseIndication_enum2value_1 =
     [0, 1]"

definition asn_SPC_RequestResponseIndication_specs_1 :: "asn_INTEGER_specifics" where
  "asn_SPC_RequestResponseIndication_specs_1 =
     \<lparr>value2enum = asn_MAP_RequestResponseIndication_value2enum_1, enum2value = asn_MAP_RequestResponseIndication_enum2value_1,
      is_extension = 0, strict_enumeration = True, field_unsigned = False\<rparr>"

definition asn_DEF_RequestResponseIndication :: "asn_TYPE_descriptor" where
  "asn_DEF_RequestResponseIndication =
     TD OP_NativeEnumerated (Some asn_PER_type_RequestResponseIndication_constr_1) []
       (SPC_INTEGER asn_SPC_RequestResponseIndication_specs_1)"

definition asn_MBR_ImpactReductionContainer_1 :: "asn_TYPE_member list" where
  "asn_MBR_ImpactReductionContainer_1 =
     [MBR False False asn_DEF_HeightLonCarr None None,
      MBR False False asn_DEF_HeightLonCarr None None,
      MBR False False asn_DEF_PosLonCarr None None,
      MBR False False asn_DEF_PosLonCarr None None,
      MBR False False asn_DEF_PositionOfPillars None None,
      MBR False False asn_DEF_PosCentMass None None,
      MBR False False asn_DEF_WheelBaseVehicle None None,
      MBR False False asn_DEF_TurningRadius None None,
      MBR False False asn_DEF_PosFrontAx None None,
      MBR False False asn_DEF_PositionOfOccupants None None,
      MBR False False asn_DEF_VehicleMass None None,
      MBR False False asn_DEF_RequestResponseIndication None None]"

definition asn_SPC_ImpactReductionContainer_specs_1 :: "asn_SEQUENCE_specifics" where
  "asn_SPC_ImpactReductionContainer_specs_1 =
     \<lparr>oms = [], roms_count = 0, aoms_count = 0, first_extension = -1\<rparr>"

definition asn_DEF_ImpactReductionContainer :: "asn_TYPE_descriptor" where
  "asn_DEF_ImpactReductionContainer =
     TD OP_SEQUENCE None asn_MBR_ImpactReductionContainer_1
       (SPC_SEQUENCE asn_SPC_ImpactReductionContainer_specs_1)"

definition asn_PER_type_Temperature_constr_1 :: "asn_per_constraints" where
  "asn_PER_type_Temperature_constr_1 =
     \<lparr>pc_value = apc False True False 7 7 (-60) 67,
      pc_size = apc False False False (-1) (-1) 0 0,
      pc_value2code = None, pc_code2value = None\<rparr>"

definition asn_DEF_Temperature :: "asn_TYPE_descriptor" where
  "asn_DEF_Temperature =
     TD OP_NativeInteger (Some asn_PER_type_Temperature_constr_1) []
       SPC_NONE"

definition asn_MBR_RestrictedTypes_1 :: "asn_TYPE_member list" where
  "asn_MBR_RestrictedTypes_1 =
     [MBR True False asn_DEF_StationType None None]"

definition asn_PER_type_RestrictedTypes_constr_1 :: "asn_per_constraints" where
  "asn_PER_type_RestrictedTypes_constr_1 =
     \<lparr>pc_value = apc False False False (-1) (-1) 0 0,
      pc_size = apc False True True 2 2 1 3,
      pc_value2code = None, pc_code2value = None\<rparr>"

definition asn_DEF_RestrictedTypes :: "asn_TYPE_descriptor" where
  "asn_DEF_RestrictedTypes =
     TD OP_SEQUENCE_OF (Some asn_PER_type_RestrictedTypes_constr_1) asn_MBR_RestrictedTypes_1
       SPC_NONE"

definition asn_MBR_ItineraryPath_1 :: "asn_TYPE_member list" where
  "asn_MBR_ItineraryPath_1 =
     [MBR True False asn_DEF_ReferencePosition None None]"

definition asn_PER_type_ItineraryPath_constr_1 :: "asn_per_constraints" where
  "asn_PER_type_ItineraryPath_constr_1 =
     \<lparr>pc_value = apc False False False (-1) (-1) 0 0,
      pc_size = apc False True False 6 6 1 40,
      pc_value2code = None, pc_code2value = None\<rparr>"

definition asn_DEF_ItineraryPath :: "asn_TYPE_descriptor" where
  "asn_DEF_ItineraryPath =
     TD OP_SEQUENCE_OF (Some asn_PER_type_ItineraryPath_constr_1) asn_MBR_ItineraryPath_1
       SPC_NONE"

definition asn_MBR_ReferenceDenms_1 :: "asn_TYPE_member list" where
  "asn_MBR_ReferenceDenms_1 =
     [MBR True False asn_DEF_ActionID None None]"

definition asn_PER_type_ReferenceDenms_constr_1 :: "asn_per_constraints" where
  "asn_PER_type_ReferenceDenms_constr_1 =
     \<lparr>pc_value = apc False False False (-1) (-1) 0 0,
      pc_size = apc False True True 3 3 1 8,
      pc_value2code = None, pc_code2value = None\<rparr>"

definition asn_DEF_ReferenceDenms :: "asn_TYPE_descriptor" where
  "asn_DEF_ReferenceDenms =
     TD OP_SEQUENCE_OF (Some asn_PER_type_ReferenceDenms_constr_1) asn_MBR_ReferenceDenms_1
       SPC_NONE"

definition asn_MBR_RoadWorksContainerExtended_1 :: "asn_TYPE_member list" where
  "asn_MBR_RoadWorksContainerExtended_1 =
     [MBR True True asn_DEF_LightBarSirenInUse None None,
      MBR True True asn_DEF_ClosedLanes None None,
      MBR True True asn_DEF_RestrictedTypes None None,
      MBR True True asn_DEF_SpeedLimit None None,
      MBR True True asn_DEF_CauseCode None None,
      MBR True True asn_DEF_ItineraryPath None None,
      MBR True True asn_DEF_DeltaReferencePosition None None,
      MBR True True asn_DEF_TrafficRule None None,
      MBR True True asn_DEF_ReferenceDenms None None]"

definition asn_MAP_RoadWorksContainerExtended_oms_1 :: "nat list" where
  "asn_MAP_RoadWorksContainerExtended_oms_1 =
     [0, 1, 2, 3, 4, 5, 6, 7, 8]"

definition asn_SPC_RoadWorksContainerExtended_specs_1 :: "asn_SEQUENCE_specifics" where
  "asn_SPC_RoadWorksContainerExtended_specs_1 =
     \<lparr>oms = asn_MAP_RoadWorksContainerExtended_oms_1, roms_count = 9, aoms_count = 0, first_extension = -1\<rparr>"

definition asn_DEF_RoadWorksContainerExtended :: "asn_TYPE_descriptor" where
  "asn_DEF_RoadWorksContainerExtended =
     TD OP_SEQUENCE None asn_MBR_RoadWorksContainerExtended_1
       (SPC_SEQUENCE asn_SPC_RoadWorksContainerExtended_specs_1)"

definition asn_PER_type_PositioningSolutionType_constr_1 :: "asn_per_constraints" where
  "asn_PER_type_PositioningSolutionType_constr_1 =
     \<lparr>pc_value = apc False True True 3 3 0 5,
      pc_size = apc False False False (-1) (-1) 0 0,
      pc_value2code = None, pc_code2value = None\<rparr>"

definition asn_MAP_PositioningSolutionType_value2enum_1 :: "(int \<times> string) list" where
  "asn_MAP_PositioningSolutionType_value2enum_1 =
     [(0, ''noPositioningSolution''), (1, ''sGNSS''), (2, ''dGNSS''), (3, ''sGNSSplusDR''),
      (4, ''dGNSSplusDR''), (5, ''dR'')]"

definition asn_MAP_PositioningSolutionType_enum2value_1 :: "nat list" where
  "asn_MAP_PositioningSolutionType_enum2value_1 =
     [2, 4, 5, 0, 1, 3]"

definition asn_SPC_PositioningSolutionType_specs_1 :: "asn_INTEGER_specifics" where
  "asn_SPC_PositioningSolutionType_specs_1 =
     \<lparr>value2enum = asn_MAP_PositioningSolutionType_value2enum_1, enum2value = asn_MAP_PositioningSolutionType_enum2value_1,
      is_extension = 7, strict_enumeration = True, field_unsigned = False\<rparr>"

definition asn_DEF_PositioningSolutionType :: "asn_TYPE_descriptor" where
  "asn_DEF_PositioningSolutionType =
     TD OP_NativeEnumerated (Some asn_PER_type_PositioningSolutionType_constr_1) []
       (SPC_INTEGER asn_SPC_PositioningSolutionType_specs_1)"

definition asn_PER_type_StationarySince_constr_1 :: "asn_per_constraints" where
  "asn_PER_type_StationarySince_constr_1 =
     \<lparr>pc_value = apc False True False 2 2 0 3,
      pc_size = apc False False False (-1) (-1) 0 0,
      pc_value2code = None, pc_code2value = None\<rparr>"

definition asn_MAP_StationarySince_value2enum_1 :: "(int \<times> string) list" where
  "asn_MAP_StationarySince_value2enum_1 =
     [(0, ''lessThan1Minute''), (1, ''lessThan2Minutes''), (2, ''lessThan15Minutes''),
      (3, ''equalOrGreater15Minutes'')]"

definition asn_MAP_StationarySince_enum2value_1 :: "nat list" where
  "asn_MAP_StationarySince_enum2value_1 =
     [3, 2, 0, 1]"

definition asn_SPC_StationarySince_specs_1 :: "asn_INTEGER_specifics" where
  "asn_SPC_StationarySince_specs_1 =
     \<lparr>value2enum = asn_MAP_StationarySince_value2enum_1, enum2value = asn_MAP_StationarySince_enum2value_1,
      is_extension = 0, strict_enumeration = True, field_unsigned = False\<rparr>"

definition asn_DEF_StationarySince :: "asn_TYPE_descriptor" where
  "asn_DEF_StationarySince =
     TD OP_NativeEnumerated (Some asn_PER_type_StationarySince_constr_1) []
       (SPC_INTEGER asn_SPC_StationarySince_specs_1)"

definition asn_PER_memb_unNumber_constr_3 :: "asn_per_constraints" where
  "asn_PER_memb_unNumber_constr_3 =
     \<lparr>pc_value = apc False True False 14 14 0 9999,
      pc_size = apc False False False (-1) (-1) 0 0,
      pc_value2code = None, pc_code2value = None\<rparr>"

definition asn_PER_memb_emergencyActionCode_constr_7 :: "asn_per_constraints" where
  "asn_PER_memb_emergencyActionCode_constr_7 =
     \<lparr>pc_value = apc False True False 7 7 0 127,
      pc_size = apc False True False 5 5 1 24,
      pc_value2code = None, pc_code2value = None\<rparr>"

definition asn_DEF_PhoneNumber :: "asn_TYPE_descriptor" where
  "asn_DEF_PhoneNumber =
     TD OP_OCTET_STRING (Some asn_PER_type_PhoneNumber_constr_1) []
       SPC_NONE"

definition asn_PER_memb_companyName_constr_9 :: "asn_per_constraints" where
  "asn_PER_memb_companyName_constr_9 =
     \<lparr>pc_value = apc False False False (-1) (-1) 0 0,
      pc_size = apc False False False (-1) (-1) 0 0,
      pc_value2code = None, pc_code2value = None\<rparr>"

definition asn_MBR_DangerousGoodsExtended_1 :: "asn_TYPE_member list" where
  "asn_MBR_DangerousGoodsExtended_1 =
     [MBR False False asn_DEF_DangerousGoodsBasic None None,
      MBR False False asn_DEF_NativeInteger (Some asn_PER_memb_unNumber_constr_3) None,
      MBR False False asn_DEF_BOOLEAN None None,
      MBR False False asn_DEF_BOOLEAN None None,
      MBR False False asn_DEF_BOOLEAN None None,
      MBR True True asn_DEF_IA5String (Some asn_PER_memb_emergencyActionCode_constr_7) None,
      MBR True True asn_DEF_PhoneNumber None None,
      MBR True True asn_DEF_UTF8String (Some asn_PER_memb_companyName_constr_9) None]"

definition asn_MAP_DangerousGoodsExtended_oms_1 :: "nat list" where
  "asn_MAP_DangerousGoodsExtended_oms_1 =
     [5, 6, 7]"

definition asn_SPC_DangerousGoodsExtended_specs_1 :: "asn_SEQUENCE_specifics" where
  "asn_SPC_DangerousGoodsExtended_specs_1 =
     \<lparr>oms = asn_MAP_DangerousGoodsExtended_oms_1, roms_count = 3, aoms_count = 0, first_extension = 8\<rparr>"

definition asn_DEF_DangerousGoodsExtended :: "asn_TYPE_descriptor" where
  "asn_DEF_DangerousGoodsExtended =
     TD OP_SEQUENCE None asn_MBR_DangerousGoodsExtended_1
       (SPC_SEQUENCE asn_SPC_DangerousGoodsExtended_specs_1)"

definition asn_PER_type_NumberOfOccupants_constr_1 :: "asn_per_constraints" where
  "asn_PER_type_NumberOfOccupants_constr_1 =
     \<lparr>pc_value = apc False True False 7 7 0 127,
      pc_size = apc False False False (-1) (-1) 0 0,
      pc_value2code = None, pc_code2value = None\<rparr>"

definition asn_DEF_NumberOfOccupants :: "asn_TYPE_descriptor" where
  "asn_DEF_NumberOfOccupants =
     TD OP_NativeInteger (Some asn_PER_type_NumberOfOccupants_constr_1) []
       SPC_NONE"

definition asn_PER_type_WMInumber_constr_1 :: "asn_per_constraints" where
  "asn_PER_type_WMInumber_constr_1 =
     \<lparr>pc_value = apc False True False 7 7 0 127,
      pc_size = apc False True False 2 2 1 3,
      pc_value2code = None, pc_code2value = None\<rparr>"

definition asn_DEF_WMInumber :: "asn_TYPE_descriptor" where
  "asn_DEF_WMInumber =
     TD OP_OCTET_STRING (Some asn_PER_type_WMInumber_constr_1) []
       SPC_NONE"

definition asn_PER_type_VDS_constr_1 :: "asn_per_constraints" where
  "asn_PER_type_VDS_constr_1 =
     \<lparr>pc_value = apc False True False 7 7 0 127,
      pc_size = apc False True False 0 0 6 6,
      pc_value2code = None, pc_code2value = None\<rparr>"

definition asn_DEF_VDS :: "asn_TYPE_descriptor" where
  "asn_DEF_VDS =
     TD OP_OCTET_STRING (Some asn_PER_type_VDS_constr_1) []
       SPC_NONE"

definition asn_MBR_VehicleIdentification_1 :: "asn_TYPE_member list" where
  "asn_MBR_VehicleIdentification_1 =
     [MBR True True asn_DEF_WMInumber None None,
      MBR True True asn_DEF_VDS None None]"

definition asn_MAP_VehicleIdentification_oms_1 :: "nat list" where
  "asn_MAP_VehicleIdentification_oms_1 =
     [0, 1]"

definition asn_SPC_VehicleIdentification_specs_1 :: "asn_SEQUENCE_specifics" where
  "asn_SPC_VehicleIdentification_specs_1 =
     \<lparr>oms = asn_MAP_VehicleIdentification_oms_1, roms_count = 2, aoms_count = 0, first_extension = 2\<rparr>"

definition asn_DEF_VehicleIdentification :: "asn_TYPE_descriptor" where
  "asn_DEF_VehicleIdentification =
     TD OP_SEQUENCE None asn_MBR_VehicleIdentification_1
       (SPC_SEQUENCE asn_SPC_VehicleIdentification_specs_1)"

definition asn_PER_type_EnergyStorageType_constr_1 :: "asn_per_constraints" where
  "asn_PER_type_EnergyStorageType_constr_1 =
     \<lparr>pc_value = apc False False False (-1) (-1) 0 0,
      pc_size = apc False True False 0 0 7 7,
      pc_value2code = None, pc_code2value = None\<rparr>"

definition asn_DEF_EnergyStorageType :: "asn_TYPE_descriptor" where
  "asn_DEF_EnergyStorageType =
     TD OP_BIT_STRING (Some asn_PER_type_EnergyStorageType_constr_1) []
       (SPC_OCTET_STRING ASN_OSUBV_BIT)"

definition asn_MBR_StationaryVehicleContainer_1 :: "asn_TYPE_member list" where
  "asn_MBR_StationaryVehicleContainer_1 =
     [MBR True True asn_DEF_StationarySince None None,
      MBR True True asn_DEF_CauseCode None None,
      MBR True True asn_DEF_DangerousGoodsExtended None None,
      MBR True True asn_DEF_NumberOfOccupants None None,
      MBR True True asn_DEF_VehicleIdentification None None,
      MBR True True asn_DEF_EnergyStorageType None None]"

definition asn_MAP_StationaryVehicleContainer_oms_1 :: "nat list" where
  "asn_MAP_StationaryVehicleContainer_oms_1 =
     [0, 1, 2, 3, 4, 5]"

definition asn_SPC_StationaryVehicleContainer_specs_1 :: "asn_SEQUENCE_specifics" where
  "asn_SPC_StationaryVehicleContainer_specs_1 =
     \<lparr>oms = asn_MAP_StationaryVehicleContainer_oms_1, roms_count = 6, aoms_count = 0, first_extension = -1\<rparr>"

definition asn_DEF_StationaryVehicleContainer :: "asn_TYPE_descriptor" where
  "asn_DEF_StationaryVehicleContainer =
     TD OP_SEQUENCE None asn_MBR_StationaryVehicleContainer_1
       (SPC_SEQUENCE asn_SPC_StationaryVehicleContainer_specs_1)"

definition asn_MBR_AlacarteContainer_1 :: "asn_TYPE_member list" where
  "asn_MBR_AlacarteContainer_1 =
     [MBR True True asn_DEF_LanePosition None None,
      MBR True True asn_DEF_ImpactReductionContainer None None,
      MBR True True asn_DEF_Temperature None None,
      MBR True True asn_DEF_RoadWorksContainerExtended None None,
      MBR True True asn_DEF_PositioningSolutionType None None,
      MBR True True asn_DEF_StationaryVehicleContainer None None]"

definition asn_MAP_AlacarteContainer_oms_1 :: "nat list" where
  "asn_MAP_AlacarteContainer_oms_1 =
     [0, 1, 2, 3, 4, 5]"

definition asn_SPC_AlacarteContainer_specs_1 :: "asn_SEQUENCE_specifics" where
  "asn_SPC_AlacarteContainer_specs_1 =
     \<lparr>oms = asn_MAP_AlacarteContainer_oms_1, roms_count = 6, aoms_count = 0, first_extension = 6\<rparr>"

definition asn_DEF_AlacarteContainer :: "asn_TYPE_descriptor" where
  "asn_DEF_AlacarteContainer =
     TD OP_SEQUENCE None asn_MBR_AlacarteContainer_1
       (SPC_SEQUENCE asn_SPC_AlacarteContainer_specs_1)"

definition asn_MBR_DecentralizedEnvironmentalNotificationMessage_1 :: "asn_TYPE_member list" where
  "asn_MBR_DecentralizedEnvironmentalNotificationMessage_1 =
     [MBR False False asn_DEF_ManagementContainer None None,
      MBR True True asn_DEF_SituationContainer None None,
      MBR True True asn_DEF_LocationContainer None None,
      MBR True True asn_DEF_AlacarteContainer None None]"

definition asn_MAP_DecentralizedEnvironmentalNotificationMessage_oms_1 :: "nat list" where
  "asn_MAP_DecentralizedEnvironmentalNotificationMessage_oms_1 =
     [1, 2, 3]"

definition asn_SPC_DecentralizedEnvironmentalNotificationMessage_specs_1 :: "asn_SEQUENCE_specifics" where
  "asn_SPC_DecentralizedEnvironmentalNotificationMessage_specs_1 =
     \<lparr>oms = asn_MAP_DecentralizedEnvironmentalNotificationMessage_oms_1, roms_count = 3, aoms_count = 0, first_extension = -1\<rparr>"

definition asn_DEF_DecentralizedEnvironmentalNotificationMessage :: "asn_TYPE_descriptor" where
  "asn_DEF_DecentralizedEnvironmentalNotificationMessage =
     TD OP_SEQUENCE None asn_MBR_DecentralizedEnvironmentalNotificationMessage_1
       (SPC_SEQUENCE asn_SPC_DecentralizedEnvironmentalNotificationMessage_specs_1)"

definition asn_MBR_DENM_1 :: "asn_TYPE_member list" where
  "asn_MBR_DENM_1 =
     [MBR False False asn_DEF_ItsPduHeader None None,
      MBR False False asn_DEF_DecentralizedEnvironmentalNotificationMessage None None]"

definition asn_SPC_DENM_specs_1 :: "asn_SEQUENCE_specifics" where
  "asn_SPC_DENM_specs_1 =
     \<lparr>oms = [], roms_count = 0, aoms_count = 0, first_extension = -1\<rparr>"

definition asn_DEF_DENM :: "asn_TYPE_descriptor" where
  "asn_DEF_DENM =
     TD OP_SEQUENCE None asn_MBR_DENM_1
       (SPC_SEQUENCE asn_SPC_DENM_specs_1)"

end
