(* ===== verification/Its_Spatem.thy ===== *)
theory Its_Spatem
  imports Its_Denm
begin

text \<open>
  The descriptors asn1c generated for the signal phase and timing message (\<open>asn1/its\<close>): \<open>asn_DEF_SPATEM\<close> and the
  descriptors it refers to that are not in the theories before, in the form described in \<open>Its_Cam\<close>.
  Static objects that several files declare with the same name have the name of the file added. The
  members \<open>regional\<close> lead to \<open>RegionalExtension_369P0\<close>, whose value is an open type with an empty table of
  types and no selector.
\<close>

section \<open>Descriptors\<close>

definition asn_PER_type_MinuteOfTheYear_constr_1 :: "asn_per_constraints" where
  "asn_PER_type_MinuteOfTheYear_constr_1 =
     \<lparr>pc_value = apc False True False 20 (-1) 0 527040,
      pc_size = apc False False False (-1) (-1) 0 0,
      pc_value2code = None, pc_code2value = None\<rparr>"

definition asn_DEF_MinuteOfTheYear :: "asn_TYPE_descriptor" where
  "asn_DEF_MinuteOfTheYear =
     TD OP_NativeInteger (Some asn_PER_type_MinuteOfTheYear_constr_1) []
       SPC_NONE"

definition asn_PER_type_DescriptiveName_constr_1 :: "asn_per_constraints" where
  "asn_PER_type_DescriptiveName_constr_1 =
     \<lparr>pc_value = apc False True False 7 7 0 127,
      pc_size = apc False True False 6 6 1 63,
      pc_value2code = None, pc_code2value = None\<rparr>"

definition asn_DEF_DescriptiveName :: "asn_TYPE_descriptor" where
  "asn_DEF_DescriptiveName =
     TD OP_OCTET_STRING (Some asn_PER_type_DescriptiveName_constr_1) []
       SPC_NONE"

definition asn_PER_type_RoadRegulatorID_constr_1 :: "asn_per_constraints" where
  "asn_PER_type_RoadRegulatorID_constr_1 =
     \<lparr>pc_value = apc False True False 16 16 0 65535,
      pc_size = apc False False False (-1) (-1) 0 0,
      pc_value2code = None, pc_code2value = None\<rparr>"

definition asn_DEF_RoadRegulatorID :: "asn_TYPE_descriptor" where
  "asn_DEF_RoadRegulatorID =
     TD OP_NativeInteger (Some asn_PER_type_RoadRegulatorID_constr_1) []
       SPC_NONE"

definition asn_PER_type_IntersectionID_constr_1 :: "asn_per_constraints" where
  "asn_PER_type_IntersectionID_constr_1 =
     \<lparr>pc_value = apc False True False 16 16 0 65535,
      pc_size = apc False False False (-1) (-1) 0 0,
      pc_value2code = None, pc_code2value = None\<rparr>"

definition asn_DEF_IntersectionID :: "asn_TYPE_descriptor" where
  "asn_DEF_IntersectionID =
     TD OP_NativeInteger (Some asn_PER_type_IntersectionID_constr_1) []
       SPC_NONE"

definition asn_MBR_IntersectionReferenceID_1 :: "asn_TYPE_member list" where
  "asn_MBR_IntersectionReferenceID_1 =
     [MBR True True asn_DEF_RoadRegulatorID None None,
      MBR False False asn_DEF_IntersectionID None None]"

definition asn_MAP_IntersectionReferenceID_oms_1 :: "nat list" where
  "asn_MAP_IntersectionReferenceID_oms_1 =
     [0]"

definition asn_SPC_IntersectionReferenceID_specs_1 :: "asn_SEQUENCE_specifics" where
  "asn_SPC_IntersectionReferenceID_specs_1 =
     \<lparr>oms = asn_MAP_IntersectionReferenceID_oms_1, roms_count = 1, aoms_count = 0, first_extension = -1\<rparr>"

definition asn_DEF_IntersectionReferenceID :: "asn_TYPE_descriptor" where
  "asn_DEF_IntersectionReferenceID =
     TD OP_SEQUENCE None asn_MBR_IntersectionReferenceID_1
       (SPC_SEQUENCE asn_SPC_IntersectionReferenceID_specs_1)"

definition asn_PER_type_MsgCount_constr_1 :: "asn_per_constraints" where
  "asn_PER_type_MsgCount_constr_1 =
     \<lparr>pc_value = apc False True False 7 7 0 127,
      pc_size = apc False False False (-1) (-1) 0 0,
      pc_value2code = None, pc_code2value = None\<rparr>"

definition asn_DEF_MsgCount :: "asn_TYPE_descriptor" where
  "asn_DEF_MsgCount =
     TD OP_NativeInteger (Some asn_PER_type_MsgCount_constr_1) []
       SPC_NONE"

definition asn_PER_type_IntersectionStatusObject_constr_1 :: "asn_per_constraints" where
  "asn_PER_type_IntersectionStatusObject_constr_1 =
     \<lparr>pc_value = apc False False False (-1) (-1) 0 0,
      pc_size = apc False True False 0 0 16 16,
      pc_value2code = None, pc_code2value = None\<rparr>"

definition asn_DEF_IntersectionStatusObject :: "asn_TYPE_descriptor" where
  "asn_DEF_IntersectionStatusObject =
     TD OP_BIT_STRING (Some asn_PER_type_IntersectionStatusObject_constr_1) []
       (SPC_OCTET_STRING ASN_OSUBV_BIT)"

definition asn_PER_type_DSecond_constr_1 :: "asn_per_constraints" where
  "asn_PER_type_DSecond_constr_1 =
     \<lparr>pc_value = apc False True False 16 16 0 65535,
      pc_size = apc False False False (-1) (-1) 0 0,
      pc_value2code = None, pc_code2value = None\<rparr>"

definition asn_DEF_DSecond :: "asn_TYPE_descriptor" where
  "asn_DEF_DSecond =
     TD OP_NativeInteger (Some asn_PER_type_DSecond_constr_1) []
       SPC_NONE"

definition asn_PER_type_LaneID_constr_1 :: "asn_per_constraints" where
  "asn_PER_type_LaneID_constr_1 =
     \<lparr>pc_value = apc False True False 8 8 0 255,
      pc_size = apc False False False (-1) (-1) 0 0,
      pc_value2code = None, pc_code2value = None\<rparr>"

definition asn_DEF_LaneID :: "asn_TYPE_descriptor" where
  "asn_DEF_LaneID =
     TD OP_NativeInteger (Some asn_PER_type_LaneID_constr_1) []
       SPC_NONE"

definition asn_MBR_EnabledLaneList_1 :: "asn_TYPE_member list" where
  "asn_MBR_EnabledLaneList_1 =
     [MBR True False asn_DEF_LaneID None None]"

definition asn_PER_type_EnabledLaneList_constr_1 :: "asn_per_constraints" where
  "asn_PER_type_EnabledLaneList_constr_1 =
     \<lparr>pc_value = apc False False False (-1) (-1) 0 0,
      pc_size = apc False True False 4 4 1 16,
      pc_value2code = None, pc_code2value = None\<rparr>"

definition asn_DEF_EnabledLaneList :: "asn_TYPE_descriptor" where
  "asn_DEF_EnabledLaneList =
     TD OP_SEQUENCE_OF (Some asn_PER_type_EnabledLaneList_constr_1) asn_MBR_EnabledLaneList_1
       SPC_NONE"

definition asn_PER_type_SignalGroupID_constr_1 :: "asn_per_constraints" where
  "asn_PER_type_SignalGroupID_constr_1 =
     \<lparr>pc_value = apc False True False 8 8 0 255,
      pc_size = apc False False False (-1) (-1) 0 0,
      pc_value2code = None, pc_code2value = None\<rparr>"

definition asn_DEF_SignalGroupID :: "asn_TYPE_descriptor" where
  "asn_DEF_SignalGroupID =
     TD OP_NativeInteger (Some asn_PER_type_SignalGroupID_constr_1) []
       SPC_NONE"

definition asn_PER_type_MovementPhaseState_constr_1 :: "asn_per_constraints" where
  "asn_PER_type_MovementPhaseState_constr_1 =
     \<lparr>pc_value = apc False True False 4 4 0 9,
      pc_size = apc False False False (-1) (-1) 0 0,
      pc_value2code = None, pc_code2value = None\<rparr>"

definition asn_MAP_MovementPhaseState_value2enum_1 :: "(int \<times> string) list" where
  "asn_MAP_MovementPhaseState_value2enum_1 =
     [(0, ''unavailable''), (1, ''dark''), (2, ''stop-Then-Proceed''), (3, ''stop-And-Remain''),
      (4, ''pre-Movement''), (5, ''permissive-Movement-Allowed''), (6, ''protected-Movement-Allowed''),
      (7, ''permissive-clearance''), (8, ''protected-clearance''), (9, ''caution-Conflicting-Traffic'')]"

definition asn_MAP_MovementPhaseState_enum2value_1 :: "nat list" where
  "asn_MAP_MovementPhaseState_enum2value_1 =
     [9, 1, 5, 7, 4, 6, 8, 3, 2, 0]"

definition asn_SPC_MovementPhaseState_specs_1 :: "asn_INTEGER_specifics" where
  "asn_SPC_MovementPhaseState_specs_1 =
     \<lparr>value2enum = asn_MAP_MovementPhaseState_value2enum_1, enum2value = asn_MAP_MovementPhaseState_enum2value_1,
      is_extension = 0, strict_enumeration = True, field_unsigned = False\<rparr>"

definition asn_DEF_MovementPhaseState :: "asn_TYPE_descriptor" where
  "asn_DEF_MovementPhaseState =
     TD OP_NativeEnumerated (Some asn_PER_type_MovementPhaseState_constr_1) []
       (SPC_INTEGER asn_SPC_MovementPhaseState_specs_1)"

definition asn_PER_type_TimeMark_constr_1 :: "asn_per_constraints" where
  "asn_PER_type_TimeMark_constr_1 =
     \<lparr>pc_value = apc False True False 16 16 0 36001,
      pc_size = apc False False False (-1) (-1) 0 0,
      pc_value2code = None, pc_code2value = None\<rparr>"

definition asn_DEF_TimeMark :: "asn_TYPE_descriptor" where
  "asn_DEF_TimeMark =
     TD OP_NativeInteger (Some asn_PER_type_TimeMark_constr_1) []
       SPC_NONE"

definition asn_PER_type_TimeIntervalConfidence_constr_1 :: "asn_per_constraints" where
  "asn_PER_type_TimeIntervalConfidence_constr_1 =
     \<lparr>pc_value = apc False True False 4 4 0 15,
      pc_size = apc False False False (-1) (-1) 0 0,
      pc_value2code = None, pc_code2value = None\<rparr>"

definition asn_DEF_TimeIntervalConfidence :: "asn_TYPE_descriptor" where
  "asn_DEF_TimeIntervalConfidence =
     TD OP_NativeInteger (Some asn_PER_type_TimeIntervalConfidence_constr_1) []
       SPC_NONE"

definition asn_MBR_TimeChangeDetails_1 :: "asn_TYPE_member list" where
  "asn_MBR_TimeChangeDetails_1 =
     [MBR True True asn_DEF_TimeMark None None,
      MBR False False asn_DEF_TimeMark None None,
      MBR True True asn_DEF_TimeMark None None,
      MBR True True asn_DEF_TimeMark None None,
      MBR True True asn_DEF_TimeIntervalConfidence None None,
      MBR True True asn_DEF_TimeMark None None]"

definition asn_MAP_TimeChangeDetails_oms_1 :: "nat list" where
  "asn_MAP_TimeChangeDetails_oms_1 =
     [0, 2, 3, 4, 5]"

definition asn_SPC_TimeChangeDetails_specs_1 :: "asn_SEQUENCE_specifics" where
  "asn_SPC_TimeChangeDetails_specs_1 =
     \<lparr>oms = asn_MAP_TimeChangeDetails_oms_1, roms_count = 5, aoms_count = 0, first_extension = -1\<rparr>"

definition asn_DEF_TimeChangeDetails :: "asn_TYPE_descriptor" where
  "asn_DEF_TimeChangeDetails =
     TD OP_SEQUENCE None asn_MBR_TimeChangeDetails_1
       (SPC_SEQUENCE asn_SPC_TimeChangeDetails_specs_1)"

definition asn_PER_type_AdvisorySpeedType_constr_1 :: "asn_per_constraints" where
  "asn_PER_type_AdvisorySpeedType_constr_1 =
     \<lparr>pc_value = apc False True True 2 2 0 3,
      pc_size = apc False False False (-1) (-1) 0 0,
      pc_value2code = None, pc_code2value = None\<rparr>"

definition asn_MAP_AdvisorySpeedType_value2enum_1 :: "(int \<times> string) list" where
  "asn_MAP_AdvisorySpeedType_value2enum_1 =
     [(0, ''none''), (1, ''greenwave''), (2, ''ecoDrive''), (3, ''transit'')]"

definition asn_MAP_AdvisorySpeedType_enum2value_1 :: "nat list" where
  "asn_MAP_AdvisorySpeedType_enum2value_1 =
     [2, 1, 0, 3]"

definition asn_SPC_AdvisorySpeedType_specs_1 :: "asn_INTEGER_specifics" where
  "asn_SPC_AdvisorySpeedType_specs_1 =
     \<lparr>value2enum = asn_MAP_AdvisorySpeedType_value2enum_1, enum2value = asn_MAP_AdvisorySpeedType_enum2value_1,
      is_extension = 5, strict_enumeration = True, field_unsigned = False\<rparr>"

definition asn_DEF_AdvisorySpeedType :: "asn_TYPE_descriptor" where
  "asn_DEF_AdvisorySpeedType =
     TD OP_NativeEnumerated (Some asn_PER_type_AdvisorySpeedType_constr_1) []
       (SPC_INTEGER asn_SPC_AdvisorySpeedType_specs_1)"

definition asn_PER_type_SpeedAdvice_constr_1 :: "asn_per_constraints" where
  "asn_PER_type_SpeedAdvice_constr_1 =
     \<lparr>pc_value = apc False True False 9 9 0 500,
      pc_size = apc False False False (-1) (-1) 0 0,
      pc_value2code = None, pc_code2value = None\<rparr>"

definition asn_DEF_SpeedAdvice :: "asn_TYPE_descriptor" where
  "asn_DEF_SpeedAdvice =
     TD OP_NativeInteger (Some asn_PER_type_SpeedAdvice_constr_1) []
       SPC_NONE"

definition asn_PER_type_ZoneLength_constr_1 :: "asn_per_constraints" where
  "asn_PER_type_ZoneLength_constr_1 =
     \<lparr>pc_value = apc False True False 14 14 0 10000,
      pc_size = apc False False False (-1) (-1) 0 0,
      pc_value2code = None, pc_code2value = None\<rparr>"

definition asn_DEF_ZoneLength :: "asn_TYPE_descriptor" where
  "asn_DEF_ZoneLength =
     TD OP_NativeInteger (Some asn_PER_type_ZoneLength_constr_1) []
       SPC_NONE"

definition asn_PER_type_RestrictionClassID_constr_1 :: "asn_per_constraints" where
  "asn_PER_type_RestrictionClassID_constr_1 =
     \<lparr>pc_value = apc False True False 8 8 0 255,
      pc_size = apc False False False (-1) (-1) 0 0,
      pc_value2code = None, pc_code2value = None\<rparr>"

definition asn_DEF_RestrictionClassID :: "asn_TYPE_descriptor" where
  "asn_DEF_RestrictionClassID =
     TD OP_NativeInteger (Some asn_PER_type_RestrictionClassID_constr_1) []
       SPC_NONE"

definition asn_PER_type_RegionId_constr_1 :: "asn_per_constraints" where
  "asn_PER_type_RegionId_constr_1 =
     \<lparr>pc_value = apc False True False 8 8 0 255,
      pc_size = apc False False False (-1) (-1) 0 0,
      pc_value2code = None, pc_code2value = None\<rparr>"

definition asn_DEF_RegionId :: "asn_TYPE_descriptor" where
  "asn_DEF_RegionId =
     TD OP_NativeInteger (Some asn_PER_type_RegionId_constr_1) []
       SPC_NONE"

definition asn_PER_memb_regionId_constr_2 :: "asn_per_constraints" where
  "asn_PER_memb_regionId_constr_2 =
     \<lparr>pc_value = apc False True False 8 8 0 255,
      pc_size = apc False False False (-1) (-1) 0 0,
      pc_value2code = None, pc_code2value = None\<rparr>"

definition asn_SPC_regExtValue_specs_3 :: "asn_CHOICE_specifics" where
  "asn_SPC_regExtValue_specs_3 =
     \<lparr>to_canonical_order = None, from_canonical_order = None, ext_start = -1\<rparr>"

definition asn_DEF_regExtValue_3 :: "asn_TYPE_descriptor" where
  "asn_DEF_regExtValue_3 =
     TD OP_OPEN_TYPE None []
       (SPC_CHOICE asn_SPC_regExtValue_specs_3)"

definition asn_PER_memb_regExtValue_constr_3 :: "asn_per_constraints" where
  "asn_PER_memb_regExtValue_constr_3 =
     \<lparr>pc_value = apc False False False (-1) (-1) 0 0,
      pc_size = apc False False False (-1) (-1) 0 0,
      pc_value2code = None, pc_code2value = None\<rparr>"

definition asn_MBR_RegionalExtension_369P0_1 :: "asn_TYPE_member list" where
  "asn_MBR_RegionalExtension_369P0_1 =
     [MBR False False asn_DEF_RegionId (Some asn_PER_memb_regionId_constr_2) None,
      MBR False False asn_DEF_regExtValue_3 (Some asn_PER_memb_regExtValue_constr_3) None]"

definition asn_SPC_RegionalExtension_369P0_specs_1 :: "asn_SEQUENCE_specifics" where
  "asn_SPC_RegionalExtension_369P0_specs_1 =
     \<lparr>oms = [], roms_count = 0, aoms_count = 0, first_extension = -1\<rparr>"

definition asn_DEF_RegionalExtension_369P0 :: "asn_TYPE_descriptor" where
  "asn_DEF_RegionalExtension_369P0 =
     TD OP_SEQUENCE None asn_MBR_RegionalExtension_369P0_1
       (SPC_SEQUENCE asn_SPC_RegionalExtension_369P0_specs_1)"

definition asn_MBR_regional_7_AdvisorySpeed :: "asn_TYPE_member list" where
  "asn_MBR_regional_7_AdvisorySpeed =
     [MBR True False asn_DEF_RegionalExtension_369P0 None None]"

definition asn_PER_type_regional_constr_7_AdvisorySpeed :: "asn_per_constraints" where
  "asn_PER_type_regional_constr_7_AdvisorySpeed =
     \<lparr>pc_value = apc False False False (-1) (-1) 0 0,
      pc_size = apc False True False 2 2 1 4,
      pc_value2code = None, pc_code2value = None\<rparr>"

definition asn_DEF_regional_7_AdvisorySpeed :: "asn_TYPE_descriptor" where
  "asn_DEF_regional_7_AdvisorySpeed =
     TD OP_SEQUENCE_OF (Some asn_PER_type_regional_constr_7_AdvisorySpeed) asn_MBR_regional_7_AdvisorySpeed
       SPC_NONE"

definition asn_PER_memb_regional_constr_7_AdvisorySpeed :: "asn_per_constraints" where
  "asn_PER_memb_regional_constr_7_AdvisorySpeed =
     \<lparr>pc_value = apc False False False (-1) (-1) 0 0,
      pc_size = apc False True False 2 2 1 4,
      pc_value2code = None, pc_code2value = None\<rparr>"

definition asn_MBR_AdvisorySpeed_1 :: "asn_TYPE_member list" where
  "asn_MBR_AdvisorySpeed_1 =
     [MBR False False asn_DEF_AdvisorySpeedType None None,
      MBR True True asn_DEF_SpeedAdvice None None,
      MBR True True asn_DEF_SpeedConfidence None None,
      MBR True True asn_DEF_ZoneLength None None,
      MBR True True asn_DEF_RestrictionClassID None None,
      MBR True True asn_DEF_regional_7_AdvisorySpeed (Some asn_PER_memb_regional_constr_7_AdvisorySpeed) None]"

definition asn_MAP_AdvisorySpeed_oms_1 :: "nat list" where
  "asn_MAP_AdvisorySpeed_oms_1 =
     [1, 2, 3, 4, 5]"

definition asn_SPC_AdvisorySpeed_specs_1 :: "asn_SEQUENCE_specifics" where
  "asn_SPC_AdvisorySpeed_specs_1 =
     \<lparr>oms = asn_MAP_AdvisorySpeed_oms_1, roms_count = 5, aoms_count = 0, first_extension = 6\<rparr>"

definition asn_DEF_AdvisorySpeed :: "asn_TYPE_descriptor" where
  "asn_DEF_AdvisorySpeed =
     TD OP_SEQUENCE None asn_MBR_AdvisorySpeed_1
       (SPC_SEQUENCE asn_SPC_AdvisorySpeed_specs_1)"

definition asn_MBR_AdvisorySpeedList_1 :: "asn_TYPE_member list" where
  "asn_MBR_AdvisorySpeedList_1 =
     [MBR True False asn_DEF_AdvisorySpeed None None]"

definition asn_PER_type_AdvisorySpeedList_constr_1 :: "asn_per_constraints" where
  "asn_PER_type_AdvisorySpeedList_constr_1 =
     \<lparr>pc_value = apc False False False (-1) (-1) 0 0,
      pc_size = apc False True False 4 4 1 16,
      pc_value2code = None, pc_code2value = None\<rparr>"

definition asn_DEF_AdvisorySpeedList :: "asn_TYPE_descriptor" where
  "asn_DEF_AdvisorySpeedList =
     TD OP_SEQUENCE_OF (Some asn_PER_type_AdvisorySpeedList_constr_1) asn_MBR_AdvisorySpeedList_1
       SPC_NONE"

definition asn_MBR_regional_5_MovementEvent :: "asn_TYPE_member list" where
  "asn_MBR_regional_5_MovementEvent =
     [MBR True False asn_DEF_RegionalExtension_369P0 None None]"

definition asn_PER_type_regional_constr_5_MovementEvent :: "asn_per_constraints" where
  "asn_PER_type_regional_constr_5_MovementEvent =
     \<lparr>pc_value = apc False False False (-1) (-1) 0 0,
      pc_size = apc False True False 2 2 1 4,
      pc_value2code = None, pc_code2value = None\<rparr>"

definition asn_DEF_regional_5_MovementEvent :: "asn_TYPE_descriptor" where
  "asn_DEF_regional_5_MovementEvent =
     TD OP_SEQUENCE_OF (Some asn_PER_type_regional_constr_5_MovementEvent) asn_MBR_regional_5_MovementEvent
       SPC_NONE"

definition asn_PER_memb_regional_constr_5_MovementEvent :: "asn_per_constraints" where
  "asn_PER_memb_regional_constr_5_MovementEvent =
     \<lparr>pc_value = apc False False False (-1) (-1) 0 0,
      pc_size = apc False True False 2 2 1 4,
      pc_value2code = None, pc_code2value = None\<rparr>"

definition asn_MBR_MovementEvent_1 :: "asn_TYPE_member list" where
  "asn_MBR_MovementEvent_1 =
     [MBR False False asn_DEF_MovementPhaseState None None,
      MBR True True asn_DEF_TimeChangeDetails None None,
      MBR True True asn_DEF_AdvisorySpeedList None None,
      MBR True True asn_DEF_regional_5_MovementEvent (Some asn_PER_memb_regional_constr_5_MovementEvent) None]"

definition asn_MAP_MovementEvent_oms_1 :: "nat list" where
  "asn_MAP_MovementEvent_oms_1 =
     [1, 2, 3]"

definition asn_SPC_MovementEvent_specs_1 :: "asn_SEQUENCE_specifics" where
  "asn_SPC_MovementEvent_specs_1 =
     \<lparr>oms = asn_MAP_MovementEvent_oms_1, roms_count = 3, aoms_count = 0, first_extension = 4\<rparr>"

definition asn_DEF_MovementEvent :: "asn_TYPE_descriptor" where
  "asn_DEF_MovementEvent =
     TD OP_SEQUENCE None asn_MBR_MovementEvent_1
       (SPC_SEQUENCE asn_SPC_MovementEvent_specs_1)"

definition asn_MBR_MovementEventList_1 :: "asn_TYPE_member list" where
  "asn_MBR_MovementEventList_1 =
     [MBR True False asn_DEF_MovementEvent None None]"

definition asn_PER_type_MovementEventList_constr_1 :: "asn_per_constraints" where
  "asn_PER_type_MovementEventList_constr_1 =
     \<lparr>pc_value = apc False False False (-1) (-1) 0 0,
      pc_size = apc False True False 4 4 1 16,
      pc_value2code = None, pc_code2value = None\<rparr>"

definition asn_DEF_MovementEventList :: "asn_TYPE_descriptor" where
  "asn_DEF_MovementEventList =
     TD OP_SEQUENCE_OF (Some asn_PER_type_MovementEventList_constr_1) asn_MBR_MovementEventList_1
       SPC_NONE"

definition asn_PER_type_LaneConnectionID_constr_1 :: "asn_per_constraints" where
  "asn_PER_type_LaneConnectionID_constr_1 =
     \<lparr>pc_value = apc False True False 8 8 0 255,
      pc_size = apc False False False (-1) (-1) 0 0,
      pc_value2code = None, pc_code2value = None\<rparr>"

definition asn_DEF_LaneConnectionID :: "asn_TYPE_descriptor" where
  "asn_DEF_LaneConnectionID =
     TD OP_NativeInteger (Some asn_PER_type_LaneConnectionID_constr_1) []
       SPC_NONE"

definition asn_DEF_WaitOnStopline :: "asn_TYPE_descriptor" where
  "asn_DEF_WaitOnStopline =
     TD OP_BOOLEAN None []
       SPC_NONE"

definition asn_DEF_PedestrianBicycleDetect :: "asn_TYPE_descriptor" where
  "asn_DEF_PedestrianBicycleDetect =
     TD OP_BOOLEAN None []
       SPC_NONE"

definition asn_MBR_regional_7_ConnectionManeuverAssist :: "asn_TYPE_member list" where
  "asn_MBR_regional_7_ConnectionManeuverAssist =
     [MBR True False asn_DEF_RegionalExtension_369P0 None None]"

definition asn_PER_type_regional_constr_7_ConnectionManeuverAssist :: "asn_per_constraints" where
  "asn_PER_type_regional_constr_7_ConnectionManeuverAssist =
     \<lparr>pc_value = apc False False False (-1) (-1) 0 0,
      pc_size = apc False True False 2 2 1 4,
      pc_value2code = None, pc_code2value = None\<rparr>"

definition asn_DEF_regional_7_ConnectionManeuverAssist :: "asn_TYPE_descriptor" where
  "asn_DEF_regional_7_ConnectionManeuverAssist =
     TD OP_SEQUENCE_OF (Some asn_PER_type_regional_constr_7_ConnectionManeuverAssist) asn_MBR_regional_7_ConnectionManeuverAssist
       SPC_NONE"

definition asn_PER_memb_regional_constr_7_ConnectionManeuverAssist :: "asn_per_constraints" where
  "asn_PER_memb_regional_constr_7_ConnectionManeuverAssist =
     \<lparr>pc_value = apc False False False (-1) (-1) 0 0,
      pc_size = apc False True False 2 2 1 4,
      pc_value2code = None, pc_code2value = None\<rparr>"

definition asn_MBR_ConnectionManeuverAssist_1 :: "asn_TYPE_member list" where
  "asn_MBR_ConnectionManeuverAssist_1 =
     [MBR False False asn_DEF_LaneConnectionID None None,
      MBR True True asn_DEF_ZoneLength None None,
      MBR True True asn_DEF_ZoneLength None None,
      MBR True True asn_DEF_WaitOnStopline None None,
      MBR True True asn_DEF_PedestrianBicycleDetect None None,
      MBR True True asn_DEF_regional_7_ConnectionManeuverAssist (Some asn_PER_memb_regional_constr_7_ConnectionManeuverAssist) None]"

definition asn_MAP_ConnectionManeuverAssist_oms_1 :: "nat list" where
  "asn_MAP_ConnectionManeuverAssist_oms_1 =
     [1, 2, 3, 4, 5]"

definition asn_SPC_ConnectionManeuverAssist_specs_1 :: "asn_SEQUENCE_specifics" where
  "asn_SPC_ConnectionManeuverAssist_specs_1 =
     \<lparr>oms = asn_MAP_ConnectionManeuverAssist_oms_1, roms_count = 5, aoms_count = 0, first_extension = 6\<rparr>"

definition asn_DEF_ConnectionManeuverAssist :: "asn_TYPE_descriptor" where
  "asn_DEF_ConnectionManeuverAssist =
     TD OP_SEQUENCE None asn_MBR_ConnectionManeuverAssist_1
       (SPC_SEQUENCE asn_SPC_ConnectionManeuverAssist_specs_1)"

definition asn_MBR_ManeuverAssistList_1 :: "asn_TYPE_member list" where
  "asn_MBR_ManeuverAssistList_1 =
     [MBR True False asn_DEF_ConnectionManeuverAssist None None]"

definition asn_PER_type_ManeuverAssistList_constr_1 :: "asn_per_constraints" where
  "asn_PER_type_ManeuverAssistList_constr_1 =
     \<lparr>pc_value = apc False False False (-1) (-1) 0 0,
      pc_size = apc False True False 4 4 1 16,
      pc_value2code = None, pc_code2value = None\<rparr>"

definition asn_DEF_ManeuverAssistList :: "asn_TYPE_descriptor" where
  "asn_DEF_ManeuverAssistList =
     TD OP_SEQUENCE_OF (Some asn_PER_type_ManeuverAssistList_constr_1) asn_MBR_ManeuverAssistList_1
       SPC_NONE"

definition asn_MBR_regional_6_MovementState :: "asn_TYPE_member list" where
  "asn_MBR_regional_6_MovementState =
     [MBR True False asn_DEF_RegionalExtension_369P0 None None]"

definition asn_PER_type_regional_constr_6_MovementState :: "asn_per_constraints" where
  "asn_PER_type_regional_constr_6_MovementState =
     \<lparr>pc_value = apc False False False (-1) (-1) 0 0,
      pc_size = apc False True False 2 2 1 4,
      pc_value2code = None, pc_code2value = None\<rparr>"

definition asn_DEF_regional_6_MovementState :: "asn_TYPE_descriptor" where
  "asn_DEF_regional_6_MovementState =
     TD OP_SEQUENCE_OF (Some asn_PER_type_regional_constr_6_MovementState) asn_MBR_regional_6_MovementState
       SPC_NONE"

definition asn_PER_memb_regional_constr_6_MovementState :: "asn_per_constraints" where
  "asn_PER_memb_regional_constr_6_MovementState =
     \<lparr>pc_value = apc False False False (-1) (-1) 0 0,
      pc_size = apc False True False 2 2 1 4,
      pc_value2code = None, pc_code2value = None\<rparr>"

definition asn_MBR_MovementState_1 :: "asn_TYPE_member list" where
  "asn_MBR_MovementState_1 =
     [MBR True True asn_DEF_DescriptiveName None None,
      MBR False False asn_DEF_SignalGroupID None None,
      MBR False False asn_DEF_MovementEventList None None,
      MBR True True asn_DEF_ManeuverAssistList None None,
      MBR True True asn_DEF_regional_6_MovementState (Some asn_PER_memb_regional_constr_6_MovementState) None]"

definition asn_MAP_MovementState_oms_1 :: "nat list" where
  "asn_MAP_MovementState_oms_1 =
     [0, 3, 4]"

definition asn_SPC_MovementState_specs_1 :: "asn_SEQUENCE_specifics" where
  "asn_SPC_MovementState_specs_1 =
     \<lparr>oms = asn_MAP_MovementState_oms_1, roms_count = 3, aoms_count = 0, first_extension = 5\<rparr>"

definition asn_DEF_MovementState :: "asn_TYPE_descriptor" where
  "asn_DEF_MovementState =
     TD OP_SEQUENCE None asn_MBR_MovementState_1
       (SPC_SEQUENCE asn_SPC_MovementState_specs_1)"

definition asn_MBR_MovementList_1 :: "asn_TYPE_member list" where
  "asn_MBR_MovementList_1 =
     [MBR True False asn_DEF_MovementState None None]"

definition asn_PER_type_MovementList_constr_1 :: "asn_per_constraints" where
  "asn_PER_type_MovementList_constr_1 =
     \<lparr>pc_value = apc False False False (-1) (-1) 0 0,
      pc_size = apc False True False 8 8 1 255,
      pc_value2code = None, pc_code2value = None\<rparr>"

definition asn_DEF_MovementList :: "asn_TYPE_descriptor" where
  "asn_DEF_MovementList =
     TD OP_SEQUENCE_OF (Some asn_PER_type_MovementList_constr_1) asn_MBR_MovementList_1
       SPC_NONE"

definition asn_MBR_regional_11_IntersectionState :: "asn_TYPE_member list" where
  "asn_MBR_regional_11_IntersectionState =
     [MBR True False asn_DEF_RegionalExtension_369P0 None None]"

definition asn_PER_type_regional_constr_11_IntersectionState :: "asn_per_constraints" where
  "asn_PER_type_regional_constr_11_IntersectionState =
     \<lparr>pc_value = apc False False False (-1) (-1) 0 0,
      pc_size = apc False True False 2 2 1 4,
      pc_value2code = None, pc_code2value = None\<rparr>"

definition asn_DEF_regional_11_IntersectionState :: "asn_TYPE_descriptor" where
  "asn_DEF_regional_11_IntersectionState =
     TD OP_SEQUENCE_OF (Some asn_PER_type_regional_constr_11_IntersectionState) asn_MBR_regional_11_IntersectionState
       SPC_NONE"

definition asn_PER_memb_regional_constr_11_IntersectionState :: "asn_per_constraints" where
  "asn_PER_memb_regional_constr_11_IntersectionState =
     \<lparr>pc_value = apc False False False (-1) (-1) 0 0,
      pc_size = apc False True False 2 2 1 4,
      pc_value2code = None, pc_code2value = None\<rparr>"

definition asn_MBR_IntersectionState_1 :: "asn_TYPE_member list" where
  "asn_MBR_IntersectionState_1 =
     [MBR True True asn_DEF_DescriptiveName None None,
      MBR False False asn_DEF_IntersectionReferenceID None None,
      MBR False False asn_DEF_MsgCount None None,
      MBR False False asn_DEF_IntersectionStatusObject None None,
      MBR True True asn_DEF_MinuteOfTheYear None None,
      MBR True True asn_DEF_DSecond None None,
      MBR True True asn_DEF_EnabledLaneList None None,
      MBR False False asn_DEF_MovementList None None,
      MBR True True asn_DEF_ManeuverAssistList None None,
      MBR True True asn_DEF_regional_11_IntersectionState (Some asn_PER_memb_regional_constr_11_IntersectionState) None]"

definition asn_MAP_IntersectionState_oms_1 :: "nat list" where
  "asn_MAP_IntersectionState_oms_1 =
     [0, 4, 5, 6, 8, 9]"

definition asn_SPC_IntersectionState_specs_1 :: "asn_SEQUENCE_specifics" where
  "asn_SPC_IntersectionState_specs_1 =
     \<lparr>oms = asn_MAP_IntersectionState_oms_1, roms_count = 6, aoms_count = 0, first_extension = 10\<rparr>"

definition asn_DEF_IntersectionState :: "asn_TYPE_descriptor" where
  "asn_DEF_IntersectionState =
     TD OP_SEQUENCE None asn_MBR_IntersectionState_1
       (SPC_SEQUENCE asn_SPC_IntersectionState_specs_1)"

definition asn_MBR_IntersectionStateList_1 :: "asn_TYPE_member list" where
  "asn_MBR_IntersectionStateList_1 =
     [MBR True False asn_DEF_IntersectionState None None]"

definition asn_PER_type_IntersectionStateList_constr_1 :: "asn_per_constraints" where
  "asn_PER_type_IntersectionStateList_constr_1 =
     \<lparr>pc_value = apc False False False (-1) (-1) 0 0,
      pc_size = apc False True False 5 5 1 32,
      pc_value2code = None, pc_code2value = None\<rparr>"

definition asn_DEF_IntersectionStateList :: "asn_TYPE_descriptor" where
  "asn_DEF_IntersectionStateList =
     TD OP_SEQUENCE_OF (Some asn_PER_type_IntersectionStateList_constr_1) asn_MBR_IntersectionStateList_1
       SPC_NONE"

definition asn_MBR_regional_5_SPAT :: "asn_TYPE_member list" where
  "asn_MBR_regional_5_SPAT =
     [MBR True False asn_DEF_RegionalExtension_369P0 None None]"

definition asn_PER_type_regional_constr_5_SPAT :: "asn_per_constraints" where
  "asn_PER_type_regional_constr_5_SPAT =
     \<lparr>pc_value = apc False False False (-1) (-1) 0 0,
      pc_size = apc False True False 2 2 1 4,
      pc_value2code = None, pc_code2value = None\<rparr>"

definition asn_DEF_regional_5_SPAT :: "asn_TYPE_descriptor" where
  "asn_DEF_regional_5_SPAT =
     TD OP_SEQUENCE_OF (Some asn_PER_type_regional_constr_5_SPAT) asn_MBR_regional_5_SPAT
       SPC_NONE"

definition asn_PER_memb_regional_constr_5_SPAT :: "asn_per_constraints" where
  "asn_PER_memb_regional_constr_5_SPAT =
     \<lparr>pc_value = apc False False False (-1) (-1) 0 0,
      pc_size = apc False True False 2 2 1 4,
      pc_value2code = None, pc_code2value = None\<rparr>"

definition asn_MBR_SPAT_1 :: "asn_TYPE_member list" where
  "asn_MBR_SPAT_1 =
     [MBR True True asn_DEF_MinuteOfTheYear None None,
      MBR True True asn_DEF_DescriptiveName None None,
      MBR False False asn_DEF_IntersectionStateList None None,
      MBR True True asn_DEF_regional_5_SPAT (Some asn_PER_memb_regional_constr_5_SPAT) None]"

definition asn_MAP_SPAT_oms_1 :: "nat list" where
  "asn_MAP_SPAT_oms_1 =
     [0, 1, 3]"

definition asn_SPC_SPAT_specs_1 :: "asn_SEQUENCE_specifics" where
  "asn_SPC_SPAT_specs_1 =
     \<lparr>oms = asn_MAP_SPAT_oms_1, roms_count = 3, aoms_count = 0, first_extension = 4\<rparr>"

definition asn_DEF_SPAT :: "asn_TYPE_descriptor" where
  "asn_DEF_SPAT =
     TD OP_SEQUENCE None asn_MBR_SPAT_1
       (SPC_SEQUENCE asn_SPC_SPAT_specs_1)"

definition asn_MBR_SPATEM_1 :: "asn_TYPE_member list" where
  "asn_MBR_SPATEM_1 =
     [MBR False False asn_DEF_ItsPduHeader None None,
      MBR False False asn_DEF_SPAT None None]"

definition asn_SPC_SPATEM_specs_1 :: "asn_SEQUENCE_specifics" where
  "asn_SPC_SPATEM_specs_1 =
     \<lparr>oms = [], roms_count = 0, aoms_count = 0, first_extension = -1\<rparr>"

definition asn_DEF_SPATEM :: "asn_TYPE_descriptor" where
  "asn_DEF_SPATEM =
     TD OP_SEQUENCE None asn_MBR_SPATEM_1
       (SPC_SEQUENCE asn_SPC_SPATEM_specs_1)"

end
