(* ===== verification/Its_Mapem.thy ===== *)
theory Its_Mapem
  imports Its_Spatem
begin

text \<open>
  The descriptors asn1c generated for the map message (\<open>asn1/its\<close>): \<open>asn_DEF_MAPEM\<close> and the
  descriptors it refers to that are not in the theories before, in the form described in \<open>Its_Cam\<close>.
  Static objects that several files declare with the same name have the name of the file added.
\<close>

section \<open>Descriptors\<close>

definition asn_PER_type_LayerType_constr_1 :: "asn_per_constraints" where
  "asn_PER_type_LayerType_constr_1 =
     \<lparr>pc_value = apc False True True 3 3 0 7,
      pc_size = apc False False False (-1) (-1) 0 0,
      pc_value2code = None, pc_code2value = None\<rparr>"

definition asn_MAP_LayerType_value2enum_1 :: "(int \<times> string) list" where
  "asn_MAP_LayerType_value2enum_1 =
     [(0, ''none''), (1, ''mixedContent''), (2, ''generalMapData''), (3, ''intersectionData''),
      (4, ''curveData''), (5, ''roadwaySectionData''), (6, ''parkingAreaData''), (7, ''sharedLaneData'')]"

definition asn_MAP_LayerType_enum2value_1 :: "nat list" where
  "asn_MAP_LayerType_enum2value_1 =
     [4, 2, 3, 1, 0, 6, 5, 7]"

definition asn_SPC_LayerType_specs_1 :: "asn_INTEGER_specifics" where
  "asn_SPC_LayerType_specs_1 =
     \<lparr>value2enum = asn_MAP_LayerType_value2enum_1, enum2value = asn_MAP_LayerType_enum2value_1,
      is_extension = 9, strict_enumeration = True, field_unsigned = False\<rparr>"

definition asn_DEF_LayerType :: "asn_TYPE_descriptor" where
  "asn_DEF_LayerType =
     TD OP_NativeEnumerated (Some asn_PER_type_LayerType_constr_1) []
       (SPC_INTEGER asn_SPC_LayerType_specs_1)"

definition asn_PER_type_LayerID_constr_1 :: "asn_per_constraints" where
  "asn_PER_type_LayerID_constr_1 =
     \<lparr>pc_value = apc False True False 7 7 0 100,
      pc_size = apc False False False (-1) (-1) 0 0,
      pc_value2code = None, pc_code2value = None\<rparr>"

definition asn_DEF_LayerID :: "asn_TYPE_descriptor" where
  "asn_DEF_LayerID =
     TD OP_NativeInteger (Some asn_PER_type_LayerID_constr_1) []
       SPC_NONE"

definition asn_PER_type_Elevation_constr_1 :: "asn_per_constraints" where
  "asn_PER_type_Elevation_constr_1 =
     \<lparr>pc_value = apc False True False 16 16 (-4096) 61439,
      pc_size = apc False False False (-1) (-1) 0 0,
      pc_value2code = None, pc_code2value = None\<rparr>"

definition asn_DEF_Elevation :: "asn_TYPE_descriptor" where
  "asn_DEF_Elevation =
     TD OP_NativeInteger (Some asn_PER_type_Elevation_constr_1) []
       SPC_NONE"

definition asn_MBR_regional_5_Position3D :: "asn_TYPE_member list" where
  "asn_MBR_regional_5_Position3D =
     [MBR True False asn_DEF_RegionalExtension_369P0 None None]"

definition asn_PER_type_regional_constr_5_Position3D :: "asn_per_constraints" where
  "asn_PER_type_regional_constr_5_Position3D =
     \<lparr>pc_value = apc False False False (-1) (-1) 0 0,
      pc_size = apc False True False 2 2 1 4,
      pc_value2code = None, pc_code2value = None\<rparr>"

definition asn_DEF_regional_5_Position3D :: "asn_TYPE_descriptor" where
  "asn_DEF_regional_5_Position3D =
     TD OP_SEQUENCE_OF (Some asn_PER_type_regional_constr_5_Position3D) asn_MBR_regional_5_Position3D
       SPC_NONE"

definition asn_PER_memb_regional_constr_5_Position3D :: "asn_per_constraints" where
  "asn_PER_memb_regional_constr_5_Position3D =
     \<lparr>pc_value = apc False False False (-1) (-1) 0 0,
      pc_size = apc False True False 2 2 1 4,
      pc_value2code = None, pc_code2value = None\<rparr>"

definition asn_MBR_Position3D_1 :: "asn_TYPE_member list" where
  "asn_MBR_Position3D_1 =
     [MBR False False asn_DEF_Latitude None None,
      MBR False False asn_DEF_Longitude None None,
      MBR True True asn_DEF_Elevation None None,
      MBR True True asn_DEF_regional_5_Position3D (Some asn_PER_memb_regional_constr_5_Position3D) None]"

definition asn_MAP_Position3D_oms_1 :: "nat list" where
  "asn_MAP_Position3D_oms_1 =
     [2, 3]"

definition asn_SPC_Position3D_specs_1 :: "asn_SEQUENCE_specifics" where
  "asn_SPC_Position3D_specs_1 =
     \<lparr>oms = asn_MAP_Position3D_oms_1, roms_count = 2, aoms_count = 0, first_extension = 4\<rparr>"

definition asn_DEF_Position3D :: "asn_TYPE_descriptor" where
  "asn_DEF_Position3D =
     TD OP_SEQUENCE None asn_MBR_Position3D_1
       (SPC_SEQUENCE asn_SPC_Position3D_specs_1)"

definition asn_PER_type_LaneWidth_constr_1 :: "asn_per_constraints" where
  "asn_PER_type_LaneWidth_constr_1 =
     \<lparr>pc_value = apc False True False 15 15 0 32767,
      pc_size = apc False False False (-1) (-1) 0 0,
      pc_value2code = None, pc_code2value = None\<rparr>"

definition asn_DEF_LaneWidth :: "asn_TYPE_descriptor" where
  "asn_DEF_LaneWidth =
     TD OP_NativeInteger (Some asn_PER_type_LaneWidth_constr_1) []
       SPC_NONE"

definition asn_PER_type_SpeedLimitType_constr_1 :: "asn_per_constraints" where
  "asn_PER_type_SpeedLimitType_constr_1 =
     \<lparr>pc_value = apc False True True 4 4 0 12,
      pc_size = apc False False False (-1) (-1) 0 0,
      pc_value2code = None, pc_code2value = None\<rparr>"

definition asn_MAP_SpeedLimitType_value2enum_1 :: "(int \<times> string) list" where
  "asn_MAP_SpeedLimitType_value2enum_1 =
     [(0, ''unknown''), (1, ''maxSpeedInSchoolZone''),
      (2, ''maxSpeedInSchoolZoneWhenChildrenArePresent''), (3, ''maxSpeedInConstructionZone''),
      (4, ''vehicleMinSpeed''), (5, ''vehicleMaxSpeed''), (6, ''vehicleNightMaxSpeed''),
      (7, ''truckMinSpeed''), (8, ''truckMaxSpeed''), (9, ''truckNightMaxSpeed''),
      (10, ''vehiclesWithTrailersMinSpeed''), (11, ''vehiclesWithTrailersMaxSpeed''),
      (12, ''vehiclesWithTrailersNightMaxSpeed'')]"

definition asn_MAP_SpeedLimitType_enum2value_1 :: "nat list" where
  "asn_MAP_SpeedLimitType_enum2value_1 =
     [3, 1, 2, 8, 7, 9, 0, 5, 4, 6, 11, 10, 12]"

definition asn_SPC_SpeedLimitType_specs_1 :: "asn_INTEGER_specifics" where
  "asn_SPC_SpeedLimitType_specs_1 =
     \<lparr>value2enum = asn_MAP_SpeedLimitType_value2enum_1, enum2value = asn_MAP_SpeedLimitType_enum2value_1,
      is_extension = 14, strict_enumeration = True, field_unsigned = False\<rparr>"

definition asn_DEF_SpeedLimitType :: "asn_TYPE_descriptor" where
  "asn_DEF_SpeedLimitType =
     TD OP_NativeEnumerated (Some asn_PER_type_SpeedLimitType_constr_1) []
       (SPC_INTEGER asn_SPC_SpeedLimitType_specs_1)"

definition asn_PER_type_Velocity_constr_1 :: "asn_per_constraints" where
  "asn_PER_type_Velocity_constr_1 =
     \<lparr>pc_value = apc False True False 13 13 0 8191,
      pc_size = apc False False False (-1) (-1) 0 0,
      pc_value2code = None, pc_code2value = None\<rparr>"

definition asn_DEF_Velocity :: "asn_TYPE_descriptor" where
  "asn_DEF_Velocity =
     TD OP_NativeInteger (Some asn_PER_type_Velocity_constr_1) []
       SPC_NONE"

definition asn_MBR_RegulatorySpeedLimit_1 :: "asn_TYPE_member list" where
  "asn_MBR_RegulatorySpeedLimit_1 =
     [MBR False False asn_DEF_SpeedLimitType None None,
      MBR False False asn_DEF_Velocity None None]"

definition asn_SPC_RegulatorySpeedLimit_specs_1 :: "asn_SEQUENCE_specifics" where
  "asn_SPC_RegulatorySpeedLimit_specs_1 =
     \<lparr>oms = [], roms_count = 0, aoms_count = 0, first_extension = -1\<rparr>"

definition asn_DEF_RegulatorySpeedLimit :: "asn_TYPE_descriptor" where
  "asn_DEF_RegulatorySpeedLimit =
     TD OP_SEQUENCE None asn_MBR_RegulatorySpeedLimit_1
       (SPC_SEQUENCE asn_SPC_RegulatorySpeedLimit_specs_1)"

definition asn_MBR_SpeedLimitList_1 :: "asn_TYPE_member list" where
  "asn_MBR_SpeedLimitList_1 =
     [MBR True False asn_DEF_RegulatorySpeedLimit None None]"

definition asn_PER_type_SpeedLimitList_constr_1 :: "asn_per_constraints" where
  "asn_PER_type_SpeedLimitList_constr_1 =
     \<lparr>pc_value = apc False False False (-1) (-1) 0 0,
      pc_size = apc False True False 4 4 1 9,
      pc_value2code = None, pc_code2value = None\<rparr>"

definition asn_DEF_SpeedLimitList :: "asn_TYPE_descriptor" where
  "asn_DEF_SpeedLimitList =
     TD OP_SEQUENCE_OF (Some asn_PER_type_SpeedLimitList_constr_1) asn_MBR_SpeedLimitList_1
       SPC_NONE"

definition asn_PER_type_ApproachID_constr_1 :: "asn_per_constraints" where
  "asn_PER_type_ApproachID_constr_1 =
     \<lparr>pc_value = apc False True False 4 4 0 15,
      pc_size = apc False False False (-1) (-1) 0 0,
      pc_value2code = None, pc_code2value = None\<rparr>"

definition asn_DEF_ApproachID :: "asn_TYPE_descriptor" where
  "asn_DEF_ApproachID =
     TD OP_NativeInteger (Some asn_PER_type_ApproachID_constr_1) []
       SPC_NONE"

definition asn_PER_type_LaneDirection_constr_1 :: "asn_per_constraints" where
  "asn_PER_type_LaneDirection_constr_1 =
     \<lparr>pc_value = apc False False False (-1) (-1) 0 0,
      pc_size = apc False True False 0 0 2 2,
      pc_value2code = None, pc_code2value = None\<rparr>"

definition asn_DEF_LaneDirection :: "asn_TYPE_descriptor" where
  "asn_DEF_LaneDirection =
     TD OP_BIT_STRING (Some asn_PER_type_LaneDirection_constr_1) []
       (SPC_OCTET_STRING ASN_OSUBV_BIT)"

definition asn_PER_type_LaneSharing_constr_1 :: "asn_per_constraints" where
  "asn_PER_type_LaneSharing_constr_1 =
     \<lparr>pc_value = apc False False False (-1) (-1) 0 0,
      pc_size = apc False True False 0 0 10 10,
      pc_value2code = None, pc_code2value = None\<rparr>"

definition asn_DEF_LaneSharing :: "asn_TYPE_descriptor" where
  "asn_DEF_LaneSharing =
     TD OP_BIT_STRING (Some asn_PER_type_LaneSharing_constr_1) []
       (SPC_OCTET_STRING ASN_OSUBV_BIT)"

definition asn_PER_type_LaneAttributes_Vehicle_constr_1 :: "asn_per_constraints" where
  "asn_PER_type_LaneAttributes_Vehicle_constr_1 =
     \<lparr>pc_value = apc False False False (-1) (-1) 0 0,
      pc_size = apc False True True 0 0 8 8,
      pc_value2code = None, pc_code2value = None\<rparr>"

definition asn_DEF_LaneAttributes_Vehicle :: "asn_TYPE_descriptor" where
  "asn_DEF_LaneAttributes_Vehicle =
     TD OP_BIT_STRING (Some asn_PER_type_LaneAttributes_Vehicle_constr_1) []
       (SPC_OCTET_STRING ASN_OSUBV_BIT)"

definition asn_PER_type_LaneAttributes_Crosswalk_constr_1 :: "asn_per_constraints" where
  "asn_PER_type_LaneAttributes_Crosswalk_constr_1 =
     \<lparr>pc_value = apc False False False (-1) (-1) 0 0,
      pc_size = apc False True False 0 0 16 16,
      pc_value2code = None, pc_code2value = None\<rparr>"

definition asn_DEF_LaneAttributes_Crosswalk :: "asn_TYPE_descriptor" where
  "asn_DEF_LaneAttributes_Crosswalk =
     TD OP_BIT_STRING (Some asn_PER_type_LaneAttributes_Crosswalk_constr_1) []
       (SPC_OCTET_STRING ASN_OSUBV_BIT)"

definition asn_PER_type_LaneAttributes_Bike_constr_1 :: "asn_per_constraints" where
  "asn_PER_type_LaneAttributes_Bike_constr_1 =
     \<lparr>pc_value = apc False False False (-1) (-1) 0 0,
      pc_size = apc False True False 0 0 16 16,
      pc_value2code = None, pc_code2value = None\<rparr>"

definition asn_DEF_LaneAttributes_Bike :: "asn_TYPE_descriptor" where
  "asn_DEF_LaneAttributes_Bike =
     TD OP_BIT_STRING (Some asn_PER_type_LaneAttributes_Bike_constr_1) []
       (SPC_OCTET_STRING ASN_OSUBV_BIT)"

definition asn_PER_type_LaneAttributes_Sidewalk_constr_1 :: "asn_per_constraints" where
  "asn_PER_type_LaneAttributes_Sidewalk_constr_1 =
     \<lparr>pc_value = apc False False False (-1) (-1) 0 0,
      pc_size = apc False True False 0 0 16 16,
      pc_value2code = None, pc_code2value = None\<rparr>"

definition asn_DEF_LaneAttributes_Sidewalk :: "asn_TYPE_descriptor" where
  "asn_DEF_LaneAttributes_Sidewalk =
     TD OP_BIT_STRING (Some asn_PER_type_LaneAttributes_Sidewalk_constr_1) []
       (SPC_OCTET_STRING ASN_OSUBV_BIT)"

definition asn_PER_type_LaneAttributes_Barrier_constr_1 :: "asn_per_constraints" where
  "asn_PER_type_LaneAttributes_Barrier_constr_1 =
     \<lparr>pc_value = apc False False False (-1) (-1) 0 0,
      pc_size = apc False True False 0 0 16 16,
      pc_value2code = None, pc_code2value = None\<rparr>"

definition asn_DEF_LaneAttributes_Barrier :: "asn_TYPE_descriptor" where
  "asn_DEF_LaneAttributes_Barrier =
     TD OP_BIT_STRING (Some asn_PER_type_LaneAttributes_Barrier_constr_1) []
       (SPC_OCTET_STRING ASN_OSUBV_BIT)"

definition asn_PER_type_LaneAttributes_Striping_constr_1 :: "asn_per_constraints" where
  "asn_PER_type_LaneAttributes_Striping_constr_1 =
     \<lparr>pc_value = apc False False False (-1) (-1) 0 0,
      pc_size = apc False True False 0 0 16 16,
      pc_value2code = None, pc_code2value = None\<rparr>"

definition asn_DEF_LaneAttributes_Striping :: "asn_TYPE_descriptor" where
  "asn_DEF_LaneAttributes_Striping =
     TD OP_BIT_STRING (Some asn_PER_type_LaneAttributes_Striping_constr_1) []
       (SPC_OCTET_STRING ASN_OSUBV_BIT)"

definition asn_PER_type_LaneAttributes_TrackedVehicle_constr_1 :: "asn_per_constraints" where
  "asn_PER_type_LaneAttributes_TrackedVehicle_constr_1 =
     \<lparr>pc_value = apc False False False (-1) (-1) 0 0,
      pc_size = apc False True False 0 0 16 16,
      pc_value2code = None, pc_code2value = None\<rparr>"

definition asn_DEF_LaneAttributes_TrackedVehicle :: "asn_TYPE_descriptor" where
  "asn_DEF_LaneAttributes_TrackedVehicle =
     TD OP_BIT_STRING (Some asn_PER_type_LaneAttributes_TrackedVehicle_constr_1) []
       (SPC_OCTET_STRING ASN_OSUBV_BIT)"

definition asn_PER_type_LaneAttributes_Parking_constr_1 :: "asn_per_constraints" where
  "asn_PER_type_LaneAttributes_Parking_constr_1 =
     \<lparr>pc_value = apc False False False (-1) (-1) 0 0,
      pc_size = apc False True False 0 0 16 16,
      pc_value2code = None, pc_code2value = None\<rparr>"

definition asn_DEF_LaneAttributes_Parking :: "asn_TYPE_descriptor" where
  "asn_DEF_LaneAttributes_Parking =
     TD OP_BIT_STRING (Some asn_PER_type_LaneAttributes_Parking_constr_1) []
       (SPC_OCTET_STRING ASN_OSUBV_BIT)"

definition asn_MBR_LaneTypeAttributes_1 :: "asn_TYPE_member list" where
  "asn_MBR_LaneTypeAttributes_1 =
     [MBR False False asn_DEF_LaneAttributes_Vehicle None None,
      MBR False False asn_DEF_LaneAttributes_Crosswalk None None,
      MBR False False asn_DEF_LaneAttributes_Bike None None,
      MBR False False asn_DEF_LaneAttributes_Sidewalk None None,
      MBR False False asn_DEF_LaneAttributes_Barrier None None,
      MBR False False asn_DEF_LaneAttributes_Striping None None,
      MBR False False asn_DEF_LaneAttributes_TrackedVehicle None None,
      MBR False False asn_DEF_LaneAttributes_Parking None None]"

definition asn_PER_type_LaneTypeAttributes_constr_1 :: "asn_per_constraints" where
  "asn_PER_type_LaneTypeAttributes_constr_1 =
     \<lparr>pc_value = apc False True True 3 3 0 7,
      pc_size = apc False False False (-1) (-1) 0 0,
      pc_value2code = None, pc_code2value = None\<rparr>"

definition asn_SPC_LaneTypeAttributes_specs_1 :: "asn_CHOICE_specifics" where
  "asn_SPC_LaneTypeAttributes_specs_1 =
     \<lparr>to_canonical_order = None, from_canonical_order = None, ext_start = 8\<rparr>"

definition asn_DEF_LaneTypeAttributes :: "asn_TYPE_descriptor" where
  "asn_DEF_LaneTypeAttributes =
     TD OP_CHOICE (Some asn_PER_type_LaneTypeAttributes_constr_1) asn_MBR_LaneTypeAttributes_1
       (SPC_CHOICE asn_SPC_LaneTypeAttributes_specs_1)"

definition asn_MBR_LaneAttributes_1 :: "asn_TYPE_member list" where
  "asn_MBR_LaneAttributes_1 =
     [MBR False False asn_DEF_LaneDirection None None,
      MBR False False asn_DEF_LaneSharing None None,
      MBR False False asn_DEF_LaneTypeAttributes None None,
      MBR True True asn_DEF_RegionalExtension_369P0 None None]"

definition asn_MAP_LaneAttributes_oms_1 :: "nat list" where
  "asn_MAP_LaneAttributes_oms_1 =
     [3]"

definition asn_SPC_LaneAttributes_specs_1 :: "asn_SEQUENCE_specifics" where
  "asn_SPC_LaneAttributes_specs_1 =
     \<lparr>oms = asn_MAP_LaneAttributes_oms_1, roms_count = 1, aoms_count = 0, first_extension = -1\<rparr>"

definition asn_DEF_LaneAttributes :: "asn_TYPE_descriptor" where
  "asn_DEF_LaneAttributes =
     TD OP_SEQUENCE None asn_MBR_LaneAttributes_1
       (SPC_SEQUENCE asn_SPC_LaneAttributes_specs_1)"

definition asn_PER_type_AllowedManeuvers_constr_1 :: "asn_per_constraints" where
  "asn_PER_type_AllowedManeuvers_constr_1 =
     \<lparr>pc_value = apc False False False (-1) (-1) 0 0,
      pc_size = apc False True False 0 0 12 12,
      pc_value2code = None, pc_code2value = None\<rparr>"

definition asn_DEF_AllowedManeuvers :: "asn_TYPE_descriptor" where
  "asn_DEF_AllowedManeuvers =
     TD OP_BIT_STRING (Some asn_PER_type_AllowedManeuvers_constr_1) []
       (SPC_OCTET_STRING ASN_OSUBV_BIT)"

definition asn_PER_type_Offset_B10_constr_1 :: "asn_per_constraints" where
  "asn_PER_type_Offset_B10_constr_1 =
     \<lparr>pc_value = apc False True False 10 10 (-512) 511,
      pc_size = apc False False False (-1) (-1) 0 0,
      pc_value2code = None, pc_code2value = None\<rparr>"

definition asn_DEF_Offset_B10 :: "asn_TYPE_descriptor" where
  "asn_DEF_Offset_B10 =
     TD OP_NativeInteger (Some asn_PER_type_Offset_B10_constr_1) []
       SPC_NONE"

definition asn_MBR_Node_XY_20b_1 :: "asn_TYPE_member list" where
  "asn_MBR_Node_XY_20b_1 =
     [MBR False False asn_DEF_Offset_B10 None None,
      MBR False False asn_DEF_Offset_B10 None None]"

definition asn_SPC_Node_XY_20b_specs_1 :: "asn_SEQUENCE_specifics" where
  "asn_SPC_Node_XY_20b_specs_1 =
     \<lparr>oms = [], roms_count = 0, aoms_count = 0, first_extension = -1\<rparr>"

definition asn_DEF_Node_XY_20b :: "asn_TYPE_descriptor" where
  "asn_DEF_Node_XY_20b =
     TD OP_SEQUENCE None asn_MBR_Node_XY_20b_1
       (SPC_SEQUENCE asn_SPC_Node_XY_20b_specs_1)"

definition asn_PER_type_Offset_B11_constr_1 :: "asn_per_constraints" where
  "asn_PER_type_Offset_B11_constr_1 =
     \<lparr>pc_value = apc False True False 11 11 (-1024) 1023,
      pc_size = apc False False False (-1) (-1) 0 0,
      pc_value2code = None, pc_code2value = None\<rparr>"

definition asn_DEF_Offset_B11 :: "asn_TYPE_descriptor" where
  "asn_DEF_Offset_B11 =
     TD OP_NativeInteger (Some asn_PER_type_Offset_B11_constr_1) []
       SPC_NONE"

definition asn_MBR_Node_XY_22b_1 :: "asn_TYPE_member list" where
  "asn_MBR_Node_XY_22b_1 =
     [MBR False False asn_DEF_Offset_B11 None None,
      MBR False False asn_DEF_Offset_B11 None None]"

definition asn_SPC_Node_XY_22b_specs_1 :: "asn_SEQUENCE_specifics" where
  "asn_SPC_Node_XY_22b_specs_1 =
     \<lparr>oms = [], roms_count = 0, aoms_count = 0, first_extension = -1\<rparr>"

definition asn_DEF_Node_XY_22b :: "asn_TYPE_descriptor" where
  "asn_DEF_Node_XY_22b =
     TD OP_SEQUENCE None asn_MBR_Node_XY_22b_1
       (SPC_SEQUENCE asn_SPC_Node_XY_22b_specs_1)"

definition asn_PER_type_Offset_B12_constr_1 :: "asn_per_constraints" where
  "asn_PER_type_Offset_B12_constr_1 =
     \<lparr>pc_value = apc False True False 12 12 (-2048) 2047,
      pc_size = apc False False False (-1) (-1) 0 0,
      pc_value2code = None, pc_code2value = None\<rparr>"

definition asn_DEF_Offset_B12 :: "asn_TYPE_descriptor" where
  "asn_DEF_Offset_B12 =
     TD OP_NativeInteger (Some asn_PER_type_Offset_B12_constr_1) []
       SPC_NONE"

definition asn_MBR_Node_XY_24b_1 :: "asn_TYPE_member list" where
  "asn_MBR_Node_XY_24b_1 =
     [MBR False False asn_DEF_Offset_B12 None None,
      MBR False False asn_DEF_Offset_B12 None None]"

definition asn_SPC_Node_XY_24b_specs_1 :: "asn_SEQUENCE_specifics" where
  "asn_SPC_Node_XY_24b_specs_1 =
     \<lparr>oms = [], roms_count = 0, aoms_count = 0, first_extension = -1\<rparr>"

definition asn_DEF_Node_XY_24b :: "asn_TYPE_descriptor" where
  "asn_DEF_Node_XY_24b =
     TD OP_SEQUENCE None asn_MBR_Node_XY_24b_1
       (SPC_SEQUENCE asn_SPC_Node_XY_24b_specs_1)"

definition asn_PER_type_Offset_B13_constr_1 :: "asn_per_constraints" where
  "asn_PER_type_Offset_B13_constr_1 =
     \<lparr>pc_value = apc False True False 13 13 (-4096) 4095,
      pc_size = apc False False False (-1) (-1) 0 0,
      pc_value2code = None, pc_code2value = None\<rparr>"

definition asn_DEF_Offset_B13 :: "asn_TYPE_descriptor" where
  "asn_DEF_Offset_B13 =
     TD OP_NativeInteger (Some asn_PER_type_Offset_B13_constr_1) []
       SPC_NONE"

definition asn_MBR_Node_XY_26b_1 :: "asn_TYPE_member list" where
  "asn_MBR_Node_XY_26b_1 =
     [MBR False False asn_DEF_Offset_B13 None None,
      MBR False False asn_DEF_Offset_B13 None None]"

definition asn_SPC_Node_XY_26b_specs_1 :: "asn_SEQUENCE_specifics" where
  "asn_SPC_Node_XY_26b_specs_1 =
     \<lparr>oms = [], roms_count = 0, aoms_count = 0, first_extension = -1\<rparr>"

definition asn_DEF_Node_XY_26b :: "asn_TYPE_descriptor" where
  "asn_DEF_Node_XY_26b =
     TD OP_SEQUENCE None asn_MBR_Node_XY_26b_1
       (SPC_SEQUENCE asn_SPC_Node_XY_26b_specs_1)"

definition asn_PER_type_Offset_B14_constr_1 :: "asn_per_constraints" where
  "asn_PER_type_Offset_B14_constr_1 =
     \<lparr>pc_value = apc False True False 14 14 (-8192) 8191,
      pc_size = apc False False False (-1) (-1) 0 0,
      pc_value2code = None, pc_code2value = None\<rparr>"

definition asn_DEF_Offset_B14 :: "asn_TYPE_descriptor" where
  "asn_DEF_Offset_B14 =
     TD OP_NativeInteger (Some asn_PER_type_Offset_B14_constr_1) []
       SPC_NONE"

definition asn_MBR_Node_XY_28b_1 :: "asn_TYPE_member list" where
  "asn_MBR_Node_XY_28b_1 =
     [MBR False False asn_DEF_Offset_B14 None None,
      MBR False False asn_DEF_Offset_B14 None None]"

definition asn_SPC_Node_XY_28b_specs_1 :: "asn_SEQUENCE_specifics" where
  "asn_SPC_Node_XY_28b_specs_1 =
     \<lparr>oms = [], roms_count = 0, aoms_count = 0, first_extension = -1\<rparr>"

definition asn_DEF_Node_XY_28b :: "asn_TYPE_descriptor" where
  "asn_DEF_Node_XY_28b =
     TD OP_SEQUENCE None asn_MBR_Node_XY_28b_1
       (SPC_SEQUENCE asn_SPC_Node_XY_28b_specs_1)"

definition asn_PER_type_Offset_B16_constr_1 :: "asn_per_constraints" where
  "asn_PER_type_Offset_B16_constr_1 =
     \<lparr>pc_value = apc False True False 16 16 (-32768) 32767,
      pc_size = apc False False False (-1) (-1) 0 0,
      pc_value2code = None, pc_code2value = None\<rparr>"

definition asn_DEF_Offset_B16 :: "asn_TYPE_descriptor" where
  "asn_DEF_Offset_B16 =
     TD OP_NativeInteger (Some asn_PER_type_Offset_B16_constr_1) []
       SPC_NONE"

definition asn_MBR_Node_XY_32b_1 :: "asn_TYPE_member list" where
  "asn_MBR_Node_XY_32b_1 =
     [MBR False False asn_DEF_Offset_B16 None None,
      MBR False False asn_DEF_Offset_B16 None None]"

definition asn_SPC_Node_XY_32b_specs_1 :: "asn_SEQUENCE_specifics" where
  "asn_SPC_Node_XY_32b_specs_1 =
     \<lparr>oms = [], roms_count = 0, aoms_count = 0, first_extension = -1\<rparr>"

definition asn_DEF_Node_XY_32b :: "asn_TYPE_descriptor" where
  "asn_DEF_Node_XY_32b =
     TD OP_SEQUENCE None asn_MBR_Node_XY_32b_1
       (SPC_SEQUENCE asn_SPC_Node_XY_32b_specs_1)"

definition asn_MBR_Node_LLmD_64b_1 :: "asn_TYPE_member list" where
  "asn_MBR_Node_LLmD_64b_1 =
     [MBR False False asn_DEF_Longitude None None,
      MBR False False asn_DEF_Latitude None None]"

definition asn_SPC_Node_LLmD_64b_specs_1 :: "asn_SEQUENCE_specifics" where
  "asn_SPC_Node_LLmD_64b_specs_1 =
     \<lparr>oms = [], roms_count = 0, aoms_count = 0, first_extension = -1\<rparr>"

definition asn_DEF_Node_LLmD_64b :: "asn_TYPE_descriptor" where
  "asn_DEF_Node_LLmD_64b =
     TD OP_SEQUENCE None asn_MBR_Node_LLmD_64b_1
       (SPC_SEQUENCE asn_SPC_Node_LLmD_64b_specs_1)"

definition asn_MBR_NodeOffsetPointXY_1 :: "asn_TYPE_member list" where
  "asn_MBR_NodeOffsetPointXY_1 =
     [MBR False False asn_DEF_Node_XY_20b None None,
      MBR False False asn_DEF_Node_XY_22b None None,
      MBR False False asn_DEF_Node_XY_24b None None,
      MBR False False asn_DEF_Node_XY_26b None None,
      MBR False False asn_DEF_Node_XY_28b None None,
      MBR False False asn_DEF_Node_XY_32b None None,
      MBR False False asn_DEF_Node_LLmD_64b None None,
      MBR False False asn_DEF_RegionalExtension_369P0 None None]"

definition asn_PER_type_NodeOffsetPointXY_constr_1 :: "asn_per_constraints" where
  "asn_PER_type_NodeOffsetPointXY_constr_1 =
     \<lparr>pc_value = apc False True False 3 3 0 7,
      pc_size = apc False False False (-1) (-1) 0 0,
      pc_value2code = None, pc_code2value = None\<rparr>"

definition asn_SPC_NodeOffsetPointXY_specs_1 :: "asn_CHOICE_specifics" where
  "asn_SPC_NodeOffsetPointXY_specs_1 =
     \<lparr>to_canonical_order = None, from_canonical_order = None, ext_start = -1\<rparr>"

definition asn_DEF_NodeOffsetPointXY :: "asn_TYPE_descriptor" where
  "asn_DEF_NodeOffsetPointXY =
     TD OP_CHOICE (Some asn_PER_type_NodeOffsetPointXY_constr_1) asn_MBR_NodeOffsetPointXY_1
       (SPC_CHOICE asn_SPC_NodeOffsetPointXY_specs_1)"

definition asn_PER_type_NodeAttributeXY_constr_1 :: "asn_per_constraints" where
  "asn_PER_type_NodeAttributeXY_constr_1 =
     \<lparr>pc_value = apc False True True 4 4 0 11,
      pc_size = apc False False False (-1) (-1) 0 0,
      pc_value2code = None, pc_code2value = None\<rparr>"

definition asn_MAP_NodeAttributeXY_value2enum_1 :: "(int \<times> string) list" where
  "asn_MAP_NodeAttributeXY_value2enum_1 =
     [(0, ''reserved''), (1, ''stopLine''), (2, ''roundedCapStyleA''), (3, ''roundedCapStyleB''),
      (4, ''mergePoint''), (5, ''divergePoint''), (6, ''downstreamStopLine''),
      (7, ''downstreamStartNode''), (8, ''closedToTraffic''), (9, ''safeIsland''),
      (10, ''curbPresentAtStepOff''), (11, ''hydrantPresent'')]"

definition asn_MAP_NodeAttributeXY_enum2value_1 :: "nat list" where
  "asn_MAP_NodeAttributeXY_enum2value_1 =
     [8, 10, 5, 7, 6, 11, 4, 0, 2, 3, 9, 1]"

definition asn_SPC_NodeAttributeXY_specs_1 :: "asn_INTEGER_specifics" where
  "asn_SPC_NodeAttributeXY_specs_1 =
     \<lparr>value2enum = asn_MAP_NodeAttributeXY_value2enum_1, enum2value = asn_MAP_NodeAttributeXY_enum2value_1,
      is_extension = 13, strict_enumeration = True, field_unsigned = False\<rparr>"

definition asn_DEF_NodeAttributeXY :: "asn_TYPE_descriptor" where
  "asn_DEF_NodeAttributeXY =
     TD OP_NativeEnumerated (Some asn_PER_type_NodeAttributeXY_constr_1) []
       (SPC_INTEGER asn_SPC_NodeAttributeXY_specs_1)"

definition asn_MBR_NodeAttributeXYList_1 :: "asn_TYPE_member list" where
  "asn_MBR_NodeAttributeXYList_1 =
     [MBR True False asn_DEF_NodeAttributeXY None None]"

definition asn_PER_type_NodeAttributeXYList_constr_1 :: "asn_per_constraints" where
  "asn_PER_type_NodeAttributeXYList_constr_1 =
     \<lparr>pc_value = apc False False False (-1) (-1) 0 0,
      pc_size = apc False True False 3 3 1 8,
      pc_value2code = None, pc_code2value = None\<rparr>"

definition asn_DEF_NodeAttributeXYList :: "asn_TYPE_descriptor" where
  "asn_DEF_NodeAttributeXYList =
     TD OP_SEQUENCE_OF (Some asn_PER_type_NodeAttributeXYList_constr_1) asn_MBR_NodeAttributeXYList_1
       SPC_NONE"

definition asn_PER_type_SegmentAttributeXY_constr_1 :: "asn_per_constraints" where
  "asn_PER_type_SegmentAttributeXY_constr_1 =
     \<lparr>pc_value = apc False True True 6 6 0 37,
      pc_size = apc False False False (-1) (-1) 0 0,
      pc_value2code = None, pc_code2value = None\<rparr>"

definition asn_MAP_SegmentAttributeXY_value2enum_1 :: "(int \<times> string) list" where
  "asn_MAP_SegmentAttributeXY_value2enum_1 =
     [(0, ''reserved''), (1, ''doNotBlock''), (2, ''whiteLine''), (3, ''mergingLaneLeft''),
      (4, ''mergingLaneRight''), (5, ''curbOnLeft''), (6, ''curbOnRight''), (7, ''loadingzoneOnLeft''),
      (8, ''loadingzoneOnRight''), (9, ''turnOutPointOnLeft''), (10, ''turnOutPointOnRight''),
      (11, ''adjacentParkingOnLeft''), (12, ''adjacentParkingOnRight''), (13, ''adjacentBikeLaneOnLeft''),
      (14, ''adjacentBikeLaneOnRight''), (15, ''sharedBikeLane''), (16, ''bikeBoxInFront''),
      (17, ''transitStopOnLeft''), (18, ''transitStopOnRight''), (19, ''transitStopInLane''),
      (20, ''sharedWithTrackedVehicle''), (21, ''safeIsland''), (22, ''lowCurbsPresent''),
      (23, ''rumbleStripPresent''), (24, ''audibleSignalingPresent''), (25, ''adaptiveTimingPresent''),
      (26, ''rfSignalRequestPresent''), (27, ''partialCurbIntrusion''), (28, ''taperToLeft''),
      (29, ''taperToRight''), (30, ''taperToCenterLine''), (31, ''parallelParking''),
      (32, ''headInParking''), (33, ''freeParking''), (34, ''timeRestrictionsOnParking''),
      (35, ''costToPark''), (36, ''midBlockCurbPresent''), (37, ''unEvenPavementPresent'')]"

definition asn_MAP_SegmentAttributeXY_enum2value_1 :: "nat list" where
  "asn_MAP_SegmentAttributeXY_enum2value_1 =
     [25, 13, 14, 11, 12, 24, 16, 35, 5, 6, 1, 33, 32, 7, 8, 22, 3, 4, 36, 31, 27, 0, 26, 23, 21, 15, 20,
      30, 28, 29, 34, 19, 17, 18, 9, 10, 37, 2]"

definition asn_SPC_SegmentAttributeXY_specs_1 :: "asn_INTEGER_specifics" where
  "asn_SPC_SegmentAttributeXY_specs_1 =
     \<lparr>value2enum = asn_MAP_SegmentAttributeXY_value2enum_1, enum2value = asn_MAP_SegmentAttributeXY_enum2value_1,
      is_extension = 39, strict_enumeration = True, field_unsigned = False\<rparr>"

definition asn_DEF_SegmentAttributeXY :: "asn_TYPE_descriptor" where
  "asn_DEF_SegmentAttributeXY =
     TD OP_NativeEnumerated (Some asn_PER_type_SegmentAttributeXY_constr_1) []
       (SPC_INTEGER asn_SPC_SegmentAttributeXY_specs_1)"

definition asn_MBR_SegmentAttributeXYList_1 :: "asn_TYPE_member list" where
  "asn_MBR_SegmentAttributeXYList_1 =
     [MBR True False asn_DEF_SegmentAttributeXY None None]"

definition asn_PER_type_SegmentAttributeXYList_constr_1 :: "asn_per_constraints" where
  "asn_PER_type_SegmentAttributeXYList_constr_1 =
     \<lparr>pc_value = apc False False False (-1) (-1) 0 0,
      pc_size = apc False True False 3 3 1 8,
      pc_value2code = None, pc_code2value = None\<rparr>"

definition asn_DEF_SegmentAttributeXYList :: "asn_TYPE_descriptor" where
  "asn_DEF_SegmentAttributeXYList =
     TD OP_SEQUENCE_OF (Some asn_PER_type_SegmentAttributeXYList_constr_1) asn_MBR_SegmentAttributeXYList_1
       SPC_NONE"

definition asn_PER_type_DeltaAngle_constr_1 :: "asn_per_constraints" where
  "asn_PER_type_DeltaAngle_constr_1 =
     \<lparr>pc_value = apc False True False 9 9 (-150) 150,
      pc_size = apc False False False (-1) (-1) 0 0,
      pc_value2code = None, pc_code2value = None\<rparr>"

definition asn_DEF_DeltaAngle :: "asn_TYPE_descriptor" where
  "asn_DEF_DeltaAngle =
     TD OP_NativeInteger (Some asn_PER_type_DeltaAngle_constr_1) []
       SPC_NONE"

definition asn_PER_type_RoadwayCrownAngle_constr_1 :: "asn_per_constraints" where
  "asn_PER_type_RoadwayCrownAngle_constr_1 =
     \<lparr>pc_value = apc False True False 8 8 (-128) 127,
      pc_size = apc False False False (-1) (-1) 0 0,
      pc_value2code = None, pc_code2value = None\<rparr>"

definition asn_DEF_RoadwayCrownAngle :: "asn_TYPE_descriptor" where
  "asn_DEF_RoadwayCrownAngle =
     TD OP_NativeInteger (Some asn_PER_type_RoadwayCrownAngle_constr_1) []
       SPC_NONE"

definition asn_PER_type_MergeDivergeNodeAngle_constr_1 :: "asn_per_constraints" where
  "asn_PER_type_MergeDivergeNodeAngle_constr_1 =
     \<lparr>pc_value = apc False True False 9 9 (-180) 180,
      pc_size = apc False False False (-1) (-1) 0 0,
      pc_value2code = None, pc_code2value = None\<rparr>"

definition asn_DEF_MergeDivergeNodeAngle :: "asn_TYPE_descriptor" where
  "asn_DEF_MergeDivergeNodeAngle =
     TD OP_NativeInteger (Some asn_PER_type_MergeDivergeNodeAngle_constr_1) []
       SPC_NONE"

definition asn_MBR_regional_8_LaneDataAttribute :: "asn_TYPE_member list" where
  "asn_MBR_regional_8_LaneDataAttribute =
     [MBR True False asn_DEF_RegionalExtension_369P0 None None]"

definition asn_PER_type_regional_constr_8_LaneDataAttribute :: "asn_per_constraints" where
  "asn_PER_type_regional_constr_8_LaneDataAttribute =
     \<lparr>pc_value = apc False False False (-1) (-1) 0 0,
      pc_size = apc False True False 2 2 1 4,
      pc_value2code = None, pc_code2value = None\<rparr>"

definition asn_DEF_regional_8_LaneDataAttribute :: "asn_TYPE_descriptor" where
  "asn_DEF_regional_8_LaneDataAttribute =
     TD OP_SEQUENCE_OF (Some asn_PER_type_regional_constr_8_LaneDataAttribute) asn_MBR_regional_8_LaneDataAttribute
       SPC_NONE"

definition asn_PER_memb_regional_constr_8_LaneDataAttribute :: "asn_per_constraints" where
  "asn_PER_memb_regional_constr_8_LaneDataAttribute =
     \<lparr>pc_value = apc False False False (-1) (-1) 0 0,
      pc_size = apc False True False 2 2 1 4,
      pc_value2code = None, pc_code2value = None\<rparr>"

definition asn_MBR_LaneDataAttribute_1 :: "asn_TYPE_member list" where
  "asn_MBR_LaneDataAttribute_1 =
     [MBR False False asn_DEF_DeltaAngle None None,
      MBR False False asn_DEF_RoadwayCrownAngle None None,
      MBR False False asn_DEF_RoadwayCrownAngle None None,
      MBR False False asn_DEF_RoadwayCrownAngle None None,
      MBR False False asn_DEF_MergeDivergeNodeAngle None None,
      MBR False False asn_DEF_SpeedLimitList None None,
      MBR False False asn_DEF_regional_8_LaneDataAttribute (Some asn_PER_memb_regional_constr_8_LaneDataAttribute) None]"

definition asn_PER_type_LaneDataAttribute_constr_1 :: "asn_per_constraints" where
  "asn_PER_type_LaneDataAttribute_constr_1 =
     \<lparr>pc_value = apc False True True 3 3 0 6,
      pc_size = apc False False False (-1) (-1) 0 0,
      pc_value2code = None, pc_code2value = None\<rparr>"

definition asn_SPC_LaneDataAttribute_specs_1 :: "asn_CHOICE_specifics" where
  "asn_SPC_LaneDataAttribute_specs_1 =
     \<lparr>to_canonical_order = None, from_canonical_order = None, ext_start = 7\<rparr>"

definition asn_DEF_LaneDataAttribute :: "asn_TYPE_descriptor" where
  "asn_DEF_LaneDataAttribute =
     TD OP_CHOICE (Some asn_PER_type_LaneDataAttribute_constr_1) asn_MBR_LaneDataAttribute_1
       (SPC_CHOICE asn_SPC_LaneDataAttribute_specs_1)"

definition asn_MBR_LaneDataAttributeList_1 :: "asn_TYPE_member list" where
  "asn_MBR_LaneDataAttributeList_1 =
     [MBR True False asn_DEF_LaneDataAttribute None None]"

definition asn_PER_type_LaneDataAttributeList_constr_1 :: "asn_per_constraints" where
  "asn_PER_type_LaneDataAttributeList_constr_1 =
     \<lparr>pc_value = apc False False False (-1) (-1) 0 0,
      pc_size = apc False True False 3 3 1 8,
      pc_value2code = None, pc_code2value = None\<rparr>"

definition asn_DEF_LaneDataAttributeList :: "asn_TYPE_descriptor" where
  "asn_DEF_LaneDataAttributeList =
     TD OP_SEQUENCE_OF (Some asn_PER_type_LaneDataAttributeList_constr_1) asn_MBR_LaneDataAttributeList_1
       SPC_NONE"

definition asn_MBR_regional_8_NodeAttributeSetXY :: "asn_TYPE_member list" where
  "asn_MBR_regional_8_NodeAttributeSetXY =
     [MBR True False asn_DEF_RegionalExtension_369P0 None None]"

definition asn_PER_type_regional_constr_8_NodeAttributeSetXY :: "asn_per_constraints" where
  "asn_PER_type_regional_constr_8_NodeAttributeSetXY =
     \<lparr>pc_value = apc False False False (-1) (-1) 0 0,
      pc_size = apc False True False 2 2 1 4,
      pc_value2code = None, pc_code2value = None\<rparr>"

definition asn_DEF_regional_8_NodeAttributeSetXY :: "asn_TYPE_descriptor" where
  "asn_DEF_regional_8_NodeAttributeSetXY =
     TD OP_SEQUENCE_OF (Some asn_PER_type_regional_constr_8_NodeAttributeSetXY) asn_MBR_regional_8_NodeAttributeSetXY
       SPC_NONE"

definition asn_PER_memb_regional_constr_8_NodeAttributeSetXY :: "asn_per_constraints" where
  "asn_PER_memb_regional_constr_8_NodeAttributeSetXY =
     \<lparr>pc_value = apc False False False (-1) (-1) 0 0,
      pc_size = apc False True False 2 2 1 4,
      pc_value2code = None, pc_code2value = None\<rparr>"

definition asn_MBR_NodeAttributeSetXY_1 :: "asn_TYPE_member list" where
  "asn_MBR_NodeAttributeSetXY_1 =
     [MBR True True asn_DEF_NodeAttributeXYList None None,
      MBR True True asn_DEF_SegmentAttributeXYList None None,
      MBR True True asn_DEF_SegmentAttributeXYList None None,
      MBR True True asn_DEF_LaneDataAttributeList None None,
      MBR True True asn_DEF_Offset_B10 None None,
      MBR True True asn_DEF_Offset_B10 None None,
      MBR True True asn_DEF_regional_8_NodeAttributeSetXY (Some asn_PER_memb_regional_constr_8_NodeAttributeSetXY) None]"

definition asn_MAP_NodeAttributeSetXY_oms_1 :: "nat list" where
  "asn_MAP_NodeAttributeSetXY_oms_1 =
     [0, 1, 2, 3, 4, 5, 6]"

definition asn_SPC_NodeAttributeSetXY_specs_1 :: "asn_SEQUENCE_specifics" where
  "asn_SPC_NodeAttributeSetXY_specs_1 =
     \<lparr>oms = asn_MAP_NodeAttributeSetXY_oms_1, roms_count = 7, aoms_count = 0, first_extension = 7\<rparr>"

definition asn_DEF_NodeAttributeSetXY :: "asn_TYPE_descriptor" where
  "asn_DEF_NodeAttributeSetXY =
     TD OP_SEQUENCE None asn_MBR_NodeAttributeSetXY_1
       (SPC_SEQUENCE asn_SPC_NodeAttributeSetXY_specs_1)"

definition asn_MBR_NodeXY_1 :: "asn_TYPE_member list" where
  "asn_MBR_NodeXY_1 =
     [MBR False False asn_DEF_NodeOffsetPointXY None None,
      MBR True True asn_DEF_NodeAttributeSetXY None None]"

definition asn_MAP_NodeXY_oms_1 :: "nat list" where
  "asn_MAP_NodeXY_oms_1 =
     [1]"

definition asn_SPC_NodeXY_specs_1 :: "asn_SEQUENCE_specifics" where
  "asn_SPC_NodeXY_specs_1 =
     \<lparr>oms = asn_MAP_NodeXY_oms_1, roms_count = 1, aoms_count = 0, first_extension = 2\<rparr>"

definition asn_DEF_NodeXY :: "asn_TYPE_descriptor" where
  "asn_DEF_NodeXY =
     TD OP_SEQUENCE None asn_MBR_NodeXY_1
       (SPC_SEQUENCE asn_SPC_NodeXY_specs_1)"

definition asn_MBR_NodeSetXY_1 :: "asn_TYPE_member list" where
  "asn_MBR_NodeSetXY_1 =
     [MBR True False asn_DEF_NodeXY None None]"

definition asn_PER_type_NodeSetXY_constr_1 :: "asn_per_constraints" where
  "asn_PER_type_NodeSetXY_constr_1 =
     \<lparr>pc_value = apc False False False (-1) (-1) 0 0,
      pc_size = apc False True False 6 6 2 63,
      pc_value2code = None, pc_code2value = None\<rparr>"

definition asn_DEF_NodeSetXY :: "asn_TYPE_descriptor" where
  "asn_DEF_NodeSetXY =
     TD OP_SEQUENCE_OF (Some asn_PER_type_NodeSetXY_constr_1) asn_MBR_NodeSetXY_1
       SPC_NONE"

definition asn_PER_type_DrivenLineOffsetSm_constr_1 :: "asn_per_constraints" where
  "asn_PER_type_DrivenLineOffsetSm_constr_1 =
     \<lparr>pc_value = apc False True False 12 12 (-2047) 2047,
      pc_size = apc False False False (-1) (-1) 0 0,
      pc_value2code = None, pc_code2value = None\<rparr>"

definition asn_DEF_DrivenLineOffsetSm :: "asn_TYPE_descriptor" where
  "asn_DEF_DrivenLineOffsetSm =
     TD OP_NativeInteger (Some asn_PER_type_DrivenLineOffsetSm_constr_1) []
       SPC_NONE"

definition asn_PER_type_DrivenLineOffsetLg_constr_1 :: "asn_per_constraints" where
  "asn_PER_type_DrivenLineOffsetLg_constr_1 =
     \<lparr>pc_value = apc False True False 16 16 (-32767) 32767,
      pc_size = apc False False False (-1) (-1) 0 0,
      pc_value2code = None, pc_code2value = None\<rparr>"

definition asn_DEF_DrivenLineOffsetLg :: "asn_TYPE_descriptor" where
  "asn_DEF_DrivenLineOffsetLg =
     TD OP_NativeInteger (Some asn_PER_type_DrivenLineOffsetLg_constr_1) []
       SPC_NONE"

definition asn_MBR_offsetXaxis_3 :: "asn_TYPE_member list" where
  "asn_MBR_offsetXaxis_3 =
     [MBR False False asn_DEF_DrivenLineOffsetSm None None,
      MBR False False asn_DEF_DrivenLineOffsetLg None None]"

definition asn_PER_type_offsetXaxis_constr_3 :: "asn_per_constraints" where
  "asn_PER_type_offsetXaxis_constr_3 =
     \<lparr>pc_value = apc False True False 1 1 0 1,
      pc_size = apc False False False (-1) (-1) 0 0,
      pc_value2code = None, pc_code2value = None\<rparr>"

definition asn_SPC_offsetXaxis_specs_3 :: "asn_CHOICE_specifics" where
  "asn_SPC_offsetXaxis_specs_3 =
     \<lparr>to_canonical_order = None, from_canonical_order = None, ext_start = -1\<rparr>"

definition asn_DEF_offsetXaxis_3 :: "asn_TYPE_descriptor" where
  "asn_DEF_offsetXaxis_3 =
     TD OP_CHOICE (Some asn_PER_type_offsetXaxis_constr_3) asn_MBR_offsetXaxis_3
       (SPC_CHOICE asn_SPC_offsetXaxis_specs_3)"

definition asn_MBR_offsetYaxis_6 :: "asn_TYPE_member list" where
  "asn_MBR_offsetYaxis_6 =
     [MBR False False asn_DEF_DrivenLineOffsetSm None None,
      MBR False False asn_DEF_DrivenLineOffsetLg None None]"

definition asn_PER_type_offsetYaxis_constr_6 :: "asn_per_constraints" where
  "asn_PER_type_offsetYaxis_constr_6 =
     \<lparr>pc_value = apc False True False 1 1 0 1,
      pc_size = apc False False False (-1) (-1) 0 0,
      pc_value2code = None, pc_code2value = None\<rparr>"

definition asn_SPC_offsetYaxis_specs_6 :: "asn_CHOICE_specifics" where
  "asn_SPC_offsetYaxis_specs_6 =
     \<lparr>to_canonical_order = None, from_canonical_order = None, ext_start = -1\<rparr>"

definition asn_DEF_offsetYaxis_6 :: "asn_TYPE_descriptor" where
  "asn_DEF_offsetYaxis_6 =
     TD OP_CHOICE (Some asn_PER_type_offsetYaxis_constr_6) asn_MBR_offsetYaxis_6
       (SPC_CHOICE asn_SPC_offsetYaxis_specs_6)"

definition asn_PER_type_Angle_constr_1 :: "asn_per_constraints" where
  "asn_PER_type_Angle_constr_1 =
     \<lparr>pc_value = apc False True False 15 15 0 28800,
      pc_size = apc False False False (-1) (-1) 0 0,
      pc_value2code = None, pc_code2value = None\<rparr>"

definition asn_DEF_Angle :: "asn_TYPE_descriptor" where
  "asn_DEF_Angle =
     TD OP_NativeInteger (Some asn_PER_type_Angle_constr_1) []
       SPC_NONE"

definition asn_PER_type_Scale_B12_constr_1 :: "asn_per_constraints" where
  "asn_PER_type_Scale_B12_constr_1 =
     \<lparr>pc_value = apc False True False 12 12 (-2048) 2047,
      pc_size = apc False False False (-1) (-1) 0 0,
      pc_value2code = None, pc_code2value = None\<rparr>"

definition asn_DEF_Scale_B12 :: "asn_TYPE_descriptor" where
  "asn_DEF_Scale_B12 =
     TD OP_NativeInteger (Some asn_PER_type_Scale_B12_constr_1) []
       SPC_NONE"

definition asn_MBR_regional_12 :: "asn_TYPE_member list" where
  "asn_MBR_regional_12 =
     [MBR True False asn_DEF_RegionalExtension_369P0 None None]"

definition asn_PER_type_regional_constr_12 :: "asn_per_constraints" where
  "asn_PER_type_regional_constr_12 =
     \<lparr>pc_value = apc False False False (-1) (-1) 0 0,
      pc_size = apc False True False 2 2 1 4,
      pc_value2code = None, pc_code2value = None\<rparr>"

definition asn_DEF_regional_12 :: "asn_TYPE_descriptor" where
  "asn_DEF_regional_12 =
     TD OP_SEQUENCE_OF (Some asn_PER_type_regional_constr_12) asn_MBR_regional_12
       SPC_NONE"

definition asn_PER_memb_regional_constr_12 :: "asn_per_constraints" where
  "asn_PER_memb_regional_constr_12 =
     \<lparr>pc_value = apc False False False (-1) (-1) 0 0,
      pc_size = apc False True False 2 2 1 4,
      pc_value2code = None, pc_code2value = None\<rparr>"

definition asn_MBR_ComputedLane_1 :: "asn_TYPE_member list" where
  "asn_MBR_ComputedLane_1 =
     [MBR False False asn_DEF_LaneID None None,
      MBR False False asn_DEF_offsetXaxis_3 None None,
      MBR False False asn_DEF_offsetYaxis_6 None None,
      MBR True True asn_DEF_Angle None None,
      MBR True True asn_DEF_Scale_B12 None None,
      MBR True True asn_DEF_Scale_B12 None None,
      MBR True True asn_DEF_regional_12 (Some asn_PER_memb_regional_constr_12) None]"

definition asn_MAP_ComputedLane_oms_1 :: "nat list" where
  "asn_MAP_ComputedLane_oms_1 =
     [3, 4, 5, 6]"

definition asn_SPC_ComputedLane_specs_1 :: "asn_SEQUENCE_specifics" where
  "asn_SPC_ComputedLane_specs_1 =
     \<lparr>oms = asn_MAP_ComputedLane_oms_1, roms_count = 4, aoms_count = 0, first_extension = 7\<rparr>"

definition asn_DEF_ComputedLane :: "asn_TYPE_descriptor" where
  "asn_DEF_ComputedLane =
     TD OP_SEQUENCE None asn_MBR_ComputedLane_1
       (SPC_SEQUENCE asn_SPC_ComputedLane_specs_1)"

definition asn_MBR_NodeListXY_1 :: "asn_TYPE_member list" where
  "asn_MBR_NodeListXY_1 =
     [MBR False False asn_DEF_NodeSetXY None None,
      MBR False False asn_DEF_ComputedLane None None]"

definition asn_PER_type_NodeListXY_constr_1 :: "asn_per_constraints" where
  "asn_PER_type_NodeListXY_constr_1 =
     \<lparr>pc_value = apc False True True 1 1 0 1,
      pc_size = apc False False False (-1) (-1) 0 0,
      pc_value2code = None, pc_code2value = None\<rparr>"

definition asn_SPC_NodeListXY_specs_1 :: "asn_CHOICE_specifics" where
  "asn_SPC_NodeListXY_specs_1 =
     \<lparr>to_canonical_order = None, from_canonical_order = None, ext_start = 2\<rparr>"

definition asn_DEF_NodeListXY :: "asn_TYPE_descriptor" where
  "asn_DEF_NodeListXY =
     TD OP_CHOICE (Some asn_PER_type_NodeListXY_constr_1) asn_MBR_NodeListXY_1
       (SPC_CHOICE asn_SPC_NodeListXY_specs_1)"

definition asn_MBR_ConnectingLane_1 :: "asn_TYPE_member list" where
  "asn_MBR_ConnectingLane_1 =
     [MBR False False asn_DEF_LaneID None None,
      MBR True True asn_DEF_AllowedManeuvers None None]"

definition asn_MAP_ConnectingLane_oms_1 :: "nat list" where
  "asn_MAP_ConnectingLane_oms_1 =
     [1]"

definition asn_SPC_ConnectingLane_specs_1 :: "asn_SEQUENCE_specifics" where
  "asn_SPC_ConnectingLane_specs_1 =
     \<lparr>oms = asn_MAP_ConnectingLane_oms_1, roms_count = 1, aoms_count = 0, first_extension = -1\<rparr>"

definition asn_DEF_ConnectingLane :: "asn_TYPE_descriptor" where
  "asn_DEF_ConnectingLane =
     TD OP_SEQUENCE None asn_MBR_ConnectingLane_1
       (SPC_SEQUENCE asn_SPC_ConnectingLane_specs_1)"

definition asn_MBR_Connection_1 :: "asn_TYPE_member list" where
  "asn_MBR_Connection_1 =
     [MBR False False asn_DEF_ConnectingLane None None,
      MBR True True asn_DEF_IntersectionReferenceID None None,
      MBR True True asn_DEF_SignalGroupID None None,
      MBR True True asn_DEF_RestrictionClassID None None,
      MBR True True asn_DEF_LaneConnectionID None None]"

definition asn_MAP_Connection_oms_1 :: "nat list" where
  "asn_MAP_Connection_oms_1 =
     [1, 2, 3, 4]"

definition asn_SPC_Connection_specs_1 :: "asn_SEQUENCE_specifics" where
  "asn_SPC_Connection_specs_1 =
     \<lparr>oms = asn_MAP_Connection_oms_1, roms_count = 4, aoms_count = 0, first_extension = -1\<rparr>"

definition asn_DEF_Connection :: "asn_TYPE_descriptor" where
  "asn_DEF_Connection =
     TD OP_SEQUENCE None asn_MBR_Connection_1
       (SPC_SEQUENCE asn_SPC_Connection_specs_1)"

definition asn_MBR_ConnectsToList_1 :: "asn_TYPE_member list" where
  "asn_MBR_ConnectsToList_1 =
     [MBR True False asn_DEF_Connection None None]"

definition asn_PER_type_ConnectsToList_constr_1 :: "asn_per_constraints" where
  "asn_PER_type_ConnectsToList_constr_1 =
     \<lparr>pc_value = apc False False False (-1) (-1) 0 0,
      pc_size = apc False True False 4 4 1 16,
      pc_value2code = None, pc_code2value = None\<rparr>"

definition asn_DEF_ConnectsToList :: "asn_TYPE_descriptor" where
  "asn_DEF_ConnectsToList =
     TD OP_SEQUENCE_OF (Some asn_PER_type_ConnectsToList_constr_1) asn_MBR_ConnectsToList_1
       SPC_NONE"

definition asn_MBR_OverlayLaneList_1 :: "asn_TYPE_member list" where
  "asn_MBR_OverlayLaneList_1 =
     [MBR True False asn_DEF_LaneID None None]"

definition asn_PER_type_OverlayLaneList_constr_1 :: "asn_per_constraints" where
  "asn_PER_type_OverlayLaneList_constr_1 =
     \<lparr>pc_value = apc False False False (-1) (-1) 0 0,
      pc_size = apc False True False 3 3 1 5,
      pc_value2code = None, pc_code2value = None\<rparr>"

definition asn_DEF_OverlayLaneList :: "asn_TYPE_descriptor" where
  "asn_DEF_OverlayLaneList =
     TD OP_SEQUENCE_OF (Some asn_PER_type_OverlayLaneList_constr_1) asn_MBR_OverlayLaneList_1
       SPC_NONE"

definition asn_MBR_regional_11_GenericLane :: "asn_TYPE_member list" where
  "asn_MBR_regional_11_GenericLane =
     [MBR True False asn_DEF_RegionalExtension_369P0 None None]"

definition asn_PER_type_regional_constr_11_GenericLane :: "asn_per_constraints" where
  "asn_PER_type_regional_constr_11_GenericLane =
     \<lparr>pc_value = apc False False False (-1) (-1) 0 0,
      pc_size = apc False True False 2 2 1 4,
      pc_value2code = None, pc_code2value = None\<rparr>"

definition asn_DEF_regional_11_GenericLane :: "asn_TYPE_descriptor" where
  "asn_DEF_regional_11_GenericLane =
     TD OP_SEQUENCE_OF (Some asn_PER_type_regional_constr_11_GenericLane) asn_MBR_regional_11_GenericLane
       SPC_NONE"

definition asn_PER_memb_regional_constr_11_GenericLane :: "asn_per_constraints" where
  "asn_PER_memb_regional_constr_11_GenericLane =
     \<lparr>pc_value = apc False False False (-1) (-1) 0 0,
      pc_size = apc False True False 2 2 1 4,
      pc_value2code = None, pc_code2value = None\<rparr>"

definition asn_MBR_GenericLane_1 :: "asn_TYPE_member list" where
  "asn_MBR_GenericLane_1 =
     [MBR False False asn_DEF_LaneID None None,
      MBR True True asn_DEF_DescriptiveName None None,
      MBR True True asn_DEF_ApproachID None None,
      MBR True True asn_DEF_ApproachID None None,
      MBR False False asn_DEF_LaneAttributes None None,
      MBR True True asn_DEF_AllowedManeuvers None None,
      MBR False False asn_DEF_NodeListXY None None,
      MBR True True asn_DEF_ConnectsToList None None,
      MBR True True asn_DEF_OverlayLaneList None None,
      MBR True True asn_DEF_regional_11_GenericLane (Some asn_PER_memb_regional_constr_11_GenericLane) None]"

definition asn_MAP_GenericLane_oms_1 :: "nat list" where
  "asn_MAP_GenericLane_oms_1 =
     [1, 2, 3, 5, 7, 8, 9]"

definition asn_SPC_GenericLane_specs_1 :: "asn_SEQUENCE_specifics" where
  "asn_SPC_GenericLane_specs_1 =
     \<lparr>oms = asn_MAP_GenericLane_oms_1, roms_count = 7, aoms_count = 0, first_extension = 10\<rparr>"

definition asn_DEF_GenericLane :: "asn_TYPE_descriptor" where
  "asn_DEF_GenericLane =
     TD OP_SEQUENCE None asn_MBR_GenericLane_1
       (SPC_SEQUENCE asn_SPC_GenericLane_specs_1)"

definition asn_MBR_LaneList_1 :: "asn_TYPE_member list" where
  "asn_MBR_LaneList_1 =
     [MBR True False asn_DEF_GenericLane None None]"

definition asn_PER_type_LaneList_constr_1 :: "asn_per_constraints" where
  "asn_PER_type_LaneList_constr_1 =
     \<lparr>pc_value = apc False False False (-1) (-1) 0 0,
      pc_size = apc False True False 8 8 1 255,
      pc_value2code = None, pc_code2value = None\<rparr>"

definition asn_DEF_LaneList :: "asn_TYPE_descriptor" where
  "asn_DEF_LaneList =
     TD OP_SEQUENCE_OF (Some asn_PER_type_LaneList_constr_1) asn_MBR_LaneList_1
       SPC_NONE"

definition asn_MBR_SignalControlZone_1 :: "asn_TYPE_member list" where
  "asn_MBR_SignalControlZone_1 =
     [MBR False False asn_DEF_RegionalExtension_369P0 None None]"

definition asn_SPC_SignalControlZone_specs_1 :: "asn_SEQUENCE_specifics" where
  "asn_SPC_SignalControlZone_specs_1 =
     \<lparr>oms = [], roms_count = 0, aoms_count = 0, first_extension = 1\<rparr>"

definition asn_DEF_SignalControlZone :: "asn_TYPE_descriptor" where
  "asn_DEF_SignalControlZone =
     TD OP_SEQUENCE None asn_MBR_SignalControlZone_1
       (SPC_SEQUENCE asn_SPC_SignalControlZone_specs_1)"

definition asn_MBR_PreemptPriorityList_1 :: "asn_TYPE_member list" where
  "asn_MBR_PreemptPriorityList_1 =
     [MBR True False asn_DEF_SignalControlZone None None]"

definition asn_PER_type_PreemptPriorityList_constr_1 :: "asn_per_constraints" where
  "asn_PER_type_PreemptPriorityList_constr_1 =
     \<lparr>pc_value = apc False False False (-1) (-1) 0 0,
      pc_size = apc False True False 5 5 1 32,
      pc_value2code = None, pc_code2value = None\<rparr>"

definition asn_DEF_PreemptPriorityList :: "asn_TYPE_descriptor" where
  "asn_DEF_PreemptPriorityList =
     TD OP_SEQUENCE_OF (Some asn_PER_type_PreemptPriorityList_constr_1) asn_MBR_PreemptPriorityList_1
       SPC_NONE"

definition asn_MBR_regional_10_IntersectionGeometry :: "asn_TYPE_member list" where
  "asn_MBR_regional_10_IntersectionGeometry =
     [MBR True False asn_DEF_RegionalExtension_369P0 None None]"

definition asn_PER_type_regional_constr_10_IntersectionGeometry :: "asn_per_constraints" where
  "asn_PER_type_regional_constr_10_IntersectionGeometry =
     \<lparr>pc_value = apc False False False (-1) (-1) 0 0,
      pc_size = apc False True False 2 2 1 4,
      pc_value2code = None, pc_code2value = None\<rparr>"

definition asn_DEF_regional_10_IntersectionGeometry :: "asn_TYPE_descriptor" where
  "asn_DEF_regional_10_IntersectionGeometry =
     TD OP_SEQUENCE_OF (Some asn_PER_type_regional_constr_10_IntersectionGeometry) asn_MBR_regional_10_IntersectionGeometry
       SPC_NONE"

definition asn_PER_memb_regional_constr_10_IntersectionGeometry :: "asn_per_constraints" where
  "asn_PER_memb_regional_constr_10_IntersectionGeometry =
     \<lparr>pc_value = apc False False False (-1) (-1) 0 0,
      pc_size = apc False True False 2 2 1 4,
      pc_value2code = None, pc_code2value = None\<rparr>"

definition asn_MBR_IntersectionGeometry_1 :: "asn_TYPE_member list" where
  "asn_MBR_IntersectionGeometry_1 =
     [MBR True True asn_DEF_DescriptiveName None None,
      MBR False False asn_DEF_IntersectionReferenceID None None,
      MBR False False asn_DEF_MsgCount None None,
      MBR False False asn_DEF_Position3D None None,
      MBR True True asn_DEF_LaneWidth None None,
      MBR True True asn_DEF_SpeedLimitList None None,
      MBR False False asn_DEF_LaneList None None,
      MBR True True asn_DEF_PreemptPriorityList None None,
      MBR True True asn_DEF_regional_10_IntersectionGeometry (Some asn_PER_memb_regional_constr_10_IntersectionGeometry) None]"

definition asn_MAP_IntersectionGeometry_oms_1 :: "nat list" where
  "asn_MAP_IntersectionGeometry_oms_1 =
     [0, 4, 5, 7, 8]"

definition asn_SPC_IntersectionGeometry_specs_1 :: "asn_SEQUENCE_specifics" where
  "asn_SPC_IntersectionGeometry_specs_1 =
     \<lparr>oms = asn_MAP_IntersectionGeometry_oms_1, roms_count = 5, aoms_count = 0, first_extension = 9\<rparr>"

definition asn_DEF_IntersectionGeometry :: "asn_TYPE_descriptor" where
  "asn_DEF_IntersectionGeometry =
     TD OP_SEQUENCE None asn_MBR_IntersectionGeometry_1
       (SPC_SEQUENCE asn_SPC_IntersectionGeometry_specs_1)"

definition asn_MBR_IntersectionGeometryList_1 :: "asn_TYPE_member list" where
  "asn_MBR_IntersectionGeometryList_1 =
     [MBR True False asn_DEF_IntersectionGeometry None None]"

definition asn_PER_type_IntersectionGeometryList_constr_1 :: "asn_per_constraints" where
  "asn_PER_type_IntersectionGeometryList_constr_1 =
     \<lparr>pc_value = apc False False False (-1) (-1) 0 0,
      pc_size = apc False True False 5 5 1 32,
      pc_value2code = None, pc_code2value = None\<rparr>"

definition asn_DEF_IntersectionGeometryList :: "asn_TYPE_descriptor" where
  "asn_DEF_IntersectionGeometryList =
     TD OP_SEQUENCE_OF (Some asn_PER_type_IntersectionGeometryList_constr_1) asn_MBR_IntersectionGeometryList_1
       SPC_NONE"

definition asn_PER_type_RoadSegmentID_constr_1 :: "asn_per_constraints" where
  "asn_PER_type_RoadSegmentID_constr_1 =
     \<lparr>pc_value = apc False True False 16 16 0 65535,
      pc_size = apc False False False (-1) (-1) 0 0,
      pc_value2code = None, pc_code2value = None\<rparr>"

definition asn_DEF_RoadSegmentID :: "asn_TYPE_descriptor" where
  "asn_DEF_RoadSegmentID =
     TD OP_NativeInteger (Some asn_PER_type_RoadSegmentID_constr_1) []
       SPC_NONE"

definition asn_MBR_RoadSegmentReferenceID_1 :: "asn_TYPE_member list" where
  "asn_MBR_RoadSegmentReferenceID_1 =
     [MBR True True asn_DEF_RoadRegulatorID None None,
      MBR False False asn_DEF_RoadSegmentID None None]"

definition asn_MAP_RoadSegmentReferenceID_oms_1 :: "nat list" where
  "asn_MAP_RoadSegmentReferenceID_oms_1 =
     [0]"

definition asn_SPC_RoadSegmentReferenceID_specs_1 :: "asn_SEQUENCE_specifics" where
  "asn_SPC_RoadSegmentReferenceID_specs_1 =
     \<lparr>oms = asn_MAP_RoadSegmentReferenceID_oms_1, roms_count = 1, aoms_count = 0, first_extension = -1\<rparr>"

definition asn_DEF_RoadSegmentReferenceID :: "asn_TYPE_descriptor" where
  "asn_DEF_RoadSegmentReferenceID =
     TD OP_SEQUENCE None asn_MBR_RoadSegmentReferenceID_1
       (SPC_SEQUENCE asn_SPC_RoadSegmentReferenceID_specs_1)"

definition asn_MBR_RoadLaneSetList_1 :: "asn_TYPE_member list" where
  "asn_MBR_RoadLaneSetList_1 =
     [MBR True False asn_DEF_GenericLane None None]"

definition asn_PER_type_RoadLaneSetList_constr_1 :: "asn_per_constraints" where
  "asn_PER_type_RoadLaneSetList_constr_1 =
     \<lparr>pc_value = apc False False False (-1) (-1) 0 0,
      pc_size = apc False True False 8 8 1 255,
      pc_value2code = None, pc_code2value = None\<rparr>"

definition asn_DEF_RoadLaneSetList :: "asn_TYPE_descriptor" where
  "asn_DEF_RoadLaneSetList =
     TD OP_SEQUENCE_OF (Some asn_PER_type_RoadLaneSetList_constr_1) asn_MBR_RoadLaneSetList_1
       SPC_NONE"

definition asn_MBR_regional_9_RoadSegment :: "asn_TYPE_member list" where
  "asn_MBR_regional_9_RoadSegment =
     [MBR True False asn_DEF_RegionalExtension_369P0 None None]"

definition asn_PER_type_regional_constr_9_RoadSegment :: "asn_per_constraints" where
  "asn_PER_type_regional_constr_9_RoadSegment =
     \<lparr>pc_value = apc False False False (-1) (-1) 0 0,
      pc_size = apc False True False 2 2 1 4,
      pc_value2code = None, pc_code2value = None\<rparr>"

definition asn_DEF_regional_9_RoadSegment :: "asn_TYPE_descriptor" where
  "asn_DEF_regional_9_RoadSegment =
     TD OP_SEQUENCE_OF (Some asn_PER_type_regional_constr_9_RoadSegment) asn_MBR_regional_9_RoadSegment
       SPC_NONE"

definition asn_PER_memb_regional_constr_9_RoadSegment :: "asn_per_constraints" where
  "asn_PER_memb_regional_constr_9_RoadSegment =
     \<lparr>pc_value = apc False False False (-1) (-1) 0 0,
      pc_size = apc False True False 2 2 1 4,
      pc_value2code = None, pc_code2value = None\<rparr>"

definition asn_MBR_RoadSegment_1 :: "asn_TYPE_member list" where
  "asn_MBR_RoadSegment_1 =
     [MBR True True asn_DEF_DescriptiveName None None,
      MBR False False asn_DEF_RoadSegmentReferenceID None None,
      MBR False False asn_DEF_MsgCount None None,
      MBR False False asn_DEF_Position3D None None,
      MBR True True asn_DEF_LaneWidth None None,
      MBR True True asn_DEF_SpeedLimitList None None,
      MBR False False asn_DEF_RoadLaneSetList None None,
      MBR True True asn_DEF_regional_9_RoadSegment (Some asn_PER_memb_regional_constr_9_RoadSegment) None]"

definition asn_MAP_RoadSegment_oms_1 :: "nat list" where
  "asn_MAP_RoadSegment_oms_1 =
     [0, 4, 5, 7]"

definition asn_SPC_RoadSegment_specs_1 :: "asn_SEQUENCE_specifics" where
  "asn_SPC_RoadSegment_specs_1 =
     \<lparr>oms = asn_MAP_RoadSegment_oms_1, roms_count = 4, aoms_count = 0, first_extension = 8\<rparr>"

definition asn_DEF_RoadSegment :: "asn_TYPE_descriptor" where
  "asn_DEF_RoadSegment =
     TD OP_SEQUENCE None asn_MBR_RoadSegment_1
       (SPC_SEQUENCE asn_SPC_RoadSegment_specs_1)"

definition asn_MBR_RoadSegmentList_1 :: "asn_TYPE_member list" where
  "asn_MBR_RoadSegmentList_1 =
     [MBR True False asn_DEF_RoadSegment None None]"

definition asn_PER_type_RoadSegmentList_constr_1 :: "asn_per_constraints" where
  "asn_PER_type_RoadSegmentList_constr_1 =
     \<lparr>pc_value = apc False False False (-1) (-1) 0 0,
      pc_size = apc False True False 5 5 1 32,
      pc_value2code = None, pc_code2value = None\<rparr>"

definition asn_DEF_RoadSegmentList :: "asn_TYPE_descriptor" where
  "asn_DEF_RoadSegmentList =
     TD OP_SEQUENCE_OF (Some asn_PER_type_RoadSegmentList_constr_1) asn_MBR_RoadSegmentList_1
       SPC_NONE"

definition asn_PER_memb_processMethod_constr_2 :: "asn_per_constraints" where
  "asn_PER_memb_processMethod_constr_2 =
     \<lparr>pc_value = apc False True False 7 7 0 127,
      pc_size = apc False True False 8 8 1 255,
      pc_value2code = None, pc_code2value = None\<rparr>"

definition asn_PER_memb_processAgency_constr_3 :: "asn_per_constraints" where
  "asn_PER_memb_processAgency_constr_3 =
     \<lparr>pc_value = apc False True False 7 7 0 127,
      pc_size = apc False True False 8 8 1 255,
      pc_value2code = None, pc_code2value = None\<rparr>"

definition asn_PER_memb_lastCheckedDate_constr_4 :: "asn_per_constraints" where
  "asn_PER_memb_lastCheckedDate_constr_4 =
     \<lparr>pc_value = apc False True False 7 7 0 127,
      pc_size = apc False True False 8 8 1 255,
      pc_value2code = None, pc_code2value = None\<rparr>"

definition asn_PER_memb_geoidUsed_constr_5 :: "asn_per_constraints" where
  "asn_PER_memb_geoidUsed_constr_5 =
     \<lparr>pc_value = apc False True False 7 7 0 127,
      pc_size = apc False True False 8 8 1 255,
      pc_value2code = None, pc_code2value = None\<rparr>"

definition asn_MBR_DataParameters_1 :: "asn_TYPE_member list" where
  "asn_MBR_DataParameters_1 =
     [MBR True True asn_DEF_IA5String (Some asn_PER_memb_processMethod_constr_2) None,
      MBR True True asn_DEF_IA5String (Some asn_PER_memb_processAgency_constr_3) None,
      MBR True True asn_DEF_IA5String (Some asn_PER_memb_lastCheckedDate_constr_4) None,
      MBR True True asn_DEF_IA5String (Some asn_PER_memb_geoidUsed_constr_5) None]"

definition asn_MAP_DataParameters_oms_1 :: "nat list" where
  "asn_MAP_DataParameters_oms_1 =
     [0, 1, 2, 3]"

definition asn_SPC_DataParameters_specs_1 :: "asn_SEQUENCE_specifics" where
  "asn_SPC_DataParameters_specs_1 =
     \<lparr>oms = asn_MAP_DataParameters_oms_1, roms_count = 4, aoms_count = 0, first_extension = 4\<rparr>"

definition asn_DEF_DataParameters :: "asn_TYPE_descriptor" where
  "asn_DEF_DataParameters =
     TD OP_SEQUENCE None asn_MBR_DataParameters_1
       (SPC_SEQUENCE asn_SPC_DataParameters_specs_1)"

definition asn_PER_type_RestrictionAppliesTo_constr_1 :: "asn_per_constraints" where
  "asn_PER_type_RestrictionAppliesTo_constr_1 =
     \<lparr>pc_value = apc False True True 4 4 0 13,
      pc_size = apc False False False (-1) (-1) 0 0,
      pc_value2code = None, pc_code2value = None\<rparr>"

definition asn_MAP_RestrictionAppliesTo_value2enum_1 :: "(int \<times> string) list" where
  "asn_MAP_RestrictionAppliesTo_value2enum_1 =
     [(0, ''none''), (1, ''equippedTransit''), (2, ''equippedTaxis''), (3, ''equippedOther''),
      (4, ''emissionCompliant''), (5, ''equippedBicycle''), (6, ''weightCompliant''),
      (7, ''heightCompliant''), (8, ''pedestrians''), (9, ''slowMovingPersons''),
      (10, ''wheelchairUsers''), (11, ''visualDisabilities''), (12, ''audioDisabilities''),
      (13, ''otherUnknownDisabilities'')]"

definition asn_MAP_RestrictionAppliesTo_enum2value_1 :: "nat list" where
  "asn_MAP_RestrictionAppliesTo_enum2value_1 =
     [12, 4, 5, 3, 2, 1, 7, 0, 13, 8, 9, 11, 6, 10]"

definition asn_SPC_RestrictionAppliesTo_specs_1 :: "asn_INTEGER_specifics" where
  "asn_SPC_RestrictionAppliesTo_specs_1 =
     \<lparr>value2enum = asn_MAP_RestrictionAppliesTo_value2enum_1, enum2value = asn_MAP_RestrictionAppliesTo_enum2value_1,
      is_extension = 15, strict_enumeration = True, field_unsigned = False\<rparr>"

definition asn_DEF_RestrictionAppliesTo :: "asn_TYPE_descriptor" where
  "asn_DEF_RestrictionAppliesTo =
     TD OP_NativeEnumerated (Some asn_PER_type_RestrictionAppliesTo_constr_1) []
       (SPC_INTEGER asn_SPC_RestrictionAppliesTo_specs_1)"

definition asn_MBR_regional_3 :: "asn_TYPE_member list" where
  "asn_MBR_regional_3 =
     [MBR True False asn_DEF_RegionalExtension_369P0 None None]"

definition asn_PER_type_regional_constr_3 :: "asn_per_constraints" where
  "asn_PER_type_regional_constr_3 =
     \<lparr>pc_value = apc False False False (-1) (-1) 0 0,
      pc_size = apc False True False 2 2 1 4,
      pc_value2code = None, pc_code2value = None\<rparr>"

definition asn_DEF_regional_3 :: "asn_TYPE_descriptor" where
  "asn_DEF_regional_3 =
     TD OP_SEQUENCE_OF (Some asn_PER_type_regional_constr_3) asn_MBR_regional_3
       SPC_NONE"

definition asn_PER_memb_regional_constr_3 :: "asn_per_constraints" where
  "asn_PER_memb_regional_constr_3 =
     \<lparr>pc_value = apc False False False (-1) (-1) 0 0,
      pc_size = apc False True False 2 2 1 4,
      pc_value2code = None, pc_code2value = None\<rparr>"

definition asn_MBR_RestrictionUserType_1 :: "asn_TYPE_member list" where
  "asn_MBR_RestrictionUserType_1 =
     [MBR False False asn_DEF_RestrictionAppliesTo None None,
      MBR False False asn_DEF_regional_3 (Some asn_PER_memb_regional_constr_3) None]"

definition asn_PER_type_RestrictionUserType_constr_1 :: "asn_per_constraints" where
  "asn_PER_type_RestrictionUserType_constr_1 =
     \<lparr>pc_value = apc False True True 1 1 0 1,
      pc_size = apc False False False (-1) (-1) 0 0,
      pc_value2code = None, pc_code2value = None\<rparr>"

definition asn_SPC_RestrictionUserType_specs_1 :: "asn_CHOICE_specifics" where
  "asn_SPC_RestrictionUserType_specs_1 =
     \<lparr>to_canonical_order = None, from_canonical_order = None, ext_start = 2\<rparr>"

definition asn_DEF_RestrictionUserType :: "asn_TYPE_descriptor" where
  "asn_DEF_RestrictionUserType =
     TD OP_CHOICE (Some asn_PER_type_RestrictionUserType_constr_1) asn_MBR_RestrictionUserType_1
       (SPC_CHOICE asn_SPC_RestrictionUserType_specs_1)"

definition asn_MBR_RestrictionUserTypeList_1 :: "asn_TYPE_member list" where
  "asn_MBR_RestrictionUserTypeList_1 =
     [MBR True False asn_DEF_RestrictionUserType None None]"

definition asn_PER_type_RestrictionUserTypeList_constr_1 :: "asn_per_constraints" where
  "asn_PER_type_RestrictionUserTypeList_constr_1 =
     \<lparr>pc_value = apc False False False (-1) (-1) 0 0,
      pc_size = apc False True False 4 4 1 16,
      pc_value2code = None, pc_code2value = None\<rparr>"

definition asn_DEF_RestrictionUserTypeList :: "asn_TYPE_descriptor" where
  "asn_DEF_RestrictionUserTypeList =
     TD OP_SEQUENCE_OF (Some asn_PER_type_RestrictionUserTypeList_constr_1) asn_MBR_RestrictionUserTypeList_1
       SPC_NONE"

definition asn_MBR_RestrictionClassAssignment_1 :: "asn_TYPE_member list" where
  "asn_MBR_RestrictionClassAssignment_1 =
     [MBR False False asn_DEF_RestrictionClassID None None,
      MBR False False asn_DEF_RestrictionUserTypeList None None]"

definition asn_SPC_RestrictionClassAssignment_specs_1 :: "asn_SEQUENCE_specifics" where
  "asn_SPC_RestrictionClassAssignment_specs_1 =
     \<lparr>oms = [], roms_count = 0, aoms_count = 0, first_extension = -1\<rparr>"

definition asn_DEF_RestrictionClassAssignment :: "asn_TYPE_descriptor" where
  "asn_DEF_RestrictionClassAssignment =
     TD OP_SEQUENCE None asn_MBR_RestrictionClassAssignment_1
       (SPC_SEQUENCE asn_SPC_RestrictionClassAssignment_specs_1)"

definition asn_MBR_RestrictionClassList_1 :: "asn_TYPE_member list" where
  "asn_MBR_RestrictionClassList_1 =
     [MBR True False asn_DEF_RestrictionClassAssignment None None]"

definition asn_PER_type_RestrictionClassList_constr_1 :: "asn_per_constraints" where
  "asn_PER_type_RestrictionClassList_constr_1 =
     \<lparr>pc_value = apc False False False (-1) (-1) 0 0,
      pc_size = apc False True False 8 8 1 254,
      pc_value2code = None, pc_code2value = None\<rparr>"

definition asn_DEF_RestrictionClassList :: "asn_TYPE_descriptor" where
  "asn_DEF_RestrictionClassList =
     TD OP_SEQUENCE_OF (Some asn_PER_type_RestrictionClassList_constr_1) asn_MBR_RestrictionClassList_1
       SPC_NONE"

definition asn_MBR_regional_10_MapData :: "asn_TYPE_member list" where
  "asn_MBR_regional_10_MapData =
     [MBR True False asn_DEF_RegionalExtension_369P0 None None]"

definition asn_PER_type_regional_constr_10_MapData :: "asn_per_constraints" where
  "asn_PER_type_regional_constr_10_MapData =
     \<lparr>pc_value = apc False False False (-1) (-1) 0 0,
      pc_size = apc False True False 2 2 1 4,
      pc_value2code = None, pc_code2value = None\<rparr>"

definition asn_DEF_regional_10_MapData :: "asn_TYPE_descriptor" where
  "asn_DEF_regional_10_MapData =
     TD OP_SEQUENCE_OF (Some asn_PER_type_regional_constr_10_MapData) asn_MBR_regional_10_MapData
       SPC_NONE"

definition asn_PER_memb_regional_constr_10_MapData :: "asn_per_constraints" where
  "asn_PER_memb_regional_constr_10_MapData =
     \<lparr>pc_value = apc False False False (-1) (-1) 0 0,
      pc_size = apc False True False 2 2 1 4,
      pc_value2code = None, pc_code2value = None\<rparr>"

definition asn_MBR_MapData_1 :: "asn_TYPE_member list" where
  "asn_MBR_MapData_1 =
     [MBR True True asn_DEF_MinuteOfTheYear None None,
      MBR False False asn_DEF_MsgCount None None,
      MBR True True asn_DEF_LayerType None None,
      MBR True True asn_DEF_LayerID None None,
      MBR True True asn_DEF_IntersectionGeometryList None None,
      MBR True True asn_DEF_RoadSegmentList None None,
      MBR True True asn_DEF_DataParameters None None,
      MBR True True asn_DEF_RestrictionClassList None None,
      MBR True True asn_DEF_regional_10_MapData (Some asn_PER_memb_regional_constr_10_MapData) None]"

definition asn_MAP_MapData_oms_1 :: "nat list" where
  "asn_MAP_MapData_oms_1 =
     [0, 2, 3, 4, 5, 6, 7, 8]"

definition asn_SPC_MapData_specs_1 :: "asn_SEQUENCE_specifics" where
  "asn_SPC_MapData_specs_1 =
     \<lparr>oms = asn_MAP_MapData_oms_1, roms_count = 8, aoms_count = 0, first_extension = 9\<rparr>"

definition asn_DEF_MapData :: "asn_TYPE_descriptor" where
  "asn_DEF_MapData =
     TD OP_SEQUENCE None asn_MBR_MapData_1
       (SPC_SEQUENCE asn_SPC_MapData_specs_1)"

definition asn_MBR_MAPEM_1 :: "asn_TYPE_member list" where
  "asn_MBR_MAPEM_1 =
     [MBR False False asn_DEF_ItsPduHeader None None,
      MBR False False asn_DEF_MapData None None]"

definition asn_SPC_MAPEM_specs_1 :: "asn_SEQUENCE_specifics" where
  "asn_SPC_MAPEM_specs_1 =
     \<lparr>oms = [], roms_count = 0, aoms_count = 0, first_extension = -1\<rparr>"

definition asn_DEF_MAPEM :: "asn_TYPE_descriptor" where
  "asn_DEF_MAPEM =
     TD OP_SEQUENCE None asn_MBR_MAPEM_1
       (SPC_SEQUENCE asn_SPC_MAPEM_specs_1)"

end
