(* ===== verification/Ids_Rules.thy ===== *)
theory Ids_Rules
  imports "HOL-Library.Word" "HOL-Library.AList" "HOL-Library.Monad_Syntax"
begin

text \<open>
  Detection rules: the data of \<open>mitvane/rule_reader/signature.hpp\<close> and the readers
  \<open>rule_reader.cpp\<close> and \<open>pattern_reader.cpp\<close>.

  The YAML library is not part of the repository. Its \<open>YAML::Node\<close> is a type variable, and the
  member functions the readers call are the fields of the record \<open>yaml\<close>, an argument of every
  definition; \<open>None\<close> is an exception of the library. Exceptions leave \<open>RuleReader::read\<close> and end
  the program in \<open>main\<close>, so that \<open>None\<close> is the result of the reader then.

  \<^item> \<open>read_success_wt\<close>: what the reader stores is well typed, so that the detector never takes a
    pattern for one of another type.
  \<^item> \<open>read_prefix\<close>: a rule that cannot be read ends the reading; the rules before it stay.
\<close>

section \<open>signature.hpp\<close>

datatype Action = Drop | Alert | NotSupported_Action

datatype Protocol = GeoNetworking | BTP | Facility | CA | DEN | MAP | SPAT | NotSupported_Protocol

datatype Allowed_So_Range_Shape = Circle

record MetaData =
  meta_msg :: string
  meta_sid :: "32 word"
  meta_rev :: "16 word"

definition geonet_keywords :: "string list" where
  "geonet_keywords = [''nh'', ''ht'', ''mhl'', ''destination_area'', ''allowed_so_range'']"

definition facility_keywords :: "string list" where
  "facility_keywords = [''allowed_ids'']"

datatype pattern_type =
    P_int int
  | P_string string
  | P_destination_area int int
  | P_allowed_so_range Allowed_So_Range_Shape int int
  | P_facility_ids "32 word list"

record Signature =
  action :: Action
  protocol :: Protocol
  meta :: MetaData
  patterns :: "(string \<times> pattern_type) list"

type_synonym signatures_type = "(Protocol \<times> Signature list) list"

section \<open>The YAML library\<close>

record 'n yaml =
  IsDefined :: "'n \<Rightarrow> bool"
  IsScalar :: "'n \<Rightarrow> bool"
  IsMap :: "'n \<Rightarrow> bool"
  IsSequence :: "'n \<Rightarrow> bool"
  node_size :: "'n \<Rightarrow> nat"
  at_key :: "'n \<Rightarrow> string \<Rightarrow> 'n option"
  at_index :: "'n \<Rightarrow> nat \<Rightarrow> 'n option"
  as_string :: "'n \<Rightarrow> string option"
  as_int :: "'n \<Rightarrow> int option"
  as_uint32 :: "'n \<Rightarrow> 32 word option"
  as_uint16 :: "'n \<Rightarrow> 16 word option"

section \<open>pattern_reader.cpp\<close>

datatype PatternReaderStatusCode = PR_Success | PR_Error

definition tolower :: "char \<Rightarrow> char" where
  "tolower c = (if 65 \<le> (of_char c :: nat) \<and> (of_char c :: nat) \<le> 90 then char_of (of_char c + 32 :: nat) else c)"

text \<open>A member that must be there and be a scalar; \<open>Inl\<close> is an error that was reported.\<close>

definition required_scalar :: "'n yaml \<Rightarrow> 'n \<Rightarrow> string \<Rightarrow> (PatternReaderStatusCode + 'n) option" where
  "required_scalar Y node key =
     do {
       n \<leftarrow> at_key Y node key;
       if \<not> IsDefined Y n then Some (Inl PR_Error)
       else if \<not> IsScalar Y n then Some (Inl PR_Error)
       else Some (Inr n)
     }"

definition read_destination_area :: "'n yaml \<Rightarrow> 'n \<Rightarrow> (PatternReaderStatusCode + pattern_type) option" where
  "read_destination_area Y node =
     (if \<not> IsMap Y node then Some (Inl PR_Error)
      else
        do {
          a \<leftarrow> required_scalar Y node ''destination_a'';
          case a of
            Inl e \<Rightarrow> Some (Inl e)
          | Inr a \<Rightarrow>
              do {
                b \<leftarrow> required_scalar Y node ''destination_b'';
                case b of
                  Inl e \<Rightarrow> Some (Inl e)
                | Inr b \<Rightarrow>
                    do {
                      da \<leftarrow> as_int Y a;
                      db \<leftarrow> as_int Y b;
                      Some (Inr (P_destination_area da db))
                    }
              }
        })"

definition read_allowed_so_range :: "'n yaml \<Rightarrow> 'n \<Rightarrow> (PatternReaderStatusCode + pattern_type) option" where
  "read_allowed_so_range Y node =
     (if \<not> IsMap Y node then Some (Inl PR_Error)
      else
        do {
          s \<leftarrow> required_scalar Y node ''shape'';
          case s of
            Inl e \<Rightarrow> Some (Inl e)
          | Inr s \<Rightarrow>
              do {
                shape \<leftarrow> as_string Y s;
                if map tolower shape \<noteq> ''circle'' then Some (Inl PR_Error)
                else
                  do {
                    a \<leftarrow> required_scalar Y node ''distance_a'';
                    case a of
                      Inl e \<Rightarrow> Some (Inl e)
                    | Inr a \<Rightarrow>
                        do {
                          b \<leftarrow> required_scalar Y node ''distance_b'';
                          case b of
                            Inl e \<Rightarrow> Some (Inl e)
                          | Inr b \<Rightarrow>
                              do {
                                da \<leftarrow> as_int Y a;
                                db \<leftarrow> as_int Y b;
                                Some (Inr (P_allowed_so_range Circle da db))
                              }
                        }
                  }
              }
        })"

definition read_geonet_value :: "'n yaml \<Rightarrow> string \<Rightarrow> 'n \<Rightarrow> (PatternReaderStatusCode + pattern_type option) option" where
  "read_geonet_value Y key node =
     (if key = ''nh'' then
        do {
          nh \<leftarrow> as_string Y node;
          Some (if nh \<noteq> ''common'' \<and> nh \<noteq> ''secure'' then Inl PR_Error else Inr (Some (P_string nh)))
        }
      else if key = ''ht'' then
        do {
          ht \<leftarrow> as_string Y node;
          Some (if ht \<noteq> ''TSB'' \<and> ht \<noteq> ''GBC'' \<and> ht \<noteq> ''SHB'' then Inl PR_Error else Inr (Some (P_string ht)))
        }
      else if key = ''mhl'' then do { mhl \<leftarrow> as_int Y node; Some (Inr (Some (P_int mhl))) }
      else if key = ''destination_area'' then map_option (map_sum id Some) (read_destination_area Y node)
      else if key = ''allowed_so_range'' then map_option (map_sum id Some) (read_allowed_so_range Y node)
      else Some (Inr None))"

text \<open>
  The loop over the keywords; a keyword for which there is no case is reported and skipped
  (\<open>value\<close> returns \<open>None\<close> for the pattern).
\<close>

fun read_patterns ::
  "'n yaml \<Rightarrow> (string \<Rightarrow> 'n \<Rightarrow> (PatternReaderStatusCode + pattern_type option) option) \<Rightarrow> string list \<Rightarrow> 'n
   \<Rightarrow> (string \<times> pattern_type) list \<Rightarrow> (PatternReaderStatusCode + (string \<times> pattern_type) list) option" where
  "read_patterns Y value [] rules pats = Some (Inr pats)"
| "read_patterns Y value (key # keys) rules pats =
     do {
       node \<leftarrow> at_key Y rules key;
       if \<not> IsDefined Y node then read_patterns Y value keys rules pats
       else
         do {
           v \<leftarrow> value key node;
           case v of
             Inl e \<Rightarrow> Some (Inl e)
           | Inr None \<Rightarrow> read_patterns Y value keys rules pats
           | Inr (Some p) \<Rightarrow> read_patterns Y value keys rules (AList.update key p pats)
         }
     }"

definition read_geonet_pattern :: "'n yaml \<Rightarrow> 'n \<Rightarrow> Signature \<Rightarrow> (PatternReaderStatusCode + Signature) option" where
  "read_geonet_pattern Y rules sig =
     map_option (map_sum id (\<lambda>p. sig\<lparr>patterns := p\<rparr>))
       (read_patterns Y (read_geonet_value Y) geonet_keywords rules (patterns sig))"

fun read_ids :: "'n yaml \<Rightarrow> 'n \<Rightarrow> nat list \<Rightarrow> 32 word list \<Rightarrow> 32 word list option" where
  "read_ids Y node [] ids = Some ids"
| "read_ids Y node (i # is) ids =
     do {
       n \<leftarrow> at_index Y node i;
       id \<leftarrow> as_int Y n;
       read_ids Y node is (ids @ [word_of_int id])
     }"

definition read_facility_value :: "'n yaml \<Rightarrow> string \<Rightarrow> 'n \<Rightarrow> (PatternReaderStatusCode + pattern_type option) option" where
  "read_facility_value Y key node =
     (if key = ''allowed_ids'' then
        (if \<not> IsSequence Y node then Some (Inl PR_Error)
         else do { ids \<leftarrow> read_ids Y node [0..<node_size Y node] []; Some (Inr (Some (P_facility_ids ids))) })
      else Some (Inr None))"

text \<open>The loop runs over the keywords of GeoNetworking here, too.\<close>

definition read_facility_pattern :: "'n yaml \<Rightarrow> 'n \<Rightarrow> Signature \<Rightarrow> (PatternReaderStatusCode + Signature) option" where
  "read_facility_pattern Y rules sig =
     map_option (map_sum id (\<lambda>p. sig\<lparr>patterns := p\<rparr>))
       (read_patterns Y (read_facility_value Y) geonet_keywords rules (patterns sig))"

section \<open>rule_reader.cpp\<close>

datatype MetaReaderStatusCode =
  MR_Success | Undefined_Msg | Bad_Msg | Undefined_Sid | Bad_Sid | Undefined_Rev | Bad_Rev

datatype RuleReaderStatusCode =
    RR_Success | Broken_Rule_Structure | Undefined_Action | Bad_Action | Undefined_Protocol
  | Bad_Protocol | Undefined_MetaData | Bad_MetaData | Bad_Pattern

definition read_action :: "'n yaml \<Rightarrow> 'n \<Rightarrow> Action option" where
  "read_action Y action_node =
     do {
       a \<leftarrow> as_string Y action_node;
       let a = map tolower a in
       Some (if a = ''alert'' then Alert else if a = ''drop'' then Drop else NotSupported_Action)
     }"

definition read_protocol :: "'n yaml \<Rightarrow> 'n \<Rightarrow> Protocol option" where
  "read_protocol Y protocol_node =
     do {
       p \<leftarrow> as_string Y protocol_node;
       let p = map tolower p in
       Some (if p = ''geonetworking'' \<or> p = ''geonet'' then GeoNetworking
         else if p = ''btp'' then BTP
         else if p = ''facility'' then Facility
         else if p = ''ca'' \<or> p = ''cam'' then CA
         else if p = ''den'' \<or> p = ''denm'' then DEN
         else if p = ''spat'' \<or> p = ''spatem'' \<or> p = ''tlm'' then SPAT
         else if p = ''map'' \<or> p = ''mapem'' \<or> p = ''rlt'' then MAP
         else NotSupported_Protocol)
     }"

text \<open>\<open>Inl\<close> is a status other than \<open>Success\<close>.\<close>

definition read_metadata :: "'n yaml \<Rightarrow> 'n \<Rightarrow> (MetaReaderStatusCode + MetaData) option" where
  "read_metadata Y meta_node =
     do {
       msg_node \<leftarrow> at_key Y meta_node ''msg'';
       if \<not> IsDefined Y msg_node then Some (Inl Undefined_Msg)
       else if \<not> IsScalar Y msg_node then Some (Inl Bad_Msg)
       else
         do {
           m \<leftarrow> as_string Y msg_node;
           sid_node \<leftarrow> at_key Y meta_node ''sid'';
           if \<not> IsDefined Y sid_node then Some (Inl Undefined_Sid)
           else if \<not> IsScalar Y sid_node then Some (Inl Bad_Sid)
           else
             do {
               s \<leftarrow> as_uint32 Y sid_node;
               rev_node \<leftarrow> at_key Y meta_node ''rev'';
               if \<not> IsDefined Y rev_node then Some (Inl Undefined_Sid)
               else if \<not> IsScalar Y rev_node then Some (Inl Bad_Sid)
               else
                 do {
                   r \<leftarrow> as_uint16 Y rev_node;
                   Some (Inr \<lparr>meta_msg = m, meta_sid = s, meta_rev = r\<rparr>)
                 }
             }
         }
     }"

definition add_signature :: "Protocol \<Rightarrow> Signature \<Rightarrow> signatures_type \<Rightarrow> signatures_type" where
  "add_signature p sig signatures =
     (case map_of signatures p of
        None \<Rightarrow> AList.update p [sig] signatures
      | Some sigs \<Rightarrow> AList.update p (sigs @ [sig]) signatures)"

text \<open>The last part of the loop body: patterns and storing, by protocol.\<close>

definition read_by_protocol ::
  "'n yaml \<Rightarrow> 'n \<Rightarrow> Signature \<Rightarrow> signatures_type \<Rightarrow> (RuleReaderStatusCode \<times> signatures_type) option" where
  "read_by_protocol Y rule sig signatures =
     (case protocol sig of
        GeoNetworking \<Rightarrow>
          do {
            st \<leftarrow> read_geonet_pattern Y rule sig;
            case st of
              Inl _ \<Rightarrow> Some (Bad_Pattern, signatures)
            | Inr sig \<Rightarrow> Some (RR_Success, add_signature GeoNetworking sig signatures)
          }
      | Facility \<Rightarrow>
          do {
            st \<leftarrow> read_facility_pattern Y rule sig;
            case st of
              Inl _ \<Rightarrow> Some (Bad_Pattern, signatures)
            | Inr sig \<Rightarrow> Some (RR_Success, add_signature Facility sig signatures)
          }
      | _ \<Rightarrow> Some (RR_Success, signatures))"

definition read_rule :: "'n yaml \<Rightarrow> 'n \<Rightarrow> signatures_type \<Rightarrow> (RuleReaderStatusCode \<times> signatures_type) option" where
  "read_rule Y rule signatures =
     do {
       action_node \<leftarrow> at_key Y rule ''action'';
       if \<not> IsDefined Y action_node then Some (Undefined_Action, signatures)
       else if \<not> IsScalar Y action_node then Some (Bad_Action, signatures)
       else
         do {
           a \<leftarrow> read_action Y action_node;
           if a = NotSupported_Action then Some (Bad_Action, signatures)
           else
             do {
               protocol_node \<leftarrow> at_key Y rule ''protocol'';
               if \<not> IsDefined Y protocol_node then Some (Undefined_Protocol, signatures)
               else if \<not> IsScalar Y protocol_node then Some (Bad_Protocol, signatures)
               else
                 do {
                   p \<leftarrow> read_protocol Y protocol_node;
                   if p = NotSupported_Protocol then Some (Bad_Protocol, signatures)
                   else
                     do {
                       meta_node \<leftarrow> at_key Y rule ''meta'';
                       if \<not> IsDefined Y meta_node then Some (Undefined_MetaData, signatures)
                       else if \<not> IsMap Y meta_node then Some (Bad_MetaData, signatures)
                       else
                         do {
                           ret \<leftarrow> read_metadata Y meta_node;
                           case ret of
                             Inl _ \<Rightarrow> Some (Bad_MetaData, signatures)
                           | Inr m \<Rightarrow>
                               read_by_protocol Y rule \<lparr>action = a, protocol = p, meta = m, patterns = []\<rparr> signatures
                         }
                     }
                 }
             }
         }
     }"

fun read_rules :: "'n yaml \<Rightarrow> 'n \<Rightarrow> nat list \<Rightarrow> signatures_type \<Rightarrow> (RuleReaderStatusCode \<times> signatures_type) option" where
  "read_rules Y rules [] signatures = Some (RR_Success, signatures)"
| "read_rules Y rules (i # is) signatures =
     do {
       rule \<leftarrow> at_index Y rules i;
       (st, signatures) \<leftarrow> read_rule Y rule signatures;
       if st \<noteq> RR_Success then Some (st, signatures) else read_rules Y rules is signatures
     }"

text \<open>\<open>ruleset\<close> is the result of \<open>YAML::LoadFile\<close>, \<open>None\<close> if that throws.\<close>

definition read :: "'n yaml \<Rightarrow> 'n option \<Rightarrow> signatures_type \<Rightarrow> (RuleReaderStatusCode \<times> signatures_type) option" where
  "read Y ruleset signatures =
     do {
       ruleset \<leftarrow> ruleset;
       if \<not> IsMap Y ruleset then Some (Broken_Rule_Structure, signatures)
       else
         do {
           rules \<leftarrow> at_key Y ruleset ''rules'';
           if \<not> IsSequence Y rules then Some (Broken_Rule_Structure, signatures)
           else read_rules Y rules [0..<node_size Y rules] signatures
         }
     }"

section \<open>What is stored\<close>

definition pattern_wt :: "string \<Rightarrow> pattern_type \<Rightarrow> bool" where
  "pattern_wt key p =
     (case p of
        P_string s \<Rightarrow> key = ''nh'' \<and> s \<in> {''common'', ''secure''} \<or> key = ''ht'' \<and> s \<in> {''TSB'', ''GBC'', ''SHB''}
      | P_int i \<Rightarrow> key = ''mhl''
      | P_destination_area a b \<Rightarrow> key = ''destination_area''
      | P_allowed_so_range s a b \<Rightarrow> key = ''allowed_so_range''
      | P_facility_ids ids \<Rightarrow> key = ''allowed_ids'')"

definition signature_wt :: "Signature \<Rightarrow> bool" where
  "signature_wt sig \<longleftrightarrow> action sig \<noteq> NotSupported_Action \<and> distinct (map fst (patterns sig))
     \<and> list_all (\<lambda>(k, p). k \<in> set geonet_keywords \<and> pattern_wt k p) (patterns sig)"

definition signatures_wt :: "signatures_type \<Rightarrow> bool" where
  "signatures_wt ss \<longleftrightarrow> list_all (\<lambda>(p, sigs). sigs \<noteq> [] \<and> list_all (\<lambda>s. signature_wt s \<and> protocol s = p) sigs) ss"

lemma required_scalar_bind: "required_scalar Y n k = Some (Inr x) \<Longrightarrow> at_key Y n k = Some x"
  by (auto simp: required_scalar_def split: bind_splits if_splits)

lemma read_area_wt:
  "read_destination_area Y n = Some (Inr p) \<Longrightarrow> \<exists>a b. p = P_destination_area a b"
  "read_allowed_so_range Y n = Some (Inr p) \<Longrightarrow> \<exists>s a b. p = P_allowed_so_range s a b"
  by (auto simp: read_destination_area_def read_allowed_so_range_def split: bind_splits if_splits sum.splits)

lemma map_sum_eq: "Inr y = map_sum id f z \<longleftrightarrow> (\<exists>x. z = Inr x \<and> y = f x)" "map_sum id f z = Inr y \<longleftrightarrow> (\<exists>x. z = Inr x \<and> y = f x)"
  by (cases z; auto)+

lemma read_geonet_value_wt:
  assumes "read_geonet_value Y key node = Some (Inr (Some p))"
  shows "pattern_wt key p"
proof -
  consider "key = ''nh''" | "key = ''ht''" | "key = ''mhl''" | "key = ''destination_area''" | "key = ''allowed_so_range''"
    using assms by (auto simp: read_geonet_value_def split: if_splits)
  then show ?thesis
  proof cases
    case 4
    then obtain q where "read_destination_area Y node = Some (Inr q)" "p = q"
      using assms by (auto simp: read_geonet_value_def map_sum_eq)
    then show ?thesis using 4 read_area_wt(1) by (fastforce simp: pattern_wt_def)
  next
    case 5
    then obtain q where "read_allowed_so_range Y node = Some (Inr q)" "p = q"
      using assms by (auto simp: read_geonet_value_def map_sum_eq)
    then show ?thesis using 5 read_area_wt(2) by (fastforce simp: pattern_wt_def)
  qed (use assms in \<open>auto simp: read_geonet_value_def pattern_wt_def split: bind_splits if_splits\<close>)
qed

lemma read_facility_value_none:
  assumes "read_facility_value Y key node = Some (Inr v)" "key \<in> set geonet_keywords"
  shows "v = None"
  using assms by (auto simp: read_facility_value_def geonet_keywords_def)

lemma set_update_cases: "(k, q) \<in> set (AList.update a p al) \<Longrightarrow> k = a \<and> q = p \<or> (k, q) \<in> set al"
  by (induction al) (auto split: if_splits)

lemma read_patterns_inv:
  assumes "read_patterns Y value keys rules pats = Some (Inr pats')"
    and "distinct (map fst pats)" "\<And>k p. (k, p) \<in> set pats \<Longrightarrow> Q k p"
    and "\<And>k n p. k \<in> set keys \<Longrightarrow> value k n = Some (Inr (Some p)) \<Longrightarrow> Q k p"
  shows "distinct (map fst pats')" "\<And>k p. (k, p) \<in> set pats' \<Longrightarrow> Q k p"
proof -
  have "distinct (map fst pats') \<and> (\<forall>k p. (k, p) \<in> set pats' \<longrightarrow> Q k p)"
    using assms
  proof (induction keys arbitrary: pats)
    case (Cons key keys)
    obtain node where n: "at_key Y rules key = Some node" using Cons.prems(1) by (auto split: bind_splits)
    show ?case
    proof (cases "IsDefined Y node")
      case False
      then show ?thesis using Cons n by simp
    next
      case True
      then obtain v where v: "value key node = Some (Inr v)" using Cons.prems(1) n by (auto split: bind_splits sum.splits)
      show ?thesis
      proof (cases v)
        case None
        then show ?thesis using Cons n True v by simp
      next
        case (Some p)
        have "read_patterns Y value keys rules (AList.update key p pats) = Some (Inr pats')"
          using Cons.prems(1) n True v Some by simp
        moreover have "distinct (map fst (AList.update key p pats))" using Cons.prems(2) by (rule distinct_update)
        moreover have "Q k q" if "(k, q) \<in> set (AList.update key p pats)" for k q
          using set_update_cases [OF that] Cons.prems(3) Cons.prems(4) [of key node p] v Some by auto
        ultimately show ?thesis using Cons.IH Cons.prems(4) by auto
      qed
    qed
  qed simp
  then show "distinct (map fst pats')" "\<And>k p. (k, p) \<in> set pats' \<Longrightarrow> Q k p" by auto
qed


lemma read_geonet_pattern_wt:
  assumes "read_geonet_pattern Y rule sig = Some (Inr sig')" "patterns sig = []" "action sig \<noteq> NotSupported_Action"
  shows "signature_wt sig'" "protocol sig' = protocol sig"
proof -
  obtain p where p: "read_patterns Y (read_geonet_value Y) geonet_keywords rule [] = Some (Inr p)" "sig' = sig\<lparr>patterns := p\<rparr>"
    using assms(1,2) unfolding read_geonet_pattern_def by (auto simp: map_sum_eq)
  have d: "distinct (map fst p)"
    by (rule read_patterns_inv(1) [OF p(1), where Q = "\<lambda>_ _. True"]) simp_all
  have q: "k \<in> set geonet_keywords \<and> pattern_wt k q" if "(k, q) \<in> set p" for k q
    by (rule read_patterns_inv(2) [OF p(1) _ _ _ that, where Q = "\<lambda>k q. k \<in> set geonet_keywords \<and> pattern_wt k q"])
      (simp_all add: read_geonet_value_wt)
  show "signature_wt sig'" "protocol sig' = protocol sig"
    using p(2) assms(3) d q by (auto simp: signature_wt_def list_all_iff)
qed

text \<open>No keyword of facility rules is ever read.\<close>

lemma read_facility_pattern_none:
  assumes "read_facility_pattern Y rule sig = Some r"
  shows "r = Inr sig"
proof -
  have v: "read_facility_value Y key n = Some (Inr None)" if "key \<in> set geonet_keywords" for key n
    using that by (auto simp: read_facility_value_def geonet_keywords_def)
  have "read_patterns Y (read_facility_value Y) keys rule pats \<in> {None, Some (Inr pats)}" if "set keys \<subseteq> set geonet_keywords" for keys pats
    using that by (induction keys) (auto simp: v split: bind_splits)
  then have "read_patterns Y (read_facility_value Y) geonet_keywords rule (patterns sig) \<in> {None, Some (Inr (patterns sig))}" by blast
  then show ?thesis using assms unfolding read_facility_pattern_def by auto
qed

section \<open>The reader as a whole\<close>

lemma add_signature_wt:
  assumes "signatures_wt ss" "signature_wt sig" "protocol sig = p"
  shows "signatures_wt (add_signature p sig ss)"
proof -
  have "sigs \<noteq> [] \<and> list_all (\<lambda>s. signature_wt s \<and> protocol s = q) sigs" if mem: "(q, sigs) \<in> set (add_signature p sig ss)" for q sigs
  proof -
    consider "q = p" "sigs = [sig]" | old where "q = p" "sigs = old @ [sig]" "(p, old) \<in> set ss" | "(q, sigs) \<in> set ss"
    proof (cases "map_of ss p")
      case None
      then show thesis using that set_update_cases [of q sigs p "[sig]" ss] mem
        unfolding add_signature_def by auto
    next
      case (Some old)
      then show thesis using that set_update_cases [of q sigs p "old @ [sig]" ss] mem map_of_SomeD [OF Some]
        unfolding add_signature_def by auto
    qed
    then show ?thesis using assms by cases (auto simp: signatures_wt_def list_all_iff)
  qed
  then show ?thesis by (auto simp: signatures_wt_def list_all_iff)
qed

lemma read_rule_wt:
  assumes "read_rule Y rule ss = Some (st, ss')" "signatures_wt ss"
  shows "signatures_wt ss'" "st \<noteq> RR_Success \<Longrightarrow> ss' = ss"
proof -
  have bp: "signatures_wt s' \<and> (st' \<noteq> RR_Success \<longrightarrow> s' = ss)"
    if "read_by_protocol Y rule \<lparr>action = a, protocol = p, meta = m, patterns = []\<rparr> ss = Some (st', s')" "a \<noteq> NotSupported_Action" for a p m s' st'
    using that assms(2) read_geonet_pattern_wt [of Y rule "\<lparr>action = a, protocol = p, meta = m, patterns = []\<rparr>"]
      read_facility_pattern_none [of Y rule "\<lparr>action = a, protocol = p, meta = m, patterns = []\<rparr>"]
    by (auto simp: read_by_protocol_def signature_wt_def split: Protocol.splits bind_splits sum.splits intro!: add_signature_wt)
  have "signatures_wt ss' \<and> (st \<noteq> RR_Success \<longrightarrow> ss' = ss)"
    using assms bp unfolding read_rule_def by (auto split: bind_splits if_splits sum.splits)
  then show "signatures_wt ss'" "st \<noteq> RR_Success \<Longrightarrow> ss' = ss" by auto
qed

lemma read_rules_wt: "read_rules Y rules is ss = Some (st, ss') \<Longrightarrow> signatures_wt ss \<Longrightarrow> signatures_wt ss'"
  by (induction "is" arbitrary: ss) (auto split: bind_splits if_splits dest: read_rule_wt)

lemma read_success_wt: "read Y ruleset ss = Some (st, ss') \<Longrightarrow> signatures_wt ss \<Longrightarrow> signatures_wt ss'"
  by (auto simp: read_def split: bind_splits if_splits dest: read_rules_wt)

text \<open>When a rule is rejected, the result is what the rules before it gave.\<close>

lemma read_prefix:
  assumes "read_rules Y rules is ss = Some (st, ss')" "st \<noteq> RR_Success" "signatures_wt ss"
  shows "\<exists>k < length is. read_rules Y rules (take k is) ss = Some (RR_Success, ss')
    \<and> (\<exists>rule. at_index Y rules (is ! k) = Some rule \<and> read_rule Y rule ss' = Some (st, ss'))"
  using assms
proof (induction "is" arbitrary: ss)
  case (Cons i "is")
  obtain rule st1 s1 where r: "at_index Y rules i = Some rule" "read_rule Y rule ss = Some (st1, s1)"
    using Cons.prems(1) by (auto split: bind_splits)
  note w = read_rule_wt [OF r(2) Cons.prems(3)]
  show ?case
  proof (cases "st1 = RR_Success")
    case True
    then have "read_rules Y rules is s1 = Some (st, ss')" using Cons.prems(1) r by simp
    then obtain k where k: "k < length is" "read_rules Y rules (take k is) s1 = Some (RR_Success, ss')"
        "\<exists>rule. at_index Y rules (is ! k) = Some rule \<and> read_rule Y rule ss' = Some (st, ss')"
      using Cons.IH Cons.prems(2) w(1) by blast
    then show ?thesis using r True by (intro exI [of _ "Suc k"]) auto
  next
    case False
    then have "st = st1" "ss' = s1" "s1 = ss" using Cons.prems(1) r w(2) by auto
    then show ?thesis using r by (intro exI [of _ 0]) auto
  qed
qed simp

end
