(* ===== verification/Ids_Detector.thy ===== *)
theory Ids_Detector
  imports Ids_Rules
begin

unbundle bit_operations_syntax

text \<open>
  Detection and reaction: \<open>mitvane/detector/geonet_detector.cpp\<close> on the data of
  \<open>geonet_data.hpp\<close>, and \<open>mitvane/message_handler/message_handler.cpp\<close>.

  Positions, areas, lifetimes and the geometry (\<open>vanetza::security::is_within\<close>) belong to Vanetza
  and are type variables and arguments; so are the codes of the header types
  (\<open>vanetza::geonet::HeaderType\<close>), which the detector compares by their upper four bits.
  \<open>None\<close> is the exception \<open>boost::bad_get\<close>, raised if a pattern has another type than the detector
  expects.

  The detector reports the signatures all of whose patterns hold (\<open>detect_spec\<close>); for signatures
  from the rule reader it does not raise the exception (\<open>detect_total\<close>).
\<close>

section \<open>geonet_data.hpp\<close>

datatype SecurityInfo = NoSecurity | Signed

datatype NextHeaderBasic = NHB_Any | NHB_Common | NHB_Secured

datatype SignerInfoType = SI_Certificate | SI_Certificate_Digest_With_SHA256 | SI_Certificate_Chain | SI_Other

record ('p, 'd, 'l) GeonetData =
  gd_protocol_version :: nat
  gd_next_header :: NextHeaderBasic
  gd_header_type :: "8 word"
  gd_destination :: "'d option"
  gd_source_position :: 'p
  gd_security_info :: SecurityInfo
  gd_certificate_id :: "8 word list option"
  gd_payload_type :: "nat option"
  gd_secure_protocol_version :: "8 word option"
  gd_signer_info_type :: "SignerInfoType option"
  gd_chain_size :: "nat option"
  gd_remaining_packet_lifetime :: 'l
  gd_maximum_hop_limit :: "8 word"
  gd_remaining_hop_limit :: "8 word"

section \<open>geonet_detector.cpp\<close>

text \<open>The enumerators of \<open>vanetza::geonet::HeaderType\<close> the detector uses.\<close>

record header_types =
  TSB_Multi_Hop :: "8 word"
  TSB_Single_Hop :: "8 word"
  GeoBroadcast_Circle :: "8 word"
  GeoBroadcast_Rect :: "8 word"
  GeoBroadcast_Elip :: "8 word"

text \<open>\<open>None\<close> is \<open>TransformStatusCode::Error\<close>.\<close>

definition transform_nh :: "string \<Rightarrow> NextHeaderBasic option" where
  "transform_nh nh_str =
     (if nh_str = ''common'' then Some NHB_Common
      else if nh_str = ''secure'' then Some NHB_Secured
      else None)"

definition transform_ht :: "header_types \<Rightarrow> string \<Rightarrow> 8 word option" where
  "transform_ht T ht_str =
     (if ht_str = ''TSB'' then Some (TSB_Multi_Hop T)
      else if ht_str = ''SHB'' then Some (TSB_Single_Hop T)
      else if ht_str = ''GBC'' then Some (GeoBroadcast_Circle T OR GeoBroadcast_Rect T OR GeoBroadcast_Elip T)
      else None)"

text \<open>\<open>boost::get<T>\<close>.\<close>

fun get_string :: "pattern_type \<Rightarrow> string option" where
  "get_string (P_string s) = Some s"
| "get_string _ = None"

fun get_int :: "pattern_type \<Rightarrow> int option" where
  "get_int (P_int i) = Some i"
| "get_int _ = None"

fun get_so_range :: "pattern_type \<Rightarrow> (Allowed_So_Range_Shape \<times> int \<times> int) option" where
  "get_so_range (P_allowed_so_range s a b) = Some (s, a, b)"
| "get_so_range _ = None"

text \<open>
  One pattern of the body of the loop: \<open>Some None\<close> is \<open>continue\<close>, \<open>Some (Some n)\<close> adds \<open>n\<close> to
  \<open>detection_count\<close>.
\<close>

definition count_nh :: "('p, 'd, 'l) GeonetData \<Rightarrow> pattern_type option \<Rightarrow> nat option option" where
  "count_nh m_data p =
     (case p of
        None \<Rightarrow> Some (Some 0)
      | Some p \<Rightarrow>
          do {
            s \<leftarrow> get_string p;
            Some (case transform_nh s of
                    None \<Rightarrow> None
                  | Some nh \<Rightarrow> Some (if nh = gd_next_header m_data then 1 else 0))
          })"

definition count_ht :: "header_types \<Rightarrow> ('p, 'd, 'l) GeonetData \<Rightarrow> pattern_type option \<Rightarrow> nat option option" where
  "count_ht T m_data p =
     (case p of
        None \<Rightarrow> Some (Some 0)
      | Some p \<Rightarrow>
          do {
            s \<leftarrow> get_string p;
            Some (case transform_ht T s of
                    None \<Rightarrow> None
                  | Some ht \<Rightarrow> Some (if drop_bit 4 ht = drop_bit 4 (gd_header_type m_data) then 1 else 0))
          })"

definition count_mhl :: "('p, 'd, 'l) GeonetData \<Rightarrow> pattern_type option \<Rightarrow> nat option option" where
  "count_mhl m_data p =
     (case p of
        None \<Rightarrow> Some (Some 0)
      | Some p \<Rightarrow>
          do {
            i \<leftarrow> get_int p;
            Some (Some (if i \<le> uint (gd_maximum_hop_limit m_data) then 1 else 0))
          })"

definition count_so_range ::
  "('p \<Rightarrow> 'f \<Rightarrow> int \<Rightarrow> bool) \<Rightarrow> 'f \<Rightarrow> ('p, 'd, 'l) GeonetData \<Rightarrow> pattern_type option \<Rightarrow> nat option option" where
  "count_so_range is_within position_fix m_data p =
     (case p of
        None \<Rightarrow> Some (Some 0)
      | Some p \<Rightarrow>
          do {
            (shape, limit_a, limit_b) \<leftarrow> get_so_range p;
            Some (case shape of
                    Circle \<Rightarrow> Some (if \<not> is_within (gd_source_position m_data) position_fix limit_a then 1 else 0))
          })"

text \<open>The body of the loop over the signatures: whether the signature is added to \<open>matched_sigs\<close>.\<close>

definition detect_signature ::
  "header_types \<Rightarrow> ('p \<Rightarrow> 'f \<Rightarrow> int \<Rightarrow> bool) \<Rightarrow> 'f \<Rightarrow> ('p, 'd, 'l) GeonetData \<Rightarrow> Signature \<Rightarrow> bool option" where
  "detect_signature T is_within position_fix m_data sig =
     do {
       c1 \<leftarrow> count_nh m_data (map_of (patterns sig) ''nh'');
       case c1 of
         None \<Rightarrow> Some False
       | Some n1 \<Rightarrow>
           do {
             c2 \<leftarrow> count_ht T m_data (map_of (patterns sig) ''ht'');
             case c2 of
               None \<Rightarrow> Some False
             | Some n2 \<Rightarrow>
                 do {
                   c3 \<leftarrow> count_mhl m_data (map_of (patterns sig) ''mhl'');
                   case c3 of
                     None \<Rightarrow> Some False
                   | Some n3 \<Rightarrow>
                       do {
                         c4 \<leftarrow> count_so_range is_within position_fix m_data (map_of (patterns sig) ''allowed_so_range'');
                         case c4 of
                           None \<Rightarrow> Some False
                         | Some n4 \<Rightarrow> Some (n1 + n2 + n3 + n4 = length (patterns sig))
                       }
                 }
           }
     }"

datatype DetectionResult = Detected | Not_Detected

record DetectionReport =
  report_sigs :: "Signature list"
  report_result :: DetectionResult

fun detect_loop ::
  "(Signature \<Rightarrow> bool option) \<Rightarrow> Signature list \<Rightarrow> Signature list \<Rightarrow> Signature list option" where
  "detect_loop d [] matched_sigs = Some matched_sigs"
| "detect_loop d (sig # sigs) matched_sigs =
     do {
       m \<leftarrow> d sig;
       detect_loop d sigs (if m then matched_sigs @ [sig] else matched_sigs)
     }"

text \<open>
  \<open>signatures[Protocol::GeoNetworking]\<close> adds an empty entry to the map of the caller if there is none;
  the map is returned with the report.
\<close>

definition detect ::
  "header_types \<Rightarrow> ('p \<Rightarrow> 'f \<Rightarrow> int \<Rightarrow> bool) \<Rightarrow> 'f \<Rightarrow> ('p, 'd, 'l) GeonetData \<Rightarrow> signatures_type
   \<Rightarrow> (DetectionReport \<times> signatures_type) option" where
  "detect T is_within position_fix m_data signatures =
     do {
       let (geonet_signatures, signatures) =
         (case map_of signatures GeoNetworking of
            None \<Rightarrow> ([], AList.update GeoNetworking [] signatures)
          | Some s \<Rightarrow> (s, signatures));
       matched_sigs \<leftarrow> detect_loop (detect_signature T is_within position_fix m_data) geonet_signatures [];
       Some (\<lparr>report_sigs = matched_sigs, report_result = Detected\<rparr>, signatures)
     }"

section \<open>message_handler.cpp\<close>

datatype HandleReport = HR_Allow | HR_Drop

definition action_to_string :: "Action \<Rightarrow> string" where
  "action_to_string a =
     (if a = Alert then ''alert'' else if a = Drop then ''drop'' else ''unknown action'')"

definition protocol_to_string :: "Protocol \<Rightarrow> string" where
  "protocol_to_string p =
     (if p = GeoNetworking then ''GeoNetworking''
      else if p = BTP then ''BTP''
      else if p = Facility then ''Facility''
      else if p = CA then ''CA''
      else if p = DEN then ''DEN''
      else if p = SPAT then ''SPAT''
      else if p = MAP then ''MAP''
      else ''unknown protocol'')"

text \<open>\<open>std::to_string\<close> on an unsigned number.\<close>

fun to_string :: "nat \<Rightarrow> string" where
  "to_string n =
     (if n < 10 then [char_of (48 + n)] else to_string (n div 10) @ [char_of (48 + n mod 10)])"

declare to_string.simps [simp del]

definition sid_rev_to_string :: "MetaData \<Rightarrow> string" where
  "sid_rev_to_string m = ''['' @ to_string (unat (meta_sid m)) @ '':'' @ to_string (unat (meta_rev m)) @ ''] ''"

definition format_log :: "Signature \<Rightarrow> string" where
  "format_log sig =
     sid_rev_to_string (meta sig) @ meta_msg (meta sig) @ '' '' @ action_to_string (action sig) @ '' ''
     @ ''{'' @ protocol_to_string (protocol sig) @ ''}''"

text \<open>The report and the lines written to the log.\<close>

fun handle_loop :: "Signature list \<Rightarrow> HandleReport \<Rightarrow> string list \<Rightarrow> HandleReport \<times> string list" where
  "handle_loop [] rep lg = (rep, lg)"
| "handle_loop (sig # sigs) rep lg =
     (if action sig = Alert then handle_loop sigs rep (lg @ [format_log sig])
      else if action sig = Drop then handle_loop sigs HR_Drop (lg @ [format_log sig])
      else handle_loop sigs HR_Drop (lg @ [''Unknown action. No log output.'']))"

definition handle :: "Signature list \<Rightarrow> HandleReport \<times> string list" where
  "handle sigs = handle_loop sigs HR_Allow []"

section \<open>What a rule means\<close>

text \<open>The specification: each pattern is a condition on the packet, a rule is their conjunction.\<close>

definition pattern_holds ::
  "header_types \<Rightarrow> ('p \<Rightarrow> 'f \<Rightarrow> int \<Rightarrow> bool) \<Rightarrow> 'f \<Rightarrow> ('p, 'd, 'l) GeonetData \<Rightarrow> string \<times> pattern_type \<Rightarrow> bool" where
  "pattern_holds T is_within position_fix m_data kp =
     (case kp of
        (k, P_string s) \<Rightarrow>
          if k = ''nh'' then transform_nh s = Some (gd_next_header m_data)
          else (case transform_ht T s of None \<Rightarrow> False | Some ht \<Rightarrow> drop_bit 4 ht = drop_bit 4 (gd_header_type m_data))
      | (k, P_int i) \<Rightarrow> i \<le> uint (gd_maximum_hop_limit m_data)
      | (k, P_allowed_so_range sh a b) \<Rightarrow> \<not> is_within (gd_source_position m_data) position_fix a
      | _ \<Rightarrow> False)"

definition rule_holds ::
  "header_types \<Rightarrow> ('p \<Rightarrow> 'f \<Rightarrow> int \<Rightarrow> bool) \<Rightarrow> 'f \<Rightarrow> ('p, 'd, 'l) GeonetData \<Rightarrow> Signature \<Rightarrow> bool" where
  "rule_holds T is_within position_fix m_data sig = list_all (pattern_holds T is_within position_fix m_data) (patterns sig)"

lemma map_of_wt:
  assumes "signature_wt sig" "map_of (patterns sig) k = Some p"
  shows "pattern_wt k p"
  using assms map_of_SomeD [OF assms(2)] by (auto simp: signature_wt_def list_all_iff)

text \<open>What one keyword adds to \<open>detection_count\<close>.\<close>

definition counts ::
  "header_types \<Rightarrow> ('p \<Rightarrow> 'f \<Rightarrow> int \<Rightarrow> bool) \<Rightarrow> 'f \<Rightarrow> ('p, 'd, 'l) GeonetData \<Rightarrow> Signature \<Rightarrow> string \<Rightarrow> nat" where
  "counts T is_within position_fix m_data sig k =
     (case map_of (patterns sig) k of
        None \<Rightarrow> 0
      | Some p \<Rightarrow> if pattern_holds T is_within position_fix m_data (k, p) then 1 else 0)"

lemma count_nh_step:
  assumes "signature_wt sig"
  shows "count_nh d (map_of (patterns sig) ''nh'') = Some (Some (counts T w f d sig ''nh''))"
proof (cases "map_of (patterns sig) ''nh''")
  case (Some p)
  then obtain s where "p = P_string s" "s \<in> {''common'', ''secure''}"
    using map_of_wt [OF assms Some] by (cases p) (auto simp: pattern_wt_def)
  then show ?thesis using Some by (auto simp: count_nh_def counts_def pattern_holds_def transform_nh_def)
qed (simp add: count_nh_def counts_def)

lemma count_ht_step:
  assumes "signature_wt sig"
  shows "count_ht T d (map_of (patterns sig) ''ht'') = Some (Some (counts T w f d sig ''ht''))"
proof (cases "map_of (patterns sig) ''ht''")
  case (Some p)
  then obtain s where "p = P_string s" "s \<in> {''TSB'', ''GBC'', ''SHB''}"
    using map_of_wt [OF assms Some] by (cases p) (auto simp: pattern_wt_def)
  then show ?thesis using Some by (auto simp: count_ht_def counts_def pattern_holds_def transform_ht_def)
qed (simp add: count_ht_def counts_def)

lemma count_mhl_step:
  assumes "signature_wt sig"
  shows "count_mhl d (map_of (patterns sig) ''mhl'') = Some (Some (counts T w f d sig ''mhl''))"
proof (cases "map_of (patterns sig) ''mhl''")
  case (Some p)
  then obtain i where "p = P_int i" using map_of_wt [OF assms Some] by (cases p) (auto simp: pattern_wt_def)
  then show ?thesis using Some by (auto simp: count_mhl_def counts_def pattern_holds_def)
qed (simp add: count_mhl_def counts_def)

lemma count_so_range_step:
  assumes "signature_wt sig"
  shows "count_so_range w f d (map_of (patterns sig) ''allowed_so_range'')
    = Some (Some (counts T w f d sig ''allowed_so_range''))"
proof (cases "map_of (patterns sig) ''allowed_so_range''")
  case (Some p)
  then obtain s a b where "p = P_allowed_so_range s a b"
    using map_of_wt [OF assms Some] by (cases p) (auto simp: pattern_wt_def)
  then show ?thesis using Some by (cases s) (auto simp: count_so_range_def counts_def pattern_holds_def)
qed (simp add: count_so_range_def counts_def)

lemma counts_destination_area:
  assumes "signature_wt sig"
  shows "counts T w f d sig ''destination_area'' = 0"
proof (cases "map_of (patterns sig) ''destination_area''")
  case (Some p)
  then obtain a b where "p = P_destination_area a b"
    using map_of_wt [OF assms Some] by (cases p) (auto simp: pattern_wt_def)
  then show ?thesis using Some by (auto simp: counts_def pattern_holds_def)
qed (simp add: counts_def)

text \<open>The counts of the keywords add up to the number of patterns that hold.\<close>

lemma sum_keys:
  assumes "distinct (map fst al)" "distinct ks" "fst ` set al \<subseteq> set ks"
  shows "(\<Sum>k\<leftarrow>ks. case map_of al k of None \<Rightarrow> 0 | Some p \<Rightarrow> if Q (k, p) then 1 else 0) = length (filter Q al)"
proof -
  define g where "g k = (case map_of al k of None \<Rightarrow> 0 | Some p \<Rightarrow> if Q (k, p) then 1 else (0 :: nat))" for k
  have "sum_list (map g ks) = (\<Sum>k\<in>set ks. g k)" using assms(2) by (rule sum_list_distinct_conv_sum_set)
  also have "\<dots> = (\<Sum>k\<in>fst ` set al. g k)"
  proof (rule sum.mono_neutral_right)
    show "\<forall>k \<in> set ks - fst ` set al. g k = 0"
      by (auto simp: g_def dest!: map_of_SomeD split: option.split)
        (metis fst_conv image_eqI)
  qed (use assms(3) in auto)
  also have "\<dots> = (\<Sum>kp\<in>set al. g (fst kp))"
    using assms(1) by (intro sum.reindex_cong [of fst]) (auto simp: distinct_map)
  also have "\<dots> = sum_list (map (\<lambda>kp. g (fst kp)) al)"
    using assms(1) by (intro sum_list_distinct_conv_sum_set [symmetric]) (simp add: distinct_map)
  also have "map (\<lambda>kp. g (fst kp)) al = map (\<lambda>kp. if Q kp then 1 else 0) al"
    using assms(1) by (intro map_cong) (auto simp: g_def map_of_is_SomeI)
  also have "sum_list (map (\<lambda>kp. if Q kp then 1 else 0) al) = length (filter Q al)"
    by (induction al) auto
  finally show ?thesis unfolding g_def .
qed

lemma detect_signature_spec:
  assumes "signature_wt sig"
  shows "detect_signature T w f d sig = Some (rule_holds T w f d sig)"
proof -
  let ?H = "pattern_holds T w f d"
  have "(\<Sum>k\<leftarrow>geonet_keywords. counts T w f d sig k) = length (filter ?H (patterns sig))"
    unfolding counts_def using assms
    by (intro sum_keys) (auto simp: signature_wt_def list_all_iff geonet_keywords_def)
  then have "counts T w f d sig ''nh'' + counts T w f d sig ''ht'' + counts T w f d sig ''mhl''
      + counts T w f d sig ''allowed_so_range'' = length (filter ?H (patterns sig))"
    using counts_destination_area [OF assms, of T w f d] by (simp add: geonet_keywords_def)
  moreover have "length (filter ?H (patterns sig)) = length (patterns sig) \<longleftrightarrow> rule_holds T w f d sig"
    by (metis filter_id_conv length_filter_less list.pred_set nat_less_le rule_holds_def)
  ultimately show ?thesis
    unfolding detect_signature_def
    by (simp add: count_nh_step [OF assms, of _ T w f] count_ht_step [OF assms, of _ _ w f]
        count_mhl_step [OF assms, of _ T w f] count_so_range_step [OF assms, of _ _ _ T])
qed

lemma detect_loop_spec:
  assumes "\<And>sig. sig \<in> set sigs \<Longrightarrow> d sig = Some (P sig)"
  shows "detect_loop d sigs acc = Some (acc @ filter P sigs)"
  using assms by (induction sigs arbitrary: acc) auto

lemma signatures_wt_of:
  assumes "signatures_wt ss" "map_of ss p = Some sigs" "sig \<in> set sigs"
  shows "signature_wt sig" "protocol sig = p"
  using assms(1,3) map_of_SomeD [OF assms(2)] by (auto simp: signatures_wt_def list_all_iff)

text \<open>The report lists the rules that hold, in the order of the rule file.\<close>

lemma detect_spec:
  assumes "signatures_wt ss" "map_of ss GeoNetworking = Some sigs"
  shows "detect T w f d ss = Some (\<lparr>report_sigs = filter (rule_holds T w f d) sigs, report_result = Detected\<rparr>, ss)"
proof -
  have "detect_loop (detect_signature T w f d) sigs [] = Some ([] @ filter (rule_holds T w f d) sigs)"
    by (rule detect_loop_spec) (rule detect_signature_spec, rule signatures_wt_of(1) [OF assms])
  then show ?thesis using assms(2) by (simp add: detect_def)
qed

lemma detect_total:
  assumes "signatures_wt ss"
  shows "detect T w f d ss \<noteq> None"
proof (cases "map_of ss GeoNetworking")
  case (Some sigs)
  then show ?thesis by (simp add: detect_spec [OF assms Some])
qed (simp add: detect_def)

section \<open>The reaction\<close>

definition log_line :: "Signature \<Rightarrow> string" where
  "log_line sig = (if action sig = NotSupported_Action then ''Unknown action. No log output.'' else format_log sig)"

lemma handle_loop_spec:
  "handle_loop sigs rep lg = (if \<exists>s\<in>set sigs. action s \<noteq> Alert then HR_Drop else rep, lg @ map log_line sigs)"
proof (induction sigs arbitrary: rep lg)
  case (Cons s sigs)
  then show ?case by (cases "action s") (auto simp: log_line_def)
qed simp

lemma handle_spec:
  "handle sigs = (if \<exists>s\<in>set sigs. action s \<noteq> Alert then HR_Drop else HR_Allow, map log_line sigs)"
  by (simp add: handle_def handle_loop_spec)

lemma handle_wt:
  assumes "\<forall>s\<in>set sigs. action s \<noteq> NotSupported_Action"
  shows "handle sigs = (if \<exists>s\<in>set sigs. action s = Drop then HR_Drop else HR_Allow, map format_log sigs)"
proof -
  have "action s \<noteq> Alert \<longleftrightarrow> action s = Drop" "log_line s = format_log s" if "s \<in> set sigs" for s
    using assms that by (cases "action s"; auto simp: log_line_def)+
  then show ?thesis by (auto simp: handle_spec)
qed

text \<open>Decimal digits: the log identifies the rule.\<close>

definition digits_val :: "string \<Rightarrow> nat" where
  "digits_val s = foldl (\<lambda>n c. 10 * n + (of_char c - 48)) 0 s"

lemma of_char_digit: "d < 10 \<Longrightarrow> (of_char (char_of (48 + d :: nat) :: char) :: nat) = 48 + d"
  by simp

lemma digits_val_to_string: "digits_val (to_string n) = n"
proof (induction n rule: to_string.induct)
  case (1 n)
  show ?case
  proof (cases "n < 10")
    case True
    then show ?thesis by (simp add: to_string.simps [of n] digits_val_def of_char_digit)
  next
    case False
    then have "digits_val (to_string n) = 10 * digits_val (to_string (n div 10)) + n mod 10"
      by (simp add: to_string.simps [of n] digits_val_def of_char_digit)
    then show ?thesis using 1 False by simp
  qed
qed

lemma to_string_digits: "c \<in> set (to_string n) \<Longrightarrow> 48 \<le> (of_char c :: nat) \<and> (of_char c :: nat) \<le> 57"
proof (induction n rule: to_string.induct)
  case (1 n)
  show ?case
  proof (cases "n < 10")
    case True
    then show ?thesis using 1(2) by (auto simp: to_string.simps [of n] of_char_digit)
  next
    case False
    then have "c \<in> set (to_string (n div 10)) \<or> c = char_of (48 + n mod 10)" using 1(2) by (auto simp: to_string.simps [of n])
    then show ?thesis using 1(1) False by (auto simp: of_char_digit)
  qed
qed

definition is_digit :: "char \<Rightarrow> bool" where
  "is_digit c \<longleftrightarrow> (of_char c :: nat) \<in> {48..57}"

lemma takeWhile_digits: "\<not> is_digit c \<Longrightarrow> takeWhile is_digit (to_string n @ c # rest) = to_string n"
  using to_string_digits by (subst takeWhile_append2) (auto simp: is_digit_def)

lemma no_digit: "\<not> is_digit (CHR '':'')" "\<not> is_digit (CHR '']'')"
  by (simp_all add: is_digit_def)

lemma format_log_sid:
  assumes "format_log s = format_log t"
  shows "meta_sid (meta s) = meta_sid (meta t)" "meta_rev (meta s) = meta_rev (meta t)"
proof -
  let ?D = "takeWhile is_digit"
  define r where "r x = meta_msg (meta x) @ '' '' @ action_to_string (action x) @ '' {'' @ protocol_to_string (protocol x) @ ''}''" for x :: Signature
  have e: "to_string (unat (meta_sid (meta s))) @ CHR '':'' # to_string (unat (meta_rev (meta s))) @ CHR '']'' # CHR '' '' # r s
      = to_string (unat (meta_sid (meta t))) @ CHR '':'' # to_string (unat (meta_rev (meta t))) @ CHR '']'' # CHR '' '' # r t"
    using assms by (simp add: format_log_def sid_rev_to_string_def r_def)
  have "?D (to_string (unat (meta_sid (meta s))) @ CHR '':'' # to_string (unat (meta_rev (meta s))) @ CHR '']'' # CHR '' '' # r s)
      = ?D (to_string (unat (meta_sid (meta t))) @ CHR '':'' # to_string (unat (meta_rev (meta t))) @ CHR '']'' # CHR '' '' # r t)"
    by (rule arg_cong [OF e])
  then have s: "to_string (unat (meta_sid (meta s))) = to_string (unat (meta_sid (meta t)))"
    by (simp add: takeWhile_digits no_digit)
  then have "to_string (unat (meta_rev (meta s))) @ CHR '']'' # CHR '' '' # r s
      = to_string (unat (meta_rev (meta t))) @ CHR '']'' # CHR '' '' # r t" using e by simp
  then have "?D (to_string (unat (meta_rev (meta s))) @ CHR '']'' # CHR '' '' # r s)
      = ?D (to_string (unat (meta_rev (meta t))) @ CHR '']'' # CHR '' '' # r t)" by (rule arg_cong)
  then have t: "to_string (unat (meta_rev (meta s))) = to_string (unat (meta_rev (meta t)))"
    by (simp add: takeWhile_digits no_digit)
  show "meta_sid (meta s) = meta_sid (meta t)" "meta_rev (meta s) = meta_rev (meta t)"
    using arg_cong [OF s, of digits_val] arg_cong [OF t, of digits_val] by (simp_all add: digits_val_to_string word_unat_eq_iff)
qed

end
