(* ===== verification/Facilities.thy ===== *)
theory Facilities
  imports Complex_Main "HOL-Library.Signed_Division" Asn1c_Wrapper Its_Mapem Ids_Detector
begin

unbundle bit_operations_syntax

text \<open>
  \<open>vanetza-extension/facilities\<close>: conversions from positions to data elements (\<open>functions.cpp\<close>) and
  the functions on messages (\<open>cam_functions.cpp\<close>, \<open>denm_functions.cpp\<close>, \<open>spatem_functions.cpp\<close>,
  \<open>mapem_functions.cpp\<close>).

  A CAM is a value of the runtime; \<open>member i\<close> is the i-th member of a structure, \<open>None\<close> if the pointer
  is null. Angles, lengths and other quantities are real numbers, NaN is \<open>None\<close>. Distances on the
  earth (\<open>vanetza::geonet::distance\<close>) and sets of permissions (\<open>vanetza::security::CamPermissions\<close>)
  belong to Vanetza and are arguments.

  \<^item> \<open>copy_fits\<close>: every position on the earth, with or without altitude, becomes a \<open>ReferencePosition\<close>
    that fits its type and so can be encoded.
  \<^item> \<open>similar_heading_circle\<close>: two headings are similar if they are close on the circle.
  \<^item> \<open>check_permissions_all\<close>: the check asks for the permission of each element the CAM contains.
\<close>

section \<open>Structures\<close>

definition member :: "nat \<Rightarrow> asn_value \<Rightarrow> asn_value option" where
  "member i v = (case v of V_SEQUENCE ms \<Rightarrow> if i < length ms then ms ! i else None | _ \<Rightarrow> None)"

definition sub :: "nat \<Rightarrow> asn_value \<Rightarrow> asn_value" where
  "sub i v = (case member i v of Some m \<Rightarrow> m | None \<Rightarrow> V_NULL)"

definition as_long :: "asn_value \<Rightarrow> int" where
  "as_long v = (case v of V_long i \<Rightarrow> i | _ \<Rightarrow> 0)"

definition present :: "asn_value \<Rightarrow> nat" where
  "present v = (case v of V_CHOICE p m \<Rightarrow> p | _ \<Rightarrow> 0)"

definition choice :: "asn_value \<Rightarrow> asn_value" where
  "choice v = (case v of V_CHOICE p (Some m) \<Rightarrow> m | _ \<Rightarrow> V_NULL)"

section \<open>functions.cpp\<close>

definition is_available_position :: "asn_value \<Rightarrow> bool" where
  "is_available_position pos \<longleftrightarrow> as_long (sub 0 pos) \<noteq> 900000001 \<and> as_long (sub 1 pos) \<noteq> 1800000001"

text \<open>Integer division of C; \<open>geo_distance\<close> takes latitude and longitude of both in microdegrees.\<close>

definition distance_positions ::
  "(real \<times> real \<Rightarrow> real \<times> real \<Rightarrow> real) \<Rightarrow> asn_value \<Rightarrow> asn_value \<Rightarrow> real option" where
  "distance_positions geo_distance a b =
     (let geo = (\<lambda>p. (real_of_int (as_long (sub 0 p) sdiv 10), real_of_int (as_long (sub 1 p) sdiv 10)))
      in if is_available_position a \<and> is_available_position b then Some (geo_distance (geo a) (geo b)) else None)"

definition distance_position_to ::
  "(real \<times> real \<Rightarrow> real \<times> real \<Rightarrow> real) \<Rightarrow> asn_value \<Rightarrow> real \<Rightarrow> real \<Rightarrow> real option" where
  "distance_position_to geo_distance a lat lon =
     (if is_available_position a
      then Some (geo_distance (real_of_int (as_long (sub 0 a) sdiv 10), real_of_int (as_long (sub 1 a) sdiv 10)) (lat, lon))
      else None)"

text \<open>\<open>std::round\<close>, halves away from zero.\<close>

definition round_away :: "real \<Rightarrow> int" where
  "round_away x = (if 0 \<le> x then \<lfloor>x + 1 / 2\<rfloor> else - \<lfloor>- x + 1 / 2\<rfloor>)"

text \<open>The conversion of a floating-point number to an integer.\<close>

definition trunc :: "real \<Rightarrow> int" where
  "trunc x = (if 0 \<le> x then \<lfloor>x\<rfloor> else \<lceil>x\<rceil>)"

definition to_altitude_confidence :: "real option \<Rightarrow> int" where
  "to_altitude_confidence confidence =
     (case confidence of
        None \<Rightarrow> 15
      | Some alt_con \<Rightarrow>
          if alt_con < 0 then 15
          else if alt_con \<le> 0.01 then 0
          else if alt_con \<le> 0.02 then 1
          else if alt_con \<le> 0.05 then 2
          else if alt_con \<le> 0.1 then 3
          else if alt_con \<le> 0.2 then 4
          else if alt_con \<le> 0.5 then 5
          else if alt_con \<le> 1 then 6
          else if alt_con \<le> 2 then 7
          else if alt_con \<le> 5 then 8
          else if alt_con \<le> 10 then 9
          else if alt_con \<le> 20 then 10
          else if alt_con \<le> 50 then 11
          else if alt_con \<le> 100 then 12
          else if alt_con \<le> 200 then 13
          else 14)"

definition to_altitude_value :: "real option \<Rightarrow> int" where
  "to_altitude_value alt =
     (case alt of
        Some alt \<Rightarrow> trunc (1 * 100 * (if alt < - 1000 then - 1000 else if 8000 < alt then 8000 else alt))
      | None \<Rightarrow> 800001)"

record PositionFix =
  fix_latitude :: real
  fix_longitude :: real
  fix_altitude :: "(real option \<times> real option) option"

text \<open>Latitude and longitude of the fix are in degrees.\<close>

definition copy :: "PositionFix \<Rightarrow> asn_value" where
  "copy position =
     V_SEQUENCE
       [Some (V_long (round_away (fix_latitude position * 1000000) * 10)),
        Some (V_long (round_away (fix_longitude position * 1000000) * 10)),
        Some (V_SEQUENCE [Some (V_long 4095), Some (V_long 4095), Some (V_long 3601)]),
        Some (case fix_altitude position of
                Some (altitude, confidence) \<Rightarrow>
                  V_SEQUENCE [Some (V_long (to_altitude_value altitude)), Some (V_long (to_altitude_confidence confidence))]
              | None \<Rightarrow> V_SEQUENCE [Some (V_long 800001), Some (V_long 15)])]"

section \<open>cam_functions.cpp\<close>

definition is_available_heading :: "asn_value \<Rightarrow> bool" where
  "is_available_heading h \<longleftrightarrow> as_long (sub 0 h) \<noteq> 3601"

text \<open>\<open>fmod\<close> of numbers that are not negative; angles are in radian.\<close>

definition fmod :: "real \<Rightarrow> real \<Rightarrow> real" where
  "fmod x y = x - y * real_of_int \<lfloor>x / y\<rfloor>"

definition similar_heading :: "real \<Rightarrow> real \<Rightarrow> real \<Rightarrow> bool" where
  "similar_heading a b limit =
     (let full_circle = 2 * pi; abs_diff = fmod \<bar>a - b\<bar> full_circle
      in abs_diff \<le> limit \<or> abs_diff \<ge> full_circle - limit)"

definition heading_angle :: "asn_value \<Rightarrow> real" where
  "heading_angle h = real_of_int (as_long (sub 0 h)) / 10 * (pi / 180)"

definition similar_heading_to :: "asn_value \<Rightarrow> real \<Rightarrow> real \<Rightarrow> bool" where
  "similar_heading_to a b limit = (if is_available_heading a then similar_heading (heading_angle a) b limit else False)"

definition similar_headings :: "asn_value \<Rightarrow> asn_value \<Rightarrow> real \<Rightarrow> bool" where
  "similar_headings a b limit =
     (if is_available_heading a \<and> is_available_heading b
      then similar_heading (heading_angle a) (heading_angle b) limit else False)"

datatype CamPermission =
    CEN_DSRC_Tolling_Zone | Public_Transport | Special_Transport | Dangerous_Goods | Roadwork | Rescue
  | Emergency | Safety_Car | Closed_Lanes | Request_For_Right_Of_Way | Request_For_Free_Crossing_At_Traffic_Light
  | No_Passing | No_Passing_For_Trucks | Speed_Limit

record 's CamPermissions =
  no_permissions :: 's
  perm_add :: "CamPermission \<Rightarrow> 's \<Rightarrow> 's"
  perm_has :: "'s \<Rightarrow> 's \<Rightarrow> bool"

text \<open>The part for \<open>specialVehicleContainer\<close>; a condition guards each call of \<open>add\<close>.\<close>

definition special_permissions :: "'s CamPermissions \<Rightarrow> asn_value \<Rightarrow> 's \<Rightarrow> 's" where
  "special_permissions A special r =
     (let add = (\<lambda>b p r. if b then perm_add A p r else r);
          emergency = (if present special = 6 then Some (choice special) else None);
          safety = (if present special = 7 then Some (choice special) else None);
          roadworks = (if present special = 4 then Some (choice special) else None);
          r = (if present special = 1 then perm_add A Public_Transport r
               else if present special = 2 then perm_add A Special_Transport r
               else if present special = 3 then perm_add A Dangerous_Goods r
               else if present special = 4 then perm_add A Roadwork r
               else if present special = 5 then perm_add A Rescue r
               else if present special = 6 then perm_add A Emergency r
               else if present special = 7 then perm_add A Safety_Car r
               else r);
          r = (case Option.bind emergency (member 2) of
                 Some (V_BIT_STRING [bits] u) \<Rightarrow>
                   add (bits AND push_bit 6 1 \<noteq> 0) Request_For_Free_Crossing_At_Traffic_Light
                     (add (bits AND push_bit 7 1 \<noteq> 0) Request_For_Right_Of_Way r)
               | _ \<Rightarrow> r);
          r = add (Option.bind roadworks (member 2) \<noteq> None) Closed_Lanes r;
          r = (case Option.bind safety (member 2) of
                 Some rule \<Rightarrow>
                   if as_long rule = 0 then perm_add A No_Passing r
                   else if as_long rule = 1 then perm_add A No_Passing_For_Trucks r
                   else r
               | None \<Rightarrow> r)
      in add (Option.bind safety (member 3) \<noteq> None) Speed_Limit r)"

definition check_service_specific_permissions :: "'s CamPermissions \<Rightarrow> asn_value \<Rightarrow> 's \<Rightarrow> bool" where
  "check_service_specific_permissions A cam ssp =
     (let params = sub 1 (sub 1 cam);
          r = no_permissions A;
          r = (if present (sub 1 params) = 2 \<and> member 0 (choice (sub 1 params)) \<noteq> None
               then perm_add A CEN_DSRC_Tolling_Zone r else r);
          r = (case member 3 params of Some special \<Rightarrow> special_permissions A special r | None \<Rightarrow> r)
      in perm_has A ssp r)"

text \<open>The lines \<open>print_indented\<close> writes; \<open>operator<<\<close> on \<open>long\<close> writes decimal digits.\<close>

definition show_long :: "int \<Rightarrow> string" where
  "show_long i = (if i < 0 then ''-'' @ to_string (nat (- i)) else to_string (nat i))"

definition prefix :: "string \<Rightarrow> nat \<Rightarrow> string \<Rightarrow> string" where
  "prefix indent level field = concat (replicate level indent) @ field @ '': ''"

definition with_confidence :: "asn_value \<Rightarrow> string" where
  "with_confidence v = show_long (as_long (sub 0 v)) @ '' ['' @ show_long (as_long (sub 1 v)) @ '']''"

definition print_header :: "string \<Rightarrow> nat \<Rightarrow> asn_value \<Rightarrow> string list" where
  "print_header indent level message =
     (let header = sub 0 message
      in [prefix indent level ''ITS PDU Header'',
          prefix indent (level + 1) ''Protocol Version'' @ show_long (as_long (sub 0 header)),
          prefix indent (level + 1) ''Message ID'' @ show_long (as_long (sub 1 header)),
          prefix indent (level + 1) ''Station ID'' @ show_long (as_long (sub 2 header))])"

definition print_indented :: "string \<Rightarrow> nat \<Rightarrow> asn_value \<Rightarrow> string list" where
  "print_indented indent level message =
     (let cam = sub 1 message; params = sub 1 cam;
          position = sub 1 (sub 0 params); ellipse = sub 2 position;
          hf = sub 1 params; bvc = choice hf;
          ln = (\<lambda>n field. prefix indent (level + n) field)
      in print_header indent level message
         @ [ln 0 ''CoopAwarensess'',
          ln 1 ''Generation Delta Time'' @ show_long (as_long (sub 0 cam)),
          ln 1 ''Basic Container'',
          ln 2 ''Station Type'' @ show_long (as_long (sub 0 (sub 0 params))),
          ln 2 ''Reference Position'',
          ln 3 ''Longitude'' @ show_long (as_long (sub 1 position)),
          ln 3 ''Latitude'' @ show_long (as_long (sub 0 position)),
          ln 3 ''Semi Major Orientation'' @ show_long (as_long (sub 2 ellipse)),
          ln 3 ''Semi Major Confidence'' @ show_long (as_long (sub 0 ellipse)),
          ln 3 ''Semi Minor Confidence'' @ show_long (as_long (sub 1 ellipse)),
          ln 3 ''Altitude [Confidence]'' @ with_confidence (sub 3 position)]
         @ (if present hf = 1 then
              [ln 1 ''High Frequency Container [Basic Vehicle]'',
               ln 2 ''Heading [Confidence]'' @ with_confidence (sub 0 bvc),
               ln 2 ''Speed [Confidence]'' @ with_confidence (sub 1 bvc),
               ln 2 ''Drive Direction'' @ show_long (as_long (sub 2 bvc)),
               ln 2 ''Longitudinal Acceleration'' @ show_long (as_long (sub 0 (sub 5 bvc))),
               ln 2 ''Vehicle Length [Confidence Indication]'' @ with_confidence (sub 3 bvc),
               ln 2 ''Vehicle Width'' @ show_long (as_long (sub 4 bvc)),
               ln 2 ''Curvature [Confidence]'' @ with_confidence (sub 6 bvc),
               ln 2 ''Curvature Calculation Mode'' @ show_long (as_long (sub 7 bvc)),
               ln 2 ''Yaw Rate [Confidence]'' @ with_confidence (sub 8 bvc)]
            else [ln 1 ''High Frequency Container'' @ to_string (present hf)])
         @ [ln 1 ''Low Frequency Container'' @ (if member 2 params \<noteq> None then ''yes'' else ''no'')])"

section \<open>denm_functions.cpp, spatem_functions.cpp, mapem_functions.cpp\<close>

text \<open>
  \<open>asn_INTEGER2long\<close> leaves the variable as it is, if the number does not fit: \<open>junk\<close> is what the variable
  holds before.
\<close>

definition integer_long :: "int \<Rightarrow> asn_value \<Rightarrow> int" where
  "integer_long junk v =
     (case v of V_INTEGER st \<Rightarrow> (case asn_INTEGER2long st of Some l \<Rightarrow> l | None \<Rightarrow> junk) | _ \<Rightarrow> junk)"

definition print_indented_denm :: "int \<times> int \<Rightarrow> string \<Rightarrow> nat \<Rightarrow> asn_value \<Rightarrow> string list" where
  "print_indented_denm junk indent level message =
     (let management = sub 0 (sub 1 message); actionID = sub 0 management; position = sub 4 management;
          ellipse = sub 2 position; altitude = sub 3 position;
          ln = (\<lambda>n field. prefix indent (level + n) field)
      in print_header indent level message
         @ [ln 0 ''DecentralizedEnvironmentalNotification'',
            ln 1 ''Management Container'',
            ln 2 ''Action ID'',
            ln 3 ''Originating Station ID'' @ show_long (as_long (sub 0 actionID)),
            ln 3 ''Sequence Number'' @ show_long (as_long (sub 1 actionID)),
            ln 2 ''Detection Time'' @ show_long (integer_long (fst junk) (sub 1 management)),
            ln 2 ''Detection Time'' @ show_long (integer_long (snd junk) (sub 2 management)),
            ln 2 ''Event Position'',
            ln 3 ''Altitude'' @ show_long (as_long (sub 0 altitude)),
            ln 3 ''Altitude Confidence'' @ show_long (as_long (sub 1 altitude)),
            ln 3 ''Longitude'' @ show_long (as_long (sub 1 position)),
            ln 3 ''Latitude'' @ show_long (as_long (sub 0 position)),
            ln 3 ''Semi Major Orientation'' @ show_long (as_long (sub 2 ellipse)),
            ln 3 ''Semi Major Confidence'' @ show_long (as_long (sub 0 ellipse)),
            ln 3 ''Semi Minor Confidence'' @ show_long (as_long (sub 1 ellipse))])"

definition print_indented_spatem :: "string \<Rightarrow> nat \<Rightarrow> asn_value \<Rightarrow> string list" where
  "print_indented_spatem indent level message = print_header indent level message"

definition print_indented_mapem :: "string \<Rightarrow> nat \<Rightarrow> asn_value \<Rightarrow> string list" where
  "print_indented_mapem indent level message = print_header indent level message"

section \<open>Positions\<close>

lemma round_away_bound:
  assumes "\<bar>x\<bar> \<le> real_of_int k"
  shows "\<bar>round_away x\<bar> \<le> k"
proof (cases "0 \<le> x")
  case True
  then have "\<lfloor>x + 1 / 2\<rfloor> \<le> k" "0 \<le> \<lfloor>x + 1 / 2\<rfloor>" using assms by linarith+
  then show ?thesis using True by (simp add: round_away_def)
next
  case False
  then have "\<lfloor>- x + 1 / 2\<rfloor> \<le> k" "0 \<le> \<lfloor>- x + 1 / 2\<rfloor>" using assms by linarith+
  then show ?thesis using False by (simp add: round_away_def)
qed

lemma round_away_near: "\<bar>real_of_int (round_away x) - x\<bar> \<le> 1 / 2"
proof (cases "0 \<le> x")
  case True
  then show ?thesis unfolding round_away_def by (simp only: if_True) linarith
next
  case False
  then show ?thesis unfolding round_away_def by (simp only: if_False of_int_minus) linarith
qed

lemma trunc_bounds:
  assumes "real_of_int a \<le> x" "x \<le> real_of_int b"
  shows "a \<le> trunc x" "trunc x \<le> b"
  using assms unfolding trunc_def by (auto simp: le_floor_iff ceiling_le_iff) linarith+

lemma altitude_value_range: "to_altitude_value alt \<in> {- 100000..800001}"
proof (cases alt)
  case (Some x)
  define y where "y = (if x < - 1000 then - 1000 else if 8000 < x then 8000 else x)"
  have y: "- 1000 \<le> y" "y \<le> 8000" by (auto simp: y_def)
  have "- 100000 \<le> trunc (1 * 100 * y)" "trunc (1 * 100 * y) \<le> 800000"
    by (rule trunc_bounds [of "- 100000" _ 800000]; use y in simp)+
  then show ?thesis using Some by (simp add: to_altitude_value_def y_def)
qed (simp add: to_altitude_value_def)

lemma altitude_confidence_range: "to_altitude_confidence c \<in> {0..15}"
  by (cases c) (auto simp: to_altitude_confidence_def)

lemmas int_ok_defs = native_int_ok_def int_ok_def value_constraint_def pick_constraints_def apc_def int_constraint_wf_def
  int_inext_def td_field_unsigned_def

lemma Latitude_ok: "i \<in> {- 900000000..900000001} \<Longrightarrow> uper_ok (Suc n) asn_DEF_Latitude None (V_long i)"
  by (simp add: asn_DEF_Latitude_def asn_PER_type_Latitude_constr_1_def simple_ok_def int_ok_defs)

lemma Longitude_ok: "i \<in> {- 1800000000..1800000001} \<Longrightarrow> uper_ok (Suc n) asn_DEF_Longitude None (V_long i)"
  by (simp add: asn_DEF_Longitude_def asn_PER_type_Longitude_constr_1_def simple_ok_def int_ok_defs)

lemma AltitudeValue_ok: "i \<in> {- 100000..800001} \<Longrightarrow> uper_ok (Suc n) asn_DEF_AltitudeValue None (V_long i)"
  by (simp add: asn_DEF_AltitudeValue_def asn_PER_type_AltitudeValue_constr_1_def simple_ok_def int_ok_defs)

lemma AltitudeConfidence_all: "list_all (\<lambda>i. enum_ok asn_DEF_AltitudeConfidence None i) [0..15]"
  by code_simp

lemma AltitudeConfidence_ok: "i \<in> {0..15} \<Longrightarrow> uper_ok (Suc n) asn_DEF_AltitudeConfidence None (V_long i)"
proof -
  assume "i \<in> {0..15}"
  then have "enum_ok asn_DEF_AltitudeConfidence None i" using AltitudeConfidence_all by (simp add: list_all_iff)
  then show ?thesis by (simp add: simple_ok_def asn_DEF_AltitudeConfidence_def)
qed

text \<open>A structure of mandatory members.\<close>

lemma seq_ok_plain:
  assumes es: "td_elements td = map (\<lambda>t. MBR False False t None None) ts" and "first_extension (seq_specs td) = -1"
    "roms_count (seq_specs td) = 0" "aoms_count (seq_specs td) = 0" and ok: "list_all2 (\<lambda>t v. ok t None v) ts vs"
  shows "seq_ok ok td (map Some vs)"
proof -
  have len: "length ts = length vs" using ok by (rule list_all2_lengthD)
  have n: "seq_root_count td = length ts" using assms(2) es by (simp add: seq_root_count_def)
  have m: "list_all (\<lambda>(elm, m). seq_member_ok ok elm m) (zip (map (\<lambda>t. MBR False False t None None) ts) (map Some vs))"
    using ok by (induction rule: list_all2_induct) (simp_all add: seq_member_ok_def seq_is_default_def)
  have f: "filter (\<lambda>i. elm_optional (td_elements td ! i)) [0..<length ts] = []" using es by (simp add: filter_empty_conv)
  show ?thesis using len n m f assms(3,4) es
    by (simp add: seq_ok_def seq_td_ok_def seq_roots_def seq_exts_def Let_def)
qed

lemma Altitude_ok:
  assumes "v \<in> {- 100000..800001}" "c \<in> {0..15}"
  shows "uper_ok (Suc (Suc n)) asn_DEF_Altitude None (V_SEQUENCE [Some (V_long v), Some (V_long c)])"
proof -
  have "seq_ok (uper_ok (Suc n)) asn_DEF_Altitude (map Some [V_long v, V_long c])"
    by (rule seq_ok_plain [of _ "[asn_DEF_AltitudeValue, asn_DEF_AltitudeConfidence]"])
      (use AltitudeValue_ok [OF assms(1), of n] AltitudeConfidence_ok [OF assms(2), of n] in
        \<open>simp_all del: uper_ok.simps add: asn_DEF_Altitude_def asn_MBR_Altitude_1_def asn_SPC_Altitude_specs_1_def seq_specs_def\<close>)
  then show ?thesis by (simp add: asn_DEF_Altitude_def)
qed

lemma ellipse_ok: "uper_ok (Suc (Suc n)) asn_DEF_PosConfidenceEllipse None (V_SEQUENCE [Some (V_long 4095), Some (V_long 4095), Some (V_long 3601)])"
proof -
  have "uper_ok (Suc n) asn_DEF_SemiAxisLength None (V_long 4095)" "uper_ok (Suc n) asn_DEF_HeadingValue None (V_long 3601)"
    by (simp_all add: asn_DEF_SemiAxisLength_def asn_PER_type_SemiAxisLength_constr_1_def asn_DEF_HeadingValue_def
        asn_PER_type_HeadingValue_constr_1_def simple_ok_def int_ok_defs)
  then have "seq_ok (uper_ok (Suc n)) asn_DEF_PosConfidenceEllipse (map Some [V_long 4095, V_long 4095, V_long 3601])"
    by (intro seq_ok_plain [of _ "[asn_DEF_SemiAxisLength, asn_DEF_SemiAxisLength, asn_DEF_HeadingValue]"])
      (simp_all del: uper_ok.simps add: asn_DEF_PosConfidenceEllipse_def asn_MBR_PosConfidenceEllipse_1_def
        asn_SPC_PosConfidenceEllipse_specs_1_def seq_specs_def)
  then show ?thesis by (simp add: asn_DEF_PosConfidenceEllipse_def)
qed

lemma ReferencePosition_depth: "td_depth asn_DEF_ReferencePosition = 3"
  by code_simp

lemma copy_fits:
  assumes "\<bar>fix_latitude p\<bar> \<le> 90" "\<bar>fix_longitude p\<bar> \<le> 180"
  shows "fits asn_DEF_ReferencePosition (copy p)"
proof -
  have "\<bar>round_away (fix_latitude p * 1000000)\<bar> \<le> 90000000" "\<bar>round_away (fix_longitude p * 1000000)\<bar> \<le> 180000000"
    by (rule round_away_bound, use assms in simp)+
  then have lat: "uper_ok (Suc (Suc n)) asn_DEF_Latitude None (V_long (round_away (fix_latitude p * 1000000) * 10))"
    and lon: "uper_ok (Suc (Suc n)) asn_DEF_Longitude None (V_long (round_away (fix_longitude p * 1000000) * 10))" for n
    by (auto simp del: uper_ok.simps intro!: Latitude_ok Longitude_ok)
  define alt where "alt = (case fix_altitude p of
      Some (altitude, confidence) \<Rightarrow>
        V_SEQUENCE [Some (V_long (to_altitude_value altitude)), Some (V_long (to_altitude_confidence confidence))]
    | None \<Rightarrow> V_SEQUENCE [Some (V_long 800001), Some (V_long 15)])"
  have alt: "uper_ok (Suc (Suc n)) asn_DEF_Altitude None alt" for n
    unfolding alt_def
    by (auto simp del: uper_ok.simps split: option.split intro!: Altitude_ok altitude_value_range altitude_confidence_range)
  have "seq_ok (uper_ok (Suc (Suc 0))) asn_DEF_ReferencePosition (map Some
      [V_long (round_away (fix_latitude p * 1000000) * 10), V_long (round_away (fix_longitude p * 1000000) * 10),
       V_SEQUENCE [Some (V_long 4095), Some (V_long 4095), Some (V_long 3601)], alt])"
    by (rule seq_ok_plain [of _ "[asn_DEF_Latitude, asn_DEF_Longitude, asn_DEF_PosConfidenceEllipse, asn_DEF_Altitude]"])
      (use lat lon alt ellipse_ok in \<open>simp_all del: uper_ok.simps add: asn_DEF_ReferencePosition_def
         asn_MBR_ReferencePosition_1_def asn_SPC_ReferencePosition_specs_1_def seq_specs_def\<close>)
  then show ?thesis unfolding ReferencePosition_depth numeral_3_eq_3 copy_def alt_def
    by (simp add: asn_DEF_ReferencePosition_def)
qed

section \<open>Headings\<close>

lemma fmod_range:
  assumes "0 < y"
  shows "0 \<le> fmod x y" "fmod x y < y" "\<exists>k. x = fmod x y + y * real_of_int k"
proof -
  have f: "real_of_int \<lfloor>x / y\<rfloor> \<le> x / y" "x / y < real_of_int \<lfloor>x / y\<rfloor> + 1" by linarith+
  have "y * real_of_int \<lfloor>x / y\<rfloor> \<le> x" using f(1) assms by (simp only: pos_le_divide_eq mult.commute)
  then show "0 \<le> fmod x y" by (simp add: fmod_def)
  have "x < (real_of_int \<lfloor>x / y\<rfloor> + 1) * y" using f(2) assms by (simp only: pos_divide_less_eq)
  then show "fmod x y < y" by (simp add: fmod_def algebra_simps)
  show "\<exists>k. x = fmod x y + y * real_of_int k" by (intro exI [of _ "\<lfloor>x / y\<rfloor>"]) (simp add: fmod_def)
qed

text \<open>A distance on the circle is small if and only if the remainder is small or almost a full circle.\<close>

lemma circle_distance:
  fixes d c limit :: real
  assumes c: "0 < c" and d: "0 \<le> d" and limit: "0 \<le> limit"
  shows "fmod d c \<le> limit \<or> c - limit \<le> fmod d c \<longleftrightarrow> (\<exists>k. \<bar>d - c * real_of_int k\<bar> \<le> limit)"
proof -
  define r where "r = fmod d c"
  obtain m where m: "d = r + c * real_of_int m" using fmod_range(3) [OF c, of d] by (auto simp: r_def)
  have r: "0 \<le> r" "r < c" using fmod_range(1,2) [OF c] by (auto simp: r_def)
  have "\<exists>k. \<bar>d - c * real_of_int k\<bar> \<le> limit" if "r \<le> limit"
    using that m r by (intro exI [of _ m]) simp
  moreover have "\<exists>k. \<bar>d - c * real_of_int k\<bar> \<le> limit" if "c - limit \<le> r"
    using that m r by (intro exI [of _ "m + 1"]) (simp add: algebra_simps)
  moreover have "r \<le> limit \<or> c - limit \<le> r" if k: "\<bar>d - c * real_of_int k\<bar> \<le> limit" for k
  proof -
    define j where "j = m - k"
    have e: "d - c * real_of_int k = r + c * real_of_int j" by (simp add: m j_def algebra_simps)
    consider "0 \<le> j" | "j \<le> - 1" by linarith
    then show ?thesis
    proof cases
      case 1
      then have "0 \<le> c * real_of_int j" using c by simp
      then show ?thesis using k r(1) unfolding e by linarith
    next
      case 2
      then have "c * real_of_int j \<le> c * (- 1)" using c by (intro mult_left_mono) auto
      then show ?thesis using k r unfolding e by linarith
    qed
  qed
  ultimately show ?thesis unfolding r_def by blast
qed

lemma similar_heading_circle:
  assumes "0 \<le> limit"
  shows "similar_heading a b limit \<longleftrightarrow> (\<exists>k. \<bar>a - b - 2 * pi * real_of_int k\<bar> \<le> limit)"
proof -
  have "similar_heading a b limit \<longleftrightarrow> (\<exists>k. \<bar>\<bar>a - b\<bar> - 2 * pi * real_of_int k\<bar> \<le> limit)"
    unfolding similar_heading_def Let_def using circle_distance [of "2 * pi" "\<bar>a - b\<bar>" limit] assms by simp
  also have "\<dots> \<longleftrightarrow> (\<exists>k. \<bar>a - b - 2 * pi * real_of_int k\<bar> \<le> limit)"
  proof (cases "0 \<le> a - b")
    case False
    then have e: "\<bar>\<bar>a - b\<bar> - 2 * pi * real_of_int k\<bar> = \<bar>a - b - 2 * pi * real_of_int (- k)\<bar>" for k by simp
    show ?thesis unfolding e by (metis minus_minus)
  qed simp
  finally show ?thesis .
qed

section \<open>Permissions\<close>

text \<open>What Vanetza documents of its sets of permissions.\<close>

definition permissions_ok :: "'s CamPermissions \<Rightarrow> ('s \<Rightarrow> CamPermission \<Rightarrow> bool) \<Rightarrow> bool" where
  "permissions_ok A allows \<longleftrightarrow> (\<forall>s. perm_has A s (no_permissions A))
     \<and> (\<forall>s p r. perm_has A s (perm_add A p r) \<longleftrightarrow> allows s p \<and> perm_has A s r)"

text \<open>The permissions the elements of a CAM need.\<close>

definition needs_special :: "asn_value \<Rightarrow> CamPermission \<Rightarrow> bool" where
  "needs_special sv p =
     (case p of
        Public_Transport \<Rightarrow> present sv = 1
      | Special_Transport \<Rightarrow> present sv = 2
      | Dangerous_Goods \<Rightarrow> present sv = 3
      | Roadwork \<Rightarrow> present sv = 4
      | Rescue \<Rightarrow> present sv = 5
      | Emergency \<Rightarrow> present sv = 6
      | Safety_Car \<Rightarrow> present sv = 7
      | Closed_Lanes \<Rightarrow> present sv = 4 \<and> member 2 (choice sv) \<noteq> None
      | Request_For_Right_Of_Way \<Rightarrow> present sv = 6 \<and> (\<exists>b u. member 2 (choice sv) = Some (V_BIT_STRING [b] u) \<and> bit b 7)
      | Request_For_Free_Crossing_At_Traffic_Light \<Rightarrow>
          present sv = 6 \<and> (\<exists>b u. member 2 (choice sv) = Some (V_BIT_STRING [b] u) \<and> bit b 6)
      | No_Passing \<Rightarrow> present sv = 7 \<and> (\<exists>r. member 2 (choice sv) = Some r \<and> as_long r = 0)
      | No_Passing_For_Trucks \<Rightarrow> present sv = 7 \<and> (\<exists>r. member 2 (choice sv) = Some r \<and> as_long r = 1)
      | Speed_Limit \<Rightarrow> present sv = 7 \<and> member 3 (choice sv) \<noteq> None
      | CEN_DSRC_Tolling_Zone \<Rightarrow> False)"

definition needs :: "asn_value \<Rightarrow> CamPermission \<Rightarrow> bool" where
  "needs cam p \<longleftrightarrow>
     (let params = sub 1 (sub 1 cam)
      in p = CEN_DSRC_Tolling_Zone \<and> present (sub 1 params) = 2 \<and> member 0 (choice (sub 1 params)) \<noteq> None
         \<or> (\<exists>sv. member 3 params = Some sv \<and> needs_special sv p))"

lemma and_bit: "(b :: byte) AND 128 = 0 \<longleftrightarrow> \<not> bit b 7" "b AND 64 = 0 \<longleftrightarrow> \<not> bit b 6"
  using and_exp_eq_0_iff_not_bit [of b 7] and_exp_eq_0_iff_not_bit [of b 6] by simp_all

lemma all_permissions: "(\<forall>p. P p) \<longleftrightarrow> P CEN_DSRC_Tolling_Zone \<and> P Public_Transport \<and> P Special_Transport \<and> P Dangerous_Goods \<and> P Roadwork
     \<and> P Rescue \<and> P Emergency \<and> P Safety_Car \<and> P Closed_Lanes \<and> P Request_For_Right_Of_Way
     \<and> P Request_For_Free_Crossing_At_Traffic_Light \<and> P No_Passing \<and> P No_Passing_For_Trucks \<and> P Speed_Limit"
  (is "_ \<longleftrightarrow> ?all")
proof
  assume all: ?all
  show "\<forall>p. P p"
  proof
    fix p
    show "P p" using all by (cases p) simp_all
  qed
qed simp

lemma special_permissions_has:
  assumes "permissions_ok A allows"
  shows "perm_has A s (special_permissions A sv r) \<longleftrightarrow> perm_has A s r \<and> (\<forall>p. needs_special sv p \<longrightarrow> allows s p)"
proof -
  have add: "perm_has A s (perm_add A p r) \<longleftrightarrow> allows s p \<and> perm_has A s r" for p r using assms by (simp add: permissions_ok_def)
  consider "present sv = 4" | "present sv = 6" | "present sv = 7" | "present sv \<notin> {4, 6, 7}" by auto
  then show ?thesis
  proof cases
    case 1
    then show ?thesis by (auto simp: special_permissions_def Let_def add all_permissions needs_special_def)
  next
    case 2
    show ?thesis
    proof (cases "\<exists>b u. member 2 (choice sv) = Some (V_BIT_STRING [b] u)")
      case True
      then obtain b u where "member 2 (choice sv) = Some (V_BIT_STRING [b] u)" by blast
      then show ?thesis using 2 by (auto simp: special_permissions_def Let_def add all_permissions needs_special_def and_bit)
    next
      case False
      then show ?thesis using 2
        by (simp add: special_permissions_def Let_def add all_permissions needs_special_def conj_commute
            split: option.split asn_value.split list.split)
    qed
  next
    case 3
    then show ?thesis
      by (auto simp: special_permissions_def Let_def add all_permissions needs_special_def split: option.split)
  next
    case 4
    then show ?thesis by (simp add: special_permissions_def Let_def add all_permissions needs_special_def) auto
  qed
qed

lemma check_permissions_all:
  assumes "permissions_ok A allows"
  shows "check_service_specific_permissions A cam ssp \<longleftrightarrow> (\<forall>p. needs cam p \<longrightarrow> allows ssp p)"
proof -
  have none: "perm_has A ssp (no_permissions A)" and add: "perm_has A ssp (perm_add A p r) \<longleftrightarrow> allows ssp p \<and> perm_has A ssp r" for p r
    using assms by (simp_all add: permissions_ok_def)
  show ?thesis
    by (cases "member 3 (sub 1 (sub 1 cam))")
      (auto simp: check_service_specific_permissions_def needs_def Let_def none add special_permissions_has [OF assms])
qed

section \<open>Times of a DENM\<close>

lemma op_sequence_decoded:
  assumes "decoded (uper_decoder_op n td c) v" "td_op td = OP_SEQUENCE" "aoms_count (seq_specs td) = 0"
    and "i < seq_root_count td" "i < length (td_elements td)" "td_elements td ! i = MBR ptr False ty pc None"
  shows "\<exists>m. decoded (uper_decoder_op m ty pc) (sub i v)"
  using op_sequence_members [OF assms] by (auto simp: sub_def member_def)

lemma TimestampIts_long:
  assumes "decoded (uper_decoder_op n asn_DEF_TimestampIts None) v"
  shows "integer_long junk v = integer_long 0 v"
proof -
  have "uper_decoder_op n asn_DEF_TimestampIts None = INTEGER_decode_uper asn_DEF_TimestampIts None"
    by (cases n) (simp_all add: fun_eq_iff asn_DEF_TimestampIts_def simple_decoder_def)
  then obtain pd k where d: "fst (INTEGER_decode_uper asn_DEF_TimestampIts None pd) = RC_OK v k"
    using assms by (auto simp: decoded_def)
  have u: "per_long_range_unrebase x 0 4398046511103 = (if uint x \<le> 4398046511103 then Some (uint x) else None)" for x
    using unrebase_spec [of 0 4398046511103 x] by simp
  obtain x where "v = V_INTEGER (Some (asn_imax2INTEGER (uint (x :: 64 word))))" "uint x \<le> 4398046511103"
    using d
    by (auto simp: INTEGER_decode_uper_def INTEGER_decode_body_def asn_DEF_TimestampIts_def asn_PER_type_TimestampIts_constr_1_def
        value_constraint_def pick_constraints_def apc_def apc_unconstrained_def td_field_unsigned_def u asn_long2INTEGER_def
        split: prod.splits option.splits if_splits)
  moreover from this(2) have "is_long (uint x)" by (simp add: order_trans [OF _ uint_ge_0])
  ultimately show ?thesis using imax2INTEGER_spec(1) [of "uint x"] by (simp add: integer_long_def INTEGER2long_spec)
qed

lemma denm_times_decoded:
  assumes "decoded (uper_decoder_op n asn_DEF_DENM None) m" "i \<in> {1, 2}"
  shows "integer_long junk (sub i (sub 0 (sub 1 m))) = integer_long 0 (sub i (sub 0 (sub 1 m)))"
proof -
  have "\<exists>n. decoded (uper_decoder_op n asn_DEF_DecentralizedEnvironmentalNotificationMessage None) (sub 1 m)"
    by (rule op_sequence_decoded [OF assms(1), where ptr = False])
      (simp_all add: asn_DEF_DENM_def asn_MBR_DENM_1_def asn_SPC_DENM_specs_1_def seq_root_count_def seq_specs_def)
  then obtain n1 where "decoded (uper_decoder_op n1 asn_DEF_DecentralizedEnvironmentalNotificationMessage None) (sub 1 m)" ..
  then have "\<exists>n. decoded (uper_decoder_op n asn_DEF_ManagementContainer None) (sub 0 (sub 1 m))"
    by (rule op_sequence_decoded [where ptr = False])
      (simp_all add: asn_DEF_DecentralizedEnvironmentalNotificationMessage_def asn_MBR_DecentralizedEnvironmentalNotificationMessage_1_def
        asn_SPC_DecentralizedEnvironmentalNotificationMessage_specs_1_def seq_root_count_def seq_specs_def)
  then obtain n2 where "decoded (uper_decoder_op n2 asn_DEF_ManagementContainer None) (sub 0 (sub 1 m))" ..
  then have "\<exists>n. decoded (uper_decoder_op n asn_DEF_TimestampIts None) (sub i (sub 0 (sub 1 m)))"
    by (rule op_sequence_decoded [where ptr = False])
      (use assms(2) in \<open>auto simp: asn_DEF_ManagementContainer_def asn_MBR_ManagementContainer_1_def
        asn_SPC_ManagementContainer_specs_1_def seq_root_count_def seq_specs_def\<close>)
  then show ?thesis using TimestampIts_long by blast
qed

text \<open>A DENM, from whatever packet it was decoded, is printed without a variable that was never assigned.\<close>

lemma print_denm_defined:
  assumes "decode_per asn_DEF_DENM octets = Some (Some m)"
  shows "print_indented_denm junk indent level m = print_indented_denm (0, 0) indent level m"
proof -
  have "decoded (uper_decoder_op (td_depth asn_DEF_DENM) asn_DEF_DENM None) m"
    using decode_per_decoded [OF assms] by (simp add: uper_decoder_of_def)
  from denm_times_decoded [OF this, of 1 "fst junk"] denm_times_decoded [OF this, of 2 "snd junk"]
  show ?thesis by (simp add: print_indented_denm_def Let_def)
qed

section \<open>Properties\<close>

text \<open>
  C22. Every position on the earth, with or without altitude and confidence, becomes a
  ReferencePosition that fits its type, with latitude and longitude at most half a microdegree
  away.
\<close>

theorem position_fits_reference_position:
  assumes "\<bar>fix_latitude p\<bar> \<le> 90" "\<bar>fix_longitude p\<bar> \<le> 180"
  shows "fits asn_DEF_ReferencePosition (copy p)
    \<and> \<bar>real_of_int (as_long (sub 0 (copy p))) / 10 - fix_latitude p * 1000000\<bar> \<le> 1 / 2
    \<and> \<bar>real_of_int (as_long (sub 1 (copy p))) / 10 - fix_longitude p * 1000000\<bar> \<le> 1 / 2"
  using copy_fits [OF assms] round_away_near by (simp add: copy_def sub_def member_def as_long_def)

theorem position_fits_reference_position_witness:
  "fits asn_DEF_ReferencePosition (copy \<lparr>fix_latitude = 48.7, fix_longitude = - 11.4, fix_altitude = Some (Some 9000, None)\<rparr>)"
  by (rule conjunct1 [OF position_fits_reference_position]) simp_all

text \<open>
  Two headings are similar exactly if their difference is at most the limit up to a number
  of full circles, also across north and for headings of several turns.
\<close>

theorem similar_heading_is_circle_distance:
  assumes "0 \<le> limit"
  shows "similar_heading a b limit \<longleftrightarrow> (\<exists>k. \<bar>a - b - 2 * pi * real_of_int k\<bar> \<le> limit)"
  by (rule similar_heading_circle [OF assms])

theorem similar_heading_is_circle_distance_witness: "similar_heading 0 (2 * pi) 0"
  by (subst similar_heading_is_circle_distance) (auto intro: exI [of _ "- 1"])

text \<open>
  C23. The check of the service specific permissions accepts a CAM exactly if the certificate
  allows each permission that one of the elements of the CAM needs.
\<close>

theorem permissions_of_all_elements_are_checked:
  assumes "permissions_ok A allows"
  shows "check_service_specific_permissions A cam ssp \<longleftrightarrow> (\<forall>p. needs cam p \<longrightarrow> allows ssp p)"
  by (rule check_permissions_all [OF assms])

definition permission_sets :: "CamPermission set CamPermissions" where
  "permission_sets = \<lparr>no_permissions = {}, perm_add = insert, perm_has = (\<lambda>s r. r \<subseteq> s)\<rparr>"

theorem permissions_of_all_elements_are_checked_witness:
  "\<not> check_service_specific_permissions permission_sets
     (V_SEQUENCE [None, Some (V_SEQUENCE [None, Some (V_SEQUENCE [None, None, None, Some (V_CHOICE 5 None)])])]) {Emergency}"
proof -
  have ok: "permissions_ok permission_sets (\<lambda>s p. p \<in> s)" by (auto simp: permissions_ok_def permission_sets_def)
  have "needs (V_SEQUENCE [None, Some (V_SEQUENCE [None, Some (V_SEQUENCE [None, None, None, Some (V_CHOICE 5 None)])])]) Rescue"
    by (simp add: needs_def sub_def member_def needs_special_def present_def)
  then show ?thesis by (auto simp: permissions_of_all_elements_are_checked [OF ok])
qed

end
