(* ===== verification/Ids_Decoder.thy ===== *)
theory Ids_Decoder
  imports Ids_Detector
begin

text \<open>
  Decoding of a received packet: \<open>mitvane/decoder/geonet_decoder.cpp\<close> and \<open>btp_decoder.cpp\<close>, which
  fill the \<open>DetectionContext\<close> (\<open>detection_context.hpp\<close>, \<open>btp_data.hpp\<close>).

  Packets, headers and the indication contexts that parse them belong to Vanetza: the functions of
  it that are called are the fields of \<open>vanetza\<close>, an argument of every definition. The object behind
  \<open>ctx.service_primitive()\<close> is passed along as \<open>DataIndication\<close>. The member
  \<open>app_layer_parser_port\<close>, which nothing reads or writes, is left out.

  \<open>payload\<close> is a raw pointer. The model keeps whether the packet it points to is alive, deleted, or
  whether the pointer was never set. A function ends with \<open>Inl\<close> if an assertion fails or the
  behaviour is undefined (\<open>back()\<close> of an empty chain of certificates).

  \<^item> \<open>decode_payload\<close>: when there are BTP data, the payload is alive, so that handing it to a parser is
    no use after free; otherwise it may be dead or leaked.
  \<^item> \<open>decode_no_basic\<close>, \<open>decode_common_fields\<close>: which members of the context a packet determines.
\<close>

section \<open>Data\<close>

datatype failure = Assertion_Failed | Undefined_Behaviour

datatype ('ch, 'co) PacketVariant = ChunkPacket 'ch | CohesivePacket 'co

datatype UpperProtocol = UP_Unknown | UP_BTP_A | UP_BTP_B | UP_IPv6

datatype TransportType = TT_Unset | TT_SHB | TT_GBC

datatype NextHeaderCommon = NHC_Any | NHC_BTP_A | NHC_BTP_B | NHC_IPv6

record BtpData =
  btp_type :: UpperProtocol
  source_port :: "16 word option"
  destination_port :: "16 word"
  destination_port_info :: "16 word option"

datatype 'v pointer = Unset | Dangling | Live 'v

record ('p, 'd, 'l, 'v) DetectionContext =
  geonet_data :: "('p, 'd, 'l) GeonetData"
  btp_data :: "BtpData option"
  payload :: "'v pointer"

record 'l BasicHeader =
  basic_version :: nat
  basic_next_header :: NextHeaderBasic
  basic_lifetime :: 'l
  basic_hop_limit :: "8 word"

record 't CommonHeader =
  common_next_header :: NextHeaderCommon
  common_header_type :: "8 word"
  common_traffic_class :: 't
  common_maximum_hop_limit :: "8 word"

text \<open>\<open>ShbHeader\<close>, \<open>GeoBroadcastHeader\<close> and \<open>BeaconHeader\<close> with the parts the visitor reads.\<close>

datatype ('p, 'd) ExtendedHeader = Shb 'p | Gbc 'p "8 word \<Rightarrow> 'd" | Beacon

record ('p, 'd, 't) DataIndication =
  upper_protocol :: UpperProtocol
  transport_type :: TransportType
  ind_source_position :: 'p
  ind_destination :: "'d option"
  traffic_class :: 't

datatype 'ce SignerInfo =
  Signer_Certificate 'ce | Signer_Digest "8 word list" | Signer_Chain "'ce list" | Signer_Other

fun get_type :: "'ce SignerInfo \<Rightarrow> SignerInfoType" where
  "get_type (Signer_Certificate _) = SI_Certificate"
| "get_type (Signer_Digest _) = SI_Certificate_Digest_With_SHA256"
| "get_type (Signer_Chain _) = SI_Certificate_Chain"
| "get_type Signer_Other = SI_Other"

record ('ce, 'v) SecuredMessage =
  sm_payload_type :: nat
  sm_payload_data :: 'v
  sm_protocol_version :: "8 word"
  sm_signer_info :: "'ce SignerInfo option"

section \<open>Vanetza\<close>

record ('ch, 'co, 'c, 'm, 'p, 'd, 'l, 't, 'ce) vanetza =
  ctx_deserialize :: "('ch, 'co) PacketVariant \<Rightarrow> 'co \<Rightarrow> 'm \<times> 'm \<Rightarrow> 'c"
  ctx_cast :: "('ch, 'co) PacketVariant \<Rightarrow> 'ch \<Rightarrow> 'm \<times> 'm \<Rightarrow> 'c"
  ctx_secured_deserialize :: "'c \<Rightarrow> 'co \<Rightarrow> 'c"
  ctx_secured_cast :: "'c \<Rightarrow> 'ch \<Rightarrow> 'c"
  service_primitive :: "('p, 'd, 't) DataIndication"
  parse_basic :: "'c \<Rightarrow> 'l BasicHeader option \<times> 'c"
  parse_common :: "'c \<Rightarrow> 't CommonHeader option \<times> 'c"
  parse_secured :: "'c \<Rightarrow> ('ce, ('ch, 'co) PacketVariant) SecuredMessage option \<times> 'c"
  parse_extended :: "'c \<Rightarrow> 8 word \<Rightarrow> ('p, 'd) ExtendedHeader option \<times> 'c"
  finish :: "'c \<Rightarrow> ('ch, 'co) PacketVariant option \<times> 'c"
  pdu_header_type :: "'c \<Rightarrow> 8 word"
  calculate_hash :: "'ce \<Rightarrow> 8 word list"
  parse_btp_a :: "('ch, 'co) PacketVariant \<Rightarrow> (16 word \<times> 16 word) \<times> ('ch, 'co) PacketVariant"
  parse_btp_b :: "('ch, 'co) PacketVariant \<Rightarrow> (16 word \<times> 16 word) \<times> ('ch, 'co) PacketVariant"

section \<open>btp_decoder.cpp\<close>

text \<open>
  The headers are pairs: source and destination port of \<open>HeaderA\<close>, destination port and its info of
  \<open>HeaderB\<close>. \<open>BtpData()\<close> is zero-initialised.
\<close>

definition BtpData_init :: BtpData where
  "BtpData_init = \<lparr>btp_type = UP_Unknown, source_port = None, destination_port = 0, destination_port_info = None\<rparr>"

definition parse_btp_header ::
  "('ch, 'co, 'c, 'm, 'p, 'd, 'l, 't, 'ce) vanetza \<Rightarrow> ('p, 'd, 't) DataIndication \<Rightarrow> ('ch, 'co) PacketVariant
   \<Rightarrow> ('p, 'd, 'l, ('ch, 'co) PacketVariant) DetectionContext
   \<Rightarrow> ('ch, 'co) PacketVariant \<times> ('p, 'd, 'l, ('ch, 'co) PacketVariant) DetectionContext" where
  "parse_btp_header V gn_ind packet dc =
     (case upper_protocol gn_ind of
        UP_BTP_A \<Rightarrow>
          (case parse_btp_a V packet of
             ((src, dst), packet) \<Rightarrow>
               (packet, dc\<lparr>btp_data := Some (BtpData_init
                  \<lparr>btp_type := UP_BTP_A, source_port := Some src, destination_port := dst\<rparr>)\<rparr>))
      | UP_BTP_B \<Rightarrow>
          (case parse_btp_b V packet of
             ((dst, info), packet) \<Rightarrow>
               (packet, dc\<lparr>btp_data := Some (BtpData_init
                  \<lparr>btp_type := UP_BTP_B, destination_port := dst, destination_port_info := Some info\<rparr>)\<rparr>))
      | _ \<Rightarrow> (packet, dc))"

text \<open>
  The packet the context points to is changed in place, and \<open>release()\<close> keeps it alive.
\<close>

definition BtpDecoder_decode ::
  "('ch, 'co, 'c, 'm, 'p, 'd, 'l, 't, 'ce) vanetza \<Rightarrow> ('p, 'd, 't) DataIndication \<Rightarrow> ('ch, 'co) PacketVariant
   \<Rightarrow> ('p, 'd, 'l, ('ch, 'co) PacketVariant) DetectionContext
   \<Rightarrow> ('p, 'd, 'l, ('ch, 'co) PacketVariant) DetectionContext" where
  "BtpDecoder_decode V gn_ind packet dc =
     (case parse_btp_header V gn_ind packet dc of (packet, dc) \<Rightarrow> dc\<lparr>payload := Live packet\<rparr>)"

section \<open>geonet_decoder.cpp\<close>

definition inspect_signer_info ::
  "('ch, 'co, 'c, 'm, 'p, 'd, 'l, 't, 'ce) vanetza \<Rightarrow> ('ce, ('ch, 'co) PacketVariant) SecuredMessage
   \<Rightarrow> ('p, 'd, 'l, ('ch, 'co) PacketVariant) DetectionContext
   \<Rightarrow> failure + ('p, 'd, 'l, ('ch, 'co) PacketVariant) DetectionContext" where
  "inspect_signer_info V msg dc =
     (let gd = (geonet_data dc)\<lparr>gd_payload_type := Some (sm_payload_type msg),
                 gd_secure_protocol_version := Some (sm_protocol_version msg)\<rparr>
      in case sm_signer_info msg of
           None \<Rightarrow> Inr (dc\<lparr>geonet_data := gd\<rparr>)
         | Some si \<Rightarrow>
             let gd = gd\<lparr>gd_signer_info_type := Some (get_type si)\<rparr>
             in (case si of
                   Signer_Certificate c \<Rightarrow> Inr (dc\<lparr>geonet_data := gd\<lparr>gd_certificate_id := Some (calculate_hash V c)\<rparr>\<rparr>)
                 | Signer_Digest h \<Rightarrow> Inr (dc\<lparr>geonet_data := gd\<lparr>gd_certificate_id := Some h\<rparr>\<rparr>)
                 | Signer_Chain chain \<Rightarrow>
                     if chain = [] then Inl Undefined_Behaviour
                     else Inr (dc\<lparr>geonet_data := gd\<lparr>gd_chain_size := Some (length chain),
                            gd_certificate_id := Some (calculate_hash V (last chain))\<rparr>\<rparr>)
                 | Signer_Other \<Rightarrow> Inr (dc\<lparr>geonet_data := gd\<rparr>)))"

text \<open>The \<open>extended_header_visitor\<close>.\<close>

definition visit_extended ::
  "('ch, 'co, 'c, 'm, 'p, 'd, 'l, 't, 'ce) vanetza \<Rightarrow> 'c \<Rightarrow> ('p, 'd) ExtendedHeader
   \<Rightarrow> ('p, 'd, 't) DataIndication \<times> ('p, 'd, 'l, ('ch, 'co) PacketVariant) DetectionContext
   \<Rightarrow> ('p, 'd, 't) DataIndication \<times> ('p, 'd, 'l, ('ch, 'co) PacketVariant) DetectionContext" where
  "visit_extended V ctx ext s =
     (case s of (ind, dc) \<Rightarrow>
        (case ext of
           Shb pos \<Rightarrow>
             (ind\<lparr>transport_type := TT_SHB, ind_source_position := pos\<rparr>,
              dc\<lparr>geonet_data := (geonet_data dc)\<lparr>gd_source_position := pos\<rparr>\<rparr>)
         | Gbc pos dest \<Rightarrow>
             (ind\<lparr>transport_type := TT_GBC, ind_source_position := pos, ind_destination := Some (dest (pdu_header_type V ctx))\<rparr>,
              dc\<lparr>geonet_data := (geonet_data dc)\<lparr>gd_source_position := pos, gd_destination := Some (dest (pdu_header_type V ctx))\<rparr>\<rparr>)
         | Beacon \<Rightarrow> (ind, dc)))"

definition pass_up ::
  "('ch, 'co, 'c, 'm, 'p, 'd, 'l, 't, 'ce) vanetza \<Rightarrow> ('p, 'd, 't) DataIndication \<Rightarrow> ('ch, 'co) PacketVariant
   \<Rightarrow> ('p, 'd, 'l, ('ch, 'co) PacketVariant) DetectionContext
   \<Rightarrow> ('p, 'd, 'l, ('ch, 'co) PacketVariant) DetectionContext" where
  "pass_up V ind packet dc = BtpDecoder_decode V ind packet dc"

text \<open>
  The packet is deleted at the end of the function unless it was passed up; the pointer stored in
  the context dangles then.
\<close>

definition decode_extended ::
  "('ch, 'co, 'c, 'm, 'p, 'd, 'l, 't, 'ce) vanetza \<Rightarrow> 'c \<Rightarrow> 't CommonHeader \<Rightarrow> ('p, 'd, 't) DataIndication
   \<Rightarrow> ('p, 'd, 'l, ('ch, 'co) PacketVariant) DetectionContext
   \<Rightarrow> failure + ('p, 'd, 'l, ('ch, 'co) PacketVariant) DetectionContext" where
  "decode_extended V ctx common ind dc =
     (case parse_extended V ctx (common_header_type common) of
        (extended, ctx) \<Rightarrow>
          (case finish V ctx of
             (None, ctx) \<Rightarrow> Inl Assertion_Failed
           | (Some packet, ctx) \<Rightarrow>
               (case extended of
                  None \<Rightarrow> Inr (dc\<lparr>payload := Dangling\<rparr>)
                | Some ext \<Rightarrow>
                    (case visit_extended V ctx ext (ind, dc\<lparr>payload := Live packet\<rparr>) of
                       (ind, dc) \<Rightarrow> Inr (pass_up V ind packet dc)))))"

definition decode_common ::
  "('ch, 'co, 'c, 'm, 'p, 'd, 'l, 't, 'ce) vanetza \<Rightarrow> 'c \<Rightarrow> ('p, 'd, 't) DataIndication
   \<Rightarrow> ('p, 'd, 'l, ('ch, 'co) PacketVariant) DetectionContext
   \<Rightarrow> failure + ('p, 'd, 'l, ('ch, 'co) PacketVariant) DetectionContext" where
  "decode_common V ctx ind dc =
     (case parse_common V ctx of
        (None, ctx) \<Rightarrow> Inr dc
      | (Some common, ctx) \<Rightarrow>
          let ind = ind\<lparr>traffic_class := common_traffic_class common\<rparr>;
              dc = dc\<lparr>geonet_data := (geonet_data dc)
                     \<lparr>gd_header_type := common_header_type common, gd_maximum_hop_limit := common_maximum_hop_limit common\<rparr>\<rparr>;
              ind = ind\<lparr>upper_protocol :=
                     (case common_next_header common of
                        NHC_BTP_A \<Rightarrow> UP_BTP_A
                      | NHC_BTP_B \<Rightarrow> UP_BTP_B
                      | NHC_IPv6 \<Rightarrow> UP_IPv6
                      | _ \<Rightarrow> UP_Unknown)\<rparr>
          in decode_extended V ctx common ind dc)"

definition decode_secured ::
  "('ch, 'co, 'c, 'm, 'p, 'd, 'l, 't, 'ce) vanetza \<Rightarrow> 'c \<Rightarrow> ('p, 'd, 't) DataIndication
   \<Rightarrow> ('p, 'd, 'l, ('ch, 'co) PacketVariant) DetectionContext
   \<Rightarrow> failure + ('p, 'd, 'l, ('ch, 'co) PacketVariant) DetectionContext" where
  "decode_secured V ctx ind dc =
     (case parse_secured V ctx of
        (None, ctx) \<Rightarrow> Inr dc
      | (Some msg, ctx) \<Rightarrow>
          (case inspect_signer_info V msg dc of
             Inl e \<Rightarrow> Inl e
           | Inr dc \<Rightarrow>
               (case sm_payload_data msg of
                  ChunkPacket packet \<Rightarrow> decode_common V (ctx_secured_cast V ctx packet) ind dc
                | CohesivePacket packet \<Rightarrow> decode_common V (ctx_secured_deserialize V ctx packet) ind dc)))"

definition decode_basic ::
  "('ch, 'co, 'c, 'm, 'p, 'd, 'l, 't, 'ce) vanetza \<Rightarrow> 'c \<Rightarrow> ('p, 'd, 't) DataIndication
   \<Rightarrow> ('p, 'd, 'l, ('ch, 'co) PacketVariant) DetectionContext
   \<Rightarrow> failure + ('p, 'd, 'l, ('ch, 'co) PacketVariant) DetectionContext" where
  "decode_basic V ctx ind dc =
     (case parse_basic V ctx of
        (None, ctx) \<Rightarrow> Inr dc
      | (Some basic, ctx) \<Rightarrow>
          let gd = (geonet_data dc)\<lparr>gd_protocol_version := basic_version basic,
                     gd_remaining_packet_lifetime := basic_lifetime basic,
                     gd_remaining_hop_limit := basic_hop_limit basic,
                     gd_next_header := basic_next_header basic\<rparr>
          in if basic_next_header basic = NHB_Secured
             then decode_secured V ctx ind (dc\<lparr>geonet_data := gd\<lparr>gd_security_info := Signed\<rparr>\<rparr>)
             else if basic_next_header basic = NHB_Common
             then decode_common V ctx ind (dc\<lparr>geonet_data := gd\<lparr>gd_security_info := NoSecurity\<rparr>\<rparr>)
             else Inr (dc\<lparr>geonet_data := gd\<rparr>))"

text \<open>\<open>None\<close> is the null pointer.\<close>

definition GeonetDecoder_decode ::
  "('ch, 'co, 'c, 'm, 'p, 'd, 'l, 't, 'ce) vanetza \<Rightarrow> ('ch, 'co) PacketVariant option \<Rightarrow> 'm \<Rightarrow> 'm
   \<Rightarrow> ('p, 'd, 'l, ('ch, 'co) PacketVariant) DetectionContext
   \<Rightarrow> failure + ('p, 'd, 'l, ('ch, 'co) PacketVariant) DetectionContext" where
  "GeonetDecoder_decode V packet sender destination dc =
     (case packet of
        None \<Rightarrow> Inl Assertion_Failed
      | Some pv \<Rightarrow>
          (case pv of
             CohesivePacket p \<Rightarrow> decode_basic V (ctx_deserialize V pv p (sender, destination)) (service_primitive V) dc
           | ChunkPacket p \<Rightarrow> decode_basic V (ctx_cast V pv p (sender, destination)) (service_primitive V) dc))"

section \<open>The payload\<close>

definition payload_step :: "('p, 'd, 'l, 'v) DetectionContext \<Rightarrow> ('p, 'd, 'l, 'v) DetectionContext \<Rightarrow> bool" where
  "payload_step dc dc' \<longleftrightarrow> (\<exists>v. payload dc' = Live v) \<or> btp_data dc' = btp_data dc"

lemma payload_step_trans: "payload_step a b \<Longrightarrow> payload_step b c \<Longrightarrow> btp_data a = btp_data b \<Longrightarrow> payload_step a c"
  by (auto simp: payload_step_def)

lemma BtpDecoder_payload: "\<exists>v. payload (BtpDecoder_decode V ind packet dc) = Live v"
  by (simp add: BtpDecoder_decode_def case_prod_beta)

lemma visit_extended_frame:
  assumes "visit_extended V ctx ext (ind, dc) = (ind', dc')"
  shows "btp_data dc' = btp_data dc" "payload dc' = payload dc" "upper_protocol ind' = upper_protocol ind"
    "\<exists>pos dest. geonet_data dc' = (geonet_data dc)\<lparr>gd_source_position := pos, gd_destination := dest\<rparr>"
proof -
  show "btp_data dc' = btp_data dc" "payload dc' = payload dc" "upper_protocol ind' = upper_protocol ind"
    using assms by (auto simp: visit_extended_def split: ExtendedHeader.splits)
  have "geonet_data dc' = (geonet_data dc)\<lparr>gd_source_position := gd_source_position (geonet_data dc'),
      gd_destination := gd_destination (geonet_data dc')\<rparr>"
    using assms by (auto simp: visit_extended_def split: ExtendedHeader.splits)
  then show "\<exists>pos dest. geonet_data dc' = (geonet_data dc)\<lparr>gd_source_position := pos, gd_destination := dest\<rparr>" by blast
qed

lemma BtpDecoder_geonet [simp]: "geonet_data (BtpDecoder_decode V ind packet dc) = geonet_data dc"
  by (simp add: BtpDecoder_decode_def parse_btp_header_def case_prod_beta split: UpperProtocol.splits)

lemma decode_extended_cases:
  assumes "decode_extended V ctx common ind dc = Inr dc'"
  obtains (broken) "dc' = dc\<lparr>payload := Dangling\<rparr>"
  | (passed) ext ctx1 packet ctx2 ind' dc1 where "parse_extended V ctx (common_header_type common) = (Some ext, ctx1)"
      "finish V ctx1 = (Some packet, ctx2)" "visit_extended V ctx2 ext (ind, dc\<lparr>payload := Live packet\<rparr>) = (ind', dc1)"
      "dc' = BtpDecoder_decode V ind' packet dc1"
  using assms unfolding decode_extended_def pass_up_def
  by (auto split: prod.splits option.splits)

lemma decode_extended_payload:
  assumes "decode_extended V ctx common ind dc = Inr dc'"
  shows "payload_step dc dc'"
  using assms by (rule decode_extended_cases) (auto simp: payload_step_def BtpDecoder_payload)

lemma decode_extended_frame:
  assumes "decode_extended V ctx common ind dc = Inr dc'"
  shows "\<exists>pos dest. geonet_data dc' = (geonet_data dc)\<lparr>gd_source_position := pos, gd_destination := dest\<rparr>"
  using assms
proof (rule decode_extended_cases)
  assume "dc' = dc\<lparr>payload := Dangling\<rparr>"
  then have "geonet_data dc' = (geonet_data dc)\<lparr>gd_source_position := gd_source_position (geonet_data dc),
      gd_destination := gd_destination (geonet_data dc)\<rparr>" by simp
  then show ?thesis by blast
next
  fix ext ctx1 packet ctx2 ind' dc1
  assume v: "visit_extended V ctx2 ext (ind, dc\<lparr>payload := Live packet\<rparr>) = (ind', dc1)" and d: "dc' = BtpDecoder_decode V ind' packet dc1"
  show ?thesis using visit_extended_frame(4) [OF v] d by simp
qed

lemma decode_common_payload: "decode_common V ctx ind dc = Inr dc' \<Longrightarrow> payload_step dc dc'"
  by (auto simp: decode_common_def payload_step_def Let_def split: prod.splits option.splits dest!: decode_extended_payload)

lemma inspect_signer_info_frame:
  assumes "inspect_signer_info V msg dc = Inr dc'"
  shows "btp_data dc' = btp_data dc" "payload dc' = payload dc"
  using assms by (auto simp: inspect_signer_info_def Let_def split: option.splits SignerInfo.splits if_splits)

lemma decode_secured_payload:
  assumes "decode_secured V ctx ind dc = Inr dc'"
  shows "payload_step dc dc'"
proof -
  obtain m ctx1 where p: "parse_secured V ctx = (m, ctx1)" by force
  show ?thesis
  proof (cases m)
    case None
    then show ?thesis using assms p by (simp add: decode_secured_def payload_step_def)
  next
    case (Some msg)
    obtain dc1 where i: "inspect_signer_info V msg dc = Inr dc1"
      using assms p Some by (auto simp: decode_secured_def split: sum.splits)
    obtain ctx2 where "decode_common V ctx2 ind dc1 = Inr dc'"
      using assms p Some i by (auto simp: decode_secured_def split: PacketVariant.splits)
    then have "payload_step dc1 dc'" by (rule decode_common_payload)
    then show ?thesis using inspect_signer_info_frame(1) [OF i] by (auto simp: payload_step_def)
  qed
qed

lemma decode_basic_payload:
  assumes "decode_basic V ctx ind dc = Inr dc'"
  shows "payload_step dc dc'"
  using assms unfolding decode_basic_def Let_def
  by (auto split: prod.splits option.splits if_splits dest!: decode_secured_payload decode_common_payload)
    (auto simp: payload_step_def)

lemma decode_payload:
  assumes "GeonetDecoder_decode V packet s d dc = Inr dc'" "btp_data dc = None" "btp_data dc' \<noteq> None"
  shows "\<exists>v. payload dc' = Live v"
proof -
  have "payload_step dc dc'"
    using assms(1) decode_basic_payload by (auto simp: GeonetDecoder_decode_def split: option.splits PacketVariant.splits)
  then show ?thesis using assms(2,3) by (auto simp: payload_step_def)
qed

section \<open>What a packet determines\<close>

lemma decode_no_basic:
  assumes "fst (parse_basic V ctx) = None"
  shows "decode_basic V ctx ind dc = Inr dc"
  using assms by (cases "parse_basic V ctx") (simp add: decode_basic_def)

lemma decode_common_fields:
  assumes "parse_common V ctx = (Some common, ctx1)" "decode_common V ctx ind dc = Inr dc'"
  shows "gd_header_type (geonet_data dc') = common_header_type common"
    "gd_maximum_hop_limit (geonet_data dc') = common_maximum_hop_limit common"
    "gd_next_header (geonet_data dc') = gd_next_header (geonet_data dc)"
    "gd_security_info (geonet_data dc') = gd_security_info (geonet_data dc)"
proof -
  let ?gd = "(geonet_data dc)\<lparr>gd_header_type := common_header_type common, gd_maximum_hop_limit := common_maximum_hop_limit common\<rparr>"
  obtain ind1 where "decode_extended V ctx1 common ind1 (dc\<lparr>geonet_data := ?gd\<rparr>) = Inr dc'"
    using assms by (auto simp: decode_common_def Let_def)
  then obtain pos dest where g: "geonet_data dc' = ?gd\<lparr>gd_source_position := pos, gd_destination := dest\<rparr>"
    using decode_extended_frame [of V ctx1 common ind1 "dc\<lparr>geonet_data := ?gd\<rparr>" dc'] by auto
  show "gd_header_type (geonet_data dc') = common_header_type common"
    "gd_maximum_hop_limit (geonet_data dc') = common_maximum_hop_limit common"
    "gd_next_header (geonet_data dc') = gd_next_header (geonet_data dc)"
    "gd_security_info (geonet_data dc') = gd_security_info (geonet_data dc)"
    unfolding g by simp_all
qed

text \<open>A packet without a security header: the members the detector looks at are those of the packet.\<close>

lemma decode_plain:
  assumes "parse_basic V ctx = (Some basic, ctx1)" "basic_next_header basic = NHB_Common"
    and "parse_common V ctx1 = (Some common, ctx2)" "parse_extended V ctx2 (common_header_type common) = (Some ext, ctx3)"
    and "finish V ctx3 = (Some packet, ctx4)"
  obtains dc' where "decode_basic V ctx ind dc = Inr dc'"
    "gd_next_header (geonet_data dc') = NHB_Common" "gd_header_type (geonet_data dc') = common_header_type common"
    "gd_maximum_hop_limit (geonet_data dc') = common_maximum_hop_limit common"
    "gd_source_position (geonet_data dc') = (case ext of Shb p \<Rightarrow> p | Gbc p _ \<Rightarrow> p | Beacon \<Rightarrow> gd_source_position (geonet_data dc))"
    "(btp_data dc' \<noteq> btp_data dc) \<longrightarrow> common_next_header common \<in> {NHC_BTP_A, NHC_BTP_B}"
proof -
  have "\<exists>dc'. decode_basic V ctx ind dc = Inr dc' \<and> gd_next_header (geonet_data dc') = NHB_Common
      \<and> gd_header_type (geonet_data dc') = common_header_type common
      \<and> gd_maximum_hop_limit (geonet_data dc') = common_maximum_hop_limit common
      \<and> gd_source_position (geonet_data dc') = (case ext of Shb p \<Rightarrow> p | Gbc p _ \<Rightarrow> p | Beacon \<Rightarrow> gd_source_position (geonet_data dc))
      \<and> (btp_data dc' \<noteq> btp_data dc \<longrightarrow> common_next_header common \<in> {NHC_BTP_A, NHC_BTP_B})"
    using assms by (cases ext; cases "common_next_header common")
      (simp_all add: decode_basic_def decode_common_def decode_extended_def pass_up_def visit_extended_def
        BtpDecoder_decode_def parse_btp_header_def case_prod_beta)
  then show thesis using that by blast
qed

end
