(* ===== verification/Ids_Context.thy ===== *)
theory Ids_Context
  imports Ids_Decoder
begin

text \<open>
  The intrusion detection system as a whole: \<open>mitvane/classifier/classifier.cpp\<close> and
  \<open>mitvane/idps_context.cpp\<close>.

  An application parser is a value of a type variable; \<open>app\<close> has its virtual functions \<open>port\<close> and
  \<open>parse\<close> (the lines written to the standard output). The map of parsers holds pointers: \<open>Some None\<close>
  is an entry with the null pointer. What the local variables hold before they are assigned is not
  determined by the program: it is the argument \<open>junk\<close> of \<open>run\<close>.

  \<^item> \<open>run_spec\<close>: what is logged and whether the packet is forwarded, for rules from the reader.
  \<^item> \<open>reach_inv\<close>: an invariant of all states the system can reach, by rule induction over the
    step relation \<open>idps_step\<close>.
  \<^item> \<open>run_null_parser\<close>, \<open>run_indeterminate\<close>: where \<open>run\<close> relies on what it does not check.
\<close>

section \<open>classifier.cpp\<close>

record ('a, 'v) app =
  app_port :: "'a \<Rightarrow> 16 word"
  app_parse :: "'a \<Rightarrow> 'v \<Rightarrow> string list"

type_synonym 'a port_map = "16 word \<rightharpoonup> 'a option"

text \<open>\<open>operator[]\<close> adds a null pointer if there is no entry. \<open>btp_data\<close> is dereferenced unchecked.\<close>

definition classify ::
  "('p, 'd, 'l, 'v) DetectionContext \<Rightarrow> 'a port_map \<Rightarrow> failure + 'a option \<times> 'a port_map" where
  "classify dc app_layer_parsers =
     (case btp_data dc of
        None \<Rightarrow> Inl Undefined_Behaviour
      | Some btp \<Rightarrow>
          (case app_layer_parsers (destination_port btp) of
             None \<Rightarrow> Inr (None, app_layer_parsers(destination_port btp \<mapsto> None))
           | Some handler \<Rightarrow> Inr (handler, app_layer_parsers)))"

section \<open>idps_context.cpp\<close>

record ('a, 'co) IdpsContext =
  m_app_layer_parsers :: "'a port_map"
  ctx_signatures :: signatures_type
  forwarded :: "'co list"
  logged :: "string list"
  printed :: "string list"

text \<open>What the constructor stores and does not change later, with the constants of Vanetza.\<close>

record ('m, 'p, 'f) idps_config =
  mib_mid :: 'm
  position_fix :: 'f
  is_within :: "'p \<Rightarrow> 'f \<Rightarrow> int \<Rightarrow> bool"
  header_type_codes :: header_types
  ethertype_GeoNetworking :: "16 word"

record 'm EthernetHeader =
  eth_source :: 'm
  eth_destination :: 'm
  eth_type :: "16 word"

text \<open>The indeterminate values of \<open>run\<close>: the plain members of the context, \<open>detection_report.result\<close>,
  \<open>handle_report\<close>.\<close>

record ('p, 'd, 'l) junk =
  junk_geonet :: "('p, 'd, 'l) GeonetData"
  junk_result :: DetectionResult
  junk_report :: HandleReport

definition set_application_layer_parser ::
  "16 word \<Rightarrow> 'a option \<Rightarrow> ('a, 'co) IdpsContext \<Rightarrow> ('a, 'co) IdpsContext" where
  "set_application_layer_parser port handler s =
     s\<lparr>m_app_layer_parsers := (m_app_layer_parsers s)(port \<mapsto> handler)\<rparr>"

definition enable :: "('a, 'v) app \<Rightarrow> 'a \<Rightarrow> ('a, 'co) IdpsContext \<Rightarrow> ('a, 'co) IdpsContext" where
  "enable A app s =
     (if app_port A app \<noteq> 0 then set_application_layer_parser (app_port A app) (Some app) s else s)"

definition disable :: "('a, 'v) app \<Rightarrow> 'a \<Rightarrow> ('a, 'co) IdpsContext \<Rightarrow> ('a, 'co) IdpsContext" where
  "disable A app s =
     (if app_port A app \<noteq> 0 then set_application_layer_parser (app_port A app) None s else s)"

text \<open>The optional members of a new \<open>DetectionContext\<close> are empty.\<close>

definition new_context :: "('p, 'd, 'l, 'x) junk_scheme \<Rightarrow> ('p, 'd, 'l, 'v) DetectionContext" where
  "new_context j =
     \<lparr>geonet_data = (junk_geonet j)\<lparr>gd_destination := None, gd_certificate_id := None, gd_payload_type := None,
        gd_secure_protocol_version := None, gd_signer_info_type := None, gd_chain_size := None\<rparr>,
      btp_data = None, payload = Unset\<rparr>"

text \<open>Steps 2 and 3: the parser is called through a pointer that is not checked.\<close>

definition run_parser ::
  "('a, 'v) app \<Rightarrow> ('p, 'd, 'l, 'v) DetectionContext \<Rightarrow> ('a, 'co) IdpsContext
   \<Rightarrow> failure + ('a, 'co) IdpsContext" where
  "run_parser A dc s =
     (if btp_data dc \<noteq> None then
        (case classify dc (m_app_layer_parsers s) of
           Inl e \<Rightarrow> Inl e
         | Inr (parser, parsers) \<Rightarrow>
             (case parser of
                None \<Rightarrow> Inl Undefined_Behaviour
              | Some app \<Rightarrow>
                  (case payload dc of
                     Live packet \<Rightarrow>
                       Inr (s\<lparr>m_app_layer_parsers := parsers, printed := printed s @ app_parse A app packet\<rparr>)
                   | _ \<Rightarrow> Inl Undefined_Behaviour)))
      else Inr s)"

text \<open>Step 4. \<open>Inr None\<close> is an exception of the detector, which ends the program.\<close>

definition run_detect ::
  "('m, 'p, 'f) idps_config \<Rightarrow> ('p, 'd, 'l) junk \<Rightarrow> ('p, 'd, 'l) GeonetData \<Rightarrow> signatures_type
   \<Rightarrow> (DetectionReport \<times> signatures_type) option" where
  "run_detect C j gd signatures =
     (if map_of signatures GeoNetworking \<noteq> None
      then detect (header_type_codes C) (is_within C) (position_fix C) gd signatures
      else Some (\<lparr>report_sigs = [], report_result = junk_result j\<rparr>, signatures))"

text \<open>Step 5.\<close>

definition run_handle :: "('p, 'd, 'l) junk \<Rightarrow> DetectionReport \<Rightarrow> HandleReport \<times> string list" where
  "run_handle j rep = (if report_result rep = Detected then handle (report_sigs rep) else (junk_report j, []))"

definition run ::
  "('ch, 'co, 'c, 'm, 'p, 'd, 'l, 't, 'ce) vanetza \<Rightarrow> ('a, ('ch, 'co) PacketVariant) app \<Rightarrow> ('m, 'p, 'f) idps_config
   \<Rightarrow> ('p, 'd, 'l) junk \<Rightarrow> 'co \<Rightarrow> 'm EthernetHeader \<Rightarrow> ('a, 'co) IdpsContext \<Rightarrow> failure + ('a, 'co) IdpsContext option" where
  "run V A C j packet hdr s =
     (if eth_source hdr \<noteq> mib_mid C \<and> eth_type hdr = ethertype_GeoNetworking C then
        (case GeonetDecoder_decode V (Some (CohesivePacket packet)) (eth_source hdr) (eth_destination hdr) (new_context j) of
           Inl e \<Rightarrow> Inl e
         | Inr dc \<Rightarrow>
             (case run_parser A dc s of
                Inl e \<Rightarrow> Inl e
              | Inr s \<Rightarrow>
                  (case run_detect C j (geonet_data dc) (ctx_signatures s) of
                     None \<Rightarrow> Inr None
                   | Some (rep, signatures) \<Rightarrow>
                       (case run_handle j rep of
                          (report, lg) \<Rightarrow>
                            let s = s\<lparr>ctx_signatures := signatures, logged := logged s @ lg\<rparr>
                            in Inr (Some (if report \<noteq> HR_Drop then s\<lparr>forwarded := forwarded s @ [packet]\<rparr> else s))))))
      else Inr (Some s))"

section \<open>One packet\<close>

lemma run_parser_frame:
  assumes "run_parser A dc s = Inr s'"
  shows "ctx_signatures s' = ctx_signatures s" "forwarded s' = forwarded s" "logged s' = logged s"
    "m_app_layer_parsers s' = m_app_layer_parsers s" "\<exists>ls. printed s' = printed s @ ls"
proof -
  have "ctx_signatures s' = ctx_signatures s \<and> forwarded s' = forwarded s \<and> logged s' = logged s
      \<and> m_app_layer_parsers s' = m_app_layer_parsers s \<and> (\<exists>ls. printed s' = printed s @ ls)"
  proof (cases "btp_data dc")
    case (Some btp)
    then show ?thesis using assms
      by (auto simp: run_parser_def classify_def split: option.splits pointer.splits)
  qed (use assms in \<open>simp add: run_parser_def\<close>)
  then show "ctx_signatures s' = ctx_signatures s" "forwarded s' = forwarded s" "logged s' = logged s"
    "m_app_layer_parsers s' = m_app_layer_parsers s" "\<exists>ls. printed s' = printed s @ ls" by auto
qed

text \<open>After the decoder, the only thing that can go wrong with the parser is that there is none.\<close>

lemma run_parser_fails:
  assumes "GeonetDecoder_decode V packet src dst (new_context j) = Inr dc" "run_parser A dc s = Inl e"
  obtains btp where "btp_data dc = Some btp" "m_app_layer_parsers s (destination_port btp) \<in> {None, Some None}"
proof -
  obtain btp where b: "btp_data dc = Some btp" using assms(2) by (cases "btp_data dc") (auto simp: run_parser_def)
  obtain v where v: "payload dc = Live v"
    using decode_payload [OF assms(1)] b by (auto simp: new_context_def)
  have "m_app_layer_parsers s (destination_port btp) \<in> {None, Some None}"
    using assms(2) b v by (auto simp: run_parser_def classify_def split: option.splits)
  then show thesis using that b by blast
qed

definition run_relevant :: "('m, 'p, 'f) idps_config \<Rightarrow> 'm EthernetHeader \<Rightarrow> bool" where
  "run_relevant C hdr \<longleftrightarrow> eth_source hdr \<noteq> mib_mid C \<and> eth_type hdr = ethertype_GeoNetworking C"

definition matching ::
  "('m, 'p, 'f) idps_config \<Rightarrow> ('p, 'd, 'l) GeonetData \<Rightarrow> Signature list \<Rightarrow> Signature list" where
  "matching C gd sigs = filter (rule_holds (header_type_codes C) (is_within C) (position_fix C) gd) sigs"

lemma run_spec:
  assumes wt: "signatures_wt (ctx_signatures s)" and sigs: "map_of (ctx_signatures s) GeoNetworking = Some sigs"
    and rel: "run_relevant C hdr"
    and dec: "GeonetDecoder_decode V (Some (CohesivePacket packet)) (eth_source hdr) (eth_destination hdr) (new_context j) = Inr dc"
    and par: "run_parser A dc s = Inr s1"
  defines "M \<equiv> matching C (geonet_data dc) sigs"
  shows "run V A C j packet hdr s = Inr (Some (s1\<lparr>logged := logged s @ map format_log M,
     forwarded := forwarded s @ (if \<exists>x\<in>set M. action x = Drop then [] else [packet])\<rparr>))"
proof -
  note f = run_parser_frame [OF par]
  have "action x \<noteq> NotSupported_Action" if "x \<in> set M" for x
    using that signatures_wt_of(1) [OF wt sigs, of x] by (simp add: M_def matching_def signature_wt_def)
  then have h: "handle M = (if \<exists>x\<in>set M. action x = Drop then HR_Drop else HR_Allow, map format_log M)"
    by (intro handle_wt) blast
  have d: "run_detect C j (geonet_data dc) (ctx_signatures s) = Some (\<lparr>report_sigs = M, report_result = Detected\<rparr>, ctx_signatures s)"
    by (simp add: run_detect_def f M_def matching_def detect_spec [OF wt sigs] sigs)
  have e: "s1\<lparr>ctx_signatures := ctx_signatures s\<rparr> = s1" by (simp flip: f(1))
  show ?thesis using rel unfolding run_def run_relevant_def
    by (simp add: dec par d run_handle_def h f e Let_def)
qed

lemma run_total:
  assumes "signatures_wt (ctx_signatures s)"
  shows "run V A C j packet hdr s \<noteq> Inr None"
proof -
  have "run_detect C j gd (ctx_signatures s1) \<noteq> None" if "run_parser A dc s = Inr s1" for gd dc s1
    using detect_total [OF assms, of "header_type_codes C" "is_within C" "position_fix C" gd]
    by (simp add: run_detect_def run_parser_frame(1) [OF that])
  then have "(case run_parser A dc s of Inl e \<Rightarrow> Inl e | Inr s1 \<Rightarrow>
      (case run_detect C j (geonet_data dc) (ctx_signatures s1) of None \<Rightarrow> Inr None
       | Some (rep, signatures) \<Rightarrow> (case run_handle j rep of (report, lg) \<Rightarrow>
           let s = s1\<lparr>ctx_signatures := signatures, logged := logged s1 @ lg\<rparr>
           in Inr (Some (if report \<noteq> HR_Drop then s\<lparr>forwarded := forwarded s @ [packet]\<rparr> else s))))) \<noteq> Inr None" for dc
    by (cases "run_parser A dc s") (auto simp: Let_def split: option.split prod.split)
  then show ?thesis unfolding run_def by (auto split: sum.split)
qed

lemma run_after_parser:
  assumes wt: "signatures_wt (ctx_signatures s)" and rel: "run_relevant C hdr"
    and dec: "GeonetDecoder_decode V (Some (CohesivePacket packet)) (eth_source hdr) (eth_destination hdr) (new_context j) = Inr dc"
    and par: "run_parser A dc s = Inr s1"
  shows "\<exists>s'. run V A C j packet hdr s = Inr (Some s') \<and> printed s' = printed s1"
proof -
  have "run_detect C j (geonet_data dc) (ctx_signatures s1) \<noteq> None"
    using detect_total [OF wt, of "header_type_codes C" "is_within C" "position_fix C" "geonet_data dc"]
    by (simp add: run_detect_def run_parser_frame(1) [OF par])
  then obtain rep ss where d: "run_detect C j (geonet_data dc) (ctx_signatures s1) = Some (rep, ss)" by auto
  obtain report lg where h: "run_handle j rep = (report, lg)" by force
  show ?thesis using rel unfolding run_def run_relevant_def by (simp add: dec par d h Let_def)
qed

lemma run_irrelevant: "\<not> run_relevant C hdr \<Longrightarrow> run V A C j packet hdr s = Inr (Some s)"
  by (auto simp: run_def run_relevant_def)

lemma run_detect_keeps:
  assumes "run_detect C j gd ss = Some (rep, ss')"
  shows "ss' = ss"
  using assms by (auto simp: run_detect_def detect_def Let_def split: if_splits option.splits bind_splits)

lemma run_cases:
  assumes "run V A C j packet hdr s = Inr (Some s')"
  obtains (skipped) "s' = s"
  | (handled) dc s1 rep report lg where "run_parser A dc s = Inr s1"
      "run_detect C j (geonet_data dc) (ctx_signatures s1) = Some (rep, ctx_signatures s1)"
      "run_handle j rep = (report, lg)"
      "s' = s1\<lparr>logged := logged s1 @ lg, forwarded := forwarded s1 @ (if report \<noteq> HR_Drop then [packet] else [])\<rparr>"
proof (cases "run_relevant C hdr")
  case False
  then show thesis using that(1) assms by (simp add: run_irrelevant)
next
  case True
  then obtain dc s1 rep ss report lg where r: "run_parser A dc s = Inr s1"
      "run_detect C j (geonet_data dc) (ctx_signatures s1) = Some (rep, ss)" "run_handle j rep = (report, lg)"
      "s' = (let s = s1\<lparr>ctx_signatures := ss, logged := logged s1 @ lg\<rparr>
         in if report \<noteq> HR_Drop then s\<lparr>forwarded := forwarded s @ [packet]\<rparr> else s)"
    using assms unfolding run_def run_relevant_def by (auto simp: Let_def split: sum.splits option.splits prod.splits)
  have "ss = ctx_signatures s1" by (rule run_detect_keeps [OF r(2)])
  then show thesis using that(2) [of dc s1 rep report lg] r by (simp add: Let_def)
qed

lemma run_frame:
  assumes "run V A C j packet hdr s = Inr (Some s')"
  shows "ctx_signatures s' = ctx_signatures s" "m_app_layer_parsers s' = m_app_layer_parsers s"
    "forwarded s' = forwarded s \<or> forwarded s' = forwarded s @ [packet]"
    "\<exists>lg. logged s' = logged s @ lg"
  using assms by (cases rule: run_cases; simp add: run_parser_frame)+

section \<open>All executions\<close>

definition idps_init :: "signatures_type \<Rightarrow> ('a, 'co) IdpsContext" where
  "idps_init ss = \<lparr>m_app_layer_parsers = Map.empty, ctx_signatures = ss, forwarded = [], logged = [], printed = []\<rparr>"

text \<open>The own position (\<open>position_fix\<close>) may change from packet to packet.\<close>

inductive idps_step ::
  "('ch, 'co, 'c, 'm, 'p, 'd, 'l, 't, 'ce) vanetza \<Rightarrow> ('a, ('ch, 'co) PacketVariant) app
   \<Rightarrow> ('m, 'p, 'f) idps_config \<Rightarrow> ('a, 'co) IdpsContext \<Rightarrow> ('a, 'co) IdpsContext \<Rightarrow> bool"
  for V A C where
  step_enable: "idps_step V A C s (enable A app s)"
| step_disable: "idps_step V A C s (disable A app s)"
| step_run: "run V A (C\<lparr>position_fix := fix\<rparr>) j packet hdr s = Inr (Some s') \<Longrightarrow> idps_step V A C s s'"

inductive idps_reach ::
  "('ch, 'co, 'c, 'm, 'p, 'd, 'l, 't, 'ce) vanetza \<Rightarrow> ('a, ('ch, 'co) PacketVariant) app
   \<Rightarrow> ('m, 'p, 'f) idps_config \<Rightarrow> signatures_type \<Rightarrow> ('a, 'co) IdpsContext \<Rightarrow> bool"
  for V A C ss where
  reach_init: "idps_reach V A C ss (idps_init ss)"
| reach_step: "idps_reach V A C ss s \<Longrightarrow> idps_step V A C s s' \<Longrightarrow> idps_reach V A C ss s'"

inductive_cases idps_stepE [elim]: "idps_step V A C s s'"

definition idps_inv :: "('a, 'v) app \<Rightarrow> signatures_type \<Rightarrow> ('a, 'co) IdpsContext \<Rightarrow> bool" where
  "idps_inv A ss s \<longleftrightarrow> ctx_signatures s = ss \<and> m_app_layer_parsers s 0 = None
     \<and> (\<forall>p a. m_app_layer_parsers s p = Some (Some a) \<longrightarrow> app_port A a = p)"

lemma idps_step_inv:
  assumes "idps_inv A ss s" "idps_step V A C s s'"
  shows "idps_inv A ss s'"
  using assms(2)
proof cases
  case step_run
  then show ?thesis using assms(1) run_frame [OF step_run] by (simp add: idps_inv_def)
qed (use assms(1) in \<open>auto simp: idps_inv_def enable_def disable_def set_application_layer_parser_def\<close>)

lemma reach_inv: "idps_reach V A C ss s \<Longrightarrow> idps_inv A ss s"
proof (induction rule: idps_reach.induct)
  case reach_init
  show ?case by (simp add: idps_inv_def idps_init_def)
next
  case (reach_step s s')
  then show ?case by (blast intro: idps_step_inv)
qed

lemma idps_step_log:
  assumes "idps_step V A C s s'"
  shows "\<exists>lg. logged s' = logged s @ lg" "\<exists>fw. forwarded s' = forwarded s @ fw"
  using assms
  by (cases; force simp: enable_def disable_def set_application_layer_parser_def dest: run_frame)+

text \<open>
  What the system relies on in its rules, whoever provides them.
\<close>

locale rule_provider =
  fixes rules :: "'r \<Rightarrow> signatures_type option"
  assumes rules_wt: "rules r = Some ss \<Longrightarrow> signatures_wt ss"
begin

lemma run_no_exception:
  assumes "rules r = Some ss" "idps_reach V A C0 ss s"
  shows "run V A C j packet hdr s \<noteq> Inr None"
proof (rule run_total)
  show "signatures_wt (ctx_signatures s)"
    using reach_inv [OF assms(2)] rules_wt [OF assms(1)] by (simp add: idps_inv_def)
qed

text \<open>A packet that is not forwarded has left a line in the log, from a rule with the action \<open>drop\<close>.\<close>

lemma run_dropped_logged:
  assumes "rules r = Some ss" "idps_reach V A C0 ss s" "map_of ss GeoNetworking = Some sigs" "run_relevant C hdr"
    and "run V A C j packet hdr s = Inr (Some s')" "forwarded s' = forwarded s"
  shows "\<exists>sig \<in> set sigs. action sig = Drop \<and> format_log sig \<in> set (drop (length (logged s)) (logged s'))"
proof -
  have ss: "ctx_signatures s = ss" using reach_inv [OF assms(2)] by (simp add: idps_inv_def)
  have wt: "signatures_wt (ctx_signatures s)" using rules_wt [OF assms(1)] ss by simp
  have sg: "map_of (ctx_signatures s) GeoNetworking = Some sigs" using assms(3) ss by simp
  obtain dc where d: "GeonetDecoder_decode V (Some (CohesivePacket packet)) (eth_source hdr) (eth_destination hdr) (new_context j) = Inr dc"
    using assms(4,5) by (auto simp: run_def run_relevant_def split: sum.splits)
  obtain s1 where p: "run_parser A dc s = Inr s1"
    using assms(4,5) d by (auto simp: run_def run_relevant_def split: sum.splits)
  let ?M = "matching C (geonet_data dc) sigs"
  have s': "s' = s1\<lparr>logged := logged s @ map format_log ?M,
     forwarded := forwarded s @ (if \<exists>x\<in>set ?M. action x = Drop then [] else [packet])\<rparr>"
    using run_spec [OF wt sg assms(4) d p] assms(5) by simp
  then obtain x where "x \<in> set ?M" "action x = Drop" using assms(6) by (auto split: if_splits)
  then show ?thesis using s' by (auto simp: matching_def)
qed

end

interpretation reader: rule_provider "\<lambda>(Y, ruleset). map_option snd (read Y ruleset [])"
proof
  fix r ss
  assume a: "(case r of (Y, ruleset) \<Rightarrow> map_option snd (read Y ruleset [])) = Some ss"
  obtain Y ruleset where r: "r = (Y, ruleset)" by force
  obtain st where "read Y ruleset [] = Some (st, ss)" using a r by auto
  then show "signatures_wt ss" by (rule read_success_wt) (simp add: signatures_wt_def)
qed

section \<open>Where it goes wrong\<close>

text \<open>No parser is registered for the destination port.\<close>

lemma run_null_parser:
  assumes "run_relevant C hdr"
    and "GeonetDecoder_decode V (Some (CohesivePacket packet)) (eth_source hdr) (eth_destination hdr) (new_context j) = Inr dc"
    and "btp_data dc = Some btp" "m_app_layer_parsers s (destination_port btp) = None"
  shows "run V A C j packet hdr s = Inl Undefined_Behaviour"
  using assms by (simp add: run_def run_relevant_def run_parser_def classify_def)

text \<open>Without rules for GeoNetworking, whether the packet is forwarded depends on uninitialised memory.\<close>

lemma run_indeterminate:
  assumes "run_relevant C hdr" "map_of (ctx_signatures s) GeoNetworking = None"
    and "GeonetDecoder_decode V (Some (CohesivePacket packet)) (eth_source hdr) (eth_destination hdr) (new_context j) = Inr dc"
    and "run_parser A dc s = Inr s1" "junk_result j = Not_Detected"
  shows "run V A C j packet hdr s = Inr (Some (s1\<lparr>forwarded := forwarded s @ (if junk_report j = HR_Drop then [] else [packet])\<rparr>))"
proof -
  note f = run_parser_frame [OF assms(4)]
  have "run_detect C j (geonet_data dc) (ctx_signatures s) = Some (\<lparr>report_sigs = [], report_result = Not_Detected\<rparr>, ctx_signatures s)"
    using assms(2,5) by (simp add: run_detect_def)
  moreover have e: "s1\<lparr>ctx_signatures := ctx_signatures s\<rparr> = s1" "s1\<lparr>logged := logged s\<rparr> = s1" "s1\<lparr>forwarded := forwarded s\<rparr> = s1"
    by (simp_all flip: f(1,2,3))
  ultimately show ?thesis using assms(1) unfolding run_def run_relevant_def
    by (simp add: assms(3,4) run_handle_def f e Let_def)
qed

end
