(* ===== verification/App_Parsers.thy ===== *)
theory App_Parsers
  imports Facilities Ids_Context
begin

text \<open>
  The application parsers: \<open>vanetza-extension/asn1/packet_visitor.hpp\<close> and the four parsers of
  \<open>mitvane/app_layer_parser\<close>, for CAM, DENM, SPATEM and MAPEM, on the decoder of \<open>Asn1c_Wrapper\<close>. The
  classes differ in the port, the descriptor, the name and the function that prints a message; these are
  fields of \<open>ApplicationParser\<close>, and \<open>parse\<close> is the code they have in common.

  Views of the octets of a packet, the cast of a chunk to a wrapper object and the numbers of the ports
  belong to Vanetza: fields of \<open>packet_api\<close> and arguments.

  \<^item> \<open>its_parse_decodable\<close>: a packet that carries the encoding of a message is reported as decodable, and
    what is printed is that message.
  \<^item> \<open>parse_total\<close>: no packet aborts a parser.
  \<^item> \<open>regional_extension_fails\<close>: no regional extension can be encoded or decoded.
\<close>

record ('ch, 'co) packet_api =
  view_chunk :: "'ch \<Rightarrow> byte list"
  view_cohesive :: "'co \<Rightarrow> byte list"
  chunk_wrapper :: "'ch \<Rightarrow> asn_value option"

section \<open>packet_visitor.hpp\<close>

text \<open>\<open>None\<close> is an abort of the decoder, \<open>Some None\<close> the null pointer.\<close>

definition deserialize :: "asn_TYPE_descriptor \<Rightarrow> byte list \<Rightarrow> asn_value option option" where
  "deserialize td view = decode_per td view"

definition visit_packet ::
  "('ch, 'co) packet_api \<Rightarrow> asn_TYPE_descriptor \<Rightarrow> bool \<Rightarrow> ('ch, 'co) PacketVariant \<Rightarrow> asn_value option option" where
  "visit_packet P td m_deserialize_chunk packet =
     (case packet of
        ChunkPacket p \<Rightarrow>
          (case chunk_wrapper P p of
             Some w \<Rightarrow> Some (Some w)
           | None \<Rightarrow> if m_deserialize_chunk then deserialize td (view_chunk P p) else Some None)
      | CohesivePacket p \<Rightarrow> deserialize td (view_cohesive P p))"

section \<open>app_layer_parser\<close>

record ApplicationParser =
  ap_port :: "16 word"
  ap_name :: string
  ap_type :: asn_TYPE_descriptor
  ap_print :: "asn_value \<Rightarrow> string list"
  print_rx_msg :: bool

definition CamApplicationParser :: "16 word \<Rightarrow> ApplicationParser" where
  "CamApplicationParser ports_CAM =
     \<lparr>ap_port = ports_CAM, ap_name = ''CAM'', ap_type = asn_DEF_CAM, ap_print = print_indented ''  '' 1,
      print_rx_msg = False\<rparr>"

text \<open>\<open>junk\<close>: the two variables of the printing function that may stay unassigned.\<close>

definition DenmApplicationParser :: "int \<times> int \<Rightarrow> 16 word \<Rightarrow> ApplicationParser" where
  "DenmApplicationParser junk ports_DENM =
     \<lparr>ap_port = ports_DENM, ap_name = ''DENM'', ap_type = asn_DEF_DENM, ap_print = print_indented_denm junk ''  '' 1,
      print_rx_msg = False\<rparr>"

definition SpatemApplicationParser :: "16 word \<Rightarrow> ApplicationParser" where
  "SpatemApplicationParser ports_SPAT =
     \<lparr>ap_port = ports_SPAT, ap_name = ''SPATEM'', ap_type = asn_DEF_SPATEM, ap_print = print_indented_spatem ''  '' 1,
      print_rx_msg = False\<rparr>"

definition MapemApplicationParser :: "16 word \<Rightarrow> ApplicationParser" where
  "MapemApplicationParser ports_TOPO =
     \<lparr>ap_port = ports_TOPO, ap_name = ''MAPEM'', ap_type = asn_DEF_MAPEM, ap_print = print_indented_mapem ''  '' 1,
      print_rx_msg = False\<rparr>"

definition print_received_message :: "bool \<Rightarrow> ApplicationParser \<Rightarrow> ApplicationParser" where
  "print_received_message flag a = a\<lparr>print_rx_msg := flag\<rparr>"

text \<open>The lines on the standard output.\<close>

definition parse ::
  "('ch, 'co) packet_api \<Rightarrow> ApplicationParser \<Rightarrow> ('ch, 'co) PacketVariant \<Rightarrow> string list option" where
  "parse P a packet =
     map_option (\<lambda>msg.
       (ap_name a @ '' application received a packet with ''
          @ (if msg \<noteq> None then ''decodable'' else ''broken'') @ '' content'')
       # (case msg of
            Some m \<Rightarrow> if print_rx_msg a then (''Received '' @ ap_name a @ '' contains'') # ap_print a m else []
          | None \<Rightarrow> []))
       (visit_packet P (ap_type a) True packet)"

section \<open>Properties\<close>

lemma visit_total: "visit_packet P td b packet \<noteq> None"
  using decode_per_total by (auto simp: visit_packet_def deserialize_def split: PacketVariant.splits option.splits)

lemma parse_total: "parse P a packet \<noteq> None"
  using visit_total [of P "ap_type a" True packet] by (simp add: parse_def)

lemma parse_decodable:
  assumes "fits (ap_type a) m" "wire_of (ap_type a) m \<noteq> []"
    and "encode_per (ap_type a) m = Inr (view_cohesive P p)" "print_rx_msg a"
  shows "parse P a (CohesivePacket p)
    = Some ((ap_name a @ '' application received a packet with decodable content'')
        # (''Received '' @ ap_name a @ '' contains'') # ap_print a m)"
  using decode_encode_per [OF assms(1-3)] assms(4)
  by (simp add: parse_def visit_packet_def deserialize_def)

text \<open>No encoding of a message is empty: it has at least the protocol version.\<close>

lemma seq_wire_first:
  assumes "seq_ok ok td ms" "td_elements td = MBR ptr False ty pc def # es" "first_extension (seq_specs td) < 0"
  obtains v where "ok ty pc v" "length (wire ty pc v) \<le> length (seq_wire wire td ms)"
proof -
  define elm where elm: "elm = MBR ptr False ty pc def"
  obtain m ms' where ms: "ms = m # ms'" using assms(1,2) by (cases ms) (auto simp: seq_ok_def)
  have r: "seq_roots td ms = (elm, m) # zip es (take (length es) ms')"
    using assms(2,3) ms by (simp add: seq_roots_def seq_root_count_def elm)
  then have "seq_member_ok ok elm m" using assms(1) by (simp add: seq_ok_def)
  then obtain v where v: "m = Some v" "ok ty pc v" by (auto simp: elm seq_member_ok_def split: option.splits)
  have "length (wire ty pc v) \<le> length (seq_wire wire td ms)"
    using v(1) by (simp add: seq_wire_def r seq_member_bits_def elm)
  then show thesis using that ms v by blast
qed

lemma uper_ok_sequence: "uper_ok (Suc n) td c v \<Longrightarrow> td_op td = OP_SEQUENCE \<Longrightarrow> \<exists>ms. v = V_SEQUENCE ms \<and> seq_ok (uper_ok n) td ms"
  by (auto split: asn_value.splits)

lemmas its_header_defs = asn_DEF_ItsPduHeader_def asn_MBR_ItsPduHeader_1_def asn_SPC_ItsPduHeader_specs_1_def
  asn_DEF_NativeInteger_def asn_PER_memb_protocolVersion_constr_2_def apc_def

lemma header_first: "td_elements asn_DEF_ItsPduHeader = MBR False False asn_DEF_NativeInteger (Some asn_PER_memb_protocolVersion_constr_2) None
      # tl asn_MBR_ItsPduHeader_1"
    "first_extension (seq_specs asn_DEF_ItsPduHeader) < 0"
  by (simp_all add: asn_DEF_ItsPduHeader_def asn_MBR_ItsPduHeader_1_def asn_SPC_ItsPduHeader_specs_1_def seq_specs_def)

lemma protocolVersion_wire:
  assumes "uper_ok (Suc n) asn_DEF_NativeInteger (Some asn_PER_memb_protocolVersion_constr_2) v"
  shows "8 \<le> length (uper_wire (Suc n) asn_DEF_NativeInteger (Some asn_PER_memb_protocolVersion_constr_2) v)"
proof -
  have ok: "simple_ok asn_DEF_NativeInteger (Some asn_PER_memb_protocolVersion_constr_2) v"
    using assms by (simp add: asn_DEF_NativeInteger_def)
  then obtain i where v: "v = V_long i" by (cases v) (auto simp: simple_ok_def asn_DEF_NativeInteger_def)
  with ok have "\<not> int_inext (pc_value asn_PER_memb_protocolVersion_constr_2) i"
    by (auto simp: simple_ok_def native_int_ok_def int_ok_def value_constraint_def pick_constraints_def its_header_defs)
  then show ?thesis unfolding v
    by (auto simp: simple_wire_def int_bits_def value_constraint_def pick_constraints_def its_header_defs)
qed

text \<open>The messages are structures that begin with the header.\<close>

definition its_message :: "asn_TYPE_descriptor \<Rightarrow> bool" where
  "its_message td \<longleftrightarrow> td_op td = OP_SEQUENCE \<and> take 1 (td_elements td) = [MBR False False asn_DEF_ItsPduHeader None None]
     \<and> first_extension (seq_specs td) < 0 \<and> 3 \<le> td_depth td"

lemma its_wire_length:
  assumes its: "its_message td" and ok: "uper_ok (Suc (Suc (Suc n))) td None m"
  shows "8 \<le> length (uper_wire (Suc (Suc (Suc n))) td None m)"
proof -
  obtain ms where ms: "m = V_SEQUENCE ms" "seq_ok (uper_ok (Suc (Suc n))) td ms"
    using uper_ok_sequence [OF ok] its by (auto simp: its_message_def)
  obtain es where es: "td_elements td = MBR False False asn_DEF_ItsPduHeader None None # es" "first_extension (seq_specs td) < 0"
    using its by (cases "td_elements td") (auto simp: its_message_def)
  obtain h where h: "uper_ok (Suc (Suc n)) asn_DEF_ItsPduHeader None h"
      "length (uper_wire (Suc (Suc n)) asn_DEF_ItsPduHeader None h) \<le> length (seq_wire (uper_wire (Suc (Suc n))) td ms)"
    by (rule seq_wire_first [OF ms(2) es, of "uper_wire (Suc (Suc n))"])
  obtain hs where hs: "h = V_SEQUENCE hs" "seq_ok (uper_ok (Suc n)) asn_DEF_ItsPduHeader hs"
    using uper_ok_sequence [OF h(1)] by (auto simp: asn_DEF_ItsPduHeader_def)
  obtain v where v: "uper_ok (Suc n) asn_DEF_NativeInteger (Some asn_PER_memb_protocolVersion_constr_2) v"
      "length (uper_wire (Suc n) asn_DEF_NativeInteger (Some asn_PER_memb_protocolVersion_constr_2) v)
        \<le> length (seq_wire (uper_wire (Suc n)) asn_DEF_ItsPduHeader hs)"
    by (rule seq_wire_first [OF hs(2) header_first, of "uper_wire (Suc n)"])
  have "8 \<le> length (seq_wire (uper_wire (Suc n)) asn_DEF_ItsPduHeader hs)" using protocolVersion_wire [OF v(1)] v(2) by linarith
  then have "8 \<le> length (seq_wire (uper_wire (Suc (Suc n))) td ms)" using h(2) hs(1) by simp
  then show ?thesis unfolding ms(1) by simp
qed

lemma its_wire_nonempty:
  assumes "its_message td" "fits td m"
  shows "wire_of td m \<noteq> []"
proof -
  obtain n where "td_depth td = Suc (Suc (Suc n))"
    using assms(1) le_Suc_ex [of 3 "td_depth td"] by (auto simp: its_message_def)
  then show ?thesis using its_wire_length [OF assms(1), of n m] assms(2) by auto
qed

lemma its_messages: "its_message asn_DEF_CAM" "its_message asn_DEF_DENM" "its_message asn_DEF_SPATEM" "its_message asn_DEF_MAPEM"
  by (simp_all add: its_message_def asn_DEF_CAM_def asn_MBR_CAM_1_def asn_SPC_CAM_specs_1_def
      asn_DEF_DENM_def asn_MBR_DENM_1_def asn_SPC_DENM_specs_1_def asn_DEF_SPATEM_def asn_MBR_SPATEM_1_def asn_SPC_SPATEM_specs_1_def
      asn_DEF_MAPEM_def asn_MBR_MAPEM_1_def asn_SPC_MAPEM_specs_1_def seq_specs_def asn_DEF_ItsPduHeader_def asn_MBR_ItsPduHeader_1_def
      asn_DEF_NativeInteger_def le_max_iff_disj)

text \<open>A packet that carries a message.\<close>

lemma its_parse_decodable:
  assumes "its_message (ap_type a)" "fits (ap_type a) m" "encode_per (ap_type a) m = Inr (view_cohesive P p)" "print_rx_msg a"
  shows "parse P a (CohesivePacket p)
    = Some ((ap_name a @ '' application received a packet with decodable content'')
        # (''Received '' @ ap_name a @ '' contains'') # ap_print a m)"
  by (rule parse_decodable [OF assms(2) its_wire_nonempty [OF assms(1,2)] assms(3,4)])

text \<open>
  A regional extension cannot be decoded and not be encoded: its value is an open type without a table
  of types.
\<close>

lemma regExtValue_fails:
  "uper_decoder_op n asn_DEF_regExtValue_3 c pd = (RC_FAIL, pd)" "fst (uper_encoder_op n asn_DEF_regExtValue_3 c v po) = -1"
  by (cases n; simp add: asn_DEF_regExtValue_3_def simple_decoder_def simple_encoder_def OPEN_TYPE_uper_get_def
      OPEN_TYPE_encode_uper_def split: asn_value.split)+

lemma regional_extension_fails: "fst (uper_decoder_op n asn_DEF_RegionalExtension_369P0 c pd) \<noteq> RC_OK v k"
proof (cases n)
  case 0
  then show ?thesis by (simp add: asn_DEF_RegionalExtension_369P0_def simple_decoder_def)
next
  case (Suc m)
  then show ?thesis
    by (simp add: asn_DEF_RegionalExtension_369P0_def SEQUENCE_decode_uper_def seq_specs_def seq_root_count_def
        asn_SPC_RegionalExtension_369P0_specs_1_def asn_MBR_RegionalExtension_369P0_1_def regExtValue_fails
        split: prod.split asn_dec_rval.split)
qed

lemma regional_extension_encode_fails:
  "fst (uper_encoder_op n asn_DEF_RegionalExtension_369P0 c (V_SEQUENCE [region, ext]) po) = -1"
proof (cases n)
  case 0
  then show ?thesis by (simp add: asn_DEF_RegionalExtension_369P0_def simple_encoder_def)
next
  case (Suc m)
  have x: "fst (enc_member (uper_encoder_op m) (MBR False False asn_DEF_regExtValue_3 pc None) ext po) = -1" for po pc
    by (auto simp: enc_member_def regExtValue_fails split: option.split)
  show ?thesis using Suc
    by (auto simp: asn_DEF_RegionalExtension_369P0_def SEQUENCE_encode_uper_def seq_specs_def seq_root_count_def
        asn_SPC_RegionalExtension_369P0_specs_1_def asn_MBR_RegionalExtension_369P0_1_def seq_is_default_def case_prod_beta x)
qed

text \<open>The interface of the system to its parsers, provided by this component.\<close>

definition parsers_app :: "('ch, 'co) packet_api \<Rightarrow> (ApplicationParser, ('ch, 'co) PacketVariant) app" where
  "parsers_app P = \<lparr>app_port = ap_port, app_parse = (\<lambda>a v. the (parse P a v))\<rparr>"

end
