(* ===== verification/Link_Layer.thy ===== *)
theory Link_Layer
  imports Ids_Context
begin

text \<open>
  The link layers that feed the system: \<open>mitvane/raw_socket_link.cpp\<close> and, for the Cohda radio,
  \<open>cohda_link.cpp\<close> with \<open>cohda.cpp\<close>.

  \<open>CohesivePacket\<close>, the structures of the radio and the link layer of ITS-G5 belong to Vanetza and
  the SDK of the radio; the functions on them are the fields of \<open>packet_layers\<close> and \<open>cohda_sdk\<close>. The
  socket delivers a sequence of completions, each an error or the octets of a frame; \<open>link_run\<close> is
  the event loop over them, with the callback as an argument.

  \<^item> \<open>link_run_frames\<close>: as long as there is no error, every frame with a valid header is given to the
    system, in the order of arrival, and a new receive is started.
  \<^item> \<open>link_run_error\<close>: the first error ends the reception for good.
  \<^item> \<open>raw_request_frame\<close>, \<open>cohda_request_frame\<close>: what \<open>request\<close> sends. The lengths in the header of the radio are those of
    the frame only if the packet had no physical layer before.
\<close>

section \<open>Packets\<close>

datatype OsiLayer = Physical | Link | Network | Transport | Session | Presentation | Application

record ('pk, 'm) packet_layers =
  new_packet :: "8 word list \<Rightarrow> 'pk"
  set_boundary :: "OsiLayer \<Rightarrow> nat \<Rightarrow> 'pk \<Rightarrow> 'pk"
  trim :: "OsiLayer \<Rightarrow> nat \<Rightarrow> 'pk \<Rightarrow> 'pk"
  size_from :: "OsiLayer \<Rightarrow> 'pk \<Rightarrow> nat"
  packet_size :: "'pk \<Rightarrow> nat"
  layer :: "'pk \<Rightarrow> OsiLayer \<Rightarrow> 8 word list"
  EthernetHeader_length_bytes :: nat
  decode_ethernet_header :: "8 word list \<Rightarrow> 'm EthernetHeader"

record ('ll, 'm) cohda_sdk =
  sizeof_RxPacket :: nat
  G5LinkLayer_length_bytes :: nat
  fcs_length_bytes :: nat
  Hdr_is_rxpacket :: "8 word list \<Rightarrow> bool"
  Hdr_Len :: "8 word list \<Rightarrow> nat"
  RxFrameLength :: "8 word list \<Rightarrow> nat"
  FCSPass :: "8 word list \<Rightarrow> bool"
  deserialize_link_layer :: "8 word list \<Rightarrow> 'll"
  check_fixed_fields :: "'ll \<Rightarrow> bool"
  mac_destination :: "'ll \<Rightarrow> 'm"
  mac_source :: "'ll \<Rightarrow> 'm"
  protocol_id :: "'ll \<Rightarrow> 16 word"

section \<open>raw_socket_link.cpp\<close>

definition parse_ethernet_header :: "('pk, 'm) packet_layers \<Rightarrow> 'pk \<Rightarrow> 'm EthernetHeader option \<times> 'pk" where
  "parse_ethernet_header P packet =
     (let packet = set_boundary P Physical 0 packet
      in if size_from P Link packet < EthernetHeader_length_bytes P then (None, packet)
         else let packet = set_boundary P Link (EthernetHeader_length_bytes P) packet
              in (Some (decode_ethernet_header P (layer P packet Link)), packet))"

section \<open>cohda.cpp\<close>

definition strip_cohda_rx_header ::
  "('pk, 'm) packet_layers \<Rightarrow> ('ll, 'm) cohda_sdk \<Rightarrow> 'pk \<Rightarrow> 'm EthernetHeader option \<times> 'pk" where
  "strip_cohda_rx_header P K packet =
     (let min_length = sizeof_RxPacket K + G5LinkLayer_length_bytes K + fcs_length_bytes K
      in if size_from P Physical packet < min_length then (None, packet)
         else
           let packet = set_boundary P Physical (sizeof_RxPacket K) packet; phy = layer P packet Physical
           in if \<not> Hdr_is_rxpacket K phy then (None, packet)
              else if Hdr_Len K phy \<noteq> packet_size P packet
                \<or> RxFrameLength K phy \<noteq> packet_size P packet - sizeof_RxPacket K then (None, packet)
              else if \<not> FCSPass K phy then (None, packet)
              else
                let packet = trim P Link (packet_size P packet - fcs_length_bytes K) packet;
                    packet = set_boundary P Link (G5LinkLayer_length_bytes K) packet;
                    link_layer = deserialize_link_layer K (layer P packet Link)
                in if \<not> check_fixed_fields K link_layer then (None, packet)
                   else (Some \<lparr>eth_source = mac_source K link_layer, eth_destination = mac_destination K link_layer,
                               eth_type = protocol_id K link_layer\<rparr>, packet))"

section \<open>The receive loop\<close>

text \<open>\<open>receiving\<close>: an asynchronous receive is under way.\<close>

record 'c RawSocketLink =
  receiving :: bool
  callback_state :: 'c

definition do_receive :: "'c RawSocketLink \<Rightarrow> 'c RawSocketLink" where
  "do_receive l = l\<lparr>receiving := True\<rparr>"

text \<open>
  \<open>hdr\<close> is the virtual function \<open>parse_ethernet_header\<close>; the result of the callback is that of \<open>run\<close>: a
  failure, \<open>Inr None\<close> for an exception, or the new state.
\<close>

definition on_read ::
  "('pk, 'm) packet_layers \<Rightarrow> ('pk \<Rightarrow> 'm EthernetHeader option \<times> 'pk)
   \<Rightarrow> ('pk \<Rightarrow> 'm EthernetHeader \<Rightarrow> 'c \<Rightarrow> failure + 'c option) option
   \<Rightarrow> bool \<Rightarrow> 8 word list \<Rightarrow> 'c RawSocketLink \<Rightarrow> failure + 'c RawSocketLink option" where
  "on_read P hdr callback ec data l =
     (if \<not> ec then
        (case hdr (new_packet P data) of
           (eth, packet) \<Rightarrow>
             (case (callback, eth) of
                (Some f, Some h) \<Rightarrow>
                  map_sum id (map_option (\<lambda>c. do_receive (l\<lparr>callback_state := c\<rparr>))) (f packet h (callback_state l))
              | _ \<Rightarrow> Inr (Some (do_receive l))))
      else Inr (Some l))"

text \<open>
  Each completion comes with the data \<open>w\<close> the callback reads from elsewhere: the position of the own
  station, and the content of variables that are not initialised.
\<close>

fun link_run ::
  "('pk, 'm) packet_layers \<Rightarrow> ('pk \<Rightarrow> 'm EthernetHeader option \<times> 'pk)
   \<Rightarrow> ('w \<Rightarrow> 'pk \<Rightarrow> 'm EthernetHeader \<Rightarrow> 'c \<Rightarrow> failure + 'c option) option
   \<Rightarrow> (bool \<times> 8 word list \<times> 'w) list \<Rightarrow> 'c RawSocketLink \<Rightarrow> failure + 'c RawSocketLink option" where
  "link_run P hdr callback [] l = Inr (Some l)"
| "link_run P hdr callback ((ec, data, w) # events) l =
     (if receiving l then
        (case on_read P hdr (map_option (\<lambda>f. f w) callback) ec data (l\<lparr>receiving := False\<rparr>) of
           Inl e \<Rightarrow> Inl e
         | Inr None \<Rightarrow> Inr None
         | Inr (Some l) \<Rightarrow> link_run P hdr callback events l)
      else Inr (Some l))"

section \<open>Sending\<close>

text \<open>
  \<open>ChunkPacket\<close> has a buffer for each layer; \<open>osi_layers\<close> is \<open>osi_layer_range\<close> from Physical to Application.
  \<open>socket_.send\<close> sends the buffers as one frame. The headers are made by Vanetza and, for the radio, laid out by its
  SDK: \<open>ethernet_header\<close> is \<open>create_ethernet_header\<close>, \<open>g5_link_layer\<close> the serialised \<open>G5LinkLayer\<close> with these addresses and
  this priority, \<open>tx_packet\<close> the octets of a \<open>tMKxTxPacket\<close> with \<open>Hdr.Len\<close> and \<open>TxFrameLength\<close>. \<open>None\<close> is a failed assertion.
\<close>

type_synonym chunk_packet = "OsiLayer \<Rightarrow> 8 word list"

record ('m, 'ac) DataRequest =
  destination_addr :: 'm
  source_addr :: 'm
  ether_type :: "16 word"
  access_category :: 'ac

record ('m, 'ac) tx_headers =
  ethernet_header :: "'m \<Rightarrow> 'm \<Rightarrow> 16 word \<Rightarrow> 8 word list"
  g5_link_layer :: "'m \<Rightarrow> 'm \<Rightarrow> 'ac \<Rightarrow> 8 word list"
  tx_G5LinkLayer_length_bytes :: nat
  sizeof_TxPacket :: nat
  tx_packet :: "nat \<Rightarrow> nat \<Rightarrow> 8 word list"

definition osi_layers :: "OsiLayer list" where
  "osi_layers = [Physical, Link, Network, Transport, Session, Presentation, Application]"

definition chunk_size :: "chunk_packet \<Rightarrow> nat" where
  "chunk_size packet = sum_list (map (length \<circ> packet) osi_layers)"

definition transmit_chunk :: "chunk_packet \<Rightarrow> 8 word list" where
  "transmit_chunk packet = concat (map packet osi_layers)"

definition raw_request :: "('m, 'ac) tx_headers \<Rightarrow> ('m, 'ac) DataRequest \<Rightarrow> chunk_packet \<Rightarrow> 8 word list" where
  "raw_request X request packet =
     transmit_chunk (packet(Link := ethernet_header X (destination_addr request) (source_addr request) (ether_type request)))"

definition insert_cohda_tx_header ::
  "('m, 'ac) tx_headers \<Rightarrow> ('m, 'ac) DataRequest \<Rightarrow> chunk_packet \<Rightarrow> chunk_packet option" where
  "insert_cohda_tx_header X request packet =
     (let link_layer_buffer = g5_link_layer X (destination_addr request) (source_addr request) (access_category request)
      in if length link_layer_buffer \<noteq> tx_G5LinkLayer_length_bytes X then None
         else
           let packet = packet(Link := link_layer_buffer);
               payload_size = chunk_size packet;
               total_size = sizeof_TxPacket X + payload_size
           in Some (packet(Physical := tx_packet X total_size payload_size)))"

definition cohda_request :: "('m, 'ac) tx_headers \<Rightarrow> ('m, 'ac) DataRequest \<Rightarrow> chunk_packet \<Rightarrow> 8 word list option" where
  "cohda_request X request packet = map_option transmit_chunk (insert_cohda_tx_header X request packet)"

abbreviation upper_layers :: "chunk_packet \<Rightarrow> 8 word list" where
  "upper_layers packet \<equiv> concat (map packet [Network, Transport, Session, Presentation, Application])"

lemma raw_request_frame:
  "raw_request X request packet = packet Physical
     @ ethernet_header X (destination_addr request) (source_addr request) (ether_type request) @ upper_layers packet"
  by (simp add: raw_request_def transmit_chunk_def osi_layers_def)

lemma cohda_request_frame:
  assumes "length (g5_link_layer X (destination_addr r) (source_addr r) (access_category r)) = tx_G5LinkLayer_length_bytes X"
    and "n = length (packet Physical) + tx_G5LinkLayer_length_bytes X + length (upper_layers packet)"
  shows "cohda_request X r packet = Some (tx_packet X (sizeof_TxPacket X + n) n
      @ g5_link_layer X (destination_addr r) (source_addr r) (access_category r) @ upper_layers packet)"
  using assms
  by (simp add: cohda_request_def insert_cohda_tx_header_def transmit_chunk_def osi_layers_def chunk_size_def Let_def add.assoc)

section \<open>What the callback sees\<close>

text \<open>The specification: the frames with a header, and the callback on each of them in turn.\<close>

definition accepted ::
  "('pk, 'm) packet_layers \<Rightarrow> ('pk \<Rightarrow> 'm EthernetHeader option \<times> 'pk) \<Rightarrow> (8 word list \<times> 'w) list
   \<Rightarrow> ('w \<times> 'pk \<times> 'm EthernetHeader) list" where
  "accepted P hdr frames =
     List.map_filter (\<lambda>(d, w). case hdr (new_packet P d) of (Some h, packet) \<Rightarrow> Some (w, packet, h) | _ \<Rightarrow> None) frames"

fun run_all :: "('w \<Rightarrow> 'pk \<Rightarrow> 'h \<Rightarrow> 'c \<Rightarrow> failure + 'c option) \<Rightarrow> ('w \<times> 'pk \<times> 'h) list \<Rightarrow> 'c \<Rightarrow> failure + 'c option" where
  "run_all f [] c = Inr (Some c)"
| "run_all f ((w, packet, h) # ps) c =
     (case f w packet h c of Inl e \<Rightarrow> Inl e | Inr None \<Rightarrow> Inr None | Inr (Some c) \<Rightarrow> run_all f ps c)"

lemma accepted_simps [simp]: "accepted P hdr [] = []"
  "accepted P hdr ((d, w) # ds)
    = (case hdr (new_packet P d) of (Some h, packet) \<Rightarrow> (w, packet, h) # accepted P hdr ds | _ \<Rightarrow> accepted P hdr ds)"
  by (auto simp: accepted_def List.map_filter_simps split: prod.split option.split)

lemma receiving_upd: "receiving l \<Longrightarrow> l\<lparr>receiving := True\<rparr> = l"
  by (cases l) simp

lemma link_run_append:
  "receiving l \<Longrightarrow> link_run P hdr (Some f) (map (Pair False) ds @ events) l
     = (case run_all f (accepted P hdr ds) (callback_state l) of
          Inl e \<Rightarrow> Inl e
        | Inr None \<Rightarrow> Inr None
        | Inr (Some c) \<Rightarrow> link_run P hdr (Some f) events (l\<lparr>receiving := True, callback_state := c\<rparr>))"
proof (induction ds arbitrary: l)
  case (Cons dw ds)
  obtain d w where dw: "dw = (d, w)" by force
  obtain eth packet where h: "hdr (new_packet P d) = (eth, packet)" by force
  show ?case
  proof (cases eth)
    case None
    then show ?thesis using Cons h by (auto simp: dw on_read_def do_receive_def split: sum.split option.split)
  next
    case (Some e)
    then show ?thesis using Cons h
      by (auto simp: dw on_read_def do_receive_def split: sum.split option.split)
  qed
qed (simp add: receiving_upd)

text \<open>Without an error all frames are handled, and the next receive is under way.\<close>

lemma link_run_frames:
  assumes "receiving l"
  shows "link_run P hdr (Some f) (map (Pair False) ds) l
     = map_sum id (map_option (\<lambda>c. l\<lparr>receiving := True, callback_state := c\<rparr>)) (run_all f (accepted P hdr ds) (callback_state l))"
  using link_run_append [OF assms, of P hdr f ds "[]"] by (auto split: sum.splits option.splits)

text \<open>After an error nothing is handled any more.\<close>

lemma link_run_error:
  assumes "receiving l"
  shows "link_run P hdr (Some f) (map (Pair False) ds @ (True, d) # events) l
     = map_sum id (map_option (\<lambda>c. l\<lparr>receiving := False, callback_state := c\<rparr>)) (run_all f (accepted P hdr ds) (callback_state l))"
proof -
  have "link_run P hdr (Some f) ((True, d) # events) (l\<lparr>receiving := True, callback_state := c\<rparr>)
      = Inr (Some (l\<lparr>receiving := False, callback_state := c\<rparr>))" for c
    by (cases d; cases events) (auto simp: on_read_def)
  then show ?thesis unfolding link_run_append [OF assms] by (auto split: sum.split option.split)
qed

text \<open>What holds for the state and is kept by the callback holds after every execution.\<close>

lemma map_sum_cases:
  "map_sum id (map_option g) r = Inr (Some y) \<Longrightarrow> \<exists>x. r = Inr (Some x) \<and> y = g x"
  "map_sum id (map_option g) r = Inr None \<Longrightarrow> r = Inr None"
  by (cases r; auto)+

lemma on_read_state:
  assumes "on_read P hdr (Some f) ec d l = Inr (Some l')"
  shows "callback_state l' = callback_state l \<or> (\<exists>packet h. f packet h (callback_state l) = Inr (Some (callback_state l')))"
  using assms by (auto simp: on_read_def do_receive_def split: if_splits prod.splits option.splits dest!: map_sum_cases(1))

lemma on_read_exception:
  assumes "on_read P hdr (Some f) ec d l = Inr None"
  shows "\<exists>packet h. f packet h (callback_state l) = Inr None"
  using assms by (auto simp: on_read_def do_receive_def split: if_splits prod.splits option.splits dest!: map_sum_cases(2))

text \<open>
  The contract between the link and the object behind its callback: the callback keeps an invariant of
  the object, and raises no exception where the invariant holds.
\<close>

locale frame_handler =
  fixes handler :: "'w \<Rightarrow> 'pk \<Rightarrow> 'm EthernetHeader \<Rightarrow> 'c \<Rightarrow> failure + 'c option" and inv :: "'c \<Rightarrow> bool"
  assumes handler_inv: "inv c \<Longrightarrow> handler w packet h c = Inr (Some c') \<Longrightarrow> inv c'"
    and handler_total: "inv c \<Longrightarrow> handler w packet h c \<noteq> Inr None"
begin

lemma on_read_inv:
  assumes "on_read P hdr (Some (handler w)) ec d l = Inr (Some l')" "inv (callback_state l)"
  shows "inv (callback_state l')"
  using on_read_state [OF assms(1)] assms(2) handler_inv by auto

lemma link_run_inv:
  assumes "link_run P hdr (Some handler) events l = Inr (Some l')" "inv (callback_state l)"
  shows "inv (callback_state l')"
  using assms
proof (induction events arbitrary: l)
  case (Cons e events)
  obtain ec d w where e: "e = (ec, d, w)" by (metis prod.exhaust)
  show ?case
  proof (cases "receiving l")
    case True
    then obtain l1 where l1: "on_read P hdr (Some (handler w)) ec d (l\<lparr>receiving := False\<rparr>) = Inr (Some l1)"
        "link_run P hdr (Some handler) events l1 = Inr (Some l')"
      using Cons.prems(1) by (auto simp: e split: sum.splits option.splits)
    have "inv (callback_state l1)" by (rule on_read_inv [OF l1(1)]) (simp add: Cons.prems(2))
    then show ?thesis by (rule Cons.IH [OF l1(2)])
  qed (use Cons.prems in \<open>simp add: e\<close>)
qed simp

lemma link_run_total:
  assumes "inv (callback_state l)"
  shows "link_run P hdr (Some handler) events l \<noteq> Inr None"
  using assms
proof (induction events arbitrary: l)
  case (Cons e events)
  obtain ec d w where e: "e = (ec, d, w)" by (metis prod.exhaust)
  have "inv (callback_state l1)" if "on_read P hdr (Some (handler w)) ec d (l\<lparr>receiving := False\<rparr>) = Inr (Some l1)" for l1
    by (rule on_read_inv [OF that]) (simp add: Cons.prems)
  moreover have "on_read P hdr (Some (handler w)) ec d (l\<lparr>receiving := False\<rparr>) \<noteq> Inr None"
    using on_read_exception [of P hdr "handler w" ec d "l\<lparr>receiving := False\<rparr>"] handler_total Cons.prems by auto
  ultimately show ?case using Cons.IH by (auto simp: e split: sum.split option.split)
qed simp

end

text \<open>A frame that the radio reports as corrupted does not reach the callback.\<close>

lemma strip_cohda_checks:
  assumes "strip_cohda_rx_header P K packet = (Some h, packet')"
  shows "sizeof_RxPacket K + G5LinkLayer_length_bytes K + fcs_length_bytes K \<le> size_from P Physical packet"
    "FCSPass K (layer P (set_boundary P Physical (sizeof_RxPacket K) packet) Physical)"
    "RxFrameLength K (layer P (set_boundary P Physical (sizeof_RxPacket K) packet) Physical)
       = packet_size P (set_boundary P Physical (sizeof_RxPacket K) packet) - sizeof_RxPacket K"
  using assms by (auto simp: strip_cohda_rx_header_def Let_def split: if_splits)

section \<open>Properties\<close>

text \<open>
  C19. The frames that arrive before the first receive error and have a valid header are given
  to the callback, all of them, in the order of arrival; after the first receive error no frame
  is received any more.
\<close>

theorem link_delivers_until_error:
  assumes "receiving l"
  shows "link_run P hdr (Some f) (map (Pair False) ds @ (True, d) # events) l
    = map_sum id (map_option (\<lambda>c. l\<lparr>receiving := False, callback_state := c\<rparr>)) (run_all f (accepted P hdr ds) (callback_state l))"
  by (rule link_run_error [OF assms])

definition layers_example :: "(8 word list, nat) packet_layers" where
  "layers_example =
     \<lparr>new_packet = (\<lambda>d. d), set_boundary = (\<lambda>l n p. p), trim = (\<lambda>l n p. p), size_from = (\<lambda>l p. length p), packet_size = length,
      layer = (\<lambda>p l. take 2 p), EthernetHeader_length_bytes = 2,
      decode_ethernet_header = (\<lambda>o'. \<lparr>eth_source = unat (o' ! 0), eth_destination = unat (o' ! 1), eth_type = 0x8947\<rparr>)\<rparr>"

theorem link_delivers_until_error_witness:
  "link_run layers_example (parse_ethernet_header layers_example) (Some (\<lambda>w p h c. Inr (Some (c + w * eth_source h))))
     [(False, [3, 4], 1), (False, [5], 1), (False, [6, 7], 2), (True, [], 1), (False, [8, 8], 1)] \<lparr>receiving = True, callback_state = 0\<rparr>
   = Inr (Some \<lparr>receiving = False, callback_state = 15\<rparr>)"
  using link_delivers_until_error [of "\<lparr>receiving = True, callback_state = 0\<rparr>" layers_example "parse_ethernet_header layers_example"
      "\<lambda>w p h c. Inr (Some (c + w * eth_source h))" "[([3, 4], 1), ([5], 1), ([6, 7], 2)]" "([], 1)" "[(False, [8, 8], 1)]"]
  by (simp add: parse_ethernet_header_def layers_example_def)

end
