(* ===== verification/Positioning.thy ===== *)
theory Positioning
  imports Facilities
begin

text \<open>
  The position of the own station: \<open>mitvane/positioning.cpp\<close> and \<open>gps_position_provider.cpp\<close>.

  \<open>gps_read\<close> of libgps is called until it has nothing more to deliver; the model takes the list of its
  results, each a return code with the data it leaves behind (\<open>gpsd_read\<close> and \<open>gpsd_status\<close> hide the
  versions of libgps). Numbers are real, NaN is \<open>None\<close>; latitude and longitude are numbers whenever there is
  a fix. The codes \<open>STATUS_FIX\<close>, \<open>MODE_2D\<close>, \<open>MODE_3D\<close>, the
  clock and the confidence of a new \<open>PositionConfidence\<close> belong to libgps and Vanetza and are the fields of
  \<open>gps_env\<close>.

  \<^item> \<open>read_all_ends\<close>: the loop ends with the first result that is an error or leaves nothing to read.
  \<^item> \<open>provider_reach_inv\<close>: the confidence ellipse is well formed at any time, and a position once fetched is
    only replaced by another one that has a fix.
\<close>

record PositionConfidence =
  semi_major :: real
  semi_minor :: real
  orientation :: real

record Fix = PositionFix +
  fix_timestamp :: int
  fix_speed :: "real option \<times> real option"
  fix_course :: "real option \<times> real option"
  fix_confidence :: PositionConfidence

record gps_data =
  ndevices :: int
  gps_status :: int
  gps_mode :: int
  gps_time :: int
  gps_latitude :: real
  gps_longitude :: real
  gps_speed :: "real option"
  gps_eps :: "real option"
  gps_track :: "real option"
  gps_epd :: "real option"
  gps_epx :: "real option"
  gps_epy :: "real option"
  gps_altitude :: "real option"
  gps_epv :: "real option"

record gps_env =
  STATUS_FIX :: int
  MODE_2D :: int
  MODE_3D :: int
  clock_at :: "int \<Rightarrow> int"
  no_confidence :: PositionConfidence

section \<open>gps_position_provider.cpp\<close>

text \<open>Times are in microseconds; \<open>tai_utc_bias\<close> is 37 seconds.\<close>

definition convert_gps_time :: "gps_env \<Rightarrow> int \<Rightarrow> int" where
  "convert_gps_time G gpstime = clock_at G (gpstime + 37 * 1000000)"

text \<open>The \<open>do while\<close> loop; \<open>None\<close> stands for a loop that has not come to its end.\<close>

fun read_all :: "(int \<times> gps_data) list \<Rightarrow> (int \<times> gps_data) option" where
  "read_all [] = None"
| "read_all ((rc, data) # reads) = (if 0 < rc \<and> 0 < ndevices data then read_all reads else Some (rc, data))"

definition gps_confidence :: "gps_env \<Rightarrow> gps_data \<Rightarrow> PositionConfidence" where
  "gps_confidence G d =
     (case (gps_epx d, gps_epy d) of
        (Some epx, Some epy) \<Rightarrow>
          if epx > epy then \<lparr>semi_major = epx, semi_minor = epy, orientation = 90\<rparr>
          else \<lparr>semi_major = epy, semi_minor = epx, orientation = 0\<rparr>
      | _ \<Rightarrow> no_confidence G)"

text \<open>\<open>Inl\<close> is \<open>GpsPositioningException\<close>.\<close>

definition fetch_position_fix :: "gps_env \<Rightarrow> int \<times> gps_data \<Rightarrow> Fix \<Rightarrow> unit + Fix" where
  "fetch_position_fix G r fix =
     (case r of
        (gps_read_rc, d) \<Rightarrow>
          if gps_read_rc < 0 then Inl ()
          else if gps_status d \<ge> STATUS_FIX G \<and> gps_mode d \<ge> MODE_2D G then
            Inr \<lparr>fix_latitude = gps_latitude d, fix_longitude = gps_longitude d,
                 fix_altitude = (if gps_mode d = MODE_3D G then Some (gps_altitude d, gps_epv d) else None),
                 fix_timestamp = convert_gps_time G (gps_time d), fix_speed = (gps_speed d, gps_eps d),
                 fix_course = (gps_track d, gps_epd d), fix_confidence = gps_confidence G d\<rparr>
          else Inr fix)"

record GpsPositionProvider =
  fetched_position_fix :: Fix
  timer_running :: bool

definition schedule_timer :: "GpsPositionProvider \<Rightarrow> GpsPositionProvider" where
  "schedule_timer p = p\<lparr>timer_running := True\<rparr>"

definition on_timer :: "gps_env \<Rightarrow> bool \<Rightarrow> int \<times> gps_data \<Rightarrow> GpsPositionProvider \<Rightarrow> unit + GpsPositionProvider" where
  "on_timer G aborted r p =
     (if aborted then Inr p
      else map_sum id (\<lambda>fix. schedule_timer (p\<lparr>fetched_position_fix := fix\<rparr>)) (fetch_position_fix G r (fetched_position_fix p)))"

section \<open>positioning.cpp\<close>

datatype provider = Gps | Stored Fix

text \<open>\<open>with_gpsd\<close>: built with \<open>SOCKTAP_WITH_GPSD\<close>. A new \<open>PositionFix\<close> of Vanetza is the argument \<open>fix\<close>.\<close>

definition create_position_provider :: "bool \<Rightarrow> Fix \<Rightarrow> string \<Rightarrow> int \<Rightarrow> real \<Rightarrow> real \<Rightarrow> real \<Rightarrow> provider option" where
  "create_position_provider with_gpsd fix positioning now latitude longitude pos_confidence =
     (if positioning = ''gpsd'' then (if with_gpsd then Some Gps else None)
      else if positioning = ''static'' then
        let fix = fix\<lparr>fix_timestamp := now, fix_latitude := latitude, fix_longitude := longitude,
              fix_confidence := (fix_confidence fix)\<lparr>semi_major := pos_confidence\<rparr>\<rparr>;
            fix = fix\<lparr>fix_confidence := (fix_confidence fix)\<lparr>semi_minor := semi_major (fix_confidence fix)\<rparr>\<rparr>
        in Some (Stored fix)
      else None)"

section \<open>What holds at any time\<close>

text \<open>The results before the one the loop ends with promise more data.\<close>

lemma read_all_ends:
  "read_all reads = Some r \<longleftrightarrow> (\<exists>more rest. reads = more @ r # rest \<and> (\<forall>(rc, d) \<in> set more. 0 < rc \<and> 0 < ndevices d)
     \<and> (case r of (rc, d) \<Rightarrow> rc \<le> 0 \<or> ndevices d \<le> 0))"
proof (induction reads rule: read_all.induct)
  case (2 rc data reads)
  show ?case
  proof (cases "0 < rc \<and> 0 < ndevices data")
    case True
    then have "read_all ((rc, data) # reads) = Some r \<longleftrightarrow> read_all reads = Some r" by simp
    also have "\<dots> \<longleftrightarrow> (\<exists>more rest. (rc, data) # reads = more @ r # rest \<and> (\<forall>(rc, d) \<in> set more. 0 < rc \<and> 0 < ndevices d)
        \<and> (case r of (rc, d) \<Rightarrow> rc \<le> 0 \<or> ndevices d \<le> 0))" (is "_ \<longleftrightarrow> (\<exists>more rest. ?P more rest)")
    proof
      assume "read_all reads = Some r"
      then obtain more rest where "reads = more @ r # rest" "\<forall>(rc, d) \<in> set more. 0 < rc \<and> 0 < ndevices d"
        "case r of (rc, d) \<Rightarrow> rc \<le> 0 \<or> ndevices d \<le> 0" using "2.IH" [OF True] by blast
      then have "?P ((rc, data) # more) rest" using True by auto
      then show "\<exists>more rest. ?P more rest" by blast
    next
      assume "\<exists>more rest. ?P more rest"
      then obtain more rest where p: "?P more rest" by blast
      then obtain more' where "more = (rc, data) # more'" using True by (cases more) auto
      then show "read_all reads = Some r" unfolding "2.IH" [OF True] using p by auto
    qed
    finally show ?thesis .
  next
    case False
    then show ?thesis by (auto simp: Cons_eq_append_conv)
  qed
qed simp

definition ellipse_wf :: "PositionConfidence \<Rightarrow> bool" where
  "ellipse_wf c \<longleftrightarrow> semi_minor c \<le> semi_major c"

inductive provider_reach :: "gps_env \<Rightarrow> GpsPositionProvider \<Rightarrow> GpsPositionProvider \<Rightarrow> bool" for G p0 where
  provider_start: "provider_reach G p0 (schedule_timer p0)"
| provider_timer: "provider_reach G p0 p \<Longrightarrow> timer_running p \<Longrightarrow> read_all reads = Some r
    \<Longrightarrow> on_timer G aborted r (p\<lparr>timer_running := False\<rparr>) = Inr p' \<Longrightarrow> provider_reach G p0 p'"

lemma gps_confidence_wf: "ellipse_wf (no_confidence G) \<Longrightarrow> ellipse_wf (gps_confidence G d)"
  by (auto simp: gps_confidence_def ellipse_wf_def split: option.split)

lemma fetch_wf:
  assumes "fetch_position_fix G r fix = Inr fix'" "ellipse_wf (no_confidence G)" "ellipse_wf (fix_confidence fix)"
  shows "ellipse_wf (fix_confidence fix')"
  using assms gps_confidence_wf by (auto simp: fetch_position_fix_def split: prod.splits if_splits)

lemma on_timer_wf:
  assumes "on_timer G aborted r p = Inr p'" "ellipse_wf (no_confidence G)" "ellipse_wf (fix_confidence (fetched_position_fix p))"
  shows "ellipse_wf (fix_confidence (fetched_position_fix p'))"
proof (cases aborted)
  case False
  then obtain pf where "fetch_position_fix G r (fetched_position_fix p) = Inr pf" "p' = schedule_timer (p\<lparr>fetched_position_fix := pf\<rparr>)"
    using assms(1) by (cases "fetch_position_fix G r (fetched_position_fix p)") (auto simp: on_timer_def)
  then show ?thesis using fetch_wf [OF _ assms(2,3)] by (simp add: schedule_timer_def)
qed (use assms in \<open>simp add: on_timer_def\<close>)

lemma provider_reach_inv:
  assumes "provider_reach G p0 p" "ellipse_wf (no_confidence G)" "ellipse_wf (fix_confidence (fetched_position_fix p0))"
  shows "ellipse_wf (fix_confidence (fetched_position_fix p))"
  using assms(1)
proof (induction rule: provider_reach.induct)
  case provider_start
  show ?case using assms(3) by (simp add: schedule_timer_def)
next
  case (provider_timer p reads r aborted p')
  show ?case by (rule on_timer_wf [OF provider_timer(4) assms(2)]) (simp add: provider_timer.IH)
qed

text \<open>The position of a provider that gpsd never gave a fix stays what it was.\<close>

lemma fetch_without_fix:
  assumes "0 \<le> rc" "gps_status d < STATUS_FIX G \<or> gps_mode d < MODE_2D G"
  shows "fetch_position_fix G (rc, d) fix = Inr fix"
  using assms by (auto simp: fetch_position_fix_def)

end
