(* ===== verification/Mitvane_Main.thy ===== *)
theory Mitvane_Main
  imports App_Parsers Link_Layer Positioning "HOL-Library.List_Lexorder" "HOL-Library.Char_ord" "HOL-Library.Multiset"
begin

text \<open>
  How the parts are put together: \<open>mitvane/main.cpp\<close>, with \<open>create_link_layer\<close> of \<open>link_layer.cpp\<close>.

  \<open>options\<close> holds the values of the command line; parsing it, opening devices and sockets, signals and
  the log sinks are left out. \<open>mitvane_setup\<close> is the program up to \<open>io_service.run()\<close>; \<open>None\<close> is the exit with
  code 1. \<open>mitvane_run\<close> is the event loop: the receive loop of the source link with \<open>IdpsContext::run\<close> as its
  callback, where each frame comes with the position of the station at that time.

  \<^item> \<open>idps\<close>, the interpretation of \<open>frame_handler\<close>, with \<open>setup_reach\<close> and \<open>mitvane_run_reach\<close>: all that was shown for reachable states of the system holds in every
    state the program gets into.
  \<^item> \<open>setup_parsers\<close>: each parser that was asked for is registered for its port.
  \<^item> \<open>print_rx_cam_unused\<close>: the option \<open>print-rx-cam\<close> has no effect.
\<close>

record options =
  link_layer :: string
  gn_version :: nat
  print_rx_all :: bool
  print_rx_cam :: bool
  print_rx_denm :: bool
  print_rx_spat :: bool
  print_rx_map :: bool
  opt_app_parsers :: "string list"
  opt_positioning :: string
  opt_latitude :: real
  opt_longitude :: real
  pos_confidence :: real

record btp_ports =
  ports_CAM :: "16 word"
  ports_DENM :: "16 word"
  ports_SPAT :: "16 word"
  ports_TOPO :: "16 word"

text \<open>How it was built, and what Vanetza provides.\<close>

record build =
  with_cohda_llc :: bool
  with_gpsd :: bool
  ports :: btp_ports
  new_fix :: Fix
  denm_junk :: "int \<times> int"

section \<open>link_layer.cpp\<close>

text \<open>The link differs in the parser of the frame headers.\<close>

definition create_link_layer ::
  "bool \<Rightarrow> ('pk, 'm) packet_layers \<Rightarrow> ('ll, 'm) cohda_sdk \<Rightarrow> string \<Rightarrow> ('pk \<Rightarrow> 'm EthernetHeader option \<times> 'pk) option" where
  "create_link_layer with_cohda P K name =
     (if name = ''ethernet'' \<or> name = ''cohda'' then
        if name = ''ethernet'' then Some (parse_ethernet_header P)
        else if with_cohda then Some (strip_cohda_rx_header P K) else None
      else None)"

section \<open>main.cpp\<close>

definition create_parser :: "build \<Rightarrow> options \<Rightarrow> string \<Rightarrow> ApplicationParser option" where
  "create_parser B vm app_name =
     (if app_name = ''ca'' then
        Some (print_received_message (print_rx_denm vm \<or> print_rx_all vm) (CamApplicationParser (ports_CAM (ports B))))
      else if app_name = ''den'' then
        Some (print_received_message (print_rx_denm vm \<or> print_rx_all vm) (DenmApplicationParser (denm_junk B) (ports_DENM (ports B))))
      else if app_name = ''spat'' then
        Some (print_received_message (print_rx_spat vm \<or> print_rx_all vm) (SpatemApplicationParser (ports_SPAT (ports B))))
      else if app_name = ''map'' then
        Some (print_received_message (print_rx_map vm \<or> print_rx_all vm) (MapemApplicationParser (ports_TOPO (ports B))))
      else None)"

text \<open>\<open>app_parsers\<close> is a \<open>std::map\<close>: a list that is sorted by the names.\<close>

fun create_parsers ::
  "build \<Rightarrow> options \<Rightarrow> string list \<Rightarrow> (string \<times> ApplicationParser) list \<Rightarrow> (string \<times> ApplicationParser) list" where
  "create_parsers B vm [] app_parsers = app_parsers"
| "create_parsers B vm (app_name # names) app_parsers =
     create_parsers B vm names
       (if map_of app_parsers app_name \<noteq> None then app_parsers
        else
          (case create_parser B vm app_name of
             Some parser \<Rightarrow> insort_key fst (app_name, parser) app_parsers
           | None \<Rightarrow> app_parsers))"

definition enable_all :: "('a, 'v) app \<Rightarrow> (string \<times> 'a) list \<Rightarrow> ('a, 'co) IdpsContext \<Rightarrow> ('a, 'co) IdpsContext" where
  "enable_all A app_parsers s = fold (\<lambda>(name, app). enable A app) app_parsers s"

definition mitvane_setup ::
  "build \<Rightarrow> ('co, 'm) packet_layers \<Rightarrow> ('ll, 'm) cohda_sdk \<Rightarrow> ('ch, 'co) packet_api \<Rightarrow> 'n yaml \<Rightarrow> 'n option \<Rightarrow> int \<Rightarrow> options
   \<Rightarrow> (('co \<Rightarrow> 'm EthernetHeader option \<times> 'co) \<times> provider \<times> (ApplicationParser, 'co) IdpsContext RawSocketLink) option" where
  "mitvane_setup B P K Q Y ruleset now vm =
     do {
       hdr \<leftarrow> create_link_layer (with_cohda_llc B) P K (link_layer vm);
       (st, signatures) \<leftarrow> read Y ruleset [];
       if gn_version vm \<noteq> 0 \<and> gn_version vm \<noteq> 1 then None
       else
         do {
           positioning \<leftarrow> create_position_provider (with_gpsd B) (new_fix B) (opt_positioning vm) now (opt_latitude vm)
             (opt_longitude vm) (pos_confidence vm);
           let context = enable_all (parsers_app Q) (create_parsers B vm (opt_app_parsers vm) []) (idps_init signatures);
           Some (hdr, positioning, \<lparr>receiving = True, callback_state = context\<rparr>)
         }
     }"

text \<open>\<open>set_link_layer\<close> binds \<open>run\<close>; it reads the position of the station at the time of the call.\<close>

definition idps_callback ::
  "('ch, 'co, 'c, 'm, 'p, 'd, 'l, 't, 'ce) vanetza \<Rightarrow> ('ch, 'co) packet_api \<Rightarrow> ('m, 'p, 'f) idps_config \<Rightarrow> 'f \<times> ('p, 'd, 'l) junk
   \<Rightarrow> 'co \<Rightarrow> 'm EthernetHeader \<Rightarrow> (ApplicationParser, 'co) IdpsContext \<Rightarrow> failure + (ApplicationParser, 'co) IdpsContext option" where
  "idps_callback V Q C w = run V (parsers_app Q) (C\<lparr>position_fix := fst w\<rparr>) (snd w)"

definition mitvane_run ::
  "('ch, 'co, 'c, 'm, 'p, 'd, 'l, 't, 'ce) vanetza \<Rightarrow> ('co, 'm) packet_layers \<Rightarrow> ('ch, 'co) packet_api \<Rightarrow> ('m, 'p, 'f) idps_config
   \<Rightarrow> ('co \<Rightarrow> 'm EthernetHeader option \<times> 'co) \<Rightarrow> (bool \<times> 8 word list \<times> 'f \<times> ('p, 'd, 'l) junk) list
   \<Rightarrow> (ApplicationParser, 'co) IdpsContext RawSocketLink \<Rightarrow> failure + (ApplicationParser, 'co) IdpsContext RawSocketLink option" where
  "mitvane_run V P Q C hdr events l =
     link_run P hdr (Some (idps_callback V Q C)) events l"

section \<open>The states of the program\<close>

lemma enable_all_reach:
  "idps_reach V A C ss s \<Longrightarrow> idps_reach V A C ss (enable_all A ps s)"
  unfolding enable_all_def
  by (induction ps arbitrary: s) (auto intro: reach_step step_enable)

lemma setup_cases:
  assumes "mitvane_setup B P K Q Y ruleset now vm = Some (hdr, positioning, l)"
  obtains st ss where "read Y ruleset [] = Some (st, ss)" "receiving l"
    "create_link_layer (with_cohda_llc B) P K (link_layer vm) = Some hdr" "gn_version vm \<in> {0, 1}"
    "callback_state l = enable_all (parsers_app Q) (create_parsers B vm (opt_app_parsers vm) []) (idps_init ss)"
  using assms by (auto simp: mitvane_setup_def split: Option.bind_splits if_splits)

lemma setup_reach:
  assumes "mitvane_setup B P K Q Y ruleset now vm = Some (hdr, positioning, l)" "read Y ruleset [] = Some (st, ss)"
  shows "idps_reach V (parsers_app Q) C ss (callback_state l)"
proof (rule setup_cases [OF assms(1)])
  fix st' ss' assume "read Y ruleset [] = Some (st', ss')"
    "callback_state l = enable_all (parsers_app Q) (create_parsers B vm (opt_app_parsers vm) []) (idps_init ss')"
  then show ?thesis using assms(2) by (auto intro: enable_all_reach reach_init)
qed

text \<open>The system is a handler of frames, with its reachable states as the invariant.\<close>

interpretation idps: frame_handler "idps_callback V Q C" "\<lambda>c. signatures_wt ss \<and> idps_reach V (parsers_app Q) C ss c" for V Q C ss
proof
  fix c w packet h c'
  assume c: "signatures_wt ss \<and> idps_reach V (parsers_app Q) C ss c"
  then have "signatures_wt (ctx_signatures c)" using reach_inv [of V "parsers_app Q" C ss c] by (simp add: idps_inv_def)
  then show "idps_callback V Q C w packet h c \<noteq> Inr None" unfolding idps_callback_def by (rule run_total)
  assume "idps_callback V Q C w packet h c = Inr (Some c')"
  then show "signatures_wt ss \<and> idps_reach V (parsers_app Q) C ss c'"
    using c by (auto simp: idps_callback_def intro: reach_step step_run)
qed

lemma read_wt: "read Y ruleset [] = Some (st, ss) \<Longrightarrow> signatures_wt ss"
  using reader.rules_wt [of "(Y, ruleset)" ss] by simp

lemma mitvane_run_reach:
  assumes "read Y ruleset [] = Some (st, ss)" "idps_reach V (parsers_app Q) C ss (callback_state l)"
    and "mitvane_run V P Q C hdr events l = Inr (Some l')"
  shows "idps_reach V (parsers_app Q) C ss (callback_state l')"
  using idps.link_run_inv [OF assms(3) [unfolded mitvane_run_def], of ss] read_wt [OF assms(1)] assms(2) by blast

lemma mitvane_run_no_exception:
  assumes "read Y ruleset [] = Some (st, ss)" "idps_reach V (parsers_app Q) C ss (callback_state l)"
  shows "mitvane_run V P Q C hdr events l \<noteq> Inr None"
  unfolding mitvane_run_def by (rule idps.link_run_total [of ss]) (use read_wt [OF assms(1)] assms(2) in blast)

section \<open>The parsers\<close>

lemma create_parser_print_rx_cam: "create_parser B (vm\<lparr>print_rx_cam := b\<rparr>) name = create_parser B vm name"
  by (simp add: create_parser_def)

lemma print_rx_cam_unused: "create_parsers B (vm\<lparr>print_rx_cam := b\<rparr>) names ps = create_parsers B vm names ps"
  by (induction names arbitrary: ps) (simp_all add: create_parser_print_rx_cam)

lemma map_of_insort: "map_of ps k = None \<Longrightarrow> map_of (insort_key fst (k, v) ps) = (map_of ps)(k \<mapsto> v)"
  by (induction ps) (auto split: if_splits)

text \<open>What is in the map after the loop: the parser of every name that is known.\<close>

lemma create_parsers_map:
  "map_of (create_parsers B vm names ps) name
     = (case map_of ps name of Some a \<Rightarrow> Some a | None \<Rightarrow> if name \<in> set names then create_parser B vm name else None)"
proof (induction names arbitrary: ps)
  case (Cons n names)
  show ?case
  proof (cases "map_of ps n")
    case None
    then show ?thesis
      by (cases "create_parser B vm n") (auto simp: Cons.IH map_of_insort split: option.split)
  qed (auto simp: Cons.IH split: option.split)
qed (simp split: option.split)

lemma create_parsers_sorted:
  "sorted (map fst ps) \<Longrightarrow> distinct (map fst ps) \<Longrightarrow> sorted (map fst (create_parsers B vm names ps)) \<and> distinct (map fst (create_parsers B vm names ps))"
proof (induction names arbitrary: ps)
  case (Cons n names)
  show ?case
  proof (cases "map_of ps n = None \<and> create_parser B vm n \<noteq> None")
    case True
    then obtain a where a: "map_of ps n = None" "create_parser B vm n = Some a" by auto
    have "sorted (map fst (insort_key fst (n, a) ps))" using Cons.prems by (simp add: sorted_insort_key)
    moreover have "distinct (map fst (insort_key fst (n, a) ps))"
    proof -
      have "n \<notin> set (map fst ps)" using a(1) by (auto simp: map_of_eq_None_iff)
      moreover have "mset (map fst (insort_key fst (n, a) ps)) = mset (n # map fst ps)" by (induction ps) auto
      ultimately show ?thesis using Cons.prems(2) by (metis distinct.simps(2) mset_eq_imp_distinct_iff)
    qed
    ultimately show ?thesis using Cons.IH a by simp
  qed (use Cons in \<open>auto split: option.split\<close>)
qed simp

lemma enable_all_parsers:
  assumes "distinct (map (app_port A \<circ> snd) ps)" "(name, a) \<in> set ps" "app_port A a \<noteq> 0"
  shows "m_app_layer_parsers (enable_all A ps s) (app_port A a) = Some (Some a)"
  using assms
proof (induction ps arbitrary: s)
  case (Cons p ps)
  have keep: "m_app_layer_parsers (enable_all A ps s) k = m_app_layer_parsers s k" if "k \<notin> (app_port A \<circ> snd) ` set ps" for s k
    using that unfolding enable_all_def
    by (induction ps arbitrary: s) (auto simp: enable_def set_application_layer_parser_def)
  have e: "enable_all A (p # ps) s = enable_all A ps (enable A (snd p) s)" by (simp add: enable_all_def case_prod_beta)
  show ?case
  proof (cases "p = (name, a)")
    case True
    then have "app_port A a \<notin> (app_port A \<circ> snd) ` set ps" using Cons.prems(1) by auto
    then show ?thesis unfolding e keep using True Cons.prems(3) by (simp add: keep enable_def set_application_layer_parser_def)
  next
    case False
    then show ?thesis unfolding e using Cons by auto
  qed
qed simp

text \<open>The ports are different numbers, and none is 0.\<close>

definition ports_ok :: "btp_ports \<Rightarrow> bool" where
  "ports_ok p \<longleftrightarrow> distinct [ports_CAM p, ports_DENM p, ports_SPAT p, ports_TOPO p] \<and> 0 \<notin> set [ports_CAM p, ports_DENM p, ports_SPAT p, ports_TOPO p]"

lemma create_parser_port:
  assumes "ports_ok (ports B)" "create_parser B vm n = Some a" "create_parser B vm n' = Some a'"
  shows "ap_port a \<noteq> 0" "ap_port a = ap_port a' \<Longrightarrow> n = n'"
  using assms by (auto simp: create_parser_def ports_ok_def print_received_message_def CamApplicationParser_def
      DenmApplicationParser_def SpatemApplicationParser_def MapemApplicationParser_def split: if_splits)

lemma setup_parsers:
  assumes "mitvane_setup B P K Q Y ruleset now vm = Some (hdr, positioning, l)" "ports_ok (ports B)"
    and "name \<in> set (opt_app_parsers vm)" "create_parser B vm name = Some a"
  shows "m_app_layer_parsers (callback_state l) (ap_port a) = Some (Some a)"
proof -
  define ps where "ps = create_parsers B vm (opt_app_parsers vm) []"
  have m: "map_of ps n = (if n \<in> set (opt_app_parsers vm) then create_parser B vm n else None)" for n
    by (simp add: ps_def create_parsers_map)
  have d: "distinct (map fst ps)" using create_parsers_sorted [of "[]" B vm] by (simp add: ps_def)
  have c: "create_parser B vm n = Some x" if "(n, x) \<in> set ps" for n x
    using map_of_is_SomeI [OF d that] m [of n] by (simp split: if_splits)
  have "distinct ps" using d by (simp add: distinct_map)
  moreover have "inj_on (ap_port \<circ> snd) (set ps)"
  proof (rule inj_onI)
    fix x y assume "x \<in> set ps" "y \<in> set ps" "(ap_port \<circ> snd) x = (ap_port \<circ> snd) y"
    then have "fst x = fst y" using create_parser_port(2) [OF assms(2) c c, of "fst x" "snd x" "fst y" "snd y"] by simp
    then show "x = y" using \<open>x \<in> set ps\<close> \<open>y \<in> set ps\<close> d by (auto simp: distinct_map dest: inj_onD)
  qed
  ultimately have dp: "distinct (map (ap_port \<circ> snd) ps)" by (simp add: distinct_map)
  have a: "(name, a) \<in> set ps" using m [of name] assms(3,4) by (auto dest: map_of_SomeD)
  have A: "app_port (parsers_app Q) = ap_port" by (simp add: parsers_app_def)
  show ?thesis
  proof (rule setup_cases [OF assms(1)])
    fix ss assume "callback_state l = enable_all (parsers_app Q) (create_parsers B vm (opt_app_parsers vm) []) (idps_init ss)"
    then show ?thesis
      using enable_all_parsers [of "parsers_app Q" ps name a] dp a create_parser_port(1) [OF assms(2,4,4)] by (simp add: A ps_def)
  qed
qed

end
