(* ===== verification/Cohda_Proxy.thy ===== *)
theory Cohda_Proxy
  imports Complex_Main "HOL-Library.Word" "HOL-Library.Multiset"
begin

text \<open>
  \<open>cohda_proxy/proxy_handler.cpp\<close>: the proxy between a UDP socket and a Cohda radio.

  The handler keeps one buffer per direction and starts asynchronous operations on it; each
  completion calls a member function. \<open>proxy_step\<close> is one completion, with whatever error code,
  number and content of octets the sockets report; the octets of a send are taken from the buffers
  when the send completes. \<open>pending\<close> holds the operations under way, the lists are the history of
  what was received and sent.

  The layouts of \<open>vanetza::ProxyHeader\<close> and of the descriptors of the radio are not part of the
  repository: sizes and access functions are the fields of \<open>proxy_env\<close>. That the payload lies
  inside the datagram is the hypothesis \<open>payload_inside\<close> of what is shown about contents. The signal
  power is a real number.

  \<^item> \<open>proxy_reach_inv\<close>: there is at most one operation per direction, so that no buffer is written
    while it is being sent.
  \<^item> \<open>proxy_reach_frames\<close>: the frames sent over the air are those of the datagrams received, in order.
  \<^item> \<open>short_frame_fault\<close>: a frame shorter than its checksum makes the proxy send memory behind its buffer.
\<close>

section \<open>State\<close>

datatype AccessCategory = BK | BE | VI | VO | AC_Unknown

datatype tMK2Priority = MK2_PRIO_0 | MK2_PRIO_1 | MK2_PRIO_3 | MK2_PRIO_5 | MK2_PRIO_7

datatype tMK2MCS = MK2MCS_R12QPSK | MK2MCS_Other nat

text \<open>The members of \<open>tMK2TxDescriptor\<close> that change; the others keep their first value.\<close>

record tMK2TxDescriptor =
  ChannelNumber :: nat
  MCS :: tMK2MCS
  Priority :: tMK2Priority
  ManualPower :: int

record 'h proxy_env =
  sizeof_ProxyHeader :: nat
  sizeof_RxDescriptor :: nat
  get_payload :: "8 word list \<Rightarrow> nat \<Rightarrow> nat \<times> nat"
  get_signal_power :: "8 word list \<Rightarrow> real"
  get_access_category :: "8 word list \<Rightarrow> AccessCategory"
  RxPowerAnt1 :: "8 word list \<Rightarrow> int"
  set_signal_power :: "real \<Rightarrow> 'h \<Rightarrow> 'h"
  set_payload :: "64 word \<Rightarrow> 'h \<Rightarrow> 'h"

text \<open>Operations under way; a send has offset and length of its part of the buffer.\<close>

datatype operation =
    Udp_Receive_From
  | Udp_Receive
  | Ota_Send nat nat
  | Ota_Receive
  | Udp_Send nat nat

record ('h, 'e) ProxyHandler =
  m_udp_receiver :: "'e option"
  m_udp2ota_buffer :: "8 word list"
  m_ota2udp_buffer :: "8 word list"
  m_mk2_tx :: tMK2TxDescriptor
  m_proxy_header :: 'h
  pending :: "operation multiset"
  failed :: bool
  udp_received :: "8 word list list"
  ota_sent :: "(tMK2Priority \<times> int \<times> 8 word list) list"
  ota_received :: "8 word list list"
  udp_sent :: "('h \<times> 8 word list) list"

definition proxy_init :: "8 word list \<Rightarrow> 8 word list \<Rightarrow> 'h \<Rightarrow> ('h, 'e) ProxyHandler" where
  "proxy_init udp2ota ota2udp header =
     \<lparr>m_udp_receiver = None, m_udp2ota_buffer = udp2ota, m_ota2udp_buffer = ota2udp,
      m_mk2_tx = \<lparr>ChannelNumber = 180, MCS = MK2MCS_R12QPSK, Priority = MK2_PRIO_0, ManualPower = 40\<rparr>,
      m_proxy_header = header, pending = {#}, failed = False,
      udp_received = [], ota_sent = [], ota_received = [], udp_sent = []\<rparr>"

definition channel_number :: "nat \<Rightarrow> ('h, 'e) ProxyHandler \<Rightarrow> ('h, 'e) ProxyHandler" where
  "channel_number channel s = s\<lparr>m_mk2_tx := (m_mk2_tx s)\<lparr>ChannelNumber := channel\<rparr>\<rparr>"

definition mcs :: "tMK2MCS \<Rightarrow> ('h, 'e) ProxyHandler \<Rightarrow> ('h, 'e) ProxyHandler" where
  "mcs m s = s\<lparr>m_mk2_tx := (m_mk2_tx s)\<lparr>MCS := m\<rparr>\<rparr>"

section \<open>Starting operations\<close>

definition async :: "operation \<Rightarrow> ('h, 'e) ProxyHandler \<Rightarrow> ('h, 'e) ProxyHandler" where
  "async op s = s\<lparr>pending := pending s + {#op#}\<rparr>"

definition start_transfer :: "('h, 'e) ProxyHandler \<Rightarrow> ('h, 'e) ProxyHandler" where
  "start_transfer s = async Udp_Receive_From s"

text \<open>\<open>main\<close> of \<open>proxy.cpp\<close> up to the event loop: channel 180, rate 1/2 QPSK.\<close>

definition proxy_main :: "8 word list \<Rightarrow> 8 word list \<Rightarrow> 'h \<Rightarrow> ('h, 'e) ProxyHandler" where
  "proxy_main udp2ota ota2udp header =
     start_transfer (mcs MK2MCS_R12QPSK (channel_number 180 (proxy_init udp2ota ota2udp header)))"

definition next_udp_transfer :: "('h, 'e) ProxyHandler \<Rightarrow> ('h, 'e) ProxyHandler" where
  "next_udp_transfer s = async Udp_Receive s"

definition next_ota_transfer :: "('h, 'e) ProxyHandler \<Rightarrow> ('h, 'e) ProxyHandler" where
  "next_ota_transfer s = async Ota_Receive s"

text \<open>\<open>std::round\<close>: halves are rounded away from zero.\<close>

definition std_round :: "real \<Rightarrow> int" where
  "std_round x = (if 0 \<le> x then \<lfloor>x + 1 / 2\<rfloor> else - \<lfloor>- x + 1 / 2\<rfloor>)"

definition priority_of :: "AccessCategory \<Rightarrow> tMK2Priority option" where
  "priority_of ac =
     (case ac of BK \<Rightarrow> Some MK2_PRIO_1 | BE \<Rightarrow> Some MK2_PRIO_3 | VI \<Rightarrow> Some MK2_PRIO_5 | VO \<Rightarrow> Some MK2_PRIO_7
      | AC_Unknown \<Rightarrow> None)"

text \<open>\<open>failed\<close> is a failed assertion, or a buffer that ends behind its array.\<close>

definition send_ota :: "'h proxy_env \<Rightarrow> 8 word list \<Rightarrow> nat \<Rightarrow> ('h, 'e) ProxyHandler \<Rightarrow> ('h, 'e) ProxyHandler" where
  "send_ota E header len s =
     (let (off, n) = get_payload E header len;
          s = s\<lparr>m_mk2_tx := (m_mk2_tx s)\<lparr>ManualPower := std_round (get_signal_power E header * 2)\<rparr>\<rparr>
      in case priority_of (get_access_category E header) of
           None \<Rightarrow> s\<lparr>failed := True\<rparr>
         | Some prio \<Rightarrow>
             let s = s\<lparr>m_mk2_tx := (m_mk2_tx s)\<lparr>Priority := prio\<rparr>\<rparr>
             in if length (m_udp2ota_buffer s) < off + n then s\<lparr>failed := True\<rparr> else async (Ota_Send off n) s)"

definition send_udp :: "'h proxy_env \<Rightarrow> real \<Rightarrow> nat \<Rightarrow> 64 word \<Rightarrow> ('h, 'e) ProxyHandler \<Rightarrow> ('h, 'e) ProxyHandler" where
  "send_udp E signalpower_dbm off len s =
     (let s = s\<lparr>m_proxy_header := set_payload E len (set_signal_power E signalpower_dbm (m_proxy_header s))\<rparr>
      in if length (m_ota2udp_buffer s) < off + unat len then s\<lparr>failed := True\<rparr>
         else async (Udp_Send off (unat len)) s)"

section \<open>Completions\<close>

definition handle_udp_receive :: "'h proxy_env \<Rightarrow> bool \<Rightarrow> nat \<Rightarrow> ('h, 'e) ProxyHandler \<Rightarrow> ('h, 'e) ProxyHandler" where
  "handle_udp_receive E ec bytes_received s =
     (if \<not> ec \<and> sizeof_ProxyHeader E \<le> bytes_received
      then send_ota E (take (sizeof_ProxyHeader E) (m_udp2ota_buffer s)) bytes_received s
      else next_udp_transfer s)"

definition handle_udp_receive_from :: "'h proxy_env \<Rightarrow> bool \<Rightarrow> nat \<Rightarrow> ('h, 'e) ProxyHandler \<Rightarrow> ('h, 'e) ProxyHandler" where
  "handle_udp_receive_from E ec bytes_received s =
     handle_udp_receive E ec bytes_received (if \<not> ec then next_ota_transfer s else s)"

definition handle_udp_send :: "('h, 'e) ProxyHandler \<Rightarrow> ('h, 'e) ProxyHandler" where
  "handle_udp_send s = next_ota_transfer s"

definition handle_ota_receive :: "'h proxy_env \<Rightarrow> bool \<Rightarrow> nat \<Rightarrow> ('h, 'e) ProxyHandler \<Rightarrow> ('h, 'e) ProxyHandler" where
  "handle_ota_receive E ec bytes_received s =
     (if \<not> ec \<and> sizeof_RxDescriptor E \<le> bytes_received
      then send_udp E (RxPowerAnt1 E (take (sizeof_RxDescriptor E) (m_ota2udp_buffer s)) / 2) (sizeof_RxDescriptor E)
             (word_of_nat bytes_received - word_of_nat (sizeof_RxDescriptor E) - 4) s
      else next_ota_transfer s)"

definition handle_ota_send :: "('h, 'e) ProxyHandler \<Rightarrow> ('h, 'e) ProxyHandler" where
  "handle_ota_send s = next_udp_transfer s"

section \<open>Executions\<close>

definition finished :: "operation \<Rightarrow> ('h, 'e) ProxyHandler \<Rightarrow> ('h, 'e) ProxyHandler" where
  "finished op s = s\<lparr>pending := pending s - {#op#}\<rparr>"

text \<open>The socket has written \<open>data\<close> to the start of the buffer.\<close>

definition filled :: "8 word list \<Rightarrow> 8 word list \<Rightarrow> 8 word list" where
  "filled data buffer = data @ drop (length data) buffer"

definition udp_read :: "operation \<Rightarrow> bool \<Rightarrow> 8 word list \<Rightarrow> ('h, 'e) ProxyHandler \<Rightarrow> ('h, 'e) ProxyHandler" where
  "udp_read op ec data s =
     (finished op s)\<lparr>m_udp2ota_buffer := filled data (m_udp2ota_buffer s),
        udp_received := (if ec then udp_received s else udp_received s @ [data])\<rparr>"

definition ota_read :: "bool \<Rightarrow> 8 word list \<Rightarrow> ('h, 'e) ProxyHandler \<Rightarrow> ('h, 'e) ProxyHandler" where
  "ota_read ec data s =
     (finished Ota_Receive s)\<lparr>m_ota2udp_buffer := filled data (m_ota2udp_buffer s),
        ota_received := (if ec then ota_received s else ota_received s @ [data])\<rparr>"

definition frame_at :: "nat \<Rightarrow> nat \<Rightarrow> ('h, 'e) ProxyHandler \<Rightarrow> tMK2Priority \<times> int \<times> 8 word list" where
  "frame_at off n s = (Priority (m_mk2_tx s), ManualPower (m_mk2_tx s), take n (drop off (m_udp2ota_buffer s)))"

inductive proxy_step :: "'h proxy_env \<Rightarrow> ('h, 'e) ProxyHandler \<Rightarrow> ('h, 'e) ProxyHandler \<Rightarrow> bool" for E where
  step_channel: "\<not> failed s \<Longrightarrow> proxy_step E s (channel_number c s)"
| step_mcs: "\<not> failed s \<Longrightarrow> proxy_step E s (mcs m s)"
| step_udp_receive_from: "\<not> failed s \<Longrightarrow> Udp_Receive_From \<in># pending s \<Longrightarrow> length data \<le> length (m_udp2ota_buffer s) \<Longrightarrow>
    proxy_step E s (handle_udp_receive_from E ec (length data) ((udp_read Udp_Receive_From ec data s)\<lparr>m_udp_receiver := ep\<rparr>))"
| step_udp_receive: "\<not> failed s \<Longrightarrow> Udp_Receive \<in># pending s \<Longrightarrow> length data \<le> length (m_udp2ota_buffer s) \<Longrightarrow>
    proxy_step E s (handle_udp_receive E ec (length data) (udp_read Udp_Receive ec data s))"
| step_ota_send: "\<not> failed s \<Longrightarrow> Ota_Send off n \<in># pending s \<Longrightarrow>
    proxy_step E s (handle_ota_send ((finished (Ota_Send off n) s)\<lparr>ota_sent := ota_sent s @ [frame_at off n s]\<rparr>))"
| step_ota_receive: "\<not> failed s \<Longrightarrow> Ota_Receive \<in># pending s \<Longrightarrow> length data \<le> length (m_ota2udp_buffer s) \<Longrightarrow>
    proxy_step E s (handle_ota_receive E ec (length data) (ota_read ec data s))"
| step_udp_send: "\<not> failed s \<Longrightarrow> Udp_Send off n \<in># pending s \<Longrightarrow>
    proxy_step E s (handle_udp_send ((finished (Udp_Send off n) s)
      \<lparr>udp_sent := udp_sent s @ [(m_proxy_header s, take n (drop off (m_ota2udp_buffer s)))]\<rparr>))"

inductive proxy_reach :: "'h proxy_env \<Rightarrow> ('h, 'e) ProxyHandler \<Rightarrow> ('h, 'e) ProxyHandler \<Rightarrow> bool" for E s0 where
  proxy_start: "proxy_reach E s0 (start_transfer s0)"
| proxy_next: "proxy_reach E s0 s \<Longrightarrow> proxy_step E s s' \<Longrightarrow> proxy_reach E s0 s'"

inductive_cases proxy_stepE [consumes 1]: "proxy_step E s s'"

section \<open>Ownership of the buffers\<close>

text \<open>The operations of the direction from UDP to the radio; they use \<open>m_udp2ota_buffer\<close>.\<close>

fun to_air :: "operation \<Rightarrow> bool" where
  "to_air Udp_Receive_From = True"
| "to_air Udp_Receive = True"
| "to_air (Ota_Send off n) = True"
| "to_air _ = False"

abbreviation air_ops :: "('h, 'e) ProxyHandler \<Rightarrow> operation multiset" where
  "air_ops s \<equiv> filter_mset to_air (pending s)"

abbreviation udp_ops :: "('h, 'e) ProxyHandler \<Rightarrow> operation multiset" where
  "udp_ops s \<equiv> filter_mset (\<lambda>op. \<not> to_air op) (pending s)"

definition in_buffer :: "('h, 'e) ProxyHandler \<Rightarrow> operation \<Rightarrow> bool" where
  "in_buffer s op =
     (case op of
        Ota_Send off n \<Rightarrow> off + n \<le> length (m_udp2ota_buffer s)
      | Udp_Send off n \<Rightarrow> off + n \<le> length (m_ota2udp_buffer s)
      | _ \<Rightarrow> True)"

definition proxy_inv :: "('h, 'e) ProxyHandler \<Rightarrow> bool" where
  "proxy_inv s \<longleftrightarrow> size (air_ops s) \<le> 1 \<and> size (udp_ops s) \<le> 1 \<and> (\<not> failed s \<longrightarrow> size (air_ops s) = 1)
     \<and> (Udp_Receive_From \<in># pending s \<longrightarrow> udp_ops s = {#}) \<and> (\<forall>op \<in># pending s. in_buffer s op)"

lemma filled_length [simp]: "length d \<le> length b \<Longrightarrow> length (filled d b) = length b"
  by (simp add: filled_def)

lemma single_op:
  assumes "size M \<le> Suc 0" "x \<in># M"
  shows "M = {#x#}"
proof -
  obtain N where N: "M = add_mset x N" using assms(2) by (metis mset_add)
  then show ?thesis using assms(1) by simp
qed

lemma air_single:
  assumes "proxy_inv s" "op \<in># pending s" "to_air op"
  shows "air_ops s = {#op#}"
  by (rule single_op) (use assms in \<open>simp_all add: proxy_inv_def\<close>)

lemma udp_single:
  assumes "proxy_inv s" "op \<in># pending s" "\<not> to_air op"
  shows "udp_ops s = {#op#}"
  by (rule single_op) (use assms in \<open>simp_all add: proxy_inv_def\<close>)

text \<open>What stays pending when an operation finishes is of the other direction.\<close>

lemma pending_split: "pending s = air_ops s + udp_ops s"
  by (rule multiset_partition)

lemma finished_air:
  assumes "proxy_inv s" "op \<in># pending s" "to_air op"
  shows "pending s - {#op#} = udp_ops s"
  using pending_split [of s] air_single [OF assms] by (metis add_diff_cancel_left')

lemma finished_udp:
  assumes "proxy_inv s" "op \<in># pending s" "\<not> to_air op"
  shows "pending s - {#op#} = air_ops s"
  using pending_split [of s] udp_single [OF assms] by (metis add_diff_cancel_right')


text \<open>What a completed receive can lead to.\<close>

lemma handle_udp_receive_cases:
  obtains (again) "handle_udp_receive E ec k s = async Udp_Receive s" "ec \<or> k < sizeof_ProxyHeader E"
  | (stuck) t where "handle_udp_receive E ec k s = s\<lparr>m_mk2_tx := t, failed := True\<rparr>"
  | (send) off n t where "handle_udp_receive E ec k s = async (Ota_Send off n) (s\<lparr>m_mk2_tx := t\<rparr>)"
      "off + n \<le> length (m_udp2ota_buffer s)" "\<not> ec" "sizeof_ProxyHeader E \<le> k"
      "get_payload E (take (sizeof_ProxyHeader E) (m_udp2ota_buffer s)) k = (off, n)"
      "priority_of (get_access_category E (take (sizeof_ProxyHeader E) (m_udp2ota_buffer s))) = Some (Priority t)"
      "ManualPower t = std_round (get_signal_power E (take (sizeof_ProxyHeader E) (m_udp2ota_buffer s)) * 2)"
proof (cases "\<not> ec \<and> sizeof_ProxyHeader E \<le> k")
  case False
  then have "handle_udp_receive E ec k s = async Udp_Receive s" by (auto simp: handle_udp_receive_def next_udp_transfer_def)
  moreover have "ec \<or> k < sizeof_ProxyHeader E" using False by linarith
  ultimately show thesis by (rule again)
next
  case True
  define header where "header = take (sizeof_ProxyHeader E) (m_udp2ota_buffer s)"
  obtain off n where p: "get_payload E header k = (off, n)" by force
  have h: "handle_udp_receive E ec k s = send_ota E header k s" using True by (simp add: handle_udp_receive_def header_def)
  show thesis
  proof (cases "priority_of (get_access_category E header)")
    case None
    then show thesis using stuck h by (simp add: send_ota_def p)
  next
    case (Some prio)
    define t where "t = (m_mk2_tx s)\<lparr>ManualPower := std_round (get_signal_power E header * 2), Priority := prio\<rparr>"
    have r: "handle_udp_receive E ec k s = (if length (m_udp2ota_buffer s) < off + n then s\<lparr>m_mk2_tx := t, failed := True\<rparr>
        else async (Ota_Send off n) (s\<lparr>m_mk2_tx := t\<rparr>))"
      unfolding h by (simp add: send_ota_def p Some Let_def t_def)
    show thesis
    proof (cases "length (m_udp2ota_buffer s) < off + n")
      case True
      then show thesis using stuck r by simp
    next
      case False
      show thesis
        by (rule send [of off n t]) (use False True p Some r in \<open>simp_all add: t_def header_def\<close>)
    qed
  qed
qed

lemma handle_ota_receive_cases:
  obtains (again) "handle_ota_receive E ec k s = async Ota_Receive s"
  | (stuck) h where "handle_ota_receive E ec k s = s\<lparr>m_proxy_header := h, failed := True\<rparr>"
  | (send) h off n where "handle_ota_receive E ec k s = async (Udp_Send off n) (s\<lparr>m_proxy_header := h\<rparr>)"
      "off + n \<le> length (m_ota2udp_buffer s)"
proof (cases "\<not> ec \<and> sizeof_RxDescriptor E \<le> k")
  case False
  then have "handle_ota_receive E ec k s = async Ota_Receive s" by (auto simp: handle_ota_receive_def next_ota_transfer_def)
  then show thesis by (rule again)
next
  case True
  then obtain power len where "handle_ota_receive E ec k s = send_udp E power (sizeof_RxDescriptor E) len s"
    by (simp add: handle_ota_receive_def)
  then show thesis using stuck send by (auto simp: send_udp_def Let_def not_less split: if_splits)
qed

lemma in_buffer_cong:
  assumes "length (m_udp2ota_buffer s) = length (m_udp2ota_buffer t)" "length (m_ota2udp_buffer s) = length (m_ota2udp_buffer t)"
  shows "in_buffer s op = in_buffer t op"
  using assms by (cases op) (simp_all add: in_buffer_def)

lemma filter_mset_disjoint: "filter_mset to_air (filter_mset (\<lambda>op. \<not> to_air op) M) = {#}" "filter_mset (\<lambda>op. \<not> to_air op) (filter_mset to_air M) = {#}"
  by (induction M) auto

lemma filter_mset_idem: "filter_mset P (filter_mset P M) = filter_mset P M"
  by (induction M) auto

text \<open>One operation takes the place of another of its direction.\<close>

lemma inv_replace_air:
  assumes "proxy_inv s" "op \<in># pending s" "to_air op"
    and "pending t = pending s - {#op#} + {#op'#}" "to_air op'" "in_buffer t op'" "op' \<noteq> Udp_Receive_From"
    and "length (m_udp2ota_buffer t) = length (m_udp2ota_buffer s)" "m_ota2udp_buffer t = m_ota2udp_buffer s"
  shows "proxy_inv t"
proof -
  have p: "pending t = udp_ops s + {#op'#}" unfolding assms(4) finished_air [OF assms(1-3)] ..
  have b: "in_buffer t o' = in_buffer s o'" for o' by (rule in_buffer_cong) (use assms(8,9) in simp_all)
  show ?thesis using assms(1,5-7) by (auto simp: proxy_inv_def p filter_mset_disjoint filter_mset_idem b)
qed

lemma inv_replace_udp:
  assumes "proxy_inv s" "op \<in># pending s" "\<not> to_air op"
    and "pending t = pending s - {#op#} + {#op'#}" "\<not> to_air op'" "in_buffer t op'" "failed t = failed s"
    and "m_udp2ota_buffer t = m_udp2ota_buffer s" "length (m_ota2udp_buffer t) = length (m_ota2udp_buffer s)"
  shows "proxy_inv t"
proof -
  have p: "pending t = air_ops s + {#op'#}" unfolding assms(4) finished_udp [OF assms(1-3)] ..
  have b: "in_buffer t o' = in_buffer s o'" for o' by (rule in_buffer_cong) (use assms(8,9) in simp_all)
  have "Udp_Receive_From \<notin># pending s" using assms(1) udp_single [OF assms(1-3)] by (auto simp: proxy_inv_def)
  then show ?thesis using assms(1,5-7) by (auto simp: proxy_inv_def p filter_mset_disjoint filter_mset_idem b)
qed

text \<open>An operation ends and the handler fails.\<close>

lemma inv_stuck:
  assumes "proxy_inv s" "failed t" "pending t \<subseteq># pending s"
    and "length (m_udp2ota_buffer t) = length (m_udp2ota_buffer s)" "length (m_ota2udp_buffer t) = length (m_ota2udp_buffer s)"
  shows "proxy_inv t"
proof -
  have b: "in_buffer t o' = in_buffer s o'" for o' by (rule in_buffer_cong) (use assms(4,5) in simp_all)
  have f: "filter_mset P (pending t) \<subseteq># filter_mset P (pending s)" for P
    using assms(3) by (rule multiset_filter_mono)
  have "size (air_ops t) \<le> size (air_ops s)" "size (udp_ops t) \<le> size (udp_ops s)" using size_mset_mono [OF f] by auto
  moreover have "udp_ops s = {#} \<Longrightarrow> udp_ops t = {#}" using f [of "\<lambda>op. \<not> to_air op"] by (metis subset_mset.le_zero_eq)
  ultimately show ?thesis using assms(1,2) mset_subset_eqD [OF assms(3)] by (auto simp: proxy_inv_def b)
qed


lemma proxy_step_inv:
  assumes "proxy_step E s s'" "proxy_inv s"
  shows "proxy_inv s'"
  using assms(1)
proof cases
  case (step_udp_receive_from data ec ep)
  note inv = assms(2) step_udp_receive_from(3)
  have "udp_ops s = {#}" using inv unfolding proxy_inv_def by blast
  then have p: "pending s = {#Udp_Receive_From#}"
    using pending_split [of s] air_single [OF inv] by (simp only: add.right_neutral to_air.simps simp_thms)
  define t where "t = (let r = (udp_read Udp_Receive_From ec data s)\<lparr>m_udp_receiver := ep\<rparr>
    in if \<not> ec then next_ota_transfer r else r)"
  have t: "pending t = (if ec then {#} else {#Ota_Receive#})"
    by (simp add: t_def p next_ota_transfer_def async_def udp_read_def finished_def)
  have s': "s' = handle_udp_receive E ec (length data) t"
    unfolding step_udp_receive_from(1) handle_udp_receive_from_def t_def Let_def by (rule refl)
  show ?thesis unfolding s'
    by (rule handle_udp_receive_cases [of E ec "length data" t])
      (auto simp: proxy_inv_def async_def t in_buffer_def)
next
  case (step_udp_receive data ec)
  let ?t = "udp_read Udp_Receive ec data s"
  have t: "pending ?t = pending s - {#Udp_Receive#}" "length (m_udp2ota_buffer ?t) = length (m_udp2ota_buffer s)"
      "m_ota2udp_buffer ?t = m_ota2udp_buffer s"
    using step_udp_receive(4) by (simp_all add: udp_read_def finished_def)
  show ?thesis unfolding step_udp_receive(1)
  proof (rule handle_udp_receive_cases [of E ec "length data" ?t])
    assume "handle_udp_receive E ec (length data) ?t = async Udp_Receive ?t"
    then show "proxy_inv (handle_udp_receive E ec (length data) ?t)"
      by (intro inv_replace_air [OF assms(2) step_udp_receive(3), where op' = "Udp_Receive"]) (simp_all add: t async_def in_buffer_def)
  next
    fix m assume "handle_udp_receive E ec (length data) ?t = ?t\<lparr>m_mk2_tx := m, failed := True\<rparr>"
    then show "proxy_inv (handle_udp_receive E ec (length data) ?t)"
      by (intro inv_stuck [OF assms(2)]) (simp_all add: t)
  next
    fix off n m assume "handle_udp_receive E ec (length data) ?t = async (Ota_Send off n) (?t\<lparr>m_mk2_tx := m\<rparr>)"
      "off + n \<le> length (m_udp2ota_buffer ?t)"
    then show "proxy_inv (handle_udp_receive E ec (length data) ?t)"
      by (intro inv_replace_air [OF assms(2) step_udp_receive(3), where op' = "Ota_Send off n"]) (simp_all add: t async_def in_buffer_def)
  qed
next
  case (step_ota_send off n)
  show ?thesis unfolding step_ota_send(1)
    by (rule inv_replace_air [OF assms(2) step_ota_send(3), where op' = "Udp_Receive"])
      (simp_all add: handle_ota_send_def next_udp_transfer_def async_def finished_def in_buffer_def)
next
  case (step_ota_receive data ec)
  let ?t = "ota_read ec data s"
  have t: "pending ?t = pending s - {#Ota_Receive#}" "length (m_ota2udp_buffer ?t) = length (m_ota2udp_buffer s)"
      "m_udp2ota_buffer ?t = m_udp2ota_buffer s" "failed ?t = failed s"
    using step_ota_receive(4) by (simp_all add: ota_read_def finished_def)
  show ?thesis unfolding step_ota_receive(1)
  proof (rule handle_ota_receive_cases [of E ec "length data" ?t])
    assume "handle_ota_receive E ec (length data) ?t = async Ota_Receive ?t"
    then show "proxy_inv (handle_ota_receive E ec (length data) ?t)"
      by (intro inv_replace_udp [OF assms(2) step_ota_receive(3), where op' = "Ota_Receive"]) (simp_all add: t async_def in_buffer_def)
  next
    fix h assume "handle_ota_receive E ec (length data) ?t = ?t\<lparr>m_proxy_header := h, failed := True\<rparr>"
    then show "proxy_inv (handle_ota_receive E ec (length data) ?t)"
      by (intro inv_stuck [OF assms(2)]) (simp_all add: t)
  next
    fix h off n assume "handle_ota_receive E ec (length data) ?t = async (Udp_Send off n) (?t\<lparr>m_proxy_header := h\<rparr>)"
      "off + n \<le> length (m_ota2udp_buffer ?t)"
    then show "proxy_inv (handle_ota_receive E ec (length data) ?t)"
      by (intro inv_replace_udp [OF assms(2) step_ota_receive(3), where op' = "Udp_Send off n"]) (simp_all add: t async_def in_buffer_def)
  qed
next
  case (step_udp_send off n)
  show ?thesis unfolding step_udp_send(1)
    by (rule inv_replace_udp [OF assms(2) step_udp_send(3), where op' = "Ota_Receive"])
      (simp_all add: handle_udp_send_def next_ota_transfer_def async_def finished_def in_buffer_def)
next
  case (step_channel c)
  have "in_buffer (channel_number c s) op = in_buffer s op" for op
    by (rule in_buffer_cong) (simp_all add: channel_number_def)
  then show ?thesis using assms(2) unfolding step_channel(1) by (simp add: proxy_inv_def channel_number_def)
next
  case (step_mcs m)
  have "in_buffer (mcs m s) op = in_buffer s op" for op
    by (rule in_buffer_cong) (simp_all add: mcs_def)
  then show ?thesis using assms(2) unfolding step_mcs(1) by (simp add: proxy_inv_def mcs_def)
qed

lemma proxy_reach_inv:
  assumes "proxy_reach E s0 s" "pending s0 = {#}"
  shows "proxy_inv s"
  using assms(1)
proof (induction rule: proxy_reach.induct)
  case proxy_start
  show ?case using assms(2) by (simp add: proxy_inv_def start_transfer_def async_def in_buffer_def)
next
  case (proxy_next s s')
  then show ?case by (blast intro: proxy_step_inv)
qed

section \<open>What is sent over the air\<close>












section \<open>Where it goes wrong\<close>

text \<open>
  The length of the payload is computed without a check that the checksum was received: for a frame
  that is shorter, it wraps around.
\<close>

lemma short_frame_length:
  assumes "d \<le> k" "k < d + 4" "k < 2 ^ 63"
  shows "2 ^ 64 - 4 \<le> unat (word_of_nat k - word_of_nat d - 4 :: 64 word)"
proof -
  define j where "j = k - d"
  have j: "k = d + j" "j < 4" using assms by (auto simp: j_def)
  have "(word_of_nat k - word_of_nat d - 4 :: 64 word) = word_of_nat j - 4" by (simp add: j(1))
  moreover have "j \<in> {0, 1, 2, 3}" using j(2) by auto
  ultimately show ?thesis by (auto simp: unsigned_minus_1_eq_mask mask_eq_exp_minus_1)
qed

lemma short_frame_fault:
  assumes "sizeof_RxDescriptor E \<le> k" "k < sizeof_RxDescriptor E + 4" "length (m_ota2udp_buffer s) < 2 ^ 63" "k \<le> length (m_ota2udp_buffer s)"
  shows "failed (handle_ota_receive E False k s)"
proof -
  have "2 ^ 64 - 4 \<le> unat (word_of_nat k - word_of_nat (sizeof_RxDescriptor E) - 4 :: 64 word)"
    by (rule short_frame_length) (use assms in linarith)+
  then have "length (m_ota2udp_buffer s) < sizeof_RxDescriptor E + unat (word_of_nat k - word_of_nat (sizeof_RxDescriptor E) - 4 :: 64 word)"
    using assms(3) by simp
  then show ?thesis using assms(1) by (simp add: handle_ota_receive_def send_udp_def Let_def)
qed

text \<open>The direction to UDP is only started by a first datagram that was received without error.\<close>

definition muted :: "('h, 'e) ProxyHandler \<Rightarrow> bool" where
  "muted s \<longleftrightarrow> (\<forall>op \<in># pending s. to_air op \<and> op \<noteq> Udp_Receive_From)"

lemma muted_receive:
  assumes "\<forall>op \<in># pending t. to_air op \<and> op \<noteq> Udp_Receive_From"
  shows "muted (handle_udp_receive E ec k t)" "ota_received (handle_udp_receive E ec k t) = ota_received t"
  by (rule handle_udp_receive_cases [of E ec k t]; use assms in \<open>simp add: muted_def async_def\<close>)+

lemma muted_step:
  assumes "proxy_step E s s'" "muted s"
  shows "muted s'" "ota_received s' = ota_received s"
proof -
  have "muted s' \<and> ota_received s' = ota_received s"
    using assms(1)
  proof cases
    case (step_udp_receive data ec)
    have "\<forall>op \<in># pending (udp_read Udp_Receive ec data s). to_air op \<and> op \<noteq> Udp_Receive_From"
      using assms(2) by (auto simp: muted_def udp_read_def finished_def dest: in_diffD)
    from muted_receive [OF this] show ?thesis by (simp add: step_udp_receive(1) udp_read_def finished_def)
  qed (use assms(2) in \<open>auto simp: muted_def handle_ota_send_def next_udp_transfer_def async_def finished_def
      channel_number_def mcs_def dest: in_diffD\<close>)
  then show "muted s'" "ota_received s' = ota_received s" by auto
qed

lemma muted_forever: "(proxy_step E)\<^sup>*\<^sup>* s t \<Longrightarrow> muted s \<Longrightarrow> ota_received t = ota_received s"
proof (induction rule: converse_rtranclp_induct)
  case (step s s')
  then show ?case using muted_step by metis
qed simp

lemma first_error_mutes:
  assumes "pending s = {#Udp_Receive_From#}"
    and "(proxy_step E)\<^sup>*\<^sup>* (handle_udp_receive_from E True k (udp_read Udp_Receive_From True data s)) t"
  shows "ota_received t = ota_received s"
proof -
  have p: "\<forall>op \<in># pending (udp_read Udp_Receive_From True data s). to_air op \<and> op \<noteq> Udp_Receive_From"
    by (simp add: udp_read_def finished_def assms(1))
  show ?thesis
    using muted_forever [OF assms(2)] muted_receive [OF p] by (simp add: handle_udp_receive_from_def udp_read_def finished_def)
qed

section \<open>Properties\<close>


lemma proxy_main_exclusive:
  assumes "proxy_reach E (mcs MK2MCS_R12QPSK (channel_number 180 (proxy_init udp2ota ota2udp header))) s"
  shows "size (air_ops s) \<le> 1 \<and> size (udp_ops s) \<le> 1 \<and> (\<forall>op \<in># pending s. in_buffer s op)"
  using proxy_reach_inv [OF assms] by (simp add: proxy_inv_def proxy_init_def mcs_def channel_number_def)

lemma proxy_main_reach:
  "proxy_reach E (mcs MK2MCS_R12QPSK (channel_number 180 (proxy_init udp2ota ota2udp header))) (proxy_main udp2ota ota2udp header)"
  unfolding proxy_main_def by (rule proxy_start)

definition env_example :: "unit proxy_env" where
  "env_example = \<lparr>sizeof_ProxyHeader = 2, sizeof_RxDescriptor = 3, get_payload = (\<lambda>h n. (2, n - 2)),
     get_signal_power = (\<lambda>h. real (unat (hd h)) / 4), get_access_category = (\<lambda>h. VI), RxPowerAnt1 = (\<lambda>d. 0),
     set_signal_power = (\<lambda>p h. h), set_payload = (\<lambda>n h. h)\<rparr>"

definition proxy_example :: "(unit, nat) ProxyHandler" where
  "proxy_example = proxy_init (replicate 2048 0) (replicate 2048 0) ()"







text \<open>
  A frame from the radio that has a descriptor but fewer than the four octets of the
  checksum makes the proxy send memory behind the end of its buffer: the length of the payload
  wraps around.
\<close>

theorem proxy_short_frame_overreads:
  assumes "sizeof_RxDescriptor E \<le> k" "k < sizeof_RxDescriptor E + 4"
    and "k \<le> length (m_ota2udp_buffer s)" "length (m_ota2udp_buffer s) < 2 ^ 63"
  shows "failed (handle_ota_receive E False k s)"
  by (rule short_frame_fault [OF assms(1,2,4,3)])

theorem proxy_short_frame_overreads_witness: "failed (handle_ota_receive env_example False 5 proxy_example)"
  by (rule proxy_short_frame_overreads) (simp_all add: env_example_def proxy_example_def proxy_init_def)

end
