(* ===== verification/Examples.thy ===== *)
theory Examples
  imports Mitvane_Main Cohda_Proxy
begin

text \<open>
  Concrete instances of the interfaces to YAML and Vanetza, a rule file, a CAM and a packet, on which
  the properties are evaluated. Nothing here models code of the repository: the instances show that
  what the properties assume can hold.
\<close>

section \<open>A rule file\<close>

datatype ynode = Y_Undefined | Y_Scalar string | Y_Seq "ynode list" | Y_Map "(string \<times> ynode) list"

definition y_int :: "ynode \<Rightarrow> int option" where
  "y_int n = (case n of Y_Scalar s \<Rightarrow> if s \<noteq> [] \<and> list_all is_digit s then Some (int (digits_val s)) else None | _ \<Rightarrow> None)"

definition yaml_tree :: "ynode yaml" where
  "yaml_tree =
     \<lparr>IsDefined = (\<lambda>n. n \<noteq> Y_Undefined),
      IsScalar = (\<lambda>n. case n of Y_Scalar _ \<Rightarrow> True | _ \<Rightarrow> False),
      IsMap = (\<lambda>n. case n of Y_Map _ \<Rightarrow> True | _ \<Rightarrow> False),
      IsSequence = (\<lambda>n. case n of Y_Seq _ \<Rightarrow> True | _ \<Rightarrow> False),
      node_size = (\<lambda>n. case n of Y_Seq ns \<Rightarrow> length ns | Y_Map kv \<Rightarrow> length kv | _ \<Rightarrow> 0),
      at_key = (\<lambda>n k. case n of Y_Map kv \<Rightarrow> Some (case map_of kv k of None \<Rightarrow> Y_Undefined | Some v \<Rightarrow> v)
                  | Y_Seq _ \<Rightarrow> Some Y_Undefined | _ \<Rightarrow> None),
      at_index = (\<lambda>n i. case n of Y_Seq ns \<Rightarrow> Some (if i < length ns then ns ! i else Y_Undefined) | _ \<Rightarrow> None),
      as_string = (\<lambda>n. case n of Y_Scalar s \<Rightarrow> Some s | _ \<Rightarrow> None),
      as_int = y_int,
      as_uint32 = (\<lambda>n. map_option word_of_int (y_int n)),
      as_uint16 = (\<lambda>n. map_option word_of_int (y_int n))\<rparr>"

definition rule_node :: "string \<Rightarrow> string \<Rightarrow> (string \<times> ynode) list \<Rightarrow> ynode" where
  "rule_node act sid pats =
     Y_Map ([(''action'', Y_Scalar act), (''protocol'', Y_Scalar ''GeoNetworking''),
       (''meta'', Y_Map [(''msg'', Y_Scalar ''hop limit''), (''sid'', Y_Scalar sid), (''rev'', Y_Scalar ''1'')])] @ pats)"

definition rules_example :: ynode where
  "rules_example = Y_Map [(''rules'', Y_Seq
     [rule_node ''alert'' ''1'' [(''nh'', Y_Scalar ''common''), (''ht'', Y_Scalar ''SHB'')],
      rule_node ''drop'' ''2'' [(''mhl'', Y_Scalar ''10'')]])]"

definition signature_example :: "Action \<Rightarrow> 32 word \<Rightarrow> (string \<times> pattern_type) list \<Rightarrow> Signature" where
  "signature_example act sid pats =
     \<lparr>action = act, protocol = GeoNetworking, meta = \<lparr>meta_msg = ''hop limit'', meta_sid = sid, meta_rev = 1\<rparr>,
      patterns = pats\<rparr>"

definition sigs_example :: "Signature list" where
  "sigs_example =
     [signature_example Alert 1 [(''nh'', P_string ''common''), (''ht'', P_string ''SHB'')],
      signature_example Drop 2 [(''mhl'', P_int 10)]]"

lemma read_example: "read yaml_tree (Some rules_example) [] = Some (RR_Success, [(GeoNetworking, sigs_example)])"
  by code_simp

lemma reader_example: "(case (yaml_tree, Some rules_example) of (Y, ruleset) \<Rightarrow> map_option snd (read Y ruleset [])) = Some [(GeoNetworking, sigs_example)]"
  by (simp add: read_example)

section \<open>A CAM\<close>

definition cam_low :: asn_value where
  "cam_low = V_CHOICE 1 (Some (V_SEQUENCE [Some (V_long 6), Some (V_BIT_STRING [0x80] 0), Some (V_LIST
     [V_SEQUENCE [Some (V_SEQUENCE [Some (V_long (-12)), Some (V_long 40), Some (V_long 0)]), Some (V_long 10)],
      V_SEQUENCE [Some (V_SEQUENCE [Some (V_long 100), Some (V_long (-131071)), Some (V_long 12800)]), None]])]))"

definition cam_high :: asn_value where
  "cam_high = V_CHOICE 1 (Some (V_SEQUENCE [
     Some (V_SEQUENCE [Some (V_long 3601), Some (V_long 127)]),
     Some (V_SEQUENCE [Some (V_long 1389), Some (V_long 1)]),
     Some (V_long 0),
     Some (V_SEQUENCE [Some (V_long 42), Some (V_long 0)]),
     Some (V_long 20),
     Some (V_SEQUENCE [Some (V_long (-160)), Some (V_long 102)]),
     Some (V_SEQUENCE [Some (V_long (-1023)), Some (V_long 7)]),
     Some (V_long 2),
     Some (V_SEQUENCE [Some (V_long 32767), Some (V_long 8)]),
     None, None, None, None, None, None, None]))"

definition cam_example :: asn_value where
  "cam_example = V_SEQUENCE [
     Some (V_SEQUENCE [Some (V_long 1), Some (V_long 2), Some (V_long 4294967295)]),
     Some (V_SEQUENCE [Some (V_long 65535),
       Some (V_SEQUENCE [
         Some (V_SEQUENCE [Some (V_long 5), Some (V_SEQUENCE [Some (V_long 487668616), Some (V_long 114320680),
           Some (V_SEQUENCE [Some (V_long 4095), Some (V_long 4095), Some (V_long 3601)]),
           Some (V_SEQUENCE [Some (V_long 800001), Some (V_long 15)])])]),
         Some cam_high, Some cam_low, None])])]"


lemma cam_depth: "td_depth asn_DEF_CAM = 9"
  by code_simp

lemma cam_lists: "td_lists_ok asn_DEF_CAM"
  by code_simp

lemma cam_fits: "fits asn_DEF_CAM cam_example"
  unfolding cam_depth by code_simp

lemma cam_wire: "wire_of asn_DEF_CAM cam_example \<noteq> []"
  by (rule its_wire_nonempty [OF its_messages(1) cam_fits])

section \<open>A network\<close>

text \<open>
  Headers of one octet per field: next header of the basic header, type, hop limit and next header of
  the common header, position of the sender; then the ports of BTP-A.
\<close>

type_synonym octets = "byte list"

definition oct :: "octets \<Rightarrow> byte" where
  "oct ctx = (case ctx of [] \<Rightarrow> 0 | b # _ \<Rightarrow> b)"

definition port_at :: "octets \<Rightarrow> 16 word" where
  "port_at p = word_of_int (uint (oct p) * 256 + uint (oct (tl p)))"

definition parse_ports :: "(unit, octets) PacketVariant \<Rightarrow> (16 word \<times> 16 word) \<times> (unit, octets) PacketVariant" where
  "parse_ports v = (case v of
     ChunkPacket u \<Rightarrow> ((0, 0), ChunkPacket u)
   | CohesivePacket p \<Rightarrow> ((port_at p, port_at (drop 2 p)), CohesivePacket (drop 4 p)))"

definition vanetza_example :: "(unit, octets, octets, nat, int, int, nat, nat, nat) vanetza" where
  "vanetza_example =
     \<lparr>ctx_deserialize = (\<lambda>v p ma. p), ctx_cast = (\<lambda>v p ma. []), ctx_secured_deserialize = (\<lambda>ctx p. p),
      ctx_secured_cast = (\<lambda>ctx p. []),
      service_primitive = \<lparr>upper_protocol = UP_Unknown, transport_type = TT_Unset, ind_source_position = 0,
        ind_destination = None, traffic_class = 0\<rparr>,
      parse_basic = (\<lambda>ctx. if ctx = [] then (None, ctx) else
        (Some \<lparr>basic_version = 1, basic_next_header = (if oct ctx = 1 then NHB_Common else if oct ctx = 2 then NHB_Secured else NHB_Any),
           basic_lifetime = 60, basic_hop_limit = 1\<rparr>, tl ctx)),
      parse_common = (\<lambda>ctx. if length ctx < 3 then (None, ctx) else
        (Some \<lparr>common_next_header = (if ctx ! 2 = 1 then NHC_BTP_A else if ctx ! 2 = 2 then NHC_BTP_B else NHC_Any),
           common_header_type = oct ctx, common_traffic_class = 0, common_maximum_hop_limit = ctx ! 1\<rparr>, drop 3 ctx)),
      parse_secured = (\<lambda>ctx. (Some \<lparr>sm_payload_type = 1, sm_payload_data = CohesivePacket ctx, sm_protocol_version = 2,
         sm_signer_info = Some (Signer_Chain [])\<rparr>, [])),
      parse_extended = (\<lambda>ctx ht. if ctx = [] then (None, ctx) else (Some (Shb (uint (oct ctx))), tl ctx)),
      finish = (\<lambda>ctx. (Some (CohesivePacket ctx), ctx)),
      pdu_header_type = (\<lambda>ctx. 0),
      calculate_hash = (\<lambda>c. []),
      parse_btp_a = parse_ports,
      parse_btp_b = parse_ports\<rparr>"

definition config_example :: "(nat, int, int) idps_config" where
  "config_example = \<lparr>mib_mid = 1, position_fix = 0, is_within = (\<lambda>p f a. \<bar>p - f\<bar> \<le> a),
     header_type_codes = \<lparr>TSB_Multi_Hop = 0x51, TSB_Single_Hop = 0x50, GeoBroadcast_Circle = 0x40,
       GeoBroadcast_Rect = 0x41, GeoBroadcast_Elip = 0x42\<rparr>,
     ethertype_GeoNetworking = 0x8947\<rparr>"

definition eth_example :: "nat EthernetHeader" where
  "eth_example = \<lparr>eth_source = 7, eth_destination = 9, eth_type = 0x8947\<rparr>"

definition junk_example :: "HandleReport \<Rightarrow> (int, int, nat) junk" where
  "junk_example rep = \<lparr>junk_geonet = \<lparr>gd_protocol_version = 0, gd_next_header = NHB_Any, gd_header_type = 0,
     gd_destination = None, gd_source_position = 0, gd_security_info = NoSecurity, gd_certificate_id = None,
     gd_payload_type = None, gd_secure_protocol_version = None, gd_signer_info_type = None, gd_chain_size = None,
     gd_remaining_packet_lifetime = 0, gd_maximum_hop_limit = 0, gd_remaining_hop_limit = 0\<rparr>,
     junk_result = Not_Detected, junk_report = rep\<rparr>"

text \<open>A single-hop broadcast with the given maximum hop limit and next header, to port 2001.\<close>

definition packet_example :: "byte \<Rightarrow> byte \<Rightarrow> octets \<Rightarrow> octets" where
  "packet_example mhl nh content = [1, 0x50, mhl, nh, 5] @ [0, 0, 0x07, 0xD1] @ content"

definition api_example :: "(unit, octets) packet_api" where
  "api_example = \<lparr>view_chunk = (\<lambda>_. []), view_cohesive = id, chunk_wrapper = (\<lambda>_. None)\<rparr>"

definition cam_app :: "(ApplicationParser, (unit, octets) PacketVariant) app" where
  "cam_app = parsers_app api_example"

definition ids_example :: "(ApplicationParser, octets) IdpsContext" where
  "ids_example = enable cam_app (CamApplicationParser 2001) (idps_init [(GeoNetworking, sigs_example)])"

lemma ids_example_reach: "idps_reach vanetza_example cam_app config_example [(GeoNetworking, sigs_example)] ids_example"
  unfolding ids_example_def by (rule reach_step [OF reach_init step_enable])

lemma ids_example_fields: "ctx_signatures ids_example = [(GeoNetworking, sigs_example)]" "forwarded ids_example = []"
  "logged ids_example = []" "m_app_layer_parsers ids_example = [2001 \<mapsto> Some (CamApplicationParser 2001)]"
  by (simp_all add: ids_example_def enable_def set_application_layer_parser_def idps_init_def cam_app_def
      parsers_app_def CamApplicationParser_def)

lemma example_relevant: "run_relevant config_example eth_example"
  by (simp add: run_relevant_def config_example_def eth_example_def)

definition dc_example :: "byte \<Rightarrow> byte \<Rightarrow> octets \<Rightarrow> (int, int, nat, (unit, octets) PacketVariant) DetectionContext" where
  "dc_example mhl nh content =
     projr (GeonetDecoder_decode vanetza_example (Some (CohesivePacket (packet_example mhl nh content))) (7 :: nat) 9
       (new_context (junk_example HR_Allow)))"

lemmas example_defs = vanetza_example_def packet_example_def new_context_def junk_example_def oct_def
  GeonetDecoder_decode_def decode_basic_def decode_common_def decode_extended_def visit_extended_def pass_up_def
  BtpDecoder_decode_def parse_btp_header_def parse_ports_def port_at_def BtpData_init_def

lemma dc_example: "GeonetDecoder_decode vanetza_example (Some (CohesivePacket (packet_example mhl 1 content))) 7 9
       (new_context (junk_example rep)) = Inr (dc_example mhl 1 content)"
  by (simp add: dc_example_def example_defs)

lemma dc_example_fields: "btp_data (dc_example mhl 1 content) = Some \<lparr>btp_type = UP_BTP_A, source_port = Some 0, destination_port = 2001, destination_port_info = None\<rparr>"
  "payload (dc_example mhl 1 content) = Live (CohesivePacket content)"
  "gd_next_header (geonet_data (dc_example mhl 1 content)) = NHB_Common"
  "gd_header_type (geonet_data (dc_example mhl 1 content)) = 0x50"
  "gd_maximum_hop_limit (geonet_data (dc_example mhl 1 content)) = mhl"
  by (simp_all add: dc_example_def example_defs)

lemma matching_example: "matching config_example (geonet_data (dc_example 5 1 content)) sigs_example = [hd sigs_example]"
  "matching config_example (geonet_data (dc_example 10 1 content)) sigs_example = sigs_example"
  by (simp_all add: matching_def sigs_example_def signature_example_def rule_holds_def pattern_holds_def dc_example_fields
     transform_nh_def transform_ht_def config_example_def)

lemma dc_example_eth: "GeonetDecoder_decode vanetza_example (Some (CohesivePacket (packet_example mhl 1 content)))
    (eth_source eth_example) (eth_destination eth_example) (new_context (junk_example rep)) = Inr (dc_example mhl 1 content)"
  using dc_example by (simp add: eth_example_def)

lemma run_parser_example: "run_parser cam_app (dc_example mhl 1 content) ids_example
    = Inr (ids_example\<lparr>printed := printed ids_example
        @ the (parse api_example (CamApplicationParser 2001) (CohesivePacket content))\<rparr>)"
proof -
  have "m_app_layer_parsers ids_example 2001 = Some (Some (CamApplicationParser 2001))" by (simp add: ids_example_fields)
  then show ?thesis
    by (simp add: run_parser_def classify_def dc_example_fields cam_app_def parsers_app_def)
qed

lemma map_of_example: "map_of [(GeoNetworking, sigs_example)] GeoNetworking = Some sigs_example"
  by simp

lemma run_example_drop: "\<exists>s'. run vanetza_example cam_app config_example (junk_example HR_Allow) (packet_example 10 1 []) eth_example ids_example = Inr (Some s')
    \<and> forwarded s' = []"
proof -
  have "signatures_wt (ctx_signatures ids_example)" unfolding ids_example_fields by code_simp
  from run_spec [OF this _ example_relevant dc_example_eth [of 10 "[]" HR_Allow] run_parser_example [of 10 "[]"]]
  show ?thesis using map_of_example
    by (simp add: ids_example_fields matching_example) (simp add: sigs_example_def signature_example_def)
qed

definition broken_rules :: ynode where
  "broken_rules = Y_Seq [rule_node ''drop'' ''2'' [], rule_node ''forward'' ''3'' [], rule_node ''drop'' ''4'' []]"

lemma read_broken: "read_rules yaml_tree broken_rules [0, 1, 2] [] = Some (Bad_Action, [(GeoNetworking, [signature_example Drop 2 []])])"
  by code_simp

lemma pd_of_ex: "pd_wf (pd_of [0xA5, 0x3C])" "length (pd_bits (pd_of [0xA5, 0x3C])) = 16"
  by (simp_all add: pd_of_wf)

definition as_empty :: "nat asn_anonymous_set" where
  "as_empty = \<lparr>as_array = [], as_count = 0, as_size = 0\<rparr>"

definition cam_octets :: octets where
  "cam_octets = projr (encode_per asn_DEF_CAM cam_example)"

lemma cam_octets: "encode_per asn_DEF_CAM cam_example = Inr cam_octets"
  by (rule encode_per_result [OF cam_fits]) (simp add: cam_octets_def)

definition printing_example :: "(ApplicationParser, octets) IdpsContext" where
  "printing_example = enable cam_app (print_received_message True (CamApplicationParser 2001)) (idps_init [(GeoNetworking, sigs_example)])"

lemma printing_example: "idps_reach vanetza_example cam_app config_example [(GeoNetworking, sigs_example)] printing_example"
  "m_app_layer_parsers printing_example 2001 = Some (Some (print_received_message True (CamApplicationParser 2001)))"
  "printed printing_example = []"
  unfolding printing_example_def
  by (rule reach_step [OF reach_init step_enable])
    (simp_all add: enable_def set_application_layer_parser_def idps_init_def cam_app_def parsers_app_def CamApplicationParser_def print_received_message_def)

definition no_rules_example :: "(ApplicationParser, octets) IdpsContext" where
  "no_rules_example = enable cam_app (CamApplicationParser 2001) (idps_init [])"

lemma no_rules_parser: "run_parser cam_app (dc_example mhl 1 content) no_rules_example
    = Inr (no_rules_example\<lparr>printed := the (parse api_example (CamApplicationParser 2001) (CohesivePacket content))\<rparr>)"
proof -
  have "m_app_layer_parsers no_rules_example 2001 = Some (Some (CamApplicationParser 2001))" "printed no_rules_example = []"
    by (simp_all add: no_rules_example_def enable_def set_application_layer_parser_def idps_init_def cam_app_def
      parsers_app_def CamApplicationParser_def)
  then show ?thesis
    by (simp add: run_parser_def classify_def dc_example_fields cam_app_def parsers_app_def)
qed

section \<open>A DENM\<close>

text \<open>Evaluation on integers instead of natural numbers.\<close>

lemmas be_uint_code [code] = be_uint_Nil be_uint_Cons

definition denm_example :: asn_value where
  "denm_example = V_SEQUENCE [
     Some (V_SEQUENCE [Some (V_long 1), Some (V_long 1), Some (V_long 77)]),
     Some (V_SEQUENCE [
       Some (V_SEQUENCE [
         Some (V_SEQUENCE [Some (V_long 77), Some (V_long 3)]),
         Some (V_INTEGER (Some [0x05, 0x39, 0x7F, 0xB1, 0x00])), Some (V_INTEGER (Some [0x05, 0x39, 0x7F, 0xB1, 0x01])), None,
         Some (V_SEQUENCE [Some (V_long 487668616), Some (V_long 114320680),
           Some (V_SEQUENCE [Some (V_long 4095), Some (V_long 4095), Some (V_long 3601)]),
           Some (V_SEQUENCE [Some (V_long 800001), Some (V_long 15)])]),
         None, None, Some (V_long 600), None, Some (V_long 5)]),
       None, None, None])]"

lemma denm_depth: "td_depth asn_DEF_DENM = 8"
  by code_simp

lemma denm_fits: "fits asn_DEF_DENM denm_example"
  unfolding denm_depth by code_simp

definition denm_octets :: octets where
  "denm_octets = projr (encode_per asn_DEF_DENM denm_example)"

lemma denm_decodes: "decode_per asn_DEF_DENM denm_octets = Some (Some denm_example)"
proof (rule decode_encode_per [OF denm_fits])
  show "wire_of asn_DEF_DENM denm_example \<noteq> []" by (rule its_wire_nonempty [OF its_messages(2) denm_fits])
  show "encode_per asn_DEF_DENM denm_example = Inr denm_octets"
    by (rule encode_per_result [OF denm_fits]) (simp add: denm_octets_def)
qed

section \<open>The program\<close>

definition fix_example :: Fix where
  "fix_example = \<lparr>fix_latitude = 0, fix_longitude = 0, fix_altitude = None, fix_timestamp = 0, fix_speed = (None, None),
     fix_course = (None, None), fix_confidence = \<lparr>semi_major = 0, semi_minor = 0, orientation = 0\<rparr>\<rparr>"

definition build_example :: build where
  "build_example = \<lparr>with_cohda_llc = False, with_gpsd = False,
     ports = \<lparr>ports_CAM = 2001, ports_DENM = 2002, ports_SPAT = 2004, ports_TOPO = 2003\<rparr>, new_fix = fix_example, denm_junk = (0, 0)\<rparr>"

definition options_example :: options where
  "options_example = \<lparr>link_layer = ''ethernet'', gn_version = 1, print_rx_all = True, print_rx_cam = False, print_rx_denm = False,
     print_rx_spat = False, print_rx_map = False, opt_app_parsers = [''ca'', ''den'', ''spat'', ''map''], opt_positioning = ''static'',
     opt_latitude = 48.7668616, opt_longitude = 11.432068, pos_confidence = 5\<rparr>"

definition cohda_example :: "(unit, nat) cohda_sdk" where
  "cohda_example = \<lparr>sizeof_RxPacket = 1, G5LinkLayer_length_bytes = 1, fcs_length_bytes = 4, Hdr_is_rxpacket = (\<lambda>_. True),
     Hdr_Len = length, RxFrameLength = length, FCSPass = (\<lambda>_. True), deserialize_link_layer = (\<lambda>_. ()), check_fixed_fields = (\<lambda>_. True),
     mac_destination = (\<lambda>_. 0), mac_source = (\<lambda>_. 0), protocol_id = (\<lambda>_. 0x8947)\<rparr>"

abbreviation setup_example ::
  "((octets \<Rightarrow> nat EthernetHeader option \<times> octets) \<times> provider \<times> (ApplicationParser, octets) IdpsContext RawSocketLink) option" where
  "setup_example \<equiv> mitvane_setup build_example layers_example cohda_example api_example yaml_tree (Some rules_example) 0 options_example"

lemma options_example: "link_layer options_example = ''ethernet''" "gn_version options_example = 1" "opt_positioning options_example = ''static''"
  by (simp_all add: options_example_def)

lemma setup_example: "\<exists>hdr positioning l. setup_example = Some (hdr, positioning, l)"
  unfolding mitvane_setup_def create_link_layer_def create_position_provider_def options_example read_example Let_def by simp

section \<open>A receiver of positions\<close>

definition gps_example :: gps_env where
  "gps_example = \<lparr>STATUS_FIX = 1, MODE_2D = 2, MODE_3D = 3, clock_at = id, no_confidence = \<lparr>semi_major = 0, semi_minor = 0, orientation = 0\<rparr>\<rparr>"

definition provider_example :: GpsPositionProvider where
  "provider_example = \<lparr>fetched_position_fix = fix_example, timer_running = False\<rparr>"

definition gps_read_example :: "int \<times> gps_data" where
  "gps_read_example = (0, \<lparr>ndevices = 1, gps_status = 1, gps_mode = 2, gps_time = 0, gps_latitude = 48, gps_longitude = 11,
     gps_speed = None, gps_eps = None, gps_track = None, gps_epd = None, gps_epx = Some 3, gps_epy = Some 4, gps_altitude = None,
     gps_epv = None\<rparr>)"

definition provider_fetched :: GpsPositionProvider where
  "provider_fetched = projr (on_timer gps_example False gps_read_example (schedule_timer provider_example\<lparr>timer_running := False\<rparr>))"

lemma provider_fetched_reach: "provider_reach gps_example provider_example provider_fetched"
proof (rule provider_timer [OF provider_start])
  show "timer_running (schedule_timer provider_example)" by (simp add: schedule_timer_def)
  show "read_all [gps_read_example] = Some gps_read_example" by (simp add: gps_read_example_def)
  show "on_timer gps_example False gps_read_example (schedule_timer provider_example\<lparr>timer_running := False\<rparr>) = Inr provider_fetched"
    by (simp add: provider_fetched_def on_timer_def fetch_position_fix_def gps_read_example_def gps_example_def)
qed

end
