(* ===== verification/Codec_Properties.thy ===== *)
theory Codec_Properties
  imports Examples
begin

text \<open>
  The properties of the ASN.1 runtime and its C++ wrapper, each with an instance on concrete data.
\<close>

lemma nat_bits_split: "nat_bits 8 1 = nat_bits 7 0 @ [True]"
  by (simp add: nat_bits_def upt_conv_Cons bit_0)

text \<open>
  C2. A message of any described type whose value fits the type and whose encoding is not empty
  is encoded by encode_per, size_per returns the number of octets of that encoding, and
  decode_per turns the octets back into the same message.
\<close>

theorem per_roundtrip:
  assumes "fits td t" "wire_of td t \<noteq> []"
  shows "\<exists>buffer. encode_per td t = Inr buffer \<and> size_per td t = Inr (length buffer) \<and> decode_per td buffer = Some (Some t)"
proof -
  obtain buffer where b: "encode_per td t = Inr buffer" "size_per td t = Inr (length buffer)"
    by (rule encode_per_result [OF assms(1)])
  then show ?thesis using decode_encode_per [OF assms b(1)] by blast
qed

theorem per_roundtrip_witness:
  "\<exists>buffer. encode_per asn_DEF_CAM cam_example = Inr buffer \<and> size_per asn_DEF_CAM cam_example = Inr (length buffer)
     \<and> decode_per asn_DEF_CAM buffer = Some (Some cam_example)"
  by (rule per_roundtrip [OF cam_fits cam_wire])








text \<open>
  uper_decode returns for every type, buffer and bit offset (its assertion never fails),
  and it never reports more consumed bits than the buffer has between the skipped and the unused
  bits.
\<close>

theorem decode_consumes_at_most_the_buffer:
  "\<exists>r. uper_decode (uper_decoder_of td c) buffer skip unused = Some r
     \<and> (\<forall>v n. r = RC_OK v n \<longrightarrow> int n \<le> 8 * int (length buffer) - skip - unused)"
  by (rule uper_decode_safe [OF decoder_of_safe])

theorem decode_consumes_at_most_the_buffer_witness:
  "uper_decode (uper_decoder_of asn_DEF_CAM None) [] 0 0 \<noteq> None"
  using decode_consumes_at_most_the_buffer [of asn_DEF_CAM None "[]" 0 0] by auto


text \<open>
  C29. The recursion of encoder and decoder over the type descriptor ends after as many nested
  calls as the descriptor is deep: with at least this fuel the result no longer depends on it.
\<close>

theorem depth_is_enough_fuel:
  assumes "td_depth td \<le> n" "td_lists_ok td"
  shows "uper_encoder_op n td = uper_encoder_of td \<and> uper_decoder_op n td = uper_decoder_of td"
  unfolding uper_encoder_of_def uper_decoder_of_def
  by (intro conjI encode_op_fuel [OF assms(1) order_refl assms(2)] decode_op_fuel [OF assms(1) order_refl assms(2)])

theorem depth_is_enough_fuel_witness: "uper_decoder_op 100 asn_DEF_CAM = uper_decoder_of asn_DEF_CAM"
  using depth_is_enough_fuel [of asn_DEF_CAM 100] by (simp add: cam_depth cam_lists)


text \<open>
  C30. A value wrapped into an open type, whatever its length and the fragments it is split
  into, is unwrapped to the same value.
\<close>

theorem open_type_roundtrip:
  assumes "encodes enc bs" "decodes dec bs v used"
  shows "encodes (uper_open_type_put enc) (open_type_bits bs) \<and> decodes (uper_open_type_get dec) (open_type_bits bs) v used"
  by (intro conjI open_type_put_encodes [OF assms(1)] open_type_get_decodes [OF assms])

theorem open_type_roundtrip_witness:
  "decodes (uper_open_type_get (BOOLEAN_decode_uper asn_DEF_CAM None)) (open_type_bits [True]) (V_BOOLEAN 1) 1"
proof -
  have e: "encodes (BOOLEAN_encode_uper asn_DEF_CAM None (V_BOOLEAN 1)) [True]"
    using BOOLEAN_encodes [of asn_DEF_CAM None 1] by simp
  have d: "decodes (BOOLEAN_decode_uper asn_DEF_CAM None) [True] (V_BOOLEAN 1) 1"
    using BOOLEAN_decodes [of asn_DEF_CAM None True] by simp
  show ?thesis by (rule conjunct2 [OF open_type_roundtrip [OF e d]])
qed


text \<open>
  The index of the alternative that the CHOICE decoder reads from the wire is inside the
  table of alternatives, before and after it is mapped from canonical order, for every input.
\<close>

theorem choice_index_in_range:
  assumes "choice_td_ok td c" "choice_get_index td c pd = (Inr (v, in_root), pd')"
  shows "v < length (td_elements td) \<and> choice_order (from_canonical_order (choice_specs td)) v < length (td_elements td)"
  by (intro conjI choice_get_index_range [OF assms])

theorem choice_index_in_range_witness:
  "fst (choice_get_index asn_DEF_HighFrequencyContainer None (pd_of [0x40])) = Inr (1, True)
    \<and> (1::nat) < length (td_elements asn_DEF_HighFrequencyContainer)"
proof -
  have g: "fst (choice_get_index asn_DEF_HighFrequencyContainer None (pd_of [0x40])) = Inr (1, True)" by code_simp
  then have "choice_get_index asn_DEF_HighFrequencyContainer None (pd_of [0x40])
     = (Inr (1, True), snd (choice_get_index asn_DEF_HighFrequencyContainer None (pd_of [0x40])))" by (simp add: prod_eq_iff)
  moreover have "choice_td_ok asn_DEF_HighFrequencyContainer None" by code_simp
  ultimately show ?thesis using g choice_index_in_range by blast
qed


text \<open>
  asn_get_few_bits returns the next up to 31 bits of the stream as an unsigned number, most
  significant bit first, and leaves exactly the bits behind them, whatever the bit offset of the
  stream.
\<close>

theorem get_few_bits_reads_number:
  assumes "pd_wf pd" "n \<le> 31" "n \<le> length (pd_bits pd)"
  shows "\<exists>pd'. asn_get_few_bits pd (int n) = (int (bits_val (take n (pd_bits pd))), pd')
    \<and> pd_bits pd' = drop n (pd_bits pd) \<and> pd_moved pd' = pd_moved pd + n \<and> \<not> pd_fault pd'"
proof -
  obtain pd' where "asn_get_few_bits pd (int n) = (int (bits_val (take n (pd_bits pd))), pd')" "pd_adv pd n pd'"
    using get_few_bits_ok [OF assms(1,3,2)] by blast
  then show ?thesis using pd_adv_bits by (auto simp: pd_adv_def pd_wf_def)
qed

theorem get_few_bits_reads_number_witness: "fst (asn_get_few_bits (pd_of [0xA5, 0x3C]) 4) = 10"
proof -
  have "take 4 (pd_bits (pd_of [0xA5, 0x3C])) = [True, False, True, False]"
    unfolding pd_of_wf by code_simp
  then have "bits_val (take 4 (pd_bits (pd_of [0xA5, 0x3C]))) = 10" by (simp add: bits_val_def)
  with get_few_bits_reads_number [of "pd_of [0xA5, 0x3C]" 4] pd_of_ex show ?thesis by auto
qed


text \<open>
  C31. asn_put_few_bits with up to 31 bits appends exactly these bits to what was written,
  whatever the fill state of the buffer, or reports that the output callback refused the data.
\<close>

theorem put_few_bits_appends:
  assumes "po_wf po" "k \<le> 31" "v < 2 ^ k"
  shows "put_result po (nat_bits k v) (asn_put_few_bits po (word_of_nat v) (int k))"
proof -
  have "(2 :: nat) ^ k \<le> 2 ^ 31" using assms(2) by (intro power_increasing) auto
  then show ?thesis using put_few_nat_result [OF assms(1) _ assms(2), of v] assms(3) by simp
qed

theorem put_few_bits_appends_witness:
  "put_result (outp_init (Encode_Dyn 0 [])) (nat_bits 3 5) (asn_put_few_bits (outp_init (Encode_Dyn 0 [])) (word_of_nat 5) (int 3))"
  by (rule put_few_bits_appends) (simp_all add: outp_init_wf)


text \<open>
  asn_get_many_bits copies any number of bits to octets, left-adjusted and with zero bits
  behind them.
\<close>

theorem get_many_bits_reads_octets:
  assumes "pd_wf pd" "pd_bits pd = bs @ rest"
  shows "\<exists>dst pd'. asn_get_many_bits pd False (int (length bs)) = (0, dst, pd')
    \<and> bytes_bits dst = bs @ replicate (pad8 (length bs)) False \<and> pd_bits pd' = rest"
  by (rule get_many_bits_prefix [OF assms refl]) blast

theorem get_many_bits_reads_octets_witness:
  "\<exists>dst pd'. asn_get_many_bits (pd_of [0xA5, 0x3C]) False 16 = (0, dst, pd') \<and> bytes_bits dst = bytes_bits [0xA5, 0x3C]"
  using get_many_bits_reads_octets [of "pd_of [0xA5, 0x3C]" "bytes_bits [0xA5, 0x3C]" "[]"] by (auto simp: pd_of_wf pad8_def)


text \<open>
  asn_put_many_bits appends the first bits of the given octets, as many as are asked for,
  or reports that the output callback refused the data.
\<close>

theorem put_many_bits_appends:
  assumes "po_wf po" "n \<le> 8 * length src"
  shows "put_result po (take n (bytes_bits src)) (asn_put_many_bits po src (int n))"
  by (rule put_many_bits_result [OF assms])

theorem put_many_bits_appends_witness:
  "put_result (outp_init (Encode_Dyn 0 [])) (take 11 (bytes_bits [0xA5, 0x3C])) (asn_put_many_bits (outp_init (Encode_Dyn 0 [])) [0xA5, 0x3C] 11)"
  using put_many_bits_appends [of "outp_init (Encode_Dyn 0 [])" 11 "[0xA5, 0x3C]"] by (simp add: outp_init_wf)


text \<open>
  C32. The length determinant that uper_put_length writes for any length is read back by
  uper_get_length as the same number of items, and the reader asks for a further fragment
  exactly if 16384 or more items remained.
\<close>

theorem length_determinant_roundtrip:
  assumes "po_wf po" "sink_unbounded (po_output po)" "pd_wf pd" "pd_bits pd = length_bits n @ rest"
  shows "\<exists>po' pd'. uper_put_length po n = (int (length_chunk n), length_eom n, po') \<and> po_bits po' = po_bits po @ length_bits n
    \<and> uper_get_length pd (-1) 0 = (int (length_chunk n), 16384 \<le> n, pd') \<and> pd_bits pd' = rest"
proof -
  obtain po' where po: "uper_put_length po n = (int (length_chunk n), length_eom n, po')" "po_app po (length_bits n) po'"
    using put_length_result [OF assms(1), of n] assms(2) by blast
  obtain pd' where pd: "uper_get_length pd (-1) 0 = (int (length_chunk n), 16384 \<le> n, pd')"
      "pd_adv pd (length (length_bits n)) pd'"
    by (rule get_length_result [OF assms(3,4), of "-1" 0]) auto
  show ?thesis using po pd pd_adv_bits [OF pd(2)] assms(4) by (auto simp: po_app_def)
qed

theorem length_determinant_roundtrip_witness:
  "\<exists>pd'. uper_get_length (pd_of [0x81, 0x2C]) (-1) 0 = (300, False, pd')"
proof -
  have "pd_bits (pd_of [0x81, 0x2C]) = length_bits 300 @ []" unfolding pd_of_wf
    by (simp add: length_bits_def bytes_bits_def byte_bits_def nat_bits_def upt_conv_Cons bit_0)
  then show ?thesis
    using length_determinant_roundtrip [of "outp_init (Encode_Dyn 0 [])" "pd_of [0x81, 0x2C]" 300 "[]"]
    by (auto simp: outp_init_wf pd_of_wf length_chunk_def)
qed


text \<open>
  A constrained whole number of up to 64 bits is written most significant bit first and
  read back unchanged.
\<close>

theorem whole_number_roundtrip:
  assumes "po_wf po" "pd_wf pd" "n \<le> 64" "v < 2 ^ n" "pd_bits pd = nat_bits n v @ rest"
  shows "put_result po (nat_bits n v) (uper_put_constrained_whole_number_u po (word_of_nat v) (int n))
    \<and> (\<exists>pd'. uper_get_constrained_whole_number pd (int n) = (Some (word_of_nat v), pd') \<and> pd_bits pd' = rest)"
proof (rule conjI)
  have "(2::nat) ^ n \<le> 2 ^ 64" using assms(3) by (intro power_increasing) auto
  then have "v < 2 ^ 64" using assms(4) by linarith
  then have "unat (word_of_nat v :: 64 word) = v" by (simp add: unat_of_nat)
  then show "put_result po (nat_bits n v) (uper_put_constrained_whole_number_u po (word_of_nat v) (int n))"
    using put_constrained_whole_result [OF assms(1), of n "word_of_nat v"] by simp
  have b: "bits_val (nat_bits n v) = v" by (rule bits_val_nat_bits_lt [OF assms(4)])
  obtain pd' where "uper_get_constrained_whole_number pd (int n) = (Some (word_of_nat (bits_val (nat_bits n v))), pd')"
      "pd_adv pd (length (nat_bits n v)) pd'"
    using get_constrained_whole_result [OF assms(2,5), of "int n"] assms(3) by auto
  then show "\<exists>pd'. uper_get_constrained_whole_number pd (int n) = (Some (word_of_nat v), pd') \<and> pd_bits pd' = rest"
    using pd_adv_bits assms(5) b by (metis append_eq_conv_conj)
qed

theorem whole_number_roundtrip_witness:
  "\<exists>pd'. uper_get_constrained_whole_number (pd_of [0xDE, 0xAD, 0xBE, 0xEF, 1]) 40 = (Some 0xDEADBEEF01, pd')"
proof -
  have "pd_bits (pd_of [0xDE, 0xAD, 0xBE, 0xEF, 1]) = nat_bits 40 0xDEADBEEF01 @ []" unfolding pd_of_wf
    by (simp add: length_bits_def bytes_bits_def byte_bits_def nat_bits_def upt_conv_Cons bit_0)
  from whole_number_roundtrip [OF _ pd_of_wf(1) _ _ this, of "outp_init (Encode_Dyn 0 [])"]
  show ?thesis by (auto simp: outp_init_wf)
qed





text \<open>
  C34. asn_INTEGER2imax returns the two's complement value of the octets, of any length, if that
  fits into 64 bits, and an error otherwise.
\<close>

theorem integer_to_imax_is_twos_complement:
  "asn_INTEGER2imax (Some bs) = (if - (2 ^ 63) \<le> be_sint bs \<and> be_sint bs < 2 ^ 63 then Some (be_sint bs) else None)"
  by (rule INTEGER2imax_spec)


text \<open>
  C35. asn_imax2INTEGER gives the shortest two's complement octets of every 64-bit value, and
  asn_INTEGER2imax reads them back.
\<close>

theorem imax_to_integer_roundtrip:
  assumes "is_long v"
  shows "asn_INTEGER2imax (Some (asn_imax2INTEGER v)) = Some v \<and> minimal_content (asn_imax2INTEGER v)
    \<and> length (asn_imax2INTEGER v) \<in> {1..8}"
  using imax2INTEGER_spec [OF assms] assms by (auto simp: INTEGER2imax_spec Suc_le_eq)

theorem imax_to_integer_roundtrip_witness: "asn_INTEGER2imax (Some (asn_imax2INTEGER (- 129))) = Some (- 129)"
  by (rule conjunct1 [OF imax_to_integer_roundtrip]) simp


text \<open>
  The binary search of an enumerated value in a sorted table finds what a linear search
  finds.
\<close>

theorem enum_lookup_is_linear_search:
  assumes "enum_sorted (value2enum specs)"
  shows "INTEGER_map_value2enum (Some specs) v = find (\<lambda>(k, name). k = v) (value2enum specs)"
proof (cases "\<exists>k < length (value2enum specs). fst (value2enum specs ! k) = v")
  case True
  then obtain k where k: "k < length (value2enum specs)" "fst (value2enum specs ! k) = v" by blast
  have "find (\<lambda>(k, name). k = v) (value2enum specs) = Some (value2enum specs ! k)"
    unfolding find_Some_iff using k enum_sorted_less [OF assms, of _ k] by (intro exI [of _ k]) (fastforce simp: case_prod_beta)
  then show ?thesis using bsearch_enum(2) [OF assms k(1)] k by (auto simp: INTEGER_map_value2enum_def Let_def)
next
  case False
  have "bsearch (INTEGER__compar_value2enum v (value2enum specs)) 0 (length (value2enum specs)) = None"
  proof (rule ccontr)
    assume "bsearch (INTEGER__compar_value2enum v (value2enum specs)) 0 (length (value2enum specs)) \<noteq> None"
    then obtain i where "i < length (value2enum specs)" "INTEGER__compar_value2enum v (value2enum specs) i = 0"
      using bsearch_Some by blast
    then show False using False by (auto simp: INTEGER__compar_value2enum_def Let_def split: if_splits)
  qed
  moreover have "find (\<lambda>(k, name). k = v) (value2enum specs) = None"
    using False by (auto simp: find_None_iff in_set_conv_nth)
  ultimately show ?thesis by (simp add: INTEGER_map_value2enum_def Let_def)
qed

theorem enum_lookup_is_linear_search_witness:
  "INTEGER_map_value2enum (Some (asn_SPC_StationID_specs_1\<lparr>value2enum := [(0, ''a''), (3, ''b''), (9, ''c'')]\<rparr>)) 3 = Some (3, ''b'')"
  by (subst enum_lookup_is_linear_search) (simp_all add: enum_sorted_def)


text \<open>
  BIT_STRING_compare is 0 exactly if the two bit strings are equal up to zero bits at the
  end, and swapping the arguments negates it.
\<close>

theorem bit_string_compare_ignores_trailing_zeros:
  assumes "a = [] \<longrightarrow> u = 0" "b = [] \<longrightarrow> v = 0"
  shows "(BIT_STRING_compare (a, u) (b, v) = 0 \<longleftrightarrow> bs_strip (bytes_bits a) = bs_strip (bytes_bits b))
    \<and> BIT_STRING_compare (b, v) (a, u) = - BIT_STRING_compare (a, u) (b, v)"
  by (intro conjI BIT_STRING_compare_eq [OF assms] BIT_STRING_compare_swap)

theorem bit_string_compare_ignores_trailing_zeros_witness: "BIT_STRING_compare ([0x80], 7) ([0x80, 0], 3) = 0"
proof -
  have "bs_strip (bytes_bits [0x80, 0]) = bs_strip (bytes_bits [0x80])"
    by code_simp
  then show ?thesis using bit_string_compare_ignores_trailing_zeros [of "[0x80]" 7 "[0x80, 0]" 3] by simp
qed





text \<open>
  asn_sequence_del removes exactly the element at the given position, keeps the order of
  the others, and releases that element only if asked to.
\<close>

theorem sequence_del_removes:
  assumes "as_wf as" "k < as_count as"
  shows "as_list (snd (asn_sequence_del as (int k) f)) = take k (as_list as) @ drop (Suc k) (as_list as)
    \<and> as_wf (snd (asn_sequence_del as (int k) f))
    \<and> fst (asn_sequence_del as (int k) f) = (if f then as_list as ! k else None)"
  by (intro conjI sequence_del_spec [OF assms])

theorem sequence_del_removes_witness:
  "as_list (snd (asn_sequence_del \<lparr>as_array = [Some 1, Some 2, Some (3::nat), None], as_count = 3, as_size = 4\<rparr> 1 True)) = [Some 1, Some 3]"
  using sequence_del_removes [of "\<lparr>as_array = [Some 1, Some 2, Some (3::nat), None], as_count = 3, as_size = 4\<rparr>" 1 True]
  by (simp add: as_wf_def as_list_def numeral_3_eq_3)


text \<open>
  asn_ulong2INTEGER turns every value of 2^63 and more into a negative INTEGER.
\<close>

theorem ulong_not_representable:
  assumes "2 ^ 63 \<le> uint v"
  shows "be_sint (asn_ulong2INTEGER v) = uint v - 2 ^ 64"
proof -
  have "sint v = uint v - 2 ^ 64"
  proof -
    have b: "uint v < 2 ^ 64" using uint_range_size [of v] by (simp add: word_size)
    have e: "(word_of_int (uint v - 2 ^ 64) :: 64 word) = v" by simp
    have "sint (word_of_int (uint v - 2 ^ 64) :: 64 word) = uint v - 2 ^ 64"
      by (rule sint_of_int_64) (use assms b in simp_all)
    then show ?thesis unfolding e .
  qed
  moreover have "uint v < 2 ^ 64" using uint_range_size [of v] by (simp add: word_size)
  ultimately show ?thesis using imax2INTEGER_spec(1) [of "sint v"] assms by (simp add: asn_ulong2INTEGER_def)
qed

theorem ulong_not_representable_witness: "be_sint (asn_ulong2INTEGER (2 ^ 63)) = - (2 ^ 63)"
  using ulong_not_representable [of "2 ^ 63"] by simp


text \<open>
  uper_put_nsnnwn writes the numbers from 64 to 255 in a form that uper_get_nsnnwn reads as
  0.
\<close>

theorem nsnnwn_leading_bit_missing:
  assumes "64 \<le> n" "n < 256" "po_wf po" "pd_wf pd" "pd_bits pd = nat_bits 8 1 @ nat_bits 8 n @ rest"
  shows "put_result po (nat_bits 8 1 @ nat_bits 8 n) (uper_put_nsnnwn po (int n)) \<and> fst (uper_get_nsnnwn pd) = 0"
proof (rule conjI)
  have w: "(word_of_int (int n) :: 32 word) = word_of_nat n" by simp
  have p: "uper_put_nsnnwn po (int n) = (if fst (asn_put_few_bits po (word_of_nat 1) (int 8)) \<noteq> 0
      then (-1, snd (asn_put_few_bits po (word_of_nat 1) (int 8)))
      else asn_put_few_bits (snd (asn_put_few_bits po (word_of_nat 1) (int 8))) (word_of_nat n) (int 8))"
    using assms(1,2) by (simp add: uper_put_nsnnwn_def Let_def case_prod_beta)
  show "put_result po (nat_bits 8 1 @ nat_bits 8 n) (uper_put_nsnnwn po (int n))" unfolding p
  proof (rule put_result_seq)
    show "put_result po (nat_bits 8 1) (asn_put_few_bits po (word_of_nat 1) (int 8))"
      by (rule put_few_nat_result [OF assms(3)]) simp_all
    show "put_result po1 (nat_bits 8 n) (asn_put_few_bits po1 (word_of_nat n) (int 8))" if "po_wf po1" for po1
      by (rule put_few_nat_result [OF that]) (use assms(2) in simp_all)
  qed
  have "pd_bits pd = nat_bits 7 0 @ [True] @ nat_bits 8 n @ rest" unfolding assms(5) nat_bits_split by simp
  then obtain pd' where "uper_get_nsnnwn pd = (int 0, pd')" by (rule get_nsnnwn_result [OF assms(4)]) auto
  then show "fst (uper_get_nsnnwn pd) = 0" by simp
qed

theorem nsnnwn_leading_bit_missing_witness: "fst (uper_get_nsnnwn (pd_of [1, 100])) = 0"
proof -
  have "pd_bits (pd_of [1, 100]) = nat_bits 8 1 @ nat_bits 8 100 @ []" unfolding pd_of_wf
    by (simp add: bytes_bits_def byte_bits_def nat_bits_def upt_conv_Cons bit_0)
  from nsnnwn_leading_bit_missing [OF _ _ _ pd_of_wf(1) this, of "outp_init (Encode_Dyn 0 [])"]
  show ?thesis by (simp add: outp_init_wf)
qed


text \<open>
  A value whose encoding has no bits is encoded to an empty buffer, which decode_per
  rejects.
\<close>

theorem empty_encoding_is_rejected:
  assumes "fits td t" "wire_of td t = []"
  shows "encode_per td t = Inr [] \<and> decode_per td [] = Some None"
proof (rule conjI)
  obtain b where "encode_per td t = Inr b" "bytes_bits b = wire_of td t @ replicate (pad8 (length (wire_of td t))) False"
    by (rule encode_per_result [OF assms(1)])
  then show "encode_per td t = Inr []" using assms(2) by (cases b) (auto simp: pad8_def bytes_bits_def byte_bits_def)
qed (rule decode_per_empty)

theorem empty_encoding_is_rejected_witness:
  "encode_per (TD OP_NULL None [] SPC_NONE) V_NULL = Inr [] \<and> decode_per (TD OP_NULL None [] SPC_NONE) [] = Some None"
  using empty_encoding_is_rejected [of "TD OP_NULL None [] SPC_NONE" V_NULL] by (simp add: simple_ok_def simple_wire_def)


end
