(* ===== verification/Constraints.thy ===== *)
theory Constraints
  imports Asn1c_Wrapper
begin

text \<open>
  The check of a structure against the constraints of its type, which \<open>validate\<close> of
  \<open>asn1c_wrapper.cpp\<close> calls: \<open>asn_check_constraints\<close> (\<open>constraints.c\<close>) and the functions of type
  \<open>asn_constr_check_f\<close> in \<open>constr_SEQUENCE.c\<close>, \<open>constr_CHOICE.c\<close>, \<open>constr_SET_OF.c\<close>, \<open>UTF8String.c\<close>,
  \<open>IA5String.c\<close>, \<open>NumericString.c\<close> and \<open>BIT_STRING.c\<close>. The functions asn1c generated for the types of the
  messages are in \<open>Its_Checks\<close>.

  \<^item> A check takes the descriptor and the pointer \<open>sptr\<close> (\<open>None\<close> is NULL) and returns \<open>0\<close> or \<open>-1\<close>. The callback
    that formats the message of a failure is not part of the model.
  \<^item> \<open>encoding_constraints.general_constraints\<close> of a descriptor or member is a pointer to such a function.
    \<open>asn_check\<close> is this pointer together with the pointers that the function follows through
    \<open>td->elements\<close>: for each member its own one, which may be NULL, and the one of its type.
  \<^item> \<open>general_constraints\<close> calls the function; \<open>complete_constraints\<close> is the reference, in which the check of a
    SEQUENCE looks at all members.
  \<^item> The locale \<open>sequence_check\<close> states what both have in common, and that values which can be encoded pass;
    it is interpreted for both.
\<close>

section \<open>Checks of the runtime\<close>

type_synonym asn_constr_check_f = "asn_TYPE_descriptor \<Rightarrow> asn_value option \<Rightarrow> int"

type_synonym member_checks = "(asn_constr_check_f option \<times> asn_constr_check_f) list"

definition asn_generic_no_constraint :: asn_constr_check_f where
  "asn_generic_no_constraint type_descriptor struct_ptr = 0"

definition asn_generic_unknown_constraint :: asn_constr_check_f where
  "asn_generic_unknown_constraint type_descriptor struct_ptr = 0"

definition elm_check :: "asn_constr_check_f option \<times> asn_constr_check_f \<Rightarrow> asn_constr_check_f" where
  "elm_check c = (case fst c of Some constr \<Rightarrow> constr | None \<Rightarrow> snd c)"

text \<open>
  The loop over the members. A member that has a check of its own is checked, and the loop goes on; for
  any other member the result of the check of its type is returned at once.
\<close>

fun SEQUENCE_constraint_loop ::
  "(asn_TYPE_member \<times> (asn_constr_check_f option \<times> asn_constr_check_f)) list \<Rightarrow> asn_value option list \<Rightarrow> int" where
  "SEQUENCE_constraint_loop [] _ = 0"
| "SEQUENCE_constraint_loop (_ # _) [] = -1"
| "SEQUENCE_constraint_loop ((elm, own, ty) # elms) (memb # membs) =
     (if elm_pointer elm \<and> memb = None
      then if elm_optional elm then SEQUENCE_constraint_loop elms membs else -1
      else case own of
             Some constr \<Rightarrow>
               (let ret = constr (elm_type elm) memb
                in if ret \<noteq> 0 then ret else SEQUENCE_constraint_loop elms membs)
           | None \<Rightarrow> ty (elm_type elm) memb)"

definition SEQUENCE_constraint :: "member_checks \<Rightarrow> asn_constr_check_f" where
  "SEQUENCE_constraint cs td sptr =
     (case sptr of
        Some (V_SEQUENCE ms) \<Rightarrow> SEQUENCE_constraint_loop (zip (td_elements td) cs) ms
      | _ \<Rightarrow> -1)"

text \<open>\<open>_fetch_present_idx\<close> reads \<open>present\<close>, the first argument of \<open>V_CHOICE\<close>. \<open>OPEN_TYPE_constraint\<close> is this function.\<close>

definition CHOICE_constraint :: "member_checks \<Rightarrow> asn_constr_check_f" where
  "CHOICE_constraint cs td sptr =
     (case sptr of
        Some (V_CHOICE present memb) \<Rightarrow>
          if 0 < present \<and> present \<le> length (td_elements td)
          then let elm = td_elements td ! (present - 1)
               in if elm_pointer elm \<and> memb = None
                  then if elm_optional elm then 0 else -1
                  else elm_check (cs ! (present - 1)) (elm_type elm) memb
          else -1
      | _ \<Rightarrow> -1)"

fun SET_OF_constraint_loop :: "(asn_value option \<Rightarrow> int) \<Rightarrow> asn_value list \<Rightarrow> int" where
  "SET_OF_constraint_loop constr [] = 0"
| "SET_OF_constraint_loop constr (memb # array) =
     (let ret = constr (Some memb) in if ret \<noteq> 0 then ret else SET_OF_constraint_loop constr array)"

definition SET_OF_constraint :: "asn_constr_check_f option \<times> asn_constr_check_f \<Rightarrow> asn_constr_check_f" where
  "SET_OF_constraint c td sptr =
     (case sptr of
        Some (V_LIST array) \<Rightarrow>
          (let elm = td_elements td ! 0 in SET_OF_constraint_loop (elm_check c (elm_type elm)) array)
      | _ \<Rightarrow> -1)"

section \<open>Checks of strings\<close>

text \<open>A pointer \<open>buf\<close> that is NULL does not occur in the values of the model.\<close>

definition IA5String_constraint :: asn_constr_check_f where
  "IA5String_constraint td sptr =
     (case sptr of
        Some (V_OCTET_STRING buf) \<Rightarrow> if list_ex (\<lambda>b. 0x7F < b) buf then -1 else 0
      | _ \<Rightarrow> -1)"

definition NumericString_constraint :: asn_constr_check_f where
  "NumericString_constraint td sptr =
     (case sptr of
        Some (V_OCTET_STRING buf) \<Rightarrow>
          if list_all (\<lambda>b. b \<in> {0x20, 0x30, 0x31, 0x32, 0x33, 0x34, 0x35, 0x36, 0x37, 0x38, 0x39}) buf then 0 else -1
      | _ \<Rightarrow> -1)"

definition BIT_STRING_constraint :: asn_constr_check_f where
  "BIT_STRING_constraint td sptr =
     (case sptr of
        Some (V_BIT_STRING buf bits_unused) \<Rightarrow>
          if length buf = 0 \<and> bits_unused \<noteq> 0 \<or> bits_unused > 7 then -1 else 0
      | _ \<Rightarrow> -1)"

text \<open>\<open>size\<close> of the generated checks of a BIT STRING.\<close>

definition bit_string_size :: "byte list \<Rightarrow> nat \<Rightarrow> nat" where
  "bit_string_size buf bits_unused =
     (if length buf > 0 then 8 * length buf - bits_unused mod 8 else 0)"

definition UTF8String_ht :: "int list list" where
  "UTF8String_ht =
     [[1, 1, 1, 1, 1, 1, 1, 1,
       0, 0, 0, 0, 2, 2, 3, -1],
      [4, 4, 4, 4, 4, 4, 4, 4,
       5, 5, 5, 5, 6, 6, -1, -1]]"

definition UTF8String_mv :: "int list" where
  "UTF8String_mv = [0, 0, 0x00000080, 0x00000800, 0x00010000, 0x00200000, 0x04000000]"

datatype utf8_error = U8E_TRUNC | U8E_ILLSTART | U8E_NOTCONT | U8E_NOTMIN | U8E_EINVAL

primrec utf8_error_code :: "utf8_error \<Rightarrow> int" where
  "utf8_error_code U8E_TRUNC = -1"
| "utf8_error_code U8E_ILLSTART = -2"
| "utf8_error_code U8E_NOTCONT = -3"
| "utf8_error_code U8E_NOTMIN = -4"
| "utf8_error_code U8E_EINVAL = -5"

text \<open>The length of the sequence that an octet starts.\<close>

definition utf8_want :: "byte \<Rightarrow> utf8_error + nat" where
  "utf8_want ch =
     (let want = UTF8String_ht ! 0 ! unat (drop_bit 4 ch)
      in if want = -1
         then let want = UTF8String_ht ! 1 ! unat (and ch 0x0F)
              in if want \<noteq> -1 then Inr (nat want) else Inl U8E_ILLSTART
         else if want = 0 then Inl U8E_ILLSTART else Inr (nat want))"

text \<open>The inner loop over the continuation octets.\<close>

fun utf8_cont :: "int \<Rightarrow> byte list \<Rightarrow> utf8_error + int" where
  "utf8_cont v [] = Inr v"
| "utf8_cont v (ch # buf) =
     (if ch < 0x80 \<or> ch > 0xbf then Inl U8E_NOTCONT
      else utf8_cont (or (push_bit 6 v) (uint (and ch 0x3F))) buf)"

text \<open>
  \<open>UTF8String__process\<close> without a destination (\<open>dst\<close> and \<open>dstlen\<close> are 0), as \<open>UTF8String_length\<close> calls it: the
  values of the code points, which the loop counts.
\<close>

function UTF8String__process :: "byte list \<Rightarrow> utf8_error + int list" where
  "UTF8String__process [] = Inr []"
| "UTF8String__process (ch # buf) =
     (case utf8_want ch of
        Inl e \<Rightarrow> Inl e
      | Inr want \<Rightarrow>
          if want > Suc (length buf) then Inl U8E_TRUNC
          else case utf8_cont (uint (and ch (drop_bit want 0xff))) (take (want - 1) buf) of
                 Inl e \<Rightarrow> Inl e
               | Inr v \<Rightarrow>
                   if v < UTF8String_mv ! want then Inl U8E_NOTMIN
                   else case UTF8String__process (drop (want - 1) buf) of
                          Inl e \<Rightarrow> Inl e
                        | Inr vs \<Rightarrow> Inr (v # vs))"
  by pat_completeness auto

termination by (relation "measure length") auto

definition UTF8String_length :: "asn_value option \<Rightarrow> int" where
  "UTF8String_length st =
     (case st of
        Some (V_OCTET_STRING buf) \<Rightarrow>
          (case UTF8String__process buf of Inl e \<Rightarrow> utf8_error_code e | Inr vs \<Rightarrow> int (length vs))
      | _ \<Rightarrow> utf8_error_code U8E_EINVAL)"

definition UTF8String_constraint :: asn_constr_check_f where
  "UTF8String_constraint td sptr = (if UTF8String_length sptr < 0 then -1 else 0)"

section \<open>Checks of a descriptor\<close>

text \<open>
  \<open>CHK\<close> is a function that looks at the value only. \<open>CHK_INNER\<close> is a generated function that ends with a call of
  another check of the same descriptor.
\<close>

datatype asn_check =
    CHK asn_constr_check_f
  | CHK_INNER "asn_constr_check_f \<Rightarrow> asn_constr_check_f" asn_check
  | CHK_SEQUENCE "(asn_check option \<times> asn_check) list"
  | CHK_CHOICE "(asn_check option \<times> asn_check) list"
  | CHK_SEQUENCE_OF "asn_check option \<times> asn_check"

primrec run_check :: "(member_checks \<Rightarrow> asn_constr_check_f) \<Rightarrow> asn_check \<Rightarrow> asn_constr_check_f" where
  "run_check seq (CHK constr) = constr"
| "run_check seq (CHK_INNER constr c) = constr (run_check seq c)"
| "run_check seq (CHK_SEQUENCE cs) = seq (map (map_prod (map_option (run_check seq)) (run_check seq)) cs)"
| "run_check seq (CHK_CHOICE cs) = CHOICE_constraint (map (map_prod (map_option (run_check seq)) (run_check seq)) cs)"
| "run_check seq (CHK_SEQUENCE_OF c) = SET_OF_constraint (map_prod (map_option (run_check seq)) (run_check seq) c)"

definition general_constraints :: "asn_check \<Rightarrow> asn_constr_check_f" where
  "general_constraints = run_check SEQUENCE_constraint"

definition asn_check_constraints :: "asn_check \<Rightarrow> asn_constr_check_f" where
  "asn_check_constraints c type_descriptor struct_ptr = general_constraints c type_descriptor struct_ptr"

definition validate :: "asn_check \<Rightarrow> asn_TYPE_descriptor \<Rightarrow> asn_value \<Rightarrow> bool" where
  "validate c td t \<longleftrightarrow> asn_check_constraints c td (Some t) = 0"

section \<open>The complete check\<close>

definition member_passes ::
  "asn_TYPE_member \<Rightarrow> asn_constr_check_f option \<times> asn_constr_check_f \<Rightarrow> asn_value option \<Rightarrow> bool" where
  "member_passes elm c memb \<longleftrightarrow>
     (if elm_pointer elm \<and> memb = None then elm_optional elm else elm_check c (elm_type elm) memb = 0)"

definition SEQUENCE_complete :: "member_checks \<Rightarrow> asn_constr_check_f" where
  "SEQUENCE_complete cs td sptr =
     (case sptr of
        Some (V_SEQUENCE ms) \<Rightarrow>
          if length ms = length (td_elements td)
             \<and> list_all (\<lambda>(elm, c, memb). member_passes elm c memb) (zip (td_elements td) (zip cs ms))
          then 0 else -1
      | _ \<Rightarrow> -1)"

definition complete_constraints :: "asn_check \<Rightarrow> asn_constr_check_f" where
  "complete_constraints = run_check SEQUENCE_complete"

section \<open>Values inside the root of the constraints\<close>

text \<open>
  A constraint that is extensible lets values outside its root be encoded; the generated checks test the root.
\<close>

definition simple_in_root :: "asn_TYPE_descriptor \<Rightarrow> asn_per_constraints option \<Rightarrow> asn_value \<Rightarrow> bool" where
  "simple_in_root td c v =
     (case v of
        V_long i \<Rightarrow>
          td_op td = OP_NativeInteger \<longrightarrow> (case value_constraint td c of None \<Rightarrow> True | Some ct \<Rightarrow> \<not> int_inext ct i)
      | V_OCTET_STRING b \<Rightarrow> \<not> os_inext (os_csiz (pick_constraints td c)) (length b)
      | V_BIT_STRING b _ \<Rightarrow>
          (let csiz = bs_csiz (pick_constraints td c) in 0 \<le> effective_bits csiz \<longrightarrow> bs_root csiz b)
      | _ \<Rightarrow> True)"

primrec in_root :: "nat \<Rightarrow> asn_TYPE_descriptor \<Rightarrow> asn_per_constraints option \<Rightarrow> asn_value \<Rightarrow> bool" where
  "in_root 0 = simple_in_root"
| "in_root (Suc n) = (\<lambda>td c v.
     case v of
       V_SEQUENCE ms \<Rightarrow>
         list_all (\<lambda>(elm, m). case m of None \<Rightarrow> True | Some w \<Rightarrow> in_root n (elm_type elm) (elm_per_constraints elm) w)
           (zip (td_elements td) ms)
     | V_CHOICE p (Some m) \<Rightarrow>
         (let elm = td_elements td ! (p - 1) in in_root n (elm_type elm) (elm_per_constraints elm) m)
     | V_LIST vs \<Rightarrow>
         (let elm = so_elm td
          in \<not> (so_not_in_root (size_constraint td c) (length vs) \<and> so_extensible (size_constraint td c))
             \<and> list_all (in_root n (elm_type elm) (elm_per_constraints elm)) vs)
     | _ \<Rightarrow> simple_in_root td c v)"

definition admits :: "asn_constr_check_f \<Rightarrow> asn_TYPE_descriptor \<Rightarrow> asn_per_constraints option \<Rightarrow> bool" where
  "admits constr td c \<longleftrightarrow> (\<forall>n v. uper_ok n td c v \<and> in_root n td c v \<longrightarrow> constr td (Some v) = 0)"

definition admits_member :: "asn_TYPE_member \<Rightarrow> asn_constr_check_f option \<times> asn_constr_check_f \<Rightarrow> bool" where
  "admits_member elm c \<longleftrightarrow>
     admits (elm_check c) (elm_type elm) (elm_per_constraints elm)
     \<and> (case elm_default elm of
           None \<Rightarrow> elm_optional elm \<longleftrightarrow> elm_pointer elm
         | Some d \<Rightarrow> elm_check c (elm_type elm) (Some d) = 0)"

lemma admitsD: "admits constr td c \<Longrightarrow> uper_ok n td c v \<Longrightarrow> in_root n td c v \<Longrightarrow> constr td (Some v) = 0"
  by (auto simp: admits_def)

lemma admits_always [simp]: "(\<And>td sptr. constr td sptr = 0) \<Longrightarrow> admits constr td c"
  by (simp add: admits_def)

lemma uper_ok_simple:
  "td_op td \<notin> {OP_SEQUENCE, OP_CHOICE, OP_SEQUENCE_OF} \<Longrightarrow> uper_ok n td c v = simple_ok td c v"
  by (cases n) (auto split: asn_op.splits)

lemma in_root_simple: "simple_ok td c v \<Longrightarrow> in_root n td c v = simple_in_root td c v"
  by (cases n) (auto simp: simple_ok_def split: asn_op.splits asn_value.splits)

lemma admits_simple:
  assumes "td_op td \<notin> {OP_SEQUENCE, OP_CHOICE, OP_SEQUENCE_OF}"
    and "\<And>v. simple_ok td c v \<Longrightarrow> simple_in_root td c v \<Longrightarrow> constr td (Some v) = 0"
  shows "admits constr td c"
  using assms by (auto simp: admits_def uper_ok_simple in_root_simple)

lemma member_passesI:
  assumes "admits_member elm c"
    and "seq_member_ok (uper_ok n) elm m \<or> seq_ext_ok (uper_ok n) elm m"
    and "case m of None \<Rightarrow> True | Some w \<Rightarrow> in_root n (elm_type elm) (elm_per_constraints elm) w"
  shows "member_passes elm c m"
  using assms
  by (auto simp: member_passes_def admits_member_def seq_member_ok_def seq_ext_ok_def
      split: option.splits if_splits dest: admitsD)

text \<open>The size of a BIT STRING as the generated checks compute it.\<close>

lemma bs_ok_size:
  assumes ok: "bs_fits td c b u" "bs_canonical td c b u"
    and csiz: "bs_csiz (pick_constraints td c) = csiz" "0 \<le> effective_bits csiz" "bs_root csiz b"
  shows "lower_bound csiz \<le> int (bit_string_size b u)" "int (bit_string_size b u) \<le> upper_bound csiz"
proof -
  define bs where "bs = bs_content csiz b"
  have b: "bytes_bits b = bs @ replicate (pad8 (length bs)) False" "u = pad8 (length bs)"
    using ok(2) csiz(1) by (auto simp: bs_canonical_def bs_def Let_def)
  have "8 * length b = length bs + u" using arg_cong [OF b(1), of length] b(2) by simp
  moreover have "u \<le> 7" "b = [] \<longrightarrow> u = 0" using ok(1) by (auto simp: bs_fits_def Let_def)
  ultimately have size: "bit_string_size b u = length bs"
    by (cases "u = 0") (auto simp: bit_string_size_def)
  have "bs_constraint_ok csiz" using ok(1) csiz(1) by (auto simp: bs_fits_def Let_def)
  then have "0 \<le> lower_bound csiz" "lower_bound csiz \<le> upper_bound csiz"
    using csiz(2) by (auto simp: bs_constraint_ok_def)
  moreover have "int (length (bs_strip (bytes_bits b))) \<le> upper_bound csiz"
    using csiz(3) by (simp add: bs_root_def)
  ultimately show "lower_bound csiz \<le> int (bit_string_size b u)" "int (bit_string_size b u) \<le> upper_bound csiz"
    unfolding size bs_def using csiz(3) by (auto simp: bs_content_def Let_def)
qed

lemma admits_bits:
  assumes "td_op td = OP_BIT_STRING" "bs_csiz (pick_constraints td c) = csiz" "0 \<le> effective_bits csiz"
    and "\<And>b u. lower_bound csiz \<le> int (bit_string_size b u) \<Longrightarrow> int (bit_string_size b u) \<le> upper_bound csiz
            \<Longrightarrow> constr td (Some (V_BIT_STRING b u)) = 0"
  shows "admits constr td c"
proof (rule admits_simple)
  fix v assume v: "simple_ok td c v" "simple_in_root td c v"
  then obtain b u where b: "v = V_BIT_STRING b u" "bs_fits td c b u" "bs_canonical td c b u" "bs_root csiz b"
    using assms(1,2,3) by (auto simp: simple_ok_def simple_in_root_def Let_def split: asn_value.splits)
  show "constr td (Some v) = 0"
    unfolding b(1) using bs_ok_size [OF b(2,3) assms(2,3) b(4)] by (rule assms(4))
qed (simp add: assms(1))

lemma admits_long:
  assumes "td_op td = OP_NativeInteger" "value_constraint td c = Some ct"
    and "\<not> APC_SEMI_CONSTRAINED ct" "0 \<le> range_bits ct"
    and "\<And>i. lower_bound ct \<le> i \<Longrightarrow> i \<le> upper_bound ct \<Longrightarrow> constr td (Some (V_long i)) = 0"
  shows "admits constr td c"
proof (rule admits_simple)
  fix v assume v: "simple_ok td c v" "simple_in_root td c v"
  then obtain i where "v = V_long i" "\<not> int_inext ct i"
    using assms(1,2) by (auto simp: simple_ok_def simple_in_root_def split: asn_value.splits)
  then show "constr td (Some v) = 0" using assms(3,4,5) by (auto simp: int_inext_def)
qed (simp add: assms(1))

lemma admits_octets:
  assumes "td_op td = OP_OCTET_STRING" "os_subvariant td = Some (1, 8)"
    and "os_csiz (pick_constraints td c) = csiz" "0 \<le> effective_bits csiz" "\<not> APC_EXTENSIBLE csiz"
    and "\<And>b. lower_bound csiz \<le> int (length b) \<Longrightarrow> int (length b) \<le> upper_bound csiz
           \<Longrightarrow> os_ok td c b \<Longrightarrow> constr td (Some (V_OCTET_STRING b)) = 0"
  shows "admits constr td c"
proof (rule admits_simple)
  fix v assume v: "simple_ok td c v" "simple_in_root td c v"
  then obtain b where "v = V_OCTET_STRING b" "os_ok td c b" "\<not> os_inext csiz (length b)"
    using assms(1,2,3) by (auto simp: simple_ok_def simple_in_root_def split: asn_value.splits)
  then show "constr td (Some v) = 0" using assms(4,5,6) by (auto simp: os_inext_def)
qed (simp add: assms(1))

lemma admits_sized:
  assumes "td_op td = OP_SEQUENCE_OF" "size_constraint td c = Some ct" "0 \<le> effective_bits ct"
    and inner: "admits inner td c"
    and "\<And>vs. lower_bound ct \<le> int (length vs) \<Longrightarrow> int (length vs) \<le> upper_bound ct
           \<Longrightarrow> constr td (Some (V_LIST vs)) = inner td (Some (V_LIST vs))"
  shows "admits constr td c"
  unfolding admits_def
proof (intro allI impI)
  fix n v assume v: "uper_ok n td c v \<and> in_root n td c v"
  obtain k vs where m: "n = Suc k" "v = V_LIST vs" "so_ok (uper_ok k) (uper_used k) td c vs"
    using v assms(1) by (cases n) (auto simp: simple_ok_def split: asn_value.splits)
  have "\<not> so_not_in_root (Some ct) (length vs)"
    using m v assms(2,3) by (auto simp: so_ok_def Let_def)
  then show "constr td (Some v) = 0"
    using assms(5) [of vs] admitsD [OF inner, of n v] v m(2) by (auto simp: so_not_in_root_def)
qed

lemma os_chars_1: "os_chars (length b) (Suc 0) b = map (\<lambda>x. [x]) b"
  by (induction b) auto

lemma ia5_char:
  assumes "os_char_ok (Suc 0) 7 0 127 pc [x]"
  shows "x \<le> 127"
proof -
  have as_is: "os_as_is 7 127" by (simp add: os_as_is_def)
  have "os_put_range 0 127 (ucast x) \<noteq> None"
    using assms as_is by (auto simp: os_char_ok_def os_copied_def os_put_conv_def split: option.splits)
  moreover have "uint x < 256" using uint_lt2p [of x] by simp
  moreover have "sint (word_of_int (uint x) :: 32 word) = uint x"
    using \<open>uint x < 256\<close> signed_take_bit_int_eq_self [of 31 "uint x"] uint_ge_0 [of x]
    by (simp add: sint_uint take_bit_int_eq_self unsigned_ucast_eq)
  ultimately have "uint x \<le> 127"
    by (auto simp: os_put_range_def Let_def unsigned_ucast_eq take_bit_int_eq_self split: if_splits)
  then show ?thesis by (simp add: word_le_def)
qed

lemma admits_ia5:
  assumes "td_op td = OP_OCTET_STRING" "os_subvariant td = Some (1, 8)"
    and "pick_constraints td c = Some pc" "0 \<le> effective_bits (pc_size pc)" "\<not> APC_EXTENSIBLE (pc_size pc)"
    and "APC_CONSTRAINED (pc_value pc)" "range_bits (pc_value pc) = 7" "lower_bound (pc_value pc) = 0" "upper_bound (pc_value pc) = 127"
    and chk: "\<And>b. lower_bound (pc_size pc) \<le> int (length b) \<Longrightarrow> int (length b) \<le> upper_bound (pc_size pc)
           \<Longrightarrow> list_all (\<lambda>cv. cv \<le> 127) b \<Longrightarrow> constr td (Some (V_OCTET_STRING b)) = 0"
  shows "admits constr td c"
proof (rule admits_octets [where csiz = "pc_size pc"])
  fix b assume b: "lower_bound (pc_size pc) \<le> int (length b)" "int (length b) \<le> upper_bound (pc_size pc)" "os_ok td c b"
  then have "\<not> os_inext (pc_size pc) (length b)" by (auto simp: os_inext_def)
  then have "\<forall>x \<in> set (os_chars (length b) 1 b). os_char_ok 1 7 0 127 (Some pc) x"
    using b(3) assms(2,3,6-9) by (auto simp: os_ok_def Let_def os_csiz_def os_cval_def os_setting_of_def)
  then have "list_all (\<lambda>cv. cv \<le> 127) b"
    by (auto simp: os_chars_1 list_all_iff intro: ia5_char)
  with b(1,2) show "constr td (Some (V_OCTET_STRING b)) = 0" by (rule chk)
qed (use assms in \<open>simp_all add: os_csiz_def\<close>)

lemma admits_INTEGER:
  assumes "td_op td = OP_INTEGER" "value_constraint td c = Some ct"
    and "\<not> APC_SEMI_CONSTRAINED ct" "0 \<le> range_bits ct" "\<not> APC_EXTENSIBLE ct"
    and "\<And>b. is_long (be_sint b) \<Longrightarrow> lower_bound ct \<le> be_sint b \<Longrightarrow> be_sint b \<le> upper_bound ct
           \<Longrightarrow> constr td (Some (V_INTEGER (Some b))) = 0"
  shows "admits constr td c"
proof (rule admits_simple)
  fix v assume v: "simple_ok td c v" "simple_in_root td c v"
  then obtain b where "v = V_INTEGER (Some b)" "int_ok (Some ct) (td_field_unsigned td) (be_sint b)"
    using assms(1,2) by (auto simp: simple_ok_def split: asn_value.splits option.splits)
  then show "constr td (Some v) = 0" using assms(3-6) by (auto simp: int_ok_def int_inext_def)
qed (simp add: assms(1))

locale sequence_check =
  fixes seq :: "member_checks \<Rightarrow> asn_constr_check_f"
  assumes seq_passes:
    "length cs = length (td_elements td) \<Longrightarrow> length ms = length (td_elements td) \<Longrightarrow>
     (\<And>i. i < length ms \<Longrightarrow> member_passes (td_elements td ! i) (cs ! i) (ms ! i)) \<Longrightarrow>
     seq cs td (Some (V_SEQUENCE ms)) = 0"
begin

abbreviation perform :: "asn_check \<Rightarrow> asn_constr_check_f" where
  "perform \<equiv> run_check seq"

abbreviation perform2 :: "asn_check option \<times> asn_check \<Rightarrow> asn_constr_check_f option \<times> asn_constr_check_f" where
  "perform2 \<equiv> map_prod (map_option perform) perform"

lemma seq_ok_member:
  assumes "seq_ok ok td ms" "i < length ms"
  shows "seq_member_ok ok (td_elements td ! i) (ms ! i) \<or> seq_ext_ok ok (td_elements td ! i) (ms ! i)"
proof -
  have l: "length ms = length (td_elements td)" using assms by (simp add: seq_ok_def)
  show ?thesis
  proof (cases "i < seq_root_count td")
    case True
    then have "(td_elements td ! i, ms ! i) \<in> set (seq_roots td ms)"
      using assms(2) l by (auto simp: seq_roots_def in_set_conv_nth intro!: exI [of _ i])
    then show ?thesis using assms(1) by (auto simp: seq_ok_def list_all_iff)
  next
    case False
    then have "(td_elements td ! i, ms ! i) \<in> set (seq_exts td ms)"
      using assms(2) l by (auto simp: seq_exts_def in_set_conv_nth intro!: exI [of _ "i - seq_root_count td"])
    then show ?thesis using assms(1) by (auto simp: seq_ok_def list_all_iff)
  qed
qed

lemma admits_SEQUENCE:
  assumes op: "td_op td = OP_SEQUENCE"
    and es: "list_all2 (\<lambda>elm c. admits_member elm (perform2 c)) (td_elements td) cs"
  shows "admits (perform (CHK_SEQUENCE cs)) td c"
  unfolding admits_def
proof (intro allI impI)
  fix n v assume v: "uper_ok n td c v \<and> in_root n td c v"
  obtain m ms where m: "n = Suc m" "v = V_SEQUENCE ms" "seq_ok (uper_ok m) td ms"
    using v op by (cases n) (auto simp: simple_ok_def split: asn_value.splits)
  have l: "length ms = length (td_elements td)" "length cs = length (td_elements td)"
    using m(3) es by (auto simp: seq_ok_def list_all2_lengthD)
  have "member_passes (td_elements td ! i) (map perform2 cs ! i) (ms ! i)" if i: "i < length ms" for i
  proof (rule member_passesI)
    show "admits_member (td_elements td ! i) (map perform2 cs ! i)"
      using es i l by (simp add: list_all2_conv_all_nth)
    show "seq_member_ok (uper_ok m) (td_elements td ! i) (ms ! i) \<or> seq_ext_ok (uper_ok m) (td_elements td ! i) (ms ! i)"
      by (rule seq_ok_member [OF m(3) i])
    show "case ms ! i of None \<Rightarrow> True | Some w \<Rightarrow> in_root m (elm_type (td_elements td ! i)) (elm_per_constraints (td_elements td ! i)) w"
      using v m i l by (auto simp: list_all_length)
  qed
  then show "perform (CHK_SEQUENCE cs) td (Some v) = 0"
    using seq_passes [of "map perform2 cs" td ms] l m(2) by simp
qed

lemma admits_CHOICE:
  assumes op: "td_op td = OP_CHOICE"
    and es: "list_all2 (\<lambda>elm c. admits (elm_check (perform2 c)) (elm_type elm) (elm_per_constraints elm)) (td_elements td) cs"
  shows "admits (perform (CHK_CHOICE cs)) td c"
  unfolding admits_def
proof (intro allI impI)
  fix n v assume v: "uper_ok n td c v \<and> in_root n td c v"
  obtain k p m where m: "n = Suc k" "v = V_CHOICE p (Some m)" "choice_ok (uper_ok k) td c p m"
    using v op by (cases n) (auto simp: simple_ok_def split: asn_value.splits option.splits)
  define elm where "elm = td_elements td ! (p - 1)"
  have p: "1 \<le> p" "p \<le> length (td_elements td)" "uper_ok k (elm_type elm) (elm_per_constraints elm) m"
    using m(3) by (auto simp: choice_ok_def Let_def elm_def)
  have "in_root k (elm_type elm) (elm_per_constraints elm) m"
    using v m by (simp add: elm_def Let_def)
  moreover have "admits (elm_check (map perform2 cs ! (p - 1))) (elm_type elm) (elm_per_constraints elm)"
    using es p(1,2) by (simp add: list_all2_conv_all_nth elm_def)
  ultimately have "elm_check (map perform2 cs ! (p - 1)) (elm_type elm) (Some m) = 0"
    using p(3) by (blast dest: admitsD)
  then show "perform (CHK_CHOICE cs) td (Some v) = 0"
    using p(1,2) m(2) by (simp add: CHOICE_constraint_def Let_def elm_def)
qed

lemma set_of_loop: "(\<And>v. v \<in> set vs \<Longrightarrow> f (Some v) = 0) \<Longrightarrow> SET_OF_constraint_loop f vs = 0"
  by (induction vs) auto

lemma admits_SEQUENCE_OF:
  assumes op: "td_op td = OP_SEQUENCE_OF" and ne: "td_elements td \<noteq> []"
    and e: "admits (elm_check (perform2 ck)) (elm_type (hd (td_elements td))) (elm_per_constraints (hd (td_elements td)))"
  shows "admits (perform (CHK_SEQUENCE_OF ck)) td c"
  unfolding admits_def
proof (intro allI impI)
  fix n v assume v: "uper_ok n td c v \<and> in_root n td c v"
  obtain k vs where m: "n = Suc k" "v = V_LIST vs" "so_ok (uper_ok k) (uper_used k) td c vs"
    using v op by (cases n) (auto simp: simple_ok_def split: asn_value.splits)
  have "elm_check (perform2 ck) (elm_type (so_elm td)) (Some w) = 0" if "w \<in> set vs" for w
    using e m v that by (auto simp: so_ok_def Let_def list_all_iff so_elm_def dest: admitsD)
  then show "perform (CHK_SEQUENCE_OF ck) td (Some v) = 0"
    using ne by (simp add: m(2) SET_OF_constraint_def Let_def hd_conv_nth so_elm_def set_of_loop)
qed

end

section \<open>The two checks of a SEQUENCE\<close>

lemma sequence_loop_own:
  "SEQUENCE_constraint_loop ((e, Some f, ty) # es) (m # ms) = 0
   \<longleftrightarrow> member_passes e (Some f, ty) m \<and> SEQUENCE_constraint_loop es ms = 0"
  by (auto simp: member_passes_def elm_check_def Let_def)

lemma sequence_loop_passes:
  "length cs = length es \<Longrightarrow> length ms = length es \<Longrightarrow>
   (\<And>i. i < length ms \<Longrightarrow> member_passes (es ! i) (cs ! i) (ms ! i)) \<Longrightarrow>
   SEQUENCE_constraint_loop (zip es cs) ms = 0"
proof (induction es arbitrary: cs ms)
  case (Cons e es)
  obtain own ty cs' m ms' where l: "cs = (own, ty) # cs'" "ms = m # ms'"
    using Cons.prems(1,2) by (metis length_Suc_conv surj_pair)
  have "member_passes e (own, ty) m" using Cons.prems(3) [of 0] l by simp
  moreover have "SEQUENCE_constraint_loop (zip es cs') ms' = 0"
    using Cons.prems(3) [of "Suc i" for i] Cons.prems(1,2) l by (intro Cons.IH) fastforce+
  ultimately show ?case
    using l by (auto simp: member_passes_def elm_check_def Let_def split: option.splits if_splits)
qed simp

interpretation code: sequence_check SEQUENCE_constraint
  by unfold_locales (simp add: SEQUENCE_constraint_def sequence_loop_passes)

interpretation reference: sequence_check SEQUENCE_complete
  by unfold_locales (simp add: SEQUENCE_complete_def list_all_length)

text \<open>
  The loop is the complete check if no member but the last lacks a check of its own; the first member without
  one ends it.
\<close>

lemma sequence_loop_complete:
  "length cs = length es \<Longrightarrow> length ms = length es \<Longrightarrow> list_all (\<lambda>c. fst c \<noteq> None) (butlast cs) \<Longrightarrow>
   SEQUENCE_constraint_loop (zip es cs) ms = 0
   \<longleftrightarrow> list_all (\<lambda>(elm, c, memb). member_passes elm c memb) (zip es (zip cs ms))"
proof (induction es arbitrary: cs ms)
  case (Cons e es)
  obtain own ty cs' m ms' where l: "cs = (own, ty) # cs'" "ms = m # ms'"
    using Cons.prems(1,2) by (metis length_Suc_conv surj_pair)
  show ?case
  proof (cases "es = []")
    case True
    then show ?thesis using Cons.prems l
      by (auto simp: member_passes_def elm_check_def Let_def split: option.splits if_splits)
  next
    case False
    then have "cs' \<noteq> []" using Cons.prems(1) l by auto
    then have "own \<noteq> None" "list_all (\<lambda>c. fst c \<noteq> None) (butlast cs')"
      using Cons.prems(3) l by auto
    then show ?thesis using Cons.IH [of cs' ms'] Cons.prems(1,2) l
      by (auto simp: sequence_loop_own simp del: SEQUENCE_constraint_loop.simps)
  qed
qed simp

lemma SEQUENCE_constraint_complete:
  assumes "length cs = length (td_elements td)" "list_all (\<lambda>c. fst c \<noteq> None) (butlast cs)"
    and "length ms = length (td_elements td)"
  shows "SEQUENCE_constraint cs td (Some (V_SEQUENCE ms)) = 0
    \<longleftrightarrow> SEQUENCE_complete cs td (Some (V_SEQUENCE ms)) = 0"
  using sequence_loop_complete [OF assms(1,3,2)] assms(3)
  by (simp add: SEQUENCE_constraint_def SEQUENCE_complete_def)

lemma SEQUENCE_constraint_ends:
  assumes "td_elements td = es @ elm # es'" "cs = ds @ (None, ty) # ds'" "ms = ws @ w # ws'"
    and "length ds = length es" "length ws = length es"
    and "\<And>i. i < length es \<Longrightarrow> fst (ds ! i) \<noteq> None \<and> member_passes (es ! i) (ds ! i) (ws ! i)"
    and "\<not> (elm_pointer elm \<and> w = None)"
  shows "SEQUENCE_constraint cs td (Some (V_SEQUENCE ms)) = ty (elm_type elm) w"
proof -
  have "SEQUENCE_constraint_loop (zip (es @ elm # es') (ds @ (None, ty) # ds')) (ws @ w # ws') = ty (elm_type elm) w"
    using assms(4-7)
  proof (induction es arbitrary: ds ws)
    case (Cons e es)
    obtain own t ds2 x ws2 where l: "ds = (own, t) # ds2" "ws = x # ws2"
      using Cons.prems(1,2) by (metis length_Suc_conv surj_pair)
    have "own \<noteq> None" "member_passes e (own, t) x" using Cons.prems(3) [of 0] l by auto
    moreover have "fst (ds2 ! i) \<noteq> None \<and> member_passes (es ! i) (ds2 ! i) (ws2 ! i)" if "i < length es" for i
      using Cons.prems(3) [of "Suc i"] that l by simp
    then have "SEQUENCE_constraint_loop (zip (es @ elm # es') (ds2 @ (None, ty) # ds')) (ws2 @ w # ws') = ty (elm_type elm) w"
      using Cons.prems(1,2,4) l by (intro Cons.IH) auto
    ultimately show ?case
      using l by (auto simp: member_passes_def elm_check_def Let_def split: if_splits)
  qed auto
  then show ?thesis using assms(1-3) by (simp add: SEQUENCE_constraint_def)
qed

end
