(* ===== verification/Its_Constraints.thy ===== *)
theory Its_Constraints
  imports Constraints Its_Mapem
begin

text \<open>
  The functions asn1c generated to check the constraints of the types of the messages (\<open>asn1/its\<close>), one
  definition for each: \<open>X_constraint\<close> for a type and \<open>memb_x_constraint_n\<close> for the member of a structure, with the
  name of the file where several files have a function of that name. \<open>V_long\<close> is the \<open>long\<close> behind \<open>sptr\<close>.
  A function that ends with the check of the elements of a list, or with the check of its descriptor, takes that
  check as its argument \<open>inner\<close>.
\<close>

definition memb_protocolVersion_constraint_1 :: "asn_constr_check_f" where
  "memb_protocolVersion_constraint_1 td sptr =
     (case sptr of
        Some (V_long value) \<Rightarrow> if 0 \<le> value \<and> value \<le> 255 then 0 else -1
      | _ \<Rightarrow> -1)"

definition memb_messageID_constraint_1 :: "asn_constr_check_f" where
  "memb_messageID_constraint_1 td sptr =
     (case sptr of
        Some (V_long value) \<Rightarrow> if 0 \<le> value \<and> value \<le> 255 then 0 else -1
      | _ \<Rightarrow> -1)"

definition StationID_constraint :: "asn_constr_check_f" where
  "StationID_constraint td sptr =
     (case sptr of None \<Rightarrow> -1 | Some _ \<Rightarrow> 0)"

definition GenerationDeltaTime_constraint :: "asn_constr_check_f" where
  "GenerationDeltaTime_constraint td sptr =
     (case sptr of
        Some (V_long value) \<Rightarrow> if 0 \<le> value \<and> value \<le> 65535 then 0 else -1
      | _ \<Rightarrow> -1)"

definition StationType_constraint :: "asn_constr_check_f" where
  "StationType_constraint td sptr =
     (case sptr of
        Some (V_long value) \<Rightarrow> if 0 \<le> value \<and> value \<le> 255 then 0 else -1
      | _ \<Rightarrow> -1)"

definition Latitude_constraint :: "asn_constr_check_f" where
  "Latitude_constraint td sptr =
     (case sptr of
        Some (V_long value) \<Rightarrow> if (-900000000) \<le> value \<and> value \<le> 900000001 then 0 else -1
      | _ \<Rightarrow> -1)"

definition Longitude_constraint :: "asn_constr_check_f" where
  "Longitude_constraint td sptr =
     (case sptr of
        Some (V_long value) \<Rightarrow> if (-1800000000) \<le> value \<and> value \<le> 1800000001 then 0 else -1
      | _ \<Rightarrow> -1)"

definition SemiAxisLength_constraint :: "asn_constr_check_f" where
  "SemiAxisLength_constraint td sptr =
     (case sptr of
        Some (V_long value) \<Rightarrow> if 0 \<le> value \<and> value \<le> 4095 then 0 else -1
      | _ \<Rightarrow> -1)"

definition HeadingValue_constraint :: "asn_constr_check_f" where
  "HeadingValue_constraint td sptr =
     (case sptr of
        Some (V_long value) \<Rightarrow> if 0 \<le> value \<and> value \<le> 3601 then 0 else -1
      | _ \<Rightarrow> -1)"

definition AltitudeValue_constraint :: "asn_constr_check_f" where
  "AltitudeValue_constraint td sptr =
     (case sptr of
        Some (V_long value) \<Rightarrow> if (-100000) \<le> value \<and> value \<le> 800001 then 0 else -1
      | _ \<Rightarrow> -1)"

definition HeadingConfidence_constraint :: "asn_constr_check_f" where
  "HeadingConfidence_constraint td sptr =
     (case sptr of
        Some (V_long value) \<Rightarrow> if 1 \<le> value \<and> value \<le> 127 then 0 else -1
      | _ \<Rightarrow> -1)"

definition SpeedValue_constraint :: "asn_constr_check_f" where
  "SpeedValue_constraint td sptr =
     (case sptr of
        Some (V_long value) \<Rightarrow> if 0 \<le> value \<and> value \<le> 16383 then 0 else -1
      | _ \<Rightarrow> -1)"

definition SpeedConfidence_constraint :: "asn_constr_check_f" where
  "SpeedConfidence_constraint td sptr =
     (case sptr of
        Some (V_long value) \<Rightarrow> if 1 \<le> value \<and> value \<le> 127 then 0 else -1
      | _ \<Rightarrow> -1)"

definition VehicleLengthValue_constraint :: "asn_constr_check_f" where
  "VehicleLengthValue_constraint td sptr =
     (case sptr of
        Some (V_long value) \<Rightarrow> if 1 \<le> value \<and> value \<le> 1023 then 0 else -1
      | _ \<Rightarrow> -1)"

definition VehicleWidth_constraint :: "asn_constr_check_f" where
  "VehicleWidth_constraint td sptr =
     (case sptr of
        Some (V_long value) \<Rightarrow> if 1 \<le> value \<and> value \<le> 62 then 0 else -1
      | _ \<Rightarrow> -1)"

definition LongitudinalAccelerationValue_constraint :: "asn_constr_check_f" where
  "LongitudinalAccelerationValue_constraint td sptr =
     (case sptr of
        Some (V_long value) \<Rightarrow> if (-160) \<le> value \<and> value \<le> 161 then 0 else -1
      | _ \<Rightarrow> -1)"

definition AccelerationConfidence_constraint :: "asn_constr_check_f" where
  "AccelerationConfidence_constraint td sptr =
     (case sptr of
        Some (V_long value) \<Rightarrow> if 0 \<le> value \<and> value \<le> 102 then 0 else -1
      | _ \<Rightarrow> -1)"

definition CurvatureValue_constraint :: "asn_constr_check_f" where
  "CurvatureValue_constraint td sptr =
     (case sptr of
        Some (V_long value) \<Rightarrow> if (-1023) \<le> value \<and> value \<le> 1023 then 0 else -1
      | _ \<Rightarrow> -1)"

definition YawRateValue_constraint :: "asn_constr_check_f" where
  "YawRateValue_constraint td sptr =
     (case sptr of
        Some (V_long value) \<Rightarrow> if (-32766) \<le> value \<and> value \<le> 32767 then 0 else -1
      | _ \<Rightarrow> -1)"

definition AccelerationControl_constraint :: "asn_constr_check_f" where
  "AccelerationControl_constraint td sptr =
     (case sptr of
        Some (V_BIT_STRING buf bits_unused) \<Rightarrow>
          (let size = bit_string_size buf bits_unused in if size = 7 then 0 else -1)
      | _ \<Rightarrow> -1)"

definition LanePosition_constraint :: "asn_constr_check_f" where
  "LanePosition_constraint td sptr =
     (case sptr of
        Some (V_long value) \<Rightarrow> if (-1) \<le> value \<and> value \<le> 14 then 0 else -1
      | _ \<Rightarrow> -1)"

definition SteeringWheelAngleValue_constraint :: "asn_constr_check_f" where
  "SteeringWheelAngleValue_constraint td sptr =
     (case sptr of
        Some (V_long value) \<Rightarrow> if (-511) \<le> value \<and> value \<le> 512 then 0 else -1
      | _ \<Rightarrow> -1)"

definition SteeringWheelAngleConfidence_constraint :: "asn_constr_check_f" where
  "SteeringWheelAngleConfidence_constraint td sptr =
     (case sptr of
        Some (V_long value) \<Rightarrow> if 1 \<le> value \<and> value \<le> 127 then 0 else -1
      | _ \<Rightarrow> -1)"

definition LateralAccelerationValue_constraint :: "asn_constr_check_f" where
  "LateralAccelerationValue_constraint td sptr =
     (case sptr of
        Some (V_long value) \<Rightarrow> if (-160) \<le> value \<and> value \<le> 161 then 0 else -1
      | _ \<Rightarrow> -1)"

definition VerticalAccelerationValue_constraint :: "asn_constr_check_f" where
  "VerticalAccelerationValue_constraint td sptr =
     (case sptr of
        Some (V_long value) \<Rightarrow> if (-160) \<le> value \<and> value \<le> 161 then 0 else -1
      | _ \<Rightarrow> -1)"

definition PerformanceClass_constraint :: "asn_constr_check_f" where
  "PerformanceClass_constraint td sptr =
     (case sptr of
        Some (V_long value) \<Rightarrow> if 0 \<le> value \<and> value \<le> 7 then 0 else -1
      | _ \<Rightarrow> -1)"

definition CenDsrcTollingZoneID_constraint :: "asn_constr_check_f" where
  "CenDsrcTollingZoneID_constraint td sptr =
     (case sptr of
        Some (V_long value) \<Rightarrow> if 0 \<le> value \<and> value \<le> 134217727 then 0 else -1
      | _ \<Rightarrow> -1)"

definition TimestampIts_constraint :: "asn_constr_check_f" where
  "TimestampIts_constraint td sptr =
     (case sptr of
        Some (V_INTEGER st) \<Rightarrow>
          (case asn_INTEGER2long st of
             Some value \<Rightarrow> if 0 \<le> value \<and> value \<le> 4398046511103 then 0 else -1
           | None \<Rightarrow> -1)
      | _ \<Rightarrow> -1)"

definition ProtectedZoneRadius_constraint :: "asn_constr_check_f" where
  "ProtectedZoneRadius_constraint td sptr =
     (case sptr of
        Some (V_long value) \<Rightarrow> if 1 \<le> value \<and> value \<le> 255 then 0 else -1
      | _ \<Rightarrow> -1)"

definition ProtectedZoneID_constraint :: "asn_constr_check_f" where
  "ProtectedZoneID_constraint td sptr =
     (case sptr of
        Some (V_long value) \<Rightarrow> if 0 \<le> value \<and> value \<le> 134217727 then 0 else -1
      | _ \<Rightarrow> -1)"

definition ExteriorLights_constraint :: "asn_constr_check_f" where
  "ExteriorLights_constraint td sptr =
     (case sptr of
        Some (V_BIT_STRING buf bits_unused) \<Rightarrow>
          (let size = bit_string_size buf bits_unused in if size = 8 then 0 else -1)
      | _ \<Rightarrow> -1)"

definition DeltaLatitude_constraint :: "asn_constr_check_f" where
  "DeltaLatitude_constraint td sptr =
     (case sptr of
        Some (V_long value) \<Rightarrow> if (-131071) \<le> value \<and> value \<le> 131072 then 0 else -1
      | _ \<Rightarrow> -1)"

definition DeltaLongitude_constraint :: "asn_constr_check_f" where
  "DeltaLongitude_constraint td sptr =
     (case sptr of
        Some (V_long value) \<Rightarrow> if (-131071) \<le> value \<and> value \<le> 131072 then 0 else -1
      | _ \<Rightarrow> -1)"

definition DeltaAltitude_constraint :: "asn_constr_check_f" where
  "DeltaAltitude_constraint td sptr =
     (case sptr of
        Some (V_long value) \<Rightarrow> if (-12700) \<le> value \<and> value \<le> 12800 then 0 else -1
      | _ \<Rightarrow> -1)"

definition PathDeltaTime_constraint :: "asn_constr_check_f" where
  "PathDeltaTime_constraint td sptr =
     (case sptr of
        Some (V_long value) \<Rightarrow> if 1 \<le> value \<and> value \<le> 65535 then 0 else -1
      | _ \<Rightarrow> -1)"

definition PtActivationType_constraint :: "asn_constr_check_f" where
  "PtActivationType_constraint td sptr =
     (case sptr of
        Some (V_long value) \<Rightarrow> if 0 \<le> value \<and> value \<le> 255 then 0 else -1
      | _ \<Rightarrow> -1)"

definition PtActivationData_constraint :: "asn_constr_check_f" where
  "PtActivationData_constraint td sptr =
     (case sptr of
        Some (V_OCTET_STRING buf) \<Rightarrow>
          (let size = length buf in if 1 \<le> size \<and> size \<le> 20 then 0 else -1)
      | _ \<Rightarrow> -1)"

definition SpecialTransportType_constraint :: "asn_constr_check_f" where
  "SpecialTransportType_constraint td sptr =
     (case sptr of
        Some (V_BIT_STRING buf bits_unused) \<Rightarrow>
          (let size = bit_string_size buf bits_unused in if size = 4 then 0 else -1)
      | _ \<Rightarrow> -1)"

definition LightBarSirenInUse_constraint :: "asn_constr_check_f" where
  "LightBarSirenInUse_constraint td sptr =
     (case sptr of
        Some (V_BIT_STRING buf bits_unused) \<Rightarrow>
          (let size = bit_string_size buf bits_unused in if size = 2 then 0 else -1)
      | _ \<Rightarrow> -1)"

definition RoadworksSubCauseCode_constraint :: "asn_constr_check_f" where
  "RoadworksSubCauseCode_constraint td sptr =
     (case sptr of
        Some (V_long value) \<Rightarrow> if 0 \<le> value \<and> value \<le> 255 then 0 else -1
      | _ \<Rightarrow> -1)"

definition DrivingLaneStatus_constraint :: "asn_constr_check_f" where
  "DrivingLaneStatus_constraint td sptr =
     (case sptr of
        Some (V_BIT_STRING buf bits_unused) \<Rightarrow>
          (let size = bit_string_size buf bits_unused in if 1 \<le> size \<and> size \<le> 13 then 0 else -1)
      | _ \<Rightarrow> -1)"

definition CauseCodeType_constraint :: "asn_constr_check_f" where
  "CauseCodeType_constraint td sptr =
     (case sptr of
        Some (V_long value) \<Rightarrow> if 0 \<le> value \<and> value \<le> 255 then 0 else -1
      | _ \<Rightarrow> -1)"

definition SubCauseCodeType_constraint :: "asn_constr_check_f" where
  "SubCauseCodeType_constraint td sptr =
     (case sptr of
        Some (V_long value) \<Rightarrow> if 0 \<le> value \<and> value \<le> 255 then 0 else -1
      | _ \<Rightarrow> -1)"

definition EmergencyPriority_constraint :: "asn_constr_check_f" where
  "EmergencyPriority_constraint td sptr =
     (case sptr of
        Some (V_BIT_STRING buf bits_unused) \<Rightarrow>
          (let size = bit_string_size buf bits_unused in if size = 2 then 0 else -1)
      | _ \<Rightarrow> -1)"

definition SpeedLimit_constraint :: "asn_constr_check_f" where
  "SpeedLimit_constraint td sptr =
     (case sptr of
        Some (V_long value) \<Rightarrow> if 1 \<le> value \<and> value \<le> 255 then 0 else -1
      | _ \<Rightarrow> -1)"

definition SequenceNumber_constraint :: "asn_constr_check_f" where
  "SequenceNumber_constraint td sptr =
     (case sptr of
        Some (V_long value) \<Rightarrow> if 0 \<le> value \<and> value \<le> 65535 then 0 else -1
      | _ \<Rightarrow> -1)"

definition ValidityDuration_constraint :: "asn_constr_check_f" where
  "ValidityDuration_constraint td sptr =
     (case sptr of
        Some (V_long value) \<Rightarrow> if 0 \<le> value \<and> value \<le> 86400 then 0 else -1
      | _ \<Rightarrow> -1)"

definition TransmissionInterval_constraint :: "asn_constr_check_f" where
  "TransmissionInterval_constraint td sptr =
     (case sptr of
        Some (V_long value) \<Rightarrow> if 1 \<le> value \<and> value \<le> 10000 then 0 else -1
      | _ \<Rightarrow> -1)"

definition InformationQuality_constraint :: "asn_constr_check_f" where
  "InformationQuality_constraint td sptr =
     (case sptr of
        Some (V_long value) \<Rightarrow> if 0 \<le> value \<and> value \<le> 7 then 0 else -1
      | _ \<Rightarrow> -1)"

definition HeightLonCarr_constraint :: "asn_constr_check_f" where
  "HeightLonCarr_constraint td sptr =
     (case sptr of
        Some (V_long value) \<Rightarrow> if 1 \<le> value \<and> value \<le> 100 then 0 else -1
      | _ \<Rightarrow> -1)"

definition PosLonCarr_constraint :: "asn_constr_check_f" where
  "PosLonCarr_constraint td sptr =
     (case sptr of
        Some (V_long value) \<Rightarrow> if 1 \<le> value \<and> value \<le> 127 then 0 else -1
      | _ \<Rightarrow> -1)"

definition PosPillar_constraint :: "asn_constr_check_f" where
  "PosPillar_constraint td sptr =
     (case sptr of
        Some (V_long value) \<Rightarrow> if 1 \<le> value \<and> value \<le> 30 then 0 else -1
      | _ \<Rightarrow> -1)"

definition PosCentMass_constraint :: "asn_constr_check_f" where
  "PosCentMass_constraint td sptr =
     (case sptr of
        Some (V_long value) \<Rightarrow> if 1 \<le> value \<and> value \<le> 63 then 0 else -1
      | _ \<Rightarrow> -1)"

definition WheelBaseVehicle_constraint :: "asn_constr_check_f" where
  "WheelBaseVehicle_constraint td sptr =
     (case sptr of
        Some (V_long value) \<Rightarrow> if 1 \<le> value \<and> value \<le> 127 then 0 else -1
      | _ \<Rightarrow> -1)"

definition TurningRadius_constraint :: "asn_constr_check_f" where
  "TurningRadius_constraint td sptr =
     (case sptr of
        Some (V_long value) \<Rightarrow> if 1 \<le> value \<and> value \<le> 255 then 0 else -1
      | _ \<Rightarrow> -1)"

definition PosFrontAx_constraint :: "asn_constr_check_f" where
  "PosFrontAx_constraint td sptr =
     (case sptr of
        Some (V_long value) \<Rightarrow> if 1 \<le> value \<and> value \<le> 20 then 0 else -1
      | _ \<Rightarrow> -1)"

definition PositionOfOccupants_constraint :: "asn_constr_check_f" where
  "PositionOfOccupants_constraint td sptr =
     (case sptr of
        Some (V_BIT_STRING buf bits_unused) \<Rightarrow>
          (let size = bit_string_size buf bits_unused in if size = 20 then 0 else -1)
      | _ \<Rightarrow> -1)"

definition VehicleMass_constraint :: "asn_constr_check_f" where
  "VehicleMass_constraint td sptr =
     (case sptr of
        Some (V_long value) \<Rightarrow> if 1 \<le> value \<and> value \<le> 1024 then 0 else -1
      | _ \<Rightarrow> -1)"

definition Temperature_constraint :: "asn_constr_check_f" where
  "Temperature_constraint td sptr =
     (case sptr of
        Some (V_long value) \<Rightarrow> if (-60) \<le> value \<and> value \<le> 67 then 0 else -1
      | _ \<Rightarrow> -1)"

definition memb_unNumber_constraint_1 :: "asn_constr_check_f" where
  "memb_unNumber_constraint_1 td sptr =
     (case sptr of
        Some (V_long value) \<Rightarrow> if 0 \<le> value \<and> value \<le> 9999 then 0 else -1
      | _ \<Rightarrow> -1)"

definition check_permitted_alphabet_7 :: "byte list \<Rightarrow> int" where
  "check_permitted_alphabet_7 buf = (if list_all (\<lambda>cv. cv \<le> 127) buf then 0 else -1)"

definition memb_emergencyActionCode_constraint_1 :: "asn_constr_check_f" where
  "memb_emergencyActionCode_constraint_1 td sptr =
     (case sptr of
        Some (V_OCTET_STRING buf) \<Rightarrow>
          (let size = length buf in if (1 \<le> size \<and> size \<le> 24) \<and> check_permitted_alphabet_7 buf = 0 then 0 else -1)
      | _ \<Rightarrow> -1)"

definition check_permitted_alphabet_1_PhoneNumber :: "byte list \<Rightarrow> int" where
  "check_permitted_alphabet_1_PhoneNumber buf = (if list_all (\<lambda>cv. permitted_alphabet_table_1 ! unat cv \<noteq> 0) buf then 0 else -1)"

definition PhoneNumber_constraint :: "asn_constr_check_f" where
  "PhoneNumber_constraint td sptr =
     (case sptr of
        Some (V_OCTET_STRING buf) \<Rightarrow>
          (let size = length buf in if (1 \<le> size \<and> size \<le> 16) \<and> check_permitted_alphabet_1_PhoneNumber buf = 0 then 0 else -1)
      | _ \<Rightarrow> -1)"

definition memb_companyName_constraint_1 :: "asn_constr_check_f" where
  "memb_companyName_constraint_1 td sptr =
     (case sptr of
        None \<Rightarrow> -1
      | Some st \<Rightarrow>
          (let size = UTF8String_length (Some st)
           in if size < 0 then -1 else if 1 \<le> size \<and> size \<le> 24 then 0 else -1))"

definition NumberOfOccupants_constraint :: "asn_constr_check_f" where
  "NumberOfOccupants_constraint td sptr =
     (case sptr of
        Some (V_long value) \<Rightarrow> if 0 \<le> value \<and> value \<le> 127 then 0 else -1
      | _ \<Rightarrow> -1)"

definition check_permitted_alphabet_1_WMInumber :: "byte list \<Rightarrow> int" where
  "check_permitted_alphabet_1_WMInumber buf = (if list_all (\<lambda>cv. cv \<le> 127) buf then 0 else -1)"

definition WMInumber_constraint :: "asn_constr_check_f" where
  "WMInumber_constraint td sptr =
     (case sptr of
        Some (V_OCTET_STRING buf) \<Rightarrow>
          (let size = length buf in if (1 \<le> size \<and> size \<le> 3) \<and> check_permitted_alphabet_1_WMInumber buf = 0 then 0 else -1)
      | _ \<Rightarrow> -1)"

definition check_permitted_alphabet_1_VDS :: "byte list \<Rightarrow> int" where
  "check_permitted_alphabet_1_VDS buf = (if list_all (\<lambda>cv. cv \<le> 127) buf then 0 else -1)"

definition VDS_constraint :: "asn_constr_check_f" where
  "VDS_constraint td sptr =
     (case sptr of
        Some (V_OCTET_STRING buf) \<Rightarrow>
          (let size = length buf in if (size = 6) \<and> check_permitted_alphabet_1_VDS buf = 0 then 0 else -1)
      | _ \<Rightarrow> -1)"

definition EnergyStorageType_constraint :: "asn_constr_check_f" where
  "EnergyStorageType_constraint td sptr =
     (case sptr of
        Some (V_BIT_STRING buf bits_unused) \<Rightarrow>
          (let size = bit_string_size buf bits_unused in if size = 7 then 0 else -1)
      | _ \<Rightarrow> -1)"

definition MinuteOfTheYear_constraint :: "asn_constr_check_f" where
  "MinuteOfTheYear_constraint td sptr =
     (case sptr of
        Some (V_long value) \<Rightarrow> if 0 \<le> value \<and> value \<le> 527040 then 0 else -1
      | _ \<Rightarrow> -1)"

definition check_permitted_alphabet_1_DescriptiveName :: "byte list \<Rightarrow> int" where
  "check_permitted_alphabet_1_DescriptiveName buf = (if list_all (\<lambda>cv. cv \<le> 127) buf then 0 else -1)"

definition DescriptiveName_constraint :: "asn_constr_check_f" where
  "DescriptiveName_constraint td sptr =
     (case sptr of
        Some (V_OCTET_STRING buf) \<Rightarrow>
          (let size = length buf in if (1 \<le> size \<and> size \<le> 63) \<and> check_permitted_alphabet_1_DescriptiveName buf = 0 then 0 else -1)
      | _ \<Rightarrow> -1)"

definition RoadRegulatorID_constraint :: "asn_constr_check_f" where
  "RoadRegulatorID_constraint td sptr =
     (case sptr of
        Some (V_long value) \<Rightarrow> if 0 \<le> value \<and> value \<le> 65535 then 0 else -1
      | _ \<Rightarrow> -1)"

definition IntersectionID_constraint :: "asn_constr_check_f" where
  "IntersectionID_constraint td sptr =
     (case sptr of
        Some (V_long value) \<Rightarrow> if 0 \<le> value \<and> value \<le> 65535 then 0 else -1
      | _ \<Rightarrow> -1)"

definition MsgCount_constraint :: "asn_constr_check_f" where
  "MsgCount_constraint td sptr =
     (case sptr of
        Some (V_long value) \<Rightarrow> if 0 \<le> value \<and> value \<le> 127 then 0 else -1
      | _ \<Rightarrow> -1)"

definition IntersectionStatusObject_constraint :: "asn_constr_check_f" where
  "IntersectionStatusObject_constraint td sptr =
     (case sptr of
        Some (V_BIT_STRING buf bits_unused) \<Rightarrow>
          (let size = bit_string_size buf bits_unused in if size = 16 then 0 else -1)
      | _ \<Rightarrow> -1)"

definition DSecond_constraint :: "asn_constr_check_f" where
  "DSecond_constraint td sptr =
     (case sptr of
        Some (V_long value) \<Rightarrow> if 0 \<le> value \<and> value \<le> 65535 then 0 else -1
      | _ \<Rightarrow> -1)"

definition LaneID_constraint :: "asn_constr_check_f" where
  "LaneID_constraint td sptr =
     (case sptr of
        Some (V_long value) \<Rightarrow> if 0 \<le> value \<and> value \<le> 255 then 0 else -1
      | _ \<Rightarrow> -1)"

definition SignalGroupID_constraint :: "asn_constr_check_f" where
  "SignalGroupID_constraint td sptr =
     (case sptr of
        Some (V_long value) \<Rightarrow> if 0 \<le> value \<and> value \<le> 255 then 0 else -1
      | _ \<Rightarrow> -1)"

definition TimeMark_constraint :: "asn_constr_check_f" where
  "TimeMark_constraint td sptr =
     (case sptr of
        Some (V_long value) \<Rightarrow> if 0 \<le> value \<and> value \<le> 36001 then 0 else -1
      | _ \<Rightarrow> -1)"

definition TimeIntervalConfidence_constraint :: "asn_constr_check_f" where
  "TimeIntervalConfidence_constraint td sptr =
     (case sptr of
        Some (V_long value) \<Rightarrow> if 0 \<le> value \<and> value \<le> 15 then 0 else -1
      | _ \<Rightarrow> -1)"

definition SpeedAdvice_constraint :: "asn_constr_check_f" where
  "SpeedAdvice_constraint td sptr =
     (case sptr of
        Some (V_long value) \<Rightarrow> if 0 \<le> value \<and> value \<le> 500 then 0 else -1
      | _ \<Rightarrow> -1)"

definition ZoneLength_constraint :: "asn_constr_check_f" where
  "ZoneLength_constraint td sptr =
     (case sptr of
        Some (V_long value) \<Rightarrow> if 0 \<le> value \<and> value \<le> 10000 then 0 else -1
      | _ \<Rightarrow> -1)"

definition RestrictionClassID_constraint :: "asn_constr_check_f" where
  "RestrictionClassID_constraint td sptr =
     (case sptr of
        Some (V_long value) \<Rightarrow> if 0 \<le> value \<and> value \<le> 255 then 0 else -1
      | _ \<Rightarrow> -1)"

definition RegionId_constraint :: "asn_constr_check_f" where
  "RegionId_constraint td sptr =
     (case sptr of
        Some (V_long value) \<Rightarrow> if 0 \<le> value \<and> value \<le> 255 then 0 else -1
      | _ \<Rightarrow> -1)"

definition memb_regionId_constraint_1 :: "asn_constr_check_f" where
  "memb_regionId_constraint_1 td sptr =
     (case sptr of
        Some (V_long value) \<Rightarrow> if 0 \<le> value \<and> value \<le> 255 then 0 else -1
      | _ \<Rightarrow> -1)"

definition memb_regExtValue_constraint_1 :: "asn_constr_check_f \<Rightarrow> asn_constr_check_f" where
  "memb_regExtValue_constraint_1 inner td sptr =
     (case sptr of None \<Rightarrow> -1 | Some _ \<Rightarrow> inner td sptr)"

definition memb_regional_constraint_1_AdvisorySpeed :: "asn_constr_check_f \<Rightarrow> asn_constr_check_f" where
  "memb_regional_constraint_1_AdvisorySpeed inner td sptr =
     (case sptr of
        Some (V_LIST array) \<Rightarrow>
          (let size = length array in if 1 \<le> size \<and> size \<le> 4 then inner td sptr else -1)
      | _ \<Rightarrow> -1)"

definition memb_regional_constraint_1_MovementEvent :: "asn_constr_check_f \<Rightarrow> asn_constr_check_f" where
  "memb_regional_constraint_1_MovementEvent inner td sptr =
     (case sptr of
        Some (V_LIST array) \<Rightarrow>
          (let size = length array in if 1 \<le> size \<and> size \<le> 4 then inner td sptr else -1)
      | _ \<Rightarrow> -1)"

definition LaneConnectionID_constraint :: "asn_constr_check_f" where
  "LaneConnectionID_constraint td sptr =
     (case sptr of
        Some (V_long value) \<Rightarrow> if 0 \<le> value \<and> value \<le> 255 then 0 else -1
      | _ \<Rightarrow> -1)"

definition memb_regional_constraint_1_ConnectionManeuverAssist :: "asn_constr_check_f \<Rightarrow> asn_constr_check_f" where
  "memb_regional_constraint_1_ConnectionManeuverAssist inner td sptr =
     (case sptr of
        Some (V_LIST array) \<Rightarrow>
          (let size = length array in if 1 \<le> size \<and> size \<le> 4 then inner td sptr else -1)
      | _ \<Rightarrow> -1)"

definition memb_regional_constraint_1_MovementState :: "asn_constr_check_f \<Rightarrow> asn_constr_check_f" where
  "memb_regional_constraint_1_MovementState inner td sptr =
     (case sptr of
        Some (V_LIST array) \<Rightarrow>
          (let size = length array in if 1 \<le> size \<and> size \<le> 4 then inner td sptr else -1)
      | _ \<Rightarrow> -1)"

definition memb_regional_constraint_1_IntersectionState :: "asn_constr_check_f \<Rightarrow> asn_constr_check_f" where
  "memb_regional_constraint_1_IntersectionState inner td sptr =
     (case sptr of
        Some (V_LIST array) \<Rightarrow>
          (let size = length array in if 1 \<le> size \<and> size \<le> 4 then inner td sptr else -1)
      | _ \<Rightarrow> -1)"

definition memb_regional_constraint_1_SPAT :: "asn_constr_check_f \<Rightarrow> asn_constr_check_f" where
  "memb_regional_constraint_1_SPAT inner td sptr =
     (case sptr of
        Some (V_LIST array) \<Rightarrow>
          (let size = length array in if 1 \<le> size \<and> size \<le> 4 then inner td sptr else -1)
      | _ \<Rightarrow> -1)"

definition LayerID_constraint :: "asn_constr_check_f" where
  "LayerID_constraint td sptr =
     (case sptr of
        Some (V_long value) \<Rightarrow> if 0 \<le> value \<and> value \<le> 100 then 0 else -1
      | _ \<Rightarrow> -1)"

definition Elevation_constraint :: "asn_constr_check_f" where
  "Elevation_constraint td sptr =
     (case sptr of
        Some (V_long value) \<Rightarrow> if (-4096) \<le> value \<and> value \<le> 61439 then 0 else -1
      | _ \<Rightarrow> -1)"

definition memb_regional_constraint_1_Position3D :: "asn_constr_check_f \<Rightarrow> asn_constr_check_f" where
  "memb_regional_constraint_1_Position3D inner td sptr =
     (case sptr of
        Some (V_LIST array) \<Rightarrow>
          (let size = length array in if 1 \<le> size \<and> size \<le> 4 then inner td sptr else -1)
      | _ \<Rightarrow> -1)"

definition LaneWidth_constraint :: "asn_constr_check_f" where
  "LaneWidth_constraint td sptr =
     (case sptr of
        Some (V_long value) \<Rightarrow> if 0 \<le> value \<and> value \<le> 32767 then 0 else -1
      | _ \<Rightarrow> -1)"

definition Velocity_constraint :: "asn_constr_check_f" where
  "Velocity_constraint td sptr =
     (case sptr of
        Some (V_long value) \<Rightarrow> if 0 \<le> value \<and> value \<le> 8191 then 0 else -1
      | _ \<Rightarrow> -1)"

definition ApproachID_constraint :: "asn_constr_check_f" where
  "ApproachID_constraint td sptr =
     (case sptr of
        Some (V_long value) \<Rightarrow> if 0 \<le> value \<and> value \<le> 15 then 0 else -1
      | _ \<Rightarrow> -1)"

definition LaneDirection_constraint :: "asn_constr_check_f" where
  "LaneDirection_constraint td sptr =
     (case sptr of
        Some (V_BIT_STRING buf bits_unused) \<Rightarrow>
          (let size = bit_string_size buf bits_unused in if size = 2 then 0 else -1)
      | _ \<Rightarrow> -1)"

definition LaneSharing_constraint :: "asn_constr_check_f" where
  "LaneSharing_constraint td sptr =
     (case sptr of
        Some (V_BIT_STRING buf bits_unused) \<Rightarrow>
          (let size = bit_string_size buf bits_unused in if size = 10 then 0 else -1)
      | _ \<Rightarrow> -1)"

definition LaneAttributes_Vehicle_constraint :: "asn_constr_check_f" where
  "LaneAttributes_Vehicle_constraint td sptr =
     (case sptr of
        Some (V_BIT_STRING buf bits_unused) \<Rightarrow>
          (let size = bit_string_size buf bits_unused in if size = 8 then 0 else -1)
      | _ \<Rightarrow> -1)"

definition LaneAttributes_Crosswalk_constraint :: "asn_constr_check_f" where
  "LaneAttributes_Crosswalk_constraint td sptr =
     (case sptr of
        Some (V_BIT_STRING buf bits_unused) \<Rightarrow>
          (let size = bit_string_size buf bits_unused in if size = 16 then 0 else -1)
      | _ \<Rightarrow> -1)"

definition LaneAttributes_Bike_constraint :: "asn_constr_check_f" where
  "LaneAttributes_Bike_constraint td sptr =
     (case sptr of
        Some (V_BIT_STRING buf bits_unused) \<Rightarrow>
          (let size = bit_string_size buf bits_unused in if size = 16 then 0 else -1)
      | _ \<Rightarrow> -1)"

definition LaneAttributes_Sidewalk_constraint :: "asn_constr_check_f" where
  "LaneAttributes_Sidewalk_constraint td sptr =
     (case sptr of
        Some (V_BIT_STRING buf bits_unused) \<Rightarrow>
          (let size = bit_string_size buf bits_unused in if size = 16 then 0 else -1)
      | _ \<Rightarrow> -1)"

definition LaneAttributes_Barrier_constraint :: "asn_constr_check_f" where
  "LaneAttributes_Barrier_constraint td sptr =
     (case sptr of
        Some (V_BIT_STRING buf bits_unused) \<Rightarrow>
          (let size = bit_string_size buf bits_unused in if size = 16 then 0 else -1)
      | _ \<Rightarrow> -1)"

definition LaneAttributes_Striping_constraint :: "asn_constr_check_f" where
  "LaneAttributes_Striping_constraint td sptr =
     (case sptr of
        Some (V_BIT_STRING buf bits_unused) \<Rightarrow>
          (let size = bit_string_size buf bits_unused in if size = 16 then 0 else -1)
      | _ \<Rightarrow> -1)"

definition LaneAttributes_TrackedVehicle_constraint :: "asn_constr_check_f" where
  "LaneAttributes_TrackedVehicle_constraint td sptr =
     (case sptr of
        Some (V_BIT_STRING buf bits_unused) \<Rightarrow>
          (let size = bit_string_size buf bits_unused in if size = 16 then 0 else -1)
      | _ \<Rightarrow> -1)"

definition LaneAttributes_Parking_constraint :: "asn_constr_check_f" where
  "LaneAttributes_Parking_constraint td sptr =
     (case sptr of
        Some (V_BIT_STRING buf bits_unused) \<Rightarrow>
          (let size = bit_string_size buf bits_unused in if size = 16 then 0 else -1)
      | _ \<Rightarrow> -1)"

definition AllowedManeuvers_constraint :: "asn_constr_check_f" where
  "AllowedManeuvers_constraint td sptr =
     (case sptr of
        Some (V_BIT_STRING buf bits_unused) \<Rightarrow>
          (let size = bit_string_size buf bits_unused in if size = 12 then 0 else -1)
      | _ \<Rightarrow> -1)"

definition Offset_B10_constraint :: "asn_constr_check_f" where
  "Offset_B10_constraint td sptr =
     (case sptr of
        Some (V_long value) \<Rightarrow> if (-512) \<le> value \<and> value \<le> 511 then 0 else -1
      | _ \<Rightarrow> -1)"

definition Offset_B11_constraint :: "asn_constr_check_f" where
  "Offset_B11_constraint td sptr =
     (case sptr of
        Some (V_long value) \<Rightarrow> if (-1024) \<le> value \<and> value \<le> 1023 then 0 else -1
      | _ \<Rightarrow> -1)"

definition Offset_B12_constraint :: "asn_constr_check_f" where
  "Offset_B12_constraint td sptr =
     (case sptr of
        Some (V_long value) \<Rightarrow> if (-2048) \<le> value \<and> value \<le> 2047 then 0 else -1
      | _ \<Rightarrow> -1)"

definition Offset_B13_constraint :: "asn_constr_check_f" where
  "Offset_B13_constraint td sptr =
     (case sptr of
        Some (V_long value) \<Rightarrow> if (-4096) \<le> value \<and> value \<le> 4095 then 0 else -1
      | _ \<Rightarrow> -1)"

definition Offset_B14_constraint :: "asn_constr_check_f" where
  "Offset_B14_constraint td sptr =
     (case sptr of
        Some (V_long value) \<Rightarrow> if (-8192) \<le> value \<and> value \<le> 8191 then 0 else -1
      | _ \<Rightarrow> -1)"

definition Offset_B16_constraint :: "asn_constr_check_f" where
  "Offset_B16_constraint td sptr =
     (case sptr of
        Some (V_long value) \<Rightarrow> if (-32768) \<le> value \<and> value \<le> 32767 then 0 else -1
      | _ \<Rightarrow> -1)"

definition DeltaAngle_constraint :: "asn_constr_check_f" where
  "DeltaAngle_constraint td sptr =
     (case sptr of
        Some (V_long value) \<Rightarrow> if (-150) \<le> value \<and> value \<le> 150 then 0 else -1
      | _ \<Rightarrow> -1)"

definition RoadwayCrownAngle_constraint :: "asn_constr_check_f" where
  "RoadwayCrownAngle_constraint td sptr =
     (case sptr of
        Some (V_long value) \<Rightarrow> if (-128) \<le> value \<and> value \<le> 127 then 0 else -1
      | _ \<Rightarrow> -1)"

definition MergeDivergeNodeAngle_constraint :: "asn_constr_check_f" where
  "MergeDivergeNodeAngle_constraint td sptr =
     (case sptr of
        Some (V_long value) \<Rightarrow> if (-180) \<le> value \<and> value \<le> 180 then 0 else -1
      | _ \<Rightarrow> -1)"

definition memb_regional_constraint_1_LaneDataAttribute :: "asn_constr_check_f \<Rightarrow> asn_constr_check_f" where
  "memb_regional_constraint_1_LaneDataAttribute inner td sptr =
     (case sptr of
        Some (V_LIST array) \<Rightarrow>
          (let size = length array in if 1 \<le> size \<and> size \<le> 4 then inner td sptr else -1)
      | _ \<Rightarrow> -1)"

definition memb_regional_constraint_1_NodeAttributeSetXY :: "asn_constr_check_f \<Rightarrow> asn_constr_check_f" where
  "memb_regional_constraint_1_NodeAttributeSetXY inner td sptr =
     (case sptr of
        Some (V_LIST array) \<Rightarrow>
          (let size = length array in if 1 \<le> size \<and> size \<le> 4 then inner td sptr else -1)
      | _ \<Rightarrow> -1)"

definition DrivenLineOffsetSm_constraint :: "asn_constr_check_f" where
  "DrivenLineOffsetSm_constraint td sptr =
     (case sptr of
        Some (V_long value) \<Rightarrow> if (-2047) \<le> value \<and> value \<le> 2047 then 0 else -1
      | _ \<Rightarrow> -1)"

definition DrivenLineOffsetLg_constraint :: "asn_constr_check_f" where
  "DrivenLineOffsetLg_constraint td sptr =
     (case sptr of
        Some (V_long value) \<Rightarrow> if (-32767) \<le> value \<and> value \<le> 32767 then 0 else -1
      | _ \<Rightarrow> -1)"

definition Angle_constraint :: "asn_constr_check_f" where
  "Angle_constraint td sptr =
     (case sptr of
        Some (V_long value) \<Rightarrow> if 0 \<le> value \<and> value \<le> 28800 then 0 else -1
      | _ \<Rightarrow> -1)"

definition Scale_B12_constraint :: "asn_constr_check_f" where
  "Scale_B12_constraint td sptr =
     (case sptr of
        Some (V_long value) \<Rightarrow> if (-2048) \<le> value \<and> value \<le> 2047 then 0 else -1
      | _ \<Rightarrow> -1)"

definition memb_regional_constraint_1_ComputedLane :: "asn_constr_check_f \<Rightarrow> asn_constr_check_f" where
  "memb_regional_constraint_1_ComputedLane inner td sptr =
     (case sptr of
        Some (V_LIST array) \<Rightarrow>
          (let size = length array in if 1 \<le> size \<and> size \<le> 4 then inner td sptr else -1)
      | _ \<Rightarrow> -1)"

definition memb_regional_constraint_1_GenericLane :: "asn_constr_check_f \<Rightarrow> asn_constr_check_f" where
  "memb_regional_constraint_1_GenericLane inner td sptr =
     (case sptr of
        Some (V_LIST array) \<Rightarrow>
          (let size = length array in if 1 \<le> size \<and> size \<le> 4 then inner td sptr else -1)
      | _ \<Rightarrow> -1)"

definition memb_regional_constraint_1_IntersectionGeometry :: "asn_constr_check_f \<Rightarrow> asn_constr_check_f" where
  "memb_regional_constraint_1_IntersectionGeometry inner td sptr =
     (case sptr of
        Some (V_LIST array) \<Rightarrow>
          (let size = length array in if 1 \<le> size \<and> size \<le> 4 then inner td sptr else -1)
      | _ \<Rightarrow> -1)"

definition RoadSegmentID_constraint :: "asn_constr_check_f" where
  "RoadSegmentID_constraint td sptr =
     (case sptr of
        Some (V_long value) \<Rightarrow> if 0 \<le> value \<and> value \<le> 65535 then 0 else -1
      | _ \<Rightarrow> -1)"

definition memb_regional_constraint_1_RoadSegment :: "asn_constr_check_f \<Rightarrow> asn_constr_check_f" where
  "memb_regional_constraint_1_RoadSegment inner td sptr =
     (case sptr of
        Some (V_LIST array) \<Rightarrow>
          (let size = length array in if 1 \<le> size \<and> size \<le> 4 then inner td sptr else -1)
      | _ \<Rightarrow> -1)"

definition check_permitted_alphabet_2 :: "byte list \<Rightarrow> int" where
  "check_permitted_alphabet_2 buf = (if list_all (\<lambda>cv. cv \<le> 127) buf then 0 else -1)"

definition memb_processMethod_constraint_1 :: "asn_constr_check_f" where
  "memb_processMethod_constraint_1 td sptr =
     (case sptr of
        Some (V_OCTET_STRING buf) \<Rightarrow>
          (let size = length buf in if (1 \<le> size \<and> size \<le> 255) \<and> check_permitted_alphabet_2 buf = 0 then 0 else -1)
      | _ \<Rightarrow> -1)"

definition check_permitted_alphabet_3 :: "byte list \<Rightarrow> int" where
  "check_permitted_alphabet_3 buf = (if list_all (\<lambda>cv. cv \<le> 127) buf then 0 else -1)"

definition memb_processAgency_constraint_1 :: "asn_constr_check_f" where
  "memb_processAgency_constraint_1 td sptr =
     (case sptr of
        Some (V_OCTET_STRING buf) \<Rightarrow>
          (let size = length buf in if (1 \<le> size \<and> size \<le> 255) \<and> check_permitted_alphabet_3 buf = 0 then 0 else -1)
      | _ \<Rightarrow> -1)"

definition check_permitted_alphabet_4 :: "byte list \<Rightarrow> int" where
  "check_permitted_alphabet_4 buf = (if list_all (\<lambda>cv. cv \<le> 127) buf then 0 else -1)"

definition memb_lastCheckedDate_constraint_1 :: "asn_constr_check_f" where
  "memb_lastCheckedDate_constraint_1 td sptr =
     (case sptr of
        Some (V_OCTET_STRING buf) \<Rightarrow>
          (let size = length buf in if (1 \<le> size \<and> size \<le> 255) \<and> check_permitted_alphabet_4 buf = 0 then 0 else -1)
      | _ \<Rightarrow> -1)"

definition check_permitted_alphabet_5 :: "byte list \<Rightarrow> int" where
  "check_permitted_alphabet_5 buf = (if list_all (\<lambda>cv. cv \<le> 127) buf then 0 else -1)"

definition memb_geoidUsed_constraint_1 :: "asn_constr_check_f" where
  "memb_geoidUsed_constraint_1 td sptr =
     (case sptr of
        Some (V_OCTET_STRING buf) \<Rightarrow>
          (let size = length buf in if (1 \<le> size \<and> size \<le> 255) \<and> check_permitted_alphabet_5 buf = 0 then 0 else -1)
      | _ \<Rightarrow> -1)"

definition memb_regional_constraint_1_RestrictionUserType :: "asn_constr_check_f \<Rightarrow> asn_constr_check_f" where
  "memb_regional_constraint_1_RestrictionUserType inner td sptr =
     (case sptr of
        Some (V_LIST array) \<Rightarrow>
          (let size = length array in if 1 \<le> size \<and> size \<le> 4 then inner td sptr else -1)
      | _ \<Rightarrow> -1)"

definition memb_regional_constraint_1_MapData :: "asn_constr_check_f \<Rightarrow> asn_constr_check_f" where
  "memb_regional_constraint_1_MapData inner td sptr =
     (case sptr of
        Some (V_LIST array) \<Rightarrow>
          (let size = length array in if 1 \<le> size \<and> size \<le> 4 then inner td sptr else -1)
      | _ \<Rightarrow> -1)"

end
