(* ===== verification/Its_Checks.thy ===== *)
theory Its_Checks
  imports Its_Constraints
begin

text \<open>
  The checks that the descriptors of the messages point to: \<open>gc_X\<close> is \<open>encoding_constraints.general_constraints\<close> of
  \<open>asn_DEF_X\<close> with the pointers reached through its members. The lemmas \<open>..._admits\<close>, in the context of the
  locale \<open>sequence_check\<close>, say of each check that a value which can be encoded and is in the root of its
  constraints passes it; for the types of CAM, SPATEM and MAPEM they cover all members.
\<close>

section \<open>Checks\<close>

definition gc_NativeInteger :: asn_check where
  "gc_NativeInteger = CHK asn_generic_no_constraint"

definition gc_StationID :: asn_check where
  "gc_StationID = CHK StationID_constraint"

definition gc_ItsPduHeader :: asn_check where
  "gc_ItsPduHeader = CHK_SEQUENCE
     [(Some (CHK memb_protocolVersion_constraint_1), gc_NativeInteger),
      (Some (CHK memb_messageID_constraint_1), gc_NativeInteger),
      (None, gc_StationID)]"

definition gc_GenerationDeltaTime :: asn_check where
  "gc_GenerationDeltaTime = CHK GenerationDeltaTime_constraint"

definition gc_StationType :: asn_check where
  "gc_StationType = CHK StationType_constraint"

definition gc_Latitude :: asn_check where
  "gc_Latitude = CHK Latitude_constraint"

definition gc_Longitude :: asn_check where
  "gc_Longitude = CHK Longitude_constraint"

definition gc_SemiAxisLength :: asn_check where
  "gc_SemiAxisLength = CHK SemiAxisLength_constraint"

definition gc_HeadingValue :: asn_check where
  "gc_HeadingValue = CHK HeadingValue_constraint"

definition gc_PosConfidenceEllipse :: asn_check where
  "gc_PosConfidenceEllipse = CHK_SEQUENCE
     [(None, gc_SemiAxisLength),
      (None, gc_SemiAxisLength),
      (None, gc_HeadingValue)]"

definition gc_AltitudeValue :: asn_check where
  "gc_AltitudeValue = CHK AltitudeValue_constraint"

definition gc_AltitudeConfidence :: asn_check where
  "gc_AltitudeConfidence = CHK asn_generic_no_constraint"

definition gc_Altitude :: asn_check where
  "gc_Altitude = CHK_SEQUENCE
     [(None, gc_AltitudeValue),
      (None, gc_AltitudeConfidence)]"

definition gc_ReferencePosition :: asn_check where
  "gc_ReferencePosition = CHK_SEQUENCE
     [(None, gc_Latitude),
      (None, gc_Longitude),
      (None, gc_PosConfidenceEllipse),
      (None, gc_Altitude)]"

definition gc_BasicContainer :: asn_check where
  "gc_BasicContainer = CHK_SEQUENCE
     [(None, gc_StationType),
      (None, gc_ReferencePosition)]"

definition gc_HeadingConfidence :: asn_check where
  "gc_HeadingConfidence = CHK HeadingConfidence_constraint"

definition gc_Heading :: asn_check where
  "gc_Heading = CHK_SEQUENCE
     [(None, gc_HeadingValue),
      (None, gc_HeadingConfidence)]"

definition gc_SpeedValue :: asn_check where
  "gc_SpeedValue = CHK SpeedValue_constraint"

definition gc_SpeedConfidence :: asn_check where
  "gc_SpeedConfidence = CHK SpeedConfidence_constraint"

definition gc_Speed :: asn_check where
  "gc_Speed = CHK_SEQUENCE
     [(None, gc_SpeedValue),
      (None, gc_SpeedConfidence)]"

definition gc_DriveDirection :: asn_check where
  "gc_DriveDirection = CHK asn_generic_no_constraint"

definition gc_VehicleLengthValue :: asn_check where
  "gc_VehicleLengthValue = CHK VehicleLengthValue_constraint"

definition gc_VehicleLengthConfidenceIndication :: asn_check where
  "gc_VehicleLengthConfidenceIndication = CHK asn_generic_no_constraint"

definition gc_VehicleLength :: asn_check where
  "gc_VehicleLength = CHK_SEQUENCE
     [(None, gc_VehicleLengthValue),
      (None, gc_VehicleLengthConfidenceIndication)]"

definition gc_VehicleWidth :: asn_check where
  "gc_VehicleWidth = CHK VehicleWidth_constraint"

definition gc_LongitudinalAccelerationValue :: asn_check where
  "gc_LongitudinalAccelerationValue = CHK LongitudinalAccelerationValue_constraint"

definition gc_AccelerationConfidence :: asn_check where
  "gc_AccelerationConfidence = CHK AccelerationConfidence_constraint"

definition gc_LongitudinalAcceleration :: asn_check where
  "gc_LongitudinalAcceleration = CHK_SEQUENCE
     [(None, gc_LongitudinalAccelerationValue),
      (None, gc_AccelerationConfidence)]"

definition gc_CurvatureValue :: asn_check where
  "gc_CurvatureValue = CHK CurvatureValue_constraint"

definition gc_CurvatureConfidence :: asn_check where
  "gc_CurvatureConfidence = CHK asn_generic_no_constraint"

definition gc_Curvature :: asn_check where
  "gc_Curvature = CHK_SEQUENCE
     [(None, gc_CurvatureValue),
      (None, gc_CurvatureConfidence)]"

definition gc_CurvatureCalculationMode :: asn_check where
  "gc_CurvatureCalculationMode = CHK asn_generic_no_constraint"

definition gc_YawRateValue :: asn_check where
  "gc_YawRateValue = CHK YawRateValue_constraint"

definition gc_YawRateConfidence :: asn_check where
  "gc_YawRateConfidence = CHK asn_generic_no_constraint"

definition gc_YawRate :: asn_check where
  "gc_YawRate = CHK_SEQUENCE
     [(None, gc_YawRateValue),
      (None, gc_YawRateConfidence)]"

definition gc_AccelerationControl :: asn_check where
  "gc_AccelerationControl = CHK AccelerationControl_constraint"

definition gc_LanePosition :: asn_check where
  "gc_LanePosition = CHK LanePosition_constraint"

definition gc_SteeringWheelAngleValue :: asn_check where
  "gc_SteeringWheelAngleValue = CHK SteeringWheelAngleValue_constraint"

definition gc_SteeringWheelAngleConfidence :: asn_check where
  "gc_SteeringWheelAngleConfidence = CHK SteeringWheelAngleConfidence_constraint"

definition gc_SteeringWheelAngle :: asn_check where
  "gc_SteeringWheelAngle = CHK_SEQUENCE
     [(None, gc_SteeringWheelAngleValue),
      (None, gc_SteeringWheelAngleConfidence)]"

definition gc_LateralAccelerationValue :: asn_check where
  "gc_LateralAccelerationValue = CHK LateralAccelerationValue_constraint"

definition gc_LateralAcceleration :: asn_check where
  "gc_LateralAcceleration = CHK_SEQUENCE
     [(None, gc_LateralAccelerationValue),
      (None, gc_AccelerationConfidence)]"

definition gc_VerticalAccelerationValue :: asn_check where
  "gc_VerticalAccelerationValue = CHK VerticalAccelerationValue_constraint"

definition gc_VerticalAcceleration :: asn_check where
  "gc_VerticalAcceleration = CHK_SEQUENCE
     [(None, gc_VerticalAccelerationValue),
      (None, gc_AccelerationConfidence)]"

definition gc_PerformanceClass :: asn_check where
  "gc_PerformanceClass = CHK PerformanceClass_constraint"

definition gc_CenDsrcTollingZoneID :: asn_check where
  "gc_CenDsrcTollingZoneID = CHK CenDsrcTollingZoneID_constraint"

definition gc_CenDsrcTollingZone :: asn_check where
  "gc_CenDsrcTollingZone = CHK_SEQUENCE
     [(None, gc_Latitude),
      (None, gc_Longitude),
      (None, gc_CenDsrcTollingZoneID)]"

definition gc_BasicVehicleContainerHighFrequency :: asn_check where
  "gc_BasicVehicleContainerHighFrequency = CHK_SEQUENCE
     [(None, gc_Heading),
      (None, gc_Speed),
      (None, gc_DriveDirection),
      (None, gc_VehicleLength),
      (None, gc_VehicleWidth),
      (None, gc_LongitudinalAcceleration),
      (None, gc_Curvature),
      (None, gc_CurvatureCalculationMode),
      (None, gc_YawRate),
      (None, gc_AccelerationControl),
      (None, gc_LanePosition),
      (None, gc_SteeringWheelAngle),
      (None, gc_LateralAcceleration),
      (None, gc_VerticalAcceleration),
      (None, gc_PerformanceClass),
      (None, gc_CenDsrcTollingZone)]"

definition gc_ProtectedZoneType :: asn_check where
  "gc_ProtectedZoneType = CHK asn_generic_no_constraint"

definition gc_TimestampIts :: asn_check where
  "gc_TimestampIts = CHK TimestampIts_constraint"

definition gc_ProtectedZoneRadius :: asn_check where
  "gc_ProtectedZoneRadius = CHK ProtectedZoneRadius_constraint"

definition gc_ProtectedZoneID :: asn_check where
  "gc_ProtectedZoneID = CHK ProtectedZoneID_constraint"

definition gc_ProtectedCommunicationZone :: asn_check where
  "gc_ProtectedCommunicationZone = CHK_SEQUENCE
     [(None, gc_ProtectedZoneType),
      (None, gc_TimestampIts),
      (None, gc_Latitude),
      (None, gc_Longitude),
      (None, gc_ProtectedZoneRadius),
      (None, gc_ProtectedZoneID)]"

definition gc_ProtectedCommunicationZonesRSU :: asn_check where
  "gc_ProtectedCommunicationZonesRSU = CHK_SEQUENCE_OF (None, gc_ProtectedCommunicationZone)"

definition gc_RSUContainerHighFrequency :: asn_check where
  "gc_RSUContainerHighFrequency = CHK_SEQUENCE
     [(None, gc_ProtectedCommunicationZonesRSU)]"

definition gc_HighFrequencyContainer :: asn_check where
  "gc_HighFrequencyContainer = CHK_CHOICE
     [(None, gc_BasicVehicleContainerHighFrequency),
      (None, gc_RSUContainerHighFrequency)]"

definition gc_VehicleRole :: asn_check where
  "gc_VehicleRole = CHK asn_generic_no_constraint"

definition gc_ExteriorLights :: asn_check where
  "gc_ExteriorLights = CHK ExteriorLights_constraint"

definition gc_DeltaLatitude :: asn_check where
  "gc_DeltaLatitude = CHK DeltaLatitude_constraint"

definition gc_DeltaLongitude :: asn_check where
  "gc_DeltaLongitude = CHK DeltaLongitude_constraint"

definition gc_DeltaAltitude :: asn_check where
  "gc_DeltaAltitude = CHK DeltaAltitude_constraint"

definition gc_DeltaReferencePosition :: asn_check where
  "gc_DeltaReferencePosition = CHK_SEQUENCE
     [(None, gc_DeltaLatitude),
      (None, gc_DeltaLongitude),
      (None, gc_DeltaAltitude)]"

definition gc_PathDeltaTime :: asn_check where
  "gc_PathDeltaTime = CHK PathDeltaTime_constraint"

definition gc_PathPoint :: asn_check where
  "gc_PathPoint = CHK_SEQUENCE
     [(None, gc_DeltaReferencePosition),
      (None, gc_PathDeltaTime)]"

definition gc_PathHistory :: asn_check where
  "gc_PathHistory = CHK_SEQUENCE_OF (None, gc_PathPoint)"

definition gc_BasicVehicleContainerLowFrequency :: asn_check where
  "gc_BasicVehicleContainerLowFrequency = CHK_SEQUENCE
     [(None, gc_VehicleRole),
      (None, gc_ExteriorLights),
      (None, gc_PathHistory)]"

definition gc_LowFrequencyContainer :: asn_check where
  "gc_LowFrequencyContainer = CHK_CHOICE
     [(None, gc_BasicVehicleContainerLowFrequency)]"

definition gc_EmbarkationStatus :: asn_check where
  "gc_EmbarkationStatus = CHK asn_generic_no_constraint"

definition gc_PtActivationType :: asn_check where
  "gc_PtActivationType = CHK PtActivationType_constraint"

definition gc_PtActivationData :: asn_check where
  "gc_PtActivationData = CHK PtActivationData_constraint"

definition gc_PtActivation :: asn_check where
  "gc_PtActivation = CHK_SEQUENCE
     [(None, gc_PtActivationType),
      (None, gc_PtActivationData)]"

definition gc_PublicTransportContainer :: asn_check where
  "gc_PublicTransportContainer = CHK_SEQUENCE
     [(None, gc_EmbarkationStatus),
      (None, gc_PtActivation)]"

definition gc_SpecialTransportType :: asn_check where
  "gc_SpecialTransportType = CHK SpecialTransportType_constraint"

definition gc_LightBarSirenInUse :: asn_check where
  "gc_LightBarSirenInUse = CHK LightBarSirenInUse_constraint"

definition gc_SpecialTransportContainer :: asn_check where
  "gc_SpecialTransportContainer = CHK_SEQUENCE
     [(None, gc_SpecialTransportType),
      (None, gc_LightBarSirenInUse)]"

definition gc_DangerousGoodsBasic :: asn_check where
  "gc_DangerousGoodsBasic = CHK asn_generic_no_constraint"

definition gc_DangerousGoodsContainer :: asn_check where
  "gc_DangerousGoodsContainer = CHK_SEQUENCE
     [(None, gc_DangerousGoodsBasic)]"

definition gc_RoadworksSubCauseCode :: asn_check where
  "gc_RoadworksSubCauseCode = CHK RoadworksSubCauseCode_constraint"

definition gc_HardShoulderStatus :: asn_check where
  "gc_HardShoulderStatus = CHK asn_generic_no_constraint"

definition gc_DrivingLaneStatus :: asn_check where
  "gc_DrivingLaneStatus = CHK DrivingLaneStatus_constraint"

definition gc_ClosedLanes :: asn_check where
  "gc_ClosedLanes = CHK_SEQUENCE
     [(None, gc_HardShoulderStatus),
      (None, gc_HardShoulderStatus),
      (None, gc_DrivingLaneStatus)]"

definition gc_RoadWorksContainerBasic :: asn_check where
  "gc_RoadWorksContainerBasic = CHK_SEQUENCE
     [(None, gc_RoadworksSubCauseCode),
      (None, gc_LightBarSirenInUse),
      (None, gc_ClosedLanes)]"

definition gc_RescueContainer :: asn_check where
  "gc_RescueContainer = CHK_SEQUENCE
     [(None, gc_LightBarSirenInUse)]"

definition gc_CauseCodeType :: asn_check where
  "gc_CauseCodeType = CHK CauseCodeType_constraint"

definition gc_SubCauseCodeType :: asn_check where
  "gc_SubCauseCodeType = CHK SubCauseCodeType_constraint"

definition gc_CauseCode :: asn_check where
  "gc_CauseCode = CHK_SEQUENCE
     [(None, gc_CauseCodeType),
      (None, gc_SubCauseCodeType)]"

definition gc_EmergencyPriority :: asn_check where
  "gc_EmergencyPriority = CHK EmergencyPriority_constraint"

definition gc_EmergencyContainer :: asn_check where
  "gc_EmergencyContainer = CHK_SEQUENCE
     [(None, gc_LightBarSirenInUse),
      (None, gc_CauseCode),
      (None, gc_EmergencyPriority)]"

definition gc_TrafficRule :: asn_check where
  "gc_TrafficRule = CHK asn_generic_no_constraint"

definition gc_SpeedLimit :: asn_check where
  "gc_SpeedLimit = CHK SpeedLimit_constraint"

definition gc_SafetyCarContainer :: asn_check where
  "gc_SafetyCarContainer = CHK_SEQUENCE
     [(None, gc_LightBarSirenInUse),
      (None, gc_CauseCode),
      (None, gc_TrafficRule),
      (None, gc_SpeedLimit)]"

definition gc_SpecialVehicleContainer :: asn_check where
  "gc_SpecialVehicleContainer = CHK_CHOICE
     [(None, gc_PublicTransportContainer),
      (None, gc_SpecialTransportContainer),
      (None, gc_DangerousGoodsContainer),
      (None, gc_RoadWorksContainerBasic),
      (None, gc_RescueContainer),
      (None, gc_EmergencyContainer),
      (None, gc_SafetyCarContainer)]"

definition gc_CamParameters :: asn_check where
  "gc_CamParameters = CHK_SEQUENCE
     [(None, gc_BasicContainer),
      (None, gc_HighFrequencyContainer),
      (None, gc_LowFrequencyContainer),
      (None, gc_SpecialVehicleContainer)]"

definition gc_CoopAwareness :: asn_check where
  "gc_CoopAwareness = CHK_SEQUENCE
     [(None, gc_GenerationDeltaTime),
      (None, gc_CamParameters)]"

definition gc_CAM :: asn_check where
  "gc_CAM = CHK_SEQUENCE
     [(None, gc_ItsPduHeader),
      (None, gc_CoopAwareness)]"

definition gc_SequenceNumber :: asn_check where
  "gc_SequenceNumber = CHK SequenceNumber_constraint"

definition gc_ActionID :: asn_check where
  "gc_ActionID = CHK_SEQUENCE
     [(None, gc_StationID),
      (None, gc_SequenceNumber)]"

definition gc_Termination :: asn_check where
  "gc_Termination = CHK asn_generic_no_constraint"

definition gc_RelevanceDistance :: asn_check where
  "gc_RelevanceDistance = CHK asn_generic_no_constraint"

definition gc_RelevanceTrafficDirection :: asn_check where
  "gc_RelevanceTrafficDirection = CHK asn_generic_no_constraint"

definition gc_ValidityDuration :: asn_check where
  "gc_ValidityDuration = CHK ValidityDuration_constraint"

definition gc_TransmissionInterval :: asn_check where
  "gc_TransmissionInterval = CHK TransmissionInterval_constraint"

definition gc_ManagementContainer :: asn_check where
  "gc_ManagementContainer = CHK_SEQUENCE
     [(None, gc_ActionID),
      (None, gc_TimestampIts),
      (None, gc_TimestampIts),
      (None, gc_Termination),
      (None, gc_ReferencePosition),
      (None, gc_RelevanceDistance),
      (None, gc_RelevanceTrafficDirection),
      (None, gc_ValidityDuration),
      (None, gc_TransmissionInterval),
      (None, gc_StationType)]"

definition gc_InformationQuality :: asn_check where
  "gc_InformationQuality = CHK InformationQuality_constraint"

definition gc_EventPoint :: asn_check where
  "gc_EventPoint = CHK_SEQUENCE
     [(None, gc_DeltaReferencePosition),
      (None, gc_PathDeltaTime),
      (None, gc_InformationQuality)]"

definition gc_EventHistory :: asn_check where
  "gc_EventHistory = CHK_SEQUENCE_OF (None, gc_EventPoint)"

definition gc_SituationContainer :: asn_check where
  "gc_SituationContainer = CHK_SEQUENCE
     [(None, gc_InformationQuality),
      (None, gc_CauseCode),
      (None, gc_CauseCode),
      (None, gc_EventHistory)]"

definition gc_Traces :: asn_check where
  "gc_Traces = CHK_SEQUENCE_OF (None, gc_PathHistory)"

definition gc_RoadType :: asn_check where
  "gc_RoadType = CHK asn_generic_no_constraint"

definition gc_LocationContainer :: asn_check where
  "gc_LocationContainer = CHK_SEQUENCE
     [(None, gc_Speed),
      (None, gc_Heading),
      (None, gc_Traces),
      (None, gc_RoadType)]"

definition gc_HeightLonCarr :: asn_check where
  "gc_HeightLonCarr = CHK HeightLonCarr_constraint"

definition gc_PosLonCarr :: asn_check where
  "gc_PosLonCarr = CHK PosLonCarr_constraint"

definition gc_PosPillar :: asn_check where
  "gc_PosPillar = CHK PosPillar_constraint"

definition gc_PositionOfPillars :: asn_check where
  "gc_PositionOfPillars = CHK_SEQUENCE_OF (None, gc_PosPillar)"

definition gc_PosCentMass :: asn_check where
  "gc_PosCentMass = CHK PosCentMass_constraint"

definition gc_WheelBaseVehicle :: asn_check where
  "gc_WheelBaseVehicle = CHK WheelBaseVehicle_constraint"

definition gc_TurningRadius :: asn_check where
  "gc_TurningRadius = CHK TurningRadius_constraint"

definition gc_PosFrontAx :: asn_check where
  "gc_PosFrontAx = CHK PosFrontAx_constraint"

definition gc_PositionOfOccupants :: asn_check where
  "gc_PositionOfOccupants = CHK PositionOfOccupants_constraint"

definition gc_VehicleMass :: asn_check where
  "gc_VehicleMass = CHK VehicleMass_constraint"

definition gc_RequestResponseIndication :: asn_check where
  "gc_RequestResponseIndication = CHK asn_generic_no_constraint"

definition gc_ImpactReductionContainer :: asn_check where
  "gc_ImpactReductionContainer = CHK_SEQUENCE
     [(None, gc_HeightLonCarr),
      (None, gc_HeightLonCarr),
      (None, gc_PosLonCarr),
      (None, gc_PosLonCarr),
      (None, gc_PositionOfPillars),
      (None, gc_PosCentMass),
      (None, gc_WheelBaseVehicle),
      (None, gc_TurningRadius),
      (None, gc_PosFrontAx),
      (None, gc_PositionOfOccupants),
      (None, gc_VehicleMass),
      (None, gc_RequestResponseIndication)]"

definition gc_Temperature :: asn_check where
  "gc_Temperature = CHK Temperature_constraint"

definition gc_RestrictedTypes :: asn_check where
  "gc_RestrictedTypes = CHK_SEQUENCE_OF (None, gc_StationType)"

definition gc_ItineraryPath :: asn_check where
  "gc_ItineraryPath = CHK_SEQUENCE_OF (None, gc_ReferencePosition)"

definition gc_ReferenceDenms :: asn_check where
  "gc_ReferenceDenms = CHK_SEQUENCE_OF (None, gc_ActionID)"

definition gc_RoadWorksContainerExtended :: asn_check where
  "gc_RoadWorksContainerExtended = CHK_SEQUENCE
     [(None, gc_LightBarSirenInUse),
      (None, gc_ClosedLanes),
      (None, gc_RestrictedTypes),
      (None, gc_SpeedLimit),
      (None, gc_CauseCode),
      (None, gc_ItineraryPath),
      (None, gc_DeltaReferencePosition),
      (None, gc_TrafficRule),
      (None, gc_ReferenceDenms)]"

definition gc_PositioningSolutionType :: asn_check where
  "gc_PositioningSolutionType = CHK asn_generic_no_constraint"

definition gc_StationarySince :: asn_check where
  "gc_StationarySince = CHK asn_generic_no_constraint"

definition gc_BOOLEAN :: asn_check where
  "gc_BOOLEAN = CHK asn_generic_no_constraint"

definition gc_IA5String :: asn_check where
  "gc_IA5String = CHK IA5String_constraint"

definition gc_PhoneNumber :: asn_check where
  "gc_PhoneNumber = CHK PhoneNumber_constraint"

definition gc_UTF8String :: asn_check where
  "gc_UTF8String = CHK UTF8String_constraint"

definition gc_DangerousGoodsExtended :: asn_check where
  "gc_DangerousGoodsExtended = CHK_SEQUENCE
     [(None, gc_DangerousGoodsBasic),
      (Some (CHK memb_unNumber_constraint_1), gc_NativeInteger),
      (None, gc_BOOLEAN),
      (None, gc_BOOLEAN),
      (None, gc_BOOLEAN),
      (Some (CHK memb_emergencyActionCode_constraint_1), gc_IA5String),
      (None, gc_PhoneNumber),
      (Some (CHK memb_companyName_constraint_1), gc_UTF8String)]"

definition gc_NumberOfOccupants :: asn_check where
  "gc_NumberOfOccupants = CHK NumberOfOccupants_constraint"

definition gc_WMInumber :: asn_check where
  "gc_WMInumber = CHK WMInumber_constraint"

definition gc_VDS :: asn_check where
  "gc_VDS = CHK VDS_constraint"

definition gc_VehicleIdentification :: asn_check where
  "gc_VehicleIdentification = CHK_SEQUENCE
     [(None, gc_WMInumber),
      (None, gc_VDS)]"

definition gc_EnergyStorageType :: asn_check where
  "gc_EnergyStorageType = CHK EnergyStorageType_constraint"

definition gc_StationaryVehicleContainer :: asn_check where
  "gc_StationaryVehicleContainer = CHK_SEQUENCE
     [(None, gc_StationarySince),
      (None, gc_CauseCode),
      (None, gc_DangerousGoodsExtended),
      (None, gc_NumberOfOccupants),
      (None, gc_VehicleIdentification),
      (None, gc_EnergyStorageType)]"

definition gc_AlacarteContainer :: asn_check where
  "gc_AlacarteContainer = CHK_SEQUENCE
     [(None, gc_LanePosition),
      (None, gc_ImpactReductionContainer),
      (None, gc_Temperature),
      (None, gc_RoadWorksContainerExtended),
      (None, gc_PositioningSolutionType),
      (None, gc_StationaryVehicleContainer)]"

definition gc_DecentralizedEnvironmentalNotificationMessage :: asn_check where
  "gc_DecentralizedEnvironmentalNotificationMessage = CHK_SEQUENCE
     [(None, gc_ManagementContainer),
      (None, gc_SituationContainer),
      (None, gc_LocationContainer),
      (None, gc_AlacarteContainer)]"

definition gc_DENM :: asn_check where
  "gc_DENM = CHK_SEQUENCE
     [(None, gc_ItsPduHeader),
      (None, gc_DecentralizedEnvironmentalNotificationMessage)]"

definition gc_MinuteOfTheYear :: asn_check where
  "gc_MinuteOfTheYear = CHK MinuteOfTheYear_constraint"

definition gc_DescriptiveName :: asn_check where
  "gc_DescriptiveName = CHK DescriptiveName_constraint"

definition gc_RoadRegulatorID :: asn_check where
  "gc_RoadRegulatorID = CHK RoadRegulatorID_constraint"

definition gc_IntersectionID :: asn_check where
  "gc_IntersectionID = CHK IntersectionID_constraint"

definition gc_IntersectionReferenceID :: asn_check where
  "gc_IntersectionReferenceID = CHK_SEQUENCE
     [(None, gc_RoadRegulatorID),
      (None, gc_IntersectionID)]"

definition gc_MsgCount :: asn_check where
  "gc_MsgCount = CHK MsgCount_constraint"

definition gc_IntersectionStatusObject :: asn_check where
  "gc_IntersectionStatusObject = CHK IntersectionStatusObject_constraint"

definition gc_DSecond :: asn_check where
  "gc_DSecond = CHK DSecond_constraint"

definition gc_LaneID :: asn_check where
  "gc_LaneID = CHK LaneID_constraint"

definition gc_EnabledLaneList :: asn_check where
  "gc_EnabledLaneList = CHK_SEQUENCE_OF (None, gc_LaneID)"

definition gc_SignalGroupID :: asn_check where
  "gc_SignalGroupID = CHK SignalGroupID_constraint"

definition gc_MovementPhaseState :: asn_check where
  "gc_MovementPhaseState = CHK asn_generic_no_constraint"

definition gc_TimeMark :: asn_check where
  "gc_TimeMark = CHK TimeMark_constraint"

definition gc_TimeIntervalConfidence :: asn_check where
  "gc_TimeIntervalConfidence = CHK TimeIntervalConfidence_constraint"

definition gc_TimeChangeDetails :: asn_check where
  "gc_TimeChangeDetails = CHK_SEQUENCE
     [(None, gc_TimeMark),
      (None, gc_TimeMark),
      (None, gc_TimeMark),
      (None, gc_TimeMark),
      (None, gc_TimeIntervalConfidence),
      (None, gc_TimeMark)]"

definition gc_AdvisorySpeedType :: asn_check where
  "gc_AdvisorySpeedType = CHK asn_generic_no_constraint"

definition gc_SpeedAdvice :: asn_check where
  "gc_SpeedAdvice = CHK SpeedAdvice_constraint"

definition gc_ZoneLength :: asn_check where
  "gc_ZoneLength = CHK ZoneLength_constraint"

definition gc_RestrictionClassID :: asn_check where
  "gc_RestrictionClassID = CHK RestrictionClassID_constraint"

definition gc_RegionId :: asn_check where
  "gc_RegionId = CHK RegionId_constraint"

definition gc_regExtValue_3 :: asn_check where
  "gc_regExtValue_3 = CHK_CHOICE
     []"

definition gc_RegionalExtension_369P0 :: asn_check where
  "gc_RegionalExtension_369P0 = CHK_SEQUENCE
     [(Some (CHK memb_regionId_constraint_1), gc_RegionId),
      (Some (CHK_INNER memb_regExtValue_constraint_1 gc_regExtValue_3), gc_regExtValue_3)]"

definition gc_regional_7_AdvisorySpeed :: asn_check where
  "gc_regional_7_AdvisorySpeed = CHK_SEQUENCE_OF (None, gc_RegionalExtension_369P0)"

definition gc_AdvisorySpeed :: asn_check where
  "gc_AdvisorySpeed = CHK_SEQUENCE
     [(None, gc_AdvisorySpeedType),
      (None, gc_SpeedAdvice),
      (None, gc_SpeedConfidence),
      (None, gc_ZoneLength),
      (None, gc_RestrictionClassID),
      (Some (CHK_INNER memb_regional_constraint_1_AdvisorySpeed gc_regional_7_AdvisorySpeed), gc_regional_7_AdvisorySpeed)]"

definition gc_AdvisorySpeedList :: asn_check where
  "gc_AdvisorySpeedList = CHK_SEQUENCE_OF (None, gc_AdvisorySpeed)"

definition gc_regional_5_MovementEvent :: asn_check where
  "gc_regional_5_MovementEvent = CHK_SEQUENCE_OF (None, gc_RegionalExtension_369P0)"

definition gc_MovementEvent :: asn_check where
  "gc_MovementEvent = CHK_SEQUENCE
     [(None, gc_MovementPhaseState),
      (None, gc_TimeChangeDetails),
      (None, gc_AdvisorySpeedList),
      (Some (CHK_INNER memb_regional_constraint_1_MovementEvent gc_regional_5_MovementEvent), gc_regional_5_MovementEvent)]"

definition gc_MovementEventList :: asn_check where
  "gc_MovementEventList = CHK_SEQUENCE_OF (None, gc_MovementEvent)"

definition gc_LaneConnectionID :: asn_check where
  "gc_LaneConnectionID = CHK LaneConnectionID_constraint"

definition gc_WaitOnStopline :: asn_check where
  "gc_WaitOnStopline = CHK asn_generic_no_constraint"

definition gc_PedestrianBicycleDetect :: asn_check where
  "gc_PedestrianBicycleDetect = CHK asn_generic_no_constraint"

definition gc_regional_7_ConnectionManeuverAssist :: asn_check where
  "gc_regional_7_ConnectionManeuverAssist = CHK_SEQUENCE_OF (None, gc_RegionalExtension_369P0)"

definition gc_ConnectionManeuverAssist :: asn_check where
  "gc_ConnectionManeuverAssist = CHK_SEQUENCE
     [(None, gc_LaneConnectionID),
      (None, gc_ZoneLength),
      (None, gc_ZoneLength),
      (None, gc_WaitOnStopline),
      (None, gc_PedestrianBicycleDetect),
      (Some (CHK_INNER memb_regional_constraint_1_ConnectionManeuverAssist gc_regional_7_ConnectionManeuverAssist), gc_regional_7_ConnectionManeuverAssist)]"

definition gc_ManeuverAssistList :: asn_check where
  "gc_ManeuverAssistList = CHK_SEQUENCE_OF (None, gc_ConnectionManeuverAssist)"

definition gc_regional_6_MovementState :: asn_check where
  "gc_regional_6_MovementState = CHK_SEQUENCE_OF (None, gc_RegionalExtension_369P0)"

definition gc_MovementState :: asn_check where
  "gc_MovementState = CHK_SEQUENCE
     [(None, gc_DescriptiveName),
      (None, gc_SignalGroupID),
      (None, gc_MovementEventList),
      (None, gc_ManeuverAssistList),
      (Some (CHK_INNER memb_regional_constraint_1_MovementState gc_regional_6_MovementState), gc_regional_6_MovementState)]"

definition gc_MovementList :: asn_check where
  "gc_MovementList = CHK_SEQUENCE_OF (None, gc_MovementState)"

definition gc_regional_11_IntersectionState :: asn_check where
  "gc_regional_11_IntersectionState = CHK_SEQUENCE_OF (None, gc_RegionalExtension_369P0)"

definition gc_IntersectionState :: asn_check where
  "gc_IntersectionState = CHK_SEQUENCE
     [(None, gc_DescriptiveName),
      (None, gc_IntersectionReferenceID),
      (None, gc_MsgCount),
      (None, gc_IntersectionStatusObject),
      (None, gc_MinuteOfTheYear),
      (None, gc_DSecond),
      (None, gc_EnabledLaneList),
      (None, gc_MovementList),
      (None, gc_ManeuverAssistList),
      (Some (CHK_INNER memb_regional_constraint_1_IntersectionState gc_regional_11_IntersectionState), gc_regional_11_IntersectionState)]"

definition gc_IntersectionStateList :: asn_check where
  "gc_IntersectionStateList = CHK_SEQUENCE_OF (None, gc_IntersectionState)"

definition gc_regional_5_SPAT :: asn_check where
  "gc_regional_5_SPAT = CHK_SEQUENCE_OF (None, gc_RegionalExtension_369P0)"

definition gc_SPAT :: asn_check where
  "gc_SPAT = CHK_SEQUENCE
     [(None, gc_MinuteOfTheYear),
      (None, gc_DescriptiveName),
      (None, gc_IntersectionStateList),
      (Some (CHK_INNER memb_regional_constraint_1_SPAT gc_regional_5_SPAT), gc_regional_5_SPAT)]"

definition gc_SPATEM :: asn_check where
  "gc_SPATEM = CHK_SEQUENCE
     [(None, gc_ItsPduHeader),
      (None, gc_SPAT)]"

definition gc_LayerType :: asn_check where
  "gc_LayerType = CHK asn_generic_no_constraint"

definition gc_LayerID :: asn_check where
  "gc_LayerID = CHK LayerID_constraint"

definition gc_Elevation :: asn_check where
  "gc_Elevation = CHK Elevation_constraint"

definition gc_regional_5_Position3D :: asn_check where
  "gc_regional_5_Position3D = CHK_SEQUENCE_OF (None, gc_RegionalExtension_369P0)"

definition gc_Position3D :: asn_check where
  "gc_Position3D = CHK_SEQUENCE
     [(None, gc_Latitude),
      (None, gc_Longitude),
      (None, gc_Elevation),
      (Some (CHK_INNER memb_regional_constraint_1_Position3D gc_regional_5_Position3D), gc_regional_5_Position3D)]"

definition gc_LaneWidth :: asn_check where
  "gc_LaneWidth = CHK LaneWidth_constraint"

definition gc_SpeedLimitType :: asn_check where
  "gc_SpeedLimitType = CHK asn_generic_no_constraint"

definition gc_Velocity :: asn_check where
  "gc_Velocity = CHK Velocity_constraint"

definition gc_RegulatorySpeedLimit :: asn_check where
  "gc_RegulatorySpeedLimit = CHK_SEQUENCE
     [(None, gc_SpeedLimitType),
      (None, gc_Velocity)]"

definition gc_SpeedLimitList :: asn_check where
  "gc_SpeedLimitList = CHK_SEQUENCE_OF (None, gc_RegulatorySpeedLimit)"

definition gc_ApproachID :: asn_check where
  "gc_ApproachID = CHK ApproachID_constraint"

definition gc_LaneDirection :: asn_check where
  "gc_LaneDirection = CHK LaneDirection_constraint"

definition gc_LaneSharing :: asn_check where
  "gc_LaneSharing = CHK LaneSharing_constraint"

definition gc_LaneAttributes_Vehicle :: asn_check where
  "gc_LaneAttributes_Vehicle = CHK LaneAttributes_Vehicle_constraint"

definition gc_LaneAttributes_Crosswalk :: asn_check where
  "gc_LaneAttributes_Crosswalk = CHK LaneAttributes_Crosswalk_constraint"

definition gc_LaneAttributes_Bike :: asn_check where
  "gc_LaneAttributes_Bike = CHK LaneAttributes_Bike_constraint"

definition gc_LaneAttributes_Sidewalk :: asn_check where
  "gc_LaneAttributes_Sidewalk = CHK LaneAttributes_Sidewalk_constraint"

definition gc_LaneAttributes_Barrier :: asn_check where
  "gc_LaneAttributes_Barrier = CHK LaneAttributes_Barrier_constraint"

definition gc_LaneAttributes_Striping :: asn_check where
  "gc_LaneAttributes_Striping = CHK LaneAttributes_Striping_constraint"

definition gc_LaneAttributes_TrackedVehicle :: asn_check where
  "gc_LaneAttributes_TrackedVehicle = CHK LaneAttributes_TrackedVehicle_constraint"

definition gc_LaneAttributes_Parking :: asn_check where
  "gc_LaneAttributes_Parking = CHK LaneAttributes_Parking_constraint"

definition gc_LaneTypeAttributes :: asn_check where
  "gc_LaneTypeAttributes = CHK_CHOICE
     [(None, gc_LaneAttributes_Vehicle),
      (None, gc_LaneAttributes_Crosswalk),
      (None, gc_LaneAttributes_Bike),
      (None, gc_LaneAttributes_Sidewalk),
      (None, gc_LaneAttributes_Barrier),
      (None, gc_LaneAttributes_Striping),
      (None, gc_LaneAttributes_TrackedVehicle),
      (None, gc_LaneAttributes_Parking)]"

definition gc_LaneAttributes :: asn_check where
  "gc_LaneAttributes = CHK_SEQUENCE
     [(None, gc_LaneDirection),
      (None, gc_LaneSharing),
      (None, gc_LaneTypeAttributes),
      (None, gc_RegionalExtension_369P0)]"

definition gc_AllowedManeuvers :: asn_check where
  "gc_AllowedManeuvers = CHK AllowedManeuvers_constraint"

definition gc_Offset_B10 :: asn_check where
  "gc_Offset_B10 = CHK Offset_B10_constraint"

definition gc_Node_XY_20b :: asn_check where
  "gc_Node_XY_20b = CHK_SEQUENCE
     [(None, gc_Offset_B10),
      (None, gc_Offset_B10)]"

definition gc_Offset_B11 :: asn_check where
  "gc_Offset_B11 = CHK Offset_B11_constraint"

definition gc_Node_XY_22b :: asn_check where
  "gc_Node_XY_22b = CHK_SEQUENCE
     [(None, gc_Offset_B11),
      (None, gc_Offset_B11)]"

definition gc_Offset_B12 :: asn_check where
  "gc_Offset_B12 = CHK Offset_B12_constraint"

definition gc_Node_XY_24b :: asn_check where
  "gc_Node_XY_24b = CHK_SEQUENCE
     [(None, gc_Offset_B12),
      (None, gc_Offset_B12)]"

definition gc_Offset_B13 :: asn_check where
  "gc_Offset_B13 = CHK Offset_B13_constraint"

definition gc_Node_XY_26b :: asn_check where
  "gc_Node_XY_26b = CHK_SEQUENCE
     [(None, gc_Offset_B13),
      (None, gc_Offset_B13)]"

definition gc_Offset_B14 :: asn_check where
  "gc_Offset_B14 = CHK Offset_B14_constraint"

definition gc_Node_XY_28b :: asn_check where
  "gc_Node_XY_28b = CHK_SEQUENCE
     [(None, gc_Offset_B14),
      (None, gc_Offset_B14)]"

definition gc_Offset_B16 :: asn_check where
  "gc_Offset_B16 = CHK Offset_B16_constraint"

definition gc_Node_XY_32b :: asn_check where
  "gc_Node_XY_32b = CHK_SEQUENCE
     [(None, gc_Offset_B16),
      (None, gc_Offset_B16)]"

definition gc_Node_LLmD_64b :: asn_check where
  "gc_Node_LLmD_64b = CHK_SEQUENCE
     [(None, gc_Longitude),
      (None, gc_Latitude)]"

definition gc_NodeOffsetPointXY :: asn_check where
  "gc_NodeOffsetPointXY = CHK_CHOICE
     [(None, gc_Node_XY_20b),
      (None, gc_Node_XY_22b),
      (None, gc_Node_XY_24b),
      (None, gc_Node_XY_26b),
      (None, gc_Node_XY_28b),
      (None, gc_Node_XY_32b),
      (None, gc_Node_LLmD_64b),
      (None, gc_RegionalExtension_369P0)]"

definition gc_NodeAttributeXY :: asn_check where
  "gc_NodeAttributeXY = CHK asn_generic_no_constraint"

definition gc_NodeAttributeXYList :: asn_check where
  "gc_NodeAttributeXYList = CHK_SEQUENCE_OF (None, gc_NodeAttributeXY)"

definition gc_SegmentAttributeXY :: asn_check where
  "gc_SegmentAttributeXY = CHK asn_generic_no_constraint"

definition gc_SegmentAttributeXYList :: asn_check where
  "gc_SegmentAttributeXYList = CHK_SEQUENCE_OF (None, gc_SegmentAttributeXY)"

definition gc_DeltaAngle :: asn_check where
  "gc_DeltaAngle = CHK DeltaAngle_constraint"

definition gc_RoadwayCrownAngle :: asn_check where
  "gc_RoadwayCrownAngle = CHK RoadwayCrownAngle_constraint"

definition gc_MergeDivergeNodeAngle :: asn_check where
  "gc_MergeDivergeNodeAngle = CHK MergeDivergeNodeAngle_constraint"

definition gc_regional_8_LaneDataAttribute :: asn_check where
  "gc_regional_8_LaneDataAttribute = CHK_SEQUENCE_OF (None, gc_RegionalExtension_369P0)"

definition gc_LaneDataAttribute :: asn_check where
  "gc_LaneDataAttribute = CHK_CHOICE
     [(None, gc_DeltaAngle),
      (None, gc_RoadwayCrownAngle),
      (None, gc_RoadwayCrownAngle),
      (None, gc_RoadwayCrownAngle),
      (None, gc_MergeDivergeNodeAngle),
      (None, gc_SpeedLimitList),
      (Some (CHK_INNER memb_regional_constraint_1_LaneDataAttribute gc_regional_8_LaneDataAttribute), gc_regional_8_LaneDataAttribute)]"

definition gc_LaneDataAttributeList :: asn_check where
  "gc_LaneDataAttributeList = CHK_SEQUENCE_OF (None, gc_LaneDataAttribute)"

definition gc_regional_8_NodeAttributeSetXY :: asn_check where
  "gc_regional_8_NodeAttributeSetXY = CHK_SEQUENCE_OF (None, gc_RegionalExtension_369P0)"

definition gc_NodeAttributeSetXY :: asn_check where
  "gc_NodeAttributeSetXY = CHK_SEQUENCE
     [(None, gc_NodeAttributeXYList),
      (None, gc_SegmentAttributeXYList),
      (None, gc_SegmentAttributeXYList),
      (None, gc_LaneDataAttributeList),
      (None, gc_Offset_B10),
      (None, gc_Offset_B10),
      (Some (CHK_INNER memb_regional_constraint_1_NodeAttributeSetXY gc_regional_8_NodeAttributeSetXY), gc_regional_8_NodeAttributeSetXY)]"

definition gc_NodeXY :: asn_check where
  "gc_NodeXY = CHK_SEQUENCE
     [(None, gc_NodeOffsetPointXY),
      (None, gc_NodeAttributeSetXY)]"

definition gc_NodeSetXY :: asn_check where
  "gc_NodeSetXY = CHK_SEQUENCE_OF (None, gc_NodeXY)"

definition gc_DrivenLineOffsetSm :: asn_check where
  "gc_DrivenLineOffsetSm = CHK DrivenLineOffsetSm_constraint"

definition gc_DrivenLineOffsetLg :: asn_check where
  "gc_DrivenLineOffsetLg = CHK DrivenLineOffsetLg_constraint"

definition gc_offsetXaxis_3 :: asn_check where
  "gc_offsetXaxis_3 = CHK_CHOICE
     [(None, gc_DrivenLineOffsetSm),
      (None, gc_DrivenLineOffsetLg)]"

definition gc_offsetYaxis_6 :: asn_check where
  "gc_offsetYaxis_6 = CHK_CHOICE
     [(None, gc_DrivenLineOffsetSm),
      (None, gc_DrivenLineOffsetLg)]"

definition gc_Angle :: asn_check where
  "gc_Angle = CHK Angle_constraint"

definition gc_Scale_B12 :: asn_check where
  "gc_Scale_B12 = CHK Scale_B12_constraint"

definition gc_regional_12 :: asn_check where
  "gc_regional_12 = CHK_SEQUENCE_OF (None, gc_RegionalExtension_369P0)"

definition gc_ComputedLane :: asn_check where
  "gc_ComputedLane = CHK_SEQUENCE
     [(None, gc_LaneID),
      (None, gc_offsetXaxis_3),
      (None, gc_offsetYaxis_6),
      (None, gc_Angle),
      (None, gc_Scale_B12),
      (None, gc_Scale_B12),
      (Some (CHK_INNER memb_regional_constraint_1_ComputedLane gc_regional_12), gc_regional_12)]"

definition gc_NodeListXY :: asn_check where
  "gc_NodeListXY = CHK_CHOICE
     [(None, gc_NodeSetXY),
      (None, gc_ComputedLane)]"

definition gc_ConnectingLane :: asn_check where
  "gc_ConnectingLane = CHK_SEQUENCE
     [(None, gc_LaneID),
      (None, gc_AllowedManeuvers)]"

definition gc_Connection :: asn_check where
  "gc_Connection = CHK_SEQUENCE
     [(None, gc_ConnectingLane),
      (None, gc_IntersectionReferenceID),
      (None, gc_SignalGroupID),
      (None, gc_RestrictionClassID),
      (None, gc_LaneConnectionID)]"

definition gc_ConnectsToList :: asn_check where
  "gc_ConnectsToList = CHK_SEQUENCE_OF (None, gc_Connection)"

definition gc_OverlayLaneList :: asn_check where
  "gc_OverlayLaneList = CHK_SEQUENCE_OF (None, gc_LaneID)"

definition gc_regional_11_GenericLane :: asn_check where
  "gc_regional_11_GenericLane = CHK_SEQUENCE_OF (None, gc_RegionalExtension_369P0)"

definition gc_GenericLane :: asn_check where
  "gc_GenericLane = CHK_SEQUENCE
     [(None, gc_LaneID),
      (None, gc_DescriptiveName),
      (None, gc_ApproachID),
      (None, gc_ApproachID),
      (None, gc_LaneAttributes),
      (None, gc_AllowedManeuvers),
      (None, gc_NodeListXY),
      (None, gc_ConnectsToList),
      (None, gc_OverlayLaneList),
      (Some (CHK_INNER memb_regional_constraint_1_GenericLane gc_regional_11_GenericLane), gc_regional_11_GenericLane)]"

definition gc_LaneList :: asn_check where
  "gc_LaneList = CHK_SEQUENCE_OF (None, gc_GenericLane)"

definition gc_SignalControlZone :: asn_check where
  "gc_SignalControlZone = CHK_SEQUENCE
     [(None, gc_RegionalExtension_369P0)]"

definition gc_PreemptPriorityList :: asn_check where
  "gc_PreemptPriorityList = CHK_SEQUENCE_OF (None, gc_SignalControlZone)"

definition gc_regional_10_IntersectionGeometry :: asn_check where
  "gc_regional_10_IntersectionGeometry = CHK_SEQUENCE_OF (None, gc_RegionalExtension_369P0)"

definition gc_IntersectionGeometry :: asn_check where
  "gc_IntersectionGeometry = CHK_SEQUENCE
     [(None, gc_DescriptiveName),
      (None, gc_IntersectionReferenceID),
      (None, gc_MsgCount),
      (None, gc_Position3D),
      (None, gc_LaneWidth),
      (None, gc_SpeedLimitList),
      (None, gc_LaneList),
      (None, gc_PreemptPriorityList),
      (Some (CHK_INNER memb_regional_constraint_1_IntersectionGeometry gc_regional_10_IntersectionGeometry), gc_regional_10_IntersectionGeometry)]"

definition gc_IntersectionGeometryList :: asn_check where
  "gc_IntersectionGeometryList = CHK_SEQUENCE_OF (None, gc_IntersectionGeometry)"

definition gc_RoadSegmentID :: asn_check where
  "gc_RoadSegmentID = CHK RoadSegmentID_constraint"

definition gc_RoadSegmentReferenceID :: asn_check where
  "gc_RoadSegmentReferenceID = CHK_SEQUENCE
     [(None, gc_RoadRegulatorID),
      (None, gc_RoadSegmentID)]"

definition gc_RoadLaneSetList :: asn_check where
  "gc_RoadLaneSetList = CHK_SEQUENCE_OF (None, gc_GenericLane)"

definition gc_regional_9_RoadSegment :: asn_check where
  "gc_regional_9_RoadSegment = CHK_SEQUENCE_OF (None, gc_RegionalExtension_369P0)"

definition gc_RoadSegment :: asn_check where
  "gc_RoadSegment = CHK_SEQUENCE
     [(None, gc_DescriptiveName),
      (None, gc_RoadSegmentReferenceID),
      (None, gc_MsgCount),
      (None, gc_Position3D),
      (None, gc_LaneWidth),
      (None, gc_SpeedLimitList),
      (None, gc_RoadLaneSetList),
      (Some (CHK_INNER memb_regional_constraint_1_RoadSegment gc_regional_9_RoadSegment), gc_regional_9_RoadSegment)]"

definition gc_RoadSegmentList :: asn_check where
  "gc_RoadSegmentList = CHK_SEQUENCE_OF (None, gc_RoadSegment)"

definition gc_DataParameters :: asn_check where
  "gc_DataParameters = CHK_SEQUENCE
     [(Some (CHK memb_processMethod_constraint_1), gc_IA5String),
      (Some (CHK memb_processAgency_constraint_1), gc_IA5String),
      (Some (CHK memb_lastCheckedDate_constraint_1), gc_IA5String),
      (Some (CHK memb_geoidUsed_constraint_1), gc_IA5String)]"

definition gc_RestrictionAppliesTo :: asn_check where
  "gc_RestrictionAppliesTo = CHK asn_generic_no_constraint"

definition gc_regional_3 :: asn_check where
  "gc_regional_3 = CHK_SEQUENCE_OF (None, gc_RegionalExtension_369P0)"

definition gc_RestrictionUserType :: asn_check where
  "gc_RestrictionUserType = CHK_CHOICE
     [(None, gc_RestrictionAppliesTo),
      (Some (CHK_INNER memb_regional_constraint_1_RestrictionUserType gc_regional_3), gc_regional_3)]"

definition gc_RestrictionUserTypeList :: asn_check where
  "gc_RestrictionUserTypeList = CHK_SEQUENCE_OF (None, gc_RestrictionUserType)"

definition gc_RestrictionClassAssignment :: asn_check where
  "gc_RestrictionClassAssignment = CHK_SEQUENCE
     [(None, gc_RestrictionClassID),
      (None, gc_RestrictionUserTypeList)]"

definition gc_RestrictionClassList :: asn_check where
  "gc_RestrictionClassList = CHK_SEQUENCE_OF (None, gc_RestrictionClassAssignment)"

definition gc_regional_10_MapData :: asn_check where
  "gc_regional_10_MapData = CHK_SEQUENCE_OF (None, gc_RegionalExtension_369P0)"

definition gc_MapData :: asn_check where
  "gc_MapData = CHK_SEQUENCE
     [(None, gc_MinuteOfTheYear),
      (None, gc_MsgCount),
      (None, gc_LayerType),
      (None, gc_LayerID),
      (None, gc_IntersectionGeometryList),
      (None, gc_RoadSegmentList),
      (None, gc_DataParameters),
      (None, gc_RestrictionClassList),
      (Some (CHK_INNER memb_regional_constraint_1_MapData gc_regional_10_MapData), gc_regional_10_MapData)]"

definition gc_MAPEM :: asn_check where
  "gc_MAPEM = CHK_SEQUENCE
     [(None, gc_ItsPduHeader),
      (None, gc_MapData)]"

section \<open>Encodable values pass the generated checks\<close>

named_theorems admits

lemmas check_defs = value_constraint_def size_constraint_def pick_constraints_def apc_def os_csiz_def bs_csiz_def
  os_subvariant_def

lemma elm_check_simps [simp]: "elm_check (Some f, t) = f" "elm_check (None, t) = t"
  by (simp_all add: elm_check_def)

lemma admits_member_MBR [simp]:
  "admits_member (MBR p opt t pc d) c \<longleftrightarrow>
     admits (elm_check c) t pc \<and> (case d of None \<Rightarrow> opt \<longleftrightarrow> p | Some d \<Rightarrow> elm_check c t (Some d) = 0)"
  by (simp add: admits_member_def split: option.split)


lemma memb_protocolVersion_constraint_1_admits [admits]: "admits memb_protocolVersion_constraint_1 asn_DEF_NativeInteger (Some asn_PER_memb_protocolVersion_constr_2)"
  by (rule admits_long [where ct = "pc_value asn_PER_memb_protocolVersion_constr_2"]) (simp_all add: memb_protocolVersion_constraint_1_def asn_DEF_NativeInteger_def asn_PER_memb_protocolVersion_constr_2_def check_defs)

lemma memb_messageID_constraint_1_admits [admits]: "admits memb_messageID_constraint_1 asn_DEF_NativeInteger (Some asn_PER_memb_messageID_constr_3)"
  by (rule admits_long [where ct = "pc_value asn_PER_memb_messageID_constr_3"]) (simp_all add: memb_messageID_constraint_1_def asn_DEF_NativeInteger_def asn_PER_memb_messageID_constr_3_def check_defs)

lemma StationID_constraint_admits [admits]: "admits StationID_constraint asn_DEF_StationID None"
  by (simp add: admits_def StationID_constraint_def)

lemma GenerationDeltaTime_constraint_admits [admits]: "admits GenerationDeltaTime_constraint asn_DEF_GenerationDeltaTime None"
  by (rule admits_long [where ct = "pc_value asn_PER_type_GenerationDeltaTime_constr_1"]) (simp_all add: GenerationDeltaTime_constraint_def asn_DEF_GenerationDeltaTime_def asn_PER_type_GenerationDeltaTime_constr_1_def check_defs)

lemma StationType_constraint_admits [admits]: "admits StationType_constraint asn_DEF_StationType None"
  by (rule admits_long [where ct = "pc_value asn_PER_type_StationType_constr_1"]) (simp_all add: StationType_constraint_def asn_DEF_StationType_def asn_PER_type_StationType_constr_1_def check_defs)

lemma Latitude_constraint_admits [admits]: "admits Latitude_constraint asn_DEF_Latitude None"
  by (rule admits_long [where ct = "pc_value asn_PER_type_Latitude_constr_1"]) (simp_all add: Latitude_constraint_def asn_DEF_Latitude_def asn_PER_type_Latitude_constr_1_def check_defs)

lemma Longitude_constraint_admits [admits]: "admits Longitude_constraint asn_DEF_Longitude None"
  by (rule admits_long [where ct = "pc_value asn_PER_type_Longitude_constr_1"]) (simp_all add: Longitude_constraint_def asn_DEF_Longitude_def asn_PER_type_Longitude_constr_1_def check_defs)

lemma SemiAxisLength_constraint_admits [admits]: "admits SemiAxisLength_constraint asn_DEF_SemiAxisLength None"
  by (rule admits_long [where ct = "pc_value asn_PER_type_SemiAxisLength_constr_1"]) (simp_all add: SemiAxisLength_constraint_def asn_DEF_SemiAxisLength_def asn_PER_type_SemiAxisLength_constr_1_def check_defs)

lemma HeadingValue_constraint_admits [admits]: "admits HeadingValue_constraint asn_DEF_HeadingValue None"
  by (rule admits_long [where ct = "pc_value asn_PER_type_HeadingValue_constr_1"]) (simp_all add: HeadingValue_constraint_def asn_DEF_HeadingValue_def asn_PER_type_HeadingValue_constr_1_def check_defs)

lemma AltitudeValue_constraint_admits [admits]: "admits AltitudeValue_constraint asn_DEF_AltitudeValue None"
  by (rule admits_long [where ct = "pc_value asn_PER_type_AltitudeValue_constr_1"]) (simp_all add: AltitudeValue_constraint_def asn_DEF_AltitudeValue_def asn_PER_type_AltitudeValue_constr_1_def check_defs)

lemma HeadingConfidence_constraint_admits [admits]: "admits HeadingConfidence_constraint asn_DEF_HeadingConfidence None"
  by (rule admits_long [where ct = "pc_value asn_PER_type_HeadingConfidence_constr_1"]) (simp_all add: HeadingConfidence_constraint_def asn_DEF_HeadingConfidence_def asn_PER_type_HeadingConfidence_constr_1_def check_defs)

lemma SpeedValue_constraint_admits [admits]: "admits SpeedValue_constraint asn_DEF_SpeedValue None"
  by (rule admits_long [where ct = "pc_value asn_PER_type_SpeedValue_constr_1"]) (simp_all add: SpeedValue_constraint_def asn_DEF_SpeedValue_def asn_PER_type_SpeedValue_constr_1_def check_defs)

lemma SpeedConfidence_constraint_admits [admits]: "admits SpeedConfidence_constraint asn_DEF_SpeedConfidence None"
  by (rule admits_long [where ct = "pc_value asn_PER_type_SpeedConfidence_constr_1"]) (simp_all add: SpeedConfidence_constraint_def asn_DEF_SpeedConfidence_def asn_PER_type_SpeedConfidence_constr_1_def check_defs)

lemma VehicleLengthValue_constraint_admits [admits]: "admits VehicleLengthValue_constraint asn_DEF_VehicleLengthValue None"
  by (rule admits_long [where ct = "pc_value asn_PER_type_VehicleLengthValue_constr_1"]) (simp_all add: VehicleLengthValue_constraint_def asn_DEF_VehicleLengthValue_def asn_PER_type_VehicleLengthValue_constr_1_def check_defs)

lemma VehicleWidth_constraint_admits [admits]: "admits VehicleWidth_constraint asn_DEF_VehicleWidth None"
  by (rule admits_long [where ct = "pc_value asn_PER_type_VehicleWidth_constr_1"]) (simp_all add: VehicleWidth_constraint_def asn_DEF_VehicleWidth_def asn_PER_type_VehicleWidth_constr_1_def check_defs)

lemma LongitudinalAccelerationValue_constraint_admits [admits]: "admits LongitudinalAccelerationValue_constraint asn_DEF_LongitudinalAccelerationValue None"
  by (rule admits_long [where ct = "pc_value asn_PER_type_LongitudinalAccelerationValue_constr_1"]) (simp_all add: LongitudinalAccelerationValue_constraint_def asn_DEF_LongitudinalAccelerationValue_def asn_PER_type_LongitudinalAccelerationValue_constr_1_def check_defs)

lemma AccelerationConfidence_constraint_admits [admits]: "admits AccelerationConfidence_constraint asn_DEF_AccelerationConfidence None"
  by (rule admits_long [where ct = "pc_value asn_PER_type_AccelerationConfidence_constr_1"]) (simp_all add: AccelerationConfidence_constraint_def asn_DEF_AccelerationConfidence_def asn_PER_type_AccelerationConfidence_constr_1_def check_defs)

lemma CurvatureValue_constraint_admits [admits]: "admits CurvatureValue_constraint asn_DEF_CurvatureValue None"
  by (rule admits_long [where ct = "pc_value asn_PER_type_CurvatureValue_constr_1"]) (simp_all add: CurvatureValue_constraint_def asn_DEF_CurvatureValue_def asn_PER_type_CurvatureValue_constr_1_def check_defs)

lemma YawRateValue_constraint_admits [admits]: "admits YawRateValue_constraint asn_DEF_YawRateValue None"
  by (rule admits_long [where ct = "pc_value asn_PER_type_YawRateValue_constr_1"]) (simp_all add: YawRateValue_constraint_def asn_DEF_YawRateValue_def asn_PER_type_YawRateValue_constr_1_def check_defs)

lemma AccelerationControl_constraint_admits [admits]: "admits AccelerationControl_constraint asn_DEF_AccelerationControl None"
  by (rule admits_bits [where csiz = "pc_size asn_PER_type_AccelerationControl_constr_1"]) (simp_all add: AccelerationControl_constraint_def asn_DEF_AccelerationControl_def asn_PER_type_AccelerationControl_constr_1_def check_defs)

lemma LanePosition_constraint_admits [admits]: "admits LanePosition_constraint asn_DEF_LanePosition None"
  by (rule admits_long [where ct = "pc_value asn_PER_type_LanePosition_constr_1"]) (simp_all add: LanePosition_constraint_def asn_DEF_LanePosition_def asn_PER_type_LanePosition_constr_1_def check_defs)

lemma SteeringWheelAngleValue_constraint_admits [admits]: "admits SteeringWheelAngleValue_constraint asn_DEF_SteeringWheelAngleValue None"
  by (rule admits_long [where ct = "pc_value asn_PER_type_SteeringWheelAngleValue_constr_1"]) (simp_all add: SteeringWheelAngleValue_constraint_def asn_DEF_SteeringWheelAngleValue_def asn_PER_type_SteeringWheelAngleValue_constr_1_def check_defs)

lemma SteeringWheelAngleConfidence_constraint_admits [admits]: "admits SteeringWheelAngleConfidence_constraint asn_DEF_SteeringWheelAngleConfidence None"
  by (rule admits_long [where ct = "pc_value asn_PER_type_SteeringWheelAngleConfidence_constr_1"]) (simp_all add: SteeringWheelAngleConfidence_constraint_def asn_DEF_SteeringWheelAngleConfidence_def asn_PER_type_SteeringWheelAngleConfidence_constr_1_def check_defs)

lemma LateralAccelerationValue_constraint_admits [admits]: "admits LateralAccelerationValue_constraint asn_DEF_LateralAccelerationValue None"
  by (rule admits_long [where ct = "pc_value asn_PER_type_LateralAccelerationValue_constr_1"]) (simp_all add: LateralAccelerationValue_constraint_def asn_DEF_LateralAccelerationValue_def asn_PER_type_LateralAccelerationValue_constr_1_def check_defs)

lemma VerticalAccelerationValue_constraint_admits [admits]: "admits VerticalAccelerationValue_constraint asn_DEF_VerticalAccelerationValue None"
  by (rule admits_long [where ct = "pc_value asn_PER_type_VerticalAccelerationValue_constr_1"]) (simp_all add: VerticalAccelerationValue_constraint_def asn_DEF_VerticalAccelerationValue_def asn_PER_type_VerticalAccelerationValue_constr_1_def check_defs)

lemma PerformanceClass_constraint_admits [admits]: "admits PerformanceClass_constraint asn_DEF_PerformanceClass None"
  by (rule admits_long [where ct = "pc_value asn_PER_type_PerformanceClass_constr_1"]) (simp_all add: PerformanceClass_constraint_def asn_DEF_PerformanceClass_def asn_PER_type_PerformanceClass_constr_1_def check_defs)

lemma CenDsrcTollingZoneID_constraint_admits [admits]: "admits CenDsrcTollingZoneID_constraint asn_DEF_CenDsrcTollingZoneID None"
  by (rule admits_long [where ct = "pc_value asn_PER_type_CenDsrcTollingZoneID_constr_1"]) (simp_all add: CenDsrcTollingZoneID_constraint_def asn_DEF_CenDsrcTollingZoneID_def asn_PER_type_CenDsrcTollingZoneID_constr_1_def check_defs)

lemma TimestampIts_constraint_admits [admits]: "admits TimestampIts_constraint asn_DEF_TimestampIts None"
  by (rule admits_INTEGER [where ct = "pc_value asn_PER_type_TimestampIts_constr_1"]) (simp_all add: TimestampIts_constraint_def asn_DEF_TimestampIts_def asn_PER_type_TimestampIts_constr_1_def INTEGER2long_spec check_defs)

lemma ProtectedZoneRadius_constraint_admits [admits]: "admits ProtectedZoneRadius_constraint asn_DEF_ProtectedZoneRadius None"
  by (rule admits_long [where ct = "pc_value asn_PER_type_ProtectedZoneRadius_constr_1"]) (simp_all add: ProtectedZoneRadius_constraint_def asn_DEF_ProtectedZoneRadius_def asn_PER_type_ProtectedZoneRadius_constr_1_def check_defs)

lemma ProtectedZoneID_constraint_admits [admits]: "admits ProtectedZoneID_constraint asn_DEF_ProtectedZoneID None"
  by (rule admits_long [where ct = "pc_value asn_PER_type_ProtectedZoneID_constr_1"]) (simp_all add: ProtectedZoneID_constraint_def asn_DEF_ProtectedZoneID_def asn_PER_type_ProtectedZoneID_constr_1_def check_defs)

lemma ExteriorLights_constraint_admits [admits]: "admits ExteriorLights_constraint asn_DEF_ExteriorLights None"
  by (rule admits_bits [where csiz = "pc_size asn_PER_type_ExteriorLights_constr_1"]) (simp_all add: ExteriorLights_constraint_def asn_DEF_ExteriorLights_def asn_PER_type_ExteriorLights_constr_1_def check_defs)

lemma DeltaLatitude_constraint_admits [admits]: "admits DeltaLatitude_constraint asn_DEF_DeltaLatitude None"
  by (rule admits_long [where ct = "pc_value asn_PER_type_DeltaLatitude_constr_1"]) (simp_all add: DeltaLatitude_constraint_def asn_DEF_DeltaLatitude_def asn_PER_type_DeltaLatitude_constr_1_def check_defs)

lemma DeltaLongitude_constraint_admits [admits]: "admits DeltaLongitude_constraint asn_DEF_DeltaLongitude None"
  by (rule admits_long [where ct = "pc_value asn_PER_type_DeltaLongitude_constr_1"]) (simp_all add: DeltaLongitude_constraint_def asn_DEF_DeltaLongitude_def asn_PER_type_DeltaLongitude_constr_1_def check_defs)

lemma DeltaAltitude_constraint_admits [admits]: "admits DeltaAltitude_constraint asn_DEF_DeltaAltitude None"
  by (rule admits_long [where ct = "pc_value asn_PER_type_DeltaAltitude_constr_1"]) (simp_all add: DeltaAltitude_constraint_def asn_DEF_DeltaAltitude_def asn_PER_type_DeltaAltitude_constr_1_def check_defs)

lemma PathDeltaTime_constraint_admits [admits]: "admits PathDeltaTime_constraint asn_DEF_PathDeltaTime None"
  by (rule admits_long [where ct = "pc_value asn_PER_type_PathDeltaTime_constr_1"]) (simp_all add: PathDeltaTime_constraint_def asn_DEF_PathDeltaTime_def asn_PER_type_PathDeltaTime_constr_1_def check_defs)

lemma PtActivationType_constraint_admits [admits]: "admits PtActivationType_constraint asn_DEF_PtActivationType None"
  by (rule admits_long [where ct = "pc_value asn_PER_type_PtActivationType_constr_1"]) (simp_all add: PtActivationType_constraint_def asn_DEF_PtActivationType_def asn_PER_type_PtActivationType_constr_1_def check_defs)

lemma PtActivationData_constraint_admits [admits]: "admits PtActivationData_constraint asn_DEF_PtActivationData None"
  by (rule admits_octets [where csiz = "pc_size asn_PER_type_PtActivationData_constr_1"]) (simp_all add: PtActivationData_constraint_def asn_DEF_PtActivationData_def asn_PER_type_PtActivationData_constr_1_def check_defs)

lemma SpecialTransportType_constraint_admits [admits]: "admits SpecialTransportType_constraint asn_DEF_SpecialTransportType None"
  by (rule admits_bits [where csiz = "pc_size asn_PER_type_SpecialTransportType_constr_1"]) (simp_all add: SpecialTransportType_constraint_def asn_DEF_SpecialTransportType_def asn_PER_type_SpecialTransportType_constr_1_def check_defs)

lemma LightBarSirenInUse_constraint_admits [admits]: "admits LightBarSirenInUse_constraint asn_DEF_LightBarSirenInUse None"
  by (rule admits_bits [where csiz = "pc_size asn_PER_type_LightBarSirenInUse_constr_1"]) (simp_all add: LightBarSirenInUse_constraint_def asn_DEF_LightBarSirenInUse_def asn_PER_type_LightBarSirenInUse_constr_1_def check_defs)

lemma RoadworksSubCauseCode_constraint_admits [admits]: "admits RoadworksSubCauseCode_constraint asn_DEF_RoadworksSubCauseCode None"
  by (rule admits_long [where ct = "pc_value asn_PER_type_RoadworksSubCauseCode_constr_1"]) (simp_all add: RoadworksSubCauseCode_constraint_def asn_DEF_RoadworksSubCauseCode_def asn_PER_type_RoadworksSubCauseCode_constr_1_def check_defs)

lemma DrivingLaneStatus_constraint_admits [admits]: "admits DrivingLaneStatus_constraint asn_DEF_DrivingLaneStatus None"
  by (rule admits_bits [where csiz = "pc_size asn_PER_type_DrivingLaneStatus_constr_1"]) (simp_all add: DrivingLaneStatus_constraint_def asn_DEF_DrivingLaneStatus_def asn_PER_type_DrivingLaneStatus_constr_1_def check_defs)

lemma CauseCodeType_constraint_admits [admits]: "admits CauseCodeType_constraint asn_DEF_CauseCodeType None"
  by (rule admits_long [where ct = "pc_value asn_PER_type_CauseCodeType_constr_1"]) (simp_all add: CauseCodeType_constraint_def asn_DEF_CauseCodeType_def asn_PER_type_CauseCodeType_constr_1_def check_defs)

lemma SubCauseCodeType_constraint_admits [admits]: "admits SubCauseCodeType_constraint asn_DEF_SubCauseCodeType None"
  by (rule admits_long [where ct = "pc_value asn_PER_type_SubCauseCodeType_constr_1"]) (simp_all add: SubCauseCodeType_constraint_def asn_DEF_SubCauseCodeType_def asn_PER_type_SubCauseCodeType_constr_1_def check_defs)

lemma EmergencyPriority_constraint_admits [admits]: "admits EmergencyPriority_constraint asn_DEF_EmergencyPriority None"
  by (rule admits_bits [where csiz = "pc_size asn_PER_type_EmergencyPriority_constr_1"]) (simp_all add: EmergencyPriority_constraint_def asn_DEF_EmergencyPriority_def asn_PER_type_EmergencyPriority_constr_1_def check_defs)

lemma SpeedLimit_constraint_admits [admits]: "admits SpeedLimit_constraint asn_DEF_SpeedLimit None"
  by (rule admits_long [where ct = "pc_value asn_PER_type_SpeedLimit_constr_1"]) (simp_all add: SpeedLimit_constraint_def asn_DEF_SpeedLimit_def asn_PER_type_SpeedLimit_constr_1_def check_defs)

lemma SequenceNumber_constraint_admits [admits]: "admits SequenceNumber_constraint asn_DEF_SequenceNumber None"
  by (rule admits_long [where ct = "pc_value asn_PER_type_SequenceNumber_constr_1"]) (simp_all add: SequenceNumber_constraint_def asn_DEF_SequenceNumber_def asn_PER_type_SequenceNumber_constr_1_def check_defs)

lemma ValidityDuration_constraint_admits [admits]: "admits ValidityDuration_constraint asn_DEF_ValidityDuration None"
  by (rule admits_long [where ct = "pc_value asn_PER_type_ValidityDuration_constr_1"]) (simp_all add: ValidityDuration_constraint_def asn_DEF_ValidityDuration_def asn_PER_type_ValidityDuration_constr_1_def check_defs)

lemma TransmissionInterval_constraint_admits [admits]: "admits TransmissionInterval_constraint asn_DEF_TransmissionInterval None"
  by (rule admits_long [where ct = "pc_value asn_PER_type_TransmissionInterval_constr_1"]) (simp_all add: TransmissionInterval_constraint_def asn_DEF_TransmissionInterval_def asn_PER_type_TransmissionInterval_constr_1_def check_defs)

lemma InformationQuality_constraint_admits [admits]: "admits InformationQuality_constraint asn_DEF_InformationQuality None"
  by (rule admits_long [where ct = "pc_value asn_PER_type_InformationQuality_constr_1"]) (simp_all add: InformationQuality_constraint_def asn_DEF_InformationQuality_def asn_PER_type_InformationQuality_constr_1_def check_defs)

lemma HeightLonCarr_constraint_admits [admits]: "admits HeightLonCarr_constraint asn_DEF_HeightLonCarr None"
  by (rule admits_long [where ct = "pc_value asn_PER_type_HeightLonCarr_constr_1"]) (simp_all add: HeightLonCarr_constraint_def asn_DEF_HeightLonCarr_def asn_PER_type_HeightLonCarr_constr_1_def check_defs)

lemma PosLonCarr_constraint_admits [admits]: "admits PosLonCarr_constraint asn_DEF_PosLonCarr None"
  by (rule admits_long [where ct = "pc_value asn_PER_type_PosLonCarr_constr_1"]) (simp_all add: PosLonCarr_constraint_def asn_DEF_PosLonCarr_def asn_PER_type_PosLonCarr_constr_1_def check_defs)

lemma PosPillar_constraint_admits [admits]: "admits PosPillar_constraint asn_DEF_PosPillar None"
  by (rule admits_long [where ct = "pc_value asn_PER_type_PosPillar_constr_1"]) (simp_all add: PosPillar_constraint_def asn_DEF_PosPillar_def asn_PER_type_PosPillar_constr_1_def check_defs)

lemma PosCentMass_constraint_admits [admits]: "admits PosCentMass_constraint asn_DEF_PosCentMass None"
  by (rule admits_long [where ct = "pc_value asn_PER_type_PosCentMass_constr_1"]) (simp_all add: PosCentMass_constraint_def asn_DEF_PosCentMass_def asn_PER_type_PosCentMass_constr_1_def check_defs)

lemma WheelBaseVehicle_constraint_admits [admits]: "admits WheelBaseVehicle_constraint asn_DEF_WheelBaseVehicle None"
  by (rule admits_long [where ct = "pc_value asn_PER_type_WheelBaseVehicle_constr_1"]) (simp_all add: WheelBaseVehicle_constraint_def asn_DEF_WheelBaseVehicle_def asn_PER_type_WheelBaseVehicle_constr_1_def check_defs)

lemma TurningRadius_constraint_admits [admits]: "admits TurningRadius_constraint asn_DEF_TurningRadius None"
  by (rule admits_long [where ct = "pc_value asn_PER_type_TurningRadius_constr_1"]) (simp_all add: TurningRadius_constraint_def asn_DEF_TurningRadius_def asn_PER_type_TurningRadius_constr_1_def check_defs)

lemma PosFrontAx_constraint_admits [admits]: "admits PosFrontAx_constraint asn_DEF_PosFrontAx None"
  by (rule admits_long [where ct = "pc_value asn_PER_type_PosFrontAx_constr_1"]) (simp_all add: PosFrontAx_constraint_def asn_DEF_PosFrontAx_def asn_PER_type_PosFrontAx_constr_1_def check_defs)

lemma PositionOfOccupants_constraint_admits [admits]: "admits PositionOfOccupants_constraint asn_DEF_PositionOfOccupants None"
  by (rule admits_bits [where csiz = "pc_size asn_PER_type_PositionOfOccupants_constr_1"]) (simp_all add: PositionOfOccupants_constraint_def asn_DEF_PositionOfOccupants_def asn_PER_type_PositionOfOccupants_constr_1_def check_defs)

lemma VehicleMass_constraint_admits [admits]: "admits VehicleMass_constraint asn_DEF_VehicleMass None"
  by (rule admits_long [where ct = "pc_value asn_PER_type_VehicleMass_constr_1"]) (simp_all add: VehicleMass_constraint_def asn_DEF_VehicleMass_def asn_PER_type_VehicleMass_constr_1_def check_defs)

lemma Temperature_constraint_admits [admits]: "admits Temperature_constraint asn_DEF_Temperature None"
  by (rule admits_long [where ct = "pc_value asn_PER_type_Temperature_constr_1"]) (simp_all add: Temperature_constraint_def asn_DEF_Temperature_def asn_PER_type_Temperature_constr_1_def check_defs)

lemma memb_unNumber_constraint_1_admits [admits]: "admits memb_unNumber_constraint_1 asn_DEF_NativeInteger (Some asn_PER_memb_unNumber_constr_3)"
  by (rule admits_long [where ct = "pc_value asn_PER_memb_unNumber_constr_3"]) (simp_all add: memb_unNumber_constraint_1_def asn_DEF_NativeInteger_def asn_PER_memb_unNumber_constr_3_def check_defs)

lemma memb_emergencyActionCode_constraint_1_admits [admits]: "admits memb_emergencyActionCode_constraint_1 asn_DEF_IA5String (Some asn_PER_memb_emergencyActionCode_constr_7)"
  by (rule admits_ia5 [where pc = asn_PER_memb_emergencyActionCode_constr_7]) (simp_all add: memb_emergencyActionCode_constraint_1_def asn_DEF_IA5String_def asn_PER_memb_emergencyActionCode_constr_7_def check_permitted_alphabet_7_def check_defs)

lemma NumberOfOccupants_constraint_admits [admits]: "admits NumberOfOccupants_constraint asn_DEF_NumberOfOccupants None"
  by (rule admits_long [where ct = "pc_value asn_PER_type_NumberOfOccupants_constr_1"]) (simp_all add: NumberOfOccupants_constraint_def asn_DEF_NumberOfOccupants_def asn_PER_type_NumberOfOccupants_constr_1_def check_defs)

lemma WMInumber_constraint_admits [admits]: "admits WMInumber_constraint asn_DEF_WMInumber None"
  by (rule admits_ia5 [where pc = asn_PER_type_WMInumber_constr_1]) (simp_all add: WMInumber_constraint_def asn_DEF_WMInumber_def asn_PER_type_WMInumber_constr_1_def check_permitted_alphabet_1_WMInumber_def check_defs)

lemma VDS_constraint_admits [admits]: "admits VDS_constraint asn_DEF_VDS None"
  by (rule admits_ia5 [where pc = asn_PER_type_VDS_constr_1]) (simp_all add: VDS_constraint_def asn_DEF_VDS_def asn_PER_type_VDS_constr_1_def check_permitted_alphabet_1_VDS_def check_defs)

lemma EnergyStorageType_constraint_admits [admits]: "admits EnergyStorageType_constraint asn_DEF_EnergyStorageType None"
  by (rule admits_bits [where csiz = "pc_size asn_PER_type_EnergyStorageType_constr_1"]) (simp_all add: EnergyStorageType_constraint_def asn_DEF_EnergyStorageType_def asn_PER_type_EnergyStorageType_constr_1_def check_defs)

lemma MinuteOfTheYear_constraint_admits [admits]: "admits MinuteOfTheYear_constraint asn_DEF_MinuteOfTheYear None"
  by (rule admits_long [where ct = "pc_value asn_PER_type_MinuteOfTheYear_constr_1"]) (simp_all add: MinuteOfTheYear_constraint_def asn_DEF_MinuteOfTheYear_def asn_PER_type_MinuteOfTheYear_constr_1_def check_defs)

lemma DescriptiveName_constraint_admits [admits]: "admits DescriptiveName_constraint asn_DEF_DescriptiveName None"
  by (rule admits_ia5 [where pc = asn_PER_type_DescriptiveName_constr_1]) (simp_all add: DescriptiveName_constraint_def asn_DEF_DescriptiveName_def asn_PER_type_DescriptiveName_constr_1_def check_permitted_alphabet_1_DescriptiveName_def check_defs)

lemma RoadRegulatorID_constraint_admits [admits]: "admits RoadRegulatorID_constraint asn_DEF_RoadRegulatorID None"
  by (rule admits_long [where ct = "pc_value asn_PER_type_RoadRegulatorID_constr_1"]) (simp_all add: RoadRegulatorID_constraint_def asn_DEF_RoadRegulatorID_def asn_PER_type_RoadRegulatorID_constr_1_def check_defs)

lemma IntersectionID_constraint_admits [admits]: "admits IntersectionID_constraint asn_DEF_IntersectionID None"
  by (rule admits_long [where ct = "pc_value asn_PER_type_IntersectionID_constr_1"]) (simp_all add: IntersectionID_constraint_def asn_DEF_IntersectionID_def asn_PER_type_IntersectionID_constr_1_def check_defs)

lemma MsgCount_constraint_admits [admits]: "admits MsgCount_constraint asn_DEF_MsgCount None"
  by (rule admits_long [where ct = "pc_value asn_PER_type_MsgCount_constr_1"]) (simp_all add: MsgCount_constraint_def asn_DEF_MsgCount_def asn_PER_type_MsgCount_constr_1_def check_defs)

lemma IntersectionStatusObject_constraint_admits [admits]: "admits IntersectionStatusObject_constraint asn_DEF_IntersectionStatusObject None"
  by (rule admits_bits [where csiz = "pc_size asn_PER_type_IntersectionStatusObject_constr_1"]) (simp_all add: IntersectionStatusObject_constraint_def asn_DEF_IntersectionStatusObject_def asn_PER_type_IntersectionStatusObject_constr_1_def check_defs)

lemma DSecond_constraint_admits [admits]: "admits DSecond_constraint asn_DEF_DSecond None"
  by (rule admits_long [where ct = "pc_value asn_PER_type_DSecond_constr_1"]) (simp_all add: DSecond_constraint_def asn_DEF_DSecond_def asn_PER_type_DSecond_constr_1_def check_defs)

lemma LaneID_constraint_admits [admits]: "admits LaneID_constraint asn_DEF_LaneID None"
  by (rule admits_long [where ct = "pc_value asn_PER_type_LaneID_constr_1"]) (simp_all add: LaneID_constraint_def asn_DEF_LaneID_def asn_PER_type_LaneID_constr_1_def check_defs)

lemma SignalGroupID_constraint_admits [admits]: "admits SignalGroupID_constraint asn_DEF_SignalGroupID None"
  by (rule admits_long [where ct = "pc_value asn_PER_type_SignalGroupID_constr_1"]) (simp_all add: SignalGroupID_constraint_def asn_DEF_SignalGroupID_def asn_PER_type_SignalGroupID_constr_1_def check_defs)

lemma TimeMark_constraint_admits [admits]: "admits TimeMark_constraint asn_DEF_TimeMark None"
  by (rule admits_long [where ct = "pc_value asn_PER_type_TimeMark_constr_1"]) (simp_all add: TimeMark_constraint_def asn_DEF_TimeMark_def asn_PER_type_TimeMark_constr_1_def check_defs)

lemma TimeIntervalConfidence_constraint_admits [admits]: "admits TimeIntervalConfidence_constraint asn_DEF_TimeIntervalConfidence None"
  by (rule admits_long [where ct = "pc_value asn_PER_type_TimeIntervalConfidence_constr_1"]) (simp_all add: TimeIntervalConfidence_constraint_def asn_DEF_TimeIntervalConfidence_def asn_PER_type_TimeIntervalConfidence_constr_1_def check_defs)

lemma SpeedAdvice_constraint_admits [admits]: "admits SpeedAdvice_constraint asn_DEF_SpeedAdvice None"
  by (rule admits_long [where ct = "pc_value asn_PER_type_SpeedAdvice_constr_1"]) (simp_all add: SpeedAdvice_constraint_def asn_DEF_SpeedAdvice_def asn_PER_type_SpeedAdvice_constr_1_def check_defs)

lemma ZoneLength_constraint_admits [admits]: "admits ZoneLength_constraint asn_DEF_ZoneLength None"
  by (rule admits_long [where ct = "pc_value asn_PER_type_ZoneLength_constr_1"]) (simp_all add: ZoneLength_constraint_def asn_DEF_ZoneLength_def asn_PER_type_ZoneLength_constr_1_def check_defs)

lemma RestrictionClassID_constraint_admits [admits]: "admits RestrictionClassID_constraint asn_DEF_RestrictionClassID None"
  by (rule admits_long [where ct = "pc_value asn_PER_type_RestrictionClassID_constr_1"]) (simp_all add: RestrictionClassID_constraint_def asn_DEF_RestrictionClassID_def asn_PER_type_RestrictionClassID_constr_1_def check_defs)

lemma RegionId_constraint_admits [admits]: "admits RegionId_constraint asn_DEF_RegionId None"
  by (rule admits_long [where ct = "pc_value asn_PER_type_RegionId_constr_1"]) (simp_all add: RegionId_constraint_def asn_DEF_RegionId_def asn_PER_type_RegionId_constr_1_def check_defs)

lemma memb_regionId_constraint_1_admits [admits]: "admits memb_regionId_constraint_1 asn_DEF_RegionId (Some asn_PER_memb_regionId_constr_2)"
  by (rule admits_long [where ct = "pc_value asn_PER_memb_regionId_constr_2"]) (simp_all add: memb_regionId_constraint_1_def asn_DEF_RegionId_def asn_PER_memb_regionId_constr_2_def check_defs)

lemma LaneConnectionID_constraint_admits [admits]: "admits LaneConnectionID_constraint asn_DEF_LaneConnectionID None"
  by (rule admits_long [where ct = "pc_value asn_PER_type_LaneConnectionID_constr_1"]) (simp_all add: LaneConnectionID_constraint_def asn_DEF_LaneConnectionID_def asn_PER_type_LaneConnectionID_constr_1_def check_defs)

lemma LayerID_constraint_admits [admits]: "admits LayerID_constraint asn_DEF_LayerID None"
  by (rule admits_long [where ct = "pc_value asn_PER_type_LayerID_constr_1"]) (simp_all add: LayerID_constraint_def asn_DEF_LayerID_def asn_PER_type_LayerID_constr_1_def check_defs)

lemma Elevation_constraint_admits [admits]: "admits Elevation_constraint asn_DEF_Elevation None"
  by (rule admits_long [where ct = "pc_value asn_PER_type_Elevation_constr_1"]) (simp_all add: Elevation_constraint_def asn_DEF_Elevation_def asn_PER_type_Elevation_constr_1_def check_defs)

lemma LaneWidth_constraint_admits [admits]: "admits LaneWidth_constraint asn_DEF_LaneWidth None"
  by (rule admits_long [where ct = "pc_value asn_PER_type_LaneWidth_constr_1"]) (simp_all add: LaneWidth_constraint_def asn_DEF_LaneWidth_def asn_PER_type_LaneWidth_constr_1_def check_defs)

lemma Velocity_constraint_admits [admits]: "admits Velocity_constraint asn_DEF_Velocity None"
  by (rule admits_long [where ct = "pc_value asn_PER_type_Velocity_constr_1"]) (simp_all add: Velocity_constraint_def asn_DEF_Velocity_def asn_PER_type_Velocity_constr_1_def check_defs)

lemma ApproachID_constraint_admits [admits]: "admits ApproachID_constraint asn_DEF_ApproachID None"
  by (rule admits_long [where ct = "pc_value asn_PER_type_ApproachID_constr_1"]) (simp_all add: ApproachID_constraint_def asn_DEF_ApproachID_def asn_PER_type_ApproachID_constr_1_def check_defs)

lemma LaneDirection_constraint_admits [admits]: "admits LaneDirection_constraint asn_DEF_LaneDirection None"
  by (rule admits_bits [where csiz = "pc_size asn_PER_type_LaneDirection_constr_1"]) (simp_all add: LaneDirection_constraint_def asn_DEF_LaneDirection_def asn_PER_type_LaneDirection_constr_1_def check_defs)

lemma LaneSharing_constraint_admits [admits]: "admits LaneSharing_constraint asn_DEF_LaneSharing None"
  by (rule admits_bits [where csiz = "pc_size asn_PER_type_LaneSharing_constr_1"]) (simp_all add: LaneSharing_constraint_def asn_DEF_LaneSharing_def asn_PER_type_LaneSharing_constr_1_def check_defs)

lemma LaneAttributes_Vehicle_constraint_admits [admits]: "admits LaneAttributes_Vehicle_constraint asn_DEF_LaneAttributes_Vehicle None"
  by (rule admits_bits [where csiz = "pc_size asn_PER_type_LaneAttributes_Vehicle_constr_1"]) (simp_all add: LaneAttributes_Vehicle_constraint_def asn_DEF_LaneAttributes_Vehicle_def asn_PER_type_LaneAttributes_Vehicle_constr_1_def check_defs)

lemma LaneAttributes_Crosswalk_constraint_admits [admits]: "admits LaneAttributes_Crosswalk_constraint asn_DEF_LaneAttributes_Crosswalk None"
  by (rule admits_bits [where csiz = "pc_size asn_PER_type_LaneAttributes_Crosswalk_constr_1"]) (simp_all add: LaneAttributes_Crosswalk_constraint_def asn_DEF_LaneAttributes_Crosswalk_def asn_PER_type_LaneAttributes_Crosswalk_constr_1_def check_defs)

lemma LaneAttributes_Bike_constraint_admits [admits]: "admits LaneAttributes_Bike_constraint asn_DEF_LaneAttributes_Bike None"
  by (rule admits_bits [where csiz = "pc_size asn_PER_type_LaneAttributes_Bike_constr_1"]) (simp_all add: LaneAttributes_Bike_constraint_def asn_DEF_LaneAttributes_Bike_def asn_PER_type_LaneAttributes_Bike_constr_1_def check_defs)

lemma LaneAttributes_Sidewalk_constraint_admits [admits]: "admits LaneAttributes_Sidewalk_constraint asn_DEF_LaneAttributes_Sidewalk None"
  by (rule admits_bits [where csiz = "pc_size asn_PER_type_LaneAttributes_Sidewalk_constr_1"]) (simp_all add: LaneAttributes_Sidewalk_constraint_def asn_DEF_LaneAttributes_Sidewalk_def asn_PER_type_LaneAttributes_Sidewalk_constr_1_def check_defs)

lemma LaneAttributes_Barrier_constraint_admits [admits]: "admits LaneAttributes_Barrier_constraint asn_DEF_LaneAttributes_Barrier None"
  by (rule admits_bits [where csiz = "pc_size asn_PER_type_LaneAttributes_Barrier_constr_1"]) (simp_all add: LaneAttributes_Barrier_constraint_def asn_DEF_LaneAttributes_Barrier_def asn_PER_type_LaneAttributes_Barrier_constr_1_def check_defs)

lemma LaneAttributes_Striping_constraint_admits [admits]: "admits LaneAttributes_Striping_constraint asn_DEF_LaneAttributes_Striping None"
  by (rule admits_bits [where csiz = "pc_size asn_PER_type_LaneAttributes_Striping_constr_1"]) (simp_all add: LaneAttributes_Striping_constraint_def asn_DEF_LaneAttributes_Striping_def asn_PER_type_LaneAttributes_Striping_constr_1_def check_defs)

lemma LaneAttributes_TrackedVehicle_constraint_admits [admits]: "admits LaneAttributes_TrackedVehicle_constraint asn_DEF_LaneAttributes_TrackedVehicle None"
  by (rule admits_bits [where csiz = "pc_size asn_PER_type_LaneAttributes_TrackedVehicle_constr_1"]) (simp_all add: LaneAttributes_TrackedVehicle_constraint_def asn_DEF_LaneAttributes_TrackedVehicle_def asn_PER_type_LaneAttributes_TrackedVehicle_constr_1_def check_defs)

lemma LaneAttributes_Parking_constraint_admits [admits]: "admits LaneAttributes_Parking_constraint asn_DEF_LaneAttributes_Parking None"
  by (rule admits_bits [where csiz = "pc_size asn_PER_type_LaneAttributes_Parking_constr_1"]) (simp_all add: LaneAttributes_Parking_constraint_def asn_DEF_LaneAttributes_Parking_def asn_PER_type_LaneAttributes_Parking_constr_1_def check_defs)

lemma AllowedManeuvers_constraint_admits [admits]: "admits AllowedManeuvers_constraint asn_DEF_AllowedManeuvers None"
  by (rule admits_bits [where csiz = "pc_size asn_PER_type_AllowedManeuvers_constr_1"]) (simp_all add: AllowedManeuvers_constraint_def asn_DEF_AllowedManeuvers_def asn_PER_type_AllowedManeuvers_constr_1_def check_defs)

lemma Offset_B10_constraint_admits [admits]: "admits Offset_B10_constraint asn_DEF_Offset_B10 None"
  by (rule admits_long [where ct = "pc_value asn_PER_type_Offset_B10_constr_1"]) (simp_all add: Offset_B10_constraint_def asn_DEF_Offset_B10_def asn_PER_type_Offset_B10_constr_1_def check_defs)

lemma Offset_B11_constraint_admits [admits]: "admits Offset_B11_constraint asn_DEF_Offset_B11 None"
  by (rule admits_long [where ct = "pc_value asn_PER_type_Offset_B11_constr_1"]) (simp_all add: Offset_B11_constraint_def asn_DEF_Offset_B11_def asn_PER_type_Offset_B11_constr_1_def check_defs)

lemma Offset_B12_constraint_admits [admits]: "admits Offset_B12_constraint asn_DEF_Offset_B12 None"
  by (rule admits_long [where ct = "pc_value asn_PER_type_Offset_B12_constr_1"]) (simp_all add: Offset_B12_constraint_def asn_DEF_Offset_B12_def asn_PER_type_Offset_B12_constr_1_def check_defs)

lemma Offset_B13_constraint_admits [admits]: "admits Offset_B13_constraint asn_DEF_Offset_B13 None"
  by (rule admits_long [where ct = "pc_value asn_PER_type_Offset_B13_constr_1"]) (simp_all add: Offset_B13_constraint_def asn_DEF_Offset_B13_def asn_PER_type_Offset_B13_constr_1_def check_defs)

lemma Offset_B14_constraint_admits [admits]: "admits Offset_B14_constraint asn_DEF_Offset_B14 None"
  by (rule admits_long [where ct = "pc_value asn_PER_type_Offset_B14_constr_1"]) (simp_all add: Offset_B14_constraint_def asn_DEF_Offset_B14_def asn_PER_type_Offset_B14_constr_1_def check_defs)

lemma Offset_B16_constraint_admits [admits]: "admits Offset_B16_constraint asn_DEF_Offset_B16 None"
  by (rule admits_long [where ct = "pc_value asn_PER_type_Offset_B16_constr_1"]) (simp_all add: Offset_B16_constraint_def asn_DEF_Offset_B16_def asn_PER_type_Offset_B16_constr_1_def check_defs)

lemma DeltaAngle_constraint_admits [admits]: "admits DeltaAngle_constraint asn_DEF_DeltaAngle None"
  by (rule admits_long [where ct = "pc_value asn_PER_type_DeltaAngle_constr_1"]) (simp_all add: DeltaAngle_constraint_def asn_DEF_DeltaAngle_def asn_PER_type_DeltaAngle_constr_1_def check_defs)

lemma RoadwayCrownAngle_constraint_admits [admits]: "admits RoadwayCrownAngle_constraint asn_DEF_RoadwayCrownAngle None"
  by (rule admits_long [where ct = "pc_value asn_PER_type_RoadwayCrownAngle_constr_1"]) (simp_all add: RoadwayCrownAngle_constraint_def asn_DEF_RoadwayCrownAngle_def asn_PER_type_RoadwayCrownAngle_constr_1_def check_defs)

lemma MergeDivergeNodeAngle_constraint_admits [admits]: "admits MergeDivergeNodeAngle_constraint asn_DEF_MergeDivergeNodeAngle None"
  by (rule admits_long [where ct = "pc_value asn_PER_type_MergeDivergeNodeAngle_constr_1"]) (simp_all add: MergeDivergeNodeAngle_constraint_def asn_DEF_MergeDivergeNodeAngle_def asn_PER_type_MergeDivergeNodeAngle_constr_1_def check_defs)

lemma DrivenLineOffsetSm_constraint_admits [admits]: "admits DrivenLineOffsetSm_constraint asn_DEF_DrivenLineOffsetSm None"
  by (rule admits_long [where ct = "pc_value asn_PER_type_DrivenLineOffsetSm_constr_1"]) (simp_all add: DrivenLineOffsetSm_constraint_def asn_DEF_DrivenLineOffsetSm_def asn_PER_type_DrivenLineOffsetSm_constr_1_def check_defs)

lemma DrivenLineOffsetLg_constraint_admits [admits]: "admits DrivenLineOffsetLg_constraint asn_DEF_DrivenLineOffsetLg None"
  by (rule admits_long [where ct = "pc_value asn_PER_type_DrivenLineOffsetLg_constr_1"]) (simp_all add: DrivenLineOffsetLg_constraint_def asn_DEF_DrivenLineOffsetLg_def asn_PER_type_DrivenLineOffsetLg_constr_1_def check_defs)

lemma Angle_constraint_admits [admits]: "admits Angle_constraint asn_DEF_Angle None"
  by (rule admits_long [where ct = "pc_value asn_PER_type_Angle_constr_1"]) (simp_all add: Angle_constraint_def asn_DEF_Angle_def asn_PER_type_Angle_constr_1_def check_defs)

lemma Scale_B12_constraint_admits [admits]: "admits Scale_B12_constraint asn_DEF_Scale_B12 None"
  by (rule admits_long [where ct = "pc_value asn_PER_type_Scale_B12_constr_1"]) (simp_all add: Scale_B12_constraint_def asn_DEF_Scale_B12_def asn_PER_type_Scale_B12_constr_1_def check_defs)

lemma RoadSegmentID_constraint_admits [admits]: "admits RoadSegmentID_constraint asn_DEF_RoadSegmentID None"
  by (rule admits_long [where ct = "pc_value asn_PER_type_RoadSegmentID_constr_1"]) (simp_all add: RoadSegmentID_constraint_def asn_DEF_RoadSegmentID_def asn_PER_type_RoadSegmentID_constr_1_def check_defs)

lemma memb_processMethod_constraint_1_admits [admits]: "admits memb_processMethod_constraint_1 asn_DEF_IA5String (Some asn_PER_memb_processMethod_constr_2)"
  by (rule admits_ia5 [where pc = asn_PER_memb_processMethod_constr_2]) (simp_all add: memb_processMethod_constraint_1_def asn_DEF_IA5String_def asn_PER_memb_processMethod_constr_2_def check_permitted_alphabet_2_def check_defs)

lemma memb_processAgency_constraint_1_admits [admits]: "admits memb_processAgency_constraint_1 asn_DEF_IA5String (Some asn_PER_memb_processAgency_constr_3)"
  by (rule admits_ia5 [where pc = asn_PER_memb_processAgency_constr_3]) (simp_all add: memb_processAgency_constraint_1_def asn_DEF_IA5String_def asn_PER_memb_processAgency_constr_3_def check_permitted_alphabet_3_def check_defs)

lemma memb_lastCheckedDate_constraint_1_admits [admits]: "admits memb_lastCheckedDate_constraint_1 asn_DEF_IA5String (Some asn_PER_memb_lastCheckedDate_constr_4)"
  by (rule admits_ia5 [where pc = asn_PER_memb_lastCheckedDate_constr_4]) (simp_all add: memb_lastCheckedDate_constraint_1_def asn_DEF_IA5String_def asn_PER_memb_lastCheckedDate_constr_4_def check_permitted_alphabet_4_def check_defs)

lemma memb_geoidUsed_constraint_1_admits [admits]: "admits memb_geoidUsed_constraint_1 asn_DEF_IA5String (Some asn_PER_memb_geoidUsed_constr_5)"
  by (rule admits_ia5 [where pc = asn_PER_memb_geoidUsed_constr_5]) (simp_all add: memb_geoidUsed_constraint_1_def asn_DEF_IA5String_def asn_PER_memb_geoidUsed_constr_5_def check_permitted_alphabet_5_def check_defs)

context sequence_check
begin

lemma gc_NativeInteger_admits [admits]: "admits (perform gc_NativeInteger) td c"
  by (simp add: gc_NativeInteger_def asn_generic_no_constraint_def)

lemma gc_StationID_admits [admits]: "admits (perform gc_StationID) asn_DEF_StationID None"
  by (simp add: gc_StationID_def  admits)

lemma gc_ItsPduHeader_admits [admits]: "admits (perform gc_ItsPduHeader) asn_DEF_ItsPduHeader None"
  unfolding gc_ItsPduHeader_def by (rule admits_SEQUENCE) (simp_all add: asn_DEF_ItsPduHeader_def asn_MBR_ItsPduHeader_1_def check_defs admits)

lemma gc_GenerationDeltaTime_admits [admits]: "admits (perform gc_GenerationDeltaTime) asn_DEF_GenerationDeltaTime None"
  by (simp add: gc_GenerationDeltaTime_def  admits)

lemma gc_StationType_admits [admits]: "admits (perform gc_StationType) asn_DEF_StationType None"
  by (simp add: gc_StationType_def  admits)

lemma gc_Latitude_admits [admits]: "admits (perform gc_Latitude) asn_DEF_Latitude None"
  by (simp add: gc_Latitude_def  admits)

lemma gc_Longitude_admits [admits]: "admits (perform gc_Longitude) asn_DEF_Longitude None"
  by (simp add: gc_Longitude_def  admits)

lemma gc_SemiAxisLength_admits [admits]: "admits (perform gc_SemiAxisLength) asn_DEF_SemiAxisLength None"
  by (simp add: gc_SemiAxisLength_def  admits)

lemma gc_HeadingValue_admits [admits]: "admits (perform gc_HeadingValue) asn_DEF_HeadingValue None"
  by (simp add: gc_HeadingValue_def  admits)

lemma gc_PosConfidenceEllipse_admits [admits]: "admits (perform gc_PosConfidenceEllipse) asn_DEF_PosConfidenceEllipse None"
  unfolding gc_PosConfidenceEllipse_def by (rule admits_SEQUENCE) (simp_all add: asn_DEF_PosConfidenceEllipse_def asn_MBR_PosConfidenceEllipse_1_def check_defs admits)

lemma gc_AltitudeValue_admits [admits]: "admits (perform gc_AltitudeValue) asn_DEF_AltitudeValue None"
  by (simp add: gc_AltitudeValue_def  admits)

lemma gc_AltitudeConfidence_admits [admits]: "admits (perform gc_AltitudeConfidence) asn_DEF_AltitudeConfidence c"
  by (simp add: gc_AltitudeConfidence_def asn_generic_no_constraint_def)

lemma gc_Altitude_admits [admits]: "admits (perform gc_Altitude) asn_DEF_Altitude None"
  unfolding gc_Altitude_def by (rule admits_SEQUENCE) (simp_all add: asn_DEF_Altitude_def asn_MBR_Altitude_1_def check_defs admits)

lemma gc_ReferencePosition_admits [admits]: "admits (perform gc_ReferencePosition) asn_DEF_ReferencePosition None"
  unfolding gc_ReferencePosition_def by (rule admits_SEQUENCE) (simp_all add: asn_DEF_ReferencePosition_def asn_MBR_ReferencePosition_1_def check_defs admits)

lemma gc_BasicContainer_admits [admits]: "admits (perform gc_BasicContainer) asn_DEF_BasicContainer None"
  unfolding gc_BasicContainer_def by (rule admits_SEQUENCE) (simp_all add: asn_DEF_BasicContainer_def asn_MBR_BasicContainer_1_def check_defs admits)

lemma gc_HeadingConfidence_admits [admits]: "admits (perform gc_HeadingConfidence) asn_DEF_HeadingConfidence None"
  by (simp add: gc_HeadingConfidence_def  admits)

lemma gc_Heading_admits [admits]: "admits (perform gc_Heading) asn_DEF_Heading None"
  unfolding gc_Heading_def by (rule admits_SEQUENCE) (simp_all add: asn_DEF_Heading_def asn_MBR_Heading_1_def check_defs admits)

lemma gc_SpeedValue_admits [admits]: "admits (perform gc_SpeedValue) asn_DEF_SpeedValue None"
  by (simp add: gc_SpeedValue_def  admits)

lemma gc_SpeedConfidence_admits [admits]: "admits (perform gc_SpeedConfidence) asn_DEF_SpeedConfidence None"
  by (simp add: gc_SpeedConfidence_def  admits)

lemma gc_Speed_admits [admits]: "admits (perform gc_Speed) asn_DEF_Speed None"
  unfolding gc_Speed_def by (rule admits_SEQUENCE) (simp_all add: asn_DEF_Speed_def asn_MBR_Speed_1_def check_defs admits)

lemma gc_DriveDirection_admits [admits]: "admits (perform gc_DriveDirection) asn_DEF_DriveDirection c"
  by (simp add: gc_DriveDirection_def asn_generic_no_constraint_def)

lemma gc_VehicleLengthValue_admits [admits]: "admits (perform gc_VehicleLengthValue) asn_DEF_VehicleLengthValue None"
  by (simp add: gc_VehicleLengthValue_def  admits)

lemma gc_VehicleLengthConfidenceIndication_admits [admits]: "admits (perform gc_VehicleLengthConfidenceIndication) asn_DEF_VehicleLengthConfidenceIndication c"
  by (simp add: gc_VehicleLengthConfidenceIndication_def asn_generic_no_constraint_def)

lemma gc_VehicleLength_admits [admits]: "admits (perform gc_VehicleLength) asn_DEF_VehicleLength None"
  unfolding gc_VehicleLength_def by (rule admits_SEQUENCE) (simp_all add: asn_DEF_VehicleLength_def asn_MBR_VehicleLength_1_def check_defs admits)

lemma gc_VehicleWidth_admits [admits]: "admits (perform gc_VehicleWidth) asn_DEF_VehicleWidth None"
  by (simp add: gc_VehicleWidth_def  admits)

lemma gc_LongitudinalAccelerationValue_admits [admits]: "admits (perform gc_LongitudinalAccelerationValue) asn_DEF_LongitudinalAccelerationValue None"
  by (simp add: gc_LongitudinalAccelerationValue_def  admits)

lemma gc_AccelerationConfidence_admits [admits]: "admits (perform gc_AccelerationConfidence) asn_DEF_AccelerationConfidence None"
  by (simp add: gc_AccelerationConfidence_def  admits)

lemma gc_LongitudinalAcceleration_admits [admits]: "admits (perform gc_LongitudinalAcceleration) asn_DEF_LongitudinalAcceleration None"
  unfolding gc_LongitudinalAcceleration_def by (rule admits_SEQUENCE) (simp_all add: asn_DEF_LongitudinalAcceleration_def asn_MBR_LongitudinalAcceleration_1_def check_defs admits)

lemma gc_CurvatureValue_admits [admits]: "admits (perform gc_CurvatureValue) asn_DEF_CurvatureValue None"
  by (simp add: gc_CurvatureValue_def  admits)

lemma gc_CurvatureConfidence_admits [admits]: "admits (perform gc_CurvatureConfidence) asn_DEF_CurvatureConfidence c"
  by (simp add: gc_CurvatureConfidence_def asn_generic_no_constraint_def)

lemma gc_Curvature_admits [admits]: "admits (perform gc_Curvature) asn_DEF_Curvature None"
  unfolding gc_Curvature_def by (rule admits_SEQUENCE) (simp_all add: asn_DEF_Curvature_def asn_MBR_Curvature_1_def check_defs admits)

lemma gc_CurvatureCalculationMode_admits [admits]: "admits (perform gc_CurvatureCalculationMode) asn_DEF_CurvatureCalculationMode c"
  by (simp add: gc_CurvatureCalculationMode_def asn_generic_no_constraint_def)

lemma gc_YawRateValue_admits [admits]: "admits (perform gc_YawRateValue) asn_DEF_YawRateValue None"
  by (simp add: gc_YawRateValue_def  admits)

lemma gc_YawRateConfidence_admits [admits]: "admits (perform gc_YawRateConfidence) asn_DEF_YawRateConfidence c"
  by (simp add: gc_YawRateConfidence_def asn_generic_no_constraint_def)

lemma gc_YawRate_admits [admits]: "admits (perform gc_YawRate) asn_DEF_YawRate None"
  unfolding gc_YawRate_def by (rule admits_SEQUENCE) (simp_all add: asn_DEF_YawRate_def asn_MBR_YawRate_1_def check_defs admits)

lemma gc_AccelerationControl_admits [admits]: "admits (perform gc_AccelerationControl) asn_DEF_AccelerationControl None"
  by (simp add: gc_AccelerationControl_def  admits)

lemma gc_LanePosition_admits [admits]: "admits (perform gc_LanePosition) asn_DEF_LanePosition None"
  by (simp add: gc_LanePosition_def  admits)

lemma gc_SteeringWheelAngleValue_admits [admits]: "admits (perform gc_SteeringWheelAngleValue) asn_DEF_SteeringWheelAngleValue None"
  by (simp add: gc_SteeringWheelAngleValue_def  admits)

lemma gc_SteeringWheelAngleConfidence_admits [admits]: "admits (perform gc_SteeringWheelAngleConfidence) asn_DEF_SteeringWheelAngleConfidence None"
  by (simp add: gc_SteeringWheelAngleConfidence_def  admits)

lemma gc_SteeringWheelAngle_admits [admits]: "admits (perform gc_SteeringWheelAngle) asn_DEF_SteeringWheelAngle None"
  unfolding gc_SteeringWheelAngle_def by (rule admits_SEQUENCE) (simp_all add: asn_DEF_SteeringWheelAngle_def asn_MBR_SteeringWheelAngle_1_def check_defs admits)

lemma gc_LateralAccelerationValue_admits [admits]: "admits (perform gc_LateralAccelerationValue) asn_DEF_LateralAccelerationValue None"
  by (simp add: gc_LateralAccelerationValue_def  admits)

lemma gc_LateralAcceleration_admits [admits]: "admits (perform gc_LateralAcceleration) asn_DEF_LateralAcceleration None"
  unfolding gc_LateralAcceleration_def by (rule admits_SEQUENCE) (simp_all add: asn_DEF_LateralAcceleration_def asn_MBR_LateralAcceleration_1_def check_defs admits)

lemma gc_VerticalAccelerationValue_admits [admits]: "admits (perform gc_VerticalAccelerationValue) asn_DEF_VerticalAccelerationValue None"
  by (simp add: gc_VerticalAccelerationValue_def  admits)

lemma gc_VerticalAcceleration_admits [admits]: "admits (perform gc_VerticalAcceleration) asn_DEF_VerticalAcceleration None"
  unfolding gc_VerticalAcceleration_def by (rule admits_SEQUENCE) (simp_all add: asn_DEF_VerticalAcceleration_def asn_MBR_VerticalAcceleration_1_def check_defs admits)

lemma gc_PerformanceClass_admits [admits]: "admits (perform gc_PerformanceClass) asn_DEF_PerformanceClass None"
  by (simp add: gc_PerformanceClass_def  admits)

lemma gc_CenDsrcTollingZoneID_admits [admits]: "admits (perform gc_CenDsrcTollingZoneID) asn_DEF_CenDsrcTollingZoneID None"
  by (simp add: gc_CenDsrcTollingZoneID_def  admits)

lemma gc_CenDsrcTollingZone_admits [admits]: "admits (perform gc_CenDsrcTollingZone) asn_DEF_CenDsrcTollingZone None"
  unfolding gc_CenDsrcTollingZone_def by (rule admits_SEQUENCE) (simp_all add: asn_DEF_CenDsrcTollingZone_def asn_MBR_CenDsrcTollingZone_1_def check_defs admits)

lemma gc_BasicVehicleContainerHighFrequency_admits [admits]: "admits (perform gc_BasicVehicleContainerHighFrequency) asn_DEF_BasicVehicleContainerHighFrequency None"
  unfolding gc_BasicVehicleContainerHighFrequency_def by (rule admits_SEQUENCE) (simp_all add: asn_DEF_BasicVehicleContainerHighFrequency_def asn_MBR_BasicVehicleContainerHighFrequency_1_def check_defs admits)

lemma gc_ProtectedZoneType_admits [admits]: "admits (perform gc_ProtectedZoneType) asn_DEF_ProtectedZoneType c"
  by (simp add: gc_ProtectedZoneType_def asn_generic_no_constraint_def)

lemma gc_TimestampIts_admits [admits]: "admits (perform gc_TimestampIts) asn_DEF_TimestampIts None"
  by (simp add: gc_TimestampIts_def  admits)

lemma gc_ProtectedZoneRadius_admits [admits]: "admits (perform gc_ProtectedZoneRadius) asn_DEF_ProtectedZoneRadius None"
  by (simp add: gc_ProtectedZoneRadius_def  admits)

lemma gc_ProtectedZoneID_admits [admits]: "admits (perform gc_ProtectedZoneID) asn_DEF_ProtectedZoneID None"
  by (simp add: gc_ProtectedZoneID_def  admits)

lemma gc_ProtectedCommunicationZone_admits [admits]: "admits (perform gc_ProtectedCommunicationZone) asn_DEF_ProtectedCommunicationZone None"
  unfolding gc_ProtectedCommunicationZone_def by (rule admits_SEQUENCE) (simp_all add: asn_DEF_ProtectedCommunicationZone_def asn_MBR_ProtectedCommunicationZone_1_def check_defs admits)

lemma gc_ProtectedCommunicationZonesRSU_admits [admits]: "admits (perform gc_ProtectedCommunicationZonesRSU) asn_DEF_ProtectedCommunicationZonesRSU None"
  unfolding gc_ProtectedCommunicationZonesRSU_def by (rule admits_SEQUENCE_OF) (simp_all add: asn_DEF_ProtectedCommunicationZonesRSU_def asn_MBR_ProtectedCommunicationZonesRSU_1_def check_defs admits)

lemma gc_RSUContainerHighFrequency_admits [admits]: "admits (perform gc_RSUContainerHighFrequency) asn_DEF_RSUContainerHighFrequency None"
  unfolding gc_RSUContainerHighFrequency_def by (rule admits_SEQUENCE) (simp_all add: asn_DEF_RSUContainerHighFrequency_def asn_MBR_RSUContainerHighFrequency_1_def check_defs admits)

lemma gc_HighFrequencyContainer_admits [admits]: "admits (perform gc_HighFrequencyContainer) asn_DEF_HighFrequencyContainer None"
  unfolding gc_HighFrequencyContainer_def by (rule admits_CHOICE) (simp_all add: asn_DEF_HighFrequencyContainer_def asn_MBR_HighFrequencyContainer_1_def check_defs admits)

lemma gc_VehicleRole_admits [admits]: "admits (perform gc_VehicleRole) asn_DEF_VehicleRole c"
  by (simp add: gc_VehicleRole_def asn_generic_no_constraint_def)

lemma gc_ExteriorLights_admits [admits]: "admits (perform gc_ExteriorLights) asn_DEF_ExteriorLights None"
  by (simp add: gc_ExteriorLights_def  admits)

lemma gc_DeltaLatitude_admits [admits]: "admits (perform gc_DeltaLatitude) asn_DEF_DeltaLatitude None"
  by (simp add: gc_DeltaLatitude_def  admits)

lemma gc_DeltaLongitude_admits [admits]: "admits (perform gc_DeltaLongitude) asn_DEF_DeltaLongitude None"
  by (simp add: gc_DeltaLongitude_def  admits)

lemma gc_DeltaAltitude_admits [admits]: "admits (perform gc_DeltaAltitude) asn_DEF_DeltaAltitude None"
  by (simp add: gc_DeltaAltitude_def  admits)

lemma gc_DeltaReferencePosition_admits [admits]: "admits (perform gc_DeltaReferencePosition) asn_DEF_DeltaReferencePosition None"
  unfolding gc_DeltaReferencePosition_def by (rule admits_SEQUENCE) (simp_all add: asn_DEF_DeltaReferencePosition_def asn_MBR_DeltaReferencePosition_1_def check_defs admits)

lemma gc_PathDeltaTime_admits [admits]: "admits (perform gc_PathDeltaTime) asn_DEF_PathDeltaTime None"
  by (simp add: gc_PathDeltaTime_def  admits)

lemma gc_PathPoint_admits [admits]: "admits (perform gc_PathPoint) asn_DEF_PathPoint None"
  unfolding gc_PathPoint_def by (rule admits_SEQUENCE) (simp_all add: asn_DEF_PathPoint_def asn_MBR_PathPoint_1_def check_defs admits)

lemma gc_PathHistory_admits [admits]: "admits (perform gc_PathHistory) asn_DEF_PathHistory None"
  unfolding gc_PathHistory_def by (rule admits_SEQUENCE_OF) (simp_all add: asn_DEF_PathHistory_def asn_MBR_PathHistory_1_def check_defs admits)

lemma gc_BasicVehicleContainerLowFrequency_admits [admits]: "admits (perform gc_BasicVehicleContainerLowFrequency) asn_DEF_BasicVehicleContainerLowFrequency None"
  unfolding gc_BasicVehicleContainerLowFrequency_def by (rule admits_SEQUENCE) (simp_all add: asn_DEF_BasicVehicleContainerLowFrequency_def asn_MBR_BasicVehicleContainerLowFrequency_1_def check_defs admits)

lemma gc_LowFrequencyContainer_admits [admits]: "admits (perform gc_LowFrequencyContainer) asn_DEF_LowFrequencyContainer None"
  unfolding gc_LowFrequencyContainer_def by (rule admits_CHOICE) (simp_all add: asn_DEF_LowFrequencyContainer_def asn_MBR_LowFrequencyContainer_1_def check_defs admits)

lemma gc_EmbarkationStatus_admits [admits]: "admits (perform gc_EmbarkationStatus) asn_DEF_EmbarkationStatus c"
  by (simp add: gc_EmbarkationStatus_def asn_generic_no_constraint_def)

lemma gc_PtActivationType_admits [admits]: "admits (perform gc_PtActivationType) asn_DEF_PtActivationType None"
  by (simp add: gc_PtActivationType_def  admits)

lemma gc_PtActivationData_admits [admits]: "admits (perform gc_PtActivationData) asn_DEF_PtActivationData None"
  by (simp add: gc_PtActivationData_def  admits)

lemma gc_PtActivation_admits [admits]: "admits (perform gc_PtActivation) asn_DEF_PtActivation None"
  unfolding gc_PtActivation_def by (rule admits_SEQUENCE) (simp_all add: asn_DEF_PtActivation_def asn_MBR_PtActivation_1_def check_defs admits)

lemma gc_PublicTransportContainer_admits [admits]: "admits (perform gc_PublicTransportContainer) asn_DEF_PublicTransportContainer None"
  unfolding gc_PublicTransportContainer_def by (rule admits_SEQUENCE) (simp_all add: asn_DEF_PublicTransportContainer_def asn_MBR_PublicTransportContainer_1_def check_defs admits)

lemma gc_SpecialTransportType_admits [admits]: "admits (perform gc_SpecialTransportType) asn_DEF_SpecialTransportType None"
  by (simp add: gc_SpecialTransportType_def  admits)

lemma gc_LightBarSirenInUse_admits [admits]: "admits (perform gc_LightBarSirenInUse) asn_DEF_LightBarSirenInUse None"
  by (simp add: gc_LightBarSirenInUse_def  admits)

lemma gc_SpecialTransportContainer_admits [admits]: "admits (perform gc_SpecialTransportContainer) asn_DEF_SpecialTransportContainer None"
  unfolding gc_SpecialTransportContainer_def by (rule admits_SEQUENCE) (simp_all add: asn_DEF_SpecialTransportContainer_def asn_MBR_SpecialTransportContainer_1_def check_defs admits)

lemma gc_DangerousGoodsBasic_admits [admits]: "admits (perform gc_DangerousGoodsBasic) asn_DEF_DangerousGoodsBasic c"
  by (simp add: gc_DangerousGoodsBasic_def asn_generic_no_constraint_def)

lemma gc_DangerousGoodsContainer_admits [admits]: "admits (perform gc_DangerousGoodsContainer) asn_DEF_DangerousGoodsContainer None"
  unfolding gc_DangerousGoodsContainer_def by (rule admits_SEQUENCE) (simp_all add: asn_DEF_DangerousGoodsContainer_def asn_MBR_DangerousGoodsContainer_1_def check_defs admits)

lemma gc_RoadworksSubCauseCode_admits [admits]: "admits (perform gc_RoadworksSubCauseCode) asn_DEF_RoadworksSubCauseCode None"
  by (simp add: gc_RoadworksSubCauseCode_def  admits)

lemma gc_HardShoulderStatus_admits [admits]: "admits (perform gc_HardShoulderStatus) asn_DEF_HardShoulderStatus c"
  by (simp add: gc_HardShoulderStatus_def asn_generic_no_constraint_def)

lemma gc_DrivingLaneStatus_admits [admits]: "admits (perform gc_DrivingLaneStatus) asn_DEF_DrivingLaneStatus None"
  by (simp add: gc_DrivingLaneStatus_def  admits)

lemma gc_ClosedLanes_admits [admits]: "admits (perform gc_ClosedLanes) asn_DEF_ClosedLanes None"
  unfolding gc_ClosedLanes_def by (rule admits_SEQUENCE) (simp_all add: asn_DEF_ClosedLanes_def asn_MBR_ClosedLanes_1_def check_defs admits)

lemma gc_RoadWorksContainerBasic_admits [admits]: "admits (perform gc_RoadWorksContainerBasic) asn_DEF_RoadWorksContainerBasic None"
  unfolding gc_RoadWorksContainerBasic_def by (rule admits_SEQUENCE) (simp_all add: asn_DEF_RoadWorksContainerBasic_def asn_MBR_RoadWorksContainerBasic_1_def check_defs admits)

lemma gc_RescueContainer_admits [admits]: "admits (perform gc_RescueContainer) asn_DEF_RescueContainer None"
  unfolding gc_RescueContainer_def by (rule admits_SEQUENCE) (simp_all add: asn_DEF_RescueContainer_def asn_MBR_RescueContainer_1_def check_defs admits)

lemma gc_CauseCodeType_admits [admits]: "admits (perform gc_CauseCodeType) asn_DEF_CauseCodeType None"
  by (simp add: gc_CauseCodeType_def  admits)

lemma gc_SubCauseCodeType_admits [admits]: "admits (perform gc_SubCauseCodeType) asn_DEF_SubCauseCodeType None"
  by (simp add: gc_SubCauseCodeType_def  admits)

lemma gc_CauseCode_admits [admits]: "admits (perform gc_CauseCode) asn_DEF_CauseCode None"
  unfolding gc_CauseCode_def by (rule admits_SEQUENCE) (simp_all add: asn_DEF_CauseCode_def asn_MBR_CauseCode_1_def check_defs admits)

lemma gc_EmergencyPriority_admits [admits]: "admits (perform gc_EmergencyPriority) asn_DEF_EmergencyPriority None"
  by (simp add: gc_EmergencyPriority_def  admits)

lemma gc_EmergencyContainer_admits [admits]: "admits (perform gc_EmergencyContainer) asn_DEF_EmergencyContainer None"
  unfolding gc_EmergencyContainer_def by (rule admits_SEQUENCE) (simp_all add: asn_DEF_EmergencyContainer_def asn_MBR_EmergencyContainer_1_def check_defs admits)

lemma gc_TrafficRule_admits [admits]: "admits (perform gc_TrafficRule) asn_DEF_TrafficRule c"
  by (simp add: gc_TrafficRule_def asn_generic_no_constraint_def)

lemma gc_SpeedLimit_admits [admits]: "admits (perform gc_SpeedLimit) asn_DEF_SpeedLimit None"
  by (simp add: gc_SpeedLimit_def  admits)

lemma gc_SafetyCarContainer_admits [admits]: "admits (perform gc_SafetyCarContainer) asn_DEF_SafetyCarContainer None"
  unfolding gc_SafetyCarContainer_def by (rule admits_SEQUENCE) (simp_all add: asn_DEF_SafetyCarContainer_def asn_MBR_SafetyCarContainer_1_def check_defs admits)

lemma gc_SpecialVehicleContainer_admits [admits]: "admits (perform gc_SpecialVehicleContainer) asn_DEF_SpecialVehicleContainer None"
  unfolding gc_SpecialVehicleContainer_def by (rule admits_CHOICE) (simp_all add: asn_DEF_SpecialVehicleContainer_def asn_MBR_SpecialVehicleContainer_1_def check_defs admits)

lemma gc_CamParameters_admits [admits]: "admits (perform gc_CamParameters) asn_DEF_CamParameters None"
  unfolding gc_CamParameters_def by (rule admits_SEQUENCE) (simp_all add: asn_DEF_CamParameters_def asn_MBR_CamParameters_1_def check_defs admits)

lemma gc_CoopAwareness_admits [admits]: "admits (perform gc_CoopAwareness) asn_DEF_CoopAwareness None"
  unfolding gc_CoopAwareness_def by (rule admits_SEQUENCE) (simp_all add: asn_DEF_CoopAwareness_def asn_MBR_CoopAwareness_1_def check_defs admits)

lemma gc_CAM_admits [admits]: "admits (perform gc_CAM) asn_DEF_CAM None"
  unfolding gc_CAM_def by (rule admits_SEQUENCE) (simp_all add: asn_DEF_CAM_def asn_MBR_CAM_1_def check_defs admits)

lemma gc_SequenceNumber_admits [admits]: "admits (perform gc_SequenceNumber) asn_DEF_SequenceNumber None"
  by (simp add: gc_SequenceNumber_def  admits)

lemma gc_ActionID_admits [admits]: "admits (perform gc_ActionID) asn_DEF_ActionID None"
  unfolding gc_ActionID_def by (rule admits_SEQUENCE) (simp_all add: asn_DEF_ActionID_def asn_MBR_ActionID_1_def check_defs admits)

lemma gc_Termination_admits [admits]: "admits (perform gc_Termination) asn_DEF_Termination c"
  by (simp add: gc_Termination_def asn_generic_no_constraint_def)

lemma gc_RelevanceDistance_admits [admits]: "admits (perform gc_RelevanceDistance) asn_DEF_RelevanceDistance c"
  by (simp add: gc_RelevanceDistance_def asn_generic_no_constraint_def)

lemma gc_RelevanceTrafficDirection_admits [admits]: "admits (perform gc_RelevanceTrafficDirection) asn_DEF_RelevanceTrafficDirection c"
  by (simp add: gc_RelevanceTrafficDirection_def asn_generic_no_constraint_def)

lemma gc_ValidityDuration_admits [admits]: "admits (perform gc_ValidityDuration) asn_DEF_ValidityDuration None"
  by (simp add: gc_ValidityDuration_def  admits)

lemma gc_TransmissionInterval_admits [admits]: "admits (perform gc_TransmissionInterval) asn_DEF_TransmissionInterval None"
  by (simp add: gc_TransmissionInterval_def  admits)

lemma gc_ManagementContainer_admits [admits]: "admits (perform gc_ManagementContainer) asn_DEF_ManagementContainer None"
  unfolding gc_ManagementContainer_def by (rule admits_SEQUENCE) (simp_all add: asn_DEF_ManagementContainer_def asn_MBR_ManagementContainer_1_def gc_ValidityDuration_def ValidityDuration_constraint_def asn_DFL_9_def check_defs admits)

lemma gc_InformationQuality_admits [admits]: "admits (perform gc_InformationQuality) asn_DEF_InformationQuality None"
  by (simp add: gc_InformationQuality_def  admits)

lemma gc_EventPoint_admits [admits]: "admits (perform gc_EventPoint) asn_DEF_EventPoint None"
  unfolding gc_EventPoint_def by (rule admits_SEQUENCE) (simp_all add: asn_DEF_EventPoint_def asn_MBR_EventPoint_1_def check_defs admits)

lemma gc_EventHistory_admits [admits]: "admits (perform gc_EventHistory) asn_DEF_EventHistory None"
  unfolding gc_EventHistory_def by (rule admits_SEQUENCE_OF) (simp_all add: asn_DEF_EventHistory_def asn_MBR_EventHistory_1_def check_defs admits)

lemma gc_SituationContainer_admits [admits]: "admits (perform gc_SituationContainer) asn_DEF_SituationContainer None"
  unfolding gc_SituationContainer_def by (rule admits_SEQUENCE) (simp_all add: asn_DEF_SituationContainer_def asn_MBR_SituationContainer_1_def check_defs admits)

lemma gc_Traces_admits [admits]: "admits (perform gc_Traces) asn_DEF_Traces None"
  unfolding gc_Traces_def by (rule admits_SEQUENCE_OF) (simp_all add: asn_DEF_Traces_def asn_MBR_Traces_1_def check_defs admits)

lemma gc_RoadType_admits [admits]: "admits (perform gc_RoadType) asn_DEF_RoadType c"
  by (simp add: gc_RoadType_def asn_generic_no_constraint_def)

lemma gc_LocationContainer_admits [admits]: "admits (perform gc_LocationContainer) asn_DEF_LocationContainer None"
  unfolding gc_LocationContainer_def by (rule admits_SEQUENCE) (simp_all add: asn_DEF_LocationContainer_def asn_MBR_LocationContainer_1_def check_defs admits)

lemma gc_HeightLonCarr_admits [admits]: "admits (perform gc_HeightLonCarr) asn_DEF_HeightLonCarr None"
  by (simp add: gc_HeightLonCarr_def  admits)

lemma gc_PosLonCarr_admits [admits]: "admits (perform gc_PosLonCarr) asn_DEF_PosLonCarr None"
  by (simp add: gc_PosLonCarr_def  admits)

lemma gc_PosPillar_admits [admits]: "admits (perform gc_PosPillar) asn_DEF_PosPillar None"
  by (simp add: gc_PosPillar_def  admits)

lemma gc_PositionOfPillars_admits [admits]: "admits (perform gc_PositionOfPillars) asn_DEF_PositionOfPillars None"
  unfolding gc_PositionOfPillars_def by (rule admits_SEQUENCE_OF) (simp_all add: asn_DEF_PositionOfPillars_def asn_MBR_PositionOfPillars_1_def check_defs admits)

lemma gc_PosCentMass_admits [admits]: "admits (perform gc_PosCentMass) asn_DEF_PosCentMass None"
  by (simp add: gc_PosCentMass_def  admits)

lemma gc_WheelBaseVehicle_admits [admits]: "admits (perform gc_WheelBaseVehicle) asn_DEF_WheelBaseVehicle None"
  by (simp add: gc_WheelBaseVehicle_def  admits)

lemma gc_TurningRadius_admits [admits]: "admits (perform gc_TurningRadius) asn_DEF_TurningRadius None"
  by (simp add: gc_TurningRadius_def  admits)

lemma gc_PosFrontAx_admits [admits]: "admits (perform gc_PosFrontAx) asn_DEF_PosFrontAx None"
  by (simp add: gc_PosFrontAx_def  admits)

lemma gc_PositionOfOccupants_admits [admits]: "admits (perform gc_PositionOfOccupants) asn_DEF_PositionOfOccupants None"
  by (simp add: gc_PositionOfOccupants_def  admits)

lemma gc_VehicleMass_admits [admits]: "admits (perform gc_VehicleMass) asn_DEF_VehicleMass None"
  by (simp add: gc_VehicleMass_def  admits)

lemma gc_RequestResponseIndication_admits [admits]: "admits (perform gc_RequestResponseIndication) asn_DEF_RequestResponseIndication c"
  by (simp add: gc_RequestResponseIndication_def asn_generic_no_constraint_def)

lemma gc_ImpactReductionContainer_admits [admits]: "admits (perform gc_ImpactReductionContainer) asn_DEF_ImpactReductionContainer None"
  unfolding gc_ImpactReductionContainer_def by (rule admits_SEQUENCE) (simp_all add: asn_DEF_ImpactReductionContainer_def asn_MBR_ImpactReductionContainer_1_def check_defs admits)

lemma gc_Temperature_admits [admits]: "admits (perform gc_Temperature) asn_DEF_Temperature None"
  by (simp add: gc_Temperature_def  admits)

lemma gc_RestrictedTypes_admits [admits]: "admits (perform gc_RestrictedTypes) asn_DEF_RestrictedTypes None"
  unfolding gc_RestrictedTypes_def by (rule admits_SEQUENCE_OF) (simp_all add: asn_DEF_RestrictedTypes_def asn_MBR_RestrictedTypes_1_def check_defs admits)

lemma gc_ItineraryPath_admits [admits]: "admits (perform gc_ItineraryPath) asn_DEF_ItineraryPath None"
  unfolding gc_ItineraryPath_def by (rule admits_SEQUENCE_OF) (simp_all add: asn_DEF_ItineraryPath_def asn_MBR_ItineraryPath_1_def check_defs admits)

lemma gc_ReferenceDenms_admits [admits]: "admits (perform gc_ReferenceDenms) asn_DEF_ReferenceDenms None"
  unfolding gc_ReferenceDenms_def by (rule admits_SEQUENCE_OF) (simp_all add: asn_DEF_ReferenceDenms_def asn_MBR_ReferenceDenms_1_def check_defs admits)

lemma gc_RoadWorksContainerExtended_admits [admits]: "admits (perform gc_RoadWorksContainerExtended) asn_DEF_RoadWorksContainerExtended None"
  unfolding gc_RoadWorksContainerExtended_def by (rule admits_SEQUENCE) (simp_all add: asn_DEF_RoadWorksContainerExtended_def asn_MBR_RoadWorksContainerExtended_1_def check_defs admits)

lemma gc_PositioningSolutionType_admits [admits]: "admits (perform gc_PositioningSolutionType) asn_DEF_PositioningSolutionType c"
  by (simp add: gc_PositioningSolutionType_def asn_generic_no_constraint_def)

lemma gc_StationarySince_admits [admits]: "admits (perform gc_StationarySince) asn_DEF_StationarySince c"
  by (simp add: gc_StationarySince_def asn_generic_no_constraint_def)

lemma gc_BOOLEAN_admits [admits]: "admits (perform gc_BOOLEAN) td c"
  by (simp add: gc_BOOLEAN_def asn_generic_no_constraint_def)

lemma gc_NumberOfOccupants_admits [admits]: "admits (perform gc_NumberOfOccupants) asn_DEF_NumberOfOccupants None"
  by (simp add: gc_NumberOfOccupants_def  admits)

lemma gc_WMInumber_admits [admits]: "admits (perform gc_WMInumber) asn_DEF_WMInumber None"
  by (simp add: gc_WMInumber_def  admits)

lemma gc_VDS_admits [admits]: "admits (perform gc_VDS) asn_DEF_VDS None"
  by (simp add: gc_VDS_def  admits)

lemma gc_VehicleIdentification_admits [admits]: "admits (perform gc_VehicleIdentification) asn_DEF_VehicleIdentification None"
  unfolding gc_VehicleIdentification_def by (rule admits_SEQUENCE) (simp_all add: asn_DEF_VehicleIdentification_def asn_MBR_VehicleIdentification_1_def check_defs admits)

lemma gc_EnergyStorageType_admits [admits]: "admits (perform gc_EnergyStorageType) asn_DEF_EnergyStorageType None"
  by (simp add: gc_EnergyStorageType_def  admits)

lemma gc_MinuteOfTheYear_admits [admits]: "admits (perform gc_MinuteOfTheYear) asn_DEF_MinuteOfTheYear None"
  by (simp add: gc_MinuteOfTheYear_def  admits)

lemma gc_DescriptiveName_admits [admits]: "admits (perform gc_DescriptiveName) asn_DEF_DescriptiveName None"
  by (simp add: gc_DescriptiveName_def  admits)

lemma gc_RoadRegulatorID_admits [admits]: "admits (perform gc_RoadRegulatorID) asn_DEF_RoadRegulatorID None"
  by (simp add: gc_RoadRegulatorID_def  admits)

lemma gc_IntersectionID_admits [admits]: "admits (perform gc_IntersectionID) asn_DEF_IntersectionID None"
  by (simp add: gc_IntersectionID_def  admits)

lemma gc_IntersectionReferenceID_admits [admits]: "admits (perform gc_IntersectionReferenceID) asn_DEF_IntersectionReferenceID None"
  unfolding gc_IntersectionReferenceID_def by (rule admits_SEQUENCE) (simp_all add: asn_DEF_IntersectionReferenceID_def asn_MBR_IntersectionReferenceID_1_def check_defs admits)

lemma gc_MsgCount_admits [admits]: "admits (perform gc_MsgCount) asn_DEF_MsgCount None"
  by (simp add: gc_MsgCount_def  admits)

lemma gc_IntersectionStatusObject_admits [admits]: "admits (perform gc_IntersectionStatusObject) asn_DEF_IntersectionStatusObject None"
  by (simp add: gc_IntersectionStatusObject_def  admits)

lemma gc_DSecond_admits [admits]: "admits (perform gc_DSecond) asn_DEF_DSecond None"
  by (simp add: gc_DSecond_def  admits)

lemma gc_LaneID_admits [admits]: "admits (perform gc_LaneID) asn_DEF_LaneID None"
  by (simp add: gc_LaneID_def  admits)

lemma gc_EnabledLaneList_admits [admits]: "admits (perform gc_EnabledLaneList) asn_DEF_EnabledLaneList None"
  unfolding gc_EnabledLaneList_def by (rule admits_SEQUENCE_OF) (simp_all add: asn_DEF_EnabledLaneList_def asn_MBR_EnabledLaneList_1_def check_defs admits)

lemma gc_SignalGroupID_admits [admits]: "admits (perform gc_SignalGroupID) asn_DEF_SignalGroupID None"
  by (simp add: gc_SignalGroupID_def  admits)

lemma gc_MovementPhaseState_admits [admits]: "admits (perform gc_MovementPhaseState) asn_DEF_MovementPhaseState c"
  by (simp add: gc_MovementPhaseState_def asn_generic_no_constraint_def)

lemma gc_TimeMark_admits [admits]: "admits (perform gc_TimeMark) asn_DEF_TimeMark None"
  by (simp add: gc_TimeMark_def  admits)

lemma gc_TimeIntervalConfidence_admits [admits]: "admits (perform gc_TimeIntervalConfidence) asn_DEF_TimeIntervalConfidence None"
  by (simp add: gc_TimeIntervalConfidence_def  admits)

lemma gc_TimeChangeDetails_admits [admits]: "admits (perform gc_TimeChangeDetails) asn_DEF_TimeChangeDetails None"
  unfolding gc_TimeChangeDetails_def by (rule admits_SEQUENCE) (simp_all add: asn_DEF_TimeChangeDetails_def asn_MBR_TimeChangeDetails_1_def check_defs admits)

lemma gc_AdvisorySpeedType_admits [admits]: "admits (perform gc_AdvisorySpeedType) asn_DEF_AdvisorySpeedType c"
  by (simp add: gc_AdvisorySpeedType_def asn_generic_no_constraint_def)

lemma gc_SpeedAdvice_admits [admits]: "admits (perform gc_SpeedAdvice) asn_DEF_SpeedAdvice None"
  by (simp add: gc_SpeedAdvice_def  admits)

lemma gc_ZoneLength_admits [admits]: "admits (perform gc_ZoneLength) asn_DEF_ZoneLength None"
  by (simp add: gc_ZoneLength_def  admits)

lemma gc_RestrictionClassID_admits [admits]: "admits (perform gc_RestrictionClassID) asn_DEF_RestrictionClassID None"
  by (simp add: gc_RestrictionClassID_def  admits)

lemma gc_RegionId_admits [admits]: "admits (perform gc_RegionId) asn_DEF_RegionId None"
  by (simp add: gc_RegionId_def  admits)

lemma gc_regExtValue_3_admits [admits]: "admits (perform gc_regExtValue_3) asn_DEF_regExtValue_3 None"
  by (simp add: admits_def asn_DEF_regExtValue_3_def uper_ok_simple simple_ok_def)

lemma memb_regExtValue_constraint_1_admits [admits]: "admits (memb_regExtValue_constraint_1 (perform gc_regExtValue_3)) asn_DEF_regExtValue_3 (Some asn_PER_memb_regExtValue_constr_3)"
  by (simp add: admits_def asn_DEF_regExtValue_3_def uper_ok_simple simple_ok_def)

lemma gc_RegionalExtension_369P0_admits [admits]: "admits (perform gc_RegionalExtension_369P0) asn_DEF_RegionalExtension_369P0 None"
  unfolding gc_RegionalExtension_369P0_def by (rule admits_SEQUENCE) (simp_all add: asn_DEF_RegionalExtension_369P0_def asn_MBR_RegionalExtension_369P0_1_def check_defs admits)

lemma gc_regional_7_AdvisorySpeed_admits [admits]: "admits (perform gc_regional_7_AdvisorySpeed) asn_DEF_regional_7_AdvisorySpeed None"
  unfolding gc_regional_7_AdvisorySpeed_def by (rule admits_SEQUENCE_OF) (simp_all add: asn_DEF_regional_7_AdvisorySpeed_def asn_MBR_regional_7_AdvisorySpeed_def check_defs admits)

lemma gc_regional_7_AdvisorySpeed_admits_size: "admits (perform gc_regional_7_AdvisorySpeed) asn_DEF_regional_7_AdvisorySpeed (Some asn_PER_memb_regional_constr_7_AdvisorySpeed)"
  unfolding gc_regional_7_AdvisorySpeed_def by (rule admits_SEQUENCE_OF) (simp_all add: asn_DEF_regional_7_AdvisorySpeed_def asn_MBR_regional_7_AdvisorySpeed_def check_defs admits)

lemma memb_regional_constraint_1_AdvisorySpeed_admits [admits]: "admits (memb_regional_constraint_1_AdvisorySpeed (perform gc_regional_7_AdvisorySpeed)) asn_DEF_regional_7_AdvisorySpeed (Some asn_PER_memb_regional_constr_7_AdvisorySpeed)"
  by (rule admits_sized [where ct = "pc_size asn_PER_memb_regional_constr_7_AdvisorySpeed", OF _ _ _ gc_regional_7_AdvisorySpeed_admits_size])
    (simp_all add: memb_regional_constraint_1_AdvisorySpeed_def asn_DEF_regional_7_AdvisorySpeed_def asn_PER_memb_regional_constr_7_AdvisorySpeed_def check_defs)

lemma gc_AdvisorySpeed_admits [admits]: "admits (perform gc_AdvisorySpeed) asn_DEF_AdvisorySpeed None"
  unfolding gc_AdvisorySpeed_def by (rule admits_SEQUENCE) (simp_all add: asn_DEF_AdvisorySpeed_def asn_MBR_AdvisorySpeed_1_def check_defs admits)

lemma gc_AdvisorySpeedList_admits [admits]: "admits (perform gc_AdvisorySpeedList) asn_DEF_AdvisorySpeedList None"
  unfolding gc_AdvisorySpeedList_def by (rule admits_SEQUENCE_OF) (simp_all add: asn_DEF_AdvisorySpeedList_def asn_MBR_AdvisorySpeedList_1_def check_defs admits)

lemma gc_regional_5_MovementEvent_admits [admits]: "admits (perform gc_regional_5_MovementEvent) asn_DEF_regional_5_MovementEvent None"
  unfolding gc_regional_5_MovementEvent_def by (rule admits_SEQUENCE_OF) (simp_all add: asn_DEF_regional_5_MovementEvent_def asn_MBR_regional_5_MovementEvent_def check_defs admits)

lemma gc_regional_5_MovementEvent_admits_size: "admits (perform gc_regional_5_MovementEvent) asn_DEF_regional_5_MovementEvent (Some asn_PER_memb_regional_constr_5_MovementEvent)"
  unfolding gc_regional_5_MovementEvent_def by (rule admits_SEQUENCE_OF) (simp_all add: asn_DEF_regional_5_MovementEvent_def asn_MBR_regional_5_MovementEvent_def check_defs admits)

lemma memb_regional_constraint_1_MovementEvent_admits [admits]: "admits (memb_regional_constraint_1_MovementEvent (perform gc_regional_5_MovementEvent)) asn_DEF_regional_5_MovementEvent (Some asn_PER_memb_regional_constr_5_MovementEvent)"
  by (rule admits_sized [where ct = "pc_size asn_PER_memb_regional_constr_5_MovementEvent", OF _ _ _ gc_regional_5_MovementEvent_admits_size])
    (simp_all add: memb_regional_constraint_1_MovementEvent_def asn_DEF_regional_5_MovementEvent_def asn_PER_memb_regional_constr_5_MovementEvent_def check_defs)

lemma gc_MovementEvent_admits [admits]: "admits (perform gc_MovementEvent) asn_DEF_MovementEvent None"
  unfolding gc_MovementEvent_def by (rule admits_SEQUENCE) (simp_all add: asn_DEF_MovementEvent_def asn_MBR_MovementEvent_1_def check_defs admits)

lemma gc_MovementEventList_admits [admits]: "admits (perform gc_MovementEventList) asn_DEF_MovementEventList None"
  unfolding gc_MovementEventList_def by (rule admits_SEQUENCE_OF) (simp_all add: asn_DEF_MovementEventList_def asn_MBR_MovementEventList_1_def check_defs admits)

lemma gc_LaneConnectionID_admits [admits]: "admits (perform gc_LaneConnectionID) asn_DEF_LaneConnectionID None"
  by (simp add: gc_LaneConnectionID_def  admits)

lemma gc_WaitOnStopline_admits [admits]: "admits (perform gc_WaitOnStopline) asn_DEF_WaitOnStopline c"
  by (simp add: gc_WaitOnStopline_def asn_generic_no_constraint_def)

lemma gc_PedestrianBicycleDetect_admits [admits]: "admits (perform gc_PedestrianBicycleDetect) asn_DEF_PedestrianBicycleDetect c"
  by (simp add: gc_PedestrianBicycleDetect_def asn_generic_no_constraint_def)

lemma gc_regional_7_ConnectionManeuverAssist_admits [admits]: "admits (perform gc_regional_7_ConnectionManeuverAssist) asn_DEF_regional_7_ConnectionManeuverAssist None"
  unfolding gc_regional_7_ConnectionManeuverAssist_def by (rule admits_SEQUENCE_OF) (simp_all add: asn_DEF_regional_7_ConnectionManeuverAssist_def asn_MBR_regional_7_ConnectionManeuverAssist_def check_defs admits)

lemma gc_regional_7_ConnectionManeuverAssist_admits_size: "admits (perform gc_regional_7_ConnectionManeuverAssist) asn_DEF_regional_7_ConnectionManeuverAssist (Some asn_PER_memb_regional_constr_7_ConnectionManeuverAssist)"
  unfolding gc_regional_7_ConnectionManeuverAssist_def by (rule admits_SEQUENCE_OF) (simp_all add: asn_DEF_regional_7_ConnectionManeuverAssist_def asn_MBR_regional_7_ConnectionManeuverAssist_def check_defs admits)

lemma memb_regional_constraint_1_ConnectionManeuverAssist_admits [admits]: "admits (memb_regional_constraint_1_ConnectionManeuverAssist (perform gc_regional_7_ConnectionManeuverAssist)) asn_DEF_regional_7_ConnectionManeuverAssist (Some asn_PER_memb_regional_constr_7_ConnectionManeuverAssist)"
  by (rule admits_sized [where ct = "pc_size asn_PER_memb_regional_constr_7_ConnectionManeuverAssist", OF _ _ _ gc_regional_7_ConnectionManeuverAssist_admits_size])
    (simp_all add: memb_regional_constraint_1_ConnectionManeuverAssist_def asn_DEF_regional_7_ConnectionManeuverAssist_def asn_PER_memb_regional_constr_7_ConnectionManeuverAssist_def check_defs)

lemma gc_ConnectionManeuverAssist_admits [admits]: "admits (perform gc_ConnectionManeuverAssist) asn_DEF_ConnectionManeuverAssist None"
  unfolding gc_ConnectionManeuverAssist_def by (rule admits_SEQUENCE) (simp_all add: asn_DEF_ConnectionManeuverAssist_def asn_MBR_ConnectionManeuverAssist_1_def check_defs admits)

lemma gc_ManeuverAssistList_admits [admits]: "admits (perform gc_ManeuverAssistList) asn_DEF_ManeuverAssistList None"
  unfolding gc_ManeuverAssistList_def by (rule admits_SEQUENCE_OF) (simp_all add: asn_DEF_ManeuverAssistList_def asn_MBR_ManeuverAssistList_1_def check_defs admits)

lemma gc_regional_6_MovementState_admits [admits]: "admits (perform gc_regional_6_MovementState) asn_DEF_regional_6_MovementState None"
  unfolding gc_regional_6_MovementState_def by (rule admits_SEQUENCE_OF) (simp_all add: asn_DEF_regional_6_MovementState_def asn_MBR_regional_6_MovementState_def check_defs admits)

lemma gc_regional_6_MovementState_admits_size: "admits (perform gc_regional_6_MovementState) asn_DEF_regional_6_MovementState (Some asn_PER_memb_regional_constr_6_MovementState)"
  unfolding gc_regional_6_MovementState_def by (rule admits_SEQUENCE_OF) (simp_all add: asn_DEF_regional_6_MovementState_def asn_MBR_regional_6_MovementState_def check_defs admits)

lemma memb_regional_constraint_1_MovementState_admits [admits]: "admits (memb_regional_constraint_1_MovementState (perform gc_regional_6_MovementState)) asn_DEF_regional_6_MovementState (Some asn_PER_memb_regional_constr_6_MovementState)"
  by (rule admits_sized [where ct = "pc_size asn_PER_memb_regional_constr_6_MovementState", OF _ _ _ gc_regional_6_MovementState_admits_size])
    (simp_all add: memb_regional_constraint_1_MovementState_def asn_DEF_regional_6_MovementState_def asn_PER_memb_regional_constr_6_MovementState_def check_defs)

lemma gc_MovementState_admits [admits]: "admits (perform gc_MovementState) asn_DEF_MovementState None"
  unfolding gc_MovementState_def by (rule admits_SEQUENCE) (simp_all add: asn_DEF_MovementState_def asn_MBR_MovementState_1_def check_defs admits)

lemma gc_MovementList_admits [admits]: "admits (perform gc_MovementList) asn_DEF_MovementList None"
  unfolding gc_MovementList_def by (rule admits_SEQUENCE_OF) (simp_all add: asn_DEF_MovementList_def asn_MBR_MovementList_1_def check_defs admits)

lemma gc_regional_11_IntersectionState_admits [admits]: "admits (perform gc_regional_11_IntersectionState) asn_DEF_regional_11_IntersectionState None"
  unfolding gc_regional_11_IntersectionState_def by (rule admits_SEQUENCE_OF) (simp_all add: asn_DEF_regional_11_IntersectionState_def asn_MBR_regional_11_IntersectionState_def check_defs admits)

lemma gc_regional_11_IntersectionState_admits_size: "admits (perform gc_regional_11_IntersectionState) asn_DEF_regional_11_IntersectionState (Some asn_PER_memb_regional_constr_11_IntersectionState)"
  unfolding gc_regional_11_IntersectionState_def by (rule admits_SEQUENCE_OF) (simp_all add: asn_DEF_regional_11_IntersectionState_def asn_MBR_regional_11_IntersectionState_def check_defs admits)

lemma memb_regional_constraint_1_IntersectionState_admits [admits]: "admits (memb_regional_constraint_1_IntersectionState (perform gc_regional_11_IntersectionState)) asn_DEF_regional_11_IntersectionState (Some asn_PER_memb_regional_constr_11_IntersectionState)"
  by (rule admits_sized [where ct = "pc_size asn_PER_memb_regional_constr_11_IntersectionState", OF _ _ _ gc_regional_11_IntersectionState_admits_size])
    (simp_all add: memb_regional_constraint_1_IntersectionState_def asn_DEF_regional_11_IntersectionState_def asn_PER_memb_regional_constr_11_IntersectionState_def check_defs)

lemma gc_IntersectionState_admits [admits]: "admits (perform gc_IntersectionState) asn_DEF_IntersectionState None"
  unfolding gc_IntersectionState_def by (rule admits_SEQUENCE) (simp_all add: asn_DEF_IntersectionState_def asn_MBR_IntersectionState_1_def check_defs admits)

lemma gc_IntersectionStateList_admits [admits]: "admits (perform gc_IntersectionStateList) asn_DEF_IntersectionStateList None"
  unfolding gc_IntersectionStateList_def by (rule admits_SEQUENCE_OF) (simp_all add: asn_DEF_IntersectionStateList_def asn_MBR_IntersectionStateList_1_def check_defs admits)

lemma gc_regional_5_SPAT_admits [admits]: "admits (perform gc_regional_5_SPAT) asn_DEF_regional_5_SPAT None"
  unfolding gc_regional_5_SPAT_def by (rule admits_SEQUENCE_OF) (simp_all add: asn_DEF_regional_5_SPAT_def asn_MBR_regional_5_SPAT_def check_defs admits)

lemma gc_regional_5_SPAT_admits_size: "admits (perform gc_regional_5_SPAT) asn_DEF_regional_5_SPAT (Some asn_PER_memb_regional_constr_5_SPAT)"
  unfolding gc_regional_5_SPAT_def by (rule admits_SEQUENCE_OF) (simp_all add: asn_DEF_regional_5_SPAT_def asn_MBR_regional_5_SPAT_def check_defs admits)

lemma memb_regional_constraint_1_SPAT_admits [admits]: "admits (memb_regional_constraint_1_SPAT (perform gc_regional_5_SPAT)) asn_DEF_regional_5_SPAT (Some asn_PER_memb_regional_constr_5_SPAT)"
  by (rule admits_sized [where ct = "pc_size asn_PER_memb_regional_constr_5_SPAT", OF _ _ _ gc_regional_5_SPAT_admits_size])
    (simp_all add: memb_regional_constraint_1_SPAT_def asn_DEF_regional_5_SPAT_def asn_PER_memb_regional_constr_5_SPAT_def check_defs)

lemma gc_SPAT_admits [admits]: "admits (perform gc_SPAT) asn_DEF_SPAT None"
  unfolding gc_SPAT_def by (rule admits_SEQUENCE) (simp_all add: asn_DEF_SPAT_def asn_MBR_SPAT_1_def check_defs admits)

lemma gc_SPATEM_admits [admits]: "admits (perform gc_SPATEM) asn_DEF_SPATEM None"
  unfolding gc_SPATEM_def by (rule admits_SEQUENCE) (simp_all add: asn_DEF_SPATEM_def asn_MBR_SPATEM_1_def check_defs admits)

lemma gc_LayerType_admits [admits]: "admits (perform gc_LayerType) asn_DEF_LayerType c"
  by (simp add: gc_LayerType_def asn_generic_no_constraint_def)

lemma gc_LayerID_admits [admits]: "admits (perform gc_LayerID) asn_DEF_LayerID None"
  by (simp add: gc_LayerID_def  admits)

lemma gc_Elevation_admits [admits]: "admits (perform gc_Elevation) asn_DEF_Elevation None"
  by (simp add: gc_Elevation_def  admits)

lemma gc_regional_5_Position3D_admits [admits]: "admits (perform gc_regional_5_Position3D) asn_DEF_regional_5_Position3D None"
  unfolding gc_regional_5_Position3D_def by (rule admits_SEQUENCE_OF) (simp_all add: asn_DEF_regional_5_Position3D_def asn_MBR_regional_5_Position3D_def check_defs admits)

lemma gc_regional_5_Position3D_admits_size: "admits (perform gc_regional_5_Position3D) asn_DEF_regional_5_Position3D (Some asn_PER_memb_regional_constr_5_Position3D)"
  unfolding gc_regional_5_Position3D_def by (rule admits_SEQUENCE_OF) (simp_all add: asn_DEF_regional_5_Position3D_def asn_MBR_regional_5_Position3D_def check_defs admits)

lemma memb_regional_constraint_1_Position3D_admits [admits]: "admits (memb_regional_constraint_1_Position3D (perform gc_regional_5_Position3D)) asn_DEF_regional_5_Position3D (Some asn_PER_memb_regional_constr_5_Position3D)"
  by (rule admits_sized [where ct = "pc_size asn_PER_memb_regional_constr_5_Position3D", OF _ _ _ gc_regional_5_Position3D_admits_size])
    (simp_all add: memb_regional_constraint_1_Position3D_def asn_DEF_regional_5_Position3D_def asn_PER_memb_regional_constr_5_Position3D_def check_defs)

lemma gc_Position3D_admits [admits]: "admits (perform gc_Position3D) asn_DEF_Position3D None"
  unfolding gc_Position3D_def by (rule admits_SEQUENCE) (simp_all add: asn_DEF_Position3D_def asn_MBR_Position3D_1_def check_defs admits)

lemma gc_LaneWidth_admits [admits]: "admits (perform gc_LaneWidth) asn_DEF_LaneWidth None"
  by (simp add: gc_LaneWidth_def  admits)

lemma gc_SpeedLimitType_admits [admits]: "admits (perform gc_SpeedLimitType) asn_DEF_SpeedLimitType c"
  by (simp add: gc_SpeedLimitType_def asn_generic_no_constraint_def)

lemma gc_Velocity_admits [admits]: "admits (perform gc_Velocity) asn_DEF_Velocity None"
  by (simp add: gc_Velocity_def  admits)

lemma gc_RegulatorySpeedLimit_admits [admits]: "admits (perform gc_RegulatorySpeedLimit) asn_DEF_RegulatorySpeedLimit None"
  unfolding gc_RegulatorySpeedLimit_def by (rule admits_SEQUENCE) (simp_all add: asn_DEF_RegulatorySpeedLimit_def asn_MBR_RegulatorySpeedLimit_1_def check_defs admits)

lemma gc_SpeedLimitList_admits [admits]: "admits (perform gc_SpeedLimitList) asn_DEF_SpeedLimitList None"
  unfolding gc_SpeedLimitList_def by (rule admits_SEQUENCE_OF) (simp_all add: asn_DEF_SpeedLimitList_def asn_MBR_SpeedLimitList_1_def check_defs admits)

lemma gc_ApproachID_admits [admits]: "admits (perform gc_ApproachID) asn_DEF_ApproachID None"
  by (simp add: gc_ApproachID_def  admits)

lemma gc_LaneDirection_admits [admits]: "admits (perform gc_LaneDirection) asn_DEF_LaneDirection None"
  by (simp add: gc_LaneDirection_def  admits)

lemma gc_LaneSharing_admits [admits]: "admits (perform gc_LaneSharing) asn_DEF_LaneSharing None"
  by (simp add: gc_LaneSharing_def  admits)

lemma gc_LaneAttributes_Vehicle_admits [admits]: "admits (perform gc_LaneAttributes_Vehicle) asn_DEF_LaneAttributes_Vehicle None"
  by (simp add: gc_LaneAttributes_Vehicle_def  admits)

lemma gc_LaneAttributes_Crosswalk_admits [admits]: "admits (perform gc_LaneAttributes_Crosswalk) asn_DEF_LaneAttributes_Crosswalk None"
  by (simp add: gc_LaneAttributes_Crosswalk_def  admits)

lemma gc_LaneAttributes_Bike_admits [admits]: "admits (perform gc_LaneAttributes_Bike) asn_DEF_LaneAttributes_Bike None"
  by (simp add: gc_LaneAttributes_Bike_def  admits)

lemma gc_LaneAttributes_Sidewalk_admits [admits]: "admits (perform gc_LaneAttributes_Sidewalk) asn_DEF_LaneAttributes_Sidewalk None"
  by (simp add: gc_LaneAttributes_Sidewalk_def  admits)

lemma gc_LaneAttributes_Barrier_admits [admits]: "admits (perform gc_LaneAttributes_Barrier) asn_DEF_LaneAttributes_Barrier None"
  by (simp add: gc_LaneAttributes_Barrier_def  admits)

lemma gc_LaneAttributes_Striping_admits [admits]: "admits (perform gc_LaneAttributes_Striping) asn_DEF_LaneAttributes_Striping None"
  by (simp add: gc_LaneAttributes_Striping_def  admits)

lemma gc_LaneAttributes_TrackedVehicle_admits [admits]: "admits (perform gc_LaneAttributes_TrackedVehicle) asn_DEF_LaneAttributes_TrackedVehicle None"
  by (simp add: gc_LaneAttributes_TrackedVehicle_def  admits)

lemma gc_LaneAttributes_Parking_admits [admits]: "admits (perform gc_LaneAttributes_Parking) asn_DEF_LaneAttributes_Parking None"
  by (simp add: gc_LaneAttributes_Parking_def  admits)

lemma gc_LaneTypeAttributes_admits [admits]: "admits (perform gc_LaneTypeAttributes) asn_DEF_LaneTypeAttributes None"
  unfolding gc_LaneTypeAttributes_def by (rule admits_CHOICE) (simp_all add: asn_DEF_LaneTypeAttributes_def asn_MBR_LaneTypeAttributes_1_def check_defs admits)

lemma gc_LaneAttributes_admits [admits]: "admits (perform gc_LaneAttributes) asn_DEF_LaneAttributes None"
  unfolding gc_LaneAttributes_def by (rule admits_SEQUENCE) (simp_all add: asn_DEF_LaneAttributes_def asn_MBR_LaneAttributes_1_def check_defs admits)

lemma gc_AllowedManeuvers_admits [admits]: "admits (perform gc_AllowedManeuvers) asn_DEF_AllowedManeuvers None"
  by (simp add: gc_AllowedManeuvers_def  admits)

lemma gc_Offset_B10_admits [admits]: "admits (perform gc_Offset_B10) asn_DEF_Offset_B10 None"
  by (simp add: gc_Offset_B10_def  admits)

lemma gc_Node_XY_20b_admits [admits]: "admits (perform gc_Node_XY_20b) asn_DEF_Node_XY_20b None"
  unfolding gc_Node_XY_20b_def by (rule admits_SEQUENCE) (simp_all add: asn_DEF_Node_XY_20b_def asn_MBR_Node_XY_20b_1_def check_defs admits)

lemma gc_Offset_B11_admits [admits]: "admits (perform gc_Offset_B11) asn_DEF_Offset_B11 None"
  by (simp add: gc_Offset_B11_def  admits)

lemma gc_Node_XY_22b_admits [admits]: "admits (perform gc_Node_XY_22b) asn_DEF_Node_XY_22b None"
  unfolding gc_Node_XY_22b_def by (rule admits_SEQUENCE) (simp_all add: asn_DEF_Node_XY_22b_def asn_MBR_Node_XY_22b_1_def check_defs admits)

lemma gc_Offset_B12_admits [admits]: "admits (perform gc_Offset_B12) asn_DEF_Offset_B12 None"
  by (simp add: gc_Offset_B12_def  admits)

lemma gc_Node_XY_24b_admits [admits]: "admits (perform gc_Node_XY_24b) asn_DEF_Node_XY_24b None"
  unfolding gc_Node_XY_24b_def by (rule admits_SEQUENCE) (simp_all add: asn_DEF_Node_XY_24b_def asn_MBR_Node_XY_24b_1_def check_defs admits)

lemma gc_Offset_B13_admits [admits]: "admits (perform gc_Offset_B13) asn_DEF_Offset_B13 None"
  by (simp add: gc_Offset_B13_def  admits)

lemma gc_Node_XY_26b_admits [admits]: "admits (perform gc_Node_XY_26b) asn_DEF_Node_XY_26b None"
  unfolding gc_Node_XY_26b_def by (rule admits_SEQUENCE) (simp_all add: asn_DEF_Node_XY_26b_def asn_MBR_Node_XY_26b_1_def check_defs admits)

lemma gc_Offset_B14_admits [admits]: "admits (perform gc_Offset_B14) asn_DEF_Offset_B14 None"
  by (simp add: gc_Offset_B14_def  admits)

lemma gc_Node_XY_28b_admits [admits]: "admits (perform gc_Node_XY_28b) asn_DEF_Node_XY_28b None"
  unfolding gc_Node_XY_28b_def by (rule admits_SEQUENCE) (simp_all add: asn_DEF_Node_XY_28b_def asn_MBR_Node_XY_28b_1_def check_defs admits)

lemma gc_Offset_B16_admits [admits]: "admits (perform gc_Offset_B16) asn_DEF_Offset_B16 None"
  by (simp add: gc_Offset_B16_def  admits)

lemma gc_Node_XY_32b_admits [admits]: "admits (perform gc_Node_XY_32b) asn_DEF_Node_XY_32b None"
  unfolding gc_Node_XY_32b_def by (rule admits_SEQUENCE) (simp_all add: asn_DEF_Node_XY_32b_def asn_MBR_Node_XY_32b_1_def check_defs admits)

lemma gc_Node_LLmD_64b_admits [admits]: "admits (perform gc_Node_LLmD_64b) asn_DEF_Node_LLmD_64b None"
  unfolding gc_Node_LLmD_64b_def by (rule admits_SEQUENCE) (simp_all add: asn_DEF_Node_LLmD_64b_def asn_MBR_Node_LLmD_64b_1_def check_defs admits)

lemma gc_NodeOffsetPointXY_admits [admits]: "admits (perform gc_NodeOffsetPointXY) asn_DEF_NodeOffsetPointXY None"
  unfolding gc_NodeOffsetPointXY_def by (rule admits_CHOICE) (simp_all add: asn_DEF_NodeOffsetPointXY_def asn_MBR_NodeOffsetPointXY_1_def check_defs admits)

lemma gc_NodeAttributeXY_admits [admits]: "admits (perform gc_NodeAttributeXY) asn_DEF_NodeAttributeXY c"
  by (simp add: gc_NodeAttributeXY_def asn_generic_no_constraint_def)

lemma gc_NodeAttributeXYList_admits [admits]: "admits (perform gc_NodeAttributeXYList) asn_DEF_NodeAttributeXYList None"
  unfolding gc_NodeAttributeXYList_def by (rule admits_SEQUENCE_OF) (simp_all add: asn_DEF_NodeAttributeXYList_def asn_MBR_NodeAttributeXYList_1_def check_defs admits)

lemma gc_SegmentAttributeXY_admits [admits]: "admits (perform gc_SegmentAttributeXY) asn_DEF_SegmentAttributeXY c"
  by (simp add: gc_SegmentAttributeXY_def asn_generic_no_constraint_def)

lemma gc_SegmentAttributeXYList_admits [admits]: "admits (perform gc_SegmentAttributeXYList) asn_DEF_SegmentAttributeXYList None"
  unfolding gc_SegmentAttributeXYList_def by (rule admits_SEQUENCE_OF) (simp_all add: asn_DEF_SegmentAttributeXYList_def asn_MBR_SegmentAttributeXYList_1_def check_defs admits)

lemma gc_DeltaAngle_admits [admits]: "admits (perform gc_DeltaAngle) asn_DEF_DeltaAngle None"
  by (simp add: gc_DeltaAngle_def  admits)

lemma gc_RoadwayCrownAngle_admits [admits]: "admits (perform gc_RoadwayCrownAngle) asn_DEF_RoadwayCrownAngle None"
  by (simp add: gc_RoadwayCrownAngle_def  admits)

lemma gc_MergeDivergeNodeAngle_admits [admits]: "admits (perform gc_MergeDivergeNodeAngle) asn_DEF_MergeDivergeNodeAngle None"
  by (simp add: gc_MergeDivergeNodeAngle_def  admits)

lemma gc_regional_8_LaneDataAttribute_admits [admits]: "admits (perform gc_regional_8_LaneDataAttribute) asn_DEF_regional_8_LaneDataAttribute None"
  unfolding gc_regional_8_LaneDataAttribute_def by (rule admits_SEQUENCE_OF) (simp_all add: asn_DEF_regional_8_LaneDataAttribute_def asn_MBR_regional_8_LaneDataAttribute_def check_defs admits)

lemma gc_regional_8_LaneDataAttribute_admits_size: "admits (perform gc_regional_8_LaneDataAttribute) asn_DEF_regional_8_LaneDataAttribute (Some asn_PER_memb_regional_constr_8_LaneDataAttribute)"
  unfolding gc_regional_8_LaneDataAttribute_def by (rule admits_SEQUENCE_OF) (simp_all add: asn_DEF_regional_8_LaneDataAttribute_def asn_MBR_regional_8_LaneDataAttribute_def check_defs admits)

lemma memb_regional_constraint_1_LaneDataAttribute_admits [admits]: "admits (memb_regional_constraint_1_LaneDataAttribute (perform gc_regional_8_LaneDataAttribute)) asn_DEF_regional_8_LaneDataAttribute (Some asn_PER_memb_regional_constr_8_LaneDataAttribute)"
  by (rule admits_sized [where ct = "pc_size asn_PER_memb_regional_constr_8_LaneDataAttribute", OF _ _ _ gc_regional_8_LaneDataAttribute_admits_size])
    (simp_all add: memb_regional_constraint_1_LaneDataAttribute_def asn_DEF_regional_8_LaneDataAttribute_def asn_PER_memb_regional_constr_8_LaneDataAttribute_def check_defs)

lemma gc_LaneDataAttribute_admits [admits]: "admits (perform gc_LaneDataAttribute) asn_DEF_LaneDataAttribute None"
  unfolding gc_LaneDataAttribute_def by (rule admits_CHOICE) (simp_all add: asn_DEF_LaneDataAttribute_def asn_MBR_LaneDataAttribute_1_def check_defs admits)

lemma gc_LaneDataAttributeList_admits [admits]: "admits (perform gc_LaneDataAttributeList) asn_DEF_LaneDataAttributeList None"
  unfolding gc_LaneDataAttributeList_def by (rule admits_SEQUENCE_OF) (simp_all add: asn_DEF_LaneDataAttributeList_def asn_MBR_LaneDataAttributeList_1_def check_defs admits)

lemma gc_regional_8_NodeAttributeSetXY_admits [admits]: "admits (perform gc_regional_8_NodeAttributeSetXY) asn_DEF_regional_8_NodeAttributeSetXY None"
  unfolding gc_regional_8_NodeAttributeSetXY_def by (rule admits_SEQUENCE_OF) (simp_all add: asn_DEF_regional_8_NodeAttributeSetXY_def asn_MBR_regional_8_NodeAttributeSetXY_def check_defs admits)

lemma gc_regional_8_NodeAttributeSetXY_admits_size: "admits (perform gc_regional_8_NodeAttributeSetXY) asn_DEF_regional_8_NodeAttributeSetXY (Some asn_PER_memb_regional_constr_8_NodeAttributeSetXY)"
  unfolding gc_regional_8_NodeAttributeSetXY_def by (rule admits_SEQUENCE_OF) (simp_all add: asn_DEF_regional_8_NodeAttributeSetXY_def asn_MBR_regional_8_NodeAttributeSetXY_def check_defs admits)

lemma memb_regional_constraint_1_NodeAttributeSetXY_admits [admits]: "admits (memb_regional_constraint_1_NodeAttributeSetXY (perform gc_regional_8_NodeAttributeSetXY)) asn_DEF_regional_8_NodeAttributeSetXY (Some asn_PER_memb_regional_constr_8_NodeAttributeSetXY)"
  by (rule admits_sized [where ct = "pc_size asn_PER_memb_regional_constr_8_NodeAttributeSetXY", OF _ _ _ gc_regional_8_NodeAttributeSetXY_admits_size])
    (simp_all add: memb_regional_constraint_1_NodeAttributeSetXY_def asn_DEF_regional_8_NodeAttributeSetXY_def asn_PER_memb_regional_constr_8_NodeAttributeSetXY_def check_defs)

lemma gc_NodeAttributeSetXY_admits [admits]: "admits (perform gc_NodeAttributeSetXY) asn_DEF_NodeAttributeSetXY None"
  unfolding gc_NodeAttributeSetXY_def by (rule admits_SEQUENCE) (simp_all add: asn_DEF_NodeAttributeSetXY_def asn_MBR_NodeAttributeSetXY_1_def check_defs admits)

lemma gc_NodeXY_admits [admits]: "admits (perform gc_NodeXY) asn_DEF_NodeXY None"
  unfolding gc_NodeXY_def by (rule admits_SEQUENCE) (simp_all add: asn_DEF_NodeXY_def asn_MBR_NodeXY_1_def check_defs admits)

lemma gc_NodeSetXY_admits [admits]: "admits (perform gc_NodeSetXY) asn_DEF_NodeSetXY None"
  unfolding gc_NodeSetXY_def by (rule admits_SEQUENCE_OF) (simp_all add: asn_DEF_NodeSetXY_def asn_MBR_NodeSetXY_1_def check_defs admits)

lemma gc_DrivenLineOffsetSm_admits [admits]: "admits (perform gc_DrivenLineOffsetSm) asn_DEF_DrivenLineOffsetSm None"
  by (simp add: gc_DrivenLineOffsetSm_def  admits)

lemma gc_DrivenLineOffsetLg_admits [admits]: "admits (perform gc_DrivenLineOffsetLg) asn_DEF_DrivenLineOffsetLg None"
  by (simp add: gc_DrivenLineOffsetLg_def  admits)

lemma gc_offsetXaxis_3_admits [admits]: "admits (perform gc_offsetXaxis_3) asn_DEF_offsetXaxis_3 None"
  unfolding gc_offsetXaxis_3_def by (rule admits_CHOICE) (simp_all add: asn_DEF_offsetXaxis_3_def asn_MBR_offsetXaxis_3_def check_defs admits)

lemma gc_offsetYaxis_6_admits [admits]: "admits (perform gc_offsetYaxis_6) asn_DEF_offsetYaxis_6 None"
  unfolding gc_offsetYaxis_6_def by (rule admits_CHOICE) (simp_all add: asn_DEF_offsetYaxis_6_def asn_MBR_offsetYaxis_6_def check_defs admits)

lemma gc_Angle_admits [admits]: "admits (perform gc_Angle) asn_DEF_Angle None"
  by (simp add: gc_Angle_def  admits)

lemma gc_Scale_B12_admits [admits]: "admits (perform gc_Scale_B12) asn_DEF_Scale_B12 None"
  by (simp add: gc_Scale_B12_def  admits)

lemma gc_regional_12_admits [admits]: "admits (perform gc_regional_12) asn_DEF_regional_12 None"
  unfolding gc_regional_12_def by (rule admits_SEQUENCE_OF) (simp_all add: asn_DEF_regional_12_def asn_MBR_regional_12_def check_defs admits)

lemma gc_regional_12_admits_size: "admits (perform gc_regional_12) asn_DEF_regional_12 (Some asn_PER_memb_regional_constr_12)"
  unfolding gc_regional_12_def by (rule admits_SEQUENCE_OF) (simp_all add: asn_DEF_regional_12_def asn_MBR_regional_12_def check_defs admits)

lemma memb_regional_constraint_1_ComputedLane_admits [admits]: "admits (memb_regional_constraint_1_ComputedLane (perform gc_regional_12)) asn_DEF_regional_12 (Some asn_PER_memb_regional_constr_12)"
  by (rule admits_sized [where ct = "pc_size asn_PER_memb_regional_constr_12", OF _ _ _ gc_regional_12_admits_size])
    (simp_all add: memb_regional_constraint_1_ComputedLane_def asn_DEF_regional_12_def asn_PER_memb_regional_constr_12_def check_defs)

lemma gc_ComputedLane_admits [admits]: "admits (perform gc_ComputedLane) asn_DEF_ComputedLane None"
  unfolding gc_ComputedLane_def by (rule admits_SEQUENCE) (simp_all add: asn_DEF_ComputedLane_def asn_MBR_ComputedLane_1_def check_defs admits)

lemma gc_NodeListXY_admits [admits]: "admits (perform gc_NodeListXY) asn_DEF_NodeListXY None"
  unfolding gc_NodeListXY_def by (rule admits_CHOICE) (simp_all add: asn_DEF_NodeListXY_def asn_MBR_NodeListXY_1_def check_defs admits)

lemma gc_ConnectingLane_admits [admits]: "admits (perform gc_ConnectingLane) asn_DEF_ConnectingLane None"
  unfolding gc_ConnectingLane_def by (rule admits_SEQUENCE) (simp_all add: asn_DEF_ConnectingLane_def asn_MBR_ConnectingLane_1_def check_defs admits)

lemma gc_Connection_admits [admits]: "admits (perform gc_Connection) asn_DEF_Connection None"
  unfolding gc_Connection_def by (rule admits_SEQUENCE) (simp_all add: asn_DEF_Connection_def asn_MBR_Connection_1_def check_defs admits)

lemma gc_ConnectsToList_admits [admits]: "admits (perform gc_ConnectsToList) asn_DEF_ConnectsToList None"
  unfolding gc_ConnectsToList_def by (rule admits_SEQUENCE_OF) (simp_all add: asn_DEF_ConnectsToList_def asn_MBR_ConnectsToList_1_def check_defs admits)

lemma gc_OverlayLaneList_admits [admits]: "admits (perform gc_OverlayLaneList) asn_DEF_OverlayLaneList None"
  unfolding gc_OverlayLaneList_def by (rule admits_SEQUENCE_OF) (simp_all add: asn_DEF_OverlayLaneList_def asn_MBR_OverlayLaneList_1_def check_defs admits)

lemma gc_regional_11_GenericLane_admits [admits]: "admits (perform gc_regional_11_GenericLane) asn_DEF_regional_11_GenericLane None"
  unfolding gc_regional_11_GenericLane_def by (rule admits_SEQUENCE_OF) (simp_all add: asn_DEF_regional_11_GenericLane_def asn_MBR_regional_11_GenericLane_def check_defs admits)

lemma gc_regional_11_GenericLane_admits_size: "admits (perform gc_regional_11_GenericLane) asn_DEF_regional_11_GenericLane (Some asn_PER_memb_regional_constr_11_GenericLane)"
  unfolding gc_regional_11_GenericLane_def by (rule admits_SEQUENCE_OF) (simp_all add: asn_DEF_regional_11_GenericLane_def asn_MBR_regional_11_GenericLane_def check_defs admits)

lemma memb_regional_constraint_1_GenericLane_admits [admits]: "admits (memb_regional_constraint_1_GenericLane (perform gc_regional_11_GenericLane)) asn_DEF_regional_11_GenericLane (Some asn_PER_memb_regional_constr_11_GenericLane)"
  by (rule admits_sized [where ct = "pc_size asn_PER_memb_regional_constr_11_GenericLane", OF _ _ _ gc_regional_11_GenericLane_admits_size])
    (simp_all add: memb_regional_constraint_1_GenericLane_def asn_DEF_regional_11_GenericLane_def asn_PER_memb_regional_constr_11_GenericLane_def check_defs)

lemma gc_GenericLane_admits [admits]: "admits (perform gc_GenericLane) asn_DEF_GenericLane None"
  unfolding gc_GenericLane_def by (rule admits_SEQUENCE) (simp_all add: asn_DEF_GenericLane_def asn_MBR_GenericLane_1_def check_defs admits)

lemma gc_LaneList_admits [admits]: "admits (perform gc_LaneList) asn_DEF_LaneList None"
  unfolding gc_LaneList_def by (rule admits_SEQUENCE_OF) (simp_all add: asn_DEF_LaneList_def asn_MBR_LaneList_1_def check_defs admits)

lemma gc_SignalControlZone_admits [admits]: "admits (perform gc_SignalControlZone) asn_DEF_SignalControlZone None"
  unfolding gc_SignalControlZone_def by (rule admits_SEQUENCE) (simp_all add: asn_DEF_SignalControlZone_def asn_MBR_SignalControlZone_1_def check_defs admits)

lemma gc_PreemptPriorityList_admits [admits]: "admits (perform gc_PreemptPriorityList) asn_DEF_PreemptPriorityList None"
  unfolding gc_PreemptPriorityList_def by (rule admits_SEQUENCE_OF) (simp_all add: asn_DEF_PreemptPriorityList_def asn_MBR_PreemptPriorityList_1_def check_defs admits)

lemma gc_regional_10_IntersectionGeometry_admits [admits]: "admits (perform gc_regional_10_IntersectionGeometry) asn_DEF_regional_10_IntersectionGeometry None"
  unfolding gc_regional_10_IntersectionGeometry_def by (rule admits_SEQUENCE_OF) (simp_all add: asn_DEF_regional_10_IntersectionGeometry_def asn_MBR_regional_10_IntersectionGeometry_def check_defs admits)

lemma gc_regional_10_IntersectionGeometry_admits_size: "admits (perform gc_regional_10_IntersectionGeometry) asn_DEF_regional_10_IntersectionGeometry (Some asn_PER_memb_regional_constr_10_IntersectionGeometry)"
  unfolding gc_regional_10_IntersectionGeometry_def by (rule admits_SEQUENCE_OF) (simp_all add: asn_DEF_regional_10_IntersectionGeometry_def asn_MBR_regional_10_IntersectionGeometry_def check_defs admits)

lemma memb_regional_constraint_1_IntersectionGeometry_admits [admits]: "admits (memb_regional_constraint_1_IntersectionGeometry (perform gc_regional_10_IntersectionGeometry)) asn_DEF_regional_10_IntersectionGeometry (Some asn_PER_memb_regional_constr_10_IntersectionGeometry)"
  by (rule admits_sized [where ct = "pc_size asn_PER_memb_regional_constr_10_IntersectionGeometry", OF _ _ _ gc_regional_10_IntersectionGeometry_admits_size])
    (simp_all add: memb_regional_constraint_1_IntersectionGeometry_def asn_DEF_regional_10_IntersectionGeometry_def asn_PER_memb_regional_constr_10_IntersectionGeometry_def check_defs)

lemma gc_IntersectionGeometry_admits [admits]: "admits (perform gc_IntersectionGeometry) asn_DEF_IntersectionGeometry None"
  unfolding gc_IntersectionGeometry_def by (rule admits_SEQUENCE) (simp_all add: asn_DEF_IntersectionGeometry_def asn_MBR_IntersectionGeometry_1_def check_defs admits)

lemma gc_IntersectionGeometryList_admits [admits]: "admits (perform gc_IntersectionGeometryList) asn_DEF_IntersectionGeometryList None"
  unfolding gc_IntersectionGeometryList_def by (rule admits_SEQUENCE_OF) (simp_all add: asn_DEF_IntersectionGeometryList_def asn_MBR_IntersectionGeometryList_1_def check_defs admits)

lemma gc_RoadSegmentID_admits [admits]: "admits (perform gc_RoadSegmentID) asn_DEF_RoadSegmentID None"
  by (simp add: gc_RoadSegmentID_def  admits)

lemma gc_RoadSegmentReferenceID_admits [admits]: "admits (perform gc_RoadSegmentReferenceID) asn_DEF_RoadSegmentReferenceID None"
  unfolding gc_RoadSegmentReferenceID_def by (rule admits_SEQUENCE) (simp_all add: asn_DEF_RoadSegmentReferenceID_def asn_MBR_RoadSegmentReferenceID_1_def check_defs admits)

lemma gc_RoadLaneSetList_admits [admits]: "admits (perform gc_RoadLaneSetList) asn_DEF_RoadLaneSetList None"
  unfolding gc_RoadLaneSetList_def by (rule admits_SEQUENCE_OF) (simp_all add: asn_DEF_RoadLaneSetList_def asn_MBR_RoadLaneSetList_1_def check_defs admits)

lemma gc_regional_9_RoadSegment_admits [admits]: "admits (perform gc_regional_9_RoadSegment) asn_DEF_regional_9_RoadSegment None"
  unfolding gc_regional_9_RoadSegment_def by (rule admits_SEQUENCE_OF) (simp_all add: asn_DEF_regional_9_RoadSegment_def asn_MBR_regional_9_RoadSegment_def check_defs admits)

lemma gc_regional_9_RoadSegment_admits_size: "admits (perform gc_regional_9_RoadSegment) asn_DEF_regional_9_RoadSegment (Some asn_PER_memb_regional_constr_9_RoadSegment)"
  unfolding gc_regional_9_RoadSegment_def by (rule admits_SEQUENCE_OF) (simp_all add: asn_DEF_regional_9_RoadSegment_def asn_MBR_regional_9_RoadSegment_def check_defs admits)

lemma memb_regional_constraint_1_RoadSegment_admits [admits]: "admits (memb_regional_constraint_1_RoadSegment (perform gc_regional_9_RoadSegment)) asn_DEF_regional_9_RoadSegment (Some asn_PER_memb_regional_constr_9_RoadSegment)"
  by (rule admits_sized [where ct = "pc_size asn_PER_memb_regional_constr_9_RoadSegment", OF _ _ _ gc_regional_9_RoadSegment_admits_size])
    (simp_all add: memb_regional_constraint_1_RoadSegment_def asn_DEF_regional_9_RoadSegment_def asn_PER_memb_regional_constr_9_RoadSegment_def check_defs)

lemma gc_RoadSegment_admits [admits]: "admits (perform gc_RoadSegment) asn_DEF_RoadSegment None"
  unfolding gc_RoadSegment_def by (rule admits_SEQUENCE) (simp_all add: asn_DEF_RoadSegment_def asn_MBR_RoadSegment_1_def check_defs admits)

lemma gc_RoadSegmentList_admits [admits]: "admits (perform gc_RoadSegmentList) asn_DEF_RoadSegmentList None"
  unfolding gc_RoadSegmentList_def by (rule admits_SEQUENCE_OF) (simp_all add: asn_DEF_RoadSegmentList_def asn_MBR_RoadSegmentList_1_def check_defs admits)

lemma gc_DataParameters_admits [admits]: "admits (perform gc_DataParameters) asn_DEF_DataParameters None"
  unfolding gc_DataParameters_def by (rule admits_SEQUENCE) (simp_all add: asn_DEF_DataParameters_def asn_MBR_DataParameters_1_def check_defs admits)

lemma gc_RestrictionAppliesTo_admits [admits]: "admits (perform gc_RestrictionAppliesTo) asn_DEF_RestrictionAppliesTo c"
  by (simp add: gc_RestrictionAppliesTo_def asn_generic_no_constraint_def)

lemma gc_regional_3_admits [admits]: "admits (perform gc_regional_3) asn_DEF_regional_3 None"
  unfolding gc_regional_3_def by (rule admits_SEQUENCE_OF) (simp_all add: asn_DEF_regional_3_def asn_MBR_regional_3_def check_defs admits)

lemma gc_regional_3_admits_size: "admits (perform gc_regional_3) asn_DEF_regional_3 (Some asn_PER_memb_regional_constr_3)"
  unfolding gc_regional_3_def by (rule admits_SEQUENCE_OF) (simp_all add: asn_DEF_regional_3_def asn_MBR_regional_3_def check_defs admits)

lemma memb_regional_constraint_1_RestrictionUserType_admits [admits]: "admits (memb_regional_constraint_1_RestrictionUserType (perform gc_regional_3)) asn_DEF_regional_3 (Some asn_PER_memb_regional_constr_3)"
  by (rule admits_sized [where ct = "pc_size asn_PER_memb_regional_constr_3", OF _ _ _ gc_regional_3_admits_size])
    (simp_all add: memb_regional_constraint_1_RestrictionUserType_def asn_DEF_regional_3_def asn_PER_memb_regional_constr_3_def check_defs)

lemma gc_RestrictionUserType_admits [admits]: "admits (perform gc_RestrictionUserType) asn_DEF_RestrictionUserType None"
  unfolding gc_RestrictionUserType_def by (rule admits_CHOICE) (simp_all add: asn_DEF_RestrictionUserType_def asn_MBR_RestrictionUserType_1_def check_defs admits)

lemma gc_RestrictionUserTypeList_admits [admits]: "admits (perform gc_RestrictionUserTypeList) asn_DEF_RestrictionUserTypeList None"
  unfolding gc_RestrictionUserTypeList_def by (rule admits_SEQUENCE_OF) (simp_all add: asn_DEF_RestrictionUserTypeList_def asn_MBR_RestrictionUserTypeList_1_def check_defs admits)

lemma gc_RestrictionClassAssignment_admits [admits]: "admits (perform gc_RestrictionClassAssignment) asn_DEF_RestrictionClassAssignment None"
  unfolding gc_RestrictionClassAssignment_def by (rule admits_SEQUENCE) (simp_all add: asn_DEF_RestrictionClassAssignment_def asn_MBR_RestrictionClassAssignment_1_def check_defs admits)

lemma gc_RestrictionClassList_admits [admits]: "admits (perform gc_RestrictionClassList) asn_DEF_RestrictionClassList None"
  unfolding gc_RestrictionClassList_def by (rule admits_SEQUENCE_OF) (simp_all add: asn_DEF_RestrictionClassList_def asn_MBR_RestrictionClassList_1_def check_defs admits)

lemma gc_regional_10_MapData_admits [admits]: "admits (perform gc_regional_10_MapData) asn_DEF_regional_10_MapData None"
  unfolding gc_regional_10_MapData_def by (rule admits_SEQUENCE_OF) (simp_all add: asn_DEF_regional_10_MapData_def asn_MBR_regional_10_MapData_def check_defs admits)

lemma gc_regional_10_MapData_admits_size: "admits (perform gc_regional_10_MapData) asn_DEF_regional_10_MapData (Some asn_PER_memb_regional_constr_10_MapData)"
  unfolding gc_regional_10_MapData_def by (rule admits_SEQUENCE_OF) (simp_all add: asn_DEF_regional_10_MapData_def asn_MBR_regional_10_MapData_def check_defs admits)

lemma memb_regional_constraint_1_MapData_admits [admits]: "admits (memb_regional_constraint_1_MapData (perform gc_regional_10_MapData)) asn_DEF_regional_10_MapData (Some asn_PER_memb_regional_constr_10_MapData)"
  by (rule admits_sized [where ct = "pc_size asn_PER_memb_regional_constr_10_MapData", OF _ _ _ gc_regional_10_MapData_admits_size])
    (simp_all add: memb_regional_constraint_1_MapData_def asn_DEF_regional_10_MapData_def asn_PER_memb_regional_constr_10_MapData_def check_defs)

lemma gc_MapData_admits [admits]: "admits (perform gc_MapData) asn_DEF_MapData None"
  unfolding gc_MapData_def by (rule admits_SEQUENCE) (simp_all add: asn_DEF_MapData_def asn_MBR_MapData_1_def check_defs admits)

lemma gc_MAPEM_admits [admits]: "admits (perform gc_MAPEM) asn_DEF_MAPEM None"
  unfolding gc_MAPEM_def by (rule admits_SEQUENCE) (simp_all add: asn_DEF_MAPEM_def asn_MBR_MAPEM_1_def check_defs admits)

end

end
