(* ===== verification/Utf8.thy ===== *)
theory Utf8
  imports Constraints
begin

text \<open>
  \<open>UTF8String__process\<close> accepts exactly the concatenations of the encodings of code points below 2^31 with the
  shortest number of octets (\<open>process_iff\<close>), and returns these code points.
\<close>

section \<open>The encoding\<close>

text \<open>The encoding of a code point below 2^31, with the shortest number of octets.\<close>

fun utf8_tail :: "nat \<Rightarrow> int \<Rightarrow> byte list" where
  "utf8_tail 0 v = []"
| "utf8_tail (Suc k) v = utf8_tail k (v div 64) @ [word_of_int (0x80 + v mod 64)]"

definition utf8_size :: "int \<Rightarrow> nat" where
  "utf8_size v =
     (if v < 0x80 then 1 else if v < 0x800 then 2 else if v < 0x10000 then 3
      else if v < 0x200000 then 4 else if v < 0x4000000 then 5 else 6)"

definition utf8_lead :: "nat \<Rightarrow> int" where
  "utf8_lead n = [0, 0, 0xC0, 0xE0, 0xF0, 0xF8, 0xFC] ! n"

definition utf8_octets :: "int \<Rightarrow> byte list" where
  "utf8_octets v =
     (let n = utf8_size v in word_of_int (utf8_lead n + v div 64 ^ (n - 1)) # utf8_tail (n - 1) v)"

abbreviation utf8_is_tail :: "byte \<Rightarrow> bool" where
  "utf8_is_tail c \<equiv> 0x80 \<le> c \<and> c \<le> 0xbf"

definition utf8_value :: "int \<Rightarrow> byte list \<Rightarrow> int" where
  "utf8_value a cs = foldl (\<lambda>a c. a * 64 + (uint c - 128)) a cs"

section \<open>Decoding\<close>

lemma tail_step:
  assumes "utf8_is_tail c" "0 \<le> v"
  shows "or (push_bit 6 v) (uint (and c 0x3F)) = v * 64 + (uint c - 128)"
proof -
  have m: "(63 :: int) = mask 6" by (simp add: mask_eq_exp_minus_1)
  have b: "128 \<le> uint c" "uint c \<le> 191" using assms(1) by (simp_all add: word_le_def)
  have "uint (and c 0x3F) = take_bit 6 (uint c)"
    by (simp add: unsigned_and_eq m flip: take_bit_eq_mask)
  moreover have "take_bit 6 (uint c) = uint c - 128"
    using b by (simp add: take_bit_eq_mod) presburger
  moreover have "or (push_bit 6 v) (take_bit 6 (uint c)) = push_bit 6 v + take_bit 6 (uint c)"
    by (rule disjunctive_add_eq_or [symmetric]) (simp add: bit_eq_iff bit_simps)
  ultimately show ?thesis by (simp add: push_bit_eq_mult)
qed

lemma tail_loop:
  assumes "0 \<le> a"
  shows "utf8_cont a cs = Inr v \<longleftrightarrow> list_all utf8_is_tail cs \<and> v = utf8_value a cs"
  using assms
proof (induction cs arbitrary: a)
  case (Cons c cs)
  show ?case
  proof (cases "utf8_is_tail c")
    case True
    then have "0 \<le> a * 64 + (uint c - 128)" using Cons.prems by (simp add: word_le_def)
    then show ?thesis using Cons.IH [of "a * 64 + (uint c - 128)"] tail_step [OF True Cons.prems] True
      by (auto simp: utf8_value_def not_le [symmetric])
  qed (auto simp: not_le)
qed (auto simp: utf8_value_def)

lemma mod_mask:
  fixes x l m :: int
  assumes "l \<le> x" "x < l + m" "m dvd l"
  shows "x mod m = x - l"
proof -
  obtain k where k: "l = m * k" using assms(3) by (rule dvdE)
  have "x mod m = ((x - l) + m * k) mod m" by (simp add: k)
  also have "\<dots> = x - l" unfolding mod_mult_self2 using assms(1,2) by (intro mod_pos_pos_trivial) auto
  finally show ?thesis .
qed

lemma digit:
  fixes x y v :: int
  assumes "128 \<le> x" "x \<le> 191" "y * 64 + (x - 128) = v"
  shows "x = 0x80 + v mod 64 \<and> y = v div 64"
proof -
  have v: "v = (x - 128) + 64 * y" using assms(3) by simp
  have "v mod 64 = x - 128" unfolding v mod_mult_self2 using assms(1,2) by (intro mod_pos_pos_trivial) auto
  moreover have "v div 64 = y" unfolding v using assms(1,2) by (simp add: div_pos_pos_trivial)
  ultimately show ?thesis by simp
qed

lemma tail_iff:
  assumes "0 \<le> a"
  shows "length cs = k \<and> list_all utf8_is_tail cs \<and> utf8_value a cs = v
    \<longleftrightarrow> 0 \<le> v \<and> cs = utf8_tail k v \<and> a = v div 64 ^ k"
proof (induction k arbitrary: cs v)
  case 0
  then show ?case using assms by (auto simp: utf8_value_def)
next
  case (Suc k)
  show ?case
  proof (cases cs rule: rev_cases)
    case (snoc ds c)
    have t: "utf8_is_tail c \<and> utf8_value a ds * 64 + (uint c - 128) = v
        \<longleftrightarrow> c = word_of_int (0x80 + v mod 64) \<and> utf8_value a ds = v div 64"
    proof
      assume l: "utf8_is_tail c \<and> utf8_value a ds * 64 + (uint c - 128) = v"
      then have "128 \<le> uint c" "uint c \<le> 191" by (simp_all add: word_le_def)
      then have "uint c = 0x80 + v mod 64" "utf8_value a ds = v div 64" using l digit by blast+
      then show "c = word_of_int (0x80 + v mod 64) \<and> utf8_value a ds = v div 64"
        by (metis word_of_int_uint)
    next
      assume r: "c = word_of_int (0x80 + v mod 64) \<and> utf8_value a ds = v div 64"
      have "0 \<le> v mod 64" "v mod 64 < 64" by simp_all
      then have "uint c = 0x80 + v mod 64" using r by (simp add: uint_word_of_int del: of_int_add)
      then show "utf8_is_tail c \<and> utf8_value a ds * 64 + (uint c - 128) = v"
        using r \<open>v mod 64 < 64\<close> by (simp add: word_le_def)
    qed
    have "length cs = Suc k \<and> list_all utf8_is_tail cs \<and> utf8_value a cs = v
      \<longleftrightarrow> (length ds = k \<and> list_all utf8_is_tail ds \<and> utf8_value a ds = v div 64) \<and> c = word_of_int (0x80 + v mod 64)"
      using t by (auto simp: snoc utf8_value_def)
    then show ?thesis using Suc.IH [of ds "v div 64"]
      by (auto simp: snoc div_mult2_eq [symmetric] zdiv_zmult2_eq mult.commute)
  qed auto
qed

text \<open>The first octet: its table entries, and what the mask leaves.\<close>

definition utf8_first :: "nat \<Rightarrow> byte \<Rightarrow> bool" where
  "utf8_first n ch \<longleftrightarrow> 1 \<le> n \<and> n \<le> 6 \<and> utf8_lead n \<le> uint ch \<and> uint ch < utf8_lead n + (if n = 1 then 128 else 2 ^ (7 - n))"

lemma want_mask:
  assumes "utf8_first n ch"
  shows "uint (and ch (drop_bit n 0xff)) = uint ch - utf8_lead n"
proof -
  have n: "n = 1 \<or> n = 2 \<or> n = 3 \<or> n = 4 \<or> n = 5 \<or> n = 6"
    using assms by (auto simp: utf8_first_def)
  have "drop_bit n (0xff :: byte) = mask (8 - n)" using n by (auto simp: mask_eq_exp_minus_1)
  then have "uint (and ch (drop_bit n 0xff)) = take_bit (8 - n) (uint ch)"
    by (simp add: unsigned_take_bit_eq flip: take_bit_eq_mask)
  also have "\<dots> = uint ch mod 2 ^ (8 - n)" by (simp add: take_bit_eq_mod)
  also have "\<dots> = uint ch - utf8_lead n"
    using n assms by (auto simp: utf8_first_def utf8_lead_def intro!: mod_mask)
  finally show ?thesis .
qed

definition utf8_want_of :: "nat \<Rightarrow> nat \<Rightarrow> utf8_error + nat" where
  "utf8_want_of h l =
     (let want = UTF8String_ht ! 0 ! h
      in if want = -1
         then let want = UTF8String_ht ! 1 ! l in if want \<noteq> -1 then Inr (nat want) else Inl U8E_ILLSTART
         else if want = 0 then Inl U8E_ILLSTART else Inr (nat want))"

definition utf8_entry_ok :: "nat \<Rightarrow> nat \<Rightarrow> bool" where
  "utf8_entry_ok h l \<longleftrightarrow>
     (case utf8_want_of h l of Inl e \<Rightarrow> True | Inr n \<Rightarrow> n < 7)
     \<and> list_all (\<lambda>n. (utf8_want_of h l = Inr n) =
          (1 \<le> n \<and> n \<le> 6 \<and> utf8_lead n \<le> 16 * int h + int l
            \<and> 16 * int h + int l < utf8_lead n + (if n = 1 then 128 else 2 ^ (7 - n)))) [0..<7]"

lemma want_table: "list_all (\<lambda>h. list_all (utf8_entry_ok h) [0..<16]) [0..<16]"
  by (simp add: upt_rec UTF8String_ht_def utf8_lead_def utf8_want_of_def utf8_entry_ok_def)

lemma want_iff: "utf8_want ch = Inr n \<longleftrightarrow> utf8_first n ch"
proof -
  define h l where "h = unat ch div 16" and "l = unat ch mod 16"
  have ch: "unat ch < 256" using unsigned_less [of ch] by simp
  have hl: "h < 16" "l < 16" using ch by (auto simp: h_def l_def)
  have "unat ch = 16 * h + l" by (simp add: h_def l_def)
  then have uint: "uint ch = 16 * int h + int l" by (metis of_nat_add of_nat_mult of_nat_numeral of_nat_unat)
  have a: "and ch 0x0F = take_bit 4 ch" by (simp add: take_bit_eq_mask mask_eq_exp_minus_1)
  have "unat (drop_bit 4 ch) = drop_bit 4 (unat ch)" "unat (and ch 0x0F) = take_bit 4 (unat ch)"
    unfolding a by (simp_all only: unsigned_drop_bit_eq unsigned_take_bit_eq) (use ch in \<open>simp_all add: take_bit_nat_eq_self\<close>)
  then have w: "unat (drop_bit 4 ch) = h" "unat (and ch 0x0F) = l"
    by (simp_all add: h_def l_def drop_bit_eq_div take_bit_eq_mod)
  have want: "utf8_want ch = utf8_want_of h l" by (simp only: utf8_want_def w utf8_want_of_def)
  have "utf8_entry_ok h l" using want_table hl(1,2) by (simp only: list_all_iff set_upt atLeastLessThan_iff) simp
  then have "utf8_want_of h l = Inr n \<Longrightarrow> n < 7"
    and "n < 7 \<Longrightarrow> (utf8_want_of h l = Inr n) = utf8_first n ch"
    unfolding utf8_entry_ok_def utf8_first_def uint list_all_iff by auto
  then show ?thesis unfolding want by (auto simp: utf8_first_def)
qed

lemma mv_size:
  assumes "0 \<le> v" "1 \<le> n" "n \<le> 6"
  shows "UTF8String_mv ! n \<le> v \<and> v div 64 ^ (n - 1) < (if n = 1 then 128 else 2 ^ (7 - n))
    \<longleftrightarrow> utf8_size v = n \<and> v < 2 ^ 31"
proof -
  have "n = 1 \<or> n = 2 \<or> n = 3 \<or> n = 4 \<or> n = 5 \<or> n = 6" using assms(2,3) by auto
  then show ?thesis using assms(1)
    by (elim disjE) (auto simp: UTF8String_mv_def utf8_size_def div_less_iff_less_mult)
qed

lemma char_iff:
  assumes "length cs = n - 1" "1 \<le> n" "n \<le> 6"
  shows "utf8_first n ch \<and> list_all utf8_is_tail cs \<and> utf8_value (uint ch - utf8_lead n) cs = v \<and> UTF8String_mv ! n \<le> v
    \<longleftrightarrow> 0 \<le> v \<and> v < 2 ^ 31 \<and> utf8_size v = n \<and> ch # cs = utf8_octets v" (is "?L \<longleftrightarrow> ?R")
proof
  assume l: ?L
  then have a: "0 \<le> uint ch - utf8_lead n" by (simp add: utf8_first_def)
  have t: "0 \<le> v" "cs = utf8_tail (n - 1) v" "uint ch - utf8_lead n = v div 64 ^ (n - 1)"
    using tail_iff [OF a, of cs "n - 1" v] l assms(1) by auto
  then have "v div 64 ^ (n - 1) < (if n = 1 then 128 else 2 ^ (7 - n))"
    using l by (simp add: utf8_first_def)
  then have "utf8_size v = n \<and> v < 2 ^ 31" using mv_size [OF t(1) assms(2,3)] l by blast
  moreover have "word_of_int (utf8_lead n + v div 64 ^ (n - 1)) = ch"
    using t(3) by (metis add.commute diff_add_cancel word_of_int_uint)
  ultimately show ?R using t(1,2) by (simp add: utf8_octets_def Let_def)
next
  assume r: ?R
  then have c: "ch = word_of_int (utf8_lead n + v div 64 ^ (n - 1))" "cs = utf8_tail (n - 1) v"
    by (auto simp: utf8_octets_def Let_def)
  have m: "UTF8String_mv ! n \<le> v" "v div 64 ^ (n - 1) < (if n = 1 then 128 else 2 ^ (7 - n))"
    using mv_size [of v n] r assms(2,3) by auto
  have d: "0 \<le> v div 64 ^ (n - 1)" using r by (simp add: pos_imp_zdiv_nonneg_iff)
  have lead: "0 \<le> utf8_lead n" "utf8_lead n + (if n = 1 then 128 else 2 ^ (7 - n)) \<le> 256"
  proof -
    have "n = 1 \<or> n = 2 \<or> n = 3 \<or> n = 4 \<or> n = 5 \<or> n = 6" using assms(2,3) by auto
    then show "0 \<le> utf8_lead n" "utf8_lead n + (if n = 1 then 128 else 2 ^ (7 - n)) \<le> 256"
      by (auto simp: utf8_lead_def)
  qed
  have "uint ch = utf8_lead n + v div 64 ^ (n - 1)"
    unfolding c(1) using m(2) d lead by (simp only: uint_word_of_int) simp
  then have f: "utf8_first n ch" "uint ch - utf8_lead n = v div 64 ^ (n - 1)"
    using m(2) d assms(2,3) by (simp_all add: utf8_first_def)
  then show ?L using tail_iff [of "uint ch - utf8_lead n" cs "n - 1" v] r m(1) c(2) d by auto
qed

lemma size_octets: "length (utf8_octets v) = utf8_size v" "1 \<le> utf8_size v" "utf8_size v \<le> 6"
proof -
  have "length (utf8_tail k v) = k" for k v by (induction k arbitrary: v) simp_all
  then show "length (utf8_octets v) = utf8_size v" by (simp add: utf8_octets_def Let_def utf8_size_def)
qed (simp_all add: utf8_size_def)

lemma process_step:
  "UTF8String__process (ch # buf) = Inr ws \<longleftrightarrow>
     (\<exists>n v vs. ws = v # vs \<and> utf8_first n ch \<and> n - 1 \<le> length buf
        \<and> list_all utf8_is_tail (take (n - 1) buf) \<and> utf8_value (uint ch - utf8_lead n) (take (n - 1) buf) = v
        \<and> UTF8String_mv ! n \<le> v \<and> UTF8String__process (drop (n - 1) buf) = Inr vs)"
proof (cases "utf8_want ch")
  case (Inl e)
  then show ?thesis using want_iff [of ch] by auto
next
  case (Inr n)
  then have f: "utf8_first n ch" by (simp add: want_iff)
  then have n: "1 \<le> n" "0 \<le> uint ch - utf8_lead n" by (simp_all add: utf8_first_def)
  have u: "utf8_first k ch \<longleftrightarrow> k = n" for k by (simp add: Inr eq_commute flip: want_iff)
  note loop = tail_loop [OF n(2), of "take (n - 1) buf"]
  show ?thesis
  proof (cases "utf8_cont (uint ch - utf8_lead n) (take (n - 1) buf)")
    case (Inl e)
    then have "\<not> list_all utf8_is_tail (take (n - 1) buf)" using loop by auto
    then show ?thesis using Inl \<open>utf8_want ch = Inr n\<close> by (simp add: u want_mask [OF f])
  next
    case (Inr w)
    then show ?thesis using loop [of w] \<open>utf8_want ch = Inr n\<close> n(1)
      by (auto simp: u want_mask [OF f] split: sum.splits)
  qed
qed

lemma process_iff:
  "UTF8String__process buf = Inr vs \<longleftrightarrow> list_all (\<lambda>v. 0 \<le> v \<and> v < 2 ^ 31) vs \<and> buf = concat (map utf8_octets vs)"
proof (induction buf arbitrary: vs rule: length_induct)
  case (1 buf)
  show ?case
  proof (cases buf)
    case Nil
    then show ?thesis by (cases vs) (simp_all add: utf8_octets_def Let_def)
  next
    case (Cons ch rest)
    show ?thesis
    proof
      assume "UTF8String__process buf = Inr vs"
      then obtain n v ws where s: "vs = v # ws" "utf8_first n ch" "n - 1 \<le> length rest"
          "list_all utf8_is_tail (take (n - 1) rest)" "utf8_value (uint ch - utf8_lead n) (take (n - 1) rest) = v"
          "UTF8String_mv ! n \<le> v" "UTF8String__process (drop (n - 1) rest) = Inr ws"
        unfolding Cons process_step by blast
      have n: "1 \<le> n" "n \<le> 6" using s(2) by (simp_all add: utf8_first_def)
      have "0 \<le> v \<and> v < 2 ^ 31 \<and> ch # take (n - 1) rest = utf8_octets v"
        using char_iff [of "take (n - 1) rest" n ch v] n s by simp
      moreover have "list_all (\<lambda>v. 0 \<le> v \<and> v < 2 ^ 31) ws \<and> drop (n - 1) rest = concat (map utf8_octets ws)"
        using 1 s(7) by (simp add: Cons)
      ultimately show "list_all (\<lambda>v. 0 \<le> v \<and> v < 2 ^ 31) vs \<and> buf = concat (map utf8_octets vs)"
        unfolding Cons s(1) by simp (metis append_Cons append_take_drop_id)
    next
      assume r: "list_all (\<lambda>v. 0 \<le> v \<and> v < 2 ^ 31) vs \<and> buf = concat (map utf8_octets vs)"
      then obtain v ws where vs: "vs = v # ws" "0 \<le> v" "v < 2 ^ 31" using Cons by (cases vs) auto
      define n where "n = utf8_size v"
      have n: "1 \<le> n" "n \<le> 6" "length (utf8_octets v) = n" using size_octets by (simp_all add: n_def)
      have c: "utf8_octets v = ch # take (n - 1) rest" "drop (n - 1) rest = concat (map utf8_octets ws)" "n - 1 \<le> length rest"
        using r n(1,3) unfolding Cons vs(1) by (cases "utf8_octets v"; auto)+
      have "length (drop (n - 1) rest) < length buf" by (simp add: Cons)
      moreover have "list_all (\<lambda>v. 0 \<le> v \<and> v < 2 ^ 31) ws" using r vs(1) by simp
      ultimately have "UTF8String__process (drop (n - 1) rest) = Inr ws" using 1 c(2) by blast
      moreover have "utf8_first n ch \<and> list_all utf8_is_tail (take (n - 1) rest)
          \<and> utf8_value (uint ch - utf8_lead n) (take (n - 1) rest) = v \<and> UTF8String_mv ! n \<le> v"
        using char_iff [of "take (n - 1) rest" n ch v] n c vs by (simp add: n_def)
      ultimately show "UTF8String__process buf = Inr vs"
        unfolding Cons process_step using vs(1) c(3) by blast
    qed
  qed
qed

end
