(* ===== verification/Decoded_Values.thy ===== *)
theory Decoded_Values
  imports Asn1c_Wrapper
begin

text \<open>
  What the decoder returns is a value of the described type, whatever octets it is given: \<open>value_typed\<close> states it for a
  descriptor, and \<open>decoded_typed\<close> proves it for every decoder of \<open>Uper\<close> by induction over the nesting.

  \<^item> Structures have all members of the descriptor, and the mandatory members of the root are present; the
    presence index of a CHOICE selects the alternative that is stored.
  \<^item> An integer with a range that is not extensible is in the range, unless its C type is unsigned, for which
    \<open>INTEGER_decode_uper\<close> does not compare with the upper bound.
  \<^item> An enumerated value is one of the table.
  \<^item> The number of elements of a list is not covered: \<open>SET_OF_decode_uper\<close> does not compare it with the upper bound.
\<close>

section \<open>Typed values\<close>

definition int_in_range :: "asn_TYPE_descriptor \<Rightarrow> asn_per_constraints option \<Rightarrow> int \<Rightarrow> bool" where
  "int_in_range td c i =
     (case value_constraint td c of
        None \<Rightarrow> True
      | Some ct \<Rightarrow>
          \<not> APC_EXTENSIBLE ct \<and> \<not> apc_unconstrained ct \<and> 0 \<le> range_bits ct \<and> \<not> td_field_unsigned td
            \<and> is_long (lower_bound ct) \<and> is_long (upper_bound ct) \<and> lower_bound ct \<le> upper_bound ct
          \<longrightarrow> lower_bound ct \<le> i \<and> i \<le> upper_bound ct)"

definition enum_in_table :: "asn_TYPE_descriptor \<Rightarrow> int \<Rightarrow> bool" where
  "enum_in_table td i =
     (case td_specifics td of
        SPC_INTEGER specs \<Rightarrow>
          0 \<le> is_extension specs \<and> is_extension specs \<le> int (length (value2enum specs)) + 1
          \<longrightarrow> i \<in> set (map fst (value2enum specs))
      | _ \<Rightarrow> False)"

definition simple_typed :: "asn_TYPE_descriptor \<Rightarrow> asn_per_constraints option \<Rightarrow> asn_value \<Rightarrow> bool" where
  "simple_typed td c v =
     (case (td_op td, v) of
        (OP_NULL, V_NULL) \<Rightarrow> True
      | (OP_BOOLEAN, V_BOOLEAN b) \<Rightarrow> b = 0 \<or> b = 1
      | (OP_NativeInteger, V_long i) \<Rightarrow> int_in_range td c i
      | (OP_NativeEnumerated, V_long i) \<Rightarrow> enum_in_table td i
      | (OP_INTEGER, V_INTEGER (Some b)) \<Rightarrow> int_in_range td c (be_sint b)
      | (OP_ENUMERATED, V_INTEGER (Some b)) \<Rightarrow> True
      | (OP_OCTET_STRING, V_OCTET_STRING b) \<Rightarrow> True
      | (OP_BIT_STRING, V_BIT_STRING b u) \<Rightarrow> u \<le> 7
      | _ \<Rightarrow> False)"

text \<open>A member is absent, has the default value, or is a value of its type.\<close>

definition member_typed ::
  "(asn_TYPE_descriptor \<Rightarrow> asn_per_constraints option \<Rightarrow> asn_value \<Rightarrow> bool)
   \<Rightarrow> asn_TYPE_member \<Rightarrow> asn_value option \<Rightarrow> bool" where
  "member_typed typed elm m =
     (case m of
        None \<Rightarrow> True
      | Some w \<Rightarrow> elm_default elm = Some w \<or> typed (elm_type elm) (elm_per_constraints elm) w)"

primrec value_typed :: "nat \<Rightarrow> asn_TYPE_descriptor \<Rightarrow> asn_per_constraints option \<Rightarrow> asn_value \<Rightarrow> bool" where
  "value_typed 0 = simple_typed"
| "value_typed (Suc n) = (\<lambda>td c v.
     case td_op td of
       OP_SEQUENCE \<Rightarrow>
         (case v of
            V_SEQUENCE ms \<Rightarrow>
              length ms = length (td_elements td)
              \<and> list_all2 (member_typed (value_typed n)) (td_elements td) ms
              \<and> list_all2 (\<lambda>elm m. elm_optional elm \<or> m \<noteq> None)
                  (take (seq_root_count td) (td_elements td)) (take (seq_root_count td) ms)
          | _ \<Rightarrow> False)
     | OP_CHOICE \<Rightarrow>
         (case v of
            V_CHOICE p (Some m) \<Rightarrow>
              (let elm = td_elements td ! (p - 1)
               in 1 \<le> p \<and> p \<le> length (td_elements td) \<and> value_typed n (elm_type elm) (elm_per_constraints elm) m)
          | _ \<Rightarrow> False)
     | OP_SEQUENCE_OF \<Rightarrow>
         (case v of
            V_LIST vs \<Rightarrow> list_all (value_typed n (elm_type (so_elm td)) (elm_per_constraints (so_elm td))) vs
          | _ \<Rightarrow> False)
     | _ \<Rightarrow> simple_typed td c v)"

section \<open>Simple types\<close>

lemma decodedI: "dec pd = (RC_OK v k, pd') \<Longrightarrow> decoded dec v"
  by (metis decoded_def fst_conv)

lemma INTEGER_body_range:
  assumes "INTEGER_decode_body td ct pd = (RC_OK v k, pd')"
  shows "\<exists>b. v = V_INTEGER (Some b)
     \<and> (\<forall>c. ct = Some c \<and> \<not> apc_unconstrained c \<and> 0 \<le> range_bits c \<and> \<not> td_field_unsigned td
            \<and> is_long (lower_bound c) \<and> is_long (upper_bound c) \<and> lower_bound c \<le> upper_bound c
          \<longrightarrow> lower_bound c \<le> be_sint b \<and> be_sint b \<le> upper_bound c)"
proof (cases "\<exists>c. ct = Some c \<and> \<not> apc_unconstrained c \<and> 0 \<le> range_bits c \<and> \<not> td_field_unsigned td
            \<and> is_long (lower_bound c) \<and> is_long (upper_bound c) \<and> lower_bound c \<le> upper_bound c")
  case True
  then obtain c where c: "ct = Some c" "\<not> apc_unconstrained c" "0 \<le> range_bits c" "\<not> td_field_unsigned td"
      "is_long (lower_bound c)" "is_long (upper_bound c)" "lower_bound c \<le> upper_bound c" by blast
  obtain x :: "64 word" where x: "uint x \<le> upper_bound c - lower_bound c" "v = V_INTEGER (Some (asn_imax2INTEGER (lower_bound c + uint x)))"
    using assms c by (auto simp: INTEGER_decode_body_def unrebase_spec asn_long2INTEGER_def split: if_splits prod.splits option.splits)
  have "is_long (lower_bound c + uint x)" using c(5,6) x(1) by (auto intro: order_trans [OF _ add_increasing2])
  then show ?thesis using x c(1) imax2INTEGER_spec(1) [of "lower_bound c + uint x"] by auto
next
  case False
  then show ?thesis using assms
    by (auto simp: INTEGER_decode_body_def Let_def split: option.splits prod.splits if_splits)
qed

lemma INTEGER_typed:
  assumes "decoded (INTEGER_decode_uper td c) v"
  shows "\<exists>b. v = V_INTEGER (Some b) \<and> int_in_range td c (be_sint b)"
proof -
  obtain pd k pd' where d: "INTEGER_decode_uper td c pd = (RC_OK v k, pd')"
    using assms by (metis decoded_def prod.collapse)
  then obtain ct pd1 where b: "INTEGER_decode_body td ct pd1 = (RC_OK v k, pd')"
      "ct = value_constraint td c \<or> ct = None \<and> (\<exists>x. value_constraint td c = Some x \<and> APC_EXTENSIBLE x)"
    by (auto simp: INTEGER_decode_uper_def split: option.splits prod.splits if_splits)
  from INTEGER_body_range [OF b(1)] b(2) show ?thesis
    by (auto simp: int_in_range_def split: option.splits)
qed

lemma NativeInteger_typed:
  assumes "decoded (NativeInteger_decode_uper td c) v"
  shows "\<exists>i. v = V_long i \<and> int_in_range td c i"
proof -
  obtain pd k pd' where d: "NativeInteger_decode_uper td c pd = (RC_OK v k, pd')"
    using assms by (metis decoded_def prod.collapse)
  obtain r pd1 where r: "INTEGER_decode_uper td c pd = (r, pd1)" by force
  then obtain w k1 where w: "r = RC_OK w k1" using d by (cases r) (auto simp: NativeInteger_decode_uper_def)
  obtain b where b: "w = V_INTEGER (Some b)" "int_in_range td c (be_sint b)"
    using INTEGER_typed decodedI r w by blast
  show ?thesis
  proof (cases "td_field_unsigned td")
    case True
    then show ?thesis using d r w b(1)
      by (auto simp: NativeInteger_decode_uper_def int_in_range_def split: option.splits)
  next
    case False
    then show ?thesis using d r w b
      by (auto simp: NativeInteger_decode_uper_def INTEGER2long_spec split: if_splits)
  qed
qed

lemma NativeEnumerated_typed:
  assumes "decoded (NativeEnumerated_decode_uper td c) v"
  shows "\<exists>i. v = V_long i \<and> enum_in_table td i"
proof -
  obtain pd k pd' where d: "NativeEnumerated_decode_uper td c pd = (RC_OK v k, pd')"
    using assms by (metis decoded_def prod.collapse)
  obtain specs where specs: "td_specifics td = SPC_INTEGER specs"
    using d by (auto simp: NativeEnumerated_decode_uper_def split: option.splits asn_specifics.splits)
  obtain i where i: "v = V_long (fst (value2enum specs ! nat i))"
      "0 \<le> is_extension specs \<Longrightarrow> is_extension specs \<le> int (length (value2enum specs)) + 1 \<Longrightarrow> 0 \<le> i \<and> i < int (length (value2enum specs))"
    using d specs by (fastforce simp: NativeEnumerated_decode_uper_def Let_def split: option.splits prod.splits if_splits)
  then show ?thesis by (auto simp: enum_in_table_def specs intro!: imageI nth_mem)
qed

lemma bs_loop_typed:
  assumes "bs_get_loop n csiz buf u pd = (RC_OK v k, pd')" "u \<le> 7"
  shows "\<exists>b u. v = V_BIT_STRING b u \<and> u \<le> 7"
  using assms
proof (induction n arbitrary: buf u pd)
  case (Suc n)
  obtain r rep pd1 where l: "uper_get_length pd (effective_bits csiz) (lower_bound csiz) = (r, rep, pd1)"
    by (metis prod.exhaust)
  obtain ret dst pd2 where m: "asn_get_many_bits pd1 False r = (ret, dst, pd2)" by (metis prod.exhaust)
  define u' where "u' = (if r mod 8 \<noteq> 0 then 8 - nat (r mod 8) else u)"
  define b' where "b' = (case buf of None \<Rightarrow> dst | Some b \<Rightarrow> b @ dst)"
  have "(8 :: nat) - nat (r mod 8) \<le> 7" if "r mod 8 \<noteq> 0" using that pos_mod_sign [of 8 r] by linarith
  then have "u' \<le> 7" using Suc.prems(2) by (simp add: u'_def)
  moreover have "bs_get_loop (Suc n) csiz buf u pd =
      (if r < 0 then (RC_WMORE, pd1) else if r = 0 \<and> buf \<noteq> None then (RC_OK (V_BIT_STRING (the buf) u) 0, pd1)
       else if ret < 0 then (RC_WMORE, pd2)
       else if rep then bs_get_loop n csiz (Some b') u' pd2 else (RC_OK (V_BIT_STRING b' u') 0, pd2))"
    by (auto simp: l m Let_def u'_def b'_def)
  ultimately show ?case using Suc.IH Suc.prems by (simp only: split: if_splits) auto
qed simp

lemma BIT_STRING_typed:
  assumes "decoded (BIT_STRING_decode_uper td c) v"
  shows "\<exists>b u. v = V_BIT_STRING b u \<and> u \<le> 7"
proof -
  obtain pd k pd' where d: "BIT_STRING_decode_uper td c pd = (RC_OK v k, pd')"
    using assms by (metis decoded_def prod.collapse)
  have "nat ((8 - x mod 8) mod 8) \<le> 7" for x :: int
    using pos_mod_bound [of 8 "8 - x mod 8"] by linarith
  then show ?thesis using d bs_loop_typed [of _ _ _ 0]
    by (auto simp: BIT_STRING_decode_uper_def Let_def simp del: bs_get_loop.simps split: prod.splits if_splits)
qed

lemma ENUMERATED_typed:
  assumes "decoded (ENUMERATED_decode_uper td c) v"
  shows "\<exists>b. v = V_INTEGER (Some b)"
proof -
  obtain pd k pd' where d: "ENUMERATED_decode_uper td c pd = (RC_OK v k, pd')"
    using assms by (metis decoded_def prod.collapse)
  obtain r pd1 where r: "NativeEnumerated_decode_uper td c pd = (r, pd1)" by force
  then obtain w k1 where w: "r = RC_OK w k1" using d by (cases r) (auto simp: ENUMERATED_decode_uper_def)
  obtain i where "w = V_long i" using NativeEnumerated_typed decodedI r w by blast
  then show ?thesis using d r w by (auto simp: ENUMERATED_decode_uper_def)
qed

text \<open>The loops stop with an error only.\<close>

lemma get_blocks_error:
  assumes "\<And>n pd. fst (body n pd) \<noteq> Inl (RC_OK v k)"
  shows "fst (get_blocks f e l body pd) \<noteq> Inl (RC_OK v k)"
proof (induction f arbitrary: pd)
  case (Suc f)
  obtain r rep pd1 where l: "uper_get_length pd e l = (r, rep, pd1)" by (metis prod.exhaust)
  obtain q pd2 where q: "body r pd1 = (q, pd2)" by force
  obtain q' pd3 where q': "get_blocks f e l body pd2 = (q', pd3)" by force
  have "q \<noteq> Inl (RC_OK v k)" "q' \<noteq> Inl (RC_OK v k)"
    using assms [of r pd1] Suc [of pd2] by (simp_all add: q q')
  then show ?case by (auto simp: l q q' split: sum.split)
qed simp

lemma get_blocks_elems:
  assumes "\<And>n pd xs pd'. body n pd = (Inr xs, pd') \<Longrightarrow> list_all P xs"
  shows "get_blocks f e l body pd = (Inr ys, pd') \<Longrightarrow> list_all P ys"
proof (induction f arbitrary: pd ys)
  case (Suc f)
  obtain r rep pd1 where l: "uper_get_length pd e l = (r, rep, pd1)" by (metis prod.exhaust)
  obtain xs pd2 where q: "body r pd1 = (Inr xs, pd2)"
    using Suc.prems by (auto simp: l split: if_splits prod.splits sum.splits)
  then show ?case using Suc.prems Suc.IH assms [OF q]
    by (auto simp: l split: if_splits prod.splits sum.splits)
qed simp

lemma os_loop_error: "fst (os_get_loop conv u bpc n pd) \<noteq> Inl (RC_OK v k)"
proof (induction n arbitrary: pd)
  case (Suc n)
  obtain code pd1 where c: "asn_get_few_bits pd u = (code, pd1)" by force
  obtain q pd2 where q: "os_get_loop conv u bpc n pd1 = (q, pd2)" by force
  have "q \<noteq> Inl (RC_OK v k)" using Suc [of pd1] by (simp add: q)
  then show ?case by (auto simp: c q split: option.split sum.split)
qed simp

lemma get_characters_error: "fst (OCTET_STRING_per_get_characters bpc u lb ub pc n pd) \<noteq> Inl (RC_OK v k)"
  by (auto simp: OCTET_STRING_per_get_characters_def Let_def os_loop_error split: option.split prod.split)

lemma OCTET_STRING_typed:
  assumes "decoded (OCTET_STRING_decode_uper td c) v"
  shows "\<exists>b. v = V_OCTET_STRING b"
proof -
  obtain pd k where d: "fst (OCTET_STRING_decode_uper td c pd) = RC_OK v k"
    using assms by (auto simp: decoded_def)
  have e: "fst (OCTET_STRING_per_get_characters bpc u lb ub pc n pd) \<noteq> Inl (RC_OK v k)"
    "fst (get_blocks f eb l (OCTET_STRING_per_get_characters bpc u lb ub pc) pd) \<noteq> Inl (RC_OK v k)" for bpc u lb ub pc n pd f eb l
    by (rule get_characters_error, rule get_blocks_error, rule get_characters_error)
  have f: "\<exists>b. v = V_OCTET_STRING b"
    if "fst (case q of Inl e \<Rightarrow> (e, pd) | Inr cs \<Rightarrow> (RC_OK (V_OCTET_STRING (concat cs)) m, pd)) = RC_OK v k" "q \<noteq> Inl (RC_OK v k)"
    for q :: "asn_dec_rval + byte list list" and m and pd :: asn_bit_data
    using that by (auto split: sum.splits)
  show ?thesis using d
    by (auto simp: OCTET_STRING_decode_uper_def Let_def case_prod_beta simp del: get_blocks.simps split: option.splits if_splits
        dest!: f [OF _ e(1)] f [OF _ e(2)])
qed

lemma simple_typed_decoded:
  assumes "decoded (simple_decoder td c) v"
  shows "simple_typed td c v"
proof (cases "td_op td")
  case OP_NULL
  then show ?thesis using assms by (auto simp: decoded_def simple_decoder_def simple_typed_def NULL_decode_uper_def)
next
  case OP_BOOLEAN
  then have "decoded (BOOLEAN_decode_uper td c) v" using assms by (auto simp: decoded_def simple_decoder_def)
  then have "v = V_BOOLEAN 0 \<or> v = V_BOOLEAN 1"
    by (auto simp: decoded_def BOOLEAN_decode_uper_def case_prod_beta split: if_splits)
  then show ?thesis using OP_BOOLEAN by (auto simp: simple_typed_def)
next
  case OP_NativeInteger
  then show ?thesis using assms NativeInteger_typed [of td c v] by (auto simp: decoded_def simple_decoder_def simple_typed_def)
next
  case OP_NativeEnumerated
  then show ?thesis using assms NativeEnumerated_typed [of td c v] by (auto simp: decoded_def simple_decoder_def simple_typed_def)
next
  case OP_INTEGER
  then show ?thesis using assms INTEGER_typed [of td c v] by (auto simp: decoded_def simple_decoder_def simple_typed_def)
next
  case OP_ENUMERATED
  then have "decoded (ENUMERATED_decode_uper td c) v" using assms by (auto simp: decoded_def simple_decoder_def)
  then have "\<exists>b. v = V_INTEGER (Some b)" by (rule ENUMERATED_typed)
  then show ?thesis using OP_ENUMERATED by (auto simp: simple_typed_def)
next
  case OP_OCTET_STRING
  then have "decoded (OCTET_STRING_decode_uper td c) v" using assms by (auto simp: decoded_def simple_decoder_def)
  then have "\<exists>b. v = V_OCTET_STRING b" by (rule OCTET_STRING_typed)
  then show ?thesis using OP_OCTET_STRING by (auto simp: simple_typed_def)
next
  case OP_BIT_STRING
  then show ?thesis using assms BIT_STRING_typed [of td c v] by (auto simp: decoded_def simple_decoder_def simple_typed_def)
qed (use assms in \<open>auto simp: decoded_def simple_decoder_def OPEN_TYPE_uper_get_def\<close>)

section \<open>Constructed types\<close>

lemma open_type_decoded:
  assumes "decoded (uper_open_type_get d) v"
  shows "decoded d v"
proof -
  obtain pd k where f: "fst (uper_open_type_get_simple d pd) = RC_OK v k"
    using assms by (auto simp: decoded_def uper_open_type_get_def)
  obtain buf pd1 where g: "uper_get_fragments pd = (Some buf, pd1)"
    using f by (cases "uper_get_fragments pd"; cases "fst (uper_get_fragments pd)") (auto simp: uper_open_type_get_simple_def)
  obtain r spd where r: "d \<lparr>pd_octets = buf, pd_buffer = 0, pd_nboff = 0, pd_nbits = 8 * length buf, pd_moved = 0, pd_fault = False\<rparr> = (r, spd)"
    by force
  obtain w k1 where "r = RC_OK w k1" using f g r by (cases r) (auto simp: uper_open_type_get_simple_def)
  moreover from this have "w = v" using f g r by (auto simp: uper_open_type_get_simple_def Let_def split: if_splits)
  ultimately show ?thesis using decodedI r by blast
qed

lemma absent_typed: "list_all2 (member_typed P) es (replicate (length es) None)"
  by (induction es) (simp_all add: member_typed_def)

abbreviation filled :: "asn_TYPE_member \<Rightarrow> asn_value option \<Rightarrow> bool" where
  "filled elm m \<equiv> elm_optional elm \<or> m \<noteq> None"

lemma get_root_typed:
  assumes P: "\<And>td c v. decoded (dec td c) v \<Longrightarrow> P td c v"
  shows "seq_get_root dec elms opmd pd = (Inr ms, pd') \<Longrightarrow>
    list_all2 (member_typed P) elms ms \<and> list_all2 filled elms ms"
proof (induction elms arbitrary: opmd pd ms)
  case (Cons elm elms)
  obtain present opmd1 where o: "(if elm_optional elm then asn_get_few_bits opmd 1 else (1, opmd)) = (present, opmd1)" by force
  show ?case
  proof (cases "elm_optional elm \<and> present = 0")
    case True
    then obtain ms1 where "seq_get_root dec elms opmd1 pd = (Inr ms1, pd')" "ms = elm_default elm # ms1"
      using Cons.prems o by (auto split: prod.splits sum.splits)
    then show ?thesis using Cons.IH True by (auto simp: member_typed_def split: option.split)
  next
    case False
    obtain r pd1 where d: "dec (elm_type elm) (elm_per_constraints elm) pd = (r, pd1)" by force
    obtain v k ms1 where r: "r = RC_OK v k" "seq_get_root dec elms opmd1 pd1 = (Inr ms1, pd')" "ms = Some v # ms1"
      using Cons.prems o False d by (cases r) (auto split: prod.splits sum.splits if_splits)
    have "P (elm_type elm) (elm_per_constraints elm) v" using P decodedI d r(1) by blast
    then show ?thesis using Cons.IH r by (auto simp: member_typed_def)
  qed
qed simp

lemma get_ext_typed:
  assumes P: "\<And>td c v. decoded (dec td c) v \<Longrightarrow> P td c v"
  shows "seq_get_ext dec elms epmd pd = (Inr (ms, ep), pd') \<Longrightarrow> list_all2 (member_typed P) elms ms"
proof (induction elms arbitrary: epmd pd ms)
  case (Cons elm elms)
  obtain present epmd1 where o: "asn_get_few_bits epmd 1 = (present, epmd1)" by force
  consider "present < 0" | "present = 0" | "present > 0" by linarith
  then show ?case
  proof cases
    case 1
    then show ?thesis using Cons.prems o absent_typed [of P "elm # elms"] by auto
  next
    case 2
    then obtain ms1 where "seq_get_ext dec elms epmd1 pd = (Inr (ms1, ep), pd')" "ms = None # ms1"
      using Cons.prems o by (auto split: prod.splits sum.splits)
    then show ?thesis using Cons.IH by (auto simp: member_typed_def)
  next
    case 3
    obtain r pd1 where d: "uper_open_type_get (dec (elm_type elm) (elm_per_constraints elm)) pd = (r, pd1)" by force
    obtain v k ms1 where r: "r = RC_OK v k" "seq_get_ext dec elms epmd1 pd1 = (Inr (ms1, ep), pd')" "ms = Some v # ms1"
      using Cons.prems o 3 d by (cases r) (auto split: prod.splits sum.splits if_splits)
    have "P (elm_type elm) (elm_per_constraints elm) v" using P open_type_decoded decodedI d r(1) by blast
    then show ?thesis using Cons.IH r by (auto simp: member_typed_def)
  qed
qed simp

lemma fill_defaults_typed:
  assumes "list_all2 (member_typed P) es ms" "list_all2 filled (take n es) (take n ms)"
  shows "list_all2 (member_typed P) es (seq_fill_defaults es idx ms)
    \<and> list_all2 filled (take n es) (take n (seq_fill_defaults es idx ms))"
  using assms
proof (induction idx arbitrary: ms)
  case (Cons i idx)
  let ?ms = "if elm_default (es ! i) \<noteq> None \<and> elm_pointer (es ! i) \<and> ms ! i = None then ms[i := elm_default (es ! i)] else ms"
  have "member_typed P (es ! j) (?ms ! j)" if "j < length ms" for j
    using Cons.prems(1) that by (cases "j = i") (auto simp: list_all2_conv_all_nth member_typed_def)
  then have "list_all2 (member_typed P) es ?ms"
    using Cons.prems(1) by (simp add: list_all2_conv_all_nth)
  moreover have l: "length ms = length es" using Cons.prems(1) by (simp add: list_all2_conv_all_nth)
  have "filled (es ! j) (?ms ! j)" if "j < length es" "j < n" for j
    using Cons.prems(2) that l by (cases "j = i") (auto simp: list_all2_conv_all_nth)
  then have "list_all2 filled (take n es) (take n ?ms)"
    by (simp add: list_all2_conv_all_nth l)
  ultimately show ?case using Cons.IH by simp
qed simp

lemma SEQUENCE_typed:
  assumes P: "\<And>td c v. decoded (dec td c) v \<Longrightarrow> P td c v"
    and "decoded (SEQUENCE_decode_uper dec td c) v"
  shows "\<exists>ms. v = V_SEQUENCE ms \<and> list_all2 (member_typed P) (td_elements td) ms
     \<and> list_all2 filled (take (seq_root_count td) (td_elements td)) (take (seq_root_count td) ms)"
proof -
  define n where "n = seq_root_count td"
  define es where "es = td_elements td"
  obtain pd k where d: "fst (SEQUENCE_decode_uper dec td c pd) = RC_OK v k" using assms(2) by (auto simp: decoded_def)
  obtain opmd pd1 root pd2 x pd3 exts where
    r: "seq_get_root dec (take n es) opmd pd1 = (Inr root, pd2)"
    and x: "seq_get_extensions dec (drop n es) pd2 = (Inr exts, pd3) \<or> exts = replicate (length es - n) None"
    and v: "v = V_SEQUENCE (root @ exts) \<or> v = V_SEQUENCE (seq_fill_defaults es x (root @ exts))"
    using d seq_get_root_error [of dec "take n es"] seq_get_extensions_error [of dec "drop n es"]
    unfolding SEQUENCE_decode_uper_def Let_def n_def [symmetric] es_def [symmetric]
    by (auto split: prod.splits if_splits sum.splits) (metis fst_conv)+
  have t: "list_all2 (member_typed P) (take n es) root" "list_all2 filled (take n es) root"
    using get_root_typed [OF P r] by auto
  have "list_all2 (member_typed P) (drop n es) exts"
    using x
  proof
    assume "seq_get_extensions dec (drop n es) pd2 = (Inr exts, pd3)"
    then obtain epmd pd4 ep pd5 where "seq_get_ext dec (drop n es) epmd pd4 = (Inr (exts, ep), pd5)"
      by (auto simp: seq_get_extensions_def split: prod.splits sum.splits if_splits)
    from get_ext_typed [of dec P, OF P this] show ?thesis .
  qed (use absent_typed [of P "drop n es"] in simp)
  then have a: "list_all2 (member_typed P) es (root @ exts)"
    using list_all2_appendI [OF t(1)] by fastforce
  have "length root = length (take n es)" using list_all2_lengthD [OF t(1)] by simp
  then have b: "list_all2 filled (take n es) (take n (root @ exts))"
    using t(2) list_all2_lengthD [OF a] by (cases "n \<le> length es") auto
  show ?thesis using v fill_defaults_typed [OF a b] a b by (auto simp: n_def es_def)
qed

lemma choice_index_error: "fst (choice_get_index td c pd) \<noteq> Inl (RC_OK v k)"
  by (auto simp: choice_get_index_def choice_get_ext_def Let_def split: option.split prod.split)

lemma CHOICE_typed:
  assumes P: "\<And>td c v. decoded (dec td c) v \<Longrightarrow> P td c v"
    and "decoded (CHOICE_decode_uper dec td c) v"
  shows "\<exists>p m. v = V_CHOICE (Suc p) (Some m) \<and> p < length (td_elements td)
     \<and> P (elm_type (td_elements td ! p)) (elm_per_constraints (td_elements td ! p)) m"
proof -
  obtain pd k where d: "fst (CHOICE_decode_uper dec td c pd) = RC_OK v k" using assms(2) by (auto simp: decoded_def)
  obtain q pd1 where q: "choice_get_index td c pd = (q, pd1)" by force
  have "q \<noteq> Inl (RC_OK v k)" using choice_index_error [of td c pd] q by (metis fst_conv)
  then obtain i root where i: "q = Inr (i, root)" using d q by (cases q) (auto simp: CHOICE_decode_uper_def)
  define p where "p = choice_order (from_canonical_order (choice_specs td)) i"
  define dc where "dc = dec (elm_type (td_elements td ! p)) (elm_per_constraints (td_elements td ! p))"
  obtain r pd2 where r: "(if root then dc pd1 else uper_open_type_get dc pd1) = (r, pd2)" by force
  have p: "p < length (td_elements td)" and "\<exists>m k. r = RC_OK m k \<and> v = V_CHOICE (Suc p) (Some m)"
    using d q i r by (auto simp: CHOICE_decode_uper_def Let_def p_def dc_def split: if_splits asn_dec_rval.splits)
  then obtain m k1 where m: "r = RC_OK m k1" "v = V_CHOICE (Suc p) (Some m)" by blast
  have "decoded dc m" using r m(1) open_type_decoded decodedI by (metis (full_types))
  then show ?thesis using p m(2) P by (auto simp: dc_def)
qed

lemma so_elems_typed:
  assumes "\<And>v. decoded d v \<Longrightarrow> P v"
  shows "so_get_elems d n k pd = (Inr vs, pd') \<Longrightarrow> list_all P vs"
proof (induction k arbitrary: pd vs)
  case (Suc k)
  obtain r pd1 where r: "d pd = (r, pd1)" by force
  obtain v j ws where w: "r = RC_OK v j" "so_get_elems d n k pd1 = (Inr ws, pd')" "vs = v # ws"
    using Suc.prems r by (cases r) (auto split: prod.splits sum.splits if_splits)
  then show ?case using Suc.IH assms [OF decodedI [of d pd v j pd1]] r by simp
qed simp

lemma so_elems_error: "fst (so_get_elems d n k pd) \<noteq> Inl (RC_OK v j)"
proof (induction k arbitrary: pd)
  case (Suc k)
  obtain r pd1 where r: "d pd = (r, pd1)" by force
  obtain q pd2 where q: "so_get_elems d n k pd1 = (q, pd2)" by force
  have "q \<noteq> Inl (RC_OK v j)" using Suc [of pd1] by (simp add: q)
  then show ?case by (cases r) (auto simp: r q split: sum.split)
qed simp

lemma SET_OF_typed:
  assumes P: "\<And>td c v. decoded (dec td c) v \<Longrightarrow> P td c v"
    and "decoded (SET_OF_decode_uper dec td c) v"
  shows "\<exists>vs. v = V_LIST vs \<and> list_all (P (elm_type (so_elm td)) (elm_per_constraints (so_elm td))) vs"
proof -
  define body where "body = (\<lambda>n. so_get_elems (dec (elm_type (so_elm td)) (elm_per_constraints (so_elm td))) n (nat n))"
  obtain pd k where d: "fst (SET_OF_decode_uper dec td c pd) = RC_OK v k" using assms(2) by (auto simp: decoded_def)
  have e: "fst (body n pd) \<noteq> Inl (RC_OK v k)" "fst (get_blocks f eb l body pd) \<noteq> Inl (RC_OK v k)" for n pd f eb l
    unfolding body_def by (rule so_elems_error, rule get_blocks_error, rule so_elems_error)
  have t: "body n pd = (Inr vs, pd') \<Longrightarrow> list_all (P (elm_type (so_elm td)) (elm_per_constraints (so_elm td))) vs" for n pd vs pd'
    unfolding body_def by (rule so_elems_typed) (rule P)
  define ct where "ct = size_constraint td c"
  obtain x pd1 where x: "(case ct of Some c \<Rightarrow> if APC_EXTENSIBLE c then asn_get_few_bits pd 1 else (0, pd) | None \<Rightarrow> (0, pd)) = (x, pd1)"
    by force
  obtain ne pd2 where ne: "(case if x \<noteq> 0 then None else ct of
        Some c \<Rightarrow> if effective_bits c \<ge> 0 then (case asn_get_few_bits pd1 (effective_bits c) of
            (n, pd) \<Rightarrow> if n < 0 then (None, pd) else (Some (n + lower_bound c), pd)) else (Some (-1), pd1)
      | None \<Rightarrow> (Some (-1), pd1)) = (ne, pd2)" by (rule prod.exhaust)
  obtain n where n: "x \<ge> 0" "ne = Some n"
    using d x ne unfolding SET_OF_decode_uper_def Let_def ct_def [symmetric]
    by (cases ne) (auto simp del: get_blocks.simps split: if_splits)
  obtain q pd3 where q: "(if n < 0 then get_blocks (Suc (pd_left pd2)) (-1) 0 body pd2 else body n pd2) = (q, pd3)" by force
  have "q \<noteq> Inl (RC_OK v k)" using e(1) [of n pd2] e(2) [of "Suc (pd_left pd2)" "-1" 0 pd2] q by (metis fst_conv)
  moreover have "fst (case q of Inl e \<Rightarrow> (e, pd3) | Inr vs \<Rightarrow> (RC_OK (V_LIST vs) 0, pd3)) = RC_OK v k"
    using d n unfolding SET_OF_decode_uper_def Let_def ct_def [symmetric] body_def [symmetric] x prod.case ne option.case q
    by (simp only: n option.case fun_cong [OF fun_cong [OF body_def [symmetric]], of n] q prod.case not_less [symmetric] if_False)
  ultimately obtain vs where vs: "q = Inr vs" "v = V_LIST vs" by (auto split: sum.splits)
  have "list_all (P (elm_type (so_elm td)) (elm_per_constraints (so_elm td))) vs"
  proof (cases "n < 0")
    case True
    with q have "get_blocks (Suc (pd_left pd2)) (-1) 0 body pd2 = (Inr vs, pd3)" by (simp only: if_True vs(1))
    then show ?thesis by (rule get_blocks_elems [rotated]) (rule t)
  next
    case False
    with q show ?thesis by (simp only: if_False vs(1)) (rule t)
  qed
  then show ?thesis using vs(2) by blast
qed

section \<open>Every decoder\<close>

lemma decoded_typed: "decoded (uper_decoder_op n td c) v \<Longrightarrow> value_typed n td c v"
proof (induction n arbitrary: td c v)
  case 0
  then show ?case using simple_typed_decoded by simp
next
  case (Suc n)
  note P = Suc.IH
  show ?case
  proof (cases "td_op td")
    case OP_SEQUENCE
    then have "decoded (SEQUENCE_decode_uper (uper_decoder_op n) td c) v" using Suc.prems by (simp add: decoded_def)
    from SEQUENCE_typed [of "uper_decoder_op n" "value_typed n", OF P this] show ?thesis
      using OP_SEQUENCE by (auto simp: list_all2_lengthD)
  next
    case OP_CHOICE
    then have "decoded (CHOICE_decode_uper (uper_decoder_op n) td c) v" using Suc.prems by (simp add: decoded_def)
    from CHOICE_typed [of "uper_decoder_op n" "value_typed n", OF P this] show ?thesis
      using OP_CHOICE by auto
  next
    case OP_SEQUENCE_OF
    then have "decoded (SET_OF_decode_uper (uper_decoder_op n) td c) v" using Suc.prems by (simp add: decoded_def)
    from SET_OF_typed [of "uper_decoder_op n" "value_typed n", OF P this] show ?thesis
      using OP_SEQUENCE_OF by auto
  qed (use Suc.prems simple_typed_decoded [of td c v] in \<open>simp_all add: decoded_def\<close>)
qed

end
