(* ===== verification/Validation.thy ===== *)
theory Validation
  imports Its_Checks Utf8 Decoded_Values Examples
begin

text \<open>
  The properties of the constraint checks and of decoded values, with instances on concrete data.
\<close>

section \<open>Checks of a message\<close>

definition message_checks :: "(asn_TYPE_descriptor \<times> asn_check) list" where
  "message_checks = [(asn_DEF_CAM, gc_CAM), (asn_DEF_DENM, gc_DENM), (asn_DEF_SPATEM, gc_SPATEM), (asn_DEF_MAPEM, gc_MAPEM)]"

lemmas message_check_defs = gc_CAM_def gc_DENM_def gc_SPATEM_def gc_MAPEM_def
  asn_DEF_CAM_def asn_DEF_DENM_def asn_DEF_SPATEM_def asn_DEF_MAPEM_def
  asn_MBR_CAM_1_def asn_MBR_DENM_1_def asn_MBR_SPATEM_1_def asn_MBR_MAPEM_1_def

lemma header_check:
  "general_constraints gc_ItsPduHeader asn_DEF_ItsPduHeader (Some (V_SEQUENCE [Some (V_long version), Some (V_long message_id), Some station])) = 0
   \<longleftrightarrow> 0 \<le> version \<and> version \<le> 255 \<and> 0 \<le> message_id \<and> message_id \<le> 255"
  by (auto simp: general_constraints_def gc_ItsPduHeader_def gc_StationID_def SEQUENCE_constraint_def asn_DEF_ItsPduHeader_def
      asn_MBR_ItsPduHeader_1_def memb_protocolVersion_constraint_1_def memb_messageID_constraint_1_def StationID_constraint_def)

lemma message_check:
  assumes "(td, gc) \<in> set message_checks"
  shows "asn_check_constraints gc td (Some (V_SEQUENCE (Some header # body)))
    = general_constraints gc_ItsPduHeader asn_DEF_ItsPduHeader (Some header)"
  using assms
  by (auto simp: message_checks_def asn_check_constraints_def general_constraints_def SEQUENCE_constraint_def message_check_defs)

text \<open>
  C25. For all four messages validate depends on the header only, and there on the protocol
  version and the message identifier: whatever the body holds, the message is accepted exactly
  if these two are from 0 to 255.
\<close>

theorem validate_checks_only_the_header:
  "list_all (\<lambda>(td, gc).
      validate gc td (V_SEQUENCE (Some (V_SEQUENCE [Some (V_long version), Some (V_long message_id), Some station]) # body))
      \<longleftrightarrow> 0 \<le> version \<and> version \<le> 255 \<and> 0 \<le> message_id \<and> message_id \<le> 255)
    message_checks"
  by (auto simp: list_all_iff validate_def message_check header_check)

text \<open>
  C5. Whatever octets arrive, what decode_per returns is a value of the described type:
  structures have all their members with the mandatory ones present, the presence index of a
  CHOICE selects the alternative that is stored, signed integers with a fixed range are in it,
  enumerated values are in their table, and every member and element is again a value of its
  type.
\<close>

theorem decoded_values_are_typed:
  assumes "decode_per td octets = Some (Some v)"
  shows "value_typed (td_depth td) td None v"
  using decoded_typed decode_per_decoded [OF assms] unfolding uper_decoder_of_def by blast

theorem decoded_values_are_typed_witness: "value_typed (td_depth asn_DEF_DENM) asn_DEF_DENM None denm_example"
  by (rule decoded_values_are_typed [OF denm_decodes])

lemma octet_typed:
  assumes "value_typed n asn_DEF_NativeInteger (Some pc) v" "pc_value pc = apc False True False 8 8 0 255"
  shows "\<exists>i. v = V_long i \<and> 0 \<le> i \<and> i \<le> 255"
  using assms
  by (cases n) (auto simp: asn_DEF_NativeInteger_def simple_typed_def int_in_range_def value_constraint_def pick_constraints_def
      apc_def apc_unconstrained_def td_field_unsigned_def split: asn_value.splits)

lemma header_typed:
  assumes "value_typed n asn_DEF_ItsPduHeader None h"
  shows "\<exists>version message_id station. h = V_SEQUENCE [Some (V_long version), Some (V_long message_id), Some station]
    \<and> 0 \<le> version \<and> version \<le> 255 \<and> 0 \<le> message_id \<and> message_id \<le> 255"
proof -
  obtain m where n: "n = Suc m"
    using assms by (cases n) (auto simp: simple_typed_def asn_DEF_ItsPduHeader_def)
  obtain a b c where h: "h = V_SEQUENCE [Some a, Some b, Some c]"
    "value_typed m asn_DEF_NativeInteger (Some asn_PER_memb_protocolVersion_constr_2) a"
    "value_typed m asn_DEF_NativeInteger (Some asn_PER_memb_messageID_constr_3) b"
    using assms
    by (auto simp: n asn_DEF_ItsPduHeader_def asn_MBR_ItsPduHeader_1_def asn_SPC_ItsPduHeader_specs_1_def member_typed_def
        seq_root_count_def seq_specs_def list_all2_Cons1 take_Cons' split: asn_value.splits)
  have "pc_value asn_PER_memb_protocolVersion_constr_2 = apc False True False 8 8 0 255"
    "pc_value asn_PER_memb_messageID_constr_3 = apc False True False 8 8 0 255"
    by (simp_all add: asn_PER_memb_protocolVersion_constr_2_def asn_PER_memb_messageID_constr_3_def)
  from octet_typed [OF h(2) this(1)] octet_typed [OF h(3) this(2)] show ?thesis using h(1) by auto
qed

lemma message_typed:
  assumes "(td, gc) \<in> set message_checks" "value_typed n td None v"
  shows "\<exists>header body m. v = V_SEQUENCE (Some header # body) \<and> value_typed m asn_DEF_ItsPduHeader None header"
  using assms
  by (cases n) (auto simp: message_checks_def message_check_defs simple_typed_def member_typed_def seq_root_count_def seq_specs_def
      asn_SPC_CAM_specs_1_def asn_SPC_DENM_specs_1_def asn_SPC_SPATEM_specs_1_def asn_SPC_MAPEM_specs_1_def
      list_all2_Cons1 take_Cons' split: asn_value.splits, blast+)

text \<open>
  decoded
\<close>

theorem decoded_messages_pass_validate:
  assumes "(td, gc) \<in> set message_checks" "decode_per td octets = Some (Some v)"
  shows "validate gc td v"
proof -
  have "value_typed (td_depth td) td None v"
    using decoded_typed decode_per_decoded [OF assms(2)] unfolding uper_decoder_of_def by blast
  then obtain header body m where h: "v = V_SEQUENCE (Some header # body)" "value_typed m asn_DEF_ItsPduHeader None header"
    using message_typed [OF assms(1)] by blast
  then show ?thesis using header_typed [OF h(2)] by (auto simp: validate_def message_check [OF assms(1)] header_check)
qed

theorem decoded_messages_pass_validate_witness: "validate gc_DENM asn_DEF_DENM denm_example"
  by (rule decoded_messages_pass_validate [OF _ denm_decodes]) (simp add: message_checks_def)

text \<open>
  C24. A CAM, SPATEM or MAPEM that can be encoded and has no value outside the root of an
  extensible constraint satisfies the generated check of every type and member in it, at every
  depth, also in the reference check that looks at all members; so validate accepts it.
\<close>

theorem encodable_messages_conform:
  assumes "(td, gc) \<in> set [(asn_DEF_CAM, gc_CAM), (asn_DEF_SPATEM, gc_SPATEM), (asn_DEF_MAPEM, gc_MAPEM)]"
    and "fits td v" "in_root (td_depth td) td None v"
  shows "complete_constraints gc td (Some v) = 0 \<and> validate gc td v"
proof -
  have "admits (complete_constraints gc) td None" "admits (general_constraints gc) td None"
    using assms(1) code.gc_CAM_admits code.gc_SPATEM_admits code.gc_MAPEM_admits
      reference.gc_CAM_admits reference.gc_SPATEM_admits reference.gc_MAPEM_admits
    by (auto simp: complete_constraints_def general_constraints_def)
  then show ?thesis using assms(2,3) by (auto simp: validate_def asn_check_constraints_def dest: admitsD)
qed

lemma cam_in_root: "in_root (td_depth asn_DEF_CAM) asn_DEF_CAM None cam_example"
  unfolding cam_depth by code_simp

theorem encodable_messages_conform_witness:
  "complete_constraints gc_CAM asn_DEF_CAM (Some cam_example) = 0 \<and> validate gc_CAM asn_DEF_CAM cam_example"
  by (rule encodable_messages_conform [OF _ cam_fits cam_in_root]) simp


section \<open>Ranges\<close>

text \<open>The generated checks of an integer, with the descriptor and the PER constraints of the type or member they belong to.\<close>

definition range_checks :: "(asn_constr_check_f \<times> asn_TYPE_descriptor \<times> asn_per_constraints) list" where
  "range_checks =
     [(memb_protocolVersion_constraint_1, asn_DEF_NativeInteger, asn_PER_memb_protocolVersion_constr_2),
      (memb_messageID_constraint_1, asn_DEF_NativeInteger, asn_PER_memb_messageID_constr_3),
      (GenerationDeltaTime_constraint, asn_DEF_GenerationDeltaTime, asn_PER_type_GenerationDeltaTime_constr_1),
      (StationType_constraint, asn_DEF_StationType, asn_PER_type_StationType_constr_1),
      (Latitude_constraint, asn_DEF_Latitude, asn_PER_type_Latitude_constr_1),
      (Longitude_constraint, asn_DEF_Longitude, asn_PER_type_Longitude_constr_1),
      (SemiAxisLength_constraint, asn_DEF_SemiAxisLength, asn_PER_type_SemiAxisLength_constr_1),
      (HeadingValue_constraint, asn_DEF_HeadingValue, asn_PER_type_HeadingValue_constr_1),
      (AltitudeValue_constraint, asn_DEF_AltitudeValue, asn_PER_type_AltitudeValue_constr_1),
      (HeadingConfidence_constraint, asn_DEF_HeadingConfidence, asn_PER_type_HeadingConfidence_constr_1),
      (SpeedValue_constraint, asn_DEF_SpeedValue, asn_PER_type_SpeedValue_constr_1),
      (SpeedConfidence_constraint, asn_DEF_SpeedConfidence, asn_PER_type_SpeedConfidence_constr_1),
      (VehicleLengthValue_constraint, asn_DEF_VehicleLengthValue, asn_PER_type_VehicleLengthValue_constr_1),
      (VehicleWidth_constraint, asn_DEF_VehicleWidth, asn_PER_type_VehicleWidth_constr_1),
      (LongitudinalAccelerationValue_constraint, asn_DEF_LongitudinalAccelerationValue, asn_PER_type_LongitudinalAccelerationValue_constr_1),
      (AccelerationConfidence_constraint, asn_DEF_AccelerationConfidence, asn_PER_type_AccelerationConfidence_constr_1),
      (CurvatureValue_constraint, asn_DEF_CurvatureValue, asn_PER_type_CurvatureValue_constr_1),
      (YawRateValue_constraint, asn_DEF_YawRateValue, asn_PER_type_YawRateValue_constr_1),
      (LanePosition_constraint, asn_DEF_LanePosition, asn_PER_type_LanePosition_constr_1),
      (SteeringWheelAngleValue_constraint, asn_DEF_SteeringWheelAngleValue, asn_PER_type_SteeringWheelAngleValue_constr_1),
      (SteeringWheelAngleConfidence_constraint, asn_DEF_SteeringWheelAngleConfidence, asn_PER_type_SteeringWheelAngleConfidence_constr_1),
      (LateralAccelerationValue_constraint, asn_DEF_LateralAccelerationValue, asn_PER_type_LateralAccelerationValue_constr_1),
      (VerticalAccelerationValue_constraint, asn_DEF_VerticalAccelerationValue, asn_PER_type_VerticalAccelerationValue_constr_1),
      (PerformanceClass_constraint, asn_DEF_PerformanceClass, asn_PER_type_PerformanceClass_constr_1),
      (CenDsrcTollingZoneID_constraint, asn_DEF_CenDsrcTollingZoneID, asn_PER_type_CenDsrcTollingZoneID_constr_1),
      (ProtectedZoneRadius_constraint, asn_DEF_ProtectedZoneRadius, asn_PER_type_ProtectedZoneRadius_constr_1),
      (ProtectedZoneID_constraint, asn_DEF_ProtectedZoneID, asn_PER_type_ProtectedZoneID_constr_1),
      (DeltaLatitude_constraint, asn_DEF_DeltaLatitude, asn_PER_type_DeltaLatitude_constr_1),
      (DeltaLongitude_constraint, asn_DEF_DeltaLongitude, asn_PER_type_DeltaLongitude_constr_1),
      (DeltaAltitude_constraint, asn_DEF_DeltaAltitude, asn_PER_type_DeltaAltitude_constr_1),
      (PathDeltaTime_constraint, asn_DEF_PathDeltaTime, asn_PER_type_PathDeltaTime_constr_1),
      (PtActivationType_constraint, asn_DEF_PtActivationType, asn_PER_type_PtActivationType_constr_1),
      (RoadworksSubCauseCode_constraint, asn_DEF_RoadworksSubCauseCode, asn_PER_type_RoadworksSubCauseCode_constr_1),
      (CauseCodeType_constraint, asn_DEF_CauseCodeType, asn_PER_type_CauseCodeType_constr_1),
      (SubCauseCodeType_constraint, asn_DEF_SubCauseCodeType, asn_PER_type_SubCauseCodeType_constr_1),
      (SpeedLimit_constraint, asn_DEF_SpeedLimit, asn_PER_type_SpeedLimit_constr_1),
      (SequenceNumber_constraint, asn_DEF_SequenceNumber, asn_PER_type_SequenceNumber_constr_1),
      (ValidityDuration_constraint, asn_DEF_ValidityDuration, asn_PER_type_ValidityDuration_constr_1),
      (TransmissionInterval_constraint, asn_DEF_TransmissionInterval, asn_PER_type_TransmissionInterval_constr_1),
      (InformationQuality_constraint, asn_DEF_InformationQuality, asn_PER_type_InformationQuality_constr_1),
      (HeightLonCarr_constraint, asn_DEF_HeightLonCarr, asn_PER_type_HeightLonCarr_constr_1),
      (PosLonCarr_constraint, asn_DEF_PosLonCarr, asn_PER_type_PosLonCarr_constr_1),
      (PosPillar_constraint, asn_DEF_PosPillar, asn_PER_type_PosPillar_constr_1),
      (PosCentMass_constraint, asn_DEF_PosCentMass, asn_PER_type_PosCentMass_constr_1),
      (WheelBaseVehicle_constraint, asn_DEF_WheelBaseVehicle, asn_PER_type_WheelBaseVehicle_constr_1),
      (TurningRadius_constraint, asn_DEF_TurningRadius, asn_PER_type_TurningRadius_constr_1),
      (PosFrontAx_constraint, asn_DEF_PosFrontAx, asn_PER_type_PosFrontAx_constr_1),
      (VehicleMass_constraint, asn_DEF_VehicleMass, asn_PER_type_VehicleMass_constr_1),
      (Temperature_constraint, asn_DEF_Temperature, asn_PER_type_Temperature_constr_1),
      (memb_unNumber_constraint_1, asn_DEF_NativeInteger, asn_PER_memb_unNumber_constr_3),
      (NumberOfOccupants_constraint, asn_DEF_NumberOfOccupants, asn_PER_type_NumberOfOccupants_constr_1),
      (MinuteOfTheYear_constraint, asn_DEF_MinuteOfTheYear, asn_PER_type_MinuteOfTheYear_constr_1),
      (RoadRegulatorID_constraint, asn_DEF_RoadRegulatorID, asn_PER_type_RoadRegulatorID_constr_1),
      (IntersectionID_constraint, asn_DEF_IntersectionID, asn_PER_type_IntersectionID_constr_1),
      (MsgCount_constraint, asn_DEF_MsgCount, asn_PER_type_MsgCount_constr_1),
      (DSecond_constraint, asn_DEF_DSecond, asn_PER_type_DSecond_constr_1),
      (LaneID_constraint, asn_DEF_LaneID, asn_PER_type_LaneID_constr_1),
      (SignalGroupID_constraint, asn_DEF_SignalGroupID, asn_PER_type_SignalGroupID_constr_1),
      (TimeMark_constraint, asn_DEF_TimeMark, asn_PER_type_TimeMark_constr_1),
      (TimeIntervalConfidence_constraint, asn_DEF_TimeIntervalConfidence, asn_PER_type_TimeIntervalConfidence_constr_1),
      (SpeedAdvice_constraint, asn_DEF_SpeedAdvice, asn_PER_type_SpeedAdvice_constr_1),
      (ZoneLength_constraint, asn_DEF_ZoneLength, asn_PER_type_ZoneLength_constr_1),
      (RestrictionClassID_constraint, asn_DEF_RestrictionClassID, asn_PER_type_RestrictionClassID_constr_1),
      (RegionId_constraint, asn_DEF_RegionId, asn_PER_type_RegionId_constr_1),
      (memb_regionId_constraint_1, asn_DEF_RegionId, asn_PER_memb_regionId_constr_2),
      (LaneConnectionID_constraint, asn_DEF_LaneConnectionID, asn_PER_type_LaneConnectionID_constr_1),
      (LayerID_constraint, asn_DEF_LayerID, asn_PER_type_LayerID_constr_1),
      (Elevation_constraint, asn_DEF_Elevation, asn_PER_type_Elevation_constr_1),
      (LaneWidth_constraint, asn_DEF_LaneWidth, asn_PER_type_LaneWidth_constr_1),
      (Velocity_constraint, asn_DEF_Velocity, asn_PER_type_Velocity_constr_1),
      (ApproachID_constraint, asn_DEF_ApproachID, asn_PER_type_ApproachID_constr_1),
      (Offset_B10_constraint, asn_DEF_Offset_B10, asn_PER_type_Offset_B10_constr_1),
      (Offset_B11_constraint, asn_DEF_Offset_B11, asn_PER_type_Offset_B11_constr_1),
      (Offset_B12_constraint, asn_DEF_Offset_B12, asn_PER_type_Offset_B12_constr_1),
      (Offset_B13_constraint, asn_DEF_Offset_B13, asn_PER_type_Offset_B13_constr_1),
      (Offset_B14_constraint, asn_DEF_Offset_B14, asn_PER_type_Offset_B14_constr_1),
      (Offset_B16_constraint, asn_DEF_Offset_B16, asn_PER_type_Offset_B16_constr_1),
      (DeltaAngle_constraint, asn_DEF_DeltaAngle, asn_PER_type_DeltaAngle_constr_1),
      (RoadwayCrownAngle_constraint, asn_DEF_RoadwayCrownAngle, asn_PER_type_RoadwayCrownAngle_constr_1),
      (MergeDivergeNodeAngle_constraint, asn_DEF_MergeDivergeNodeAngle, asn_PER_type_MergeDivergeNodeAngle_constr_1),
      (DrivenLineOffsetSm_constraint, asn_DEF_DrivenLineOffsetSm, asn_PER_type_DrivenLineOffsetSm_constr_1),
      (DrivenLineOffsetLg_constraint, asn_DEF_DrivenLineOffsetLg, asn_PER_type_DrivenLineOffsetLg_constr_1),
      (Angle_constraint, asn_DEF_Angle, asn_PER_type_Angle_constr_1),
      (Scale_B12_constraint, asn_DEF_Scale_B12, asn_PER_type_Scale_B12_constr_1),
      (RoadSegmentID_constraint, asn_DEF_RoadSegmentID, asn_PER_type_RoadSegmentID_constr_1)]"

lemmas range_check_defs =
  AccelerationConfidence_constraint_def
  AltitudeValue_constraint_def
  Angle_constraint_def
  ApproachID_constraint_def
  CauseCodeType_constraint_def
  CenDsrcTollingZoneID_constraint_def
  CurvatureValue_constraint_def
  DSecond_constraint_def
  DeltaAltitude_constraint_def
  DeltaAngle_constraint_def
  DeltaLatitude_constraint_def
  DeltaLongitude_constraint_def
  DrivenLineOffsetLg_constraint_def
  DrivenLineOffsetSm_constraint_def
  Elevation_constraint_def
  GenerationDeltaTime_constraint_def
  HeadingConfidence_constraint_def
  HeadingValue_constraint_def
  HeightLonCarr_constraint_def
  InformationQuality_constraint_def
  IntersectionID_constraint_def
  LaneConnectionID_constraint_def
  LaneID_constraint_def
  LanePosition_constraint_def
  LaneWidth_constraint_def
  LateralAccelerationValue_constraint_def
  Latitude_constraint_def
  LayerID_constraint_def
  Longitude_constraint_def
  LongitudinalAccelerationValue_constraint_def
  MergeDivergeNodeAngle_constraint_def
  MinuteOfTheYear_constraint_def
  MsgCount_constraint_def
  NumberOfOccupants_constraint_def
  Offset_B10_constraint_def
  Offset_B11_constraint_def
  Offset_B12_constraint_def
  Offset_B13_constraint_def
  Offset_B14_constraint_def
  Offset_B16_constraint_def
  PathDeltaTime_constraint_def
  PerformanceClass_constraint_def
  PosCentMass_constraint_def
  PosFrontAx_constraint_def
  PosLonCarr_constraint_def
  PosPillar_constraint_def
  ProtectedZoneID_constraint_def
  ProtectedZoneRadius_constraint_def
  PtActivationType_constraint_def
  RegionId_constraint_def
  RestrictionClassID_constraint_def
  RoadRegulatorID_constraint_def
  RoadSegmentID_constraint_def
  RoadwayCrownAngle_constraint_def
  RoadworksSubCauseCode_constraint_def
  Scale_B12_constraint_def
  SemiAxisLength_constraint_def
  SequenceNumber_constraint_def
  SignalGroupID_constraint_def
  SpeedAdvice_constraint_def
  SpeedConfidence_constraint_def
  SpeedLimit_constraint_def
  SpeedValue_constraint_def
  StationType_constraint_def
  SteeringWheelAngleConfidence_constraint_def
  SteeringWheelAngleValue_constraint_def
  SubCauseCodeType_constraint_def
  Temperature_constraint_def
  TimeIntervalConfidence_constraint_def
  TimeMark_constraint_def
  TransmissionInterval_constraint_def
  TurningRadius_constraint_def
  ValidityDuration_constraint_def
  VehicleLengthValue_constraint_def
  VehicleMass_constraint_def
  VehicleWidth_constraint_def
  Velocity_constraint_def
  VerticalAccelerationValue_constraint_def
  WheelBaseVehicle_constraint_def
  YawRateValue_constraint_def
  ZoneLength_constraint_def
  asn_PER_memb_messageID_constr_3_def
  asn_PER_memb_protocolVersion_constr_2_def
  asn_PER_memb_regionId_constr_2_def
  asn_PER_memb_unNumber_constr_3_def
  asn_PER_type_AccelerationConfidence_constr_1_def
  asn_PER_type_AltitudeValue_constr_1_def
  asn_PER_type_Angle_constr_1_def
  asn_PER_type_ApproachID_constr_1_def
  asn_PER_type_CauseCodeType_constr_1_def
  asn_PER_type_CenDsrcTollingZoneID_constr_1_def
  asn_PER_type_CurvatureValue_constr_1_def
  asn_PER_type_DSecond_constr_1_def
  asn_PER_type_DeltaAltitude_constr_1_def
  asn_PER_type_DeltaAngle_constr_1_def
  asn_PER_type_DeltaLatitude_constr_1_def
  asn_PER_type_DeltaLongitude_constr_1_def
  asn_PER_type_DrivenLineOffsetLg_constr_1_def
  asn_PER_type_DrivenLineOffsetSm_constr_1_def
  asn_PER_type_Elevation_constr_1_def
  asn_PER_type_GenerationDeltaTime_constr_1_def
  asn_PER_type_HeadingConfidence_constr_1_def
  asn_PER_type_HeadingValue_constr_1_def
  asn_PER_type_HeightLonCarr_constr_1_def
  asn_PER_type_InformationQuality_constr_1_def
  asn_PER_type_IntersectionID_constr_1_def
  asn_PER_type_LaneConnectionID_constr_1_def
  asn_PER_type_LaneID_constr_1_def
  asn_PER_type_LanePosition_constr_1_def
  asn_PER_type_LaneWidth_constr_1_def
  asn_PER_type_LateralAccelerationValue_constr_1_def
  asn_PER_type_Latitude_constr_1_def
  asn_PER_type_LayerID_constr_1_def
  asn_PER_type_Longitude_constr_1_def
  asn_PER_type_LongitudinalAccelerationValue_constr_1_def
  asn_PER_type_MergeDivergeNodeAngle_constr_1_def
  asn_PER_type_MinuteOfTheYear_constr_1_def
  asn_PER_type_MsgCount_constr_1_def
  asn_PER_type_NumberOfOccupants_constr_1_def
  asn_PER_type_Offset_B10_constr_1_def
  asn_PER_type_Offset_B11_constr_1_def
  asn_PER_type_Offset_B12_constr_1_def
  asn_PER_type_Offset_B13_constr_1_def
  asn_PER_type_Offset_B14_constr_1_def
  asn_PER_type_Offset_B16_constr_1_def
  asn_PER_type_PathDeltaTime_constr_1_def
  asn_PER_type_PerformanceClass_constr_1_def
  asn_PER_type_PosCentMass_constr_1_def
  asn_PER_type_PosFrontAx_constr_1_def
  asn_PER_type_PosLonCarr_constr_1_def
  asn_PER_type_PosPillar_constr_1_def
  asn_PER_type_ProtectedZoneID_constr_1_def
  asn_PER_type_ProtectedZoneRadius_constr_1_def
  asn_PER_type_PtActivationType_constr_1_def
  asn_PER_type_RegionId_constr_1_def
  asn_PER_type_RestrictionClassID_constr_1_def
  asn_PER_type_RoadRegulatorID_constr_1_def
  asn_PER_type_RoadSegmentID_constr_1_def
  asn_PER_type_RoadwayCrownAngle_constr_1_def
  asn_PER_type_RoadworksSubCauseCode_constr_1_def
  asn_PER_type_Scale_B12_constr_1_def
  asn_PER_type_SemiAxisLength_constr_1_def
  asn_PER_type_SequenceNumber_constr_1_def
  asn_PER_type_SignalGroupID_constr_1_def
  asn_PER_type_SpeedAdvice_constr_1_def
  asn_PER_type_SpeedConfidence_constr_1_def
  asn_PER_type_SpeedLimit_constr_1_def
  asn_PER_type_SpeedValue_constr_1_def
  asn_PER_type_StationType_constr_1_def
  asn_PER_type_SteeringWheelAngleConfidence_constr_1_def
  asn_PER_type_SteeringWheelAngleValue_constr_1_def
  asn_PER_type_SubCauseCodeType_constr_1_def
  asn_PER_type_Temperature_constr_1_def
  asn_PER_type_TimeIntervalConfidence_constr_1_def
  asn_PER_type_TimeMark_constr_1_def
  asn_PER_type_TransmissionInterval_constr_1_def
  asn_PER_type_TurningRadius_constr_1_def
  asn_PER_type_ValidityDuration_constr_1_def
  asn_PER_type_VehicleLengthValue_constr_1_def
  asn_PER_type_VehicleMass_constr_1_def
  asn_PER_type_VehicleWidth_constr_1_def
  asn_PER_type_Velocity_constr_1_def
  asn_PER_type_VerticalAccelerationValue_constr_1_def
  asn_PER_type_WheelBaseVehicle_constr_1_def
  asn_PER_type_YawRateValue_constr_1_def
  asn_PER_type_ZoneLength_constr_1_def
  memb_messageID_constraint_1_def
  memb_protocolVersion_constraint_1_def
  memb_regionId_constraint_1_def
  memb_unNumber_constraint_1_def

lemma range_check_table:
  "list_all (\<lambda>(constr, td, pc). constr td (Some (V_long i)) =
     (if lower_bound (pc_value pc) \<le> i \<and> i \<le> upper_bound (pc_value pc) then 0 else -1)) range_checks"
  by (simp add: range_checks_def range_check_defs apc_def)

text \<open>
  C26. Each of the 85 generated checks of an integer accepts exactly the values between the
  bounds that the PER constraint of its type or member has, so that the two forms in which the
  compiler writes a constraint agree.
\<close>

theorem range_checks_are_per_bounds:
  "list_all (\<lambda>(constr, td, pc). constr td (Some (V_long i)) = 0
     \<longleftrightarrow> lower_bound (pc_value pc) \<le> i \<and> i \<le> upper_bound (pc_value pc)) range_checks"
  using range_check_table [of i] by (auto simp: list_all_iff split: if_splits)

text \<open>
  C27. UTF8String_length returns the number n exactly for the octets that are the concatenation
  of the shortest UTF-8 encodings of n code points below 2^31; all other octets are an error.
\<close>

theorem utf8_length_counts_code_points:
  "UTF8String_length (Some (V_OCTET_STRING buf)) = int n \<longleftrightarrow>
     (\<exists>vs. length vs = n \<and> list_all (\<lambda>v. 0 \<le> v \<and> v < 2 ^ 31) vs \<and> buf = concat (map utf8_octets vs))"
proof -
  have "utf8_error_code e \<noteq> int n" for e by (cases e) auto
  then show ?thesis
    unfolding UTF8String_length_def process_iff [symmetric] by (auto split: sum.split)
qed

end
