(* ===== verification/Ber_Tlv.thy ===== *)
theory Ber_Tlv
  imports Prelude
begin

text \<open>
  The tags and lengths of the basic encoding rules (\<open>ber_tlv_tag.c\<close>, \<open>ber_tlv_length.c\<close>), on which \<open>copy\<close> of the
  wrapper rests, and the skipping of a value with them.

  \<^item> A function that fetches returns the number of octets it read and the result; the return values 0 (more octets
    wanted) and \<open>-1\<close> are constructors. The argument \<open>size\<close> of the C functions is the length of the list of octets.
  \<^item> \<open>ber_tlv_tag_t\<close> is \<open>unsigned\<close>, a word of 32 bits with the class in the two lowest bits. \<open>ber_tlv_len_t\<close> is
    \<open>ssize_t\<close>: an \<open>int\<close> here, since the code tests before each shift that the result has less than 64 bits.
  \<^item> A function that serialises returns the octets it writes, none if the buffer is too small, and the
    number of octets it needs.
  \<^item> The limit of the stack is not set, as in the wrapper. Printing of tags is left out.

  Lemmas: reading stays inside the octets it is given; a definite answer does not change when more octets
  arrive; what is serialised is read back and skipped, in the definite and in the indefinite form.
\<close>

section \<open>Tags\<close>

datatype 'a ber_fetched = BER_MORE | BER_FAIL | BER_GOT nat 'a

definition BER_TAG_CLASS :: "32 word \<Rightarrow> 32 word" where
  "BER_TAG_CLASS tag = and tag 0x3"

definition BER_TAG_VALUE :: "32 word \<Rightarrow> 32 word" where
  "BER_TAG_VALUE tag = drop_bit 2 tag"

definition BER_TLV_CONSTRUCTED :: "byte \<Rightarrow> bool" where
  "BER_TLV_CONSTRUCTED b \<longleftrightarrow> and b 0x20 \<noteq> 0"

text \<open>The loop over the octets of seven bits.\<close>

fun ber_tag_loop :: "32 word \<Rightarrow> 32 word \<Rightarrow> nat \<Rightarrow> byte list \<Rightarrow> 32 word ber_fetched" where
  "ber_tag_loop tclass v skipped [] = BER_MORE"
| "ber_tag_loop tclass v skipped (oct # buf) =
     (if and oct 0x80 \<noteq> 0 then
        (let v = or (push_bit 7 v) (ucast (and oct 0x7F))
         in if drop_bit 23 v \<noteq> 0 then BER_FAIL else ber_tag_loop tclass v (Suc skipped) buf)
      else BER_GOT skipped (or (push_bit 2 (or (push_bit 7 v) (ucast oct))) tclass))"

definition ber_fetch_tag :: "byte list \<Rightarrow> 32 word ber_fetched" where
  "ber_fetch_tag buf =
     (case buf of
        [] \<Rightarrow> BER_MORE
      | oct # rest \<Rightarrow>
          let v = ucast oct :: 32 word; tclass = drop_bit 6 v; v = and v 0x1F
          in if v \<noteq> 0x1F then BER_GOT 1 (or (push_bit 2 v) tclass)
             else ber_tag_loop tclass 0 2 rest)"

text \<open>The loop that computes the number of octets, with its final \<open>i\<close>.\<close>

function ber_tag_size :: "32 word \<Rightarrow> nat \<Rightarrow> nat \<Rightarrow> nat \<times> nat" where
  "ber_tag_size tval required_size i =
     (if i < 32 \<and> drop_bit i tval \<noteq> 0 then ber_tag_size tval (Suc required_size) (i + 7) else (required_size, i))"
  by pat_completeness auto

termination by (relation "measure (\<lambda>(t, r, i). 32 - i)") auto

declare ber_tag_size.simps [simp del]

definition ber_tlv_tag_serialize :: "32 word \<Rightarrow> nat \<Rightarrow> byte list \<times> nat" where
  "ber_tlv_tag_serialize tag bufsize =
     (let tclass = BER_TAG_CLASS tag; tval = BER_TAG_VALUE tag
      in if tval \<le> 30
         then (if bufsize \<noteq> 0 then [ucast (or (push_bit 6 tclass) tval)] else [], 1)
         else
           let (first, left) = (if bufsize \<noteq> 0 then ([ucast (or (push_bit 6 tclass) 0x1F)], bufsize - 1) else ([], bufsize));
               (required_size, i) = ber_tag_size tval 1 7
           in if left < required_size then (first, required_size + 1)
              else (first
                     @ map (\<lambda>k. or 0x80 (ucast (and (drop_bit (i - 7 - 7 * k) tval) 0x7F))) [0..<required_size - 1]
                     @ [ucast (and tval 0x7F)], required_size + 1))"

section \<open>Lengths\<close>

text \<open>\<open>SIZE_MAX\<close> of the C library, halved twice.\<close>

definition RSSIZE_MAX :: int where
  "RSSIZE_MAX = (2 ^ 64 - 1) div 2 div 2"

fun ber_length_loop :: "nat \<Rightarrow> int \<Rightarrow> nat \<Rightarrow> byte list \<Rightarrow> int ber_fetched" where
  "ber_length_loop 0 len skipped buf = (if len < 0 \<or> len > RSSIZE_MAX then BER_FAIL else BER_GOT skipped len)"
| "ber_length_loop (Suc oct) len skipped [] = BER_MORE"
| "ber_length_loop (Suc oct) len skipped (b # buf) =
     (if drop_bit 55 len = 0 then ber_length_loop oct (or (push_bit 8 len) (uint b)) (Suc skipped) buf else BER_FAIL)"

definition ber_fetch_length :: "bool \<Rightarrow> byte list \<Rightarrow> int ber_fetched" where
  "ber_fetch_length is_constructed buf =
     (case buf of
        [] \<Rightarrow> BER_MORE
      | oct # rest \<Rightarrow>
          if and oct 0x80 = 0 then BER_GOT 1 (uint oct)
          else if is_constructed \<and> oct = 0x80 then BER_GOT 1 (-1)
          else if oct = 0xff then BER_FAIL
          else ber_length_loop (unat (and oct 0x7F)) 0 1 rest)"

function der_length_size :: "int \<Rightarrow> nat \<Rightarrow> nat \<Rightarrow> nat \<times> nat" where
  "der_length_size len required_size i =
     (if i < 64 \<and> drop_bit i len \<noteq> 0 then der_length_size len (Suc required_size) (i + 8) else (required_size, i))"
  by pat_completeness auto

termination by (relation "measure (\<lambda>(t, r, i). 64 - i)") auto

declare der_length_size.simps [simp del]

definition der_tlv_length_serialize :: "int \<Rightarrow> nat \<Rightarrow> byte list \<times> nat" where
  "der_tlv_length_serialize len bufsize =
     (if len \<le> 127 then (if bufsize \<noteq> 0 then [word_of_int len] else [], 1)
      else
        let (required_size, i) = der_length_size len 1 8
        in if bufsize \<le> required_size then ([], required_size + 1)
           else (or 0x80 (of_nat required_size)
                  # map (\<lambda>k. word_of_int (drop_bit (i - 8 - 8 * k) len)) [0..<required_size], required_size + 1))"

section \<open>Skipping a value\<close>

lemma tag_loop_bounds:
  "ber_tag_loop tclass v skipped buf = BER_GOT n t \<Longrightarrow> skipped \<le> n \<and> n < skipped + length buf"
proof (induction buf arbitrary: v skipped)
  case (Cons oct buf)
  then show ?case by (fastforce simp: Let_def split: if_splits)
qed simp

lemma fetch_tag_bounds: "ber_fetch_tag buf = BER_GOT n t \<Longrightarrow> 1 \<le> n \<and> n \<le> length buf"
  by (auto simp: ber_fetch_tag_def Let_def split: list.splits if_splits dest!: tag_loop_bounds)

lemma length_loop_bounds:
  "ber_length_loop oct len skipped buf = BER_GOT n l
   \<Longrightarrow> skipped \<le> n \<and> n \<le> skipped + length buf \<and> 0 \<le> l \<and> l \<le> RSSIZE_MAX"
  by (induction oct len skipped buf rule: ber_length_loop.induct) (fastforce split: if_splits)+

lemma fetch_length_bounds:
  "ber_fetch_length c buf = BER_GOT n l \<Longrightarrow> 1 \<le> n \<and> n \<le> length buf \<and> -1 \<le> l \<and> l \<le> RSSIZE_MAX"
proof -
  have "-1 \<le> uint b \<and> uint b \<le> RSSIZE_MAX" for b :: byte
    using uint_lt2p [of b] order_trans [OF _ uint_ge_0 [of b], of "-1"] by (simp add: RSSIZE_MAX_def)
  then show "ber_fetch_length c buf = BER_GOT n l \<Longrightarrow> ?thesis"
    by (auto simp: ber_fetch_length_def RSSIZE_MAX_def split: list.splits if_splits dest!: length_loop_bounds)
qed

function ber_skip_length :: "bool \<Rightarrow> byte list \<Rightarrow> unit ber_fetched"
  and ber_skip_loop :: "nat \<Rightarrow> byte list \<Rightarrow> unit ber_fetched" where
  "ber_skip_length is_constructed buf =
     (case ber_fetch_length is_constructed buf of
        BER_MORE \<Rightarrow> BER_MORE
      | BER_FAIL \<Rightarrow> BER_FAIL
      | BER_GOT ll vlen \<Rightarrow>
          if vlen \<ge> 0
          then (let skip = ll + nat vlen in if skip > length buf then BER_MORE else BER_GOT skip ())
          else ber_skip_loop ll (drop ll buf))"
| "ber_skip_loop skip buf =
     (case ber_fetch_tag buf of
        BER_MORE \<Rightarrow> BER_MORE
      | BER_FAIL \<Rightarrow> BER_FAIL
      | BER_GOT tlen tag \<Rightarrow>
          (case ber_skip_length (BER_TLV_CONSTRUCTED (buf ! 0)) (drop tlen buf) of
             BER_MORE \<Rightarrow> BER_MORE
           | BER_FAIL \<Rightarrow> BER_FAIL
           | BER_GOT ll _ \<Rightarrow>
               if buf ! 0 = 0 \<and> buf ! 1 = 0 then BER_GOT (skip + (tlen + ll)) ()
               else ber_skip_loop (skip + (tlen + ll)) (drop (tlen + ll) buf)))"
  by pat_completeness auto

termination
  by (relation "measure (\<lambda>x. case x of Inl (c, buf) \<Rightarrow> length buf | Inr (s, buf) \<Rightarrow> length buf)")
    (auto dest!: fetch_length_bounds fetch_tag_bounds)

declare ber_skip_length.simps [simp del] ber_skip_loop.simps [simp del]

lemma skip_bounds:
  "ber_skip_length c buf = BER_GOT n u \<Longrightarrow> 1 \<le> n \<and> n \<le> length buf"
  "ber_skip_loop s buf = BER_GOT n u \<Longrightarrow> s + 2 \<le> n \<and> n \<le> s + length buf"
proof (induction c buf and s buf arbitrary: n and n rule: ber_skip_length_ber_skip_loop.induct)
  case (1 c buf)
  from "1.prems" show ?case
    by (subst (asm) ber_skip_length.simps)
      (fastforce simp: Let_def split: ber_fetched.splits if_splits dest: fetch_length_bounds "1.IH")
next
  case (2 s buf)
  from "2.prems" obtain tlen tag ll where
      tag: "ber_fetch_tag buf = BER_GOT tlen tag" and
      len: "ber_skip_length (BER_TLV_CONSTRUCTED (buf ! 0)) (drop tlen buf) = BER_GOT ll u" and
      res: "(if buf ! 0 = 0 \<and> buf ! 1 = 0 then BER_GOT (s + (tlen + ll)) ()
             else ber_skip_loop (s + (tlen + ll)) (drop (tlen + ll) buf)) = BER_GOT n u"
    by (subst (asm) ber_skip_loop.simps) (auto split: ber_fetched.splits)
  show ?case
    using fetch_tag_bounds [OF tag] "2.IH"(1) [OF tag len] "2.IH"(2) [OF tag len, of n] res by (auto split: if_splits)
qed

section \<open>What is read does not depend on what follows\<close>

lemma tag_loop_append:
  "ber_tag_loop tclass v skipped buf \<noteq> BER_MORE
   \<Longrightarrow> ber_tag_loop tclass v skipped (buf @ rest) = ber_tag_loop tclass v skipped buf"
  by (induction tclass v skipped buf rule: ber_tag_loop.induct) (auto simp: Let_def)

lemma fetch_tag_append: "ber_fetch_tag buf \<noteq> BER_MORE \<Longrightarrow> ber_fetch_tag (buf @ rest) = ber_fetch_tag buf"
  by (auto simp: ber_fetch_tag_def Let_def tag_loop_append split: list.splits)

lemma length_loop_append:
  "ber_length_loop oct len skipped buf \<noteq> BER_MORE
   \<Longrightarrow> ber_length_loop oct len skipped (buf @ rest) = ber_length_loop oct len skipped buf"
  by (induction oct len skipped buf rule: ber_length_loop.induct) auto

lemma fetch_length_append:
  "ber_fetch_length c buf \<noteq> BER_MORE \<Longrightarrow> ber_fetch_length c (buf @ rest) = ber_fetch_length c buf"
  by (auto simp: ber_fetch_length_def length_loop_append split: list.splits)

lemma skip_append:
  "ber_skip_length c buf \<noteq> BER_MORE \<Longrightarrow> ber_skip_length c (buf @ rest) = ber_skip_length c buf"
  "ber_skip_loop s buf \<noteq> BER_MORE \<Longrightarrow> ber_skip_loop s (buf @ rest) = ber_skip_loop s buf"
proof (induction c buf and s buf rule: ber_skip_length_ber_skip_loop.induct)
  case (1 c buf)
  show ?case
  proof (cases "ber_fetch_length c buf")
    case (BER_GOT ll vlen)
    with "1.prems" "1.IH" [OF BER_GOT] fetch_length_bounds [OF BER_GOT] fetch_length_append [of c buf rest] show ?thesis
      by (auto simp: ber_skip_length.simps [of c] Let_def split: if_splits)
  qed (use "1.prems" fetch_length_append [of c buf rest] in \<open>auto simp: ber_skip_length.simps [of c]\<close>)
next
  case (2 s buf)
  show ?case
  proof (cases "ber_fetch_tag buf")
    case (BER_GOT tlen tag)
    note tag = this
    show ?thesis
    proof (cases "ber_skip_length (BER_TLV_CONSTRUCTED (buf ! 0)) (drop tlen buf)")
      case (BER_GOT ll u)
      have "1 \<le> tlen" "1 \<le> ll" "tlen + ll \<le> length buf"
        using fetch_tag_bounds [OF tag] skip_bounds(1) [OF BER_GOT] by auto
      then show ?thesis
        using tag BER_GOT "2.prems" "2.IH"(1) [OF tag] "2.IH"(2) [OF tag BER_GOT] fetch_tag_append [of buf rest]
        by (auto simp: ber_skip_loop.simps [of s] nth_append split: if_splits)
    qed (use tag fetch_tag_bounds [OF tag] "2.prems" "2.IH"(1) [OF tag] fetch_tag_append [of buf rest] in
        \<open>auto simp: ber_skip_loop.simps [of s] nth_append\<close>)
  qed (use "2.prems" fetch_tag_append [of buf rest] in \<open>auto simp: ber_skip_loop.simps [of s]\<close>)
qed

section \<open>Round trips\<close>

lemma tag_size:
  "ber_tag_size tval r i0 = (required, i) \<Longrightarrow> i0 = 7 * r \<Longrightarrow> 0 < r \<Longrightarrow> r \<le> 5
   \<Longrightarrow> i = 7 * required \<and> 0 < required \<and> required \<le> 5 \<and> drop_bit i tval = 0"
proof (induction tval r i0 rule: ber_tag_size.induct)
  case (1 tval r i0)
  show ?case
  proof (cases "i0 < 32 \<and> drop_bit i0 tval \<noteq> 0")
    case True
    then show ?thesis using 1 by (auto simp: ber_tag_size.simps [of _ r] add.commute)
  next
    case False
    have "32 \<le> m \<Longrightarrow> drop_bit m (tval :: 32 word) = 0" for m
      by (rule bit_word_eqI) (auto simp: bit_simps dest: bit_imp_le_length)
    with False 1 show ?thesis by (auto simp: ber_tag_size.simps [of _ r])
  qed
qed

lemma bit_7F: "bit (0x7F :: int) n \<longleftrightarrow> n < 7"
  using bit_mask_iff [where 'a = int, of 7 n] by (simp add: mask_eq_exp_minus_1)

lemma bit_80: "bit (0x80 :: int) n \<longleftrightarrow> n = 7"
  using bit_exp_iff [where 'a = int, of 7 n] by auto

lemma octet_high_bit: "and b 0x80 = 0 \<longleftrightarrow> \<not> bit (b :: byte) 7"
proof -
  have "bit (and b 0x80) n \<longleftrightarrow> n = 7 \<and> bit b 7" for n
    by (auto simp: bit_simps bit_80)
  then show ?thesis by (metis bit_0_eq bot_apply bot_bool_def bit_word_eqI)
qed

lemma seven_bits: "or (push_bit 7 (drop_bit (7 + m) w)) (and (drop_bit m w) 0x7F) = drop_bit m (w :: 32 word)"
  by (rule bit_word_eqI) (auto simp: bit_simps bit_7F not_less add.commute add.left_commute dest: bit_imp_le_length)

lemma continuation_octet:
  "bit (or 0x80 (ucast (and v 0x7F)) :: byte) 7"
  "ucast (and (or 0x80 (ucast (and v 0x7F))) 0x7F :: byte) = and (v :: 32 word) 0x7F"
  by (auto simp: bit_simps bit_80) (rule bit_word_eqI, auto simp: bit_simps bit_80 bit_7F)

lemma last_octet:
  "\<not> bit (ucast (and v 0x7F) :: byte) 7"
  "ucast (ucast (and v 0x7F) :: byte) = and (v :: 32 word) 0x7F"
  by (auto simp: bit_simps bit_7F) (rule bit_word_eqI, auto simp: bit_simps bit_7F)

lemma tag_loop_octets:
  "drop_bit 30 tval = 0 \<Longrightarrow>
   ber_tag_loop tclass (drop_bit (7 * Suc k) tval) skipped
     (map (\<lambda>j. or 0x80 (ucast (and (drop_bit (7 * k - 7 * j) tval) 0x7F))) [0..<k] @ ucast (and tval 0x7F) # rest)
   = BER_GOT (skipped + k) (or (push_bit 2 tval) tclass)"
proof (induction k arbitrary: skipped)
  case 0
  then show ?case using seven_bits [of 0 tval] by (simp add: octet_high_bit last_octet)
next
  case (Suc k)
  have "drop_bit 23 (drop_bit (7 + 7 * k) tval) = drop_bit (7 * k) (drop_bit 30 tval)"
    by (simp add: ac_simps)
  with Suc.prems have fits: "drop_bit 23 (drop_bit (7 + 7 * k) tval) = 0"
    by simp
  show ?case
    using Suc.IH [OF Suc.prems, of "Suc skipped"] fits seven_bits [of "7 + 7 * k" tval]
    by (simp add: octet_high_bit continuation_octet Let_def map_upt_Suc del: upt_Suc)
qed

lemma bit_small: "v < 2 ^ k \<Longrightarrow> k < LENGTH('a) \<Longrightarrow> bit (v :: 'a :: len word) n \<longleftrightarrow> n < k \<and> bit v n"
  using less_mask_eq [of v k] by (auto simp: bit_eq_iff bit_simps dest: bit_imp_le_length)

lemma tag_split: "or (push_bit 2 (BER_TAG_VALUE tag)) (BER_TAG_CLASS tag) = tag"
proof (rule bit_word_eqI)
  fix n assume "n < LENGTH(32)"
  have "bit (3 :: int) n \<longleftrightarrow> n < 2"
    using bit_mask_iff [where 'a = int, of 2 n] by (simp add: mask_eq_exp_minus_1)
  then show "bit (or (push_bit 2 (BER_TAG_VALUE tag)) (BER_TAG_CLASS tag)) n = bit tag n"
    using \<open>n < LENGTH(32)\<close> by (cases "n < 2") (simp_all add: BER_TAG_VALUE_def BER_TAG_CLASS_def bit_simps flip: add_2_eq_Suc)
qed

lemma tag_class_small: "BER_TAG_CLASS tag < 2 ^ 2"
  using and_mask_less' [of 2 tag] by (simp add: BER_TAG_CLASS_def mask_eq_exp_minus_1)

text \<open>The octet that starts a tag: class in bits 6 and 7, number or 31 in the five lowest bits.\<close>

lemma first_octet:
  fixes tag v :: "32 word"
  assumes "v \<le> 0x1F"
  defines "oct \<equiv> ucast (ucast (or (push_bit 6 (BER_TAG_CLASS tag)) v) :: byte) :: 32 word"
  shows "drop_bit 6 oct = BER_TAG_CLASS tag" and "and oct 0x1F = v"
proof -
  have "v < 2 ^ 5"
    using assms(1) by (rule le_less_trans) simp
  then have v: "bit v n \<longleftrightarrow> n < 5 \<and> bit v n" for n
    by (rule bit_small) simp
  have c: "bit (BER_TAG_CLASS tag) n \<longleftrightarrow> n < 2 \<and> bit (BER_TAG_CLASS tag) n" for n
    by (rule bit_small [OF tag_class_small]) simp
  have m: "bit (0x1F :: int) n \<longleftrightarrow> n < 5" for n
    using bit_mask_iff [where 'a = int, of 5 n] by (simp add: mask_eq_exp_minus_1)
  show "drop_bit 6 oct = BER_TAG_CLASS tag"
  proof (rule bit_word_eqI)
    fix n
    show "bit (drop_bit 6 oct) n = bit (BER_TAG_CLASS tag) n"
      using v [of "6 + n"] c [of n] by (auto simp: oct_def bit_simps)
  qed
  show "and oct 0x1F = v"
  proof (rule bit_word_eqI)
    fix n
    show "bit (and oct 0x1F) n = bit v n"
      using v [of n] by (auto simp: oct_def bit_simps m)
  qed
qed

lemma tag_value_small: "drop_bit 30 (BER_TAG_VALUE tag) = 0"
  by (rule bit_word_eqI) (auto simp: BER_TAG_VALUE_def bit_simps dest: bit_imp_le_length)

lemma fetch_serialized_tag:
  assumes "ber_tlv_tag_serialize tag bufsize = (out, needed)" and "needed \<le> bufsize"
  shows "length out = needed \<and> ber_fetch_tag (out @ rest) = BER_GOT needed tag"
proof (cases "BER_TAG_VALUE tag \<le> 30")
  case True
  then have "BER_TAG_VALUE tag \<le> 0x1F" "BER_TAG_VALUE tag \<noteq> 0x1F"
    by (auto intro: order_trans)
  with True assms show ?thesis
    by (auto simp: ber_tlv_tag_serialize_def ber_fetch_tag_def Let_def first_octet tag_split)
next
  case False
  obtain required i where size: "ber_tag_size (BER_TAG_VALUE tag) 1 7 = (required, i)"
    by fastforce
  with tag_size [OF size] obtain k where k: "required = Suc k" "i = 7 * Suc k" "drop_bit (7 * Suc k) (BER_TAG_VALUE tag) = 0"
    by (auto simp: gr0_conv_Suc)
  show ?thesis
    using assms False size k tag_loop_octets [OF tag_value_small, of "BER_TAG_CLASS tag" k tag 2 rest]
    by (auto simp: ber_tlv_tag_serialize_def ber_fetch_tag_def Let_def first_octet tag_split split: if_splits)
qed

lemma serialize_tag_size: "snd (ber_tlv_tag_serialize tag bufsize) \<le> 6"
proof -
  obtain required i where size: "ber_tag_size (BER_TAG_VALUE tag) 1 7 = (required, i)"
    by fastforce
  with tag_size [OF size] show ?thesis
    by (auto simp: ber_tlv_tag_serialize_def Let_def)
qed

lemma length_size:
  "der_length_size len r i0 = (required, i) \<Longrightarrow> i0 = 8 * r \<Longrightarrow> 0 < r \<Longrightarrow> r \<le> 8 \<Longrightarrow> 0 \<le> len \<Longrightarrow> len < 2 ^ 63
   \<Longrightarrow> i = 8 * required \<and> 0 < required \<and> required \<le> 8 \<and> drop_bit i len = 0"
proof (induction len r i0 rule: der_length_size.induct)
  case (1 len r i0)
  show ?case
  proof (cases "i0 < 64 \<and> drop_bit i0 len \<noteq> 0")
    case True
    then show ?thesis using 1 by (auto simp: der_length_size.simps [of _ r] add.commute)
  next
    case False
    have "drop_bit 64 len = 0"
      using 1 by (simp add: drop_bit_eq_div)
    with False 1 show ?thesis by (auto simp: der_length_size.simps [of _ r])
  qed
qed

lemma eight_bits: "or (push_bit 8 (drop_bit (8 + m) l)) (take_bit 8 (drop_bit m l)) = drop_bit m (l :: int)"
  by (rule bit_eqI) (auto simp: bit_simps not_less add.commute add.left_commute)

lemma length_loop_octets:
  assumes "drop_bit 62 len = 0" and "0 \<le> len"
  shows "ber_length_loop k (drop_bit (8 * k) len) skipped
          (map (\<lambda>j. word_of_int (drop_bit (8 * k - 8 - 8 * j) len)) [0..<k] @ rest)
         = BER_GOT (skipped + k) len"
proof (induction k arbitrary: skipped)
  case 0
  have "len \<le> RSSIZE_MAX"
    using assms by (simp add: RSSIZE_MAX_def drop_bit_eq_div div_eq_0_iff)
  with assms show ?case by simp
next
  case (Suc k)
  have "drop_bit 55 (drop_bit (8 + 8 * k) len) = drop_bit (1 + 8 * k) (drop_bit 62 len)"
    by (simp add: ac_simps)
  then have "drop_bit 55 (drop_bit (8 + 8 * k) len) = 0"
    using assms by simp
  with Suc.IH [of "Suc skipped"] eight_bits [of "8 * k" len] show ?case
    by (simp add: map_upt_Suc uint_word_of_int take_bit_eq_mod del: upt_Suc)
qed

lemma long_form_octet:
  assumes "0 < k" and "k \<le> 8"
  shows "bit (or 0x80 (of_nat k) :: byte) 7" "or 0x80 (of_nat k) \<noteq> (0x80 :: byte)" "or 0x80 (of_nat k) \<noteq> (0xff :: byte)"
    "unat (and (or 0x80 (of_nat k)) 0x7F :: byte) = k"
proof -
  have "k \<in> {1, 2, 3, 4, 5, 6, 7, 8}" using assms by auto
  then show "bit (or 0x80 (of_nat k) :: byte) 7" "or 0x80 (of_nat k) \<noteq> (0x80 :: byte)" "or 0x80 (of_nat k) \<noteq> (0xff :: byte)"
    "unat (and (or 0x80 (of_nat k)) 0x7F :: byte) = k"
    by (auto simp: bit_simps bit_80)
qed

lemma fetch_serialized_length:
  assumes ser: "der_tlv_length_serialize len bufsize = (out, needed)" and "needed \<le> bufsize"
    and len: "0 \<le> len" "len \<le> RSSIZE_MAX"
  shows "length out = needed \<and> ber_fetch_length c (out @ rest) = BER_GOT needed len"
proof (cases "len \<le> 127")
  case True
  with len have "drop_bit 7 len = 0" by (simp add: drop_bit_eq_div)
  then have "\<not> bit len 7"
    by (metis bit_iff_odd_drop_bit dvd_0_right)
  then have "\<not> bit (word_of_int len :: byte) 7"
    by (simp add: bit_word_of_int_iff)
  with True assms show ?thesis
    by (auto simp: der_tlv_length_serialize_def ber_fetch_length_def octet_high_bit uint_word_of_int)
next
  case False
  obtain required i where size: "der_length_size len 1 8 = (required, i)"
    by fastforce
  have "len < 2 ^ 62" using len by (simp add: RSSIZE_MAX_def)
  with length_size [OF size] len have r: "i = 8 * required" "0 < required" "required \<le> 8" "drop_bit (8 * required) len = 0"
    by auto
  have "drop_bit 62 len = 0" using len \<open>len < 2 ^ 62\<close> by (simp add: drop_bit_eq_div)
  from length_loop_octets [OF this len(1), of required 1 rest] assms False size r long_form_octet [OF r(2, 3)]
  show ?thesis
    by (auto simp: der_tlv_length_serialize_def ber_fetch_length_def Let_def octet_high_bit split: if_splits)
qed

section \<open>Skipping what is serialised\<close>

text \<open>A value in the definite form, behind its serialised length.\<close>

lemma skip_serialized:
  assumes ser: "der_tlv_length_serialize (int (length contents)) bufsize = (out, needed)" and "needed \<le> bufsize"
    and small: "int (length contents) \<le> RSSIZE_MAX"
  shows "ber_skip_length c (out @ contents @ rest) = BER_GOT (length out + length contents) ()"
  using fetch_serialized_length [OF ser _ _ small, of c "contents @ rest"] assms(2)
  by (simp add: ber_skip_length.simps [of c] Let_def)

text \<open>
  The indefinite form: primitive values, each behind its tag and length, up to the two octets that are 0. Only the tag 0,
  which is reserved for them, starts with an octet that is 0.
\<close>

definition primitive_tlv :: "32 word \<Rightarrow> byte list \<Rightarrow> byte list" where
  "primitive_tlv tag contents =
     fst (ber_tlv_tag_serialize tag 6) @ fst (der_tlv_length_serialize (int (length contents)) 9) @ contents"

lemma fetch_tag_zero:
  assumes "ber_fetch_tag (0 # buf) = BER_GOT n tag"
  shows "tag = 0"
  using assms by (simp add: ber_fetch_tag_def Let_def)

lemma serialize_length_size: "0 \<le> len \<Longrightarrow> len \<le> RSSIZE_MAX \<Longrightarrow> snd (der_tlv_length_serialize len bufsize) \<le> 9"
proof -
  assume len: "0 \<le> len" "len \<le> RSSIZE_MAX"
  obtain required i where size: "der_length_size len 1 8 = (required, i)"
    by fastforce
  have "len < 2 ^ 63" using len by (simp add: RSSIZE_MAX_def)
  with length_size [OF size] len size show ?thesis
    by (auto simp: der_tlv_length_serialize_def Let_def)
qed

lemma skip_loop_primitive:
  assumes "tag \<noteq> 0" and small: "int (length contents) \<le> RSSIZE_MAX"
  shows "ber_skip_loop s (primitive_tlv tag contents @ rest) = ber_skip_loop (s + length (primitive_tlv tag contents)) rest"
proof -
  obtain t tn l ln where
      t: "ber_tlv_tag_serialize tag 6 = (t, tn)" and l: "der_tlv_length_serialize (int (length contents)) 9 = (l, ln)"
    by fastforce
  note tag = fetch_serialized_tag [OF t serialize_tag_size [of tag 6, unfolded t snd_conv], of "l @ contents @ rest"]
  note len = skip_serialized [OF l serialize_length_size [of _ 9, OF _ small, unfolded l snd_conv] small, of _ rest]
  have "t \<noteq> []" using tag fetch_tag_bounds by fastforce
  then obtain oct t' where oct: "t = oct # t'" by (cases t) auto
  have "oct \<noteq> 0" using fetch_tag_zero [of "t' @ l @ contents @ rest"] tag \<open>tag \<noteq> 0\<close> by (auto simp: oct)
  then show ?thesis
    using tag len by (subst ber_skip_loop.simps) (simp add: primitive_tlv_def t l, simp add: oct add.assoc)
qed

lemma skip_end_of_contents: "ber_skip_loop s (0 # 0 # rest) = BER_GOT (s + 2) ()"
  by (subst ber_skip_loop.simps)
    (simp add: ber_fetch_tag_def ber_skip_length.simps ber_fetch_length_def BER_TLV_CONSTRUCTED_def)

lemma skip_indefinite:
  assumes "\<forall>(tag, contents) \<in> set tlvs. tag \<noteq> 0 \<and> int (length contents) \<le> RSSIZE_MAX"
  shows "ber_skip_length True (0x80 # concat (map (\<lambda>(tag, contents). primitive_tlv tag contents) tlvs) @ 0 # 0 # rest)
    = BER_GOT (length (concat (map (\<lambda>(tag, contents). primitive_tlv tag contents) tlvs)) + 3) ()"
proof -
  have "ber_skip_loop s (concat (map (\<lambda>(tag, contents). primitive_tlv tag contents) tlvs) @ 0 # 0 # rest)
    = BER_GOT (s + length (concat (map (\<lambda>(tag, contents). primitive_tlv tag contents) tlvs)) + 2) ()" for s
    using assms
    by (induction tlvs arbitrary: s) (auto simp: skip_end_of_contents skip_loop_primitive add.assoc)
  then show ?thesis
    by (simp add: ber_skip_length.simps [of True] ber_fetch_length_def)
qed

text \<open>
  C36. Every BER tag of 32 bits, and every length that the runtime allows, is read back from
  what was serialised for it, which takes at most 6 and 9 octets; a value behind its serialised
  length is skipped with exactly its octets, whatever follows.
\<close>

theorem tlv_roundtrip:
  assumes t: "ber_tlv_tag_serialize tag tsize = (t, tn)" and "tn \<le> tsize"
    and l: "der_tlv_length_serialize (int (length contents)) lsize = (l, ln)" and "ln \<le> lsize"
    and small: "int (length contents) \<le> RSSIZE_MAX"
  shows "length t = tn \<and> tn \<le> 6 \<and> length l = ln \<and> ln \<le> 9
    \<and> ber_fetch_tag (t @ l @ contents @ rest) = BER_GOT tn tag
    \<and> ber_fetch_length c (l @ contents @ rest) = BER_GOT ln (int (length contents))
    \<and> ber_skip_length c (l @ contents @ rest) = BER_GOT (ln + length contents) ()"
  using fetch_serialized_tag [OF t \<open>tn \<le> tsize\<close>] fetch_serialized_length [OF l \<open>ln \<le> lsize\<close> _ small]
    skip_serialized [OF l \<open>ln \<le> lsize\<close> small] serialize_tag_size [of tag tsize] serialize_length_size [OF _ small, of lsize] t l
  by simp

theorem tlv_roundtrip_witness:
  "ber_tlv_tag_serialize 0xFFFFFFFF 6 = ([0xDF, 0x83, 0xFF, 0xFF, 0xFF, 0x7F], 6)
   \<and> ber_fetch_tag ([0xDF, 0x83, 0xFF, 0xFF, 0xFF, 0x7F] @ [0x81, 200] @ replicate 200 0 @ [1]) = BER_GOT 6 0xFFFFFFFF
   \<and> ber_skip_length True ([0x81, 200] @ replicate 200 0 @ [1]) = BER_GOT 202 ()"
proof -
  have t: "ber_tlv_tag_serialize 0xFFFFFFFF 6 = ([0xDF, 0x83, 0xFF, 0xFF, 0xFF, 0x7F], 6)"
    by code_simp
  have l: "der_tlv_length_serialize (int (length (replicate 200 (0 :: byte)))) 2 = ([0x81, 200], 2)"
    by code_simp
  from tlv_roundtrip [OF t _ l, of "[1]" True] t show ?thesis
    by (simp add: RSSIZE_MAX_def)
qed

end
