(* ===== verification/Spec2Isabelle.thy ===== *)
theory Spec2Isabelle
  imports Codec_Properties Validation Ber_Tlv
begin

text \<open>
  Mitvane is an intrusion detection and prevention system for vehicular networks. It receives
  GeoNetworking packets on one network interface, compares them with rules from a file, logs the rules
  that match, and forwards the packet to a second interface unless a matching rule says \<open>drop\<close>. Packets
  with a BTP header also go to a parser for the message they carry (CAM, DENM, SPATEM, MAPEM), which
  decodes it with the unaligned packed encoding rules (UPER, ITU-T X.691). The repository also has a proxy
  between a Cohda radio and UDP.

  \<^bold>\<open>Parts and theories.\<close>

  The UPER runtime, \<open>vanetza-extension/asn1/support\<close>, a C library driven by tables:

  \<^item> \<open>Prelude\<close>: octets, bits, numbers as bits; shared lemmas and the collections of facts.
  \<^item> \<open>Bit_Data\<close>, \<open>Bit_Read\<close>, \<open>Bit_Write\<close>: \<open>asn_bit_data.c\<close>. A stream is a record with the fields of the C
    structure over a list of octets; an access outside of the octets sets a flag. Lemmas: reading and
    writing at any bit offset are taking from and appending to a list of bits.
  \<^item> \<open>Per_Support\<close>: \<open>per_support.c\<close>, length determinants and whole numbers with their wrap-around.
  \<^item> \<open>Asn_Types\<close>: the type descriptors (\<open>constr_TYPE.h\<close> and the \<open>*_specifics_t\<close>), the values they describe, and
    what a codec has to satisfy: \<open>safe_decoder\<close>, \<open>encodes\<close>, \<open>decodes\<close>.
  \<^item> \<open>Per_Codec\<close>, \<open>Fragments\<close>: \<open>per_encoder.c\<close>, \<open>per_decoder.c\<close>, \<open>per_opentype.c\<close>, and the loop over fragments.
  \<^item> \<open>Integer\<close>, \<open>Native_Types\<close>, \<open>Octet_String\<close>, \<open>Bit_String\<close>: the codecs of the simple types.
  \<^item> \<open>Sequence\<close>, \<open>Choice\<close>, \<open>Set_Of\<close>: the codecs of the constructed types. The locale \<open>uper_members\<close> is the
    contract between a constructed type and the codecs of its members; the lemmas on constructed types
    are proved in it once.
  \<^item> \<open>Uper\<close>: the operation tables and the recursion through them, \<open>OPEN_TYPE.c\<close>, the specification of the
    encoding (\<open>uper_wire\<close>) and of the values that can be encoded (\<open>uper_ok\<close>), and the interpretation of
    \<open>uper_members\<close> for the codec.
  \<^item> \<open>Its_Cam\<close>, \<open>Its_Denm\<close>, \<open>Its_Spatem\<close>, \<open>Its_Mapem\<close>: the generated descriptors of the four messages (\<open>asn1/its\<close>).
  \<^item> \<open>Asn1c_Wrapper\<close>: \<open>asn1c_wrapper.cpp\<close>, by which the C++ side calls the runtime.
  \<^item> \<open>Ber_Tlv\<close>: \<open>ber_tlv_tag.c\<close> and \<open>ber_tlv_length.c\<close>, the tags and lengths of BER, on which \<open>copy\<close> of the wrapper rests,
    and the skipping of a value. Its property is at its end.
  \<^item> \<open>Decoded_Values\<close>: what the decoder returns on arbitrary octets is a value of the described type.
  \<^item> \<open>Constraints\<close>: the check of a structure against the constraints of its type (\<open>constraints.c\<close> and the
    \<open>*_constraint\<close> functions of the runtime), which \<open>validate\<close> calls. The locale \<open>sequence_check\<close> is what a check of a
    SEQUENCE has to promise so that encodable values pass; it is interpreted for the code and for the reference
    that looks at all members. \<open>Utf8\<close>: what \<open>UTF8String.c\<close> accepts.
  \<^item> \<open>Its_Constraints\<close>, \<open>Its_Checks\<close>: the generated checks of the four messages, and the lemmas that encodable values
    pass them.

  The system, \<open>mitvane\<close> and \<open>vanetza-extension/facilities\<close>:

  \<^item> \<open>Ids_Rules\<close>: the rules and their reader (\<open>rule_reader\<close>), on an interface to the YAML library.
  \<^item> \<open>Ids_Detector\<close>: the detector (\<open>detector\<close>) and the message handler (\<open>message_handler\<close>).
  \<^item> \<open>Ids_Decoder\<close>: the decoders of GeoNetworking and BTP (\<open>decoder\<close>), with the lifetime of the payload.
  \<^item> \<open>Ids_Context\<close>: \<open>classifier.cpp\<close> and \<open>idps_context.cpp\<close>. \<open>run\<close> is what happens to one packet; \<open>idps_step\<close> and
    \<open>idps_reach\<close> are the executions. The locale \<open>rule_provider\<close> is what the system relies on about the
    rules; it is interpreted for the rule reader.
  \<^item> \<open>Facilities\<close>: conversions, permissions and printing of messages.
  \<^item> \<open>App_Parsers\<close>: \<open>packet_visitor.hpp\<close> and the four parsers (\<open>app_layer_parser\<close>).
  \<^item> \<open>Link_Layer\<close>: \<open>raw_socket_link.cpp\<close>, \<open>cohda.cpp\<close>, \<open>cohda_link.cpp\<close>. The locale \<open>frame_handler\<close> is the contract
    of a link with the object behind its callback.
  \<^item> \<open>Positioning\<close>: \<open>positioning.cpp\<close> and \<open>gps_position_provider.cpp\<close>.
  \<^item> \<open>Mitvane_Main\<close>: \<open>main.cpp\<close> and \<open>link_layer.cpp\<close>: start-up and the event loop, with the interpretation of
    \<open>frame_handler\<close> for the system.
  \<^item> \<open>Cohda_Proxy\<close>: \<open>cohda_proxy/proxy_handler.cpp\<close>, with its executions as a step relation.

  \<open>Examples\<close> has concrete rules, packets and messages. The properties of the runtime are in
  \<open>Codec_Properties\<close> and \<open>Validation\<close>, those of the proxy, the link layers and the facilities at the end of their theories,
  and those of the system here.

  \<^bold>\<open>What is shown.\<close> Everything the encoder accepts comes back from the decoder, the encoding is that of the
  standard, and the decoder, on arbitrary octets, stays inside its buffer and returns values of the described
  type. The generated checks agree with the bounds of the codec. With rules from the reader a
  packet is judged as the rules say, in every state the program can get into; no exception ends it, and
  nothing is dropped without a line in the log. Messages reach the output of their parser unchanged. The
  proxy never uses a buffer for two operations and sends the frames it was given, in order. Where the
  code does not do what it should, the theorem says what it does: a port without parser, missing rules,
  regional extensions, receive errors, \<open>validate\<close>, which checks the header of a message only, and lists longer than
  their type allows.

  \<^bold>\<open>Conventions.\<close> Definitions have the names of the C and C++ functions; helpers that stand for a part of a
  function say so. Errors are values: \<open>-1\<close> and result codes as in C, \<open>None\<close> for an exception or a failed
  assertion, \<open>Inl Undefined_Behaviour\<close> where C++ leaves the behaviour undefined. Variables that are read
  without having been assigned are arguments (\<open>junk\<close>). Output to the console is a list of lines where the
  program is about it (parsers, log), and left out elsewhere. Vanetza, the YAML library, libgps, Boost.Asio
  and the SDK of the radio are not part of the repository; what the code uses of them are fields of records
  that are arguments of the definitions.

  \<^bold>\<open>Bounds and fuel.\<close> Widths of integers are those of the code (\<open>long\<close> and \<open>size_t\<close> have 64 bits) wherever a
  computation could leave them. The recursion of the codec over a descriptor has fuel; the depth of the
  descriptor is enough (\<open>decode_op_fuel\<close>, \<open>encode_op_fuel\<close>), and \<open>uper_decoder_of\<close>, \<open>uper_encoder_of\<close> use it. The
  loop over fragments has fuel; the number of bits left is enough (\<open>get_blocks_fuel\<close>). All other functions
  end without fuel. Event loops are lists of events or step relations.

  \<^bold>\<open>Not modelled.\<close>

  \<^item> BER and DER beyond tags and lengths, XER and OER, and the codecs of SET, REAL and of times: no message of the program uses them.
    Comparison, printing and random filling of the runtime, and \<open>copy\<close> of the wrapper, which goes through DER:
    the program does not call them. The text of the message that a failed check reports.
    \<open>uper_open_type_get_complex\<close> and aligned PER are compiled out.
  \<^item> The descriptors of other messages (CPM and others), of \<open>asn1/security\<close> and \<open>asn1/pki\<close>: no code refers to them.
  \<^item> Failures of memory allocation, and the partly filled structure that a failed decode leaves behind.
  \<^item> Sockets, devices, signals, the command line parser and the configuration of the log.
  \<^item> Rounding of floating-point numbers: they are real numbers, NaN is \<open>None\<close>.
  \<^item> Recursive types: no message has one, so that the checks of a descriptor are a finite tree (\<open>asn_check\<close>).
\<close>







text \<open>
  C9. With rules from the rule reader no packet, in no reachable state, makes the detector raise
  an exception (a pattern of an unexpected type).
\<close>

theorem rules_never_raise:
  assumes "read Y ruleset [] = Some (st, ss)" "idps_reach V A C0 ss s"
  shows "run V A C j packet hdr s \<noteq> Inr None"
  by (rule reader.run_no_exception [of "(Y, ruleset)" ss, OF _ assms(2)]) (simp add: assms(1))

theorem rules_never_raise_witness:
  "run vanetza_example cam_app config_example (junk_example HR_Allow) (packet_example 5 1 []) eth_example ids_example \<noteq> Inr None"
  by (rule rules_never_raise [OF read_example ids_example_reach])





text \<open>
  C11. In every state the system can reach by enabling and disabling parsers and by receiving
  packets, the rules are those it was started with, no parser is registered for port 0, and
  every registered parser is registered for its own port.
\<close>

theorem context_invariant:
  assumes "idps_reach V A C ss s"
  shows "ctx_signatures s = ss \<and> m_app_layer_parsers s 0 = None
    \<and> (\<forall>p a. m_app_layer_parsers s p = Some (Some a) \<longrightarrow> app_port A a = p)"
  using reach_inv [OF assms] by (auto simp: idps_inv_def)

theorem context_invariant_witness:
  "ctx_signatures ids_example = [(GeoNetworking, sigs_example)] \<and> m_app_layer_parsers ids_example 0 = None
    \<and> app_port cam_app (CamApplicationParser 2001) = 2001"
  using context_invariant [OF ids_example_reach] by (auto simp: ids_example_fields)








text \<open>
  C14. The message handler drops the packet if and only if some reported rule has another action
  than alert, wherever it stands in the report, and writes one line per reported rule.
\<close>

theorem handle_decision:
  "handle sigs = (if \<exists>s\<in>set sigs. action s \<noteq> Alert then HR_Drop else HR_Allow, map log_line sigs)"
  by (rule handle_spec)


text \<open>
  C15. The rule reader keeps the rules well typed: each stored rule has a supported action,
  stands under its protocol, has each keyword at most once, and each keyword with a value of the
  type the detector expects.
\<close>

theorem rules_are_well_typed:
  assumes "read Y ruleset ss = Some (st, ss')" "signatures_wt ss"
  shows "signatures_wt ss'"
  by (rule read_success_wt [OF assms])

theorem rules_are_well_typed_witness: "signatures_wt [(GeoNetworking, sigs_example)]"
  by (rule rules_are_well_typed [OF read_example]) (simp add: signatures_wt_def)


text \<open>
  C16. When the reader ends with an error, it has stored exactly the rules before the first rule
  that cannot be read, and the status is that of this rule.
\<close>

theorem rejected_rule_ends_reading:
  assumes "read_rules Y rules is ss = Some (st, ss')" "st \<noteq> RR_Success" "signatures_wt ss"
  shows "\<exists>k < length is. read_rules Y rules (take k is) ss = Some (RR_Success, ss')
    \<and> (\<exists>rule. at_index Y rules (is ! k) = Some rule \<and> read_rule Y rule ss' = Some (st, ss'))"
  by (rule read_prefix [OF assms])

theorem rejected_rule_ends_reading_witness:
  "\<exists>k < 3. read_rules yaml_tree broken_rules (take k [0, 1, 2]) [] = Some (RR_Success, [(GeoNetworking, [signature_example Drop 2 []])])"
  using rejected_rule_ends_reading [OF read_broken] by (auto simp: signatures_wt_def numeral_3_eq_3)


text \<open>
  Two rules with the same line in the log have the same sid and the same revision, whatever
  their messages contain.
\<close>

theorem log_identifies_rule:
  assumes "format_log s = format_log t"
  shows "meta_sid (meta s) = meta_sid (meta t) \<and> meta_rev (meta s) = meta_rev (meta t)"
  using format_log_sid [OF assms] by simp

theorem log_identifies_rule_witness: "meta_sid (meta (signature_example Drop 2 [])) = meta_sid (meta (signature_example Drop 2 [(''mhl'', P_int 1)]))"
  using log_identifies_rule [of "signature_example Drop 2 []" "signature_example Drop 2 [(''mhl'', P_int 1)]"]
  by (simp add: signature_example_def format_log_def)


text \<open>
  C38. A packet for a BTP port without a registered parser makes the system call a member
  function on a null pointer, whatever the rules are.
\<close>

theorem unregistered_port_is_undefined:
  assumes "run_relevant C hdr"
    and "GeonetDecoder_decode V (Some (CohesivePacket packet)) (eth_source hdr) (eth_destination hdr) (new_context j) = Inr dc"
    and "btp_data dc = Some btp" "m_app_layer_parsers s (destination_port btp) \<in> {None, Some None}"
  shows "run V A C j packet hdr s = Inl Undefined_Behaviour"
  using assms by (auto simp: run_def run_relevant_def run_parser_def classify_def)

theorem unregistered_port_is_undefined_witness:
  "run vanetza_example cam_app config_example (junk_example HR_Allow) (packet_example 5 1 []) eth_example
     (idps_init [(GeoNetworking, sigs_example)]) = Inl Undefined_Behaviour"
  by (rule unregistered_port_is_undefined [OF example_relevant dc_example_eth dc_example_fields(1)]) (simp add: idps_init_def)


text \<open>
  C39. Without rules for GeoNetworking the decision whether a packet is forwarded is the content
  of a variable that was never assigned.
\<close>

theorem no_rules_forwarding_is_indeterminate:
  assumes "run_relevant C hdr" "map_of (ctx_signatures s) GeoNetworking = None"
    and "GeonetDecoder_decode V (Some (CohesivePacket packet)) (eth_source hdr) (eth_destination hdr) (new_context j) = Inr dc"
    and "run_parser A dc s = Inr s1" "junk_result j = Not_Detected"
  shows "run V A C j packet hdr s = Inr (Some (s1\<lparr>forwarded := forwarded s @ (if junk_report j = HR_Drop then [] else [packet])\<rparr>))"
  by (rule run_indeterminate [OF assms])

theorem no_rules_forwarding_is_indeterminate_witness:
  "map_sum id (map_option forwarded) (run vanetza_example cam_app config_example (junk_example HR_Allow) (packet_example 5 1 []) eth_example no_rules_example)
     = Inr (Some [packet_example 5 1 []])
   \<and> map_sum id (map_option forwarded) (run vanetza_example cam_app config_example (junk_example HR_Drop) (packet_example 5 1 []) eth_example no_rules_example)
     = Inr (Some [])"
proof -
  have m: "map_of (ctx_signatures no_rules_example) GeoNetworking = None" "forwarded no_rules_example = []"
    by (simp_all add: no_rules_example_def enable_def set_application_layer_parser_def idps_init_def)
  show ?thesis
    using no_rules_forwarding_is_indeterminate [OF example_relevant m(1) dc_example_eth [of 5 "[]" HR_Allow] no_rules_parser]
      no_rules_forwarding_is_indeterminate [OF example_relevant m(1) dc_example_eth [of 5 "[]" HR_Drop] no_rules_parser] m(2)
    by (simp add: junk_example_def)
qed


text \<open>
  A rule with the pattern destination_area never matches a packet.
\<close>

theorem destination_area_never_matches:
  assumes "signature_wt sig" "''destination_area'' \<in> fst ` set (patterns sig)"
  shows "detect_signature T w f d sig = Some False"
proof -
  obtain p where p: "(''destination_area'', p) \<in> set (patterns sig)" using assms(2) by auto
  then have "pattern_wt ''destination_area'' p" using assms(1) by (auto simp: signature_wt_def list_all_iff)
  then have "\<not> pattern_holds T w f d (''destination_area'', p)" by (auto simp: pattern_wt_def pattern_holds_def split: pattern_type.splits)
  then have "\<not> rule_holds T w f d sig" using p by (auto simp: rule_holds_def list_all_iff)
  then show ?thesis by (simp add: detect_signature_spec [OF assms(1)])
qed

theorem destination_area_never_matches_witness:
  "detect_signature (header_type_codes config_example) (is_within config_example) 0 (geonet_data (dc_example 5 1 []))
     (signature_example Drop 9 [(''destination_area'', P_destination_area 1 2)]) = Some False"
  by (rule destination_area_never_matches) (simp_all add: signature_example_def signature_wt_def pattern_wt_def geonet_keywords_def)


text \<open>
  Reading the patterns of a rule for the protocol facility leaves the rule without any
  pattern, although allowed_ids is given.
\<close>

theorem facility_patterns_never_read:
  assumes "read_facility_pattern Y rule sig = Some r"
  shows "r = Inr sig"
  by (rule read_facility_pattern_none [OF assms])

theorem facility_patterns_never_read_witness:
  "read_facility_pattern yaml_tree (Y_Map [(''allowed_ids'', Y_Seq [Y_Scalar ''7''])]) (signature_example Drop 9 [])
     = Some (Inr (signature_example Drop 9 []))"
proof -
  obtain r where r: "read_facility_pattern yaml_tree (Y_Map [(''allowed_ids'', Y_Seq [Y_Scalar ''7''])]) (signature_example Drop 9 []) = Some r"
    by (simp add: read_facility_pattern_def geonet_keywords_def yaml_tree_def)
  then show ?thesis using facility_patterns_never_read [OF r] by simp
qed


text \<open>
  C7. Started with any command line and any rule file that can be loaded, and whatever frames
  and errors the source link delivers, with whatever position at each time, the program never
  ends with an exception of the detector, and every state it gets into is one of the reachable
  states of the system, for which the other properties hold.
\<close>

theorem program_never_raises:
  assumes "mitvane_setup B P K Q Y ruleset now vm = Some (hdr, positioning, l)" "read Y ruleset [] = Some (st, ss)"
  shows "mitvane_run V P Q C hdr events l \<noteq> Inr None
    \<and> (\<forall>l'. mitvane_run V P Q C hdr events l = Inr (Some l') \<longrightarrow> idps_reach V (parsers_app Q) C ss (callback_state l'))"
  using mitvane_run_no_exception [OF assms(2) setup_reach [OF assms]] mitvane_run_reach [OF assms(2) setup_reach [OF assms]] by blast

theorem program_never_raises_witness:
  "\<exists>hdr positioning l. setup_example = Some (hdr, positioning, l)
     \<and> mitvane_run vanetza_example layers_example api_example config_example hdr
         [(False, [7, 9], 0, junk_example HR_Allow), (True, [], 0, junk_example HR_Allow)] l \<noteq> Inr None"
proof -
  obtain hdr positioning l where s: "setup_example = Some (hdr, positioning, l)" using setup_example by blast
  show ?thesis using s program_never_raises [OF s read_example] by blast
qed





text \<open>
  The option print-rx-cam has no effect on the program.
\<close>

theorem print_rx_cam_has_no_effect:
  "mitvane_setup B P K Q Y ruleset now (vm\<lparr>print_rx_cam := b\<rparr>) = mitvane_setup B P K Q Y ruleset now vm"
proof -
  have f: "link_layer (vm\<lparr>print_rx_cam := b\<rparr>) = link_layer vm" "gn_version (vm\<lparr>print_rx_cam := b\<rparr>) = gn_version vm"
    "opt_app_parsers (vm\<lparr>print_rx_cam := b\<rparr>) = opt_app_parsers vm" "opt_positioning (vm\<lparr>print_rx_cam := b\<rparr>) = opt_positioning vm"
    "opt_latitude (vm\<lparr>print_rx_cam := b\<rparr>) = opt_latitude vm" "opt_longitude (vm\<lparr>print_rx_cam := b\<rparr>) = opt_longitude vm"
    "pos_confidence (vm\<lparr>print_rx_cam := b\<rparr>) = pos_confidence vm" by simp_all
  show ?thesis unfolding mitvane_setup_def print_rx_cam_unused f by (rule refl)
qed




text \<open>
  C20. A DENM that was decoded, from whatever octets, is printed without the content of a
  variable that was never assigned: its two times always fit into a long.
\<close>

theorem denm_print_is_defined:
  assumes "decode_per asn_DEF_DENM octets = Some (Some m)"
  shows "print_indented_denm junk indent level m = print_indented_denm junk' indent level m"
  using print_denm_defined [OF assms] by metis

theorem denm_print_is_defined_witness:
  "print_indented_denm (1, 2) ''  '' 1 denm_example = print_indented_denm (3, 4) ''  '' 1 denm_example"
  by (rule denm_print_is_defined [OF denm_decodes])


text \<open>
  C21. At any time the position of the GPS provider has a confidence ellipse whose semi-minor
  axis is not longer than its semi-major axis, if that holds for the initial position and for a
  new PositionConfidence.
\<close>

theorem gps_confidence_is_ellipse:
  assumes "provider_reach G p0 p" "semi_minor (no_confidence G) \<le> semi_major (no_confidence G)"
    and "semi_minor (fix_confidence (fetched_position_fix p0)) \<le> semi_major (fix_confidence (fetched_position_fix p0))"
  shows "semi_minor (fix_confidence (fetched_position_fix p)) \<le> semi_major (fix_confidence (fetched_position_fix p))"
  using provider_reach_inv [OF assms(1)] assms(2,3) by (simp add: ellipse_wf_def)

theorem gps_confidence_is_ellipse_witness:
  "provider_reach gps_example provider_example provider_fetched
   \<and> semi_minor (fix_confidence (fetched_position_fix provider_fetched)) \<le> semi_major (fix_confidence (fetched_position_fix provider_fetched))"
proof (rule conjI [OF provider_fetched_reach])
  show "semi_minor (fix_confidence (fetched_position_fix provider_fetched)) \<le> semi_major (fix_confidence (fetched_position_fix provider_fetched))"
    by (rule gps_confidence_is_ellipse [OF provider_fetched_reach]) (simp_all add: gps_example_def provider_example_def fix_example_def)
qed

end
